(* ===== verification/Prelude.thy ===== *)
theory Prelude
  imports Main "HOL-Library.AList" "HOL-Library.Char_ord" "HOL-Library.List_Lexorder"
    "HOL-Library.Word"
begin

text \<open>
  What every component of the model shares: the types the Rust code builds on, the arithmetic of
  its fixed-width integers, its \<open>Result\<close> values, and the three containers it uses
  (\<open>HashMap\<close>, \<open>BTreeSet\<close>, \<open>Vec\<close>).

  Conventions.
  \<^item> A \<open>u8\<close> buffer and a \<open>&str\<close> are both a \<^typ>\<open>string\<close>: a \<^typ>\<open>char\<close> of Isabelle is
    exactly one byte, and a Rust string is the list of its UTF-8 bytes.
  \<^item> \<open>Result<A, E>\<close> is \<open>'e + 'a\<close>, with \<open>Inl\<close> for \<open>Err\<close>.
  \<^item> \<open>u64\<close>, \<open>u32\<close> and \<open>usize\<close> counters and time stamps are \<^typ>\<open>nat\<close> with the wrap-around or the
    saturation of each operation written out (\<open>wrap64\<close>, \<open>sat64\<close>); the two hash computations of
    the code, whose wrapping is the point, use \<open>word\<close>.
  \<^item> A \<open>HashMap\<close> is an association list with distinct keys. The order of the list stands for the
    iteration order, which Rust leaves open: a property that does not fix the order holds for
    every one.
  \<^item> A \<open>BTreeSet\<close> is a sorted list without duplicates.
\<close>

named_theorems model_simps \<open>characteristic equations that unfold small model operations\<close>
named_theorems inv_intros \<open>preservation facts of the components' invariants\<close>

type_synonym bytes = string
type_synonym ipv4 = "32 word"

text \<open>The events of a Reticulum link, as the tasks of the VPN and of the ATAK plugin receive them.\<close>

datatype link_event = EvActivated | EvClosed | EvData bytes | EvProof bytes

text \<open>The states of a Reticulum link.\<close>

datatype link_status = LPending | LHandshake | LActive | LStale | LClosed

section \<open>Fixed-width integers\<close>

definition u64_max :: nat where
  "u64_max = 18446744073709551615"

definition wrap64 :: "nat \<Rightarrow> nat" where
  "wrap64 n = n mod 18446744073709551616"

definition sat64 :: "nat \<Rightarrow> nat" where
  "sat64 n = min n u64_max"

definition wrap32 :: "nat \<Rightarrow> nat" where
  "wrap32 n = n mod 4294967296"

lemma wrap64_id [simp]: "n \<le> u64_max \<Longrightarrow> wrap64 n = n"
  by (simp add: wrap64_def u64_max_def)

lemma wrap64_le [simp]: "wrap64 n \<le> u64_max"
proof -
  have "n mod 18446744073709551616 < 18446744073709551616" by simp
  then show ?thesis unfolding wrap64_def u64_max_def by linarith
qed

lemma sat64_le [simp]: "sat64 n \<le> u64_max"
  by (simp add: sat64_def)

lemma sat64_id [simp]: "n \<le> u64_max \<Longrightarrow> sat64 n = n"
  by (simp add: sat64_def)

lemma sat64_mono: "a \<le> b \<Longrightarrow> sat64 a \<le> sat64 b"
  by (simp add: sat64_def min_def)

section \<open>Results\<close>

fun collect_results :: "('e + 'a) list \<Rightarrow> 'e + 'a list" where
  "collect_results [] = Inr []"
| "collect_results (Inl e # xs) = Inl e"
| "collect_results (Inr x # xs) =
     (case collect_results xs of Inl e \<Rightarrow> Inl e | Inr ys \<Rightarrow> Inr (x # ys))"

lemma collect_results_Inr [simp]: "collect_results (map Inr xs) = Inr xs"
  by (induction xs) auto

lemma collect_results_map_Inr:
  "(\<And>x. x \<in> set xs \<Longrightarrow> f x = Inr (g x)) \<Longrightarrow> collect_results (map f xs) = Inr (map g xs)"
  by (induction xs) auto

lemma collect_results_eq_Inr_conv:
  "collect_results xs = Inr ys \<longleftrightarrow> xs = map Inr ys"
proof (induction xs arbitrary: ys)
  case Nil
  then show ?case by auto
next
  case (Cons x xs)
  show ?case
  proof (cases x)
    case (Inl e)
    then show ?thesis by (cases ys) auto
  next
    case (Inr a)
    with Cons show ?thesis by (cases ys) (auto split: sum.splits)
  qed
qed

lemma collect_results_Inl_in: "collect_results xs = Inl e \<Longrightarrow> Inl e \<in> set xs"
  by (induction xs rule: collect_results.induct) (auto split: sum.splits)

lemma collect_results_Inl_ex: "Inl e \<in> set xs \<Longrightarrow> \<exists>e'. collect_results xs = Inl e'"
  by (induction xs rule: collect_results.induct) (auto split: sum.splits)

definition is_ok :: "'e + 'a \<Rightarrow> bool" where
  "is_ok r = (case r of Inl _ \<Rightarrow> False | Inr _ \<Rightarrow> True)"

definition ok :: "'e + 'a \<Rightarrow> 'a option" where
  "ok r = (case r of Inl _ \<Rightarrow> None | Inr x \<Rightarrow> Some x)"

lemma is_ok_simps [simp]: "is_ok (Inl e) = False" "is_ok (Inr x) = True"
  by (simp_all add: is_ok_def)

lemma ok_simps [simp]: "ok (Inl e) = None" "ok (Inr x) = Some x"
  by (simp_all add: ok_def)

text \<open>The operator \<open>?\<close>: go on with the value, or return the error.\<close>

definition and_then :: "'e + 'a \<Rightarrow> ('a \<Rightarrow> 'e + 'b) \<Rightarrow> 'e + 'b" where
  "and_then r f = (case r of Inl e \<Rightarrow> Inl e | Inr x \<Rightarrow> f x)"

lemma and_then_simps [simp]: "and_then (Inl e) f = Inl e" "and_then (Inr x) f = f x"
  by (simp_all add: and_then_def)

lemma and_then_Inr [model_simps]: "and_then r f = Inr y \<longleftrightarrow> (\<exists>x. r = Inr x \<and> f x = Inr y)"
  by (cases r) auto

text \<open>A chain of fallible effects on a world, each followed by the operator \<open>?\<close>: the first error ends it.\<close>

type_synonym ('w, 'e) action = "'w \<Rightarrow> ('e + unit) \<times> 'w"

fun try_all :: "('w, 'e) action list \<Rightarrow> ('w, 'e) action" where
  "try_all [] w = (Inr (), w)"
| "try_all (f # fs) w = (case f w of (Inl e, w') \<Rightarrow> (Inl e, w') | (Inr _, w') \<Rightarrow> try_all fs w')"

lemma try_all_append:
  "try_all (fs @ gs) w = (case try_all fs w of (Inl e, w') \<Rightarrow> (Inl e, w') | (Inr _, w') \<Rightarrow> try_all gs w')"
  by (induction fs arbitrary: w) (auto split: prod.splits sum.splits)

lemma try_all_append_ok:
  "try_all (fs @ gs) w = (Inr u, w') \<longleftrightarrow>
     (\<exists>w1. try_all fs w = (Inr (), w1) \<and> try_all gs w1 = (Inr u, w'))"
  by (auto simp: try_all_append split: prod.splits sum.splits)

lemma try_all_nested: "try_all (try_all gs # fs) w = try_all (gs @ fs) w"
  by (simp add: try_all_append)

lemma try_all_concat: "try_all (map try_all gss) w = try_all (concat gss) w"
proof (induction gss arbitrary: w)
  case (Cons gs gss)
  then show ?case by (simp add: try_all_append split: prod.splits sum.splits)
qed simp

text \<open>The same with values: a fallible step on a state, and the next step on its value.\<close>

type_synonym ('s, 'e, 'a) fallible = "'s \<Rightarrow> ('e + 'a) \<times> 's"

definition fail_with :: "'e \<Rightarrow> ('s, 'e, 'a) fallible" where
  "fail_with e = (\<lambda>s. (Inl e, s))"

definition return_ok :: "'a \<Rightarrow> ('s, 'e, 'a) fallible" where
  "return_ok x = (\<lambda>s. (Inr x, s))"

definition and_do :: "('s, 'e, 'a) fallible \<Rightarrow> ('a \<Rightarrow> ('s, 'e, 'b) fallible) \<Rightarrow> ('s, 'e, 'b) fallible" where
  "and_do m f = (\<lambda>s. case m s of (Inl e, s') \<Rightarrow> (Inl e, s') | (Inr x, s') \<Rightarrow> f x s')"

lemma fallible_simps [simp]:
  "fail_with e s = (Inl e, s)" "return_ok x s = (Inr x, s)"
  "m s = (Inl e, s') \<Longrightarrow> and_do m f s = (Inl e, s')"
  "m s = (Inr x, s') \<Longrightarrow> and_do m f s = f x s'"
  by (simp_all add: fail_with_def return_ok_def and_do_def)

lemma and_do_ok:
  "and_do m f s = (Inr y, s') \<longleftrightarrow> (\<exists>x s1. m s = (Inr x, s1) \<and> f x s1 = (Inr y, s'))"
  by (auto simp: and_do_def split: prod.splits sum.splits)

lemma and_do_err:
  "and_do m f s = (Inl e, s') \<longleftrightarrow> m s = (Inl e, s') \<or> (\<exists>x s1. m s = (Inr x, s1) \<and> f x s1 = (Inl e, s'))"
  by (auto simp: and_do_def split: prod.splits sum.splits)

section \<open>Containers\<close>

subsection \<open>BTreeSet\<close>

definition btree_set :: "'a::linorder list \<Rightarrow> 'a list" where
  "btree_set xs = sort (remdups xs)"

lemma set_btree_set [simp]: "set (btree_set xs) = set xs"
  by (simp add: btree_set_def)

lemma sorted_btree_set [simp]: "sorted (btree_set xs)"
  by (simp add: btree_set_def)

lemma distinct_btree_set [simp]: "distinct (btree_set xs)"
  by (simp add: btree_set_def)

lemma btree_set_cong: "set xs = set ys \<Longrightarrow> btree_set xs = btree_set ys"
  by (simp add: btree_set_def sorted_distinct_set_unique)

lemma btree_set_idem [simp]: "btree_set (btree_set xs) = btree_set xs"
  by (rule btree_set_cong) simp

subsection \<open>HashMap\<close>

abbreviation keys :: "('k \<times> 'v) list \<Rightarrow> 'k list" where
  "keys m \<equiv> map fst m"

definition hm_modify :: "'k \<Rightarrow> ('v \<Rightarrow> 'v) \<Rightarrow> ('k \<times> 'v) list \<Rightarrow> ('k \<times> 'v) list" where
  "hm_modify k f m = map (\<lambda>(k', v). if k' = k then (k', f v) else (k', v)) m"

lemma keys_hm_modify [simp]: "keys (hm_modify k f m) = keys m"
  by (induction m) (auto simp: hm_modify_def)

lemma map_of_hm_modify [simp]:
  "map_of (hm_modify k f m) k' = (if k' = k then map_option f (map_of m k) else map_of m k')"
  by (induction m) (auto simp: hm_modify_def)

lemma hm_modify_absent: "k \<notin> set (keys m) \<Longrightarrow> hm_modify k f m = m"
  by (induction m) (auto simp: hm_modify_def)

lemma in_set_hm_modify:
  "(k', v') \<in> set (hm_modify k f m) \<longleftrightarrow>
     (if k' = k then (\<exists>v. (k, v) \<in> set m \<and> v' = f v) else (k', v') \<in> set m)"
  by (auto simp: hm_modify_def image_iff split: prod.splits if_splits)

lemma map_of_AList_update [simp]: "map_of (AList.update k v m) = (map_of m)(k \<mapsto> v)"
  by (rule ext) (simp add: update_conv)

lemma map_of_AList_delete [simp]: "map_of (AList.delete k m) = (map_of m)(k := None)"
  by (rule ext) (simp add: delete_conv)

lemma distinct_keys_update [simp, intro]: "distinct (keys m) \<Longrightarrow> distinct (keys (AList.update k v m))"
  by (rule distinct_update)

lemma distinct_keys_delete [simp, intro]: "distinct (keys m) \<Longrightarrow> distinct (keys (AList.delete k m))"
  by (rule distinct_delete)

lemma set_keys_update: "set (keys (AList.update k v m)) = insert k (set (keys m))"
  by (induction m) auto

lemma in_set_delete_iff: "(k', v) \<in> set (AList.delete k m) \<longleftrightarrow> k' \<noteq> k \<and> (k', v) \<in> set m"
  by (auto simp: AList.delete_eq)

lemma in_set_update_distinct:
  "distinct (keys m) \<Longrightarrow>
   (k', v') \<in> set (AList.update k v m) \<longleftrightarrow> (if k' = k then v' = v else (k', v') \<in> set m)"
proof -
  assume d: "distinct (keys m)"
  then have d': "distinct (keys (AList.update k v m))" by blast
  have "(k', v') \<in> set (AList.update k v m) \<longleftrightarrow> map_of (AList.update k v m) k' = Some v'"
    using d' by (simp del: map_of_AList_update)
  also have "\<dots> \<longleftrightarrow> (if k' = k then v' = v else (k', v') \<in> set m)"
    using d by auto
  finally show ?thesis .
qed

subsection \<open>Lists\<close>

lemma sort_key_sorted_map: "sorted (map f (sort_key f xs))"
  by simp

end
