(* ===== verification/Rust_Str.thy ===== *)
theory Rust_Str
  imports Prelude
begin

text \<open>
  The parts of Rust's string library the program uses, over byte lists: UTF-8 validation
  (\<open>str::from_utf8\<close>), Unicode trimming and splitting (\<open>trim\<close>, \<open>split\<close>, \<open>split_whitespace\<close>),
  unsigned integer parsing (\<open>parse::<u64>\<close>), decimal and hexadecimal formatting, and the ASCII
  character classes. A \<open>&str\<close> is the list of its UTF-8 bytes, so \<open>len()\<close> is \<^const>\<open>length\<close>,
  and a test on ASCII characters may run over the bytes: every byte of a multi-byte character is
  above 127. The lemmas are the facts the components need: trimming is the identity on text that
  starts and ends with ASCII graphic characters, splitting inverts joining, parsing inverts printing.
\<close>

section \<open>Bytes and ASCII classes\<close>

abbreviation byte_val :: "char \<Rightarrow> nat" where
  "byte_val c \<equiv> of_char c"

lemma byte_val_less [simp]: "byte_val c < 256"
  by simp

definition is_ascii :: "char \<Rightarrow> bool" where
  "is_ascii c \<longleftrightarrow> byte_val c < 128"

definition is_ascii_digit :: "char \<Rightarrow> bool" where
  "is_ascii_digit c \<longleftrightarrow> 48 \<le> byte_val c \<and> byte_val c \<le> 57"

definition is_ascii_lowercase :: "char \<Rightarrow> bool" where
  "is_ascii_lowercase c \<longleftrightarrow> 97 \<le> byte_val c \<and> byte_val c \<le> 122"

definition is_ascii_uppercase :: "char \<Rightarrow> bool" where
  "is_ascii_uppercase c \<longleftrightarrow> 65 \<le> byte_val c \<and> byte_val c \<le> 90"

definition is_ascii_alphanumeric :: "char \<Rightarrow> bool" where
  "is_ascii_alphanumeric c \<longleftrightarrow> is_ascii_digit c \<or> is_ascii_lowercase c \<or> is_ascii_uppercase c"

definition is_ascii_graphic :: "char \<Rightarrow> bool" where
  "is_ascii_graphic c \<longleftrightarrow> 33 \<le> byte_val c \<and> byte_val c \<le> 126"

definition to_ascii_lower :: "char \<Rightarrow> char" where
  "to_ascii_lower c = (if is_ascii_uppercase c then char_of (byte_val c + 32) else c)"

definition is_continuation :: "char \<Rightarrow> bool" where
  "is_continuation c \<longleftrightarrow> 128 \<le> byte_val c \<and> byte_val c < 192"

text \<open>\<open>s.chars()\<close>, as far as the code needs it: one byte per character, its first.\<close>

definition chars :: "string \<Rightarrow> string" where
  "chars s = filter (\<lambda>c. \<not> is_continuation c) s"

lemmas ascii_defs = is_ascii_def is_ascii_digit_def is_ascii_lowercase_def is_ascii_uppercase_def
  is_ascii_alphanumeric_def is_ascii_graphic_def is_continuation_def

section \<open>UTF-8 validation\<close>

definition byte_in :: "nat \<Rightarrow> nat \<Rightarrow> char \<Rightarrow> bool" where
  "byte_in lo hi c \<longleftrightarrow> lo \<le> byte_val c \<and> byte_val c \<le> hi"

fun utf8_valid :: "bytes \<Rightarrow> bool" where
  "utf8_valid [] = True"
| "utf8_valid (a # s) =
     (if byte_val a < 128 then utf8_valid s
      else case s of
        [] \<Rightarrow> False
      | b # s2 \<Rightarrow>
          if byte_in 194 223 a then byte_in 128 191 b \<and> utf8_valid s2
          else case s2 of
            [] \<Rightarrow> False
          | c # s3 \<Rightarrow>
              if byte_in 224 239 a
              then byte_in (if byte_val a = 224 then 160 else 128)
                           (if byte_val a = 237 then 159 else 191) b
                   \<and> byte_in 128 191 c \<and> utf8_valid s3
              else case s3 of
                [] \<Rightarrow> False
              | d # s4 \<Rightarrow>
                  byte_in 240 244 a
                  \<and> byte_in (if byte_val a = 240 then 144 else 128)
                            (if byte_val a = 244 then 143 else 191) b
                  \<and> byte_in 128 191 c \<and> byte_in 128 191 d \<and> utf8_valid s4)"

definition from_utf8 :: "bytes \<Rightarrow> string option" where
  "from_utf8 b = (if utf8_valid b then Some b else None)"

lemma utf8_valid_ascii: "\<forall>c\<in>set s. is_ascii c \<Longrightarrow> utf8_valid s"
  by (induction s) (auto simp: is_ascii_def)

lemma from_utf8_ascii: "\<forall>c\<in>set s. is_ascii c \<Longrightarrow> from_utf8 s = Some s"
  by (simp add: from_utf8_def utf8_valid_ascii)

text \<open>
  \<open>String::from_utf8_lossy\<close>: a maximal prefix of a well-formed sequence that is not completed is
  replaced by U+FFFD.
\<close>

definition utf8_width :: "char \<Rightarrow> nat" where
  "utf8_width a =
     (if byte_val a < 128 then 1 else if byte_in 194 223 a then 2
      else if byte_in 224 239 a then 3 else if byte_in 240 244 a then 4 else 0)"

definition second_ok :: "char \<Rightarrow> char \<Rightarrow> bool" where
  "second_ok a b \<longleftrightarrow>
     byte_in (if byte_val a = 224 then 160 else if byte_val a = 240 then 144 else 128)
             (if byte_val a = 237 then 159 else if byte_val a = 244 then 143 else 191) b"

fun utf8_prefix :: "bytes \<Rightarrow> nat" where
  "utf8_prefix [] = 0"
| "utf8_prefix [a] = min 1 (utf8_width a)"
| "utf8_prefix (a # b # s) =
     (if utf8_width a < 2 then utf8_width a
      else if second_ok a b
      then 2 + length (takeWhile (byte_in 128 191) (take (utf8_width a - 2) s)) else 1)"

function from_utf8_lossy :: "bytes \<Rightarrow> string" where
  "from_utf8_lossy [] = []"
| "from_utf8_lossy (a # s) =
     (let n = utf8_prefix (a # s) in
      if n = utf8_width a \<and> n \<noteq> 0 then take n (a # s) @ from_utf8_lossy (drop n (a # s))
      else [CHR 0xEF, CHR 0xBF, CHR 0xBD] @ from_utf8_lossy (drop (max 1 n) (a # s)))"
  by pat_completeness auto
termination by (relation "measure length") (auto simp: max_def)

fun str_contains :: "string \<Rightarrow> string \<Rightarrow> bool" where
  "str_contains p [] \<longleftrightarrow> p = []"
| "str_contains p (c # s) \<longleftrightarrow> take (length p) (c # s) = p \<or> str_contains p s"

section \<open>Prefixes and trimming\<close>

definition strip_prefix :: "string \<Rightarrow> string \<Rightarrow> string option" where
  "strip_prefix p s = (if take (length p) s = p then Some (drop (length p) s) else None)"

definition starts_with :: "string \<Rightarrow> string \<Rightarrow> bool" where
  "starts_with p s \<longleftrightarrow> take (length p) s = p"

lemma starts_with_append [simp]: "starts_with p (p @ s)"
  by (simp add: starts_with_def)

lemma strip_prefix_Some: "strip_prefix p s = Some r \<longleftrightarrow> s = p @ r"
  unfolding strip_prefix_def by (auto simp: append_eq_conv_conj) (metis append_take_drop_id)

fun strip_any :: "string list \<Rightarrow> string \<Rightarrow> string option" where
  "strip_any [] s = None"
| "strip_any (p # ps) s =
     (if p \<noteq> [] \<and> starts_with p s then Some (drop (length p) s) else strip_any ps s)"

lemma starts_with_drop: "starts_with p s \<Longrightarrow> \<exists>q. s = q @ drop (length p) s"
  by (metis append_take_drop_id)

lemma strip_any_suffix: "strip_any ps s = Some r \<Longrightarrow> \<exists>p. s = p @ r"
  by (induction ps) (auto split: if_splits intro: starts_with_drop)

lemma strip_any_shorter: "strip_any ps s = Some r \<Longrightarrow> length r < length s"
proof (induction ps)
  case Nil
  then show ?case by simp
next
  case (Cons p ps)
  show ?case
  proof (cases "p \<noteq> [] \<and> starts_with p s")
    case True
    then have "length p \<le> length s" by (auto simp: starts_with_def) (metis length_take min.cobounded1)
    with True Cons.prems show ?thesis by (cases p) auto
  next
    case False
    with Cons show ?thesis by (auto split: if_splits)
  qed
qed

text \<open>The characters with the Unicode property \<open>White_Space\<close>, in UTF-8.\<close>

definition ws_words :: "string list" where
  "ws_words =
     [[CHR 0x09], [CHR 0x0A], [CHR 0x0B], [CHR 0x0C], [CHR 0x0D], [CHR 0x20],
      [CHR 0xC2, CHR 0x85], [CHR 0xC2, CHR 0xA0], [CHR 0xE1, CHR 0x9A, CHR 0x80],
      [CHR 0xE2, CHR 0x80, CHR 0x80], [CHR 0xE2, CHR 0x80, CHR 0x81], [CHR 0xE2, CHR 0x80, CHR 0x82],
      [CHR 0xE2, CHR 0x80, CHR 0x83], [CHR 0xE2, CHR 0x80, CHR 0x84], [CHR 0xE2, CHR 0x80, CHR 0x85],
      [CHR 0xE2, CHR 0x80, CHR 0x86], [CHR 0xE2, CHR 0x80, CHR 0x87], [CHR 0xE2, CHR 0x80, CHR 0x88],
      [CHR 0xE2, CHR 0x80, CHR 0x89], [CHR 0xE2, CHR 0x80, CHR 0x8A], [CHR 0xE2, CHR 0x80, CHR 0xA8],
      [CHR 0xE2, CHR 0x80, CHR 0xA9], [CHR 0xE2, CHR 0x80, CHR 0xAF], [CHR 0xE2, CHR 0x81, CHR 0x9F],
      [CHR 0xE3, CHR 0x80, CHR 0x80]]"

function trim_front :: "string list \<Rightarrow> string \<Rightarrow> string" where
  "trim_front ps s = (case strip_any ps s of None \<Rightarrow> s | Some r \<Rightarrow> trim_front ps r)"
  by pat_completeness auto
termination
  by (relation "measure (\<lambda>(ps, s). length s)") (auto dest: strip_any_shorter)

declare trim_front.simps [simp del]

definition trim_start :: "string \<Rightarrow> string" where
  "trim_start s = trim_front ws_words s"

definition trim_end :: "string \<Rightarrow> string" where
  "trim_end s = rev (trim_front (map rev ws_words) (rev s))"

definition trim :: "string \<Rightarrow> string" where
  "trim s = trim_end (trim_start s)"

lemma trim_front_id: "strip_any ps s = None \<Longrightarrow> trim_front ps s = s"
  by (subst trim_front.simps) simp

lemma strip_any_None_hd:
  "\<forall>p\<in>set ps. p \<noteq> [] \<longrightarrow> hd p \<noteq> c \<Longrightarrow> strip_any ps (c # s) = None"
proof (induction ps)
  case Nil
  then show ?case by simp
next
  case (Cons p ps)
  then show ?case by (cases p) (auto simp: starts_with_def)
qed

lemma ws_heads: "list_all (\<lambda>p. p \<noteq> [] \<longrightarrow> \<not> is_ascii_graphic (hd p)) (ws_words @ map rev ws_words)"
  by code_simp

lemma strip_any_None_graphic:
  assumes "is_ascii_graphic c"
  shows "strip_any ws_words (c # s) = None" "strip_any (map rev ws_words) (c # s) = None"
  using ws_heads assms by (auto intro!: strip_any_None_hd simp: list_all_iff)

lemma trim_graphic:
  assumes "s \<noteq> []" "is_ascii_graphic (hd s)" "is_ascii_graphic (last s)"
  shows "trim s = s"
proof -
  from assms(1) obtain c t where s: "s = c # t" by (cases s) auto
  with assms(2) have 1: "trim_start s = s"
    by (simp add: trim_start_def trim_front_id strip_any_None_graphic)
  from assms(1) obtain d u where r: "rev s = d # u" by (cases "rev s") auto
  then have "last s = d" by (metis assms(1) hd_rev list.sel(1))
  with assms(3) r have "trim_end s = rev (rev s)"
    unfolding trim_end_def by (simp add: trim_front_id strip_any_None_graphic)
  with 1 show ?thesis by (simp add: trim_def)
qed

lemma trim_front_length: "length (trim_front ps s) \<le> length s"
proof (induction ps s rule: trim_front.induct)
  case (1 ps s)
  show ?case
  proof (cases "strip_any ps s")
    case None
    then show ?thesis by (simp add: trim_front_id)
  next
    case (Some r)
    with 1 [OF Some] strip_any_shorter [OF Some] show ?thesis
      by (subst trim_front.simps) simp
  qed
qed

lemma length_trim: "length (trim s) \<le> length s"
proof -
  have "length (trim s) \<le> length (trim_start s)"
    unfolding trim_def trim_end_def using trim_front_length [of "map rev ws_words" "rev (trim_start s)"]
    by simp
  also have "\<dots> \<le> length s" unfolding trim_start_def by (rule trim_front_length)
  finally show ?thesis .
qed

section \<open>Splitting\<close>

fun split_on :: "char \<Rightarrow> string \<Rightarrow> string list" where
  "split_on c [] = [[]]"
| "split_on c (x # xs) =
     (if x = c then [] # split_on c xs
      else case split_on c xs of [] \<Rightarrow> [[x]] | f # fs \<Rightarrow> (x # f) # fs)"

fun join_with :: "string \<Rightarrow> string list \<Rightarrow> string" where
  "join_with sep [] = []"
| "join_with sep [f] = f"
| "join_with sep (f # g # fs) = f @ sep @ join_with sep (g # fs)"

lemma split_on_nonempty [simp]: "split_on c s \<noteq> []"
  by (induction s) (auto split: list.splits)

lemma join_with_split_on: "join_with [c] (split_on c s) = s"
proof (induction s)
  case (Cons d s)
  then show ?case using split_on_nonempty [of c s] by (cases "split_on c s"; cases "tl (split_on c s)") auto
qed simp

lemma split_on_plain: "c \<notin> set s \<Longrightarrow> split_on c s = [s]"
  by (induction s) auto

lemma split_on_sep: "c \<notin> set f \<Longrightarrow> split_on c (f @ c # s) = f # split_on c s"
  by (induction f) auto

lemma split_on_join:
  "fs \<noteq> [] \<Longrightarrow> \<forall>f\<in>set fs. c \<notin> set f \<Longrightarrow> split_on c (join_with [c] fs) = fs"
  by (induction "[c]" fs rule: join_with.induct) (auto simp: split_on_plain split_on_sep)

text \<open>\<open>split_whitespace\<close>: the non-empty fields between white space characters. The first argument
  is the field being read, reversed.\<close>

function split_ws_from :: "string \<Rightarrow> string \<Rightarrow> string list" where
  "split_ws_from acc s =
     (case s of
        [] \<Rightarrow> (if acc = [] then [] else [rev acc])
      | x # xs \<Rightarrow>
          (case strip_any ws_words s of
             Some r \<Rightarrow> (if acc = [] then [] else [rev acc]) @ split_ws_from [] r
           | None \<Rightarrow> split_ws_from (x # acc) xs))"
  by pat_completeness auto
termination
  by (relation "measure (\<lambda>(acc, s). length s)") (auto dest: strip_any_shorter)

declare split_ws_from.simps [simp del]

definition split_whitespace :: "string \<Rightarrow> string list" where
  "split_whitespace s = split_ws_from [] s"

lemma split_ws_from_Nil: "split_ws_from acc [] = (if acc = [] then [] else [rev acc])"
  by (subst split_ws_from.simps) simp

lemma split_ws_from_graphic:
  "is_ascii_graphic x \<Longrightarrow> split_ws_from acc (x # s) = split_ws_from (x # acc) s"
  by (subst split_ws_from.simps) (simp add: strip_any_None_graphic)

lemma split_ws_from_word:
  "\<forall>c\<in>set w. is_ascii_graphic c \<Longrightarrow> split_ws_from acc (w @ s) = split_ws_from (rev w @ acc) s"
  by (induction w arbitrary: acc) (auto simp: split_ws_from_graphic)

lemma strip_any_space: "strip_any ws_words (CHR 0x20 # s) = Some s"
  by (simp add: ws_words_def starts_with_def)

lemma split_ws_from_space:
  "split_ws_from acc (CHR 0x20 # s) = (if acc = [] then [] else [rev acc]) @ split_ws_from [] s"
  by (subst split_ws_from.simps) (simp add: strip_any_space)

section \<open>Numbers\<close>

definition digit_char :: "nat \<Rightarrow> char" where
  "digit_char d = char_of (48 + d)"

definition hex_char :: "nat \<Rightarrow> char" where
  "hex_char d = (if d < 10 then char_of (48 + d) else char_of (87 + d))"

fun dec_str :: "nat \<Rightarrow> string" where
  "dec_str n = (if n < 10 then [digit_char n] else dec_str (n div 10) @ [digit_char (n mod 10)])"

fun hex_str :: "nat \<Rightarrow> string" where
  "hex_str n = (if n < 16 then [hex_char n] else hex_str (n div 16) @ [hex_char (n mod 16)])"

declare dec_str.simps [simp del] hex_str.simps [simp del]

definition dec_value :: "string \<Rightarrow> nat" where
  "dec_value s = foldl (\<lambda>a c. 10 * a + (byte_val c - 48)) 0 s"

text \<open>\<open>parse::<u64>\<close> and its kin: an optional \<open>+\<close>, at least one digit, digits only, no overflow.\<close>

definition parse_uint :: "nat \<Rightarrow> string \<Rightarrow> nat option" where
  "parse_uint max_val s =
     (let ds = (case s of [] \<Rightarrow> [] | c # r \<Rightarrow> if c = CHR ''+'' then r else s)
      in if ds = [] \<or> \<not> list_all is_ascii_digit ds \<or> dec_value ds > max_val then None
         else Some (dec_value ds))"

lemma byte_val_digit [simp]: "d < 10 \<Longrightarrow> byte_val (digit_char d) = 48 + d"
  by (simp add: digit_char_def)

lemma is_ascii_digit_digit_char [simp]: "d < 10 \<Longrightarrow> is_ascii_digit (digit_char d)"
  by (simp add: is_ascii_digit_def)

lemma dec_str_nonempty [simp]: "dec_str n \<noteq> []"
  by (subst dec_str.simps) simp

lemma dec_str_digits: "list_all is_ascii_digit (dec_str n)"
proof (induction n rule: dec_str.induct)
  case (1 n)
  then show ?case by (subst dec_str.simps) auto
qed

lemma dec_value_snoc: "dec_value (s @ [c]) = 10 * dec_value s + (byte_val c - 48)"
  by (simp add: dec_value_def)

lemma dec_value_dec_str [simp]: "dec_value (dec_str n) = n"
proof (induction n rule: dec_str.induct)
  case (1 n)
  show ?case
  proof (cases "n < 10")
    case True
    then show ?thesis by (subst dec_str.simps) (simp add: dec_value_def)
  next
    case False
    with 1 [OF False] show ?thesis
      by (subst dec_str.simps) (simp add: dec_value_snoc)
  qed
qed

lemma digit_not_plus: "is_ascii_digit c \<Longrightarrow> c \<noteq> CHR ''+''"
  by (auto simp: is_ascii_digit_def)

lemma parse_uint_plain:
  "s \<noteq> [] \<Longrightarrow> list_all is_ascii_digit s \<Longrightarrow> dec_value s \<le> m \<Longrightarrow> parse_uint m s = Some (dec_value s)"
  by (cases s) (auto simp: parse_uint_def Let_def dest: digit_not_plus)

lemma parse_uint_dec_str: "n \<le> m \<Longrightarrow> parse_uint m (dec_str n) = Some n"
  using parse_uint_plain [of "dec_str n" m] by (simp add: dec_str_digits)

lemma parse_uint_Some_le: "parse_uint m s = Some n \<Longrightarrow> n \<le> m"
  by (auto simp: parse_uint_def Let_def split: if_splits list.splits)

lemma length_dec_str: "n < 10 ^ k \<Longrightarrow> 0 < k \<Longrightarrow> length (dec_str n) \<le> k"
proof (induction n arbitrary: k rule: dec_str.induct)
  case (1 n)
  show ?case
  proof (cases "n < 10")
    case True
    with 1 show ?thesis by (subst dec_str.simps) simp
  next
    case False
    with 1 obtain j where k: "k = Suc j" "0 < j" by (cases k; cases "k - 1") auto
    with 1 have "n div 10 < 10 ^ j" by (simp add: less_mult_imp_div_less mult.commute)
    with 1(1) [OF False] k False show ?thesis by (subst dec_str.simps) simp
  qed
qed

lemma hex_char_alnum: "d < 16 \<Longrightarrow> is_ascii_alphanumeric (hex_char d)"
  by (auto simp: hex_char_def ascii_defs)

lemma hex_str_nonempty [simp]: "hex_str n \<noteq> []"
  by (subst hex_str.simps) simp

lemma hex_str_alnum: "list_all is_ascii_alphanumeric (hex_str n)"
proof (induction n rule: hex_str.induct)
  case (1 n)
  then show ?case by (subst hex_str.simps) (auto simp: hex_char_alnum)
qed

lemma length_hex_str: "n < 16 ^ k \<Longrightarrow> 0 < k \<Longrightarrow> length (hex_str n) \<le> k"
proof (induction n arbitrary: k rule: hex_str.induct)
  case (1 n)
  show ?case
  proof (cases "n < 16")
    case True
    with 1 show ?thesis by (subst hex_str.simps) simp
  next
    case False
    with 1 obtain j where k: "k = Suc j" "0 < j" by (cases k; cases "k - 1") auto
    with 1 have "n div 16 < 16 ^ j" by (simp add: less_mult_imp_div_less mult.commute)
    with 1(1) [OF False] k False show ?thesis by (subst hex_str.simps) simp
  qed
qed

lemma alnum_graphic: "is_ascii_alphanumeric c \<Longrightarrow> is_ascii_graphic c"
  by (auto simp: ascii_defs)

lemma digit_alnum: "is_ascii_digit c \<Longrightarrow> is_ascii_alphanumeric c"
  by (simp add: is_ascii_alphanumeric_def)

lemma graphic_ascii: "is_ascii_graphic c \<Longrightarrow> is_ascii c"
  by (simp add: is_ascii_def is_ascii_graphic_def)

definition bool_str :: "bool \<Rightarrow> string" where
  "bool_str b = (if b then ''true'' else ''false'')"

text \<open>\<open>format!("{b:02x}")\<close> of one byte, and of a buffer.\<close>

definition hex2 :: "char \<Rightarrow> string" where
  "hex2 c = [hex_char (byte_val c div 16), hex_char (byte_val c mod 16)]"

section \<open>Paths\<close>

text \<open>\<open>Path::parent\<close> of a path, on the reversed string: trailing separators and \<open>.\<close> do not count.\<close>

fun trim_sep :: "string \<Rightarrow> string" where
  "trim_sep [] = []"
| "trim_sep (c # s) =
     (if c = CHR ''/'' then trim_sep s
      else if c = CHR ''.'' \<and> s \<noteq> [] \<and> hd s = CHR ''/'' then trim_sep s
      else c # s)"

definition path_parent :: "string \<Rightarrow> string option" where
  "path_parent p =
     (let r = trim_sep (rev p) in
      if r = [] then None
      else (let q = dropWhile (\<lambda>c. c \<noteq> CHR ''/'') r;
                t = trim_sep q
            in Some (if t = [] \<and> q \<noteq> [] then ''/'' else rev t)))"

definition is_absolute :: "string \<Rightarrow> bool" where
  "is_absolute p \<longleftrightarrow> starts_with ''/'' p"

definition path_join :: "string \<Rightarrow> string \<Rightarrow> string" where
  "path_join p q =
     (if is_absolute q then q
      else if p = [] \<or> last p = CHR ''/'' then p @ q else p @ ''/'' @ q)"

section \<open>Lines and searching\<close>

text \<open>\<open>str::lines\<close>: the last line may lack its line feed, and a carriage return before one is dropped.\<close>

definition strip_cr :: "string \<Rightarrow> string" where
  "strip_cr s = (if s \<noteq> [] \<and> last s = CHR 0x0D then butlast s else s)"

definition str_lines :: "string \<Rightarrow> string list" where
  "str_lines s =
     (let parts = split_on CHR 0x0A s; full = map strip_cr (butlast parts)
      in if last parts = [] then full else full @ [last parts])"

definition first_line :: "string \<Rightarrow> string" where
  "first_line s = (case str_lines s of [] \<Rightarrow> [] | l # _ \<Rightarrow> l)"

fun str_find :: "string \<Rightarrow> string \<Rightarrow> nat option" where
  "str_find p [] = (if p = [] then Some 0 else None)"
| "str_find p (c # s) = (if starts_with p (c # s) then Some 0 else map_option Suc (str_find p s))"

definition split_once :: "char \<Rightarrow> string \<Rightarrow> (string \<times> string) option" where
  "split_once c s =
     (if c \<in> set s then Some (takeWhile (\<lambda>x. x \<noteq> c) s, tl (dropWhile (\<lambda>x. x \<noteq> c) s)) else None)"

definition trim_matches :: "char \<Rightarrow> string \<Rightarrow> string" where
  "trim_matches c s = rev (dropWhile (\<lambda>x. x = c) (rev (dropWhile (\<lambda>x. x = c) s)))"

fun find_map :: "('a \<Rightarrow> 'b option) \<Rightarrow> 'a list \<Rightarrow> 'b option" where
  "find_map f [] = None"
| "find_map f (x # xs) = (case f x of None \<Rightarrow> find_map f xs | Some y \<Rightarrow> Some y)"

lemma find_map_Some: "find_map f xs = Some y \<Longrightarrow> \<exists>x\<in>set xs. f x = Some y"
  by (induction xs) (auto split: option.splits)

end
