(* ===== verification/Ip.thy ===== *)
theory Ip
  imports Rust_Str
begin

text \<open>
  IPv4 addresses (\<open>std::net::Ipv4Addr\<close>) and the interface of the \<open>cidr\<close> crate. The crate is not
  part of the repository, so its type \<open>Ipv4Cidr\<close> is a type parameter with a record of the
  operations the code calls, and the locale \<open>cidr_crate\<close> states what the crate documents about them:
  a network is a block of \<open>2 ^ (32 - length)\<close> addresses that starts at its first address, a network
  is determined by its first address and its length, and \<open>new\<close> refuses a length above 32 and an
  address with host bits set. \<open>Ord\<close> on \<open>Ipv4Cidr\<close> is the \<open>linorder\<close> instance of the
  parameter. The type \<open>cidr4\<close> at the end shows that the laws can be met; the witnesses use it.
\<close>

section \<open>Addresses\<close>

definition mk_ipv4 :: "nat \<Rightarrow> nat \<Rightarrow> nat \<Rightarrow> nat \<Rightarrow> ipv4" where
  "mk_ipv4 a b c d = of_nat (16777216 * a + 65536 * b + 256 * c + d)"

definition octets :: "ipv4 \<Rightarrow> nat list" where
  "octets ip = [unat ip div 16777216, unat ip div 65536 mod 256, unat ip div 256 mod 256, unat ip mod 256]"

definition ipv4_to_string :: "ipv4 \<Rightarrow> string" where
  "ipv4_to_string ip = join_with ''.'' (map dec_str (octets ip))"

lemma unat_ipv4_less [simp]: "unat (ip :: ipv4) < 4294967296"
  using unsigned_less [of ip] by simp

lemma unat_add_of_nat:
  fixes a :: ipv4
  assumes "unat a + n < 4294967296"
  shows "unat (a + of_nat n) = unat a + n"
proof -
  have "a + of_nat n = of_nat (unat a + n)" by simp
  then show ?thesis using assms by (simp only: unat_of_nat) simp
qed

lemma unat_mk_ipv4:
  "a < 256 \<Longrightarrow> b < 256 \<Longrightarrow> c < 256 \<Longrightarrow> d < 256 \<Longrightarrow>
   unat (mk_ipv4 a b c d) = 16777216 * a + 65536 * b + 256 * c + d"
  unfolding mk_ipv4_def by (subst unat_of_nat) (simp del: of_nat_add of_nat_mult)

lemma base256:
  fixes a b c d :: nat
  assumes "b < 256" "c < 256" "d < 256"
  shows "(16777216 * a + 65536 * b + 256 * c + d) div 16777216 = a"
    and "(16777216 * a + 65536 * b + 256 * c + d) div 65536 mod 256 = b"
    and "(16777216 * a + 65536 * b + 256 * c + d) div 256 mod 256 = c"
    and "(16777216 * a + 65536 * b + 256 * c + d) mod 256 = d"
proof -
  let ?n = "16777216 * a + 65536 * b + 256 * c + d"
  have 1: "?n div 256 = 65536 * a + 256 * b + c"
    by (rule div_nat_eqI) (use assms in auto)
  have 2: "?n div 65536 = 256 * a + b"
    by (rule div_nat_eqI) (use assms in auto)
  show "?n div 16777216 = a"
    by (rule div_nat_eqI) (use assms in auto)
  have "(256 * a + b) mod 256 = b" using assms by simp
  then show "?n div 65536 mod 256 = b" unfolding 2 .
  have "(65536 * a + 256 * b + c) mod 256 = c"
    using assms mod_mult_self2 [of c 256 "256 * a + b"] by (simp add: algebra_simps)
  then show "?n div 256 mod 256 = c" unfolding 1 .
  show "?n mod 256 = d"
    using assms mod_mult_self2 [of d 256 "65536 * a + 256 * b + c"] by (simp add: algebra_simps)
qed

lemma base256_digits:
  fixes n :: nat
  shows "16777216 * (n div 16777216) + 65536 * (n div 65536 mod 256) + 256 * (n div 256 mod 256)
    + n mod 256 = n"
proof -
  let ?a = "n div 256"
  have 1: "n div 65536 = ?a div 256" "n div 16777216 = ?a div 256 div 256"
    by (simp_all add: div_mult2_eq [symmetric])
  have "256 * ?a + n mod 256 = n" "256 * (?a div 256) + ?a mod 256 = ?a"
    "256 * (?a div 256 div 256) + ?a div 256 mod 256 = ?a div 256" by simp_all
  then show ?thesis unfolding 1 by linarith
qed

lemma octets_mk_ipv4:
  "a < 256 \<Longrightarrow> b < 256 \<Longrightarrow> c < 256 \<Longrightarrow> d < 256 \<Longrightarrow> octets (mk_ipv4 a b c d) = [a, b, c, d]"
  by (simp add: octets_def unat_mk_ipv4 base256)

lemma mk_ipv4_octets:
  "mk_ipv4 (octets ip ! 0) (octets ip ! 1) (octets ip ! 2) (octets ip ! 3) = ip"
  by (simp add: mk_ipv4_def octets_def base256_digits)

datatype ip_addr = V4 ipv4 | V6 "128 word"

definition is_loopback_v4 :: "ipv4 \<Rightarrow> bool" where
  "is_loopback_v4 ip \<longleftrightarrow> octets ip ! 0 = 127"

fun is_loopback :: "ip_addr \<Rightarrow> bool" where
  "is_loopback (V4 ip) = is_loopback_v4 ip"
| "is_loopback (V6 ip) = (ip = 1)"

section \<open>The interface of the cidr crate\<close>

record 'c cidr_ops =
  cidr_new :: "ipv4 \<Rightarrow> nat \<Rightarrow> 'c option"
  first_address :: "'c \<Rightarrow> ipv4"
  network_length :: "'c \<Rightarrow> nat"
  contains :: "'c \<Rightarrow> ipv4 \<Rightarrow> bool"
  cidr_to_string :: "'c \<Rightarrow> string"
  cidr_from_str :: "string \<Rightarrow> string + 'c"

definition block_size :: "nat \<Rightarrow> nat" where
  "block_size l = 2 ^ (32 - l)"

lemma block_size_pos [simp]: "0 < block_size l"
  by (simp add: block_size_def)

lemma block_size_dvd: "l \<le> m \<Longrightarrow> block_size m dvd block_size l"
  by (simp add: block_size_def le_imp_power_dvd)

lemma block_size_le: "block_size l \<le> 4294967296"
proof -
  have "(2::nat) ^ (32 - l) \<le> 2 ^ 32" by (rule power_increasing) auto
  then show ?thesis by (simp add: block_size_def)
qed

locale cidr_crate =
  fixes C :: "'c::linorder cidr_ops"
  assumes length_le: "network_length C c \<le> 32"
    and first_aligned: "block_size (network_length C c) dvd unat (first_address C c)"
    and contains_iff: "contains C c ip \<longleftrightarrow>
          unat (first_address C c) \<le> unat ip
          \<and> unat ip < unat (first_address C c) + block_size (network_length C c)"
    and new_iff: "cidr_new C a l = Some c \<longleftrightarrow>
          l \<le> 32 \<and> block_size l dvd unat a \<and> first_address C c = a \<and> network_length C c = l"
    and new_total: "l \<le> 32 \<Longrightarrow> block_size l dvd unat a \<Longrightarrow> cidr_new C a l \<noteq> None"
    and to_string_inj: "cidr_to_string C c = cidr_to_string C d \<Longrightarrow> c = d"
begin

lemma new_first_length [simp]: "cidr_new C (first_address C c) (network_length C c) = Some c"
  by (simp add: new_iff length_le first_aligned)

lemma cidr_ext:
  "first_address C c = first_address C d \<Longrightarrow> network_length C c = network_length C d \<Longrightarrow> c = d"
  by (metis new_first_length option.inject)

lemma contains_iff_div:
  "contains C c ip \<longleftrightarrow>
     unat ip div block_size (network_length C c) = unat (first_address C c) div block_size (network_length C c)"
proof -
  let ?n = "block_size (network_length C c)"
  obtain q where q: "unat (first_address C c) = ?n * q" using first_aligned [of c] by blast
  have "?n * q \<le> unat ip \<and> unat ip < ?n * q + ?n \<longleftrightarrow> unat ip div ?n = q"
  proof
    assume "?n * q \<le> unat ip \<and> unat ip < ?n * q + ?n"
    then show "unat ip div ?n = q"
      by (intro div_nat_eqI) (auto simp: mult.commute)
  next
    assume "unat ip div ?n = q"
    then show "?n * q \<le> unat ip \<and> unat ip < ?n * q + ?n"
      by (metis block_size_pos div_mult_mod_eq le_add1 mod_less_divisor mult.commute nat_add_left_cancel_less)
  qed
  with q show ?thesis by (simp add: contains_iff)
qed

text \<open>Two networks of the same length that share an address are the same network.\<close>

lemma same_length_unique:
  assumes "contains C c ip" "contains C d ip" "network_length C c = network_length C d"
  shows "c = d"
proof -
  from assms have "unat (first_address C c) div block_size (network_length C c)
      = unat (first_address C d) div block_size (network_length C c)"
    by (simp add: contains_iff_div)
  then have "unat (first_address C c) = unat (first_address C d)"
    using first_aligned [of c] first_aligned [of d] assms(3)
    by (metis dvd_div_eq_iff)
  then show ?thesis using assms(3) by (intro cidr_ext) (simp_all add: word_unat_eq_iff)
qed

lemma first_contained [simp]: "contains C c (first_address C c)"
  by (simp add: contains_iff)

lemma block_fits: "unat (first_address C c) + block_size (network_length C c) \<le> 4294967296"
proof -
  let ?n = "block_size (network_length C c)"
  obtain q where q: "unat (first_address C c) = ?n * q" using first_aligned [of c] by blast
  have "?n dvd 4294967296"
    using block_size_dvd [of 0 "network_length C c"] by (simp add: block_size_def)
  then obtain k where k: "4294967296 = ?n * k" by blast
  have "?n * q < ?n * k" using q k unat_ipv4_less [of "first_address C c"] by simp
  then have "q < k" by simp
  then have "?n * (q + 1) \<le> ?n * k" by (intro mult_le_mono2) simp
  with q k show ?thesis by (simp add: algebra_simps)
qed

end

section \<open>A concrete network type that satisfies the laws\<close>

definition cidr4_valid :: "ipv4 \<Rightarrow> nat \<Rightarrow> bool" where
  "cidr4_valid a l \<longleftrightarrow> l \<le> 32 \<and> block_size l dvd unat a"

typedef cidr4 = "{p :: ipv4 \<times> nat. cidr4_valid (fst p) (snd p)}"
  by (rule exI [of _ "(0, 0)"]) (simp add: cidr4_valid_def)

definition cidr4_base :: "cidr4 \<Rightarrow> ipv4" where
  "cidr4_base c = fst (Rep_cidr4 c)"

definition cidr4_len :: "cidr4 \<Rightarrow> nat" where
  "cidr4_len c = snd (Rep_cidr4 c)"

definition cidr4_of :: "ipv4 \<Rightarrow> nat \<Rightarrow> cidr4" where
  "cidr4_of a l = Abs_cidr4 (if cidr4_valid a l then (a, l) else (0, 0))"

lemma cidr4_abs_rep [code abstype]: "Abs_cidr4 (Rep_cidr4 c) = c"
  by (rule Rep_cidr4_inverse)

lemma cidr4_rep_of [code abstract]:
  "Rep_cidr4 (cidr4_of a l) = (if cidr4_valid a l then (a, l) else (0, 0))"
  by (simp add: cidr4_of_def Abs_cidr4_inverse cidr4_valid_def)

lemma cidr4_base_of [simp]: "cidr4_valid a l \<Longrightarrow> cidr4_base (cidr4_of a l) = a"
  by (simp add: cidr4_base_def cidr4_rep_of)

lemma cidr4_len_of [simp]: "cidr4_valid a l \<Longrightarrow> cidr4_len (cidr4_of a l) = l"
  by (simp add: cidr4_len_def cidr4_rep_of)

lemma cidr4_valid_base_len: "cidr4_valid (cidr4_base c) (cidr4_len c)"
  using Rep_cidr4 [of c] by (simp add: cidr4_base_def cidr4_len_def)

lemma cidr4_eq_iff: "c = d \<longleftrightarrow> cidr4_base c = cidr4_base d \<and> cidr4_len c = cidr4_len d"
  by (simp add: cidr4_base_def cidr4_len_def Rep_cidr4_inject [symmetric] prod_eq_iff)

instantiation cidr4 :: linorder
begin

definition less_eq_cidr4 :: "cidr4 \<Rightarrow> cidr4 \<Rightarrow> bool" where
  "less_eq_cidr4 c d \<longleftrightarrow>
     cidr4_base c < cidr4_base d \<or> cidr4_base c = cidr4_base d \<and> cidr4_len c \<le> cidr4_len d"

definition less_cidr4 :: "cidr4 \<Rightarrow> cidr4 \<Rightarrow> bool" where
  "less_cidr4 c d \<longleftrightarrow>
     cidr4_base c < cidr4_base d \<or> cidr4_base c = cidr4_base d \<and> cidr4_len c < cidr4_len d"

instance
proof
  fix c d e :: cidr4
  show "c < d \<longleftrightarrow> c \<le> d \<and> \<not> d \<le> c" "c \<le> c"
    by (auto simp: less_eq_cidr4_def less_cidr4_def)
  show "c \<le> d \<Longrightarrow> d \<le> e \<Longrightarrow> c \<le> e" "c \<le> d \<or> d \<le> c"
    by (auto simp: less_eq_cidr4_def)
  show "c \<le> d \<Longrightarrow> d \<le> c \<Longrightarrow> c = d"
    by (auto simp: less_eq_cidr4_def cidr4_eq_iff)
qed

end

instantiation cidr4 :: equal
begin

definition equal_cidr4 :: "cidr4 \<Rightarrow> cidr4 \<Rightarrow> bool" where
  "equal_cidr4 c d \<longleftrightarrow> cidr4_base c = cidr4_base d \<and> cidr4_len c = cidr4_len d"

instance
  by standard (simp add: equal_cidr4_def cidr4_eq_iff)

end

text \<open>The text form: a dotted quad, a slash and the length.\<close>

definition cidr4_parse :: "string \<Rightarrow> string + cidr4" where
  "cidr4_parse s =
     (case split_on CHR ''/'' s of
        [a, l] \<Rightarrow>
          (case map (parse_uint 255) (split_on CHR ''.'' a) of
             [Some x, Some y, Some z, Some u] \<Rightarrow>
               (case parse_uint 32 l of
                  Some n \<Rightarrow> if cidr4_valid (mk_ipv4 x y z u) n then Inr (cidr4_of (mk_ipv4 x y z u) n)
                            else Inl ''host part of address was not zero''
                | None \<Rightarrow> Inl ''invalid length'')
           | _ \<Rightarrow> Inl ''invalid address'')
      | _ \<Rightarrow> Inl ''invalid address'')"

definition cidr4_ops :: "cidr4 cidr_ops" where
  "cidr4_ops =
     \<lparr>cidr_new = (\<lambda>a l. if cidr4_valid a l then Some (cidr4_of a l) else None),
      first_address = cidr4_base,
      network_length = cidr4_len,
      contains = (\<lambda>c ip. unat (cidr4_base c) \<le> unat ip
                   \<and> unat ip < unat (cidr4_base c) + block_size (cidr4_len c)),
      cidr_to_string = (\<lambda>c. ipv4_to_string (cidr4_base c) @ ''/'' @ dec_str (cidr4_len c)),
      cidr_from_str = cidr4_parse\<rparr>"

lemma dec_str_inj [simp]: "dec_str a = dec_str b \<longleftrightarrow> a = b"
  by (metis dec_value_dec_str)

lemma dec_str_no_dot: "CHR ''.'' \<notin> set (dec_str n)" "CHR ''/'' \<notin> set (dec_str n)"
  using dec_str_digits [of n] by (auto simp: list_all_iff is_ascii_digit_def)

lemma ipv4_to_string_inj: "ipv4_to_string a = ipv4_to_string b \<Longrightarrow> a = b"
proof -
  assume "ipv4_to_string a = ipv4_to_string b"
  then have "split_on CHR ''.'' (join_with ''.'' (map dec_str (octets a)))
      = split_on CHR ''.'' (join_with ''.'' (map dec_str (octets b)))"
    by (simp add: ipv4_to_string_def)
  then have "map dec_str (octets a) = map dec_str (octets b)"
    by (subst (asm) (1 2) split_on_join) (auto simp: octets_def dec_str_no_dot)
  then have "octets a = octets b" by (simp add: octets_def)
  then show "a = b" by (metis mk_ipv4_octets)
qed

lemma ipv4_to_string_no_slash: "CHR ''/'' \<notin> set (ipv4_to_string a)"
  by (auto simp: ipv4_to_string_def octets_def dec_str_no_dot)

lemma cidr4_to_string_inj:
  "cidr_to_string cidr4_ops c = cidr_to_string cidr4_ops d \<Longrightarrow> c = d"
proof -
  assume "cidr_to_string cidr4_ops c = cidr_to_string cidr4_ops d"
  then have "split_on CHR ''/'' (ipv4_to_string (cidr4_base c) @ CHR ''/'' # dec_str (cidr4_len c))
      = split_on CHR ''/'' (ipv4_to_string (cidr4_base d) @ CHR ''/'' # dec_str (cidr4_len d))"
    by (simp add: cidr4_ops_def)
  then have "ipv4_to_string (cidr4_base c) = ipv4_to_string (cidr4_base d)
      \<and> dec_str (cidr4_len c) = dec_str (cidr4_len d)"
    by (simp add: split_on_sep split_on_plain ipv4_to_string_no_slash dec_str_no_dot)
  then show "c = d" by (auto simp: cidr4_eq_iff dest: ipv4_to_string_inj)
qed

interpretation c4: cidr_crate cidr4_ops
proof unfold_locales
  fix c :: cidr4
  show "network_length cidr4_ops c \<le> 32"
    using cidr4_valid_base_len [of c] by (simp add: cidr4_ops_def cidr4_valid_def)
  show "block_size (network_length cidr4_ops c) dvd unat (first_address cidr4_ops c)"
    using cidr4_valid_base_len [of c] by (simp add: cidr4_ops_def cidr4_valid_def)
next
  fix c ip
  show "contains cidr4_ops c ip \<longleftrightarrow>
          unat (first_address cidr4_ops c) \<le> unat ip
          \<and> unat ip < unat (first_address cidr4_ops c) + block_size (network_length cidr4_ops c)"
    by (simp add: cidr4_ops_def)
next
  fix a l c
  show "cidr_new cidr4_ops a l = Some c \<longleftrightarrow>
          l \<le> 32 \<and> block_size l dvd unat a \<and> first_address cidr4_ops c = a
          \<and> network_length cidr4_ops c = l"
    using cidr4_valid_base_len [of c]
    by (auto simp: cidr4_ops_def cidr4_eq_iff) (auto simp: cidr4_valid_def)
next
  fix a l
  assume "l \<le> 32" "block_size l dvd unat (a :: ipv4)"
  then show "cidr_new cidr4_ops a l \<noteq> None" by (simp add: cidr4_ops_def cidr4_valid_def)
next
  fix c d
  assume "cidr_to_string cidr4_ops c = cidr_to_string cidr4_ops d"
  then show "c = d" by (rule cidr4_to_string_inj)
qed

lemma octets_le: "x \<in> set (octets a) \<Longrightarrow> x \<le> 255"
proof -
  have "unat a < 4294967296" using unsigned_less [of a, where ?'a = nat] by simp
  then have "unat a div 16777216 < 256" by (simp add: less_mult_imp_div_less)
  moreover assume "x \<in> set (octets a)"
  ultimately show ?thesis by (auto simp: octets_def)
qed

lemma cidr4_parse_to_string:
  "cidr_from_str cidr4_ops (cidr_to_string cidr4_ops c) = Inr c"
proof -
  let ?a = "cidr4_base c" and ?l = "cidr4_len c"
  have v: "cidr4_valid ?a ?l" by (rule cidr4_valid_base_len)
  have l: "?l \<le> 32" using v by (simp add: cidr4_valid_def)
  obtain x y z u where o: "octets ?a = [x, y, z, u]" by (simp add: octets_def)
  have le: "x \<le> 255" "y \<le> 255" "z \<le> 255" "u \<le> 255" using octets_le [of _ ?a] o by auto
  have ip: "mk_ipv4 x y z u = ?a" using mk_ipv4_octets [of ?a] o by simp
  have slash: "split_on CHR ''/'' (ipv4_to_string ?a @ CHR ''/'' # dec_str ?l) = [ipv4_to_string ?a, dec_str ?l]"
    by (simp add: split_on_sep split_on_plain ipv4_to_string_no_slash dec_str_no_dot)
  have "split_on CHR ''.'' (ipv4_to_string ?a) = map dec_str [x, y, z, u]"
    unfolding ipv4_to_string_def o by (subst split_on_join) (auto simp: dec_str_no_dot)
  then have dots: "map (parse_uint 255) (split_on CHR ''.'' (ipv4_to_string ?a)) = [Some x, Some y, Some z, Some u]"
    using le by (simp add: parse_uint_dec_str)
  have c: "cidr4_of ?a ?l = c" using v by (simp add: cidr4_eq_iff)
  show ?thesis
    using v l c dots by (simp add: cidr4_ops_def cidr4_parse_def slash parse_uint_dec_str ip)
qed

end
