(* ===== verification/Metrics.thy ===== *)
theory Metrics
  imports Prelude
begin

text \<open>
  The traffic counters (\<open>kaonic-vpn/src/vpn/metrics.rs\<close>). \<open>Metrics\<close> is a record of \<open>u64\<close> counters
  (\<open>fetch_add\<close> wraps) and a rate sampler. The operations take the clock reading \<open>now_secs()\<close> as
  an argument. The lemmas give the three branches of \<open>refresh_rates\<close> and show that over a whole
  run of snapshots the reported rates never account for more bits than were counted.
\<close>

definition RATE_WINDOW_SECS :: nat where "RATE_WINDOW_SECS = 1"

record rate_sampler =
  rs_last_ts :: nat
  rs_last_tx_bytes :: nat
  rs_last_rx_bytes :: nat
  rs_tx_bps :: nat
  rs_rx_bps :: nat

record metrics =
  m_tx_packets :: nat
  m_tx_bytes :: nat
  m_rx_packets :: nat
  m_rx_bytes :: nat
  m_drop_packets :: nat
  m_last_tx_ts :: nat
  m_last_rx_ts :: nat
  m_sampler :: rate_sampler

definition default_sampler :: rate_sampler where
  "default_sampler = \<lparr>rs_last_ts = 0, rs_last_tx_bytes = 0, rs_last_rx_bytes = 0,
     rs_tx_bps = 0, rs_rx_bps = 0\<rparr>"

definition default_metrics :: metrics where
  "default_metrics = \<lparr>m_tx_packets = 0, m_tx_bytes = 0, m_rx_packets = 0, m_rx_bytes = 0,
     m_drop_packets = 0, m_last_tx_ts = 0, m_last_rx_ts = 0, m_sampler = default_sampler\<rparr>"

definition record_tx :: "nat \<Rightarrow> nat \<Rightarrow> metrics \<Rightarrow> metrics" where
  "record_tx now n m =
     m\<lparr>m_tx_packets := wrap64 (m_tx_packets m + 1),
       m_tx_bytes := wrap64 (m_tx_bytes m + n),
       m_last_tx_ts := now\<rparr>"

definition record_rx :: "nat \<Rightarrow> nat \<Rightarrow> metrics \<Rightarrow> metrics" where
  "record_rx now n m =
     m\<lparr>m_rx_packets := wrap64 (m_rx_packets m + 1),
       m_rx_bytes := wrap64 (m_rx_bytes m + n),
       m_last_rx_ts := now\<rparr>"

definition record_drop :: "metrics \<Rightarrow> metrics" where
  "record_drop m = m\<lparr>m_drop_packets := wrap64 (m_drop_packets m + 1)\<rparr>"

definition refresh_rates :: "nat \<Rightarrow> nat \<Rightarrow> nat \<Rightarrow> rate_sampler \<Rightarrow> (nat \<times> nat) \<times> rate_sampler" where
  "refresh_rates now tx_bytes rx_bytes s =
     (if rs_last_ts s = 0 then
        ((0, 0), s\<lparr>rs_last_ts := now, rs_last_tx_bytes := tx_bytes, rs_last_rx_bytes := rx_bytes\<rparr>)
      else
        (let elapsed = now - rs_last_ts s in
         if elapsed < RATE_WINDOW_SECS then ((rs_tx_bps s, rs_rx_bps s), s)
         else
           (let tx_delta = tx_bytes - rs_last_tx_bytes s;
                rx_delta = rx_bytes - rs_last_rx_bytes s;
                tx_bps = sat64 (tx_delta * 8) div elapsed;
                rx_bps = sat64 (rx_delta * 8) div elapsed
            in ((tx_bps, rx_bps),
                \<lparr>rs_last_ts = now, rs_last_tx_bytes = tx_bytes, rs_last_rx_bytes = rx_bytes,
                 rs_tx_bps = tx_bps, rs_rx_bps = rx_bps\<rparr>))))"

record metrics_snapshot =
  ms_tx_packets :: nat
  ms_tx_bytes :: nat
  ms_rx_packets :: nat
  ms_rx_bytes :: nat
  ms_drop_packets :: nat
  ms_last_tx_ts :: nat
  ms_last_rx_ts :: nat
  ms_tx_bps :: nat
  ms_rx_bps :: nat

definition metrics_snap :: "nat \<Rightarrow> metrics \<Rightarrow> metrics_snapshot \<times> metrics" where
  "metrics_snap now m =
     (let tx_bytes = m_tx_bytes m;
          rx_bytes = m_rx_bytes m;
          ((tx_bps, rx_bps), s) = refresh_rates now tx_bytes rx_bytes (m_sampler m)
      in (\<lparr>ms_tx_packets = m_tx_packets m, ms_tx_bytes = tx_bytes,
           ms_rx_packets = m_rx_packets m, ms_rx_bytes = rx_bytes,
           ms_drop_packets = m_drop_packets m,
           ms_last_tx_ts = m_last_tx_ts m, ms_last_rx_ts = m_last_rx_ts m,
           ms_tx_bps = tx_bps, ms_rx_bps = rx_bps\<rparr>,
          m\<lparr>m_sampler := s\<rparr>))"

section \<open>The sampler\<close>

lemma refresh_rates_first:
  "rs_last_ts s = 0 \<Longrightarrow> fst (refresh_rates now tx rx s) = (0, 0)"
  by (simp add: refresh_rates_def)

lemma refresh_rates_cached:
  "rs_last_ts s \<noteq> 0 \<Longrightarrow> now \<le> rs_last_ts s \<Longrightarrow>
   refresh_rates now tx rx s = ((rs_tx_bps s, rs_rx_bps s), s)"
  by (simp add: refresh_rates_def RATE_WINDOW_SECS_def)

lemma refresh_rates_window:
  "rs_last_ts s \<noteq> 0 \<Longrightarrow> rs_last_ts s < now \<Longrightarrow>
   refresh_rates now tx rx s =
     ((sat64 ((tx - rs_last_tx_bytes s) * 8) div (now - rs_last_ts s),
       sat64 ((rx - rs_last_rx_bytes s) * 8) div (now - rs_last_ts s)),
      \<lparr>rs_last_ts = now, rs_last_tx_bytes = tx, rs_last_rx_bytes = rx,
       rs_tx_bps = sat64 ((tx - rs_last_tx_bytes s) * 8) div (now - rs_last_ts s),
       rs_rx_bps = sat64 ((rx - rs_last_rx_bytes s) * 8) div (now - rs_last_ts s)\<rparr>)"
  by (simp add: refresh_rates_def RATE_WINDOW_SECS_def Let_def)

text \<open>
  A run of snapshots: each element is the clock and the two byte counters that a snapshot reads.
  \<open>billed\<close> is what the reported transmit rates amount to, rate times the seconds of the window it
  was measured over, summed over the snapshots that open a new window.
\<close>

fun billed :: "(nat \<times> nat \<times> nat) list \<Rightarrow> rate_sampler \<Rightarrow> nat" where
  "billed [] s = 0"
| "billed ((now, tx, rx) # xs) s =
     (let ((tx_bps, _), s') = refresh_rates now tx rx s
      in (if rs_last_ts s = 0 then 0 else tx_bps * (rs_last_ts s' - rs_last_ts s)) + billed xs s')"

lemma sat_div_mult_le: "sat64 a div e * e \<le> a"
proof -
  have "sat64 a div e * e \<le> sat64 a" by simp
  also have "\<dots> \<le> a" by (simp add: sat64_def)
  finally show ?thesis .
qed

lemma billed_bound:
  "rs_last_ts s \<noteq> 0 \<Longrightarrow> sorted (rs_last_tx_bytes s # map (\<lambda>x. fst (snd x)) xs) \<Longrightarrow>
   billed xs s \<le> 8 * (last (rs_last_tx_bytes s # map (\<lambda>x. fst (snd x)) xs) - rs_last_tx_bytes s)"
proof (induction xs arbitrary: s)
  case Nil
  then show ?case by simp
next
  case (Cons x xs)
  obtain now tx rx where x: "x = (now, tx, rx)" by (cases x)
  let ?l = "\<lambda>b. last (b # map (\<lambda>x. fst (snd x)) xs)"
  have le: "rs_last_tx_bytes s \<le> tx" and srt: "sorted (tx # map (\<lambda>x. fst (snd x)) xs)"
    using Cons.prems(2) by (auto simp: x)
  have tl: "tx \<le> ?l tx" using srt by (cases xs) (auto simp: last_map)
  have l: "last (rs_last_tx_bytes s # map (\<lambda>x. fst (snd x)) (x # xs)) = ?l tx" by (simp add: x)
  show ?case
  proof (cases "rs_last_ts s < now")
    case False
    have srt': "sorted (rs_last_tx_bytes s # map (\<lambda>x. fst (snd x)) xs)" using srt le by auto
    have mono: "?l (rs_last_tx_bytes s) \<le> ?l tx" using le by (cases xs) auto
    have "billed (x # xs) s = billed xs s"
      using False Cons.prems(1) by (simp add: x refresh_rates_cached)
    also have "\<dots> \<le> 8 * (?l (rs_last_tx_bytes s) - rs_last_tx_bytes s)"
      using Cons.IH [OF Cons.prems(1) srt'] .
    also have "\<dots> \<le> 8 * (?l tx - rs_last_tx_bytes s)" using mono by simp
    finally show ?thesis unfolding l .
  next
    case True
    let ?e = "now - rs_last_ts s" and ?d = "(tx - rs_last_tx_bytes s) * 8"
    let ?s = "snd (refresh_rates now tx rx s)"
    have s: "rs_last_ts ?s = now" "rs_last_tx_bytes ?s = tx"
      using True Cons.prems(1) by (simp_all add: refresh_rates_window)
    have "billed (x # xs) s = sat64 ?d div ?e * ?e + billed xs ?s"
      using True Cons.prems(1) by (simp add: x refresh_rates_window)
    also have "\<dots> \<le> ?d + 8 * (?l tx - tx)"
      using sat_div_mult_le [of ?d ?e] Cons.IH [of ?s] s srt True by simp
    also have "\<dots> = 8 * (?l tx - rs_last_tx_bytes s)" using le tl by simp
    finally show ?thesis unfolding l .
  qed
qed

lemma record_tx_simps [simp]:
  "m_tx_packets (record_tx now n m) = wrap64 (m_tx_packets m + 1)"
  "m_tx_bytes (record_tx now n m) = wrap64 (m_tx_bytes m + n)"
  "m_rx_packets (record_tx now n m) = m_rx_packets m"
  "m_rx_bytes (record_tx now n m) = m_rx_bytes m"
  "m_drop_packets (record_tx now n m) = m_drop_packets m"
  by (simp_all add: record_tx_def)

lemma record_rx_simps [simp]:
  "m_rx_packets (record_rx now n m) = wrap64 (m_rx_packets m + 1)"
  "m_rx_bytes (record_rx now n m) = wrap64 (m_rx_bytes m + n)"
  "m_tx_packets (record_rx now n m) = m_tx_packets m"
  "m_tx_bytes (record_rx now n m) = m_tx_bytes m"
  "m_drop_packets (record_rx now n m) = m_drop_packets m"
  by (simp_all add: record_rx_def)

lemma record_drop_simps [simp]:
  "m_drop_packets (record_drop m) = wrap64 (m_drop_packets m + 1)"
  "m_tx_packets (record_drop m) = m_tx_packets m"
  "m_rx_packets (record_drop m) = m_rx_packets m"
  by (simp_all add: record_drop_def)

end
