(* ===== verification/Peer.thy ===== *)
theory Peer
  imports Metrics
begin

text \<open>
  Peers and the two registries (\<open>kaonic-vpn/src/vpn/peer.rs\<close> and \<open>links.rs\<close>). A \<open>Peer\<close> is a record
  of its atomics and locked fields, over the types of the crate's hashes \<open>'h\<close>, networks \<open>'c\<close> and
  destination descriptors \<open>'d\<close>. The code shares a peer as \<open>Arc<Peer>\<close> and mutates it in place;
  here an update goes through the registry, \<open>peers_modify\<close>, by the peer's hash.

  The locale \<open>registry\<close> is the contract of a keyed registry, \<open>shared_registry\<close> adds the in-place
  update; both registries of the code are interpreted.
\<close>

section \<open>Peer\<close>

datatype link_state = Configured | Discovered | Pending | Active | Closed | Error

fun link_state_str :: "link_state \<Rightarrow> string" where
  "link_state_str Configured = ''configured''"
| "link_state_str Discovered = ''discovered''"
| "link_state_str Pending = ''pending''"
| "link_state_str Active = ''active''"
| "link_state_str Closed = ''closed''"
| "link_state_str Error = ''error''"

record ('h, 'c, 'd) peer =
  p_hash :: 'h
  p_tunnel_ip :: ipv4
  p_desc :: "'d option"
  p_link_state :: link_state
  p_routes :: "'c list"
  p_last_seen_ts :: nat
  p_route_expires_ts :: nat
  p_last_tx_ts :: nat
  p_reconnect_attempts :: nat
  p_link_attempt_ts :: nat
  p_link_request_in_flight :: bool
  p_reconnect_cooldown_until_ts :: nat
  p_last_error :: "string option"
  p_metrics :: metrics

definition peer_new :: "'h \<Rightarrow> ipv4 \<Rightarrow> link_state \<Rightarrow> ('h, 'c, 'd) peer" where
  "peer_new hash tunnel_ip state =
     \<lparr>p_hash = hash, p_tunnel_ip = tunnel_ip, p_desc = None, p_link_state = state, p_routes = [],
      p_last_seen_ts = 0, p_route_expires_ts = 0, p_last_tx_ts = 0, p_reconnect_attempts = 0,
      p_link_attempt_ts = 0, p_link_request_in_flight = False, p_reconnect_cooldown_until_ts = 0,
      p_last_error = None, p_metrics = default_metrics\<rparr>"

definition mark_link_attempt :: "nat \<Rightarrow> ('h, 'c, 'd) peer \<Rightarrow> ('h, 'c, 'd) peer" where
  "mark_link_attempt now p = p\<lparr>p_link_attempt_ts := now\<rparr>"

definition clear_link_attempt :: "('h, 'c, 'd) peer \<Rightarrow> ('h, 'c, 'd) peer" where
  "clear_link_attempt p = p\<lparr>p_link_attempt_ts := 0\<rparr>"

definition try_begin_link_request :: "('h, 'c, 'd) peer \<Rightarrow> bool \<times> ('h, 'c, 'd) peer" where
  "try_begin_link_request p =
     (if p_link_request_in_flight p then (False, p) else (True, p\<lparr>p_link_request_in_flight := True\<rparr>))"

definition finish_link_request :: "('h, 'c, 'd) peer \<Rightarrow> ('h, 'c, 'd) peer" where
  "finish_link_request p = p\<lparr>p_link_request_in_flight := False\<rparr>"

definition set_reconnect_cooldown :: "nat \<Rightarrow> nat \<Rightarrow> ('h, 'c, 'd) peer \<Rightarrow> ('h, 'c, 'd) peer" where
  "set_reconnect_cooldown now delay_secs p =
     p\<lparr>p_reconnect_cooldown_until_ts := sat64 (now + delay_secs)\<rparr>"

definition clear_reconnect_cooldown :: "('h, 'c, 'd) peer \<Rightarrow> ('h, 'c, 'd) peer" where
  "clear_reconnect_cooldown p = p\<lparr>p_reconnect_cooldown_until_ts := 0\<rparr>"

definition set_state :: "link_state \<Rightarrow> ('h, 'c, 'd) peer \<Rightarrow> ('h, 'c, 'd) peer" where
  "set_state s p = p\<lparr>p_link_state := s\<rparr>"

definition mark_seen :: "nat \<Rightarrow> ('h, 'c, 'd) peer \<Rightarrow> ('h, 'c, 'd) peer" where
  "mark_seen now p = p\<lparr>p_last_seen_ts := now\<rparr>"

definition mark_tx :: "nat \<Rightarrow> ('h, 'c, 'd) peer \<Rightarrow> ('h, 'c, 'd) peer" where
  "mark_tx now p = p\<lparr>p_last_tx_ts := now\<rparr>"

definition set_peer_error :: "string \<Rightarrow> ('h, 'c, 'd) peer \<Rightarrow> ('h, 'c, 'd) peer" where
  "set_peer_error msg p = p\<lparr>p_last_error := Some msg\<rparr>"

definition clear_error :: "('h, 'c, 'd) peer \<Rightarrow> ('h, 'c, 'd) peer" where
  "clear_error p = p\<lparr>p_last_error := None\<rparr>"

definition set_routes :: "'c list \<Rightarrow> ('h, 'c, 'd) peer \<Rightarrow> ('h, 'c, 'd) peer" where
  "set_routes rs p = p\<lparr>p_routes := rs\<rparr>"

definition set_desc :: "'d \<Rightarrow> ('h, 'c, 'd) peer \<Rightarrow> ('h, 'c, 'd) peer" where
  "set_desc d p = p\<lparr>p_desc := Some d\<rparr>"

lemmas peer_ops = mark_link_attempt_def clear_link_attempt_def finish_link_request_def
  set_reconnect_cooldown_def clear_reconnect_cooldown_def set_state_def mark_seen_def mark_tx_def
  set_peer_error_def clear_error_def set_routes_def set_desc_def

text \<open>Atomicity of the request guard: of two attempts with no \<open>finish\<close> between, only one wins.\<close>

lemma try_begin_once:
  "try_begin_link_request p = (True, p') \<Longrightarrow> fst (try_begin_link_request p') = False"
  by (auto simp: try_begin_link_request_def split: if_splits)

section \<open>The contract of a registry\<close>

locale registry =
  fixes inv :: "'m \<Rightarrow> bool"
    and owns :: "'k \<Rightarrow> 'v \<Rightarrow> bool"
    and emp :: 'm
    and get :: "'k \<Rightarrow> 'm \<Rightarrow> 'v option"
    and ins :: "'k \<Rightarrow> 'v \<Rightarrow> 'm \<Rightarrow> 'm"
    and rem :: "'k \<Rightarrow> 'm \<Rightarrow> 'm"
  assumes inv_emp: "inv emp"
    and get_emp: "get k emp = None"
    and inv_ins: "inv m \<Longrightarrow> owns k v \<Longrightarrow> inv (ins k v m)"
    and get_ins: "inv m \<Longrightarrow> owns k v \<Longrightarrow> get k' (ins k v m) = (if k' = k then Some v else get k' m)"
    and inv_rem: "inv m \<Longrightarrow> inv (rem k m)"
    and get_rem: "inv m \<Longrightarrow> get k' (rem k m) = (if k' = k then None else get k' m)"
    and get_owns: "inv m \<Longrightarrow> get k m = Some v \<Longrightarrow> owns k v"
begin

text \<open>Removing a list of keys, and inserting made-up values for the keys that are absent.\<close>

lemma inv_rem_all: "inv m \<Longrightarrow> inv (fold rem ks m)"
  by (induction ks arbitrary: m) (auto simp: inv_rem)

lemma get_rem_all:
  "inv m \<Longrightarrow> get k (fold rem ks m) = (if k \<in> set ks then None else get k m)"
  by (induction ks arbitrary: m) (auto simp: inv_rem get_rem)

definition add_missing :: "('k \<Rightarrow> 'v) \<Rightarrow> 'k list \<Rightarrow> 'm \<Rightarrow> 'm" where
  "add_missing mk ks m = fold (\<lambda>k m. if get k m = None then ins k (mk k) m else m) ks m"

lemma add_missing_simps [simp]:
  "add_missing mk [] m = m"
  "add_missing mk (k # ks) m = add_missing mk ks (if get k m = None then ins k (mk k) m else m)"
  by (simp_all add: add_missing_def)

lemma inv_add_missing: "inv m \<Longrightarrow> (\<And>k. owns k (mk k)) \<Longrightarrow> inv (add_missing mk ks m)"
  by (induction ks arbitrary: m) (auto simp: inv_ins)

lemma get_add_missing:
  "inv m \<Longrightarrow> (\<And>k. owns k (mk k)) \<Longrightarrow>
   get k (add_missing mk ks m) =
     (if get k m = None \<and> k \<in> set ks then Some (mk k) else get k m)"
  by (induction ks arbitrary: m) (auto simp: inv_ins get_ins)

end

locale shared_registry = registry inv owns emp get ins rem
  for inv :: "'m \<Rightarrow> bool" and owns :: "'k \<Rightarrow> 'v \<Rightarrow> bool" and emp get ins rem +
  fixes upd :: "'k \<Rightarrow> ('v \<Rightarrow> 'v) \<Rightarrow> 'm \<Rightarrow> 'm"
    and vals :: "'m \<Rightarrow> 'v list"
  assumes inv_upd: "inv m \<Longrightarrow> (\<And>v. owns k v \<Longrightarrow> owns k (f v)) \<Longrightarrow> inv (upd k f m)"
    and get_upd: "get k' (upd k f m) = (if k' = k then map_option f (get k m) else get k' m)"
    and vals_iff: "inv m \<Longrightarrow> v \<in> set (vals m) \<longleftrightarrow> (\<exists>k. get k m = Some v)"
begin

lemma upd_absent: "get k m = None \<Longrightarrow> get k' (upd k f m) = get k' m"
  by (auto simp: get_upd)

lemma vals_upd:
  assumes "inv m" "\<And>v. owns k v \<Longrightarrow> owns k (f v)" "w \<in> set (vals (upd k f m))"
  shows "\<exists>v\<in>set (vals m). w = v \<or> owns k v \<and> w = f v"
proof -
  from assms obtain k' where "get k' (upd k f m) = Some w" using vals_iff inv_upd by blast
  then obtain v where "get k' m = Some v" "w = v \<or> k' = k \<and> w = f v"
    by (auto simp: get_upd split: if_splits)
  then show ?thesis using assms(1) get_owns vals_iff by blast
qed

end

section \<open>The two registries\<close>

type_synonym ('h, 'c, 'd) peer_registry = "('h \<times> ('h, 'c, 'd) peer) list"
type_synonym ('h, 'l) link_registry = "('h \<times> 'l) list"

definition peers_new :: "('h, 'c, 'd) peer_registry" where
  "peers_new = []"

definition peers_insert :: "('h, 'c, 'd) peer \<Rightarrow> ('h, 'c, 'd) peer_registry \<Rightarrow> ('h, 'c, 'd) peer_registry" where
  "peers_insert p m = AList.update (p_hash p) p m"

definition peers_get :: "'h \<Rightarrow> ('h, 'c, 'd) peer_registry \<Rightarrow> ('h, 'c, 'd) peer option" where
  "peers_get h m = map_of m h"

definition peers_get_or_create ::
    "'h \<Rightarrow> ('h, 'c, 'd) peer \<Rightarrow> ('h, 'c, 'd) peer_registry
       \<Rightarrow> ('h, 'c, 'd) peer \<times> ('h, 'c, 'd) peer_registry" where
  "peers_get_or_create h new m =
     (case map_of m h of Some p \<Rightarrow> (p, m) | None \<Rightarrow> (new, AList.update h new m))"

definition peers_all :: "('h, 'c, 'd) peer_registry \<Rightarrow> ('h, 'c, 'd) peer list" where
  "peers_all m = map snd m"

definition peers_remove :: "'h \<Rightarrow> ('h, 'c, 'd) peer_registry \<Rightarrow> ('h, 'c, 'd) peer_registry" where
  "peers_remove h m = AList.delete h m"

text \<open>A write through a shared \<open>Arc<Peer>\<close> of the registry.\<close>

definition peers_modify ::
    "'h \<Rightarrow> (('h, 'c, 'd) peer \<Rightarrow> ('h, 'c, 'd) peer) \<Rightarrow> ('h, 'c, 'd) peer_registry
       \<Rightarrow> ('h, 'c, 'd) peer_registry" where
  "peers_modify h f m = hm_modify h f m"

definition links_new :: "('h, 'l) link_registry" where
  "links_new = []"

definition links_get :: "'h \<Rightarrow> ('h, 'l) link_registry \<Rightarrow> 'l option" where
  "links_get h m = map_of m h"

definition links_insert :: "'h \<Rightarrow> 'l \<Rightarrow> ('h, 'l) link_registry \<Rightarrow> ('h, 'l) link_registry" where
  "links_insert h l m = AList.update h l m"

definition links_remove :: "'h \<Rightarrow> ('h, 'l) link_registry \<Rightarrow> ('h, 'l) link_registry" where
  "links_remove h m = AList.delete h m"

definition peers_inv :: "('h, 'c, 'd) peer_registry \<Rightarrow> bool" where
  "peers_inv m \<longleftrightarrow> distinct (keys m) \<and> (\<forall>(h, p)\<in>set m. p_hash p = h)"

interpretation pr: shared_registry "peers_inv :: ('h, 'c, 'd) peer_registry \<Rightarrow> bool" "\<lambda>h p. p_hash p = h" peers_new peers_get
  "\<lambda>h. peers_insert" peers_remove peers_modify peers_all
proof unfold_locales
  fix m :: "('h, 'c, 'd) peer_registry" and k and v :: "('h, 'c, 'd) peer"
  assume i: "peers_inv m" and v: "p_hash v = k"
  then show "peers_inv (peers_insert v m)"
    by (auto simp: peers_inv_def peers_insert_def in_set_update_distinct split: if_splits)
next
  fix m :: "('h, 'c, 'd) peer_registry" and k and f :: "('h, 'c, 'd) peer \<Rightarrow> ('h, 'c, 'd) peer"
  assume "peers_inv m" and "\<And>v :: ('h, 'c, 'd) peer. p_hash v = k \<Longrightarrow> p_hash (f v) = k"
  then show "peers_inv (peers_modify k f m)"
    by (auto simp: peers_inv_def peers_modify_def in_set_hm_modify split: if_splits) blast+
next
  fix m :: "('h, 'c, 'd) peer_registry" and v :: "('h, 'c, 'd) peer"
  assume "peers_inv m"
  then show "v \<in> set (peers_all m) \<longleftrightarrow> (\<exists>k. peers_get k m = Some v)"
    by (force simp: peers_inv_def peers_all_def peers_get_def)
next
  fix m :: "('h, 'c, 'd) peer_registry" and k and v :: "('h, 'c, 'd) peer"
  assume "peers_inv m" "peers_get k m = Some v"
  then show "p_hash v = k" by (auto simp: peers_inv_def peers_get_def dest: map_of_SomeD)
qed (auto simp: peers_inv_def peers_new_def peers_get_def peers_insert_def peers_remove_def
       peers_modify_def in_set_delete_iff)

interpretation lr: registry "\<lambda>m. distinct (keys m)" "\<lambda>h l. True" links_new links_get
  links_insert links_remove
  by unfold_locales (auto simp: links_new_def links_get_def links_insert_def links_remove_def)

lemma peers_inv_get_or_create:
  "peers_inv m \<Longrightarrow> p_hash new = h \<Longrightarrow> peers_inv (snd (peers_get_or_create h new m))"
  using pr.inv_ins [of m new h]
  by (auto simp: peers_get_or_create_def peers_insert_def split: option.splits)

lemma peers_get_get_or_create:
  "peers_get k (snd (peers_get_or_create h new m)) =
     (if k = h \<and> peers_get h m = None then Some new else peers_get k m)"
  by (auto simp: peers_get_or_create_def peers_get_def split: option.splits)

lemma peers_get_hash: "peers_inv m \<Longrightarrow> peers_get h m = Some p \<Longrightarrow> p_hash p = h"
  by (rule pr.get_owns)

lemma peers_all_get:
  "peers_inv m \<Longrightarrow> p \<in> set (peers_all m) \<longleftrightarrow> peers_get (p_hash p) m = Some p"
  using pr.vals_iff pr.get_owns by metis

lemma peers_all_hash:
  assumes "peers_inv m"
  shows "(\<exists>p\<in>set (peers_all m). p_hash p = h) \<longleftrightarrow> peers_get h m \<noteq> None"
proof
  assume "\<exists>p\<in>set (peers_all m). p_hash p = h"
  then show "peers_get h m \<noteq> None" using peers_all_get [OF assms] by auto
next
  assume "peers_get h m \<noteq> None"
  then obtain p where "peers_get h m = Some p" by auto
  with peers_get_hash [OF assms this] peers_all_get [OF assms, of p]
  show "\<exists>p\<in>set (peers_all m). p_hash p = h" by auto
qed

lemma distinct_hashes: "peers_inv m \<Longrightarrow> distinct (map p_hash (peers_all m))"
proof -
  assume i: "peers_inv m"
  then have "map p_hash (peers_all m) = keys m"
    by (auto simp: peers_inv_def peers_all_def)
  with i show ?thesis by (simp add: peers_inv_def)
qed

end
