(* ===== verification/Router.thy ===== *)
theory Router
  imports Ip Peer
begin

text \<open>
  The forwarding table (\<open>kaonic-vpn/src/vpn/router.rs\<close>). \<open>RouteTable::build\<close> folds over the peers and
  keeps three containers, the direct tunnel addresses, the claimed networks and the conflicting
  ones. The abstract view of a build is the relation \<open>claims\<close>: which live, non-local peer announces
  which network. The lemmas show that the table holds exactly the networks with a unique claimant
  and that \<open>resolve\<close> is a longest-prefix match which does not depend on the order of the peers.
\<close>

record ('h, 'c) route_table =
  tunnel_ips :: "(ipv4 \<times> 'h) list"
  subnets :: "('c \<times> 'h) list"

definition empty_table :: "('h, 'c) route_table" where
  "empty_table = \<lparr>tunnel_ips = [], subnets = []\<rparr>"

definition claim_route ::
    "'c cidr_ops \<Rightarrow> ipv4 \<Rightarrow> 'h \<Rightarrow> 'c \<Rightarrow> ('c \<times> 'h) list \<times> 'c set \<Rightarrow> ('c \<times> 'h) list \<times> 'c set" where
  "claim_route C local_tunnel_ip hash route st =
     (case st of (claimed, conflicts) \<Rightarrow>
        if contains C route local_tunnel_ip then (claimed, insert route conflicts)
        else (case map_of claimed route of
                Some existing \<Rightarrow>
                  if existing \<noteq> hash then (claimed, insert route conflicts) else (claimed, conflicts)
              | None \<Rightarrow> (AList.update route hash claimed, conflicts)))"

definition build_peer ::
    "'c cidr_ops \<Rightarrow> nat \<Rightarrow> 'h \<Rightarrow> ipv4 \<Rightarrow> ('h, 'c, 'd) peer
       \<Rightarrow> (ipv4 \<times> 'h) list \<times> ('c \<times> 'h) list \<times> 'c set
       \<Rightarrow> (ipv4 \<times> 'h) list \<times> ('c \<times> 'h) list \<times> 'c set" where
  "build_peer C now local_hash local_tunnel_ip p st =
     (case st of (tips, claims) \<Rightarrow>
        if p_hash p = local_hash then (tips, claims)
        else
          (let tips = AList.update (p_tunnel_ip p) (p_hash p) tips;
               expires = p_route_expires_ts p
           in if expires \<noteq> 0 \<and> expires \<le> now then (tips, claims)
              else (tips, fold (claim_route C local_tunnel_ip (p_hash p)) (p_routes p) claims)))"

definition build ::
    "'c cidr_ops \<Rightarrow> ('h, 'c, 'd) peer list \<Rightarrow> nat \<Rightarrow> 'h \<Rightarrow> ipv4 \<Rightarrow> ('h, 'c) route_table" where
  "build C peers now local_hash local_tunnel_ip =
     (case fold (build_peer C now local_hash local_tunnel_ip) peers ([], [], {}) of
        (tips, claimed, conflicts) \<Rightarrow>
          \<lparr>tunnel_ips = tips,
           subnets = sort_key (\<lambda>(r, _). - int (network_length C r))
                       (filter (\<lambda>(r, _). r \<notin> conflicts) claimed)\<rparr>)"

definition resolve :: "'c cidr_ops \<Rightarrow> ('h, 'c) route_table \<Rightarrow> ipv4 \<Rightarrow> 'h option" where
  "resolve C t ip =
     (case map_of (tunnel_ips t) ip of
        Some hash \<Rightarrow> Some hash
      | None \<Rightarrow> map_option snd (find (\<lambda>(subnet, owner). contains C subnet ip) (subnets t)))"

section \<open>The abstract view\<close>

definition live_claim :: "nat \<Rightarrow> ('h, 'c, 'd) peer \<Rightarrow> bool" where
  "live_claim now p \<longleftrightarrow> p_route_expires_ts p = 0 \<or> now < p_route_expires_ts p"

definition claims :: "('h, 'c, 'd) peer list \<Rightarrow> nat \<Rightarrow> 'h \<Rightarrow> 'c \<Rightarrow> 'h \<Rightarrow> bool" where
  "claims peers now local_hash r h \<longleftrightarrow>
     (\<exists>p\<in>set peers. p_hash p = h \<and> h \<noteq> local_hash \<and> live_claim now p \<and> r \<in> set (p_routes p))"

definition claim_list :: "('h, 'c, 'd) peer list \<Rightarrow> nat \<Rightarrow> 'h \<Rightarrow> ('h \<times> 'c) list" where
  "claim_list peers now local_hash =
     concat (map (\<lambda>p. if p_hash p \<noteq> local_hash \<and> live_claim now p
                      then map (Pair (p_hash p)) (p_routes p) else []) peers)"

lemma claims_claim_list: "claims peers now lh r h \<longleftrightarrow> (h, r) \<in> set (claim_list peers now lh)"
  by (auto simp: claims_def claim_list_def split: if_splits)

lemma fold_claim_map:
  "fold (\<lambda>(h, r). claim_route C lip h r) (map (Pair h) rs) st = fold (claim_route C lip h) rs st"
  by (induction rs arbitrary: st) auto

lemma build_fold_claims:
  "snd (fold (build_peer C now lh lip) peers st) =
     fold (\<lambda>(h, r). claim_route C lip h r) (claim_list peers now lh) (snd st)"
proof (induction peers arbitrary: st)
  case Nil
  then show ?case by (simp add: claim_list_def)
next
  case (Cons p peers)
  have "snd (build_peer C now lh lip p st) =
      fold (\<lambda>(h, r). claim_route C lip h r) (claim_list [p] now lh) (snd st)"
    by (auto simp: build_peer_def claim_list_def live_claim_def Let_def fold_claim_map split: prod.splits)
  moreover have "claim_list (p # peers) now lh = claim_list [p] now lh @ claim_list peers now lh"
    by (simp add: claim_list_def)
  ultimately show ?case using Cons.IH by simp
qed

lemma build_fold_tips:
  "fst (fold (build_peer C now lh lip) peers st) =
     fold (\<lambda>p. AList.update (p_tunnel_ip p) (p_hash p)) (filter (\<lambda>p. p_hash p \<noteq> lh) peers) (fst st)"
  by (induction peers arbitrary: st) (auto simp: build_peer_def Let_def split: prod.splits)

text \<open>What the claim fold knows about one network after a list of claims, and about all.\<close>

definition claim_ok :: "'c cidr_ops \<Rightarrow> ipv4 \<Rightarrow> ('h \<times> 'c) set \<Rightarrow> 'c \<Rightarrow> 'h option \<Rightarrow> bool \<Rightarrow> bool" where
  "claim_ok C lip S r owner conflict \<longleftrightarrow>
     (if contains C r lip then owner = None
      else (case owner of
              None \<Rightarrow> (\<forall>h. (h, r) \<notin> S) \<and> \<not> conflict
            | Some h \<Rightarrow> (h, r) \<in> S \<and> (conflict \<longleftrightarrow> (\<exists>h'. (h', r) \<in> S \<and> h' \<noteq> h))))"

definition claim_inv ::
    "'c cidr_ops \<Rightarrow> ipv4 \<Rightarrow> ('h \<times> 'c) list \<Rightarrow> ('c \<times> 'h) list \<times> 'c set \<Rightarrow> bool" where
  "claim_inv C lip seen st \<longleftrightarrow>
     distinct (keys (fst st)) \<and> (\<forall>r. claim_ok C lip (set seen) r (map_of (fst st) r) (r \<in> snd st))"

lemma claim_route_other:
  "r' \<noteq> r \<Longrightarrow> map_of (fst (claim_route C lip h r st)) r' = map_of (fst st) r'
     \<and> (r' \<in> snd (claim_route C lip h r st) \<longleftrightarrow> r' \<in> snd st)"
  by (auto simp: claim_route_def split: prod.splits option.splits)

lemma claim_route_same:
  assumes "claim_ok C lip S r (map_of (fst st) r) (r \<in> snd st)"
  shows "claim_ok C lip (insert (h, r) S) r
     (map_of (fst (claim_route C lip h r st)) r) (r \<in> snd (claim_route C lip h r st))"
proof -
  obtain cl cf where st: "st = (cl, cf)" by (cases st)
  show ?thesis
  proof (cases "contains C r lip")
    case True
    with assms show ?thesis by (simp add: st claim_ok_def claim_route_def)
  next
    case nc: False
    show ?thesis
    proof (cases "map_of cl r")
      case None
      with assms nc show ?thesis by (simp add: st claim_ok_def claim_route_def)
    next
      case (Some e)
      with assms nc show ?thesis by (cases "e = h") (auto simp: st claim_ok_def claim_route_def)
    qed
  qed
qed

lemma claim_ok_other:
  "r' \<noteq> r \<Longrightarrow> claim_ok C lip (insert (h, r) S) r' = claim_ok C lip S r'"
  by (intro ext) (simp add: claim_ok_def split: option.split)

lemma claim_inv_step:
  assumes i: "claim_inv C lip seen st"
  shows "claim_inv C lip (seen @ [(h, r)]) (claim_route C lip h r st)"
proof -
  have "claim_ok C lip (insert (h, r) (set seen)) r'
      (map_of (fst (claim_route C lip h r st)) r') (r' \<in> snd (claim_route C lip h r st))" for r'
  proof (cases "r' = r")
    case True
    then show ?thesis using claim_route_same [of C lip "set seen" r st h] i by (simp add: claim_inv_def)
  next
    case False
    with i have "claim_ok C lip (set seen) r' (map_of (fst st) r') (r' \<in> snd st)"
      by (simp add: claim_inv_def)
    then show ?thesis using claim_route_other [OF False, of C lip h st]
      by (simp add: claim_ok_other [OF False])
  qed
  moreover have "distinct (keys (fst (claim_route C lip h r st)))"
    using i by (auto simp: claim_inv_def claim_route_def split: prod.splits option.splits)
  ultimately show ?thesis by (simp add: claim_inv_def)
qed

lemma claim_inv_fold:
  "claim_inv C lip seen st \<Longrightarrow>
   claim_inv C lip (seen @ cs) (fold (\<lambda>(h, r). claim_route C lip h r) cs st)"
proof (induction cs arbitrary: seen st)
  case Nil
  then show ?case by simp
next
  case (Cons c cs)
  obtain h r where c: "c = (h, r)" by (cases c)
  show ?case
    using Cons.IH [OF claim_inv_step [OF Cons.prems, of h r]] by (simp add: c)
qed

lemma claim_inv_build:
  "claim_inv C lip (claim_list peers now lh) (snd (fold (build_peer C now lh lip) peers ([], [], {})))"
proof -
  have "claim_inv C lip [] ([], {})" by (simp add: claim_inv_def claim_ok_def)
  from claim_inv_fold [OF this, of "claim_list peers now lh"]
  show ?thesis by (simp add: build_fold_claims)
qed

text \<open>The table holds exactly the networks that one live peer, and only one, claims.\<close>

lemma subnets_build_iff:
  "(r, h) \<in> set (subnets (build C peers now lh lip)) \<longleftrightarrow>
     \<not> contains C r lip \<and> claims peers now lh r h \<and> (\<forall>h'. claims peers now lh r h' \<longrightarrow> h' = h)"
proof -
  obtain tips cl cf where st: "fold (build_peer C now lh lip) peers ([], [], {}) = (tips, cl, cf)"
    by (cases "fold (build_peer C now lh lip) peers ([], [], {})")
  have i: "claim_inv C lip (claim_list peers now lh) (cl, cf)"
    using claim_inv_build [of C lip peers now lh] st by simp
  have "(r, h) \<in> set (subnets (build C peers now lh lip)) \<longleftrightarrow> (r, h) \<in> set cl \<and> r \<notin> cf"
    by (auto simp: build_def st)
  also have "\<dots> \<longleftrightarrow> map_of cl r = Some h \<and> r \<notin> cf"
    using i by (auto simp: claim_inv_def dest: map_of_SomeD)
  also have "\<dots> \<longleftrightarrow> \<not> contains C r lip \<and> (h, r) \<in> set (claim_list peers now lh)
      \<and> (\<forall>h'. (h', r) \<in> set (claim_list peers now lh) \<longrightarrow> h' = h)"
  proof -
    have "claim_ok C lip (set (claim_list peers now lh)) r (map_of cl r) (r \<in> cf)"
      using i by (simp add: claim_inv_def)
    then show ?thesis by (auto simp: claim_ok_def split: if_splits option.splits)
  qed
  finally show ?thesis by (simp add: claims_claim_list)
qed

lemma subnets_build_sorted:
  "sorted (map (\<lambda>(r, _). - int (network_length C r)) (subnets (build C peers now lh lip)))"
  by (simp add: build_def split: prod.splits)

lemma fold_update_map_of:
  "map_of (fold (\<lambda>p. AList.update (f p) (g p)) ps m) k =
     (case find (\<lambda>p. f p = k) (rev ps) of Some p \<Rightarrow> Some (g p) | None \<Rightarrow> map_of m k)"
proof (induction ps rule: rev_induct)
  case Nil
  then show ?case by simp
next
  case (snoc p ps)
  then show ?case by (simp split: option.splits)
qed

lemma tunnel_ips_build:
  "map_of (tunnel_ips (build C peers now lh lip)) ip =
     map_option p_hash (find (\<lambda>p. p_tunnel_ip p = ip) (rev (filter (\<lambda>p. p_hash p \<noteq> lh) peers)))"
proof -
  have "tunnel_ips (build C peers now lh lip) =
      fold (\<lambda>p. AList.update (p_tunnel_ip p) (p_hash p)) (filter (\<lambda>p. p_hash p \<noteq> lh) peers) []"
    using build_fold_tips [of C now lh lip peers "([], [], {})"]
    by (auto simp: build_def split: prod.splits)
  then show ?thesis by (simp add: fold_update_map_of split: option.splits)
qed

lemma find_in_set: "find P xs = Some x \<Longrightarrow> x \<in> set xs \<and> P x"
  by (auto simp: find_Some_iff)

lemma tunnel_ips_build_Some:
  "map_of (tunnel_ips (build C peers now lh lip)) ip = Some h \<Longrightarrow>
   \<exists>p\<in>set peers. p_hash p = h \<and> h \<noteq> lh \<and> p_tunnel_ip p = ip"
  by (auto simp: tunnel_ips_build dest!: find_in_set)

lemma tunnel_ips_build_None:
  "map_of (tunnel_ips (build C peers now lh lip)) ip = None \<longleftrightarrow>
   (\<forall>p\<in>set peers. p_hash p \<noteq> lh \<longrightarrow> p_tunnel_ip p \<noteq> ip)"
  by (auto simp: tunnel_ips_build find_None_iff)

section \<open>Longest-prefix match\<close>

lemma find_sorted_least:
  assumes "sorted (map k xs)" "find P xs = Some x" "y \<in> set xs" "P y"
  shows "k x \<le> k y"
  using assms by (induction xs) (auto split: if_splits)

text \<open>\<open>lpm\<close>: the entries of the table that contain the address and are longest.\<close>

definition lpm :: "'c cidr_ops \<Rightarrow> ('c \<times> 'h) set \<Rightarrow> ipv4 \<Rightarrow> ('c \<times> 'h) set" where
  "lpm C S ip = {(r, h) \<in> S. contains C r ip \<and>
     (\<forall>(r', h') \<in> S. contains C r' ip \<longrightarrow> network_length C r' \<le> network_length C r)}"

lemma lpm_unique:
  assumes "cidr_crate C" "(r, h) \<in> lpm C S ip" "(r', h') \<in> lpm C S ip"
  shows "r = r'"
  using assms by (intro cidr_crate.same_length_unique [OF assms(1)]) (fastforce simp: lpm_def)+

lemma resolve_lpm:
  assumes c: "cidr_crate C" and s: "sorted (map (\<lambda>(r, _). - int (network_length C r)) (subnets t))"
    and u: "\<And>r h h'. (r, h) \<in> set (subnets t) \<Longrightarrow> (r, h') \<in> set (subnets t) \<Longrightarrow> h = h'"
    and n: "map_of (tunnel_ips t) ip = None"
  shows "resolve C t ip = Some h \<longleftrightarrow> (\<exists>r. (r, h) \<in> lpm C (set (subnets t)) ip)"
proof -
  let ?f = "find (\<lambda>(r, h). contains C r ip) (subnets t)"
  have r: "resolve C t ip = map_option snd ?f" by (simp add: resolve_def n)
  have found: "(r, h) \<in> lpm C (set (subnets t)) ip" if "?f = Some (r, h)" for r h
    using that find_in_set [OF that] find_sorted_least [OF s that] by (auto simp: lpm_def)
  show ?thesis
  proof
    assume "resolve C t ip = Some h"
    then show "\<exists>r. (r, h) \<in> lpm C (set (subnets t)) ip" using found r by auto
  next
    assume "\<exists>r. (r, h) \<in> lpm C (set (subnets t)) ip"
    then obtain r where l: "(r, h) \<in> lpm C (set (subnets t)) ip" ..
    then have "?f \<noteq> None" by (auto simp: lpm_def find_None_iff)
    then obtain r' h' where f: "?f = Some (r', h')" by auto
    from lpm_unique [OF c l found [OF f]] have "r' = r" by simp
    with u [of r h h'] l found [OF f] have "h' = h" by (auto simp: lpm_def)
    with f r show "resolve C t ip = Some h" by simp
  qed
qed

lemma subnets_build_functional:
  "(r, h) \<in> set (subnets (build C peers now lh lip)) \<Longrightarrow>
   (r, h') \<in> set (subnets (build C peers now lh lip)) \<Longrightarrow> h = h'"
  by (auto simp: subnets_build_iff)

lemma resolve_build_lpm:
  "cidr_crate C \<Longrightarrow> (\<forall>p\<in>set peers. p_hash p \<noteq> lh \<longrightarrow> p_tunnel_ip p \<noteq> ip) \<Longrightarrow>
   resolve C (build C peers now lh lip) ip = Some h \<longleftrightarrow>
     (\<exists>r. (r, h) \<in> lpm C (set (subnets (build C peers now lh lip))) ip)"
  using tunnel_ips_build_None [of C peers now lh lip ip]
  by (intro resolve_lpm) (auto simp: subnets_build_sorted intro: subnets_build_functional)

lemma resolve_peer:
  assumes "resolve C (build C peers now lh lip) ip = Some h"
  shows "\<exists>p\<in>set peers. p_hash p = h \<and> h \<noteq> lh \<and>
    (p_tunnel_ip p = ip \<or> live_claim now p \<and> (\<exists>r\<in>set (p_routes p). contains C r ip \<and> \<not> contains C r lip))"
proof (cases "map_of (tunnel_ips (build C peers now lh lip)) ip")
  case (Some h')
  then show ?thesis using assms tunnel_ips_build_Some [OF Some] by (auto simp: resolve_def)
next
  case None
  with assms obtain r where "(r, h) \<in> set (subnets (build C peers now lh lip))" "contains C r ip"
    by (auto simp: resolve_def dest!: find_in_set)
  then show ?thesis by (auto simp: subnets_build_iff claims_def)
qed

lemma set_subnets_build_cong:
  "set peers = set peers' \<Longrightarrow>
   set (subnets (build C peers now lh lip)) = set (subnets (build C peers' now lh lip))"
  by (auto simp: subnets_build_iff claims_def)

end
