(* ===== verification/Platform.thy ===== *)
theory Platform
  imports Ip
begin

text \<open>
  The \<open>ip\<close> and \<open>iptables\<close> bindings (\<open>kaonic-vpn/src/vpn/platform.rs\<close>, the Linux variant) and the
  constants of \<open>tun.rs\<close>. Running a process is the parameter \<open>exec\<close>: a command with its arguments
  on a world \<open>'w\<close> gives an I/O error or the process's output, and the next world. An
  \<open>std::io::Error\<close> is the string it displays as. The locale \<open>kernel\<close> states what \<open>ip route\<close>,
  \<open>iptables -F\<close> and \<open>iptables -A\<close> document about a successful run; its lemmas say which routes and
  which NETMAP rules a successful synchronisation leaves in the kernel.
\<close>

definition TUN_MTU :: nat where "TUN_MTU = 1400"

definition TCP_MSS :: nat where "TCP_MSS = TUN_MTU - 40"

record proc_output =
  po_success :: bool
  po_stdout :: bytes
  po_stderr :: bytes

record 'w os =
  exec :: "string \<Rightarrow> string list \<Rightarrow> 'w \<Rightarrow> (string + proc_output) \<times> 'w"

record 'c local_route_translation =
  lrt_local :: 'c
  lrt_exported :: 'c

definition run :: "'w os \<Rightarrow> string \<Rightarrow> string list \<Rightarrow> ('w, string) action" where
  "run sh cmd args w =
     (case exec sh cmd args w of
        (Inl e, w') \<Rightarrow> (Inl e, w')
      | (Inr out, w') \<Rightarrow>
          if po_success out then (Inr (), w')
          else (Inl (cmd @ '' '' @ join_with '' '' args @ '' failed: ''
                     @ trim (from_utf8_lossy (po_stderr out))), w'))"

definition run_ip :: "'w os \<Rightarrow> string list \<Rightarrow> ('w, string) action" where
  "run_ip sh args = run sh ''ip'' args"

definition configure_tun_address :: "'w os \<Rightarrow> string \<Rightarrow> ipv4 \<Rightarrow> nat \<Rightarrow> ('w, string) action" where
  "configure_tun_address sh interface addr prefix =
     (let cidr = ipv4_to_string addr @ ''/'' @ dec_str prefix;
          mtu = dec_str TUN_MTU
      in try_all
          [run_ip sh [''link'', ''set'', ''dev'', interface, ''up''],
           run_ip sh [''link'', ''set'', ''dev'', interface, ''mtu'', mtu],
           run_ip sh [''addr'', ''replace'', cidr, ''dev'', interface]])"

definition enable_forwarding :: "'w os \<Rightarrow> ('w, string) action" where
  "enable_forwarding sh = run sh ''sysctl'' [''-w'', ''net.ipv4.ip_forward=1'']"

definition replace_route :: "'w os \<Rightarrow> string \<Rightarrow> string \<Rightarrow> ('w, string) action" where
  "replace_route sh interface route = run_ip sh [''route'', ''replace'', route, ''dev'', interface]"

definition delete_route :: "'w os \<Rightarrow> string \<Rightarrow> string \<Rightarrow> 'w \<Rightarrow> 'w" where
  "delete_route sh interface route w = snd (run_ip sh [''route'', ''del'', route, ''dev'', interface] w)"

definition supports_netmap :: "'w os \<Rightarrow> string \<Rightarrow> 'w \<Rightarrow> bool \<times> 'w" where
  "supports_netmap sh cmd w =
     (case exec sh cmd [''-j'', ''NETMAP'', ''-h''] w of
        (Inl _, w') \<Rightarrow> (False, w')
      | (Inr out, w') \<Rightarrow>
          (po_success out
           \<or> str_contains ''NETMAP'' (from_utf8_lossy (po_stdout out))
           \<or> str_contains ''NETMAP'' (from_utf8_lossy (po_stderr out)), w'))"

fun find_cmd :: "'w os \<Rightarrow> string list \<Rightarrow> 'w \<Rightarrow> string option \<times> 'w" where
  "find_cmd sh [] w = (None, w)"
| "find_cmd sh (cmd # cmds) w =
     (case supports_netmap sh cmd w of
        (True, w') \<Rightarrow> (Some cmd, w')
      | (False, w') \<Rightarrow> find_cmd sh cmds w')"

definition resolve_iptables :: "'w os \<Rightarrow> 'w \<Rightarrow> string option \<times> 'w" where
  "resolve_iptables sh w = find_cmd sh [''iptables'', ''iptables-nft'', ''iptables-legacy''] w"

definition supports_route_aliasing :: "'w os \<Rightarrow> 'w \<Rightarrow> bool \<times> 'w" where
  "supports_route_aliasing sh w = (case resolve_iptables sh w of (r, w') \<Rightarrow> (r \<noteq> None, w'))"

definition backend_name :: string where "backend_name = ''linux''"

definition ensure_chain :: "'w os \<Rightarrow> string \<Rightarrow> string \<Rightarrow> string \<Rightarrow> ('w, string) action" where
  "ensure_chain sh cmd table chain w =
     (case run sh cmd [''-t'', table, ''-N'', chain] w of
        (Inr _, w') \<Rightarrow> (Inr (), w')
      | (Inl e, w') \<Rightarrow> if str_contains ''Chain already exists'' e then (Inr (), w') else (Inl e, w'))"

definition ensure_jump ::
    "'w os \<Rightarrow> string \<Rightarrow> string \<Rightarrow> string \<Rightarrow> string \<Rightarrow> string \<Rightarrow> string \<Rightarrow> ('w, string) action" where
  "ensure_jump sh cmd table parent iface_flag interface target w =
     (case run sh cmd [''-t'', table, ''-C'', parent, iface_flag, interface, ''-j'', target] w of
        (Inr _, w') \<Rightarrow> (Inr (), w')
      | (Inl _, w') \<Rightarrow>
          run sh cmd [''-t'', table, ''-A'', parent, iface_flag, interface, ''-j'', target] w')"

definition PRE :: string where "PRE = ''KAONIC_VPN_PREROUTING''"
definition POST :: string where "POST = ''KAONIC_VPN_POSTROUTING''"
definition MSS :: string where "MSS = ''KAONIC_VPN_MSS''"

definition mss_rule :: "string list" where
  "mss_rule = [''-p'', ''tcp'', ''--tcp-flags'', ''SYN,RST'', ''SYN'', ''-j'', ''TCPMSS'', ''--set-mss'',
     dec_str TCP_MSS]"

definition translation_actions ::
    "'w os \<Rightarrow> 'c cidr_ops \<Rightarrow> string \<Rightarrow> 'c local_route_translation \<Rightarrow> ('w, string) action list" where
  "translation_actions sh C ipt t =
     (if lrt_local t = lrt_exported t then []
      else
        (let exported = cidr_to_string C (lrt_exported t);
             local = cidr_to_string C (lrt_local t)
         in [run sh ipt [''-t'', ''nat'', ''-A'', PRE, ''-d'', exported, ''-j'', ''NETMAP'', ''--to'', local],
             run sh ipt [''-t'', ''nat'', ''-A'', POST, ''-s'', local, ''-j'', ''NETMAP'', ''--to'', exported]]))"

definition sync_route_translations ::
    "'w os \<Rightarrow> 'c cidr_ops \<Rightarrow> string \<Rightarrow> 'c local_route_translation list \<Rightarrow> ('w, string) action" where
  "sync_route_translations sh C interface translations w =
     (case resolve_iptables sh w of
        (None, w') \<Rightarrow> (Inr (), w')
      | (Some ipt, w') \<Rightarrow>
          try_all
           ([ensure_chain sh ipt ''nat'' PRE,
             ensure_chain sh ipt ''nat'' POST,
             ensure_chain sh ipt ''mangle'' MSS,
             ensure_jump sh ipt ''nat'' ''PREROUTING'' ''-i'' interface PRE,
             ensure_jump sh ipt ''nat'' ''POSTROUTING'' ''-o'' interface POST,
             ensure_jump sh ipt ''mangle'' ''FORWARD'' ''-i'' interface MSS,
             ensure_jump sh ipt ''mangle'' ''FORWARD'' ''-o'' interface MSS,
             run sh ipt [''-t'', ''nat'', ''-F'', PRE],
             run sh ipt [''-t'', ''nat'', ''-F'', POST],
             run sh ipt [''-t'', ''mangle'', ''-F'', MSS],
             run sh ipt ([''-t'', ''mangle'', ''-A'', MSS] @ mss_rule)]
            @ concat (map (translation_actions sh C ipt) translations)) w')"

section \<open>What the commands leave in the kernel\<close>

lemma run_ok: "run sh cmd args w = (Inr u, w') \<longleftrightarrow> (\<exists>out. exec sh cmd args w = (Inr out, w') \<and> po_success out)"
  by (auto simp: run_def split: prod.splits sum.splits if_splits)

definition netmap_pre :: "'c cidr_ops \<Rightarrow> 'c local_route_translation list \<Rightarrow> string list list" where
  "netmap_pre C ts =
     map (\<lambda>t. [''-d'', cidr_to_string C (lrt_exported t), ''-j'', ''NETMAP'', ''--to'',
               cidr_to_string C (lrt_local t)])
       (filter (\<lambda>t. lrt_local t \<noteq> lrt_exported t) ts)"

definition netmap_post :: "'c cidr_ops \<Rightarrow> 'c local_route_translation list \<Rightarrow> string list list" where
  "netmap_post C ts =
     map (\<lambda>t. [''-s'', cidr_to_string C (lrt_local t), ''-j'', ''NETMAP'', ''--to'',
               cidr_to_string C (lrt_exported t)])
       (filter (\<lambda>t. lrt_local t \<noteq> lrt_exported t) ts)"

locale kernel =
  fixes sh :: "'w os"
    and routes :: "'w \<Rightarrow> string \<Rightarrow> string set"
    and rules :: "'w \<Rightarrow> string \<times> string \<Rightarrow> string list list"
  assumes route_replace: "exec sh ''ip'' [''route'', ''replace'', r, ''dev'', i] w = (Inr out, w') \<Longrightarrow>
            po_success out \<Longrightarrow> routes w' i = insert r (routes w i)"
    and route_del: "exec sh ''ip'' [''route'', ''del'', r, ''dev'', i] w = (res, w') \<Longrightarrow>
            routes w' i = routes w i - {r} \<or> routes w' i = routes w i"
    and route_frame: "exec sh cmd args w = (res, w') \<Longrightarrow> cmd \<noteq> ''ip'' \<Longrightarrow> routes w' = routes w"
    and chain_flush: "exec sh cmd [''-t'', t, ''-F'', c] w = (Inr out, w') \<Longrightarrow> po_success out \<Longrightarrow>
            cmd \<noteq> ''ip'' \<Longrightarrow> rules w' = (rules w)((t, c) := [])"
    and chain_append: "exec sh cmd ([''-t'', t, ''-A'', c] @ rule) w = (Inr out, w') \<Longrightarrow> po_success out \<Longrightarrow>
            cmd \<noteq> ''ip'' \<Longrightarrow> rules w' = (rules w)((t, c) := rules w (t, c) @ [rule])"
begin

lemma run_frame: "cmd \<noteq> ''ip'' \<Longrightarrow> routes (snd (run sh cmd args w)) = routes w"
  using route_frame by (auto simp: run_def split: prod.splits sum.splits)

lemma run_replace:
  "run_ip sh [''route'', ''replace'', r, ''dev'', i] w = (Inr u, w') \<Longrightarrow> routes w' i = insert r (routes w i)"
  using route_replace by (auto simp: run_ip_def run_ok)

lemma delete_route_keeps: "routes w i - {r} \<subseteq> routes (delete_route sh i r w) i"
proof -
  obtain res w' where e: "exec sh ''ip'' [''route'', ''del'', r, ''dev'', i] w = (res, w')" by fastforce
  then have "delete_route sh i r w = w'"
    by (auto simp: delete_route_def run_ip_def run_def split: sum.splits)
  with route_del [OF e] show ?thesis by auto
qed

lemma replace_all:
  "try_all (map (replace_route sh i) rs) w = (Inr u, w') \<Longrightarrow> routes w' i = routes w i \<union> set rs"
proof (induction rs arbitrary: w)
  case Nil
  then show ?case by simp
next
  case (Cons r rs)
  obtain w1 where 1: "replace_route sh i r w = (Inr (), w1)"
    and 2: "try_all (map (replace_route sh i) rs) w1 = (Inr u, w')"
    using Cons.prems by (auto split: prod.splits sum.splits)
  from 1 have "routes w1 i = insert r (routes w i)"
    unfolding replace_route_def by (rule run_replace)
  with Cons.IH [OF 2] show ?case by auto
qed

lemma ensure_chain_frame: "cmd \<noteq> ''ip'' \<Longrightarrow> routes (snd (ensure_chain sh cmd t c w)) = routes w"
  using run_frame [of cmd "[''-t'', t, ''-N'', c]" w]
  by (auto simp: ensure_chain_def split: prod.splits sum.splits)

lemma ensure_jump_frame: "cmd \<noteq> ''ip'' \<Longrightarrow> routes (snd (ensure_jump sh cmd t p f i c w)) = routes w"
  using run_frame [of cmd]
  by (auto simp: ensure_jump_def split: prod.splits sum.splits) (metis snd_conv)+

lemma try_all_frame:
  "(\<And>f w. f \<in> set fs \<Longrightarrow> routes (snd (f w)) = routes w) \<Longrightarrow> routes (snd (try_all fs w)) = routes w"
proof (induction fs arbitrary: w)
  case Nil
  then show ?case by simp
next
  case (Cons f fs)
  have "routes (snd (f w)) = routes w" by (rule Cons.prems) simp
  moreover have "routes (snd (try_all fs (snd (f w)))) = routes (snd (f w))"
    by (rule Cons.IH) (simp add: Cons.prems)
  ultimately show ?case by (auto split: prod.splits sum.splits)
qed

lemma find_cmd_result: "find_cmd sh cmds w = (Some c, w') \<Longrightarrow> c \<in> set cmds"
  by (induction cmds arbitrary: w) (auto split: prod.splits bool.splits)

lemma find_cmd_frame: "''ip'' \<notin> set cmds \<Longrightarrow> routes (snd (find_cmd sh cmds w)) = routes w"
proof (induction cmds arbitrary: w)
  case Nil
  then show ?case by simp
next
  case (Cons c cmds)
  obtain b w1 where s: "supports_netmap sh c w = (b, w1)" by fastforce
  then have "routes w1 = routes w"
    using route_frame Cons.prems by (auto simp: supports_netmap_def split: prod.splits sum.splits)
  with s Cons show ?case by (cases b) auto
qed

lemma translation_frame:
  "ipt \<noteq> ''ip'' \<Longrightarrow> f \<in> set (translation_actions sh C ipt t) \<Longrightarrow> routes (snd (f w)) = routes w"
  by (auto simp: translation_actions_def Let_def run_frame split: if_splits)

lemma resolve_iptables_name: "resolve_iptables sh w = (Some ipt, w') \<Longrightarrow> ipt \<noteq> ''ip''"
  unfolding resolve_iptables_def by (drule find_cmd_result) auto

lemma sync_translations_frame: "routes (snd (sync_route_translations sh C i ts w)) = routes w"
proof -
  obtain r w1 where r: "resolve_iptables sh w = (r, w1)" by fastforce
  have "routes (snd (resolve_iptables sh w)) = routes w"
    unfolding resolve_iptables_def by (rule find_cmd_frame) simp
  then have w1: "routes w1 = routes w" by (simp add: r)
  show ?thesis
  proof (cases r)
    case None
    with r w1 show ?thesis by (simp add: sync_route_translations_def)
  next
    case (Some ipt)
    then have "ipt \<noteq> ''ip''" using r resolve_iptables_name by simp
    then have "routes (snd (sync_route_translations sh C i ts w)) = routes w1"
      unfolding sync_route_translations_def r Some prod.case option.case
      by (intro try_all_frame)
        (auto simp: run_frame ensure_chain_frame ensure_jump_frame translation_frame)
    with w1 show ?thesis by simp
  qed
qed

lemma run_append:
  "run sh ipt (''-t'' # t # ''-A'' # c # rule) w = (Inr u, w') \<Longrightarrow> ipt \<noteq> ''ip'' \<Longrightarrow>
   rules w' = (rules w)((t, c) := rules w (t, c) @ [rule])"
  using chain_append [of ipt t c rule w] by (auto simp: run_ok)

lemma run_flush:
  "run sh ipt [''-t'', t, ''-F'', c] w = (Inr u, w') \<Longrightarrow> ipt \<noteq> ''ip'' \<Longrightarrow> rules w' = (rules w)((t, c) := [])"
  using chain_flush by (auto simp: run_ok)

lemma translations_rules:
  assumes "ipt \<noteq> ''ip''" "try_all (concat (map (translation_actions sh C ipt) ts)) w = (Inr u, w')"
  shows "rules w' (''nat'', PRE) = rules w (''nat'', PRE) @ netmap_pre C ts
    \<and> rules w' (''nat'', POST) = rules w (''nat'', POST) @ netmap_post C ts"
  using assms(2)
proof (induction ts arbitrary: w)
  case Nil
  then show ?case by (simp add: netmap_pre_def netmap_post_def)
next
  case (Cons t ts)
  from Cons.prems obtain w1 where 1: "try_all (translation_actions sh C ipt t) w = (Inr (), w1)"
    and 2: "try_all (concat (map (translation_actions sh C ipt) ts)) w1 = (Inr u, w')"
    by (auto simp: try_all_append_ok)
  have "rules w1 (''nat'', PRE) = rules w (''nat'', PRE) @ netmap_pre C [t]
    \<and> rules w1 (''nat'', POST) = rules w (''nat'', POST) @ netmap_post C [t]"
  proof (cases "lrt_local t = lrt_exported t")
    case True
    with 1 show ?thesis by (simp add: translation_actions_def netmap_pre_def netmap_post_def)
  next
    case False
    with 1 show ?thesis using assms(1)
      by (auto simp: translation_actions_def Let_def netmap_pre_def netmap_post_def PRE_def POST_def
          split: prod.splits sum.splits dest!: run_append)
  qed
  with Cons.IH [OF 2] show ?case by (simp add: netmap_pre_def netmap_post_def)
qed

text \<open>
  A successful run of \<open>sync_route_translations\<close> leaves exactly the rules of the translations it was
  given in the two NAT chains, whatever they held before: running it again does not pile up rules.
\<close>

lemma sync_translations_rules:
  assumes "fst (resolve_iptables sh w) \<noteq> None" "sync_route_translations sh C i ts w = (Inr u, w')"
  shows "rules w' (''nat'', PRE) = netmap_pre C ts \<and> rules w' (''nat'', POST) = netmap_post C ts"
proof -
  from assms(1) obtain ipt w0 where r: "resolve_iptables sh w = (Some ipt, w0)"
    by (cases "resolve_iptables sh w") auto
  then have n: "ipt \<noteq> ''ip''" by (rule resolve_iptables_name)
  have "\<exists>w1 a b c w2. run sh ipt [''-t'', ''nat'', ''-F'', PRE] w1 = (Inr (), a)
      \<and> run sh ipt [''-t'', ''nat'', ''-F'', POST] a = (Inr (), b)
      \<and> run sh ipt [''-t'', ''mangle'', ''-F'', MSS] b = (Inr (), c)
      \<and> run sh ipt (''-t'' # ''mangle'' # ''-A'' # MSS # mss_rule) c = (Inr (), w2)
      \<and> try_all (concat (map (translation_actions sh C ipt) ts)) w2 = (Inr u, w')"
    using assms(2) unfolding sync_route_translations_def r
    by (fastforce simp: try_all_append_ok split: prod.splits sum.splits)
  then obtain w1 a b c w2 where f: "run sh ipt [''-t'', ''nat'', ''-F'', PRE] w1 = (Inr (), a)"
    "run sh ipt [''-t'', ''nat'', ''-F'', POST] a = (Inr (), b)"
    "run sh ipt [''-t'', ''mangle'', ''-F'', MSS] b = (Inr (), c)"
    "run sh ipt (''-t'' # ''mangle'' # ''-A'' # MSS # mss_rule) c = (Inr (), w2)"
    and t: "try_all (concat (map (translation_actions sh C ipt) ts)) w2 = (Inr u, w')" by blast
  from f have "rules w2 (''nat'', PRE) = [] \<and> rules w2 (''nat'', POST) = []"
    using n by (auto dest!: run_flush run_append simp: PRE_def POST_def)
  with translations_rules [OF n t] show ?thesis by simp
qed

end

section \<open>A kernel that meets the laws\<close>

text \<open>Routes per device and rules per chain; every command succeeds.\<close>

record kernel_state =
  ks_routes :: "string \<Rightarrow> string set"
  ks_rules :: "string \<times> string \<Rightarrow> string list list"

definition ks_exec :: "string \<Rightarrow> string list \<Rightarrow> kernel_state \<Rightarrow> kernel_state" where
  "ks_exec cmd args k =
     (if cmd = ''ip'' then
        (case args of
           [a, b, r, d, i] \<Rightarrow>
             if [a, b, d] = [''route'', ''replace'', ''dev'']
             then k\<lparr>ks_routes := (ks_routes k)(i := insert r (ks_routes k i))\<rparr>
             else if [a, b, d] = [''route'', ''del'', ''dev'']
             then k\<lparr>ks_routes := (ks_routes k)(i := ks_routes k i - {r})\<rparr>
             else k
         | _ \<Rightarrow> k)
      else
        (case args of
           a # t # b # c # rule \<Rightarrow>
             if a = ''-t'' \<and> b = ''-F'' \<and> rule = [] then k\<lparr>ks_rules := (ks_rules k)((t, c) := [])\<rparr>
             else if a = ''-t'' \<and> b = ''-A''
             then k\<lparr>ks_rules := (ks_rules k)((t, c) := ks_rules k (t, c) @ [rule])\<rparr>
             else k
         | _ \<Rightarrow> k))"

definition ks_os :: "kernel_state os" where
  "ks_os = \<lparr>exec = (\<lambda>cmd args k. (Inr \<lparr>po_success = True, po_stdout = [], po_stderr = []\<rparr>, ks_exec cmd args k))\<rparr>"

interpretation ks: kernel ks_os ks_routes ks_rules
proof unfold_locales
  fix cmd args and w :: kernel_state and res w'
  assume "exec ks_os cmd args w = (res, w')" "cmd \<noteq> ''ip''"
  then show "ks_routes w' = ks_routes w"
    by (auto simp: ks_os_def ks_exec_def split: list.split)
qed (auto simp: ks_os_def ks_exec_def)

end
