(* ===== verification/Routes.thy ===== *)
theory Routes
  imports Router Platform
begin

text \<open>
  The pure helpers of the VPN runtime (\<open>kaonic-vpn/src/vpn/runtime.rs\<close>, "Route helpers" and "Config
  parsing"): which local networks are discovered and how they are merged, the alias under which a
  local /24 is exported, the conflict test, the parsing of the configured peers and the tunnel
  address derived from a destination hash. \<open>AddressHash\<close> of the \<open>reticulum\<close> crate is a type
  parameter with the record \<open>hash_ops\<close> of the operations used; the network interfaces that
  \<open>if_addrs\<close> reports are an argument.
\<close>

record 'h hash_ops =
  h_bytes :: "'h \<Rightarrow> bytes"
  h_hex :: "'h \<Rightarrow> string"
  h_from_hex :: "string \<Rightarrow> string + 'h"

datatype vpn_error = Config string | Io string | Tun string

fun vpn_error_to_string :: "vpn_error \<Rightarrow> string" where
  "vpn_error_to_string (Config m) = m"
| "vpn_error_to_string (Io e) = e"
| "vpn_error_to_string (Tun m) = m"

section \<open>Translations of local routes\<close>

definition routes_live :: "('h, 'c, 'd) peer \<Rightarrow> nat \<Rightarrow> bool" where
  "routes_live p now \<longleftrightarrow> p_routes p \<noteq> [] \<and> (p_route_expires_ts p = 0 \<or> now < p_route_expires_ts p)"

definition merge_routes :: "'c::linorder list \<Rightarrow> 'c list \<Rightarrow> 'c list" where
  "merge_routes discovered advertised = btree_set (discovered @ advertised)"

definition hash_step :: "'a::len word \<Rightarrow> nat \<Rightarrow> 'a word \<Rightarrow> 'a word" where
  "hash_step k b seed = seed * k + of_nat b"

definition export_seed :: "'c cidr_ops \<Rightarrow> 'h hash_ops \<Rightarrow> 'h \<Rightarrow> 'c \<Rightarrow> 32 word" where
  "export_seed C H destination route =
     (let seed = fold (hash_step 167) (map byte_val (h_bytes H destination)) 0;
          seed = fold (hash_step 131) (octets (first_address C route)) seed
      in hash_step 31 (network_length C route) seed)"

definition export_third :: "'c cidr_ops \<Rightarrow> 'h hash_ops \<Rightarrow> 'h \<Rightarrow> 'c \<Rightarrow> nat" where
  "export_third C H destination route =
     (let third = 100 + unat (export_seed C H destination route mod 155);
          oct = octets (first_address C route)
      in if oct ! 0 = 192 \<and> oct ! 1 = 168 \<and> oct ! 2 = third
         then (if third = 254 then 100 else third + 1)
         else third)"

definition export_local_route :: "'c cidr_ops \<Rightarrow> 'h hash_ops \<Rightarrow> 'h \<Rightarrow> 'c \<Rightarrow> 'c" where
  "export_local_route C H destination route =
     (if network_length C route \<noteq> 24 then route
      else (case cidr_new C (mk_ipv4 192 168 (export_third C H destination route) 0) 24 of
              None \<Rightarrow> route | Some c \<Rightarrow> c))"

definition local_route_translations ::
    "'c cidr_ops \<Rightarrow> 'h hash_ops \<Rightarrow> 'c list \<Rightarrow> 'h \<Rightarrow> bool \<Rightarrow> 'c local_route_translation list" where
  "local_route_translations C H routes destination aliasing =
     map (\<lambda>r. \<lparr>lrt_local = r,
               lrt_exported = (if aliasing then export_local_route C H destination r else r)\<rparr>) routes"

section \<open>Overlap of networks\<close>

definition cidr_bounds :: "'c cidr_ops \<Rightarrow> 'c \<Rightarrow> nat \<times> nat" where
  "cidr_bounds C route =
     (let start = unat (first_address C route);
          host_bits = 32 - network_length C route;
          size = (if host_bits = 0 then 1 else if host_bits = 32 then 4294967296 else 2 ^ host_bits)
      in (start, start + size - 1))"

definition routes_overlap :: "'c cidr_ops \<Rightarrow> 'c \<Rightarrow> 'c \<Rightarrow> bool" where
  "routes_overlap C a b =
     (case (cidr_bounds C a, cidr_bounds C b) of ((as, ae), (bs, be)) \<Rightarrow> as \<le> be \<and> bs \<le> ae)"

definition conflicting_local_routes ::
    "'c cidr_ops \<Rightarrow> 'c local_route_translation list \<Rightarrow> 'c list \<Rightarrow> string list" where
  "conflicting_local_routes C local routes =
     btree_set (map (cidr_to_string C)
       (filter (\<lambda>route. \<exists>t\<in>set local. routes_overlap C route (lrt_local t) \<or> routes_overlap C route (lrt_exported t))
         routes))"

section \<open>Interfaces\<close>

datatype if_addr = IfV4 ipv4 nat | IfV6 "128 word"

record net_if =
  if_name :: string
  if_loopback :: bool
  if_link_local :: bool
  if_addr_of :: if_addr

definition should_skip_interface :: "string \<Rightarrow> string option \<Rightarrow> bool" where
  "should_skip_interface name exclude \<longleftrightarrow>
     exclude = Some name
     \<or> name \<in> {''lo'', ''docker0'', ''tailscale0'', ''zt0'', ''utun0'', ''utun1'', ''utun2'', ''utun3''}
     \<or> starts_with ''tun'' name \<or> starts_with ''tap'' name \<or> starts_with ''docker'' name
     \<or> starts_with ''veth'' name \<or> starts_with ''br-'' name"

definition discovered_route :: "'c cidr_ops \<Rightarrow> string option \<Rightarrow> net_if \<Rightarrow> 'c list" where
  "discovered_route C exclude i =
     (if if_loopback i \<or> if_link_local i then []
      else if should_skip_interface (if_name i) exclude then []
      else (case if_addr_of i of
              IfV6 _ \<Rightarrow> []
            | IfV4 ip prefixlen \<Rightarrow>
                if prefixlen = 0 then []
                else (case cidr_new C ip prefixlen of None \<Rightarrow> [] | Some c \<Rightarrow> [c])))"

definition discover_local_routes ::
    "'c::linorder cidr_ops \<Rightarrow> string + net_if list \<Rightarrow> string option \<Rightarrow> 'c list" where
  "discover_local_routes C ifs exclude =
     btree_set (concat (map (discovered_route C exclude) (case ifs of Inl _ \<Rightarrow> [] | Inr xs \<Rightarrow> xs)))"

section \<open>Configuration\<close>

definition parse_configured_peers :: "'h hash_ops \<Rightarrow> string list \<Rightarrow> vpn_error + 'h list" where
  "parse_configured_peers H peers =
     (case collect_results
            (map (\<lambda>p. case h_from_hex H p of
                        Inl err \<Rightarrow> Inl (Config (''invalid peer '' @ [CHR 0x27] @ p @ [CHR 0x27] @ '': '' @ err))
                      | Inr h \<Rightarrow> Inr h) peers) of
        Inl e \<Rightarrow> Inl e
      | Inr hs \<Rightarrow> Inr (remdups hs))"

definition validate_network :: "'c cidr_ops \<Rightarrow> 'c \<Rightarrow> vpn_error + unit" where
  "validate_network C network =
     (if network_length C network > 30
      then Inl (Config (''vpn network '' @ cidr_to_string C network @ '' must have at least 2 host bits''))
      else Inr ())"

definition tunnel_seed :: "'h hash_ops \<Rightarrow> 'h \<Rightarrow> 64 word" where
  "tunnel_seed H destination = fold (hash_step 131) (map byte_val (h_bytes H destination)) 0"

definition derive_tunnel_ip :: "'c cidr_ops \<Rightarrow> 'h hash_ops \<Rightarrow> 'c \<Rightarrow> 'h \<Rightarrow> vpn_error + ipv4" where
  "derive_tunnel_ip C H network destination =
     (case validate_network C network of
        Inl e \<Rightarrow> Inl e
      | Inr _ \<Rightarrow>
          (let host_bits = 32 - network_length C network;
               usable = 2 ^ host_bits - 2 :: nat;
               offset = unat (tunnel_seed H destination) mod usable + 1
           in Inr (first_address C network + of_nat offset)))"

section \<open>Lemmas\<close>

lemma set_merge_routes [simp]: "set (merge_routes d a) = set d \<union> set a"
  by (simp add: merge_routes_def)

lemma merge_routes_sorted_distinct: "sorted (merge_routes d a)" "distinct (merge_routes d a)"
  by (simp_all add: merge_routes_def)

lemma cidr_bounds_block:
  "cidr_bounds C r =
     (unat (first_address C r), unat (first_address C r) + block_size (network_length C r) - 1)"
  by (auto simp: cidr_bounds_def block_size_def Let_def)

lemma routes_overlap_shared:
  assumes "cidr_crate C"
  shows "routes_overlap C a b \<longleftrightarrow> (\<exists>ip. contains C a ip \<and> contains C b ip)"
proof
  assume "routes_overlap C a b"
  then have "unat (first_address C a) < unat (first_address C b) + block_size (network_length C b)"
    "unat (first_address C b) < unat (first_address C a) + block_size (network_length C a)"
    using block_size_pos [of "network_length C a"] block_size_pos [of "network_length C b"]
    by (auto simp: routes_overlap_def cidr_bounds_block simp del: block_size_pos)
  then have "contains C a (first_address C b) \<and> contains C b (first_address C b)
      \<or> contains C a (first_address C a) \<and> contains C b (first_address C a)"
    using assms by (auto simp: cidr_crate.contains_iff)
  then show "\<exists>ip. contains C a ip \<and> contains C b ip" by blast
next
  assume "\<exists>ip. contains C a ip \<and> contains C b ip"
  then obtain ip where "contains C a ip" "contains C b ip" by blast
  then have "unat (first_address C a) \<le> unat ip" "unat ip < unat (first_address C a) + block_size (network_length C a)"
    "unat (first_address C b) \<le> unat ip" "unat ip < unat (first_address C b) + block_size (network_length C b)"
    using assms by (auto simp: cidr_crate.contains_iff)
  then show "routes_overlap C a b" by (auto simp: routes_overlap_def cidr_bounds_block)
qed

lemma conflicting_local_routes_iff:
  "s \<in> set (conflicting_local_routes C ts rs) \<longleftrightarrow>
     (\<exists>r\<in>set rs. s = cidr_to_string C r \<and>
        (\<exists>t\<in>set ts. routes_overlap C r (lrt_local t) \<or> routes_overlap C r (lrt_exported t)))"
  by (auto simp: conflicting_local_routes_def)

lemma export_third_range: "100 \<le> export_third C H d r \<and> export_third C H d r \<le> 254"
proof -
  have "unat (export_seed C H d r mod 155) < 155"
    by (simp add: unat_mod_distrib)
  then show ?thesis by (auto simp: export_third_def Let_def)
qed

lemma export_third_differs:
  "octets (first_address C r) ! 0 = 192 \<Longrightarrow> octets (first_address C r) ! 1 = 168 \<Longrightarrow>
   octets (first_address C r) ! 2 \<noteq> export_third C H d r"
  by (auto simp: export_third_def Let_def)

lemma export_local_route_24:
  assumes c: "cidr_crate C" and l: "network_length C r = 24"
  shows "first_address C (export_local_route C H d r) = mk_ipv4 192 168 (export_third C H d r) 0"
    and "network_length C (export_local_route C H d r) = 24"
    and "export_local_route C H d r \<noteq> r"
proof -
  let ?t = "export_third C H d r"
  have t: "?t < 256" using export_third_range [of C H d r] by simp
  then have "block_size 24 dvd unat (mk_ipv4 192 168 ?t 0)"
    by (simp add: unat_mk_ipv4 block_size_def)
  then obtain e where e: "cidr_new C (mk_ipv4 192 168 ?t 0) 24 = Some e"
    using cidr_crate.new_total [OF c, of 24] by auto
  then have f: "first_address C e = mk_ipv4 192 168 ?t 0" "network_length C e = 24"
    using cidr_crate.new_iff [OF c] by blast+
  have x: "export_local_route C H d r = e" by (simp add: export_local_route_def l e)
  show "first_address C (export_local_route C H d r) = mk_ipv4 192 168 ?t 0"
    and "network_length C (export_local_route C H d r) = 24" using x f by simp_all
  have "octets (first_address C e) = [192, 168, ?t, 0]" using t by (simp add: f octets_mk_ipv4)
  then show "export_local_route C H d r \<noteq> r" using export_third_differs [of C r H d] x by auto
qed

lemma export_local_route_other:
  "network_length C r \<noteq> 24 \<Longrightarrow> export_local_route C H d r = r"
  by (simp add: export_local_route_def)

lemma discovered_route_iff:
  assumes "cidr_crate C"
  shows "c \<in> set (discovered_route C ex i) \<longleftrightarrow>
     \<not> if_loopback i \<and> \<not> if_link_local i \<and> \<not> should_skip_interface (if_name i) ex
     \<and> if_addr_of i = IfV4 (first_address C c) (network_length C c) \<and> network_length C c \<noteq> 0"
proof -
  have "cidr_new C ip l = Some c \<longleftrightarrow> ip = first_address C c \<and> l = network_length C c" for ip l
    using cidr_crate.new_iff [OF assms, of ip l c] cidr_crate.new_first_length [OF assms, of c] by auto
  moreover have "x \<in> set (case m of None \<Rightarrow> [] | Some y \<Rightarrow> [y]) \<longleftrightarrow> m = Some x" for x :: 'a and m
    by (cases m) auto
  ultimately show ?thesis
    by (cases "if_addr_of i") (auto simp: discovered_route_def)
qed

lemma discover_local_routes_iff:
  "cidr_crate C \<Longrightarrow> c \<in> set (discover_local_routes C (Inr ifs) ex) \<longleftrightarrow>
     (\<exists>i\<in>set ifs. \<not> if_loopback i \<and> \<not> if_link_local i \<and> \<not> should_skip_interface (if_name i) ex
       \<and> if_addr_of i = IfV4 (first_address C c) (network_length C c) \<and> network_length C c \<noteq> 0)"
  by (simp add: discover_local_routes_def discovered_route_iff)

lemma parse_configured_peers_Inr:
  "parse_configured_peers H ps = Inr hs \<Longrightarrow> distinct hs \<and> set hs = {h. \<exists>p\<in>set ps. h_from_hex H p = Inr h}"
proof -
  assume "parse_configured_peers H ps = Inr hs"
  then obtain xs where c: "collect_results (map (\<lambda>p. case h_from_hex H p of
          Inl err \<Rightarrow> Inl (Config (''invalid peer '' @ [CHR 0x27] @ p @ [CHR 0x27] @ '': '' @ err))
        | Inr h \<Rightarrow> Inr h) ps) = Inr xs" and hs: "hs = remdups xs"
    by (auto simp: parse_configured_peers_def split: sum.splits)
  have "set xs = {h. \<exists>p\<in>set ps. h_from_hex H p = Inr h}"
    using c
  proof (induction ps arbitrary: xs)
    case Nil
    then show ?case by simp
  next
    case (Cons p ps)
    then show ?case by (cases "h_from_hex H p") (auto split: sum.splits)
  qed
  with hs show ?thesis by simp
qed

lemma derive_tunnel_ip_Inr:
  assumes c: "cidr_crate C" and d: "derive_tunnel_ip C H n h = Inr ip"
  shows "network_length C n \<le> 30 \<and> unat (first_address C n) < unat ip
    \<and> unat ip + 1 < unat (first_address C n) + block_size (network_length C n)"
proof -
  let ?l = "network_length C n" and ?a = "first_address C n"
  let ?u = "block_size ?l - 2"
  let ?o = "unat (tunnel_seed H h) mod ?u + 1"
  from d have l: "?l \<le> 30" and ip: "ip = ?a + of_nat ?o"
    by (auto simp: derive_tunnel_ip_def validate_network_def Let_def block_size_def split: if_splits)
  have "(2::nat) ^ 2 \<le> 2 ^ (32 - ?l)" using l by (intro power_increasing) auto
  then have b: "4 \<le> block_size ?l" by (simp add: block_size_def)
  then have o: "0 < ?o" "?o + 1 < block_size ?l"
    using mod_less_divisor [of ?u "unat (tunnel_seed H h)"] by linarith+
  have f: "unat ?a + block_size ?l \<le> 4294967296" using cidr_crate.block_fits [OF c] .
  have "unat ip = unat ?a + ?o" unfolding ip by (rule unat_add_of_nat) (use o f in linarith)
  with l o show ?thesis by simp
qed

lemma derive_tunnel_ip_defined:
  "(\<exists>ip. derive_tunnel_ip C H n h = Inr ip) \<longleftrightarrow> network_length C n \<le> 30"
  by (auto simp: derive_tunnel_ip_def validate_network_def Let_def)

lemma derive_tunnel_ip_contained:
  assumes "cidr_crate C" "derive_tunnel_ip C H n h = Inr ip"
  shows "contains C n ip"
  using derive_tunnel_ip_Inr [OF assms] assms(1) by (simp add: cidr_crate.contains_iff)

lemma local_route_translations_simps [simp]:
  "map lrt_local (local_route_translations C H rs d al) = rs"
  "t \<in> set (local_route_translations C H rs d al) \<Longrightarrow> lrt_local t \<in> set rs"
  by (auto simp: local_route_translations_def comp_def)

end
