(* ===== verification/Codec.thy ===== *)
theory Codec
  imports Ip
begin

text \<open>
  The VPN wire format (\<open>kaonic-vpn/src/vpn/codec.rs\<close>): announce bodies and in-link control frames.
  The MessagePack serializer \<open>rmp_serde\<close> is a parameter (\<open>msgpack\<close>): the locale \<open>vpn_codec\<close> assumes
  of it only that writing succeeds and that reading what was written gives the value back. The
  locale \<open>wire_format\<close> is the contract that both frame kinds offer to their users.
\<close>

section \<open>Frames\<close>

datatype codec_error =
    Short
  | BadMagic
  | Version nat
  | Decode string
  | Encode string
  | Prefix nat

fun codec_error_to_string :: "codec_error \<Rightarrow> string" where
  "codec_error_to_string Short = ''payload too short''"
| "codec_error_to_string BadMagic = ''bad magic''"
| "codec_error_to_string (Version v) = ''unsupported version '' @ dec_str v"
| "codec_error_to_string (Decode e) = ''msgpack decode: '' @ e"
| "codec_error_to_string (Encode e) = ''msgpack encode: '' @ e"
| "codec_error_to_string (Prefix p) = ''invalid subnet prefix '' @ dec_str p"

definition ANNOUNCE_MAGIC :: bytes where "ANNOUNCE_MAGIC = ''kvpn''"

definition ANNOUNCE_VERSION :: char where "ANNOUNCE_VERSION = CHR 0x02"

definition CTRL_TAG :: char where "CTRL_TAG = CHR 0xFB"

datatype subnet = Subnet ipv4 nat

definition from_cidr :: "'c cidr_ops \<Rightarrow> 'c \<Rightarrow> subnet" where
  "from_cidr C c = Subnet (first_address C c) (network_length C c)"

fun to_cidr :: "'c cidr_ops \<Rightarrow> subnet \<Rightarrow> codec_error + 'c" where
  "to_cidr C (Subnet a p) =
     (if p > 32 then Inl (Prefix p)
      else (case cidr_new C a p of None \<Rightarrow> Inl (Prefix p) | Some c \<Rightarrow> Inr c))"

record announce =
  ann_routes :: "subnet list"

datatype ctrl =
    CtrlHello "subnet list"
  | CtrlRoutes "subnet list"
  | CtrlPing

record 'a msgpack =
  mp_write :: "'a \<Rightarrow> string + bytes"
  mp_read :: "bytes \<Rightarrow> string + 'a"

definition encode_announce ::
    "'c cidr_ops \<Rightarrow> announce msgpack \<Rightarrow> 'c list \<Rightarrow> codec_error + bytes" where
  "encode_announce C M routes =
     (let body = \<lparr>ann_routes = map (from_cidr C) routes\<rparr> in
      case mp_write M body of
        Inl e \<Rightarrow> Inl (Encode e)
      | Inr bs \<Rightarrow> Inr (ANNOUNCE_MAGIC @ [ANNOUNCE_VERSION] @ bs))"

definition decode_announce ::
    "'c cidr_ops \<Rightarrow> announce msgpack \<Rightarrow> bytes \<Rightarrow> codec_error + 'c list" where
  "decode_announce C M data =
     (if length data < 5 then Inl Short
      else if take 4 data \<noteq> ANNOUNCE_MAGIC then Inl BadMagic
      else if data ! 4 \<noteq> ANNOUNCE_VERSION then Inl (Version (byte_val (data ! 4)))
      else (case mp_read M (drop 5 data) of
              Inl e \<Rightarrow> Inl (Decode e)
            | Inr body \<Rightarrow> collect_results (map (to_cidr C) (ann_routes body))))"

definition is_announce :: "bytes \<Rightarrow> bool" where
  "is_announce data \<longleftrightarrow> 5 \<le> length data \<and> take 4 data = ANNOUNCE_MAGIC"

definition encode_ctrl :: "ctrl msgpack \<Rightarrow> ctrl \<Rightarrow> codec_error + bytes" where
  "encode_ctrl M msg =
     (case mp_write M msg of Inl e \<Rightarrow> Inl (Encode e) | Inr bs \<Rightarrow> Inr (CTRL_TAG # bs))"

definition encode_hello :: "'c cidr_ops \<Rightarrow> ctrl msgpack \<Rightarrow> 'c list \<Rightarrow> codec_error + bytes" where
  "encode_hello C M routes = encode_ctrl M (CtrlHello (map (from_cidr C) routes))"

definition encode_routes :: "'c cidr_ops \<Rightarrow> ctrl msgpack \<Rightarrow> 'c list \<Rightarrow> codec_error + bytes" where
  "encode_routes C M routes = encode_ctrl M (CtrlRoutes (map (from_cidr C) routes))"

text \<open>\<open>encode_ping\<close> panics (\<open>expect\<close>) when the encoder fails: \<open>None\<close>.\<close>

definition encode_ping :: "ctrl msgpack \<Rightarrow> bytes option" where
  "encode_ping M = ok (encode_ctrl M CtrlPing)"

definition decode_ctrl :: "ctrl msgpack \<Rightarrow> bytes \<Rightarrow> codec_error + ctrl" where
  "decode_ctrl M data =
     (if data = [] \<or> hd data \<noteq> CTRL_TAG then Inl BadMagic
      else (case mp_read M (tl data) of Inl e \<Rightarrow> Inl (Decode e) | Inr msg \<Rightarrow> Inr msg))"

definition is_ctrl :: "bytes \<Rightarrow> bool" where
  "is_ctrl data \<longleftrightarrow> data \<noteq> [] \<and> hd data = CTRL_TAG"

section \<open>The contract of a frame kind\<close>

locale wire_format =
  fixes enc :: "'x \<Rightarrow> codec_error + bytes"
    and dec :: "bytes \<Rightarrow> codec_error + 'x"
    and frame :: "bytes \<Rightarrow> bool"
  assumes enc_total: "\<exists>bs. enc x = Inr bs"
    and dec_enc: "enc x = Inr bs \<Longrightarrow> dec bs = Inr x"
    and frame_enc: "enc x = Inr bs \<Longrightarrow> frame bs"
    and dec_frame: "dec bs = Inr x \<Longrightarrow> frame bs"
begin

lemma enc_inj: "enc x = Inr bs \<Longrightarrow> enc y = Inr bs \<Longrightarrow> x = y"
  using dec_enc [of x bs] dec_enc [of y bs] by simp

lemma not_frame: "\<not> frame bs \<Longrightarrow> \<exists>e. dec bs = Inl e"
  using dec_frame by (cases "dec bs") auto

lemma round_trip: "\<exists>bs. enc x = Inr bs \<and> frame bs \<and> dec bs = Inr x"
  using enc_total dec_enc frame_enc by blast

end

lemma to_cidr_from_cidr: "cidr_crate C \<Longrightarrow> to_cidr C (from_cidr C c) = Inr c"
  using cidr_crate.new_first_length [of C c] cidr_crate.length_le [of C c]
  by (simp add: from_cidr_def)

text \<open>\<open>to_cidr\<close> refuses exactly the pairs that are no network: too long a prefix, or host bits.\<close>

lemma to_cidr_cases:
  assumes "cidr_crate C"
  shows "to_cidr C (Subnet a p) =
     (if p \<le> 32 \<and> block_size p dvd unat a then Inr (the (cidr_new C a p)) else Inl (Prefix p))"
proof (cases "p \<le> 32 \<and> block_size p dvd unat a")
  case True
  then have "cidr_new C a p \<noteq> None" using assms cidr_crate.new_total by blast
  with True show ?thesis by auto
next
  case False
  then have "cidr_new C a p = None"
    using assms by (metis cidr_crate.new_iff not_None_eq)
  with False show ?thesis by auto
qed

lemma to_cidr_Inr:
  assumes "cidr_crate C"
  shows "to_cidr C s = Inr c \<longleftrightarrow> s = from_cidr C c"
proof (cases s)
  case (Subnet a p)
  have "to_cidr C s = Inr c \<longleftrightarrow> p \<le> 32 \<and> cidr_new C a p = Some c"
    by (auto simp: Subnet split: option.splits)
  also have "\<dots> \<longleftrightarrow> s = from_cidr C c"
    using cidr_crate.new_iff [OF assms, of a p c] cidr_crate.new_first_length [OF assms, of c]
      cidr_crate.length_le [OF assms, of c]
    by (auto simp: Subnet from_cidr_def)
  finally show ?thesis .
qed

locale vpn_codec = cidr_crate C for C :: "'c::linorder cidr_ops" +
  fixes ma :: "announce msgpack" and mc :: "ctrl msgpack"
  assumes ann_write: "\<exists>bs. mp_write ma a = Inr bs"
    and ann_read: "mp_write ma a = Inr bs \<Longrightarrow> mp_read ma bs = Inr a"
    and ctrl_write: "\<exists>bs. mp_write mc x = Inr bs"
    and ctrl_read: "mp_write mc x = Inr bs \<Longrightarrow> mp_read mc bs = Inr x"
begin

lemma to_from: "to_cidr C (from_cidr C c) = Inr c"
  by (rule to_cidr_from_cidr) unfold_locales

lemma collect_to_from: "collect_results (map (to_cidr C) (map (from_cidr C) rs)) = Inr rs"
  by (induction rs) (simp_all add: to_from)

end

sublocale vpn_codec \<subseteq> announce: wire_format "encode_announce C ma" "decode_announce C ma" is_announce
proof unfold_locales
  fix x
  obtain bs where "mp_write ma \<lparr>ann_routes = map (from_cidr C) x\<rparr> = Inr bs" using ann_write by blast
  then show "\<exists>bs. encode_announce C ma x = Inr bs" by (simp add: encode_announce_def)
next
  fix x bs
  assume "encode_announce C ma x = Inr bs"
  then obtain b where b: "mp_write ma \<lparr>ann_routes = map (from_cidr C) x\<rparr> = Inr b"
    and bs: "bs = ANNOUNCE_MAGIC @ [ANNOUNCE_VERSION] @ b"
    by (auto simp: encode_announce_def split: sum.splits)
  from ann_read [OF b] show "decode_announce C ma bs = Inr x"
    using collect_to_from [of x] by (simp add: decode_announce_def bs ANNOUNCE_MAGIC_def)
next
  fix x bs
  assume "encode_announce C ma x = Inr bs"
  then show "is_announce bs"
    by (auto simp: encode_announce_def is_announce_def ANNOUNCE_MAGIC_def split: sum.splits)
next
  fix x bs
  assume "decode_announce C ma bs = Inr x"
  then show "is_announce bs"
    by (auto simp: decode_announce_def is_announce_def split: if_splits)
qed

sublocale vpn_codec \<subseteq> ctrl: wire_format "encode_ctrl mc" "decode_ctrl mc" is_ctrl
proof unfold_locales
  fix x
  obtain bs where "mp_write mc x = Inr bs" using ctrl_write by blast
  then show "\<exists>bs. encode_ctrl mc x = Inr bs" by (simp add: encode_ctrl_def)
next
  fix x bs
  assume "encode_ctrl mc x = Inr bs"
  then show "decode_ctrl mc bs = Inr x" and "is_ctrl bs"
    by (auto simp: encode_ctrl_def decode_ctrl_def is_ctrl_def ctrl_read split: sum.splits)
next
  fix x bs
  assume "decode_ctrl mc bs = Inr x"
  then show "is_ctrl bs" by (auto simp: decode_ctrl_def is_ctrl_def split: if_splits)
qed

context vpn_codec
begin

lemma announce_frame:
  "\<exists>bs. encode_announce C ma rs = Inr bs \<and> is_announce bs \<and> decode_announce C ma bs = Inr rs"
  by (rule announce.round_trip)

lemma ctrl_frame: "\<exists>bs. encode_ctrl mc c = Inr bs \<and> is_ctrl bs \<and> decode_ctrl mc bs = Inr c"
  by (rule ctrl.round_trip)

end

lemma ctrl_first_byte: "encode_ctrl mc c = Inr bs \<Longrightarrow> byte_val (hd bs) = 251"
  by (auto simp: encode_ctrl_def CTRL_TAG_def split: sum.splits)

lemma collect_to_cidr_Prefix:
  assumes "cidr_crate C" "collect_results (map (to_cidr C) ss) = Inl e"
  shows "\<exists>a p. Subnet a p \<in> set ss \<and> e = Prefix p \<and> \<not> (p \<le> 32 \<and> block_size p dvd unat a)"
  using assms(2)
proof (induction ss)
  case Nil
  then show ?case by simp
next
  case (Cons s ss)
  obtain a p where s: "s = Subnet a p" by (cases s)
  show ?case
  proof (cases "p \<le> 32 \<and> block_size p dvd unat a")
    case True
    then have "to_cidr C s = Inr (the (cidr_new C a p))" unfolding s to_cidr_cases [OF assms(1)] by simp
    with Cons show ?thesis by (auto split: sum.splits)
  next
    case False
    then have "to_cidr C s = Inl (Prefix p)" unfolding s to_cidr_cases [OF assms(1)] by auto
    with Cons.prems have "e = Prefix p" by simp
    with False s show ?thesis by auto
  qed
qed

lemma announce_not_ctrl: "is_announce data \<Longrightarrow> \<not> is_ctrl data"
  by (cases data) (auto simp: is_announce_def is_ctrl_def ANNOUNCE_MAGIC_def CTRL_TAG_def)

section \<open>A concrete serializer that meets the laws\<close>

definition flat_subnet :: "subnet \<Rightarrow> bytes" where
  "flat_subnet s = (case s of Subnet a p \<Rightarrow> map char_of (octets a) @ dec_str p @ '','')"

fun flat_subnets :: "bytes \<Rightarrow> string + subnet list" where
  "flat_subnets [] = Inr []"
| "flat_subnets (a # b # c # d # rest) =
     (let p = takeWhile (\<lambda>x. x \<noteq> CHR '','') rest in
      case flat_subnets (drop (Suc (length p)) rest) of
        Inl e \<Rightarrow> Inl e
      | Inr ss \<Rightarrow> Inr (Subnet (mk_ipv4 (byte_val a) (byte_val b) (byte_val c) (byte_val d)) (dec_value p) # ss))"
| "flat_subnets _ = Inl ''truncated''"

definition flat_announce :: "announce msgpack" where
  "flat_announce =
     \<lparr>mp_write = (\<lambda>a. Inr (concat (map flat_subnet (ann_routes a)))),
      mp_read = (\<lambda>bs. case flat_subnets bs of Inl e \<Rightarrow> Inl e | Inr ss \<Rightarrow> Inr \<lparr>ann_routes = ss\<rparr>)\<rparr>"

definition flat_ctrl :: "ctrl msgpack" where
  "flat_ctrl =
     \<lparr>mp_write = (\<lambda>x. Inr (case x of
          CtrlHello ss \<Rightarrow> CHR ''h'' # concat (map flat_subnet ss)
        | CtrlRoutes ss \<Rightarrow> CHR ''r'' # concat (map flat_subnet ss)
        | CtrlPing \<Rightarrow> ''p'')),
      mp_read = (\<lambda>bs. if bs = ''p'' then Inr CtrlPing
                      else if bs \<noteq> [] \<and> hd bs = CHR ''h'' then
                        (case flat_subnets (tl bs) of Inl e \<Rightarrow> Inl e | Inr ss \<Rightarrow> Inr (CtrlHello ss))
                      else if bs \<noteq> [] \<and> hd bs = CHR ''r'' then
                        (case flat_subnets (tl bs) of Inl e \<Rightarrow> Inl e | Inr ss \<Rightarrow> Inr (CtrlRoutes ss))
                      else Inl ''unknown variant'')\<rparr>"

lemma octets_less: "x \<in> set (octets a) \<Longrightarrow> x < 256"
  using unat_ipv4_less [of a] by (auto simp: octets_def less_mult_imp_div_less)

lemma dec_str_no_comma: "x \<in> set (dec_str n) \<Longrightarrow> x \<noteq> CHR '',''"
  using dec_str_digits [of n] by (auto simp: list_all_iff is_ascii_digit_def)

lemma takeWhile_dec_str:
  "takeWhile (\<lambda>x. x \<noteq> CHR '','') (dec_str p @ CHR '','' # r) = dec_str p"
  by (rule takeWhile_tail [THEN trans]) (auto dest: dec_str_no_comma)

lemma flat_subnets_step:
  "flat_subnets (flat_subnet s @ r) =
     (case flat_subnets r of Inl e \<Rightarrow> Inl e | Inr ss \<Rightarrow> Inr (s # ss))"
proof (cases s)
  case (Subnet a p)
  obtain x y z w where o: "octets a = [x, y, z, w]" by (simp add: octets_def)
  then have l: "x < 256" "y < 256" "z < 256" "w < 256" using octets_less [of _ a] by auto
  have m: "mk_ipv4 x y z w = a" using mk_ipv4_octets [of a] o by simp
  show ?thesis
    using l m by (simp add: Subnet flat_subnet_def o Let_def takeWhile_dec_str split: sum.splits)
qed

lemma flat_subnets_concat: "flat_subnets (concat (map flat_subnet ss)) = Inr ss"
  by (induction ss) (simp_all add: flat_subnets_step)

interpretation c4: vpn_codec cidr4_ops flat_announce flat_ctrl
proof unfold_locales
  fix a bs
  assume "mp_write flat_announce a = Inr bs"
  then show "mp_read flat_announce bs = Inr a"
    by (auto simp: flat_announce_def flat_subnets_concat)
next
  fix x bs
  assume "mp_write flat_ctrl x = Inr bs"
  then show "mp_read flat_ctrl bs = Inr x"
    by (cases x) (auto simp: flat_ctrl_def flat_subnets_concat)
qed (simp_all add: flat_announce_def flat_ctrl_def)

end
