(* ===== verification/Runtime.thy ===== *)
theory Runtime
  imports Routes Codec
begin

text \<open>
  The state of the VPN and its synchronous operations (\<open>kaonic-vpn/src/vpn/runtime.rs\<close>,
  \<open>impl VpnRuntime\<close>, and \<open>config.rs\<close>). The record \<open>vpn_runtime\<close> is the struct with its interior
  mutability unfolded. An operation takes the clock reading where the code calls \<open>now_secs()\<close> and
  threads the world \<open>'w\<close> on which the \<open>ip\<close>/\<open>iptables\<close> commands, the TUN device and the
  \<open>reticulum\<close> transport act; the operations of those are fields of the parameter \<open>vpn_env\<close>.

  \<open>rt_inv\<close> is the invariant of the runtime: which peers can be registered, which tunnel address each
  has, and that the router is always the table of the current peers.
\<close>

definition ROUTE_GRACE_SECS :: nat where "ROUTE_GRACE_SECS = 45"

definition STATUS_RUNNING :: nat where "STATUS_RUNNING = 0"
definition STATUS_MOCK :: nat where "STATUS_MOCK = 1"
definition STATUS_ERROR :: nat where "STATUS_ERROR = 2"

lemmas status_defs = STATUS_RUNNING_def STATUS_MOCK_def STATUS_ERROR_def

definition status_str :: "nat \<Rightarrow> string" where
  "status_str code =
     (if code = STATUS_MOCK then ''mock'' else if code = STATUS_ERROR then ''error'' else ''running'')"

section \<open>The environment\<close>

record ('h, 'd, 'l, 'w) transport_ops =
  t_find_out_link :: "'h \<Rightarrow> 'w \<Rightarrow> 'l option"
  t_link_status :: "'l \<Rightarrow> 'w \<Rightarrow> link_status"
  t_link_age_secs :: "'l \<Rightarrow> 'w \<Rightarrow> nat"
  t_link :: "'d \<Rightarrow> 'w \<Rightarrow> 'l \<times> 'w"
  t_link_close :: "'h \<Rightarrow> 'w \<Rightarrow> (string + unit) \<times> 'w"
  t_send_to_out_links :: "'h \<Rightarrow> bytes \<Rightarrow> 'w \<Rightarrow> nat \<times> 'w"
  t_send_announce :: "bytes \<Rightarrow> 'w \<Rightarrow> 'w"

record ('h, 'c, 'd, 'l, 'w) vpn_env =
  e_cidr :: "'c cidr_ops"
  e_hash :: "'h hash_ops"
  e_os :: "'w os"
  e_transport :: "('h, 'd, 'l, 'w) transport_ops"
  e_desc_hash :: "'d \<Rightarrow> 'h"
  e_tun_send :: "bytes \<Rightarrow> 'w \<Rightarrow> (string + nat) \<times> 'w"
  e_ip_slice :: "bytes \<Rightarrow> (ip_addr \<times> ip_addr) option"
  e_announce :: "announce msgpack"
  e_ctrl :: "ctrl msgpack"

section \<open>State\<close>

record 'c vpn_config =
  cfg_network :: 'c
  cfg_allow_all_peers :: bool
  cfg_peers :: "string list"
  cfg_advertised_routes :: "'c list"
  cfg_announce_freq_secs :: nat

record ('h, 'c) slow_state =
  allow_all_peers :: bool
  allowed_peers :: "'h list"
  advertised_routes :: "'c list"
  local_routes :: "'c list"
  installed_routes :: "string list"
  conflicted_routes :: "string list"
  s_last_error :: "string option"

record ('h, 'c, 'd, 'l) vpn_runtime =
  destination :: 'h
  destination_hex :: string
  network :: 'c
  local_tunnel_ip :: ipv4
  interface_name :: "string option"
  backend :: string
  route_aliasing_enabled :: bool
  status :: nat
  v_metrics :: metrics
  peers :: "('h, 'c, 'd) peer_registry"
  router :: "('h, 'c) route_table"
  out_links :: "('h, 'l) link_registry"
  slow :: "('h, 'c) slow_state"

type_synonym ('h, 'c, 'd, 'l, 'w) vpn_state = "('h, 'c, 'd, 'l) vpn_runtime \<times> 'w"

section \<open>Operations\<close>

definition rebuild_router ::
    "('h, 'c, 'd, 'l, 'w) vpn_env \<Rightarrow> nat \<Rightarrow> ('h, 'c, 'd, 'l) vpn_runtime \<Rightarrow> ('h, 'c, 'd, 'l) vpn_runtime" where
  "rebuild_router E now rt =
     rt\<lparr>router := build (e_cidr E) (peers_all (peers rt)) now (destination rt) (local_tunnel_ip rt)\<rparr>"

definition set_error :: "string \<Rightarrow> ('h, 'c, 'd, 'l) vpn_runtime \<Rightarrow> ('h, 'c, 'd, 'l) vpn_runtime" where
  "set_error msg rt = rt\<lparr>slow := (slow rt)\<lparr>s_last_error := Some msg\<rparr>, status := STATUS_ERROR\<rparr>"

definition route_translations ::
    "('h, 'c, 'd, 'l, 'w) vpn_env \<Rightarrow> ('h, 'c, 'd, 'l) vpn_runtime \<Rightarrow> 'c local_route_translation list" where
  "route_translations E rt =
     local_route_translations (e_cidr E) (e_hash E) (local_routes (slow rt)) (destination rt)
       (route_aliasing_enabled rt)"

definition local_conflicts ::
    "('h, 'c, 'd, 'l, 'w) vpn_env \<Rightarrow> ('h, 'c, 'd, 'l) vpn_runtime \<Rightarrow> string list" where
  "local_conflicts E rt =
     conflicting_local_routes (e_cidr E) (route_translations E rt) (map fst (subnets (router rt)))"

definition desired_routes ::
    "('h, 'c, 'd, 'l, 'w) vpn_env \<Rightarrow> ('h, 'c, 'd, 'l) vpn_runtime \<Rightarrow> string list" where
  "desired_routes E rt =
     btree_set (map (\<lambda>(route, _). cidr_to_string (e_cidr E) route)
       (filter (\<lambda>(route, _). cidr_to_string (e_cidr E) route \<notin> set (local_conflicts E rt))
         (subnets (router rt))))"

definition commit_routes ::
    "string list \<Rightarrow> string list \<Rightarrow> ('h, 'c, 'd, 'l) vpn_runtime \<Rightarrow> ('h, 'c, 'd, 'l) vpn_runtime" where
  "commit_routes desired conflicts rt =
     (let rt = rt\<lparr>slow := (slow rt)\<lparr>installed_routes := desired, conflicted_routes := conflicts,
                                   s_last_error := None\<rparr>\<rparr>
      in if status rt \<noteq> STATUS_MOCK then rt\<lparr>status := STATUS_RUNNING\<rparr> else rt)"

definition sync_routes ::
    "('h, 'c, 'd, 'l, 'w) vpn_env \<Rightarrow> ('h, 'c, 'd, 'l, 'w) vpn_state \<Rightarrow> ('h, 'c, 'd, 'l, 'w) vpn_state" where
  "sync_routes E = (\<lambda>(rt, w).
     (let translations = route_translations E rt;
          conflicts = local_conflicts E rt;
          desired = desired_routes E rt;
          installed_before = installed_routes (slow rt)
      in case interface_name rt of
           None \<Rightarrow> (commit_routes desired conflicts rt, w)
         | Some name \<Rightarrow>
             (let w = fold (delete_route (e_os E) name)
                        (filter (\<lambda>r. r \<notin> set desired) installed_before) w
              in case try_all (map (replace_route (e_os E) name) desired) w of
                   (Inl err, w) \<Rightarrow> (set_error err rt, w)
                 | (Inr _, w) \<Rightarrow>
                     (case sync_route_translations (e_os E) (e_cidr E) name translations w of
                        (Inl err, w) \<Rightarrow> (set_error err rt, w)
                      | (Inr _, w) \<Rightarrow> (commit_routes desired conflicts rt, w)))))"

definition exported_routes ::
    "('h, 'c, 'd, 'l, 'w) vpn_env \<Rightarrow> ('h, 'c, 'd, 'l) vpn_runtime \<Rightarrow> 'c list" where
  "exported_routes E rt = map lrt_exported (route_translations E rt)"

definition refresh_local_routes ::
    "('h, 'c::linorder, 'd, 'l, 'w) vpn_env \<Rightarrow> string + net_if list
       \<Rightarrow> ('h, 'c, 'd, 'l) vpn_runtime \<Rightarrow> ('h, 'c, 'd, 'l) vpn_runtime" where
  "refresh_local_routes E ifs rt =
     (let discovered = discover_local_routes (e_cidr E) ifs (interface_name rt)
      in rt\<lparr>slow := (slow rt)\<lparr>local_routes := merge_routes discovered (advertised_routes (slow rt))\<rparr>\<rparr>)"

definition peer_allowed :: "'h \<Rightarrow> ('h, 'c, 'd, 'l) vpn_runtime \<Rightarrow> bool" where
  "peer_allowed hash rt \<longleftrightarrow>
     (if hash = destination rt then False
      else allow_all_peers (slow rt) \<or> hash \<in> set (allowed_peers (slow rt)))"

definition set_peer ::
    "'h \<Rightarrow> (('h, 'c, 'd) peer \<Rightarrow> ('h, 'c, 'd) peer)
       \<Rightarrow> ('h, 'c, 'd, 'l) vpn_runtime \<Rightarrow> ('h, 'c, 'd, 'l) vpn_runtime" where
  "set_peer h f rt = rt\<lparr>peers := peers_modify h f (peers rt)\<rparr>"

definition set_link_state ::
    "'h \<Rightarrow> link_state \<Rightarrow> ('h, 'c, 'd, 'l) vpn_runtime \<Rightarrow> ('h, 'c, 'd, 'l) vpn_runtime" where
  "set_link_state h s rt = set_peer h (set_state s) rt"

definition record_peer_error ::
    "'h \<Rightarrow> string \<Rightarrow> ('h, 'c, 'd, 'l) vpn_runtime \<Rightarrow> ('h, 'c, 'd, 'l) vpn_runtime" where
  "record_peer_error h msg rt = set_peer h (set_peer_error msg) rt"

definition rt_record_drop :: "('h, 'c, 'd, 'l) vpn_runtime \<Rightarrow> ('h, 'c, 'd, 'l) vpn_runtime" where
  "rt_record_drop rt = rt\<lparr>v_metrics := record_drop (v_metrics rt)\<rparr>"

definition announced_peer ::
    "nat \<Rightarrow> 'd \<Rightarrow> 'c list \<Rightarrow> ('h, 'c, 'd) peer \<Rightarrow> ('h, 'c, 'd) peer" where
  "announced_peer now desc routes p =
     clear_error (set_routes routes
       ((mark_seen now (set_desc desc p))\<lparr>p_route_expires_ts := wrap64 (now + ROUTE_GRACE_SECS)\<rparr>))"

definition handle_peer_announce ::
    "('h, 'c, 'd, 'l, 'w) vpn_env \<Rightarrow> nat \<Rightarrow> 'd \<Rightarrow> 'c list
       \<Rightarrow> ('h, 'c, 'd, 'l, 'w) vpn_state \<Rightarrow> bool \<times> ('h, 'c, 'd, 'l, 'w) vpn_state" where
  "handle_peer_announce E now desc routes = (\<lambda>(rt, w).
     (let hash = e_desc_hash E desc in
      if hash = destination rt then (False, rt, w)
      else if \<not> peer_allowed hash rt then (False, rt, w)
      else (case derive_tunnel_ip (e_cidr E) (e_hash E) (network rt) hash of
              Inl _ \<Rightarrow> (False, rt, w)
            | Inr tunnel_ip \<Rightarrow>
                (let reg = snd (peers_get_or_create hash (peer_new hash tunnel_ip Discovered) (peers rt));
                     reg = peers_modify hash (announced_peer now desc routes) reg
                 in (True, sync_routes E (rebuild_router E now (rt\<lparr>peers := reg\<rparr>), w))))))"

subsection \<open>Peer policy and advertised routes\<close>

fun seed_allowed ::
    "('h, 'c, 'd, 'l, 'w) vpn_env \<Rightarrow> 'h list \<Rightarrow> ('h, 'c, 'd, 'l) vpn_runtime
       \<Rightarrow> (vpn_error + unit) \<times> ('h, 'c, 'd, 'l) vpn_runtime" where
  "seed_allowed E [] rt = (Inr (), rt)"
| "seed_allowed E (hash # hs) rt =
     (if hash = destination rt then seed_allowed E hs rt
      else if peers_get hash (peers rt) \<noteq> None then seed_allowed E hs rt
      else (case derive_tunnel_ip (e_cidr E) (e_hash E) (network rt) hash of
              Inl e \<Rightarrow> (Inl e, rt)
            | Inr ip \<Rightarrow>
                seed_allowed E hs (rt\<lparr>peers := peers_insert (peer_new hash ip Configured) (peers rt)\<rparr>)))"

definition prune_peer ::
    "'h list \<Rightarrow> ('h, 'c, 'd) peer \<Rightarrow> ('h, 'c, 'd, 'l) vpn_runtime \<Rightarrow> ('h, 'c, 'd, 'l) vpn_runtime" where
  "prune_peer allowed p rt =
     (if p_hash p = destination rt \<or> p_hash p \<in> set allowed then rt
      else rt\<lparr>peers := peers_remove (p_hash p) (peers rt), out_links := links_remove (p_hash p) (out_links rt)\<rparr>)"

definition replace_peer_policy ::
    "('h, 'c, 'd, 'l, 'w) vpn_env \<Rightarrow> nat \<Rightarrow> bool \<Rightarrow> string list
       \<Rightarrow> ('h, 'c, 'd, 'l, 'w) vpn_state \<Rightarrow> (vpn_error + unit) \<times> ('h, 'c, 'd, 'l, 'w) vpn_state" where
  "replace_peer_policy E now allow_all peer_strs = (\<lambda>(rt, w).
     (case parse_configured_peers (e_hash E) peer_strs of
        Inl e \<Rightarrow> (Inl e, rt, w)
      | Inr allowed \<Rightarrow>
          (let rt = rt\<lparr>slow := (slow rt)\<lparr>allow_all_peers := allow_all, allowed_peers := allowed,
                                        s_last_error := None\<rparr>\<rparr>
           in case seed_allowed E allowed rt of
                (Inl e, rt) \<Rightarrow> (Inl e, rt, w)
              | (Inr _, rt) \<Rightarrow>
                  (let rt = (if allow_all then rt else fold (prune_peer allowed) (peers_all (peers rt)) rt)
                   in (Inr (), sync_routes E (rebuild_router E now rt, w))))))"

definition replace_advertised_routes ::
    "('h, 'c::linorder, 'd, 'l, 'w) vpn_env \<Rightarrow> string + net_if list \<Rightarrow> 'c list
       \<Rightarrow> ('h, 'c, 'd, 'l, 'w) vpn_state \<Rightarrow> ('h, 'c, 'd, 'l, 'w) vpn_state" where
  "replace_advertised_routes E ifs routes = (\<lambda>(rt, w).
     (let discovered = discover_local_routes (e_cidr E) ifs (interface_name rt);
          rt = rt\<lparr>slow := (slow rt)\<lparr>advertised_routes := routes,
                                   local_routes := merge_routes discovered routes,
                                   s_last_error := None\<rparr>\<rparr>
      in sync_routes E (rt, w)))"

subsection \<open>Start\<close>

fun seed_configured ::
    "('h, 'c, 'd, 'l, 'w) vpn_env \<Rightarrow> 'h list \<Rightarrow> ('h, 'c, 'd, 'l) vpn_runtime
       \<Rightarrow> vpn_error + ('h, 'c, 'd, 'l) vpn_runtime" where
  "seed_configured E [] rt = Inr rt"
| "seed_configured E (hash # hs) rt =
     (if hash = destination rt then seed_configured E hs rt
      else (case derive_tunnel_ip (e_cidr E) (e_hash E) (network rt) hash of
              Inl e \<Rightarrow> Inl e
            | Inr ip \<Rightarrow>
                seed_configured E hs (rt\<lparr>peers := peers_insert (peer_new hash ip Configured) (peers rt)\<rparr>)))"

text \<open>
  \<open>open_platform\<close> of \<open>tun.rs\<close> on Linux: the \<open>riptun\<close> crate opens the device and gives its name or
  an error (\<open>riptun\<close>, the first argument).
\<close>

definition open_platform :: "string + string \<Rightarrow> string + string option" where
  "open_platform riptun = (case riptun of Inl e \<Rightarrow> Inl e | Inr name \<Rightarrow> Inr (Some name))"

definition initial_runtime ::
    "('h, 'c::linorder, 'd, 'l, 'w) vpn_env \<Rightarrow> 'c vpn_config \<Rightarrow> 'h \<Rightarrow> ipv4 \<Rightarrow> string option \<Rightarrow> bool
       \<Rightarrow> 'h list \<Rightarrow> string + net_if list \<Rightarrow> ('h, 'c, 'd, 'l) vpn_runtime" where
  "initial_runtime E config dest ip iface aliasing configured ifs =
     \<lparr>destination = dest, destination_hex = h_hex (e_hash E) dest, network = cfg_network config,
      local_tunnel_ip = ip, interface_name = iface, backend = backend_name,
      route_aliasing_enabled = aliasing,
      status = (if iface \<noteq> None then STATUS_RUNNING else STATUS_MOCK),
      v_metrics = default_metrics, peers = peers_new, router = empty_table, out_links = links_new,
      slow = \<lparr>allow_all_peers = cfg_allow_all_peers config, allowed_peers = configured,
              advertised_routes = cfg_advertised_routes config,
              local_routes = merge_routes (discover_local_routes (e_cidr E) ifs iface)
                               (cfg_advertised_routes config),
              installed_routes = [], conflicted_routes = [], s_last_error = None\<rparr>\<rparr>"

definition start_runtime ::
    "('h, 'c::linorder, 'd, 'l, 'w) vpn_env \<Rightarrow> nat \<Rightarrow> 'c vpn_config \<Rightarrow> 'h \<Rightarrow> string + string
       \<Rightarrow> string + net_if list \<Rightarrow> 'w \<Rightarrow> (vpn_error + ('h, 'c, 'd, 'l) vpn_runtime) \<times> 'w" where
  "start_runtime E now config dest riptun ifs w =
     (case validate_network (e_cidr E) (cfg_network config) of Inl e \<Rightarrow> (Inl e, w) | Inr _ \<Rightarrow>
      case parse_configured_peers (e_hash E) (cfg_peers config) of Inl e \<Rightarrow> (Inl e, w) | Inr configured \<Rightarrow>
      case derive_tunnel_ip (e_cidr E) (e_hash E) (cfg_network config) dest of Inl e \<Rightarrow> (Inl e, w) | Inr ip \<Rightarrow>
      case open_platform riptun of Inl e \<Rightarrow> (Inl (Io e), w) | Inr iface \<Rightarrow>
      (case supports_route_aliasing (e_os E) w of (aliasing, w) \<Rightarrow>
       case (case iface of
               None \<Rightarrow> (Inr (), w)
             | Some name \<Rightarrow>
                 try_all [configure_tun_address (e_os E) name ip (network_length (e_cidr E) (cfg_network config)),
                          enable_forwarding (e_os E)] w) of
         (Inl e, w) \<Rightarrow> (Inl (Io e), w)
       | (Inr _, w) \<Rightarrow>
           (case seed_configured E configured (initial_runtime E config dest ip iface aliasing configured ifs) of
              Inl e \<Rightarrow> (Inl e, w)
            | Inr rt \<Rightarrow> (case sync_routes E (rebuild_router E now rt, w) of (rt, w) \<Rightarrow> (Inr rt, w)))))"

end
