(* ===== verification/Runtime_Inv.thy ===== *)
theory Runtime_Inv
  imports Runtime
begin

text \<open>
  The invariant of the VPN runtime and its preservation by the operations of \<open>Runtime\<close>.
  \<open>reg_inv\<close> is about the registry: every registered peer is remote, allowed by the policy and has the
  tunnel address derived from its hash. \<open>router_fresh\<close> says that the router is the table built from
  the current peers at some clock reading. \<open>route_view\<close> is the part of a peer that a build reads, so
  an update that keeps it keeps the router fresh.
\<close>

section \<open>What an operation leaves alone\<close>

definition same_core :: "('h, 'c, 'd, 'l) vpn_runtime \<Rightarrow> ('h, 'c, 'd, 'l) vpn_runtime \<Rightarrow> bool" where
  "same_core a b \<longleftrightarrow>
     destination a = destination b \<and> network a = network b \<and> local_tunnel_ip a = local_tunnel_ip b
     \<and> interface_name a = interface_name b \<and> route_aliasing_enabled a = route_aliasing_enabled b
     \<and> peers a = peers b \<and> router a = router b \<and> out_links a = out_links b
     \<and> v_metrics a = v_metrics b
     \<and> allow_all_peers (slow a) = allow_all_peers (slow b) \<and> allowed_peers (slow a) = allowed_peers (slow b)
     \<and> advertised_routes (slow a) = advertised_routes (slow b) \<and> local_routes (slow a) = local_routes (slow b)"

lemma same_core_refl [simp]: "same_core a a"
  by (simp add: same_core_def)

lemma same_core_set_error [simp]: "same_core (set_error msg rt) rt"
  by (simp add: same_core_def set_error_def)

lemma same_core_commit [simp]: "same_core (commit_routes d c rt) rt"
  by (simp add: same_core_def commit_routes_def Let_def)

lemma sync_routes_cases:
  "\<exists>w'. sync_routes E (rt, w) = (commit_routes (desired_routes E rt) (local_conflicts E rt) rt, w')
      \<or> (\<exists>e. interface_name rt \<noteq> None \<and> sync_routes E (rt, w) = (set_error e rt, w'))"
  by (auto simp: sync_routes_def Let_def split: option.splits prod.splits sum.splits)

lemma sync_routes_core: "same_core (fst (sync_routes E (rt, w))) rt"
  using sync_routes_cases [of E rt w] by auto

lemma sync_core:
  assumes "sync_routes E s = (rt', w')" shows "same_core rt' (fst s)"
  using sync_routes_core [of E "fst s" "snd s"] assms by simp

text \<open>The two outcomes of a synchronisation: everything is committed, or only the error is recorded.\<close>

lemma commit_routes_simps [simp]:
  "installed_routes (slow (commit_routes d c rt)) = d"
  "conflicted_routes (slow (commit_routes d c rt)) = c"
  "s_last_error (slow (commit_routes d c rt)) = None"
  "status (commit_routes d c rt) = (if status rt = STATUS_MOCK then STATUS_MOCK else STATUS_RUNNING)"
  by (simp_all add: commit_routes_def Let_def)

lemma set_error_simps [simp]:
  "installed_routes (slow (set_error e rt)) = installed_routes (slow rt)"
  "conflicted_routes (slow (set_error e rt)) = conflicted_routes (slow rt)"
  "s_last_error (slow (set_error e rt)) = Some e"
  "status (set_error e rt) = STATUS_ERROR"
  by (simp_all add: set_error_def)

section \<open>The invariant\<close>

definition reg_inv :: "('h, 'c, 'd, 'l, 'w) vpn_env \<Rightarrow> ('h, 'c, 'd, 'l) vpn_runtime \<Rightarrow> bool" where
  "reg_inv E rt \<longleftrightarrow>
     peers_inv (peers rt)
     \<and> derive_tunnel_ip (e_cidr E) (e_hash E) (network rt) (destination rt) = Inr (local_tunnel_ip rt)
     \<and> (\<forall>h p. peers_get h (peers rt) = Some p \<longrightarrow>
          derive_tunnel_ip (e_cidr E) (e_hash E) (network rt) h = Inr (p_tunnel_ip p)
          \<and> peer_allowed h rt)"

definition router_fresh :: "('h, 'c, 'd, 'l, 'w) vpn_env \<Rightarrow> ('h, 'c, 'd, 'l) vpn_runtime \<Rightarrow> bool" where
  "router_fresh E rt \<longleftrightarrow>
     (\<exists>now. router rt = build (e_cidr E) (peers_all (peers rt)) now (destination rt) (local_tunnel_ip rt))"

definition rt_inv :: "('h, 'c, 'd, 'l, 'w) vpn_env \<Rightarrow> ('h, 'c, 'd, 'l) vpn_runtime \<Rightarrow> bool" where
  "rt_inv E rt \<longleftrightarrow> reg_inv E rt \<and> router_fresh E rt"

lemma peer_allowed_iff:
  "peer_allowed h rt \<longleftrightarrow>
     h \<noteq> destination rt \<and> (allow_all_peers (slow rt) \<or> h \<in> set (allowed_peers (slow rt)))"
  by (simp add: peer_allowed_def)

lemma peer_allowed_simps [simp]:
  "peer_allowed h (rt\<lparr>peers := m\<rparr>) = peer_allowed h rt"
  "peer_allowed h (rt\<lparr>router := t\<rparr>) = peer_allowed h rt"
  "peer_allowed h (rt\<lparr>v_metrics := c\<rparr>) = peer_allowed h rt"
  "peer_allowed h (rt\<lparr>out_links := l\<rparr>) = peer_allowed h rt"
  "peer_allowed h (set_peer k f rt) = peer_allowed h rt"
  by (simp_all add: peer_allowed_def set_peer_def)

lemma peer_allowed_refresh [simp]:
  "peer_allowed h (refresh_local_routes E ifs rt) = peer_allowed h rt"
  by (simp add: peer_allowed_def refresh_local_routes_def)

lemma same_core_inv:
  assumes "same_core a b" "rt_inv E b"
  shows "rt_inv E a"
proof -
  have "peer_allowed h a = peer_allowed h b" for h
    using assms(1) by (simp add: peer_allowed_def same_core_def)
  with assms show ?thesis by (simp add: rt_inv_def reg_inv_def router_fresh_def same_core_def)
qed

lemma rt_inv_sync [inv_intros]:
  "sync_routes E s = (rt', w') \<Longrightarrow> rt_inv E (fst s) \<Longrightarrow> rt_inv E rt'"
  by (rule same_core_inv [OF sync_core])

lemma rt_inv_set_error [inv_intros]: "rt_inv E rt \<Longrightarrow> rt_inv E (set_error msg rt)"
  by (rule same_core_inv [OF same_core_set_error])

lemma router_fresh_rebuild [simp]: "router_fresh E (rebuild_router E now rt)"
  by (auto simp: router_fresh_def rebuild_router_def)

lemma reg_inv_rebuild [simp]: "reg_inv E (rebuild_router E now rt) = reg_inv E rt"
  by (simp add: reg_inv_def rebuild_router_def)

lemma rt_inv_rebuild: "reg_inv E rt \<Longrightarrow> rt_inv E (rebuild_router E now rt)"
  by (simp add: rt_inv_def)

lemma rt_inv_sync_rebuild:
  "sync_routes E (rebuild_router E now rt, w) = (rt', w') \<Longrightarrow> reg_inv E rt \<Longrightarrow> rt_inv E rt'"
  using rt_inv_sync [of E "(rebuild_router E now rt, w)" rt' w'] rt_inv_rebuild [of E rt now] by simp

subsection \<open>Updates of one peer\<close>

definition keeps_identity :: "(('h, 'c, 'd) peer \<Rightarrow> ('h, 'c, 'd) peer) \<Rightarrow> bool" where
  "keeps_identity f \<longleftrightarrow> (\<forall>p. p_hash (f p) = p_hash p \<and> p_tunnel_ip (f p) = p_tunnel_ip p)"

definition keeps_routes :: "(('h, 'c, 'd) peer \<Rightarrow> ('h, 'c, 'd) peer) \<Rightarrow> bool" where
  "keeps_routes f \<longleftrightarrow> keeps_identity f
     \<and> (\<forall>p. p_routes (f p) = p_routes p \<and> p_route_expires_ts (f p) = p_route_expires_ts p)"

definition route_view :: "('h, 'c, 'd) peer \<Rightarrow> 'h \<times> ipv4 \<times> 'c list \<times> nat" where
  "route_view p = (p_hash p, p_tunnel_ip p, p_routes p, p_route_expires_ts p)"

lemma build_peer_cong_view:
  "route_view p = route_view q \<Longrightarrow> build_peer C now lh lip p = build_peer C now lh lip q"
  by (intro ext) (simp add: build_peer_def route_view_def Let_def split: prod.split)

lemma fold_build_cong_view:
  "map route_view ps = map route_view qs \<Longrightarrow>
   fold (build_peer C now lh lip) ps st = fold (build_peer C now lh lip) qs st"
proof (induction ps arbitrary: qs st)
  case Nil
  then show ?case by simp
next
  case (Cons p ps)
  then obtain q qs' where q: "qs = q # qs'" "route_view p = route_view q" "map route_view ps = map route_view qs'"
    by (cases qs) auto
  from build_peer_cong_view [OF q(2)] Cons.IH [OF q(3)] q(1) show ?case by simp
qed

lemma build_cong_view:
  "map route_view ps = map route_view qs \<Longrightarrow> build C ps now lh lip = build C qs now lh lip"
  by (simp only: build_def fold_build_cong_view [of ps qs])

lemma route_view_modify:
  "keeps_routes f \<Longrightarrow> map route_view (peers_all (peers_modify h f m)) = map route_view (peers_all m)"
  by (auto simp: peers_all_def peers_modify_def hm_modify_def route_view_def keeps_routes_def keeps_identity_def)

lemma reg_inv_set_peer:
  assumes k: "keeps_identity f" and i: "reg_inv E rt"
  shows "reg_inv E (set_peer h f rt)"
proof -
  have "peers_inv (peers_modify h f (peers rt))"
    by (rule pr.inv_upd) (use k i in \<open>auto simp: keeps_identity_def reg_inv_def\<close>)
  then show ?thesis
    using k i by (auto simp: reg_inv_def pr.get_upd keeps_identity_def) (auto simp: set_peer_def pr.get_upd split: if_splits)
qed

lemma rt_inv_set_peer [inv_intros]:
  assumes k: "keeps_routes f" and i: "rt_inv E rt"
  shows "rt_inv E (set_peer h f rt)"
proof -
  have "reg_inv E (set_peer h f rt)"
    using k i by (auto simp: rt_inv_def keeps_routes_def intro: reg_inv_set_peer)
  moreover have "router_fresh E (set_peer h f rt)"
    using i build_cong_view [OF route_view_modify [OF k, of h "peers rt"]]
    by (auto simp: rt_inv_def router_fresh_def set_peer_def)
  ultimately show ?thesis by (simp add: rt_inv_def)
qed

lemma keeps_routes_ops [simp]:
  "keeps_routes (mark_link_attempt now)" "keeps_routes clear_link_attempt" "keeps_routes finish_link_request"
  "keeps_routes (set_reconnect_cooldown now n)" "keeps_routes clear_reconnect_cooldown"
  "keeps_routes (set_state s)" "keeps_routes (mark_seen now)" "keeps_routes (mark_tx now)"
  "keeps_routes (set_peer_error e)" "keeps_routes clear_error" "keeps_routes (set_desc d)"
  "keeps_routes (\<lambda>p. snd (try_begin_link_request p))"
  "keeps_routes (p_reconnect_attempts_update g)" "keeps_routes (p_metrics_update m)"
  by (simp_all add: keeps_routes_def keeps_identity_def peer_ops try_begin_link_request_def)

lemma keeps_routes_comp [simp]:
  "keeps_routes f \<Longrightarrow> keeps_routes g \<Longrightarrow> keeps_routes (\<lambda>p. f (g p))"
  by (simp add: keeps_routes_def keeps_identity_def)

lemma keeps_identity_announced [simp]: "keeps_identity (announced_peer now d rs)"
  by (simp add: keeps_identity_def announced_peer_def peer_ops)

lemma rt_inv_metrics [inv_intros]: "rt_inv E rt \<Longrightarrow> rt_inv E (rt\<lparr>v_metrics := m\<rparr>)"
  by (simp add: rt_inv_def reg_inv_def router_fresh_def)

lemma rt_inv_out_links [inv_intros]: "rt_inv E rt \<Longrightarrow> rt_inv E (rt\<lparr>out_links := l\<rparr>)"
  by (simp add: rt_inv_def reg_inv_def router_fresh_def)

lemma rt_inv_local_routes [inv_intros]:
  "rt_inv E rt \<Longrightarrow> rt_inv E (refresh_local_routes E ifs rt)"
  by (simp add: rt_inv_def reg_inv_def router_fresh_def) (simp add: refresh_local_routes_def)

section \<open>The operations keep the invariant\<close>

lemma reg_inv_insert:
  assumes i: "reg_inv E rt" and a: "peer_allowed h rt"
    and d: "derive_tunnel_ip (e_cidr E) (e_hash E) (network rt) h = Inr (p_tunnel_ip p)" and p: "p_hash p = h"
  shows "reg_inv E (rt\<lparr>peers := peers_insert p (peers rt)\<rparr>)"
  using assms pr.inv_ins [of "peers rt" p h] pr.get_ins [of "peers rt" p h]
  by (auto simp: reg_inv_def split: if_splits)

lemma get_or_create_insert:
  "snd (peers_get_or_create h new m) =
     (if peers_get h m = None then AList.update h new m else m)"
  by (auto simp: peers_get_or_create_def peers_get_def split: option.splits)

lemma handle_peer_announce_inv:
  assumes i: "rt_inv E rt" and r: "handle_peer_announce E now d rs (rt, w) = (b, rt', w')"
  shows "rt_inv E rt'"
proof (cases b)
  case False
  then have "rt' = rt"
    using r by (auto simp: handle_peer_announce_def Let_def split: if_splits sum.splits prod.splits)
  with i show ?thesis by simp
next
  case True
  let ?h = "e_desc_hash E d"
  from r True obtain ip where a: "peer_allowed ?h rt"
    and ip: "derive_tunnel_ip (e_cidr E) (e_hash E) (network rt) ?h = Inr ip"
    and s: "sync_routes E (rebuild_router E now (rt\<lparr>peers := peers_modify ?h (announced_peer now d rs)
        (snd (peers_get_or_create ?h (peer_new ?h ip Discovered) (peers rt)))\<rparr>), w) = (rt', w')"
    by (auto simp: handle_peer_announce_def Let_def split: if_splits sum.splits)
  let ?rt = "rt\<lparr>peers := snd (peers_get_or_create ?h (peer_new ?h ip Discovered) (peers rt))\<rparr>"
  have ir: "reg_inv E rt" using i by (simp add: rt_inv_def)
  have "reg_inv E ?rt"
  proof (cases "peers_get ?h (peers rt)")
    case None
    have "reg_inv E (rt\<lparr>peers := peers_insert (peer_new ?h ip Discovered) (peers rt)\<rparr>)"
      by (rule reg_inv_insert [OF ir a]) (simp_all add: ip peer_new_def)
    with None show ?thesis by (simp add: get_or_create_insert peers_insert_def peer_new_def)
  next
    case (Some p)
    with ir show ?thesis by (simp add: get_or_create_insert)
  qed
  then have "reg_inv E (set_peer ?h (announced_peer now d rs) ?rt)"
    by (intro reg_inv_set_peer) simp_all
  with s show ?thesis by (intro rt_inv_sync_rebuild [OF s]) (simp add: set_peer_def)
qed

text \<open>
  The tunnel address of a peer is always defined once the network has passed validation. So the
  seeding loops cannot fail half way, and they are \<open>add_missing\<close> of the registry.
\<close>

definition configured_peer ::
    "('h, 'c, 'd, 'l, 'w) vpn_env \<Rightarrow> 'c \<Rightarrow> 'h \<Rightarrow> ('h, 'c, 'd) peer" where
  "configured_peer E n h =
     peer_new h (case derive_tunnel_ip (e_cidr E) (e_hash E) n h of Inl _ \<Rightarrow> 0 | Inr ip \<Rightarrow> ip) Configured"

lemma configured_peer_simps [simp]:
  "p_hash (configured_peer E n h) = h" "p_routes (configured_peer E n h) = []"
  "p_link_state (configured_peer E n h) = Configured"
  by (simp_all add: configured_peer_def peer_new_def)

definition valid_network :: "('h, 'c, 'd, 'l, 'w) vpn_env \<Rightarrow> 'c \<Rightarrow> bool" where
  "valid_network E n \<longleftrightarrow> network_length (e_cidr E) n \<le> 30"

lemma valid_network_derive:
  "valid_network E n \<Longrightarrow> derive_tunnel_ip (e_cidr E) (e_hash E) n h = Inr (p_tunnel_ip (configured_peer E n h))"
  using derive_tunnel_ip_defined [of "e_cidr E" "e_hash E" n h]
  by (auto simp: valid_network_def configured_peer_def peer_new_def)

lemma reg_inv_valid: "reg_inv E rt \<Longrightarrow> valid_network E (network rt)"
  using derive_tunnel_ip_defined [of "e_cidr E" "e_hash E" "network rt" "destination rt"]
  by (auto simp: reg_inv_def valid_network_def)

lemma configured_peer_insert:
  "valid_network E n \<Longrightarrow> derive_tunnel_ip (e_cidr E) (e_hash E) n h = Inr ip \<Longrightarrow>
   peer_new h ip Configured = configured_peer E n h"
  by (simp add: configured_peer_def)

lemma seed_allowed_eq:
  "valid_network E (network rt) \<Longrightarrow>
   seed_allowed E hs rt = (Inr (), rt\<lparr>peers := pr.add_missing (configured_peer E (network rt))
     (filter (\<lambda>h. h \<noteq> destination rt) hs) (peers rt)\<rparr>)"
proof (induction hs arbitrary: rt)
  case Nil
  then show ?case by simp
next
  case (Cons h hs)
  let ?rt = "rt\<lparr>peers := peers_insert (configured_peer E (network rt) h) (peers rt)\<rparr>"
  have "valid_network E (network ?rt)" using Cons.prems by simp
  from Cons.IH [OF this] Cons.IH [OF Cons.prems] valid_network_derive [OF Cons.prems, of h]
    configured_peer_insert [OF Cons.prems, of h]
  show ?case by simp
qed

lemma seed_configured_eq:
  "valid_network E (network rt) \<Longrightarrow>
   seed_configured E hs rt = Inr (rt\<lparr>peers := fold (\<lambda>h. peers_insert (configured_peer E (network rt) h))
     (filter (\<lambda>h. h \<noteq> destination rt) hs) (peers rt)\<rparr>)"
proof (induction hs arbitrary: rt)
  case Nil
  then show ?case by simp
next
  case (Cons h hs)
  let ?rt = "rt\<lparr>peers := peers_insert (configured_peer E (network rt) h) (peers rt)\<rparr>"
  have "valid_network E (network ?rt)" using Cons.prems by simp
  from Cons.IH [OF this] Cons.IH [OF Cons.prems] valid_network_derive [OF Cons.prems, of h]
    configured_peer_insert [OF Cons.prems, of h]
  show ?case by simp
qed

lemma insert_configured:
  "peers_inv m \<Longrightarrow>
   peers_inv (fold (\<lambda>h. peers_insert (configured_peer E n h)) hs m)
   \<and> peers_get k (fold (\<lambda>h. peers_insert (configured_peer E n h)) hs m) =
       (if k \<in> set hs then Some (configured_peer E n k) else peers_get k m)"
proof (induction hs arbitrary: m)
  case Nil
  then show ?case by simp
next
  case (Cons h hs)
  have "peers_inv (peers_insert (configured_peer E n h) m)"
    using Cons.prems pr.inv_ins [of m "configured_peer E n h" h] by simp
  from Cons.IH [OF this] pr.get_ins [OF Cons.prems, of "configured_peer E n h" h k]
  show ?case by auto
qed

lemma fold_prune:
  "fold (prune_peer allowed) ps rt =
     (let ks = map p_hash (filter (\<lambda>p. p_hash p \<noteq> destination rt \<and> p_hash p \<notin> set allowed) ps)
      in rt\<lparr>peers := fold peers_remove ks (peers rt), out_links := fold links_remove ks (out_links rt)\<rparr>)"
  by (induction ps arbitrary: rt) (auto simp: prune_peer_def Let_def)

text \<open>What the registry holds after a policy change.\<close>

definition policy_peers ::
    "('h, 'c, 'd, 'l, 'w) vpn_env \<Rightarrow> bool \<Rightarrow> 'h list \<Rightarrow> ('h, 'c, 'd, 'l) vpn_runtime \<Rightarrow> 'h
       \<Rightarrow> ('h, 'c, 'd) peer option" where
  "policy_peers E allow_all allowed rt h =
     (if h \<noteq> destination rt \<and> h \<in> set allowed then
        (case peers_get h (peers rt) of None \<Rightarrow> Some (configured_peer E (network rt) h) | Some p \<Rightarrow> Some p)
      else if allow_all \<or> h = destination rt then peers_get h (peers rt) else None)"

lemma prune_get:
  assumes "peers_inv m"
  shows "peers_get h (fold peers_remove (map p_hash (filter (\<lambda>p. p_hash p \<noteq> d \<and> p_hash p \<notin> set allowed) (peers_all m))) m)
      = (if h \<noteq> d \<and> h \<notin> set allowed then None else peers_get h m)"
proof -
  let ?ks = "map p_hash (filter (\<lambda>p. p_hash p \<noteq> d \<and> p_hash p \<notin> set allowed) (peers_all m))"
  have "h \<in> set ?ks \<longleftrightarrow> h \<noteq> d \<and> h \<notin> set allowed \<and> (\<exists>p\<in>set (peers_all m). p_hash p = h)"
    by auto
  then have "h \<in> set ?ks \<longleftrightarrow> h \<noteq> d \<and> h \<notin> set allowed \<and> peers_get h m \<noteq> None"
    by (simp only: peers_all_hash [OF assms])
  then show ?thesis using pr.get_rem_all [OF assms, of h ?ks] by auto
qed

lemma replace_peer_policy_Inr:
  assumes i: "reg_inv E rt" and p: "parse_configured_peers (e_hash E) strs = Inr allowed"
  shows "\<exists>rt1. replace_peer_policy E now allow_all strs (rt, w) = (Inr (), sync_routes E (rebuild_router E now rt1, w))
     \<and> peers_inv (peers rt1) \<and> (\<forall>h. peers_get h (peers rt1) = policy_peers E allow_all allowed rt h)
     \<and> allow_all_peers (slow rt1) = allow_all \<and> allowed_peers (slow rt1) = allowed
     \<and> destination rt1 = destination rt \<and> network rt1 = network rt \<and> local_tunnel_ip rt1 = local_tunnel_ip rt"
proof -
  let ?rt0 = "rt\<lparr>slow := (slow rt)\<lparr>allow_all_peers := allow_all, allowed_peers := allowed, s_last_error := None\<rparr>\<rparr>"
  let ?m = "pr.add_missing (configured_peer E (network rt)) (filter (\<lambda>h. h \<noteq> destination rt) allowed) (peers rt)"
  let ?rt1 = "if allow_all then ?rt0\<lparr>peers := ?m\<rparr>
    else fold (prune_peer allowed) (peers_all ?m) (?rt0\<lparr>peers := ?m\<rparr>)"
  have v: "valid_network E (network rt)" by (rule reg_inv_valid [OF i])
  have m: "peers_inv (peers rt)" using i by (simp add: reg_inv_def)
  have mi: "peers_inv ?m" by (rule pr.inv_add_missing [OF m]) simp
  have mg: "peers_get h ?m = (if peers_get h (peers rt) = None \<and> h \<in> set (filter (\<lambda>h. h \<noteq> destination rt) allowed)
      then Some (configured_peer E (network rt) h) else peers_get h (peers rt))" for h
    by (rule pr.get_add_missing [OF m]) simp
  have "replace_peer_policy E now allow_all strs (rt, w) = (Inr (), sync_routes E (rebuild_router E now ?rt1, w))"
    using v by (simp add: replace_peer_policy_def p Let_def seed_allowed_eq)
  moreover have "peers_inv (peers ?rt1)"
    using mi pr.inv_rem_all [OF mi] by (simp add: fold_prune Let_def)
  moreover have "peers_get h (peers ?rt1) = policy_peers E allow_all allowed rt h" for h
    using prune_get [OF mi, of h "destination rt" allowed] mg [of h]
    by (auto simp: fold_prune Let_def policy_peers_def split: option.splits)
  moreover have "allow_all_peers (slow ?rt1) = allow_all" "allowed_peers (slow ?rt1) = allowed"
    "destination ?rt1 = destination rt" "network ?rt1 = network rt" "local_tunnel_ip ?rt1 = local_tunnel_ip rt"
    by (simp_all add: fold_prune Let_def)
  ultimately show ?thesis by blast
qed

lemma replace_peer_policy_inv:
  assumes i: "rt_inv E rt" and r: "replace_peer_policy E now allow_all strs (rt, w) = (res, rt', w')"
  shows "rt_inv E rt'"
proof (cases "parse_configured_peers (e_hash E) strs")
  case (Inl e)
  with r have "rt' = rt" by (simp add: replace_peer_policy_def)
  with i show ?thesis by simp
next
  case (Inr allowed)
  have ir: "reg_inv E rt" using i by (simp add: rt_inv_def)
  from replace_peer_policy_Inr [OF ir Inr, of now allow_all w] r obtain rt1 where
    s: "sync_routes E (rebuild_router E now rt1, w) = (rt', w')" and m: "peers_inv (peers rt1)"
    and g: "\<And>h. peers_get h (peers rt1) = policy_peers E allow_all allowed rt h"
    and f: "allow_all_peers (slow rt1) = allow_all" "allowed_peers (slow rt1) = allowed"
      "destination rt1 = destination rt" "network rt1 = network rt" "local_tunnel_ip rt1 = local_tunnel_ip rt"
    by auto
  have "reg_inv E rt1"
    unfolding reg_inv_def g f
  proof (intro conjI allI impI)
    show "peers_inv (peers rt1)" by (rule m)
    show "derive_tunnel_ip (e_cidr E) (e_hash E) (network rt) (destination rt) = Inr (local_tunnel_ip rt)"
      using ir by (simp add: reg_inv_def)
  next
    fix h p assume p: "policy_peers E allow_all allowed rt h = Some p"
    show "derive_tunnel_ip (e_cidr E) (e_hash E) (network rt) h = Inr (p_tunnel_ip p)"
      using p ir valid_network_derive [OF reg_inv_valid [OF ir], of h]
      by (auto simp: policy_peers_def reg_inv_def split: if_splits option.splits)
    show "peer_allowed h rt1"
      using p ir by (auto simp: policy_peers_def reg_inv_def peer_allowed_iff f split: if_splits option.splits)
  qed
  with s show ?thesis by (rule rt_inv_sync_rebuild)
qed

lemma replace_advertised_routes_inv:
  assumes "rt_inv E rt" "replace_advertised_routes E ifs rs (rt, w) = (rt', w')"
  shows "rt_inv E rt'"
proof -
  let ?rt = "rt\<lparr>slow := (slow rt)\<lparr>advertised_routes := rs,
      local_routes := merge_routes (discover_local_routes (e_cidr E) ifs (interface_name rt)) rs, s_last_error := None\<rparr>\<rparr>"
  have "peer_allowed h ?rt = peer_allowed h rt" for h by (simp add: peer_allowed_def)
  then have "rt_inv E ?rt" using assms(1) by (simp add: rt_inv_def reg_inv_def router_fresh_def)
  moreover have "sync_routes E (?rt, w) = (rt', w')"
    using assms(2) by (simp add: replace_advertised_routes_def Let_def)
  ultimately show ?thesis using rt_inv_sync [of E "(?rt, w)"] by simp
qed

lemma start_runtime_inv:
  assumes "start_runtime E now config dest riptun ifs w = (Inr rt, w')"
  shows "rt_inv E rt"
proof -
  from assms obtain configured ip iface aliasing w1 w2 rt1 where
    c: "parse_configured_peers (e_hash E) (cfg_peers config) = Inr configured"
    and d: "derive_tunnel_ip (e_cidr E) (e_hash E) (cfg_network config) dest = Inr ip"
    and s: "seed_configured E configured (initial_runtime E config dest ip iface aliasing configured ifs) = Inr rt1"
    and y: "sync_routes E (rebuild_router E now rt1, w2) = (rt, w')"
    by (auto simp: start_runtime_def split: sum.splits prod.splits)
  let ?rt0 = "initial_runtime E config dest ip iface aliasing configured ifs"
  have v: "valid_network E (cfg_network config)"
    using d derive_tunnel_ip_defined [of "e_cidr E" "e_hash E" "cfg_network config" dest] by (auto simp: valid_network_def)
  let ?m = "fold (\<lambda>h. peers_insert (configured_peer E (cfg_network config) h)) (filter (\<lambda>h. h \<noteq> dest) configured) peers_new"
  have rt1: "rt1 = ?rt0\<lparr>peers := ?m\<rparr>"
    using s seed_configured_eq [of E ?rt0 configured] v by (simp add: initial_runtime_def)
  have m: "peers_inv ?m \<and> peers_get k ?m = (if k \<in> set (filter (\<lambda>h. h \<noteq> dest) configured)
      then Some (configured_peer E (cfg_network config) k) else None)" for k
    using insert_configured [OF pr.inv_emp, of E "cfg_network config" "filter (\<lambda>h. h \<noteq> dest) configured" k]
    by (simp only: pr.get_emp)
  have "reg_inv E rt1"
    using m d valid_network_derive [OF v]
    by (auto simp: reg_inv_def rt1 peer_allowed_iff initial_runtime_def split: if_splits)
  with y show ?thesis by (rule rt_inv_sync_rebuild)
qed

text \<open>What a started runtime takes from its configuration.\<close>

lemma start_runtime_config:
  assumes "start_runtime E now config dest riptun ifs w = (Inr rt, w')"
  shows "destination rt = dest" "network rt = cfg_network config"
    "allow_all_peers (slow rt) = cfg_allow_all_peers config"
    "parse_configured_peers (e_hash E) (cfg_peers config) = Inr (allowed_peers (slow rt))"
proof -
  from assms obtain configured ip iface aliasing w2 rt1 where
    c: "parse_configured_peers (e_hash E) (cfg_peers config) = Inr configured"
    and d: "derive_tunnel_ip (e_cidr E) (e_hash E) (cfg_network config) dest = Inr ip"
    and s: "seed_configured E configured (initial_runtime E config dest ip iface aliasing configured ifs) = Inr rt1"
    and y: "sync_routes E (rebuild_router E now rt1, w2) = (rt, w')"
    by (auto simp: start_runtime_def split: sum.splits prod.splits)
  let ?rt0 = "initial_runtime E config dest ip iface aliasing configured ifs"
  have "valid_network E (network ?rt0)"
    using d derive_tunnel_ip_defined [of "e_cidr E" "e_hash E" "cfg_network config" dest]
    by (auto simp: valid_network_def initial_runtime_def)
  from seed_configured_eq [OF this, of configured] s obtain m where rt1: "rt1 = ?rt0\<lparr>peers := m\<rparr>" by auto
  have "same_core rt (rebuild_router E now rt1)" using sync_core [OF y] by simp
  then show "destination rt = dest" "network rt = cfg_network config"
    "allow_all_peers (slow rt) = cfg_allow_all_peers config"
    "parse_configured_peers (e_hash E) (cfg_peers config) = Inr (allowed_peers (slow rt))"
    using c by (simp_all add: same_core_def rt1 rebuild_router_def initial_runtime_def)
qed

end
