(* ===== verification/Snapshot.thy ===== *)
theory Snapshot
  imports Runtime_Inv "HOL-Library.Product_Lexorder" "HOL-Library.Multiset"
begin

text \<open>
  The snapshot for the user interface (\<open>VpnRuntime::snapshot\<close> in \<open>kaonic-vpn/src/vpn/runtime.rs\<close> and
  the types of \<open>types.rs\<close>). It is read under the lock of the slow state. Each metrics snapshot reads the
  clock for itself and updates the rate sampler; these readings are arguments.
\<close>

section \<open>Types\<close>

record vpn_peer_snapshot =
  vp_destination :: string
  vp_tunnel_ip :: "string option"
  vp_link_state :: string
  vp_announced_routes :: "string list"
  vp_last_seen_ts :: nat
  vp_last_error :: "string option"
  vp_metrics :: metrics_snapshot

record vpn_route_snapshot =
  vr_network :: string
  vr_owner :: string
  vr_status :: string
  vr_last_seen_ts :: nat
  vr_installed :: bool

record vpn_route_mapping_snapshot =
  vm_subnet :: string
  vm_tunnel :: string
  vm_mapped_subnet :: string

record vpn_snapshot =
  vs_destination_hash :: string
  vs_network :: string
  vs_local_tunnel_ip :: "string option"
  vs_backend :: string
  vs_interface_name :: "string option"
  vs_status :: string
  vs_advertised_routes :: "string list"
  vs_local_routes :: "string list"
  vs_metrics :: metrics_snapshot
  vs_peers :: "vpn_peer_snapshot list"
  vs_remote_routes :: "vpn_route_snapshot list"
  vs_route_mappings :: "vpn_route_mapping_snapshot list"
  vs_last_error :: "string option"

section \<open>Assembly\<close>

definition peer_snapshot ::
    "('h, 'c, 'd, 'l, 'w) vpn_env \<Rightarrow> nat \<Rightarrow> nat \<Rightarrow> ('h, 'c, 'd) peer \<Rightarrow> vpn_peer_snapshot" where
  "peer_snapshot E now mnow p =
     \<lparr>vp_destination = h_hex (e_hash E) (p_hash p),
      vp_tunnel_ip = Some (ipv4_to_string (p_tunnel_ip p)),
      vp_link_state = link_state_str (p_link_state p),
      vp_announced_routes = (if routes_live p now then map (cidr_to_string (e_cidr E)) (p_routes p) else []),
      vp_last_seen_ts = p_last_seen_ts p,
      vp_last_error = p_last_error p,
      vp_metrics = fst (metrics_snap mnow (p_metrics p))\<rparr>"

definition route_snapshot ::
    "('h, 'c, 'd, 'l, 'w) vpn_env \<Rightarrow> ('h, 'c) slow_state \<Rightarrow> ('h, 'c, 'd) peer \<Rightarrow> 'c \<Rightarrow> vpn_route_snapshot" where
  "route_snapshot E s p route =
     (let key = cidr_to_string (e_cidr E) route;
          installed = key \<in> set (installed_routes s);
          conflict = key \<in> set (conflicted_routes s)
      in \<lparr>vr_network = key, vr_owner = h_hex (e_hash E) (p_hash p),
          vr_status = (if conflict then ''conflict'' else ''active''),
          vr_last_seen_ts = p_last_seen_ts p, vr_installed = (installed \<and> \<not> conflict)\<rparr>)"

text \<open>The entries of one peer after another, each pair of network and owner once.\<close>

fun collect_routes ::
    "(string \<times> string) list \<Rightarrow> vpn_route_snapshot list \<Rightarrow> vpn_route_snapshot list" where
  "collect_routes owners [] = []"
| "collect_routes owners (r # rs) =
     (if (vr_network r, vr_owner r) \<in> set owners then collect_routes owners rs
      else r # collect_routes ((vr_network r, vr_owner r) # owners) rs)"

definition mapping_label :: "'c cidr_ops \<Rightarrow> 'c local_route_translation \<Rightarrow> string" where
  "mapping_label C t =
     (if lrt_local t = lrt_exported t then cidr_to_string C (lrt_local t)
      else cidr_to_string C (lrt_exported t) @ '' -> '' @ cidr_to_string C (lrt_local t))"

definition sample_peers ::
    "('h \<Rightarrow> nat) \<Rightarrow> 'h list \<Rightarrow> ('h, 'c, 'd, 'l) vpn_runtime \<Rightarrow> ('h, 'c, 'd, 'l) vpn_runtime" where
  "sample_peers pnow =
     fold (\<lambda>h. set_peer h (\<lambda>p. p\<lparr>p_metrics := snd (metrics_snap (pnow h) (p_metrics p))\<rparr>))"

definition remote_peers :: "('h, 'c, 'd, 'l) vpn_runtime \<Rightarrow> ('h, 'c, 'd) peer list" where
  "remote_peers rt = filter (\<lambda>p. p_hash p \<noteq> destination rt) (peers_all (peers rt))"

definition snapshot_of ::
    "('h, 'c::linorder, 'd, 'l, 'w) vpn_env \<Rightarrow> nat \<Rightarrow> nat \<Rightarrow> ('h \<Rightarrow> nat)
       \<Rightarrow> ('h, 'c, 'd, 'l) vpn_runtime \<Rightarrow> vpn_snapshot \<times> ('h, 'c, 'd, 'l) vpn_runtime" where
  "snapshot_of E now mnow pnow rt =
     (let C = e_cidr E;
          (metrics, m) = metrics_snap mnow (v_metrics rt);
          ps = remote_peers rt;
          peers_snap = sort_key vp_destination (map (\<lambda>p. peer_snapshot E now (pnow (p_hash p)) p) ps);
          remote_routes = sort_key vr_network
            (collect_routes [] (concat (map (\<lambda>p. map (route_snapshot E (slow rt) p) (p_routes p)) ps)));
          translations = route_translations E rt;
          mappings = sort_key (\<lambda>m. (vm_subnet m, vm_mapped_subnet m))
            (map (\<lambda>t. \<lparr>vm_subnet = cidr_to_string C (lrt_local t), vm_tunnel = ipv4_to_string (local_tunnel_ip rt),
                       vm_mapped_subnet = cidr_to_string C (lrt_exported t)\<rparr>) translations)
      in (\<lparr>vs_destination_hash = destination_hex rt, vs_network = cidr_to_string C (network rt),
           vs_local_tunnel_ip = Some (ipv4_to_string (local_tunnel_ip rt)), vs_backend = backend rt,
           vs_interface_name = interface_name rt, vs_status = status_str (status rt),
           vs_advertised_routes = sort (map (cidr_to_string C) (advertised_routes (slow rt))),
           vs_local_routes = sort (map (mapping_label C) translations),
           vs_metrics = metrics, vs_peers = peers_snap, vs_remote_routes = remote_routes,
           vs_route_mappings = mappings, vs_last_error = s_last_error (slow rt)\<rparr>,
          sample_peers pnow (map p_hash ps) (rt\<lparr>v_metrics := m\<rparr>)))"

section \<open>Lemmas\<close>

abbreviation route_key :: "vpn_route_snapshot \<Rightarrow> string \<times> string" where
  "route_key r \<equiv> (vr_network r, vr_owner r)"

lemma collect_routes_keys:
  "route_key ` set (collect_routes owners rs) = route_key ` set rs - set owners
   \<and> distinct (map route_key (collect_routes owners rs))"
proof (induction rs arbitrary: owners)
  case (Cons r rs)
  show ?case
  proof (cases "route_key r \<in> set owners")
    case True
    with Cons.IH [of owners] show ?thesis by auto
  next
    case False
    with Cons.IH [of "route_key r # owners"] show ?thesis by auto
  qed
qed simp

lemma collect_routes_subset: "set (collect_routes owners rs) \<subseteq> set rs"
  by (induction owners rs rule: collect_routes.induct) auto

lemma sample_peers_fields [simp]:
  "slow (sample_peers pnow hs rt) = slow rt" "destination (sample_peers pnow hs rt) = destination rt"
  "router (sample_peers pnow hs rt) = router rt" "status (sample_peers pnow hs rt) = status rt"
  "out_links (sample_peers pnow hs rt) = out_links rt"
  by (induction hs arbitrary: rt) (simp_all add: sample_peers_def set_peer_def)

lemma sample_peers_inv: "rt_inv E rt \<Longrightarrow> rt_inv E (sample_peers pnow hs rt)"
proof (induction hs arbitrary: rt)
  case Nil
  then show ?case by (simp add: sample_peers_def)
next
  case (Cons h hs)
  have "rt_inv E (set_peer h (\<lambda>p. p\<lparr>p_metrics := snd (metrics_snap (pnow h) (p_metrics p))\<rparr>) rt)"
    by (rule rt_inv_set_peer [OF _ Cons.prems]) (simp add: keeps_routes_def keeps_identity_def)
  from Cons.IH [OF this] show ?case by (simp add: sample_peers_def)
qed

lemma snapshot_fields:
  "vs_peers (fst (snapshot_of E now mnow pnow rt)) =
     sort_key vp_destination (map (\<lambda>p. peer_snapshot E now (pnow (p_hash p)) p) (remote_peers rt))"
  "vs_remote_routes (fst (snapshot_of E now mnow pnow rt)) =
     sort_key vr_network (collect_routes []
       (concat (map (\<lambda>p. map (route_snapshot E (slow rt) p) (p_routes p)) (remote_peers rt))))"
  "snd (snapshot_of E now mnow pnow rt) =
     sample_peers pnow (map p_hash (remote_peers rt)) (rt\<lparr>v_metrics := snd (metrics_snap mnow (v_metrics rt))\<rparr>)"
  by (simp_all add: snapshot_of_def Let_def split_beta)

lemma snapshot_keys:
  "vp_destination (peer_snapshot E now m p) = h_hex (e_hash E) (p_hash p)"
  "vr_network (route_snapshot E s p c) = cidr_to_string (e_cidr E) c"
  "vr_owner (route_snapshot E s p c) = h_hex (e_hash E) (p_hash p)"
  by (simp_all add: peer_snapshot_def route_snapshot_def Let_def)

lemma snapshot_peers:
  "sorted (map vp_destination (vs_peers (fst (snapshot_of E now mnow pnow rt))))
   \<and> mset (map vp_destination (vs_peers (fst (snapshot_of E now mnow pnow rt)))) =
       mset (map (\<lambda>p. h_hex (e_hash E) (p_hash p)) (remote_peers rt))"
  by (simp add: snapshot_fields image_mset.compositionality comp_def snapshot_keys)

lemma snapshot_routes:
  "sorted (map vr_network (vs_remote_routes (fst (snapshot_of E now mnow pnow rt))))
   \<and> distinct (map route_key (vs_remote_routes (fst (snapshot_of E now mnow pnow rt))))
   \<and> route_key ` set (vs_remote_routes (fst (snapshot_of E now mnow pnow rt))) =
       (\<Union>p\<in>set (remote_peers rt). (\<lambda>c. (cidr_to_string (e_cidr E) c, h_hex (e_hash E) (p_hash p))) ` set (p_routes p))"
proof -
  let ?rs = "concat (map (\<lambda>p. map (route_snapshot E (slow rt) p) (p_routes p)) (remote_peers rt))"
  note k = collect_routes_keys [of "[]" ?rs]
  have "mset (map route_key (sort_key vr_network (collect_routes [] ?rs))) = mset (map route_key (collect_routes [] ?rs))"
    by simp
  then have "distinct (map route_key (sort_key vr_network (collect_routes [] ?rs)))"
    using k mset_eq_imp_distinct_iff by blast
  moreover have "route_key ` set ?rs =
      (\<Union>p\<in>set (remote_peers rt). (\<lambda>c. (cidr_to_string (e_cidr E) c, h_hex (e_hash E) (p_hash p))) ` set (p_routes p))"
    by (simp add: image_UN image_image snapshot_keys)
  ultimately show ?thesis using k by (simp add: snapshot_fields)
qed

lemma snapshot_route_installed:
  "r \<in> set (vs_remote_routes (fst (snapshot_of E now mnow pnow rt))) \<Longrightarrow> vr_installed r \<Longrightarrow>
   vr_network r \<in> set (installed_routes (slow rt)) \<and> vr_network r \<notin> set (conflicted_routes (slow rt))
   \<and> vr_status r = ''active''"
  using collect_routes_subset [of "[]"] by (fastforce simp: snapshot_fields route_snapshot_def Let_def)

lemma snapshot_inert:
  "rt_inv E rt \<Longrightarrow> rt_inv E (snd (snapshot_of E now mnow pnow rt))"
  by (simp add: snapshot_fields sample_peers_inv rt_inv_metrics)

section \<open>What the user interface sees\<close>

text \<open>
  C23. A snapshot lists every remote peer once per registration, ordered by destination, and every network
  held by a remote peer exactly once per owner, ordered by network, whether or not the peer's route entry
  is still live; a network is only shown as installed when it is in the installed set and not in conflict.
  Taking a snapshot touches nothing but the samplers of the counters.
\<close>

theorem snapshot_complete:
  "let s = fst (snapshot_of E now mnow pnow rt); rt' = snd (snapshot_of E now mnow pnow rt) in
     sorted (map vp_destination (vs_peers s))
   \<and> mset (map vp_destination (vs_peers s)) = mset (map (\<lambda>p. h_hex (e_hash E) (p_hash p)) (remote_peers rt))
   \<and> sorted (map vr_network (vs_remote_routes s))
   \<and> distinct (map (\<lambda>r. (vr_network r, vr_owner r)) (vs_remote_routes s))
   \<and> (\<lambda>r. (vr_network r, vr_owner r)) ` set (vs_remote_routes s) =
       (\<Union>p\<in>set (remote_peers rt).
          (\<lambda>c. (cidr_to_string (e_cidr E) c, h_hex (e_hash E) (p_hash p))) ` set (p_routes p))
   \<and> vr_network ` {r \<in> set (vs_remote_routes s). vr_installed r}
       \<subseteq> set (installed_routes (slow rt)) - set (conflicted_routes (slow rt))
   \<and> slow rt' = slow rt \<and> router rt' = router rt \<and> status rt' = status rt \<and> out_links rt' = out_links rt"
proof -
  have inst: "vr_network ` {r \<in> set (vs_remote_routes (fst (snapshot_of E now mnow pnow rt))). vr_installed r}
       \<subseteq> set (installed_routes (slow rt)) - set (conflicted_routes (slow rt))"
    using snapshot_route_installed by fastforce
  have same: "slow (snd (snapshot_of E now mnow pnow rt)) = slow rt"
    "router (snd (snapshot_of E now mnow pnow rt)) = router rt"
    "status (snd (snapshot_of E now mnow pnow rt)) = status rt"
    "out_links (snd (snapshot_of E now mnow pnow rt)) = out_links rt"
    by (simp_all add: snapshot_fields)
  show ?thesis
    unfolding Let_def by (simp only: snapshot_peers snapshot_routes inst same simp_thms)
qed

end
