(* ===== verification/Vpn_Tasks.thy ===== *)
theory Vpn_Tasks
  imports Snapshot
begin

text \<open>
  The background tasks of the VPN (\<open>kaonic-vpn/src/vpn/runtime.rs\<close>, "Background tasks", "Helpers" and
  "Packet parsing"). Each iteration of a task's loop is one function on the runtime and the world:
  an announce tick, a received announce, a link event, a packet read from the TUN device, a
  watchdog tick. \<open>request_out_link\<close> awaits the transport in its middle, so it is split there into
  \<open>request_begin\<close> and \<open>request_finish\<close>, and other tasks may run between the two. \<open>vpn_step\<close>
  interleaves the tasks in any order, with any clock readings and any behaviour of the transport;
  \<open>vpn_reachable\<close> are the states a started runtime can get into.

  A task that holds an \<open>Arc<Peer>\<close> across an await reaches it here through the registry again.
\<close>

definition LINK_PENDING_TIMEOUT_SECS :: nat where "LINK_PENDING_TIMEOUT_SECS = 10"
definition LINK_RECONNECT_COOLDOWN_SECS :: nat where "LINK_RECONNECT_COOLDOWN_SECS = 3"

section \<open>Packet parsing\<close>

fun ip_v4 :: "ip_addr \<Rightarrow> ipv4 option" where
  "ip_v4 (V4 ip) = Some ip"
| "ip_v4 (V6 _) = None"

definition packet_source :: "('h, 'c, 'd, 'l, 'w) vpn_env \<Rightarrow> bytes \<Rightarrow> ipv4 option" where
  "packet_source E packet = (case e_ip_slice E packet of None \<Rightarrow> None | Some (src, dst) \<Rightarrow> ip_v4 src)"

definition packet_destination :: "('h, 'c, 'd, 'l, 'w) vpn_env \<Rightarrow> bytes \<Rightarrow> ipv4 option" where
  "packet_destination E packet = (case e_ip_slice E packet of None \<Rightarrow> None | Some (src, dst) \<Rightarrow> ip_v4 dst)"

section \<open>Link policy\<close>

definition should_reuse_existing_out_link :: "link_status option \<Rightarrow> bool" where
  "should_reuse_existing_out_link existing \<longleftrightarrow>
     existing \<in> {Some LPending, Some LHandshake, Some LActive, Some LStale}"

fun out_link_needs_reset :: "link_status \<Rightarrow> nat \<Rightarrow> bool" where
  "out_link_needs_reset LPending age = (LINK_PENDING_TIMEOUT_SECS \<le> age)"
| "out_link_needs_reset LHandshake age = (LINK_PENDING_TIMEOUT_SECS \<le> age)"
| "out_link_needs_reset LStale age = False"
| "out_link_needs_reset LClosed age = False"
| "out_link_needs_reset LActive age = False"

definition link_request_on_cooldown :: "('h, 'c, 'd) peer \<Rightarrow> nat \<Rightarrow> bool" where
  "link_request_on_cooldown p now \<longleftrightarrow> now < p_reconnect_cooldown_until_ts p"

definition tun_tx_requires_backoff :: "link_state \<Rightarrow> bool" where
  "tun_tx_requires_backoff s \<longleftrightarrow> s \<noteq> Active"

definition link_up :: "('h, 'c, 'd) peer \<Rightarrow> ('h, 'c, 'd) peer" where
  "link_up p =
     (clear_reconnect_cooldown (finish_link_request (clear_link_attempt p)))\<lparr>p_reconnect_attempts := 0\<rparr>"

definition link_down :: "nat \<Rightarrow> ('h, 'c, 'd) peer \<Rightarrow> ('h, 'c, 'd) peer" where
  "link_down now p =
     set_reconnect_cooldown now LINK_RECONNECT_COOLDOWN_SECS (finish_link_request (clear_link_attempt p))"

fun sync_peer_link_state :: "link_status \<Rightarrow> ('h, 'c, 'd) peer \<Rightarrow> ('h, 'c, 'd) peer" where
  "sync_peer_link_state LActive p = link_up (set_state Active p)"
| "sync_peer_link_state LPending p = set_state Pending p"
| "sync_peer_link_state LHandshake p = set_state Pending p"
| "sync_peer_link_state LStale p = set_state Pending p"
| "sync_peer_link_state LClosed p = finish_link_request (set_state Closed p)"

section \<open>Announces\<close>

definition announce_tx_tick ::
    "('h, 'c::linorder, 'd, 'l, 'w) vpn_env \<Rightarrow> string + net_if list
       \<Rightarrow> ('h, 'c, 'd, 'l, 'w) vpn_state \<Rightarrow> ('h, 'c, 'd, 'l, 'w) vpn_state" where
  "announce_tx_tick E ifs = (\<lambda>(rt, w).
     (let rt = refresh_local_routes E ifs rt;
          routes = exported_routes E rt
      in case encode_announce (e_cidr E) (e_announce E) routes of
           Inr app_data \<Rightarrow> (rt, t_send_announce (e_transport E) app_data w)
         | Inl err \<Rightarrow> (set_error (codec_error_to_string err) rt, w)))"

text \<open>The first component tells whether the task goes on to \<open>request_out_link\<close>.\<close>

definition announce_rx ::
    "('h, 'c, 'd, 'l, 'w) vpn_env \<Rightarrow> nat \<Rightarrow> 'd \<Rightarrow> bytes
       \<Rightarrow> ('h, 'c, 'd, 'l, 'w) vpn_state \<Rightarrow> bool \<times> ('h, 'c, 'd, 'l, 'w) vpn_state" where
  "announce_rx E now desc app_data = (\<lambda>(rt, w).
     (if \<not> is_announce app_data then (False, rt, w)
      else (case decode_announce (e_cidr E) (e_announce E) app_data of
              Inr routes \<Rightarrow> handle_peer_announce E now desc routes (rt, w)
            | Inl err \<Rightarrow> (False, record_peer_error (e_desc_hash E desc) (codec_error_to_string err) rt, w))))"

section \<open>Opening an outbound link\<close>

definition request_begin ::
    "('h, 'c, 'd, 'l, 'w) vpn_env \<Rightarrow> nat \<Rightarrow> 'd
       \<Rightarrow> ('h, 'c, 'd, 'l, 'w) vpn_state \<Rightarrow> bool \<times> ('h, 'c, 'd, 'l, 'w) vpn_state" where
  "request_begin E now desc = (\<lambda>(rt, w).
     (let hash = e_desc_hash E desc in
      if \<not> peer_allowed hash rt then (False, rt\<lparr>out_links := links_remove hash (out_links rt)\<rparr>, w)
      else
        (let peer = peers_get hash (peers rt);
             existing = t_find_out_link (e_transport E) hash w;
             existing_status = map_option (\<lambda>l. t_link_status (e_transport E) l w) existing
         in if should_reuse_existing_out_link existing_status
            then (False, (case existing of
                            Some link \<Rightarrow> rt\<lparr>out_links := links_insert hash link (out_links rt)\<rparr>
                          | None \<Rightarrow> rt), w)
            else (case peer of
                    None \<Rightarrow> (True, rt, w)
                  | Some p \<Rightarrow>
                      if link_request_on_cooldown p now then (False, rt, w)
                      else if \<not> fst (try_begin_link_request p) then (False, rt, w)
                      else (True,
                            set_peer hash (\<lambda>p. mark_link_attempt now
                              (p_reconnect_attempts_update (\<lambda>n. wrap32 (n + 1))
                                (set_state Pending (snd (try_begin_link_request p))))) rt,
                            w)))))"

definition request_finish ::
    "('h, 'c, 'd, 'l, 'w) vpn_env \<Rightarrow> 'd \<Rightarrow> ('h, 'c, 'd, 'l, 'w) vpn_state \<Rightarrow> ('h, 'c, 'd, 'l, 'w) vpn_state" where
  "request_finish E desc = (\<lambda>(rt, w).
     (case t_link (e_transport E) desc w of (link, w) \<Rightarrow>
        (let hash = e_desc_hash E desc;
             rt = rt\<lparr>out_links := links_insert hash link (out_links rt)\<rparr>
         in (set_peer hash finish_link_request rt, w))))"

definition request_out_link ::
    "('h, 'c, 'd, 'l, 'w) vpn_env \<Rightarrow> nat \<Rightarrow> 'd \<Rightarrow> ('h, 'c, 'd, 'l, 'w) vpn_state \<Rightarrow> ('h, 'c, 'd, 'l, 'w) vpn_state" where
  "request_out_link E now desc s =
     (case request_begin E now desc s of
        (True, s) \<Rightarrow> request_finish E desc s
      | (False, s) \<Rightarrow> s)"

section \<open>Data on a link\<close>

definition refresh_peer_routes :: "nat \<Rightarrow> 'c list \<Rightarrow> ('h, 'c, 'd) peer \<Rightarrow> ('h, 'c, 'd) peer" where
  "refresh_peer_routes now cidrs p =
     set_routes cidrs ((mark_seen now p)\<lparr>p_route_expires_ts := wrap64 (now + ROUTE_GRACE_SECS)\<rparr>)"

definition valid_cidrs :: "('h, 'c, 'd, 'l, 'w) vpn_env \<Rightarrow> subnet list \<Rightarrow> 'c list" where
  "valid_cidrs E routes = List.map_filter (\<lambda>s. ok (to_cidr (e_cidr E) s)) routes"

definition handle_ctrl ::
    "('h, 'c, 'd, 'l, 'w) vpn_env \<Rightarrow> nat \<Rightarrow> 'h \<Rightarrow> bytes
       \<Rightarrow> ('h, 'c, 'd, 'l, 'w) vpn_state \<Rightarrow> ('h, 'c, 'd, 'l, 'w) vpn_state" where
  "handle_ctrl E now hash data = (\<lambda>(rt, w).
     (let routes_frame = (\<lambda>routes.
            sync_routes E (rebuild_router E now (set_peer hash (refresh_peer_routes now (valid_cidrs E routes)) rt), w))
      in case decode_ctrl (e_ctrl E) data of
           Inr (CtrlHello routes) \<Rightarrow> routes_frame routes
         | Inr (CtrlRoutes routes) \<Rightarrow> routes_frame routes
         | Inr CtrlPing \<Rightarrow> (set_peer hash (mark_seen now) rt, w)
         | Inl err \<Rightarrow> (record_peer_error hash (codec_error_to_string err) rt, w)))"

definition credited_peer ::
    "('h, 'c, 'd, 'l, 'w) vpn_env \<Rightarrow> 'h option \<Rightarrow> bytes \<Rightarrow> ('h, 'c, 'd, 'l) vpn_runtime \<Rightarrow> 'h option" where
  "credited_peer E sender_hint data rt =
     (case (case sender_hint of None \<Rightarrow> None | Some h \<Rightarrow> map_option p_hash (peers_get h (peers rt))) of
        Some h \<Rightarrow> Some h
      | None \<Rightarrow>
          (case packet_source E data of
             None \<Rightarrow> None
           | Some src \<Rightarrow>
               (case resolve (e_cidr E) (router rt) src of
                  None \<Rightarrow> None
                | Some owner \<Rightarrow> map_option p_hash (peers_get owner (peers rt)))))"

definition handle_link_data ::
    "('h, 'c, 'd, 'l, 'w) vpn_env \<Rightarrow> nat \<Rightarrow> 'h option \<Rightarrow> bytes
       \<Rightarrow> ('h, 'c, 'd, 'l, 'w) vpn_state \<Rightarrow> ('h, 'c, 'd, 'l, 'w) vpn_state" where
  "handle_link_data E now sender_hint data = (\<lambda>(rt, w).
     (if is_ctrl data then
        (case sender_hint of None \<Rightarrow> (rt, w) | Some hash \<Rightarrow> handle_ctrl E now hash data (rt, w))
      else
        (let credited = credited_peer E sender_hint data rt in
         if credited = None \<and> (sender_hint \<noteq> None \<or> \<not> allow_all_peers (slow rt))
         then (rt_record_drop rt, w)
         else (case e_tun_send E data w of
                 (Inr _, w) \<Rightarrow>
                   (let rt = rt\<lparr>v_metrics := record_rx now (length data) (v_metrics rt)\<rparr>
                    in (case credited of
                          Some h \<Rightarrow> set_peer h (\<lambda>p. mark_seen now (p_metrics_update (record_rx now (length data)) p)) rt
                        | None \<Rightarrow> rt, w))
               | (Inl err, w) \<Rightarrow> (set_error (''vpn tun send: '' @ err) rt, w)))))"

section \<open>Link events\<close>

definition out_link_event ::
    "('h, 'c, 'd, 'l, 'w) vpn_env \<Rightarrow> nat \<Rightarrow> 'h \<Rightarrow> link_event
       \<Rightarrow> ('h, 'c, 'd, 'l, 'w) vpn_state \<Rightarrow> ('h, 'c, 'd, 'l, 'w) vpn_state" where
  "out_link_event E now peer_hash ev = (\<lambda>(rt, w).
     (case ev of
        EvActivated \<Rightarrow>
          (let rt = set_link_state peer_hash Active rt;
               rt = set_peer peer_hash link_up rt;
               rt = (case t_find_out_link (e_transport E) peer_hash w of
                       Some link \<Rightarrow> rt\<lparr>out_links := links_insert peer_hash link (out_links rt)\<rparr>
                     | None \<Rightarrow> rt);
               routes = exported_routes E rt
           in case encode_hello (e_cidr E) (e_ctrl E) routes of
                Inr hello \<Rightarrow> (rt, snd (t_send_to_out_links (e_transport E) peer_hash hello w))
              | Inl _ \<Rightarrow> (rt, w))
      | EvClosed \<Rightarrow>
          (let rt = set_link_state peer_hash Closed rt;
               rt = rt\<lparr>out_links := links_remove peer_hash (out_links rt)\<rparr>
           in (set_peer peer_hash (link_down now) rt, w))
      | EvData payload \<Rightarrow>
          (if interface_name rt \<noteq> None then handle_link_data E now (Some peer_hash) payload (rt, w) else (rt, w))
      | EvProof _ \<Rightarrow> (rt, w)))"

definition in_link_event ::
    "('h, 'c, 'd, 'l, 'w) vpn_env \<Rightarrow> nat \<Rightarrow> 'h \<Rightarrow> link_event
       \<Rightarrow> ('h, 'c, 'd, 'l, 'w) vpn_state \<Rightarrow> ('h, 'c, 'd, 'l, 'w) vpn_state" where
  "in_link_event E now address_hash ev = (\<lambda>(rt, w).
     (if address_hash \<noteq> destination rt then (rt, w)
      else (case ev of
              EvData payload \<Rightarrow>
                (if interface_name rt \<noteq> None then handle_link_data E now None payload (rt, w) else (rt, w))
            | _ \<Rightarrow> (rt, w))))"

section \<open>Packets from the TUN device\<close>

definition tun_packet ::
    "('h, 'c, 'd, 'l, 'w) vpn_env \<Rightarrow> nat \<Rightarrow> bytes
       \<Rightarrow> ('h, 'c, 'd, 'l, 'w) vpn_state \<Rightarrow> ('h, 'c, 'd, 'l, 'w) vpn_state" where
  "tun_packet E now packet = (\<lambda>(rt, w).
     (case packet_destination E packet of None \<Rightarrow> (rt, w) | Some dst_ip \<Rightarrow>
      if dst_ip = local_tunnel_ip rt then (rt, w)
      else
        (case resolve (e_cidr E) (router rt) dst_ip of
           None \<Rightarrow> (rt_record_drop rt, w)
         | Some peer_hash \<Rightarrow>
             if (case peers_get peer_hash (peers rt) of
                   Some p \<Rightarrow> tun_tx_requires_backoff (p_link_state p) | None \<Rightarrow> False)
             then (rt_record_drop rt, w)
             else (case t_send_to_out_links (e_transport E) peer_hash packet w of (sent, w) \<Rightarrow>
               if sent = 0 then (rt_record_drop rt, w)
               else
                 (let rt = rt\<lparr>v_metrics := record_tx now (length packet) (v_metrics rt)\<rparr>
                  in (set_peer peer_hash
                        (\<lambda>p. p_metrics_update (record_tx now (length packet)) (mark_tx now p)) rt, w))))))"

definition tun_error :: "string \<Rightarrow> ('h, 'c, 'd, 'l, 'w) vpn_state \<Rightarrow> ('h, 'c, 'd, 'l, 'w) vpn_state" where
  "tun_error err = (\<lambda>(rt, w). (set_error (''vpn tun recv: '' @ err) rt, w))"

section \<open>The watchdog\<close>

definition routes_expired :: "nat \<Rightarrow> ('h, 'c, 'd) peer \<Rightarrow> bool" where
  "routes_expired now p \<longleftrightarrow>
     p_route_expires_ts p \<noteq> 0 \<and> p_route_expires_ts p \<le> now \<and> p_routes p \<noteq> []"

definition expire_peer ::
    "nat \<Rightarrow> ('h, 'c, 'd) peer \<Rightarrow> ('h, 'c, 'd, 'l) vpn_runtime \<times> bool \<Rightarrow> ('h, 'c, 'd, 'l) vpn_runtime \<times> bool" where
  "expire_peer now p = (\<lambda>(rt, changed).
     (if p_hash p = destination rt then (rt, changed)
      else if routes_expired now p then (set_peer (p_hash p) (set_routes []) rt, True)
      else (rt, changed)))"

definition rescue_peer ::
    "('h, 'c, 'd, 'l, 'w) vpn_env \<Rightarrow> nat \<Rightarrow> ('h, 'c, 'd) peer
       \<Rightarrow> ('h, 'c, 'd, 'l, 'w) vpn_state \<Rightarrow> ('h, 'c, 'd, 'l, 'w) vpn_state" where
  "rescue_peer E now p = (\<lambda>(rt, w).
     (let h = p_hash p in
      if h = destination rt then (rt, w)
      else (case t_find_out_link (e_transport E) h w of
              None \<Rightarrow> (rt, w)
            | Some link \<Rightarrow>
                (let link_status = t_link_status (e_transport E) link w;
                     link_age_secs = t_link_age_secs (e_transport E) link w;
                     rt = set_peer h (sync_peer_link_state link_status) rt
                 in if \<not> out_link_needs_reset link_status link_age_secs then (rt, w)
                    else (case t_link_close (e_transport E) h w of
                            (Inl _, w) \<Rightarrow> (rt, w)
                          | (Inr _, w) \<Rightarrow>
                              (let rt = rt\<lparr>out_links := links_remove h (out_links rt)\<rparr>
                               in (set_peer h (\<lambda>p. link_down now (set_state Closed p)) rt, w)))))))"

definition watchdog_expire ::
    "('h, 'c, 'd, 'l, 'w) vpn_env \<Rightarrow> nat \<Rightarrow> ('h, 'c, 'd, 'l, 'w) vpn_state \<Rightarrow> ('h, 'c, 'd, 'l, 'w) vpn_state" where
  "watchdog_expire E now = (\<lambda>(rt, w).
     (case fold (expire_peer now) (peers_all (peers rt)) (rt, False) of
        (rt, routes_changed) \<Rightarrow>
          if routes_changed then sync_routes E (rebuild_router E now rt, w) else (rt, w)))"

definition watchdog_tick ::
    "('h, 'c, 'd, 'l, 'w) vpn_env \<Rightarrow> nat \<Rightarrow> ('h, 'c, 'd, 'l, 'w) vpn_state \<Rightarrow> ('h, 'c, 'd, 'l, 'w) vpn_state" where
  "watchdog_tick E now s =
     (let s = watchdog_expire E now s
      in fold (rescue_peer E now) (peers_all (peers (fst s))) s)"

section \<open>All tasks together\<close>

text \<open>The spawned \<open>request_out_link\<close> tasks: not yet started, or waiting for the transport.\<close>

datatype 'd request = ToBegin 'd | InFlight 'd

type_synonym ('h, 'c, 'd, 'l, 'w) vpn_system = "('h, 'c, 'd, 'l) vpn_runtime \<times> 'w \<times> 'd request list"

definition with_pending ::
    "('h, 'c, 'd, 'l, 'w) vpn_state \<Rightarrow> 'd request list \<Rightarrow> ('h, 'c, 'd, 'l, 'w) vpn_system" where
  "with_pending s ps = (case s of (rt, w) \<Rightarrow> (rt, w, ps))"

inductive vpn_step ::
    "('h, 'c::linorder, 'd, 'l, 'w) vpn_env
       \<Rightarrow> ('h, 'c, 'd, 'l, 'w) vpn_system \<Rightarrow> ('h, 'c, 'd, 'l, 'w) vpn_system \<Rightarrow> bool"
  for E where
  environment: "vpn_step E (rt, w, ps) (rt, w', ps)"
| announce_tx: "vpn_step E (rt, w, ps) (with_pending (announce_tx_tick E ifs (rt, w)) ps)"
| announce_ignored: "announce_rx E now desc app_data (rt, w) = (False, s) \<Longrightarrow>
    vpn_step E (rt, w, ps) (with_pending s ps)"
| announce_accepted: "announce_rx E now desc app_data (rt, w) = (True, s) \<Longrightarrow>
    vpn_step E (rt, w, ps) (with_pending s (ToBegin desc # ps))"
| request_skipped: "ToBegin desc \<in> set ps \<Longrightarrow> request_begin E now desc (rt, w) = (False, s) \<Longrightarrow>
    vpn_step E (rt, w, ps) (with_pending s (remove1 (ToBegin desc) ps))"
| request_begun: "ToBegin desc \<in> set ps \<Longrightarrow> request_begin E now desc (rt, w) = (True, s) \<Longrightarrow>
    vpn_step E (rt, w, ps) (with_pending s (InFlight desc # remove1 (ToBegin desc) ps))"
| request_done: "InFlight desc \<in> set ps \<Longrightarrow>
    vpn_step E (rt, w, ps) (with_pending (request_finish E desc (rt, w)) (remove1 (InFlight desc) ps))"
| out_link: "vpn_step E (rt, w, ps) (with_pending (out_link_event E now h ev (rt, w)) ps)"
| in_link: "vpn_step E (rt, w, ps) (with_pending (in_link_event E now h ev (rt, w)) ps)"
| tun_rx: "interface_name rt \<noteq> None \<Longrightarrow> length packet \<le> TUN_MTU \<Longrightarrow>
    vpn_step E (rt, w, ps) (with_pending (tun_packet E now packet (rt, w)) ps)"
| tun_fail: "vpn_step E (rt, w, ps) (with_pending (tun_error err (rt, w)) ps)"
| watchdog: "vpn_step E (rt, w, ps) (with_pending (watchdog_tick E now (rt, w)) ps)"
| set_policy: "replace_peer_policy E now allow_all strs (rt, w) = (r, s) \<Longrightarrow>
    vpn_step E (rt, w, ps) (with_pending s ps)"
| set_advertised: "vpn_step E (rt, w, ps) (with_pending (replace_advertised_routes E ifs rs (rt, w)) ps)"
| snapshot_taken: "vpn_step E (rt, w, ps) (snd (snapshot_of E now mnow pnow rt), w, ps)"

inductive vpn_reachable ::
    "('h, 'c::linorder, 'd, 'l, 'w) vpn_env \<Rightarrow> ('h, 'c, 'd, 'l, 'w) vpn_system \<Rightarrow> bool" for E where
  started: "start_runtime E now config dest riptun ifs w = (Inr rt, w') \<Longrightarrow> vpn_reachable E (rt, w', [])"
| stepped: "vpn_reachable E s \<Longrightarrow> vpn_step E s s' \<Longrightarrow> vpn_reachable E s'"

end
