(* ===== verification/Vpn_Inv.thy ===== *)
theory Vpn_Inv
  imports Vpn_Tasks
begin

text \<open>
  What holds of the VPN tasks: every one of them preserves the invariant of the runtime, so it
  holds in every reachable state of the interleaved system; and the local facts about packets,
  control frames, link requests and the watchdog.
\<close>

section \<open>Every task keeps the invariant\<close>

lemma keeps_routes_link [simp]: "keeps_routes link_up" "keeps_routes (link_down now)"
  by (simp_all add: keeps_routes_def keeps_identity_def link_up_def link_down_def peer_ops)

lemma keeps_routes_sync_state [simp]:
  "keeps_routes (sync_peer_link_state s :: ('h, 'c, 'd) peer \<Rightarrow> ('h, 'c, 'd) peer)"
proof -
  have "route_view (sync_peer_link_state s p) = route_view p" for p :: "('h, 'c, 'd) peer"
    by (cases s) (simp_all add: route_view_def link_up_def peer_ops)
  then show ?thesis by (simp add: keeps_routes_def keeps_identity_def route_view_def)
qed

lemma keeps_routes_begin [simp]:
  "keeps_routes (\<lambda>p. mark_link_attempt now (p_reconnect_attempts_update g
     (set_state s (snd (try_begin_link_request p)))))"
  by (simp add: keeps_routes_def keeps_identity_def peer_ops try_begin_link_request_def)

lemma rt_inv_drop [inv_intros]: "rt_inv E rt \<Longrightarrow> rt_inv E (rt_record_drop rt)"
  by (simp add: rt_record_drop_def rt_inv_metrics)

lemma rt_inv_link_state [inv_intros]: "rt_inv E rt \<Longrightarrow> rt_inv E (set_link_state h s rt)"
  by (simp add: set_link_state_def rt_inv_set_peer)

lemma rt_inv_peer_error [inv_intros]: "rt_inv E rt \<Longrightarrow> rt_inv E (record_peer_error h e rt)"
  by (simp add: record_peer_error_def rt_inv_set_peer)

lemma announce_tx_inv:
  "rt_inv E rt \<Longrightarrow> announce_tx_tick E ifs (rt, w) = (rt', w') \<Longrightarrow> rt_inv E rt'"
  by (auto simp: announce_tx_tick_def Let_def split: sum.splits
      intro!: rt_inv_local_routes rt_inv_set_error)

lemma announce_rx_inv:
  "rt_inv E rt \<Longrightarrow> announce_rx E now d bs (rt, w) = (b, rt', w') \<Longrightarrow> rt_inv E rt'"
  by (auto simp: announce_rx_def split: if_splits sum.splits
      intro: handle_peer_announce_inv rt_inv_peer_error)

lemma request_begin_inv:
  "rt_inv E rt \<Longrightarrow> request_begin E now d (rt, w) = (b, rt', w') \<Longrightarrow> rt_inv E rt'"
  by (auto simp: request_begin_def Let_def split: if_splits option.splits
      intro!: rt_inv_out_links rt_inv_set_peer)

lemma request_finish_inv:
  "rt_inv E rt \<Longrightarrow> request_finish E d (rt, w) = (rt', w') \<Longrightarrow> rt_inv E rt'"
  by (auto simp: request_finish_def Let_def split: prod.splits intro!: rt_inv_out_links rt_inv_set_peer)

lemma keeps_identity_refresh [simp]: "keeps_identity (refresh_peer_routes now cs)"
  by (simp add: keeps_identity_def refresh_peer_routes_def peer_ops)

lemma routes_frame_inv:
  assumes "rt_inv E rt" "keeps_identity f"
    "sync_routes E (rebuild_router E now (set_peer h f rt), w) = (rt', w')"
  shows "rt_inv E rt'"
proof -
  have "reg_inv E (set_peer h f rt)"
    using assms(1,2) by (intro reg_inv_set_peer) (simp_all add: rt_inv_def)
  with assms(3) show ?thesis by (rule rt_inv_sync_rebuild)
qed

lemma handle_ctrl_inv:
  assumes i: "rt_inv E rt" and r: "handle_ctrl E now h bs (rt, w) = (rt', w')"
  shows "rt_inv E rt'"
proof (cases "decode_ctrl (e_ctrl E) bs")
  case (Inl e)
  with i r show ?thesis by (auto simp: handle_ctrl_def intro: rt_inv_peer_error)
next
  case (Inr c)
  show ?thesis
  proof (cases c)
    case CtrlPing
    with Inr i r show ?thesis by (auto simp: handle_ctrl_def intro: rt_inv_set_peer)
  next
    case (CtrlHello rs)
    with Inr r show ?thesis
      by (intro routes_frame_inv [OF i keeps_identity_refresh]) (simp add: handle_ctrl_def)
  next
    case (CtrlRoutes rs)
    with Inr r show ?thesis
      by (intro routes_frame_inv [OF i keeps_identity_refresh]) (simp add: handle_ctrl_def)
  qed
qed

lemma handle_link_data_inv:
  "rt_inv E rt \<Longrightarrow> handle_link_data E now hint bs (rt, w) = (rt', w') \<Longrightarrow> rt_inv E rt'"
  by (auto simp: handle_link_data_def Let_def split: if_splits option.splits prod.splits sum.splits
      intro: handle_ctrl_inv rt_inv_drop rt_inv_set_error rt_inv_metrics rt_inv_set_peer)

lemma out_link_event_inv:
  assumes i: "rt_inv E rt" and r: "out_link_event E now h ev (rt, w) = (rt', w')"
  shows "rt_inv E rt'"
proof (cases ev)
  case EvActivated
  then have "rt' = set_peer h link_up (set_link_state h Active rt)
      \<or> (\<exists>l. rt' = (set_peer h link_up (set_link_state h Active rt))\<lparr>out_links := l\<rparr>)"
    using r by (auto simp: out_link_event_def Let_def split: option.splits sum.splits)
  with i show ?thesis by (auto intro!: rt_inv_out_links rt_inv_set_peer rt_inv_link_state)
next
  case EvClosed
  with i r show ?thesis
    by (auto simp: out_link_event_def Let_def intro!: rt_inv_out_links rt_inv_set_peer rt_inv_link_state)
next
  case (EvData bs)
  with i r show ?thesis by (auto simp: out_link_event_def split: if_splits intro: handle_link_data_inv)
next
  case (EvProof x)
  with i r show ?thesis by (simp add: out_link_event_def)
qed

lemma in_link_event_inv:
  "rt_inv E rt \<Longrightarrow> in_link_event E now h ev (rt, w) = (rt', w') \<Longrightarrow> rt_inv E rt'"
  by (auto simp: in_link_event_def split: if_splits link_event.splits intro: handle_link_data_inv)

lemma tun_packet_inv:
  "rt_inv E rt \<Longrightarrow> tun_packet E now bs (rt, w) = (rt', w') \<Longrightarrow> rt_inv E rt'"
  by (auto simp: tun_packet_def Let_def split: if_splits option.splits prod.splits
      intro!: rt_inv_drop rt_inv_metrics rt_inv_set_peer)

lemma expire_peer_simp:
  "expire_peer now p (rt, c) =
     (if p_hash p \<noteq> destination rt \<and> routes_expired now p
      then (set_peer (p_hash p) (set_routes []) rt, True) else (rt, c))"
  by (simp add: expire_peer_def)

lemma expire_peers_reg_inv:
  "reg_inv E rt \<Longrightarrow> fold (expire_peer now) ps (rt, b) = (rt', b') \<Longrightarrow> reg_inv E rt'"
proof (induction ps arbitrary: rt b)
  case Nil
  then show ?case by simp
next
  case (Cons p ps)
  obtain rt1 b1 where e: "expire_peer now p (rt, b) = (rt1, b1)" by fastforce
  have "reg_inv E (set_peer (p_hash p) (set_routes []) rt)"
    by (rule reg_inv_set_peer [OF _ Cons.prems(1)]) (simp add: keeps_identity_def set_routes_def)
  then have "reg_inv E rt1"
    using e Cons.prems(1) by (auto simp: expire_peer_simp split: if_splits)
  with Cons e show ?case by simp
qed

lemma expire_peers_changed:
  "fold (expire_peer now) ps (rt, True) = (rt', b') \<Longrightarrow> b'"
  by (induction ps arbitrary: rt) (auto simp: expire_peer_simp split: if_splits)

lemma expire_peers_unchanged:
  "fold (expire_peer now) ps (rt, False) = (rt', False) \<Longrightarrow> rt' = rt"
proof (induction ps arbitrary: rt)
  case Nil
  then show ?case by simp
next
  case (Cons p ps)
  then show ?case
    by (cases "p_hash p = destination rt \<or> \<not> routes_expired now p")
      (auto simp: expire_peer_simp dest: expire_peers_changed)
qed

lemma watchdog_expire_inv:
  assumes i: "rt_inv E rt" and r: "watchdog_expire E now (rt, w) = (rt', w')"
  shows "rt_inv E rt'"
proof -
  obtain rt1 b where f: "fold (expire_peer now) (peers_all (peers rt)) (rt, False) = (rt1, b)" by fastforce
  show ?thesis
  proof (cases b)
    case True
    have "reg_inv E rt1" using expire_peers_reg_inv [of E, OF _ f] i by (simp add: rt_inv_def)
    moreover have "sync_routes E (rebuild_router E now rt1, w) = (rt', w')"
      using r f True by (simp add: watchdog_expire_def)
    ultimately show ?thesis by (intro rt_inv_sync_rebuild)
  next
    case False
    with f expire_peers_unchanged [of now "peers_all (peers rt)" rt rt1] have "rt1 = rt" by simp
    with r f False i show ?thesis by (simp add: watchdog_expire_def)
  qed
qed

lemma rescue_peer_inv:
  "rt_inv E rt \<Longrightarrow> rescue_peer E now p (rt, w) = (rt', w') \<Longrightarrow> rt_inv E rt'"
  by (auto simp: rescue_peer_def Let_def split: if_splits option.splits prod.splits sum.splits
      intro!: rt_inv_out_links rt_inv_set_peer)

lemma rescue_all_inv:
  "rt_inv E (fst s) \<Longrightarrow> rt_inv E (fst (fold (rescue_peer E now) ps s))"
proof (induction ps arbitrary: s)
  case Nil
  then show ?case by simp
next
  case (Cons p ps)
  have "rt_inv E (fst (rescue_peer E now p s))"
    using rescue_peer_inv [of E "fst s" now p "snd s"] Cons.prems by (metis prod.collapse)
  with Cons.IH show ?case by simp
qed

lemma watchdog_inv:
  assumes "rt_inv E rt" "watchdog_tick E now (rt, w) = (rt', w')"
  shows "rt_inv E rt'"
proof -
  have "rt_inv E (fst (watchdog_expire E now (rt, w)))"
    using watchdog_expire_inv [OF assms(1)] by (metis prod.collapse)
  from rescue_all_inv [OF this, of now "peers_all (peers (fst (watchdog_expire E now (rt, w))))"]
  show ?thesis using assms(2) by (simp add: watchdog_tick_def Let_def)
qed

lemma fst_with_pending [simp]: "fst (with_pending s ps) = fst s"
  by (simp add: with_pending_def split: prod.split)

lemma vpn_step_inv: "vpn_step E s s' \<Longrightarrow> rt_inv E (fst s) \<Longrightarrow> rt_inv E (fst s')"
proof (induction rule: vpn_step.induct)
  case (announce_tx rt w ps ifs)
  then show ?case using announce_tx_inv [of E rt ifs w] by (metis fst_conv fst_with_pending prod.collapse)
next
  case (announce_ignored now desc app_data rt w s ps)
  then show ?case using announce_rx_inv [of E rt now desc app_data w] by (cases s) auto
next
  case (announce_accepted now desc app_data rt w s ps)
  then show ?case using announce_rx_inv [of E rt now desc app_data w] by (cases s) auto
next
  case (request_skipped desc ps now rt w s)
  then show ?case using request_begin_inv [of E rt now desc w] by (cases s) auto
next
  case (request_begun desc ps now rt w s)
  then show ?case using request_begin_inv [of E rt now desc w] by (cases s) auto
next
  case (request_done desc ps rt w)
  then show ?case using request_finish_inv [of E rt desc w] by (metis fst_conv fst_with_pending prod.collapse)
next
  case (out_link rt w ps now h ev)
  then show ?case using out_link_event_inv [of E rt now h ev w] by (metis fst_conv fst_with_pending prod.collapse)
next
  case (in_link rt w ps now h ev)
  then show ?case using in_link_event_inv [of E rt now h ev w] by (metis fst_conv fst_with_pending prod.collapse)
next
  case (tun_rx rt packet w ps now)
  then show ?case using tun_packet_inv [of E rt now packet w] by (metis fst_conv fst_with_pending prod.collapse)
next
  case (tun_fail rt w ps err)
  then show ?case by (simp add: tun_error_def rt_inv_set_error)
next
  case (watchdog rt w ps now)
  then show ?case using watchdog_inv [of E rt now w] by (metis fst_conv fst_with_pending prod.collapse)
next
  case (set_policy now allow_all strs rt w r s ps)
  then show ?case using replace_peer_policy_inv [of E rt now allow_all strs w r] by (cases s) auto
next
  case (set_advertised rt w ps ifs rs)
  then show ?case using replace_advertised_routes_inv [of E rt ifs rs w] by (metis fst_conv fst_with_pending prod.collapse)
next
  case (snapshot_taken rt w ps now mnow pnow)
  then show ?case by (simp add: snapshot_inert)
qed simp

lemma vpn_reachable_inv: "vpn_reachable E s \<Longrightarrow> rt_inv E (fst s)"
  by (induction rule: vpn_reachable.induct) (auto intro: start_runtime_inv vpn_step_inv)

section \<open>The watchdog\<close>

lemma set_peer_frame [simp]:
  "destination (set_peer h f rt) = destination rt" "router (set_peer h f rt) = router rt"
  "local_tunnel_ip (set_peer h f rt) = local_tunnel_ip rt" "v_metrics (set_peer h f rt) = v_metrics rt"
  "interface_name (set_peer h f rt) = interface_name rt" "out_links (set_peer h f rt) = out_links rt"
  "slow (set_peer h f rt) = slow rt" "peers (set_peer h f rt) = peers_modify h f (peers rt)"
  "network (set_peer h f rt) = network rt"
  by (simp_all add: set_peer_def)

lemma expire_get:
  "peers_get h (peers (fst (fold (expire_peer now) ps (rt, b)))) =
     (if h \<in> p_hash ` {p \<in> set ps. p_hash p \<noteq> destination rt \<and> routes_expired now p}
      then map_option (set_routes []) (peers_get h (peers rt)) else peers_get h (peers rt))"
proof (induction ps arbitrary: rt b)
  case Nil
  then show ?case by simp
next
  case (Cons p ps)
  have ss: "set_routes [] (set_routes [] q) = set_routes [] q" for q :: "('a, 'b, 'c) peer"
    by (simp add: set_routes_def)
  show ?case
  proof (cases "p_hash p \<noteq> destination rt \<and> routes_expired now p")
    case True
    then show ?thesis
      by (auto simp: Cons.IH expire_peer_simp pr.get_upd option.map_comp comp_def ss)
  next
    case False
    then show ?thesis by (auto simp: Cons.IH expire_peer_simp)
  qed
qed

lemma expire_frame:
  "destination (fst (fold (expire_peer now) ps (rt, b))) = destination rt
   \<and> local_tunnel_ip (fst (fold (expire_peer now) ps (rt, b))) = local_tunnel_ip rt"
  by (induction ps arbitrary: rt b) (auto simp: expire_peer_simp)

lemma expire_no_change:
  "\<not> snd (fold (expire_peer now) ps (rt, b)) \<longleftrightarrow>
     \<not> b \<and> (\<forall>p\<in>set ps. p_hash p = destination rt \<or> \<not> routes_expired now p)"
proof (induction ps arbitrary: rt b)
  case Nil
  then show ?case by simp
next
  case (Cons p ps)
  then show ?case by (auto simp: expire_peer_simp)
qed

text \<open>After the expiry pass no registered remote peer holds expired routes.\<close>

lemma expire_all:
  assumes "reg_inv E rt" "peers_get h (peers (fst (fold (expire_peer now) (peers_all (peers rt)) (rt, False)))) = Some p"
  shows "\<not> routes_expired now p"
proof -
  have m: "peers_inv (peers rt)" and al: "\<And>q. peers_get h (peers rt) = Some q \<Longrightarrow> h \<noteq> destination rt"
    using assms(1) by (auto simp: reg_inv_def peer_allowed_iff)
  show ?thesis
  proof (cases "h \<in> p_hash ` {p \<in> set (peers_all (peers rt)). p_hash p \<noteq> destination rt \<and> routes_expired now p}")
    case True
    with assms(2) obtain q where "p = set_routes [] q" by (auto simp: expire_get)
    then show ?thesis by (simp add: routes_expired_def set_routes_def)
  next
    case False
    with assms(2) have g: "peers_get h (peers rt) = Some p" by (simp add: expire_get)
    with peers_get_hash [OF m g] peers_all_get [OF m, of p] al [OF g] False show ?thesis by auto
  qed
qed

lemma subnets_live:
  assumes i: "rt_inv E rt" and n: "\<And>h p. peers_get h (peers rt) = Some p \<Longrightarrow> \<not> routes_expired now p"
    and s: "(r, h) \<in> set (subnets (router rt))"
  shows "\<exists>p. peers_get h (peers rt) = Some p \<and> r \<in> set (p_routes p) \<and> live_claim now p"
proof -
  from i obtain now' where b: "router rt = build (e_cidr E) (peers_all (peers rt)) now' (destination rt) (local_tunnel_ip rt)"
    and m: "peers_inv (peers rt)" by (auto simp: rt_inv_def router_fresh_def reg_inv_def)
  from s b obtain p where p: "p \<in> set (peers_all (peers rt))" "p_hash p = h" "r \<in> set (p_routes p)"
    by (auto simp: subnets_build_iff claims_def)
  then have g: "peers_get h (peers rt) = Some p" using peers_all_get [OF m, of p] by simp
  from n [OF g] p(3) have "live_claim now p" by (auto simp: routes_expired_def live_claim_def)
  with g p show ?thesis by blast
qed

lemma watchdog_expire_result:
  assumes i: "rt_inv E rt" and r: "watchdog_expire E now (rt, w) = (rt', w')"
    and g: "peers_get h (peers rt') = Some p"
  shows "\<not> routes_expired now p"
proof -
  let ?f = "fold (expire_peer now) (peers_all (peers rt)) (rt, False)"
  obtain rt1 b where f: "?f = (rt1, b)" by fastforce
  have "peers rt' = peers rt1"
  proof (cases b)
    case True
    then have "sync_routes E (rebuild_router E now rt1, w) = (rt', w')" using r f by (simp add: watchdog_expire_def)
    from sync_core [OF this] show ?thesis by (simp add: same_core_def rebuild_router_def)
  next
    case False
    with r f show ?thesis by (simp add: watchdog_expire_def)
  qed
  with expire_all [of E rt h now p] i g f show ?thesis by (simp add: rt_inv_def)
qed

lemma rescue_peer_views:
  "rescue_peer E now p (rt, w) = (rt', w') \<Longrightarrow>
   (\<forall>h. map_option route_view (peers_get h (peers rt')) = map_option route_view (peers_get h (peers rt)))
   \<and> router rt' = router rt"
proof -
  have v: "route_view (sync_peer_link_state s q) = route_view q"
    "route_view (link_down now (set_state Closed q)) = route_view q" for s and q :: "('a, 'b, 'c) peer"
    by (cases s) (simp_all add: route_view_def link_up_def link_down_def peer_ops)
  assume "rescue_peer E now p (rt, w) = (rt', w')"
  then show ?thesis
    by (auto simp: rescue_peer_def Let_def pr.get_upd option.map_comp comp_def v
        split: if_splits option.splits prod.splits sum.splits)
qed

lemma rescue_all_views:
  "(\<forall>h. map_option route_view (peers_get h (peers (fst (fold (rescue_peer E now) ps s))))
        = map_option route_view (peers_get h (peers (fst s))))
   \<and> router (fst (fold (rescue_peer E now) ps s)) = router (fst s)"
proof (induction ps arbitrary: s)
  case Nil
  then show ?case by simp
next
  case (Cons p ps)
  have "(\<forall>h. map_option route_view (peers_get h (peers (fst (rescue_peer E now p s))))
      = map_option route_view (peers_get h (peers (fst s)))) \<and> router (fst (rescue_peer E now p s)) = router (fst s)"
    using rescue_peer_views [of E now p "fst s" "snd s"] by (metis prod.collapse)
  with Cons.IH [of "rescue_peer E now p s"] show ?case by simp
qed

lemma routes_expired_view: "route_view p = route_view q \<Longrightarrow> routes_expired now p = routes_expired now q"
  by (simp add: route_view_def routes_expired_def)

lemma watchdog_tick_result:
  assumes i: "rt_inv E rt" and r: "watchdog_tick E now (rt, w) = (rt', w')"
    and g: "peers_get h (peers rt') = Some p"
  shows "\<not> routes_expired now p"
proof -
  obtain rt1 w1 where e: "watchdog_expire E now (rt, w) = (rt1, w1)" by fastforce
  have "rt' = fst (fold (rescue_peer E now) (peers_all (peers rt1)) (rt1, w1))"
    using r e by (simp add: watchdog_tick_def Let_def)
  then have "map_option route_view (peers_get h (peers rt')) = map_option route_view (peers_get h (peers rt1))"
    using rescue_all_views [of E now "peers_all (peers rt1)" "(rt1, w1)"] by simp
  with g obtain q where q: "peers_get h (peers rt1) = Some q" "route_view q = route_view p"
    by (cases "peers_get h (peers rt1)") auto
  from watchdog_expire_result [OF i e q(1)] routes_expired_view [OF q(2)] show ?thesis by simp
qed

end
