(* ===== verification/Vpn_Props.thy ===== *)
theory Vpn_Props
  imports Vpn_Inv
begin

text \<open>
  The properties of the VPN that span its components, with a concrete environment on which each is
  applied: hashes are strings, networks are \<open>cidr4\<close>, a destination descriptor is its hash, every
  system command succeeds on the kernel model \<open>ks_os\<close>, a transport delivers every packet, and an IPv4
  header is read at its fixed offsets.
\<close>

section \<open>A concrete environment\<close>

definition wit_hash :: "string hash_ops" where
  "wit_hash = \<lparr>h_bytes = (\<lambda>s. s), h_hex = (\<lambda>s. concat (map hex2 s)),
     h_from_hex = (\<lambda>s. if s = [] then Inl ''empty'' else Inr s)\<rparr>"

definition wit_transport :: "(string, string, unit, kernel_state) transport_ops" where
  "wit_transport =
     \<lparr>t_find_out_link = (\<lambda>h w. None), t_link_status = (\<lambda>l w. LActive), t_link_age_secs = (\<lambda>l w. 0),
      t_link = (\<lambda>d w. ((), w)), t_link_close = (\<lambda>h w. (Inr (), w)),
      t_send_to_out_links = (\<lambda>h bs w. (1, w)), t_send_announce = (\<lambda>bs w. w)\<rparr>"

definition ipv4_at :: "nat \<Rightarrow> bytes \<Rightarrow> ipv4" where
  "ipv4_at i bs = mk_ipv4 (byte_val (bs ! i)) (byte_val (bs ! (i + 1)))
     (byte_val (bs ! (i + 2))) (byte_val (bs ! (i + 3)))"

definition wit_env :: "(string, cidr4, string, unit, kernel_state) vpn_env" where
  "wit_env =
     \<lparr>e_cidr = cidr4_ops, e_hash = wit_hash, e_os = ks_os, e_transport = wit_transport,
      e_desc_hash = (\<lambda>d. d), e_tun_send = (\<lambda>bs w. (Inr (length bs), w)),
      e_ip_slice = (\<lambda>bs. if 20 \<le> length bs \<and> byte_val (hd bs) div 16 = 4
                         then Some (V4 (ipv4_at 12 bs), V4 (ipv4_at 16 bs)) else None),
      e_announce = flat_announce, e_ctrl = flat_ctrl\<rparr>"

definition wit_kernel :: kernel_state where
  "wit_kernel = \<lparr>ks_routes = (\<lambda>i. {}), ks_rules = (\<lambda>c. [])\<rparr>"

definition wit_net :: cidr4 where "wit_net = cidr4_of (mk_ipv4 10 20 0 0) 16"

definition wit_config :: "cidr4 vpn_config" where
  "wit_config = \<lparr>cfg_network = wit_net, cfg_allow_all_peers = False, cfg_peers = [''A''],
     cfg_advertised_routes = [], cfg_announce_freq_secs = 5\<rparr>"

lemma ks_run [simp]: "run ks_os cmd args w = (Inr (), ks_exec cmd args w)"
  by (simp add: run_def ks_os_def)

lemma ks_try_all: "(\<And>f w. f \<in> set fs \<Longrightarrow> fst (f w) = Inr ()) \<Longrightarrow> \<exists>w'. try_all fs w = (Inr (), w')"
proof (induction fs arbitrary: w)
  case Nil
  then show ?case by simp
next
  case (Cons f fs)
  obtain w1 where "f w = (Inr (), w1)" using Cons.prems [of f w] by (cases "f w") auto
  moreover have "\<exists>w'. try_all fs w1 = (Inr (), w')" by (rule Cons.IH) (simp add: Cons.prems)
  ultimately show ?case by auto
qed

lemma ks_netmap: "\<exists>w'. resolve_iptables ks_os w = (Some ''iptables'', w')"
  by (simp add: resolve_iptables_def supports_netmap_def ks_os_def)

lemma ks_translations: "\<exists>w'. sync_route_translations ks_os C i ts w = (Inr (), w')"
proof -
  obtain w1 where r: "resolve_iptables ks_os w = (Some ''iptables'', w1)" using ks_netmap by blast
  show ?thesis
    unfolding sync_route_translations_def r prod.case option.case
    by (rule ks_try_all)
      (auto simp: ensure_chain_def ensure_jump_def translation_actions_def Let_def split: if_splits)
qed

lemma wit_sync:
  "\<exists>w'. sync_routes wit_env (rt, w) = (commit_routes (desired_routes wit_env rt) (local_conflicts wit_env rt) rt, w')"
proof (cases "interface_name rt")
  case None
  then show ?thesis by (simp add: sync_routes_def Let_def)
next
  case (Some i)
  have ks: "e_os wit_env = ks_os" by (simp add: wit_env_def)
  let ?w = "fold (delete_route ks_os i) (filter (\<lambda>r. r \<notin> set (desired_routes wit_env rt)) (installed_routes (slow rt))) w"
  have "\<exists>w1. try_all (map (replace_route ks_os i) (desired_routes wit_env rt)) ?w = (Inr (), w1)"
    by (rule ks_try_all) (auto simp: replace_route_def run_ip_def)
  then obtain w1 where 1: "try_all (map (replace_route ks_os i) (desired_routes wit_env rt)) ?w = (Inr (), w1)" ..
  obtain w2 where 2: "sync_route_translations ks_os (e_cidr wit_env) i (route_translations wit_env rt) w1 = (Inr (), w2)"
    using ks_translations by blast
  from 1 2 Some show ?thesis by (simp add: sync_routes_def Let_def ks)
qed

lemma wit_cidr [simp]:
  "first_address cidr4_ops = cidr4_base" "network_length cidr4_ops = cidr4_len" "e_cidr wit_env = cidr4_ops"
  "e_hash wit_env = wit_hash" "h_bytes wit_hash h = h" "e_desc_hash wit_env d = d"
  by (simp_all add: cidr4_ops_def wit_env_def wit_hash_def)

lemma wit_net_simps [simp]: "cidr4_base wit_net = mk_ipv4 10 20 0 0" "cidr4_len wit_net = 16"
proof -
  have "cidr4_valid (mk_ipv4 10 20 0 0) 16" by (simp add: cidr4_valid_def block_size_def unat_mk_ipv4)
  then show "cidr4_base wit_net = mk_ipv4 10 20 0 0" "cidr4_len wit_net = 16" by (simp_all add: wit_net_def)
qed

lemma wit_derive:
  "derive_tunnel_ip cidr4_ops wit_hash wit_net ''A'' = Inr (mk_ipv4 10 20 0 66)"
  "derive_tunnel_ip cidr4_ops wit_hash wit_net ''B'' = Inr (mk_ipv4 10 20 0 67)"
  by (simp_all add: derive_tunnel_ip_def validate_network_def tunnel_seed_def hash_step_def mk_ipv4_def Let_def)

definition wit_start :: "(string, cidr4, string, unit) vpn_runtime" where
  "wit_start = (initial_runtime wit_env wit_config ''B'' (mk_ipv4 10 20 0 67) (Some ''tun0'') True [''A''] (Inr []))
     \<lparr>peers := [(''A'', peer_new ''A'' (mk_ipv4 10 20 0 66) Configured)]\<rparr>"

lemma wit_start_runtime:
  "\<exists>w'. start_runtime wit_env 5 wit_config ''B'' (Inr ''tun0'') (Inr []) wit_kernel =
     (Inr (commit_routes (desired_routes wit_env (rebuild_router wit_env 5 wit_start))
       (local_conflicts wit_env (rebuild_router wit_env 5 wit_start)) (rebuild_router wit_env 5 wit_start)), w')"
proof -
  let ?i = "initial_runtime wit_env wit_config ''B'' (mk_ipv4 10 20 0 67) (Some ''tun0'') True [''A''] (Inr [])"
  have ks: "e_os wit_env = ks_os" by (simp add: wit_env_def)
  have net: "cfg_network wit_config = wit_net" by (simp add: wit_config_def)
  have v: "validate_network cidr4_ops wit_net = Inr ()" by (simp add: validate_network_def)
  have c: "parse_configured_peers wit_hash (cfg_peers wit_config) = Inr [''A'']"
    by (simp add: parse_configured_peers_def wit_config_def wit_hash_def)
  obtain w1 where a: "supports_route_aliasing ks_os wit_kernel = (True, w1)"
    using ks_netmap [of wit_kernel] by (auto simp: supports_route_aliasing_def)
  obtain w2 where t: "try_all [configure_tun_address ks_os ''tun0'' (mk_ipv4 10 20 0 67) 16, enable_forwarding ks_os] w1
      = (Inr (), w2)"
    using ks_try_all [of "[configure_tun_address ks_os ''tun0'' (mk_ipv4 10 20 0 67) 16, enable_forwarding ks_os]" w1]
    by (auto simp: configure_tun_address_def enable_forwarding_def run_ip_def Let_def)
  have s: "seed_configured wit_env [''A''] ?i = Inr wit_start"
    by (simp add: initial_runtime_def net wit_derive wit_start_def peers_insert_def peer_new_def peers_new_def)
  obtain w3 where y: "sync_routes wit_env (rebuild_router wit_env 5 wit_start, w2) =
      (commit_routes (desired_routes wit_env (rebuild_router wit_env 5 wit_start))
       (local_conflicts wit_env (rebuild_router wit_env 5 wit_start)) (rebuild_router wit_env 5 wit_start), w3)"
    using wit_sync by blast
  show ?thesis
    unfolding start_runtime_def wit_cidr net v c ks a prod.case sum.case open_platform_def option.case
      wit_derive wit_net_simps t s y
    by blast
qed

definition wit_rt :: "(string, cidr4, string, unit) vpn_runtime" where
  "wit_rt = rebuild_router wit_env 5 wit_start"

lemma wit_rt_simps [simp]:
  "destination wit_rt = ''B''" "network wit_rt = wit_net" "local_tunnel_ip wit_rt = mk_ipv4 10 20 0 67"
  "interface_name wit_rt = Some ''tun0''" "peers wit_rt = [(''A'', peer_new ''A'' (mk_ipv4 10 20 0 66) Configured)]"
  "allow_all_peers (slow wit_rt) = False" "allowed_peers (slow wit_rt) = [''A'']"
  "installed_routes (slow wit_rt) = []" "status wit_rt = STATUS_RUNNING"
  by (simp_all add: wit_rt_def rebuild_router_def wit_start_def initial_runtime_def wit_config_def)

lemma peers_get_Cons [simp]:
  "peers_get h [] = None" "peers_get h ((k, p) # m) = (if h = k then Some p else peers_get h m)"
  by (simp_all add: peers_get_def)

lemma wit_reachable:
  "\<exists>w. vpn_reachable wit_env
     (commit_routes (desired_routes wit_env wit_rt) (local_conflicts wit_env wit_rt) wit_rt, w, [])"
proof -
  obtain w where "start_runtime wit_env 5 wit_config ''B'' (Inr ''tun0'') (Inr []) wit_kernel =
     (Inr (commit_routes (desired_routes wit_env wit_rt) (local_conflicts wit_env wit_rt) wit_rt), w)"
    using wit_start_runtime unfolding wit_rt_def by blast
  then show ?thesis by (intro exI) (rule vpn_reachable.started)
qed

lemma commit_core [simp]:
  "router (commit_routes d c rt) = router rt" "peers (commit_routes d c rt) = peers rt"
  "destination (commit_routes d c rt) = destination rt" "network (commit_routes d c rt) = network rt"
  "local_tunnel_ip (commit_routes d c rt) = local_tunnel_ip rt"
  "interface_name (commit_routes d c rt) = interface_name rt"
  "local_routes (slow (commit_routes d c rt)) = local_routes (slow rt)"
  "peer_allowed h (commit_routes d c rt) = peer_allowed h rt"
  by (simp_all add: commit_routes_def peer_allowed_def Let_def)

lemma wit_rt_inv: "rt_inv wit_env wit_rt"
proof -
  obtain w where "vpn_reachable wit_env
     (commit_routes (desired_routes wit_env wit_rt) (local_conflicts wit_env wit_rt) wit_rt, w, [])"
    using wit_reachable by blast
  from vpn_reachable_inv [OF this] have "rt_inv wit_env
     (commit_routes (desired_routes wit_env wit_rt) (local_conflicts wit_env wit_rt) wit_rt)" by simp
  then show ?thesis
    by (rule same_core_inv [rotated]) (simp add: same_core_def commit_routes_def Let_def)
qed

lemma mk_ipv4_eq [simp]:
  assumes "a < 256" "b < 256" "c < 256" "d < 256" "a' < 256" "b' < 256" "c' < 256" "d' < 256"
  shows "mk_ipv4 a b c d = mk_ipv4 a' b' c' d' \<longleftrightarrow> a = a' \<and> b = b' \<and> c = c' \<and> d = d'"
proof
  assume e: "mk_ipv4 a b c d = mk_ipv4 a' b' c' d'"
  have "[a, b, c, d] = octets (mk_ipv4 a b c d)" by (rule octets_mk_ipv4 [symmetric]) fact+
  also have "\<dots> = [a', b', c', d']" unfolding e by (rule octets_mk_ipv4) fact+
  finally show "a = a' \<and> b = b' \<and> c = c' \<and> d = d'" by simp
qed simp

lemma wit_resolve: "resolve cidr4_ops (router wit_rt) (mk_ipv4 10 20 0 66) = Some ''A''"
proof -
  have "router wit_rt = build cidr4_ops
      [peer_new ''A'' (mk_ipv4 10 20 0 66) Configured :: (string, cidr4, string) peer] 5 ''B'' (mk_ipv4 10 20 0 67)"
    by (simp add: wit_rt_def rebuild_router_def wit_start_def peers_all_def initial_runtime_def)
  then show ?thesis
    by (simp add: resolve_def tunnel_ips_build peer_new_def)
qed

section \<open>Routing\<close>



text \<open>
  C3. A build of the forwarding table keeps a network for a peer exactly when the network does not
  contain the local tunnel address and that peer is its only claimant, a claimant being a remote
  peer whose routes have not expired and include the network.
\<close>

theorem build_unique_claims:
  "(r, h) \<in> set (subnets (build C ps now lh lip)) \<longleftrightarrow>
     \<not> contains C r lip \<and> {h'. claims ps now lh r h'} = {h}"
  by (auto simp: subnets_build_iff)

text \<open>
  C4. For an address that is nobody's tunnel address, the built table resolves to a peer exactly
  when that peer owns a longest network of the table that contains the address.
\<close>

theorem resolve_longest_prefix:
  assumes "cidr_crate C" "\<not> (\<exists>p\<in>set ps. p_hash p \<noteq> lh \<and> p_tunnel_ip p = ip)"
  shows "resolve C (build C ps now lh lip) ip = Some h \<longleftrightarrow>
     (\<exists>r. (r, h) \<in> lpm C (set (subnets (build C ps now lh lip))) ip)"
  by (rule resolve_build_lpm [OF assms(1)]) (use assms(2) in auto)

definition wit_route :: cidr4 where "wit_route = cidr4_of (mk_ipv4 192 168 7 0) 24"

definition wit_peer :: "(string, cidr4, string) peer" where
  "wit_peer = (peer_new ''A'' (mk_ipv4 10 20 0 66) Active)\<lparr>p_routes := [wit_route]\<rparr>"

lemma wit_route_simps [simp]: "cidr4_base wit_route = mk_ipv4 192 168 7 0" "cidr4_len wit_route = 24"
proof -
  have "cidr4_valid (mk_ipv4 192 168 7 0) 24" by (simp add: cidr4_valid_def block_size_def unat_mk_ipv4)
  then show "cidr4_base wit_route = mk_ipv4 192 168 7 0" "cidr4_len wit_route = 24" by (simp_all add: wit_route_def)
qed

lemma wit_contains [simp]:
  "contains cidr4_ops c ip \<longleftrightarrow> unat (cidr4_base c) \<le> unat ip \<and> unat ip < unat (cidr4_base c) + block_size (cidr4_len c)"
  by (simp add: cidr4_ops_def)

lemma wit_lpm:
  "(wit_route, ''A'') \<in> lpm cidr4_ops (set (subnets (build cidr4_ops [wit_peer] 5 ''B'' (mk_ipv4 10 20 0 67)))) (mk_ipv4 192 168 7 9)"
proof -
  let ?S = "set (subnets (build cidr4_ops [wit_peer] 5 ''B'' (mk_ipv4 10 20 0 67)))"
  have c: "claims [wit_peer] 5 ''B'' r h \<longleftrightarrow> r = wit_route \<and> h = ''A''" for r h
    by (auto simp: claims_def wit_peer_def peer_new_def live_claim_def)
  have n: "\<not> contains cidr4_ops wit_route (mk_ipv4 10 20 0 67)" "contains cidr4_ops wit_route (mk_ipv4 192 168 7 9)"
    by (simp_all add: unat_mk_ipv4 block_size_def)
  have "(r, h) \<in> ?S \<longleftrightarrow> r = wit_route \<and> h = ''A''" for r h
    unfolding subnets_build_iff c using n(1) by blast
  then have s: "?S = {(wit_route, ''A'')}" by auto
  show ?thesis unfolding s lpm_def using n(2) by blast
qed

theorem resolve_longest_prefix_witness:
  "resolve cidr4_ops (build cidr4_ops [wit_peer] 5 ''B'' (mk_ipv4 10 20 0 67)) (mk_ipv4 192 168 7 9) = Some ''A''"
proof -
  have "\<not> (\<exists>p\<in>set [wit_peer]. p_hash p \<noteq> ''B'' \<and> p_tunnel_ip p = mk_ipv4 192 168 7 9)"
    by (simp add: wit_peer_def peer_new_def)
  from resolve_longest_prefix [OF c4.cidr_crate_axioms this, of 5 "mk_ipv4 10 20 0 67" "''A''"] wit_lpm
  show ?thesis by blast
qed



section \<open>Synchronising the kernel\<close>

lemma sync_routes_done:
  assumes "sync_routes E (rt, w) = (rt', w')" "s_last_error (slow rt') = None"
  shows "rt' = commit_routes (desired_routes E rt) (local_conflicts E rt) rt"
  using assms sync_routes_cases [of E rt w] by auto

lemma sync_routes_Some_done:
  assumes s: "sync_routes E (rt, w) = (rt', w')" and n: "s_last_error (slow rt') = None"
    and i: "interface_name rt = Some dev"
  shows "\<exists>w1 w2. try_all (map (replace_route (e_os E) dev) (desired_routes E rt)) w1 = (Inr (), w2)
    \<and> sync_route_translations (e_os E) (e_cidr E) dev (route_translations E rt) w2 = (Inr (), w')"
  using s n i by (auto simp: sync_routes_def Let_def split: prod.splits sum.splits)

lemma desired_routes_iff:
  "s \<in> set (desired_routes E rt) \<longleftrightarrow>
     (\<exists>r h. (r, h) \<in> set (subnets (router rt)) \<and> s = cidr_to_string (e_cidr E) r \<and> s \<notin> set (local_conflicts E rt))"
  by (auto simp: desired_routes_def)

text \<open>
  C2. When a synchronisation reports no error, every route it records as installed is in the kernel's
  table for the TUN device, is a network of the forwarding table, and shares no address with a local
  network or with the alias under which one is exported.
\<close>

theorem sync_routes_installs:
  assumes k: "kernel (e_os E) kroutes krules" and c: "cidr_crate (e_cidr E)"
    and i: "interface_name rt = Some dev"
    and s: "sync_routes E (rt, w) = (rt', w')" and n: "s_last_error (slow rt') = None"
    and r: "s \<in> set (installed_routes (slow rt'))"
  shows "s \<in> kroutes w' dev \<and> (\<exists>r h. (r, h) \<in> set (subnets (router rt)) \<and> s = cidr_to_string (e_cidr E) r
    \<and> \<not> (\<exists>t\<in>set (route_translations E rt). \<exists>ip. contains (e_cidr E) r ip
          \<and> (contains (e_cidr E) (lrt_local t) ip \<or> contains (e_cidr E) (lrt_exported t) ip)))"
proof
  have rt': "rt' = commit_routes (desired_routes E rt) (local_conflicts E rt) rt"
    by (rule sync_routes_done [OF s n])
  from r have d: "s \<in> set (desired_routes E rt)" by (simp add: rt')
  from sync_routes_Some_done [OF s n i] obtain w1 w2
    where 1: "try_all (map (replace_route (e_os E) dev) (desired_routes E rt)) w1 = (Inr (), w2)"
      and 2: "sync_route_translations (e_os E) (e_cidr E) dev (route_translations E rt) w2 = (Inr (), w')"
    by blast
  from kernel.replace_all [OF k 1] d have "s \<in> kroutes w2 dev" by simp
  moreover have "kroutes w' = kroutes w2"
    using kernel.sync_translations_frame [OF k, of "e_cidr E" dev "route_translations E rt" w2] 2 by simp
  ultimately show "s \<in> kroutes w' dev" by simp
  from d obtain r h where rh: "(r, h) \<in> set (subnets (router rt))" "s = cidr_to_string (e_cidr E) r"
    "s \<notin> set (local_conflicts E rt)" by (auto simp: desired_routes_iff)
  then have "\<not> (\<exists>t\<in>set (route_translations E rt). routes_overlap (e_cidr E) r (lrt_local t)
      \<or> routes_overlap (e_cidr E) r (lrt_exported t))"
    by (force simp: local_conflicts_def conflicting_local_routes_iff)
  with rh show "\<exists>r h. (r, h) \<in> set (subnets (router rt)) \<and> s = cidr_to_string (e_cidr E) r
    \<and> \<not> (\<exists>t\<in>set (route_translations E rt). \<exists>ip. contains (e_cidr E) r ip
          \<and> (contains (e_cidr E) (lrt_local t) ip \<or> contains (e_cidr E) (lrt_exported t) ip))"
    unfolding routes_overlap_shared [OF c] by blast
qed

definition wit_table :: "(string, cidr4) route_table" where
  "wit_table = \<lparr>tunnel_ips = [(mk_ipv4 10 20 0 66, ''A'')], subnets = [(wit_route, ''A'')]\<rparr>"

definition wit_rt2 :: "(string, cidr4, string, unit) vpn_runtime" where
  "wit_rt2 = wit_rt\<lparr>router := wit_table\<rparr>"

lemma wit_rt2_simps [simp]:
  "interface_name wit_rt2 = Some ''tun0''" "subnets (router wit_rt2) = [(wit_route, ''A'')]"
  "local_routes (slow wit_rt2) = []" "route_translations wit_env wit_rt2 = []" "status wit_rt2 = STATUS_RUNNING"
  by (simp_all add: wit_rt2_def wit_table_def wit_rt_def rebuild_router_def wit_start_def initial_runtime_def
      wit_config_def route_translations_def local_route_translations_def merge_routes_def
      discover_local_routes_def btree_set_def)

lemma wit_rt2_desired: "desired_routes wit_env wit_rt2 = [cidr_to_string cidr4_ops wit_route]"
  by (simp add: desired_routes_def local_conflicts_def conflicting_local_routes_def btree_set_def)

theorem sync_routes_installs_witness:
  "\<exists>w'. snd (sync_routes wit_env (wit_rt2, wit_kernel)) = w' \<and> cidr_to_string cidr4_ops wit_route \<in> ks_routes w' ''tun0''"
proof -
  obtain w' where s: "sync_routes wit_env (wit_rt2, wit_kernel) =
      (commit_routes (desired_routes wit_env wit_rt2) (local_conflicts wit_env wit_rt2) wit_rt2, w')"
    using wit_sync by blast
  have k: "kernel (e_os wit_env) ks_routes ks_rules" using ks.kernel_axioms by (simp add: wit_env_def)
  have c: "cidr_crate (e_cidr wit_env)" using c4.cidr_crate_axioms by simp
  have "cidr_to_string cidr4_ops wit_route \<in> set (installed_routes (slow (commit_routes (desired_routes wit_env wit_rt2)
      (local_conflicts wit_env wit_rt2) wit_rt2)))" by (simp add: wit_rt2_desired)
  from sync_routes_installs [OF k c _ s _ this] have "cidr_to_string cidr4_ops wit_route \<in> ks_routes w' ''tun0''" by simp
  with s show ?thesis by simp
qed

text \<open>
  A synchronisation has two outcomes. Either every step succeeded: the new sets of installed and
  conflicting routes are recorded, the error is cleared and a status other than mock becomes
  running. Or a command failed: the recorded routes stay as they were, and the error and the error
  status are set. Peers, router and policy are untouched in both.
\<close>

lemma sync_routes_outcome:
  "fst (sync_routes E (rt, w)) \<in>
     {commit_routes (desired_routes E rt) (local_conflicts E rt) rt} \<union> {set_error e rt |e. interface_name rt \<noteq> None}
   \<and> same_core (fst (sync_routes E (rt, w))) rt"
  using sync_routes_cases [of E rt w] sync_routes_core [of E rt w] by auto

text \<open>
  C11. After a successful synchronisation on a host with a NETMAP-capable iptables the two NAT chains
  hold exactly the rules of the current translations, whatever they held before, so repeated
  synchronisations do not pile up rules.
\<close>

theorem sync_routes_netmap:
  assumes k: "kernel (e_os E) kroutes krules" and i: "interface_name rt = Some dev"
    and s: "sync_routes E (rt, w) = (rt', w')" and n: "s_last_error (slow rt') = None"
    and ipt: "\<And>w. fst (resolve_iptables (e_os E) w) \<noteq> None"
  shows "krules w' (''nat'', PRE) = netmap_pre (e_cidr E) (route_translations E rt)
    \<and> krules w' (''nat'', POST) = netmap_post (e_cidr E) (route_translations E rt)"
  using sync_routes_Some_done [OF s n i] kernel.sync_translations_rules [OF k ipt] by blast

theorem sync_routes_netmap_witness:
  "\<exists>w'. snd (sync_routes wit_env (wit_rt2, wit_kernel)) = w' \<and> ks_rules w' (''nat'', PRE) = []"
proof -
  obtain w' where s: "sync_routes wit_env (wit_rt2, wit_kernel) =
      (commit_routes (desired_routes wit_env wit_rt2) (local_conflicts wit_env wit_rt2) wit_rt2, w')"
    using wit_sync by blast
  have k: "kernel (e_os wit_env) ks_routes ks_rules" using ks.kernel_axioms by (simp add: wit_env_def)
  have "fst (resolve_iptables (e_os wit_env) v) \<noteq> None" for v
    using ks_netmap [of v] by (auto simp: wit_env_def)
  from sync_routes_netmap [OF k _ s _ this] have "ks_rules w' (''nat'', PRE) = []" by (simp add: netmap_pre_def)
  with s show ?thesis by simp
qed

section \<open>Announces and policy\<close>

text \<open>
  A received announce that is not accepted (not a VPN announce, undecodable, from the node itself
  or from a peer the policy does not allow) leaves the router, the set of peers, what each peer
  contributes to routing, and the world as they were; at most a peer's last error changes.
\<close>

lemma rejected_announce_inert:
  assumes "announce_rx E now desc app_data (rt, w) = (False, rt', w')"
  shows "w' = w \<and> (rt' = rt \<or> (\<exists>e. rt' = record_peer_error (e_desc_hash E desc) e rt))
    \<and> router rt' = router rt \<and> map route_view (peers_all (peers rt')) = map route_view (peers_all (peers rt))"
proof -
  have "w' = w \<and> (rt' = rt \<or> (\<exists>e. rt' = record_peer_error (e_desc_hash E desc) e rt))"
    using assms
    by (auto simp: announce_rx_def handle_peer_announce_def Let_def split: if_splits sum.splits)
  then show ?thesis
    by (auto simp: record_peer_error_def set_peer_def route_view_modify)
qed

lemma rejected_announce_inert_witness:
  "\<exists>rt'. announce_rx wit_env 9 ''Z'' ''kvpn'' (wit_rt, wit_kernel) = (False, rt', wit_kernel) \<and> router rt' = router wit_rt"
proof -
  have "announce_rx wit_env 9 ''Z'' ''kvpn'' (wit_rt, wit_kernel) = (False, wit_rt, wit_kernel)"
    by (simp add: announce_rx_def is_announce_def)
  from rejected_announce_inert [OF this] this show ?thesis by blast
qed

text \<open>
  An accepted announce comes from an allowed remote peer; afterwards that peer is registered with
  its derived tunnel address, holds exactly the announced networks until 45 seconds after the
  announce, and the router is the table rebuilt from the current peers at that moment.
\<close>

lemma accepted_announce_effect:
  assumes a: "announce_rx E now desc app_data (rt, w) = (True, rt', w')" and i: "rt_inv E rt"
  shows "\<exists>p routes. decode_announce (e_cidr E) (e_announce E) app_data = Inr routes
    \<and> peer_allowed (e_desc_hash E desc) rt
    \<and> peers_get (e_desc_hash E desc) (peers rt') = Some p \<and> p_routes p = routes
    \<and> p_route_expires_ts p = wrap64 (now + ROUTE_GRACE_SECS) \<and> p_last_seen_ts p = now \<and> p_last_error p = None
    \<and> derive_tunnel_ip (e_cidr E) (e_hash E) (network rt) (e_desc_hash E desc) = Inr (p_tunnel_ip p)
    \<and> router rt' = build (e_cidr E) (peers_all (peers rt')) now (destination rt) (local_tunnel_ip rt)"
proof -
  let ?h = "e_desc_hash E desc"
  from a obtain routes where d: "decode_announce (e_cidr E) (e_announce E) app_data = Inr routes"
    and h: "handle_peer_announce E now desc routes (rt, w) = (True, rt', w')"
    by (auto simp: announce_rx_def split: if_splits sum.splits)
  from h obtain ip where al: "peer_allowed ?h rt"
    and ip: "derive_tunnel_ip (e_cidr E) (e_hash E) (network rt) ?h = Inr ip"
    and s: "sync_routes E (rebuild_router E now (rt\<lparr>peers := peers_modify ?h (announced_peer now desc routes)
        (snd (peers_get_or_create ?h (peer_new ?h ip Discovered) (peers rt)))\<rparr>), w) = (rt', w')"
    by (auto simp: handle_peer_announce_def Let_def split: if_splits sum.splits)
  let ?reg = "peers_modify ?h (announced_peer now desc routes)
      (snd (peers_get_or_create ?h (peer_new ?h ip Discovered) (peers rt)))"
  have core: "peers rt' = ?reg" "router rt' = build (e_cidr E) (peers_all ?reg) now (destination rt) (local_tunnel_ip rt)"
    using sync_core [OF s] by (simp_all add: same_core_def rebuild_router_def)
  obtain q where q: "peers_get ?h (snd (peers_get_or_create ?h (peer_new ?h ip Discovered) (peers rt))) = Some q"
    "p_tunnel_ip q = ip"
  proof (cases "peers_get ?h (peers rt)")
    case None
    then show ?thesis using that [of "peer_new ?h ip Discovered"] by (simp add: peers_get_get_or_create peer_new_def)
  next
    case (Some q)
    with i ip have "p_tunnel_ip q = ip" by (auto simp: rt_inv_def reg_inv_def)
    with Some that show ?thesis by (simp add: peers_get_get_or_create)
  qed
  then have "peers_get ?h (peers rt') = Some (announced_peer now desc routes q)"
    by (simp add: core pr.get_upd)
  with d al ip q core show ?thesis
    by (auto simp: announced_peer_def peer_ops)
qed

lemma wit_announce: "\<exists>bs. encode_announce cidr4_ops flat_announce [wit_route] = Inr bs
    \<and> is_announce bs \<and> decode_announce cidr4_ops flat_announce bs = Inr [wit_route]"
  by (rule c4.announce.round_trip)

lemma accepted_announce_effect_witness:
  "\<exists>bs rt' w' p. announce_rx wit_env 9 ''A'' bs (wit_rt, wit_kernel) = (True, rt', w')
     \<and> peers_get ''A'' (peers rt') = Some p \<and> p_routes p = [wit_route] \<and> p_route_expires_ts p = 54"
proof -
  obtain bs where b: "is_announce bs" "decode_announce cidr4_ops flat_announce bs = Inr [wit_route]"
    using wit_announce by blast
  have e: "e_announce wit_env = flat_announce" by (simp add: wit_env_def)
  have "\<exists>s. announce_rx wit_env 9 ''A'' bs (wit_rt, wit_kernel) = (True, s)"
    by (simp add: announce_rx_def b e handle_peer_announce_def wit_derive peer_allowed_def Let_def)
  then obtain rt' w' where a: "announce_rx wit_env 9 ''A'' bs (wit_rt, wit_kernel) = (True, rt', w')" by auto
  from accepted_announce_effect [OF a wit_rt_inv] b show ?thesis
    using a by (auto simp: e ROUTE_GRACE_SECS_def u64_max_def)
qed

text \<open>
  C6. Replacing the policy by a closed one (\<open>allow_all_peers\<close> false) with a list that parses always
  succeeds, and afterwards the registered peers are exactly the listed ones other than the node itself:
  newcomers get an entry, everybody else is dropped, known peers keep theirs.
\<close>

theorem replace_peer_policy_closed:
  assumes i: "rt_inv E rt" and p: "parse_configured_peers (e_hash E) strs = Inr allowed"
  shows "\<exists>rt' w'. replace_peer_policy E now False strs (rt, w) = (Inr (), rt', w') \<and> rt_inv E rt'
    \<and> (\<forall>h. peers_get h (peers rt') =
         (if h \<in> set allowed \<and> h \<noteq> destination rt
          then Some (case peers_get h (peers rt) of None \<Rightarrow> configured_peer E (network rt) h | Some p \<Rightarrow> p)
          else None))"
proof -
  have r: "reg_inv E rt" using i by (simp add: rt_inv_def)
  from replace_peer_policy_Inr [OF r p, of now False w] obtain rt1 where
    e: "replace_peer_policy E now False strs (rt, w) = (Inr (), sync_routes E (rebuild_router E now rt1, w))"
    and g: "\<And>h. peers_get h (peers rt1) = policy_peers E False allowed rt h" by auto
  obtain rt' w' where s: "sync_routes E (rebuild_router E now rt1, w) = (rt', w')" by fastforce
  have "peers rt' = peers rt1" using sync_core [OF s] by (simp add: same_core_def rebuild_router_def)
  moreover have "rt_inv E rt'" using replace_peer_policy_inv [OF i] e s by simp
  moreover have "peers_get (destination rt) (peers rt) = None"
    using r by (cases "peers_get (destination rt) (peers rt)") (auto simp: reg_inv_def peer_allowed_iff)
  ultimately show ?thesis using e s
    by (auto simp: g policy_peers_def split: option.splits)
qed

theorem replace_peer_policy_closed_witness:
  "\<exists>rt' w'. replace_peer_policy wit_env 9 False [''C''] (wit_rt, wit_kernel) = (Inr (), rt', w')
     \<and> peers_get ''A'' (peers rt') = None"
proof -
  have "parse_configured_peers (e_hash wit_env) [''C''] = Inr [''C'']"
    by (simp add: parse_configured_peers_def wit_hash_def)
  from replace_peer_policy_closed [OF wit_rt_inv this, of 9 wit_kernel] show ?thesis by auto
qed

section \<open>Expiry\<close>

text \<open>
  C7. After a watchdog tick no registered peer holds expired networks, and every network the router
  still forwards is announced by its registered owner and has not expired.
\<close>

theorem watchdog_expires_routes:
  assumes i: "rt_inv E rt" and t: "watchdog_tick E now (rt, w) = (rt', w')"
  shows "\<not> (\<exists>h p. peers_get h (peers rt') = Some p \<and> routes_expired now p)
    \<and> set (subnets (router rt')) \<subseteq>
        {(r, h). \<exists>p. peers_get h (peers rt') = Some p \<and> r \<in> set (p_routes p) \<and> live_claim now p}"
  using watchdog_tick_result [OF i t] subnets_live [OF watchdog_inv [OF i t], of now] by blast

theorem watchdog_expires_routes_witness:
  "\<not> (\<exists>h p. peers_get h (peers (fst (watchdog_tick wit_env 60 (wit_rt, wit_kernel)))) = Some p \<and> routes_expired 60 p)"
  using watchdog_expires_routes [OF wit_rt_inv prod.collapse [symmetric], of 60 wit_kernel] by blast

section \<open>Packets\<close>

text \<open>
  C8. A packet read from the TUN device meets exactly one fate. Without an IPv4 destination, or with
  the local tunnel address as destination, it is ignored and nothing changes. Otherwise either the
  drop counter goes up by one and nothing is transmitted counter-wise, or the packet was handed to
  the out-links of the peer the router resolves (known to be Active when registered), was accepted by
  at least one link, and the transmit counters account for it.
\<close>

theorem tun_packet_fate:
  "(\<exists>dst. packet_destination E packet = Some dst \<and> dst \<noteq> local_tunnel_ip rt
      \<and> (fst (tun_packet E now packet (rt, w)) = rt_record_drop rt
         \<or> (\<exists>h n. resolve (e_cidr E) (router rt) dst = Some h \<and> 0 < n
             \<and> t_send_to_out_links (e_transport E) h packet w = (n, snd (tun_packet E now packet (rt, w)))
             \<and> map_option p_link_state (peers_get h (peers rt)) \<in> {None, Some Active}
             \<and> v_metrics (fst (tun_packet E now packet (rt, w))) = record_tx now (length packet) (v_metrics rt))))
   \<or> packet_destination E packet \<in> {None, Some (local_tunnel_ip rt)} \<and> tun_packet E now packet (rt, w) = (rt, w)"
proof (cases "packet_destination E packet")
  case None
  then show ?thesis by (simp add: tun_packet_def)
next
  case (Some dst)
  show ?thesis
  proof (cases "dst = local_tunnel_ip rt")
    case True
    with Some show ?thesis by (simp add: tun_packet_def)
  next
    case nl: False
    show ?thesis
    proof (cases "resolve (e_cidr E) (router rt) dst")
      case None
      with Some nl show ?thesis by (simp add: tun_packet_def)
    next
      case (Some h)
      obtain n w1 where s: "t_send_to_out_links (e_transport E) h packet w = (n, w1)" by fastforce
      have "fst (tun_packet E now packet (rt, w)) = rt_record_drop rt
          \<or> 0 < n \<and> w1 = snd (tun_packet E now packet (rt, w))
            \<and> map_option p_link_state (peers_get h (peers rt)) \<in> {None, Some Active}
            \<and> v_metrics (fst (tun_packet E now packet (rt, w))) = record_tx now (length packet) (v_metrics rt)"
        using Some nl s \<open>packet_destination E packet = Some dst\<close>
        by (auto simp: tun_packet_def Let_def tun_tx_requires_backoff_def split: option.splits if_splits)
      with s Some nl \<open>packet_destination E packet = Some dst\<close> show ?thesis by blast
    qed
  qed
qed

text \<open>
  A control frame that arrives on an inbound link has no sender, and the node drops it without any
  effect on its state or the world, whatever it contains. (So the routes that a peer's greeting
  carries, which is sent on an outbound link and arrives on an inbound one, are never used.)
\<close>

lemma inbound_ctrl_inert:
  "in_link_event E now h (EvData (CTRL_TAG # frame)) s = s"
  by (cases s) (simp add: in_link_event_def handle_link_data_def is_ctrl_def)

section \<open>Frames\<close>

text \<open>
  C12. Encoding an announce succeeds and its frame decodes to the same networks; the frame is
  recognised as an announce and never as a control frame.
\<close>

theorem announce_roundtrip:
  assumes "vpn_codec C ma mc"
  shows "\<exists>bs. encode_announce C ma rs = Inr bs \<and> decode_announce C ma bs = Inr rs
    \<and> is_announce bs \<and> \<not> is_ctrl bs"
  using vpn_codec.announce_frame [OF assms, of rs] announce_not_ctrl by blast

theorem announce_roundtrip_witness:
  "\<exists>bs. encode_announce cidr4_ops flat_announce [wit_route] = Inr bs
    \<and> decode_announce cidr4_ops flat_announce bs = Inr [wit_route]"
  using announce_roundtrip [OF c4.vpn_codec_axioms, of "[wit_route]"] by blast

text \<open>
  Encoding a control message succeeds and its frame decodes to the same message; the frame is
  recognised as a control frame, is no announce, and its first byte is the first byte of neither an
  IPv4 nor an IPv6 packet, so the receiver never writes it to the TUN device.
\<close>

lemma ctrl_roundtrip:
  assumes "vpn_codec C ma mc"
  shows "\<exists>bs. encode_ctrl mc c = Inr bs \<and> decode_ctrl mc bs = Inr c
    \<and> is_ctrl bs \<and> \<not> is_announce bs \<and> byte_val (hd bs) div 16 \<notin> {4, 6}"
proof -
  obtain bs where b: "encode_ctrl mc c = Inr bs" "is_ctrl bs" "decode_ctrl mc bs = Inr c"
    using vpn_codec.ctrl_frame [OF assms, of c] by blast
  with ctrl_first_byte [OF b(1)] announce_not_ctrl [of bs] show ?thesis by auto
qed

lemma ctrl_roundtrip_witness:
  "\<exists>bs. encode_ctrl flat_ctrl CtrlPing = Inr bs \<and> decode_ctrl flat_ctrl bs = Inr CtrlPing"
  using ctrl_roundtrip [OF c4.vpn_codec_axioms, of CtrlPing] by blast

text \<open>
  The error of an announce that does not decode says why: fewer than five bytes, another magic,
  another version (which it names), a body the serializer refuses, or a network that is none (its
  prefix is above 32 or its address has host bits set), with the prefix of the offending entry.
\<close>

lemma decode_announce_errors:
  assumes "cidr_crate C" "decode_announce C M data = Inl e"
  shows "e = Short \<and> length data < 5
    \<or> e = BadMagic \<and> 5 \<le> length data \<and> take 4 data \<noteq> ANNOUNCE_MAGIC
    \<or> (is_announce data \<and> (e = Version (byte_val (data ! 4)) \<and> data ! 4 \<noteq> ANNOUNCE_VERSION
         \<or> data ! 4 = ANNOUNCE_VERSION \<and>
            ((\<exists>m. mp_read M (drop 5 data) = Inl m \<and> e = Decode m)
             \<or> (\<exists>body a p. mp_read M (drop 5 data) = Inr body \<and> Subnet a p \<in> set (ann_routes body)
                  \<and> e = Prefix p \<and> \<not> (p \<le> 32 \<and> block_size p dvd unat a)))))"
  using assms(2) collect_to_cidr_Prefix [OF assms(1), of _ e]
  by (auto simp: decode_announce_def is_announce_def split: if_splits sum.splits)

lemma decode_announce_errors_witness:
  "\<exists>e. decode_announce cidr4_ops flat_announce ''kvpn!'' = Inl e \<and> e = Version 33"
proof -
  have "decode_announce cidr4_ops flat_announce ''kvpn!'' = Inl (Version 33)"
    by (simp add: decode_announce_def ANNOUNCE_MAGIC_def ANNOUNCE_VERSION_def)
  from decode_announce_errors [OF c4.cidr_crate_axioms this] this show ?thesis by blast
qed

section \<open>Addresses\<close>

text \<open>
  A tunnel address is derived exactly for networks with at least two host bits, and it is a host
  address of the network: inside it, and neither its first nor its last address.
\<close>

lemma derive_tunnel_ip_host:
  assumes "cidr_crate C"
  shows "case derive_tunnel_ip C H n h of
      Inl _ \<Rightarrow> 30 < network_length C n
    | Inr ip \<Rightarrow> network_length C n \<le> 30 \<and> contains C n ip \<and> ip \<noteq> first_address C n
        \<and> unat ip \<noteq> unat (first_address C n) + block_size (network_length C n) - 1"
proof (cases "derive_tunnel_ip C H n h")
  case (Inl e)
  with derive_tunnel_ip_defined [of C H n h] show ?thesis by auto
next
  case (Inr ip)
  with derive_tunnel_ip_Inr [OF assms Inr] derive_tunnel_ip_contained [OF assms Inr] show ?thesis by auto
qed

lemma derive_tunnel_ip_host_witness: "contains cidr4_ops wit_net (mk_ipv4 10 20 0 66)"
  using derive_tunnel_ip_host [OF c4.cidr_crate_axioms, where H = wit_hash and n = wit_net and h = "''A''"] by (simp only: wit_derive) simp

text \<open>
  A local /24 is exported as a network 192.168.k.0/24 with k between 100 and 254 that differs from
  the network itself; a network of any other length is exported as it is.
\<close>

lemma export_local_route_alias:
  assumes "cidr_crate C"
  shows "if network_length C r = 24
    then network_length C (export_local_route C H d r) = 24 \<and> export_local_route C H d r \<noteq> r
      \<and> (\<exists>k\<in>{100..254}. first_address C (export_local_route C H d r) = mk_ipv4 192 168 k 0)
    else export_local_route C H d r = r"
  using export_local_route_24 [OF assms, of r H d] export_third_range [of C H d r]
  by (auto simp: export_local_route_other)

lemma export_local_route_alias_witness:
  "export_local_route cidr4_ops wit_hash ''B'' wit_route \<noteq> wit_route"
  using export_local_route_alias [OF c4.cidr_crate_axioms, where r = wit_route and H = wit_hash and d = "''B''"] by simp

text \<open>Two networks are reported as overlapping exactly when some address lies in both.\<close>

lemma routes_overlap_iff_shared:
  assumes "cidr_crate C"
  shows "routes_overlap C a b \<longleftrightarrow> {ip. contains C a ip} \<inter> {ip. contains C b ip} \<noteq> {}"
  using routes_overlap_shared [OF assms, of a b] by auto

lemma routes_overlap_iff_shared_witness: "routes_overlap cidr4_ops wit_net wit_net"
proof -
  have "mk_ipv4 10 20 0 0 \<in> {ip. contains cidr4_ops wit_net ip}" by (simp add: block_size_def)
  then show ?thesis unfolding routes_overlap_iff_shared [OF c4.cidr_crate_axioms] by blast
qed

text \<open>
  C13. A network is discovered from an interface list exactly when some interface that is neither
  loopback, link-local nor skipped by name carries the network's own first address with its prefix
  length. (The address an interface normally has, one with host bits, is therefore never turned into
  a network: \<open>Ipv4Cidr::new\<close> refuses it.)
\<close>

theorem discover_local_routes_exact:
  assumes "cidr_crate C"
  shows "c \<in> set (discover_local_routes C (Inr ifs) ex) \<longleftrightarrow>
    (\<exists>i\<in>set ifs. \<not> if_loopback i \<and> \<not> if_link_local i \<and> \<not> should_skip_interface (if_name i) ex
       \<and> if_addr_of i = IfV4 (first_address C c) (network_length C c) \<and> network_length C c \<noteq> 0)"
  by (rule discover_local_routes_iff [OF assms])

theorem discover_local_routes_exact_witness:
  "wit_route \<notin> set (discover_local_routes cidr4_ops
     (Inr [\<lparr>if_name = ''eth0'', if_loopback = False, if_link_local = False,
            if_addr_of = IfV4 (mk_ipv4 192 168 7 1) 24\<rparr>]) None)"
  unfolding discover_local_routes_exact [OF c4.cidr_crate_axioms] by simp

section \<open>Link requests\<close>

lemma request_begin_registered:
  assumes "request_begin E now d (rt, w) = (True, rt', w')" "peers_get (e_desc_hash E d) (peers rt) = Some p"
  shows "peer_allowed (e_desc_hash E d) rt \<and> \<not> link_request_on_cooldown p now \<and> \<not> p_link_request_in_flight p
    \<and> w' = w \<and> rt' = set_peer (e_desc_hash E d) (\<lambda>p. mark_link_attempt now
         (p_reconnect_attempts_update (\<lambda>n. wrap32 (n + 1)) (set_state Pending (snd (try_begin_link_request p))))) rt
    \<and> \<not> should_reuse_existing_out_link (map_option (\<lambda>l. t_link_status (e_transport E) l w)
          (t_find_out_link (e_transport E) (e_desc_hash E d) w))"
  using assms
  by (auto simp: request_begin_def Let_def try_begin_link_request_def split: if_splits option.splits)



text \<open>
  After an outbound link of a registered peer closes, no new request for the peer starts during
  the three seconds of the cooldown.
\<close>

lemma closed_link_cooldown:
  assumes e: "out_link_event E now (e_desc_hash E d) EvClosed (rt, w) = (rt', w')"
    and p: "peers_get (e_desc_hash E d) (peers rt) = Some p"
    and t: "now' < now + LINK_RECONNECT_COOLDOWN_SECS" "now' < u64_max"
  shows "fst (request_begin E now' d (rt', w'')) = False"
proof -
  have "now' < sat64 (now + LINK_RECONNECT_COOLDOWN_SECS)" using t by (simp add: sat64_def)
  with e p show ?thesis
    by (auto simp: out_link_event_def Let_def request_begin_def link_request_on_cooldown_def pr.get_upd
        set_link_state_def link_down_def peer_ops)
qed

lemma closed_link_cooldown_witness:
  "\<exists>rt' w'. out_link_event wit_env 9 ''A'' EvClosed (wit_rt, wit_kernel) = (rt', w')
     \<and> fst (request_begin wit_env 11 ''A'' (rt', w')) = False"
proof -
  obtain rt' w' where e: "out_link_event wit_env 9 (e_desc_hash wit_env ''A'') EvClosed (wit_rt, wit_kernel) = (rt', w')"
    by fastforce
  have "peers_get (e_desc_hash wit_env ''A'') (peers wit_rt) = Some (peer_new ''A'' (mk_ipv4 10 20 0 66) Configured)"
    by simp
  from closed_link_cooldown [OF e this, of 11] e show ?thesis
    by (auto simp: LINK_RECONNECT_COOLDOWN_SECS_def u64_max_def)
qed

text \<open>
  The watchdog that sees a closed transport link releases the in-flight guard of the peer, even if a
  request for it still waits for the transport.
\<close>

lemma closed_status_releases_guard:
  "fst (try_begin_link_request (sync_peer_link_state LClosed p)) = True"
  by (simp add: try_begin_link_request_def finish_link_request_def)

text \<open>After an error, a successful synchronisation reports a mock backend as running.\<close>

lemma mock_status_lost:
  "status (commit_routes d c (set_error e rt)) = STATUS_RUNNING"
  by (simp add: status_defs)

section \<open>Counters\<close>

text \<open>
  C14. Over any run of snapshots with growing byte counters, the reported transmit rates times the
  lengths of the windows they were measured over add up to at most the bits transmitted in the run.
\<close>

theorem rates_never_overreport:
  assumes "rs_last_ts s \<noteq> 0" "sorted (rs_last_tx_bytes s # map (\<lambda>x. fst (snd x)) xs)"
  shows "billed xs s \<le> 8 * (last (rs_last_tx_bytes s # map (\<lambda>x. fst (snd x)) xs) - rs_last_tx_bytes s)"
  by (rule billed_bound [OF assms])

theorem rates_never_overreport_witness:
  "billed [(13, 1000, 0), (13, 1100, 0), (20, 2000, 0)]
     \<lparr>rs_last_ts = 10, rs_last_tx_bytes = 0, rs_last_rx_bytes = 0, rs_tx_bps = 0, rs_rx_bps = 0\<rparr> \<le> 16000"
  using rates_never_overreport [of "\<lparr>rs_last_ts = 10, rs_last_tx_bytes = 0, rs_last_rx_bytes = 0, rs_tx_bps = 0, rs_rx_bps = 0\<rparr>"
      "[(13, 1000, 0), (13, 1100, 0), (20, 2000, 0)]"] by simp

end
