(* ===== verification/Vpn_Live.thy ===== *)
theory Vpn_Live
  imports Vpn_Props
begin

text \<open>
  The guard against overlapping link requests never blocks a peer for good: a peer that is marked as being
  requested has a request that waits for the transport, in every reachable state of the tasks, and whatever
  that state is, a request for a peer that the policy allows can be started.
\<close>

section \<open>The peers marked as being requested\<close>

definition requesting :: "('h, 'c, 'd, 'l) vpn_runtime \<Rightarrow> 'h set" where
  "requesting rt = {h. \<exists>p. peers_get h (peers rt) = Some p \<and> p_link_request_in_flight p}"

definition waiting :: "('h, 'c, 'd, 'l, 'w) vpn_env \<Rightarrow> 'd request list \<Rightarrow> 'h set" where
  "waiting E ps = e_desc_hash E ` {d. InFlight d \<in> set ps}"

text \<open>Operations that mark no further peer.\<close>

definition calm :: "(('h, 'c, 'd) peer \<Rightarrow> ('h, 'c, 'd) peer) \<Rightarrow> bool" where
  "calm f \<longleftrightarrow> (\<forall>p. p_link_request_in_flight (f p) \<longrightarrow> p_link_request_in_flight p)"

lemma requesting_same: "peers rt' = peers rt \<Longrightarrow> requesting rt' = requesting rt"
  by (simp add: requesting_def)

lemma requesting_set_peer: "calm f \<Longrightarrow> requesting (set_peer h f rt) \<subseteq> requesting rt"
  by (auto simp: requesting_def set_peer_def pr.get_upd calm_def split: if_splits)

lemma requesting_sync: "sync_routes E (rt, w) = (rt', w') \<Longrightarrow> requesting rt' = requesting rt"
  using sync_core [of E "(rt, w)" rt' w'] by (simp add: requesting_def same_core_def)

lemma requesting_simps [simp]:
  "requesting (rebuild_router E now rt) = requesting rt" "requesting (set_error e rt) = requesting rt"
  "requesting (rt\<lparr>out_links := l\<rparr>) = requesting rt" "requesting (rt\<lparr>v_metrics := m\<rparr>) = requesting rt"
  "requesting (rt\<lparr>slow := s\<rparr>) = requesting rt" "requesting (rt_record_drop rt) = requesting rt"
  by (simp_all add: requesting_def rebuild_router_def set_error_def rt_record_drop_def)

lemma requesting_refresh [simp]: "requesting (refresh_local_routes E ifs rt) = requesting rt"
  by (simp add: requesting_def refresh_local_routes_def Let_def)

lemma calm_ops [simp]:
  "calm (set_state s)" "calm link_up" "calm (link_down now)" "calm (set_peer_error e)" "calm (mark_seen now)"
  "calm (refresh_peer_routes now cs)" "calm (announced_peer now d rs)" "calm (set_routes rs)"
  "calm finish_link_request" "calm (\<lambda>p. mark_seen now (p_metrics_update g p))"
  "calm (\<lambda>p. p_metrics_update g (mark_tx now p))" "calm (\<lambda>p. link_down now (set_state s p))"
  by (simp_all add: calm_def link_up_def link_down_def refresh_peer_routes_def announced_peer_def peer_ops)

lemma calm_sync_state [simp]: "calm (sync_peer_link_state s)"
  by (cases s) (simp_all add: calm_def link_up_def peer_ops)

lemma requesting_mark [simp]:
  "requesting (set_link_state h s rt) \<subseteq> requesting rt" "requesting (record_peer_error h e rt) \<subseteq> requesting rt"
  by (simp_all add: set_link_state_def record_peer_error_def requesting_set_peer)

section \<open>The steps\<close>

lemma announce_tx_calm:
  "announce_tx_tick E ifs (rt, w) = (rt', w') \<Longrightarrow> requesting rt' = requesting rt"
  by (auto simp: announce_tx_tick_def Let_def split: sum.splits)

lemma requesting_announced:
  "requesting (rt\<lparr>peers := peers_modify h (announced_peer now d rs)
     (snd (peers_get_or_create h (peer_new h ip Discovered) (peers rt)))\<rparr>) \<subseteq> requesting rt"
  using calm_ops(7) [of now d rs]
  by (auto simp: requesting_def pr.get_upd peers_get_get_or_create calm_def peer_new_def split: if_splits)

lemma peer_announce_calm:
  assumes "handle_peer_announce E now d rs (rt, w) = (b, rt', w')" shows "requesting rt' \<subseteq> requesting rt"
proof -
  let ?h = "e_desc_hash E d"
  let ?rt = "\<lambda>ip. rt\<lparr>peers := peers_modify ?h (announced_peer now d rs)
     (snd (peers_get_or_create ?h (peer_new ?h ip Discovered) (peers rt)))\<rparr>"
  have "rt' = rt \<or> (\<exists>ip. sync_routes E (rebuild_router E now (?rt ip), w) = (rt', w'))"
    using assms by (auto simp: handle_peer_announce_def Let_def split: if_splits sum.splits)
  then show ?thesis
  proof
    assume "\<exists>ip. sync_routes E (rebuild_router E now (?rt ip), w) = (rt', w')"
    then obtain ip where "sync_routes E (rebuild_router E now (?rt ip), w) = (rt', w')" ..
    from requesting_sync [OF this] requesting_announced [where rt = rt and h = ?h and ip = ip] show ?thesis by simp
  qed simp
qed

lemma announce_rx_calm:
  "announce_rx E now d bs (rt, w) = (b, rt', w') \<Longrightarrow> requesting rt' \<subseteq> requesting rt"
  by (auto simp: announce_rx_def split: if_splits sum.splits
      dest: peer_announce_calm [THEN subsetD] requesting_mark(2) [THEN subsetD])

lemma request_skip_calm:
  "request_begin E now d (rt, w) = (False, rt', w') \<Longrightarrow> requesting rt' = requesting rt"
  by (auto simp: request_begin_def Let_def split: if_splits option.splits)

lemma request_begin_marks:
  "request_begin E now d (rt, w) = (True, rt', w') \<Longrightarrow> requesting rt' \<subseteq> insert (e_desc_hash E d) (requesting rt)"
  by (auto simp: request_begin_def Let_def requesting_def set_peer_def pr.get_upd split: if_splits option.splits)

lemma request_finish_clears:
  "request_finish E d (rt, w) = (rt', w') \<Longrightarrow> requesting rt' = requesting rt - {e_desc_hash E d}"
  by (auto simp: request_finish_def Let_def requesting_def set_peer_def pr.get_upd finish_link_request_def
      split: prod.splits if_splits option.splits)

lemma handle_ctrl_calm:
  assumes "handle_ctrl E now h bs (rt, w) = (rt', w')" shows "requesting rt' \<subseteq> requesting rt"
proof -
  have "requesting rt' \<subseteq> requesting rt"
    if "sync_routes E (rebuild_router E now (set_peer h (refresh_peer_routes now cs) rt), w) = (rt', w')" for cs
    using requesting_sync [OF that] requesting_set_peer [OF calm_ops(6), of h now cs rt] by simp
  then show ?thesis
    using assms
    by (auto simp only: handle_ctrl_def Let_def prod.case prod.inject split: sum.splits ctrl.splits
        dest: requesting_mark(2) [THEN subsetD] requesting_set_peer [OF calm_ops(5), THEN subsetD])
qed

lemma handle_link_data_calm:
  assumes "handle_link_data E now hint bs (rt, w) = (rt', w')" shows "requesting rt' \<subseteq> requesting rt"
proof (cases "is_ctrl bs")
  case True
  with assms show ?thesis by (auto simp: handle_link_data_def Let_def split: option.splits dest: handle_ctrl_calm [THEN subsetD])
next
  case False
  let ?rt = "rt\<lparr>v_metrics := record_rx now (length bs) (v_metrics rt)\<rparr>"
  let ?credit = "\<lambda>p. mark_seen now (p_metrics_update (record_rx now (length bs)) p)"
  have "rt' = rt_record_drop rt \<or> (\<exists>e. rt' = set_error e rt) \<or> rt' = ?rt \<or> (\<exists>h. rt' = set_peer h ?credit ?rt)"
    using assms False
    by (auto simp: handle_link_data_def Let_def split: if_splits option.splits prod.splits sum.splits)
  moreover have "requesting (set_peer h ?credit ?rt) \<subseteq> requesting rt" for h
    using requesting_set_peer [of ?credit h ?rt] by simp
  ultimately show ?thesis by (elim disjE exE) simp_all
qed

lemma link_activated_calm:
  "requesting (set_peer h link_up (set_link_state h Active rt)) \<subseteq> requesting rt"
  "requesting (set_peer h (link_down now) ((set_link_state h Closed rt)\<lparr>out_links := l\<rparr>)) \<subseteq> requesting rt"
proof -
  show "requesting (set_peer h link_up (set_link_state h Active rt)) \<subseteq> requesting rt"
    by (rule subset_trans [OF requesting_set_peer requesting_mark(1)]) simp
  have "requesting (set_peer h (link_down now) ((set_link_state h Closed rt)\<lparr>out_links := l\<rparr>))
      \<subseteq> requesting ((set_link_state h Closed rt)\<lparr>out_links := l\<rparr>)" by (rule requesting_set_peer) simp
  also have "\<dots> = requesting (set_link_state h Closed rt)" by simp
  also have "\<dots> \<subseteq> requesting rt" by (rule requesting_mark)
  finally show "requesting (set_peer h (link_down now) ((set_link_state h Closed rt)\<lparr>out_links := l\<rparr>)) \<subseteq> requesting rt" .
qed

lemma out_link_event_calm:
  assumes "out_link_event E now h ev (rt, w) = (rt', w')" shows "requesting rt' \<subseteq> requesting rt"
proof (cases ev)
  case EvActivated
  let ?rt = "set_peer h link_up (set_link_state h Active rt)"
  have "rt' = ?rt \<or> (\<exists>l. rt' = ?rt\<lparr>out_links := l\<rparr>)"
    using EvActivated assms by (auto simp: out_link_event_def Let_def split: sum.splits option.splits)
  with link_activated_calm(1) [of h rt] show ?thesis by auto
next
  case EvClosed
  with assms show ?thesis
    by (auto simp only: out_link_event_def Let_def prod.case link_event.case prod.inject
        dest!: link_activated_calm(2) [THEN subsetD])
next
  case (EvData payload)
  with assms show ?thesis by (auto simp: out_link_event_def split: if_splits dest: handle_link_data_calm [THEN subsetD])
next
  case (EvProof bs)
  with assms show ?thesis by (simp add: out_link_event_def)
qed

lemma in_link_event_calm:
  "in_link_event E now h ev (rt, w) = (rt', w') \<Longrightarrow> requesting rt' \<subseteq> requesting rt"
  by (auto simp: in_link_event_def split: if_splits link_event.splits dest: handle_link_data_calm [THEN subsetD])

lemma tun_packet_calm:
  assumes "tun_packet E now bs (rt, w) = (rt', w')" shows "requesting rt' \<subseteq> requesting rt"
proof -
  let ?rt = "rt\<lparr>v_metrics := record_tx now (length bs) (v_metrics rt)\<rparr>"
  let ?sent = "\<lambda>p. p_metrics_update (record_tx now (length bs)) (mark_tx now p)"
  have "rt' = rt \<or> rt' = rt_record_drop rt \<or> (\<exists>h. rt' = set_peer h ?sent ?rt)"
    using assms by (auto simp: tun_packet_def Let_def split: if_splits option.splits prod.splits)
  moreover have "requesting (set_peer h ?sent ?rt) \<subseteq> requesting rt" for h
    using requesting_set_peer [of ?sent h ?rt] by simp
  ultimately show ?thesis by (elim disjE exE) simp_all
qed

lemma expire_calm: "requesting (fst (fold (expire_peer now) ps (rt, b))) \<subseteq> requesting rt"
proof (induction ps arbitrary: rt b)
  case (Cons p ps)
  show ?case
    using Cons.IH [of rt b] Cons.IH [of "set_peer (p_hash p) (set_routes []) rt" True]
      requesting_set_peer [of "set_routes []" "p_hash p" rt]
    by (simp add: expire_peer_simp) blast
qed simp

lemma rescue_calm: "requesting (fst (rescue_peer E now p (rt, w))) \<subseteq> requesting rt"
proof -
  let ?h = "p_hash p"
  have sync: "requesting (set_peer ?h (sync_peer_link_state s) rt) \<subseteq> requesting rt" for s
    by (simp add: requesting_set_peer)
  have down: "requesting (set_peer ?h (\<lambda>p. link_down now (set_state Closed p))
      ((set_peer ?h (sync_peer_link_state s) rt)\<lparr>out_links := l\<rparr>)) \<subseteq> requesting rt" for s l
    using requesting_set_peer [of "\<lambda>p. link_down now (set_state Closed p)" ?h "(set_peer ?h (sync_peer_link_state s) rt)\<lparr>out_links := l\<rparr>"]
      sync [of s] by simp
  show ?thesis
    using sync down by (auto simp only: rescue_peer_def Let_def prod.case fst_conv split: if_splits option.splits prod.splits sum.splits)
qed

lemma rescue_all_calm: "requesting (fst (fold (rescue_peer E now) ps s)) \<subseteq> requesting (fst s)"
proof (induction ps arbitrary: s)
  case (Cons p ps)
  show ?case using Cons.IH [of "rescue_peer E now p s"] rescue_calm [of E now p "fst s" "snd s"] by simp
qed simp

lemma watchdog_calm:
  assumes "watchdog_tick E now (rt, w) = (rt', w')" shows "requesting rt' \<subseteq> requesting rt"
proof -
  obtain rt1 b where exp: "fold (expire_peer now) (peers_all (peers rt)) (rt, False) = (rt1, b)" by fastforce
  obtain rt2 w2 where e: "watchdog_expire E now (rt, w) = (rt2, w2)" by fastforce
  have "requesting rt2 = requesting rt1"
    using e exp by (auto simp: watchdog_expire_def split: if_splits dest: requesting_sync)
  moreover have "requesting rt1 \<subseteq> requesting rt" using expire_calm [of now "peers_all (peers rt)" rt False] exp by simp
  moreover have "requesting rt' \<subseteq> requesting rt2"
    using rescue_all_calm [of E now "peers_all (peers rt2)" "(rt2, w2)"] assms e by (simp add: watchdog_tick_def)
  ultimately show ?thesis by blast
qed

lemma seed_calm: "seed_allowed E hs rt = (r, rt') \<Longrightarrow> requesting rt' \<subseteq> requesting rt"
proof (induction hs arbitrary: rt)
  case (Cons h hs)
  have new: "requesting (rt\<lparr>peers := peers_insert (peer_new h ip Configured) (peers rt)\<rparr>) \<subseteq> requesting rt" for ip
    by (auto simp: requesting_def peers_get_def peers_insert_def peer_new_def split: if_splits)
  show ?case
  proof (cases "h = destination rt \<or> peers_get h (peers rt) \<noteq> None")
    case True
    then have "seed_allowed E (h # hs) rt = seed_allowed E hs rt" by auto
    with Cons.prems Cons.IH [of rt] show ?thesis by simp
  next
    case False
    show ?thesis
    proof (cases "derive_tunnel_ip (e_cidr E) (e_hash E) (network rt) h")
      case (Inl e)
      with False Cons.prems show ?thesis by simp
    next
      case (Inr ip)
      with False Cons.prems
      have "seed_allowed E hs (rt\<lparr>peers := peers_insert (peer_new h ip Configured) (peers rt)\<rparr>) = (r, rt')" by simp
      from Cons.IH [OF this] new [of ip] show ?thesis by blast
    qed
  qed
qed simp

lemma prune_calm: "requesting (fold (prune_peer allowed) ps rt) \<subseteq> requesting rt"
proof (induction ps arbitrary: rt)
  case (Cons p ps)
  have "requesting (prune_peer allowed p rt) \<subseteq> requesting rt"
    by (auto simp: requesting_def prune_peer_def peers_get_def peers_remove_def split: if_splits)
  with Cons.IH [of "prune_peer allowed p rt"] show ?case by simp
qed simp

lemma policy_calm:
  assumes "replace_peer_policy E now allow_all strs (rt, w) = (r, rt', w')" shows "requesting rt' \<subseteq> requesting rt"
proof (cases "parse_configured_peers (e_hash E) strs")
  case (Inl e)
  with assms show ?thesis by (simp add: replace_peer_policy_def)
next
  case (Inr allowed)
  let ?rt = "rt\<lparr>slow := (slow rt)\<lparr>allow_all_peers := allow_all, allowed_peers := allowed, s_last_error := None\<rparr>\<rparr>"
  obtain res rt1 where seed: "seed_allowed E allowed ?rt = (res, rt1)" by fastforce
  have rt1: "requesting rt1 \<subseteq> requesting rt" using seed_calm [OF seed] by simp
  show ?thesis
  proof (cases res)
    case (Inl e)
    with assms Inr seed rt1 show ?thesis by (simp add: replace_peer_policy_def)
  next
    case ok: (Inr u)
    let ?rt2 = "if allow_all then rt1 else fold (prune_peer allowed) (peers_all (peers rt1)) rt1"
    have "sync_routes E (rebuild_router E now ?rt2, w) = (rt', w')"
      using assms Inr seed ok by (simp add: replace_peer_policy_def Let_def)
    from requesting_sync [OF this] prune_calm [of allowed "peers_all (peers rt1)" rt1] rt1 show ?thesis
      by (auto split: if_splits)
  qed
qed

lemma advertised_calm:
  "replace_advertised_routes E ifs rs (rt, w) = (rt', w') \<Longrightarrow> requesting rt' = requesting rt"
  by (auto simp: replace_advertised_routes_def Let_def dest: requesting_sync)

lemma snapshot_calm: "requesting (snd (snapshot_of E now mnow pnow rt)) \<subseteq> requesting rt"
proof -
  have "requesting (sample_peers pnow hs rt0) \<subseteq> requesting rt0" for hs rt0
  proof (induction hs arbitrary: rt0)
    case (Cons h hs)
    have "calm (\<lambda>p. p\<lparr>p_metrics := snd (metrics_snap (pnow h) (p_metrics p))\<rparr>)" by (simp add: calm_def)
    from requesting_set_peer [OF this, of h rt0] Cons show ?case by (fastforce simp: sample_peers_def)
  qed (simp add: sample_peers_def)
  from this [of _ "rt\<lparr>v_metrics := m\<rparr>" for m] show ?thesis by (simp add: snapshot_fields)
qed

lemma start_calm:
  assumes "start_runtime E now config dest riptun ifs w = (Inr rt, w')" shows "requesting rt = {}"
proof -
  have seed: "seed_configured E hs rt0 = Inr rt1 \<Longrightarrow> requesting rt1 \<subseteq> requesting rt0" for hs rt0 rt1
  proof (induction hs arbitrary: rt0)
    case (Cons h hs)
    have "requesting (rt0\<lparr>peers := peers_insert (peer_new h ip Configured) (peers rt0)\<rparr>) \<subseteq> requesting rt0" for ip
      by (auto simp: requesting_def peers_get_def peers_insert_def peer_new_def split: if_splits)
    with Cons show ?case by (auto split: if_splits sum.splits)
  qed simp
  obtain configured ip iface aliasing rt1 w1 where
    "seed_configured E configured (initial_runtime E config dest ip iface aliasing configured ifs) = Inr rt1"
    and sync: "sync_routes E (rebuild_router E now rt1, w1) = (rt, w')"
    using assms by (auto simp: start_runtime_def split: sum.splits prod.splits)
  from seed [OF this(1)] have "requesting rt1 = {}"
    by (simp add: requesting_def initial_runtime_def peers_new_def peers_get_def)
  with requesting_sync [OF sync] show ?thesis by simp
qed

section \<open>Every mark has its request\<close>

lemma waiting_simps [simp]:
  "waiting E (ToBegin d # ps) = waiting E ps" "waiting E (InFlight d # ps) = insert (e_desc_hash E d) (waiting E ps)"
  "waiting E (remove1 (ToBegin d) ps) = waiting E ps" "waiting E [] = {}"
  by (auto simp: waiting_def)

lemma waiting_remove: "waiting E ps \<subseteq> insert (e_desc_hash E d) (waiting E (remove1 (InFlight d) ps))"
  by (auto simp: waiting_def image_iff) (metis in_set_remove1 request.inject(2))

lemma with_pending_pair [simp]: "with_pending (rt, w) ps = (rt, w, ps)"
  by (simp add: with_pending_def)

lemmas step_calm = announce_rx_calm out_link_event_calm in_link_event_calm tun_packet_calm watchdog_calm policy_calm

definition guarded :: "('h, 'c, 'd, 'l, 'w) vpn_env \<Rightarrow> ('h, 'c, 'd, 'l, 'w) vpn_system \<Rightarrow> bool" where
  "guarded E s \<longleftrightarrow> requesting (fst s) \<subseteq> waiting E (snd (snd s))"

lemma guarded_calm: "guarded E (rt, w, ps) \<Longrightarrow> requesting rt' \<subseteq> requesting rt \<Longrightarrow> waiting E ps \<subseteq> waiting E ps' \<Longrightarrow> guarded E (rt', w', ps')"
  by (auto simp: guarded_def)

lemma guarded_step: "vpn_step E s s' \<Longrightarrow> guarded E s \<Longrightarrow> guarded E s'"
proof (induction rule: vpn_step.induct)
  case (announce_tx rt w ps ifs)
  then show ?case by (cases "announce_tx_tick E ifs (rt, w)") (auto elim: guarded_calm dest: announce_tx_calm [THEN equalityD1])
next
  case (announce_ignored now desc app_data rt w s ps)
  then show ?case by (cases s) (auto elim: guarded_calm dest: announce_rx_calm)
next
  case (announce_accepted now desc app_data rt w s ps)
  then show ?case by (cases s) (auto simp: guarded_def dest: announce_rx_calm [THEN subsetD])
next
  case (request_skipped desc ps now rt w s)
  then show ?case by (cases s) (auto simp: guarded_def dest: request_skip_calm)
next
  case (request_begun desc ps now rt w s)
  then show ?case by (cases s) (auto simp: guarded_def dest: request_begin_marks)
next
  case (request_done desc ps rt w)
  obtain rt' w' where r: "request_finish E desc (rt, w) = (rt', w')" by fastforce
  from request_finish_clears [OF r] request_done(2) waiting_remove [of E ps desc] show ?case
    by (auto simp: guarded_def r)
next
  case (out_link rt w ps now h ev)
  then show ?case by (cases "out_link_event E now h ev (rt, w)") (auto elim: guarded_calm dest: out_link_event_calm)
next
  case (in_link rt w ps now h ev)
  then show ?case by (cases "in_link_event E now h ev (rt, w)") (auto elim: guarded_calm dest: in_link_event_calm)
next
  case (tun_rx rt packet w ps now)
  then show ?case by (cases "tun_packet E now packet (rt, w)") (auto elim: guarded_calm dest: tun_packet_calm)
next
  case (tun_fail rt w ps err)
  then show ?case by (simp add: tun_error_def guarded_def)
next
  case (watchdog rt w ps now)
  then show ?case by (cases "watchdog_tick E now (rt, w)") (auto elim: guarded_calm dest: watchdog_calm)
next
  case (set_policy now allow_all strs rt w r s ps)
  then show ?case by (cases s) (auto elim: guarded_calm dest: policy_calm)
next
  case (set_advertised rt w ps ifs rs)
  then show ?case by (cases "replace_advertised_routes E ifs rs (rt, w)") (auto elim: guarded_calm dest: advertised_calm [THEN equalityD1])
next
  case (snapshot_taken rt w ps now mnow pnow)
  then show ?case by (auto elim: guarded_calm dest: snapshot_calm [THEN subsetD])
qed (simp add: guarded_def)

lemma guarded_reachable: "vpn_reachable E s \<Longrightarrow> guarded E s"
proof (induction rule: vpn_reachable.induct)
  case (started now config dest riptun ifs w rt w')
  then show ?case by (simp add: guarded_def start_calm)
next
  case (stepped s s')
  then show ?case by (blast intro: guarded_step)
qed

lemma request_begins:
  assumes "peers_get (e_desc_hash E d) (peers rt) = Some p" "peer_allowed (e_desc_hash E d) rt"
    and "\<not> p_link_request_in_flight p" "t_find_out_link (e_transport E) (e_desc_hash E d) w = None"
  shows "\<exists>rt' q. request_begin E (p_reconnect_cooldown_until_ts p) d (rt, w) = (True, rt', w)
    \<and> peers_get (e_desc_hash E d) (peers rt') = Some q \<and> p_link_state q = Pending \<and> p_link_request_in_flight q"
  using assms
  by (simp add: request_begin_def Let_def should_reuse_existing_out_link_def link_request_on_cooldown_def
      try_begin_link_request_def set_peer_def pr.get_upd mark_link_attempt_def set_state_def)

section \<open>Properties\<close>

text \<open>
  C10. Link requests make progress. In every reachable state of the tasks, a peer that is marked as being
  requested has a request that waits for the transport, so the mark is taken away when it answers. And
  whatever else is going on, an accepted announce of a registered peer that the policy allows can still lead
  to a new request: once the transport has answered for the peer, it has no link to it and the
  cooldown is over, a request starts and the peer is Pending. (That the transport can be
  without a link to the peer is the hypothesis on it.)
\<close>

theorem link_request_progress:
  assumes reach: "vpn_reachable E (rt, w, ps)" and announced: "ToBegin d \<in> set ps"
    and peer: "peers_get (e_desc_hash E d) (peers rt) = Some p" and allowed: "peer_allowed (e_desc_hash E d) rt"
    and no_link: "t_find_out_link (e_transport E) (e_desc_hash E d) w0 = None"
  shows "(\<forall>h q. peers_get h (peers rt) = Some q \<and> p_link_request_in_flight q \<longrightarrow>
            (\<exists>d'. InFlight d' \<in> set ps \<and> e_desc_hash E d' = h))
    \<and> (\<exists>rt' w' ps' q. (vpn_step E)\<^sup>*\<^sup>* (rt, w, ps) (rt', w', ps') \<and> InFlight d \<in> set ps'
         \<and> peers_get (e_desc_hash E d) (peers rt') = Some q \<and> p_link_state q = Pending \<and> p_link_request_in_flight q)"
proof -
  let ?h = "e_desc_hash E d"
  have guard: "\<exists>d'. InFlight d' \<in> set ps \<and> e_desc_hash E d' = h"
    if "peers_get h (peers rt) = Some q" "p_link_request_in_flight q" for h q
    using guarded_reachable [OF reach] that by (auto simp: guarded_def requesting_def waiting_def)
  obtain rt1 w1 ps1 q1 where free: "(vpn_step E)\<^sup>*\<^sup>* (rt, w, ps) (rt1, w1, ps1)" "ToBegin d \<in> set ps1"
    "peers_get ?h (peers rt1) = Some q1" "\<not> p_link_request_in_flight q1" "peer_allowed ?h rt1"
  proof (cases "p_link_request_in_flight p")
    case False
    show thesis by (rule that [OF rtranclp.rtrancl_refl announced peer False allowed])
  next
    case True
    obtain d' where d': "InFlight d' \<in> set ps" "e_desc_hash E d' = ?h" using guard [OF peer True] by blast
    obtain rt1 w1 where r: "request_finish E d' (rt, w) = (rt1, w1)" by fastforce
    have rt1: "peers_get ?h (peers rt1) = Some (finish_link_request p)" "peer_allowed ?h rt1"
      using r peer allowed d'(2)
      by (auto simp: request_finish_def Let_def set_peer_def pr.get_upd peer_allowed_def split: prod.splits)
    have "vpn_step E (rt, w, ps) (rt1, w1, remove1 (InFlight d') ps)"
      using vpn_step.request_done [OF d'(1), of E rt w] r by simp
    moreover have "ToBegin d \<in> set (remove1 (InFlight d') ps)" using announced by (simp add: in_set_remove1)
    moreover have "\<not> p_link_request_in_flight (finish_link_request p)" by (simp add: finish_link_request_def)
    ultimately show thesis using that [OF r_into_rtranclp] rt1 by blast
  qed
  obtain rt2 q where begin_ok: "request_begin E (p_reconnect_cooldown_until_ts q1) d (rt1, w0) = (True, rt2, w0)"
    "peers_get ?h (peers rt2) = Some q" "p_link_state q = Pending" "p_link_request_in_flight q"
    using request_begins [OF free(3,5,4) no_link] by blast
  have "vpn_step E (rt1, w1, ps1) (rt1, w0, ps1)" by (rule vpn_step.environment)
  moreover have "vpn_step E (rt1, w0, ps1) (rt2, w0, InFlight d # remove1 (ToBegin d) ps1)"
    using vpn_step.request_begun [OF free(2) begin_ok(1)] by simp
  ultimately have "(vpn_step E)\<^sup>*\<^sup>* (rt, w, ps) (rt2, w0, InFlight d # remove1 (ToBegin d) ps1)"
    using free(1) by (meson rtranclp.rtrancl_into_rtrancl)
  with begin_ok(2-4) have "\<exists>rt' w' ps' q. (vpn_step E)\<^sup>*\<^sup>* (rt, w, ps) (rt', w', ps') \<and> InFlight d \<in> set ps'
      \<and> peers_get ?h (peers rt') = Some q \<and> p_link_state q = Pending \<and> p_link_request_in_flight q"
    by (intro exI [of _ rt2] exI [of _ w0] exI [of _ "InFlight d # remove1 (ToBegin d) ps1"] exI [of _ q]) simp
  with guard show ?thesis by blast
qed

lemma announced_registered:
  assumes "announce_rx E now d bs (rt, w) = (True, rt', w')"
  shows "peers_get (e_desc_hash E d) (peers rt') \<noteq> None \<and> peer_allowed (e_desc_hash E d) rt'"
proof -
  let ?h = "e_desc_hash E d"
  obtain rs ip where allowed: "peer_allowed ?h rt" and
    sync: "sync_routes E (rebuild_router E now (rt\<lparr>peers := peers_modify ?h (announced_peer now d rs)
       (snd (peers_get_or_create ?h (peer_new ?h ip Discovered) (peers rt)))\<rparr>), w) = (rt', w')"
    using assms by (auto simp: announce_rx_def handle_peer_announce_def Let_def split: if_splits sum.splits)
  from sync_core [OF sync] allowed show ?thesis
    by (auto simp: same_core_def peer_allowed_def rebuild_router_def pr.get_upd peers_get_get_or_create split: if_splits)
qed

theorem link_request_progress_witness:
  "\<exists>rt w ps rt' w' ps' q. vpn_reachable wit_env (rt, w, ps) \<and> (vpn_step wit_env)\<^sup>*\<^sup>* (rt, w, ps) (rt', w', ps')
     \<and> InFlight ''A'' \<in> set ps' \<and> peers_get ''A'' (peers rt') = Some q \<and> p_link_state q = Pending"
proof -
  let ?rt = "commit_routes (desired_routes wit_env wit_rt) (local_conflicts wit_env wit_rt) wit_rt"
  obtain w where r: "vpn_reachable wit_env (?rt, w, [])" using wit_reachable by blast
  obtain bs where b: "is_announce bs" "decode_announce cidr4_ops flat_announce bs = Inr [wit_route]"
    using wit_announce by blast
  have e: "e_announce wit_env = flat_announce" by (simp add: wit_env_def)
  have "peer_allowed ''A'' wit_rt" by (simp add: peer_allowed_def)
  then have "\<exists>s. announce_rx wit_env 9 ''A'' bs (?rt, w) = (True, s)"
    by (simp add: announce_rx_def b e handle_peer_announce_def wit_derive Let_def)
  then obtain rt1 w1 where a: "announce_rx wit_env 9 ''A'' bs (?rt, w) = (True, rt1, w1)" by auto
  have reach: "vpn_reachable wit_env (rt1, w1, [ToBegin ''A''])"
    using vpn_reachable.stepped [OF r vpn_step.announce_accepted [OF a]] by simp
  have hash: "e_desc_hash wit_env ''A'' = ''A''" by (simp add: wit_env_def)
  obtain p where peer: "peers_get (e_desc_hash wit_env ''A'') (peers rt1) = Some p"
    and allowed: "peer_allowed (e_desc_hash wit_env ''A'') rt1" using announced_registered [OF a] by auto
  have no_link: "t_find_out_link (e_transport wit_env) (e_desc_hash wit_env ''A'') wit_kernel = None"
    by (simp add: wit_env_def wit_transport_def)
  from link_request_progress [OF reach _ peer allowed no_link] reach hash show ?thesis by fastforce
qed

end
