(* ===== verification/Floats.thy ===== *)
theory Floats
  imports Rust_Str Complex_Main
begin

text \<open>
  Floating point numbers of the standard library. An \<open>f64\<close> is its sign and magnitude, an infinity or not
  a number; \<open>str::parse::<f64>\<close> is written out with its rounding. Where the code computes with finite
  numbers far from the limits of the range, a number is its rational value and every operation is followed
  by \<open>round_rat\<close>, which rounds to nearest, ties to even.
\<close>

section \<open>Floating point numbers\<close>

datatype f64 = F64 bool rat | Inf64 bool | NaN64

fun f64_is_finite :: "f64 \<Rightarrow> bool" where
  "f64_is_finite (F64 _ _) = True"
| "f64_is_finite _ = False"

text \<open>\<open>(lo..=hi).contains(&x)\<close> for finite bounds.\<close>

fun f64_in :: "rat \<Rightarrow> rat \<Rightarrow> f64 \<Rightarrow> bool" where
  "f64_in lo hi (F64 neg m) \<longleftrightarrow> (let x = (if neg then - m else m) in lo \<le> x \<and> x \<le> hi)"
| "f64_in lo hi _ \<longleftrightarrow> False"

fun ilog2 :: "nat \<Rightarrow> nat" where
  "ilog2 n = (if n < 2 then 0 else 1 + ilog2 (n div 2))"

declare ilog2.simps [simp del]

definition pow2 :: "int \<Rightarrow> rat" where
  "pow2 e = (if 0 \<le> e then 2 ^ nat e else 1 / 2 ^ nat (- e))"

definition round_half_even :: "rat \<Rightarrow> int" where
  "round_half_even x =
     (let f = \<lfloor>x\<rfloor>; r = x - of_int f
      in if r < 1 / 2 then f else if 1 / 2 < r then f + 1 else if even f then f else f + 1)"

text \<open>The binary64 number nearest to the non-negative \<open>a / b\<close>: 53 bits, exponent at least -1074.\<close>

definition round_f64 :: "bool \<Rightarrow> nat \<Rightarrow> nat \<Rightarrow> f64" where
  "round_f64 neg a b =
     (if a = 0 then F64 neg 0
      else
        (let q = of_nat a / of_nat b;
             k0 = int (ilog2 a) - int (ilog2 b);
             k = (if pow2 k0 \<le> q then k0 else k0 - 1);
             e = max (-1074) (k - 52);
             v = of_int (round_half_even (q / pow2 e)) * pow2 e
         in if 2 ^ 1024 \<le> v then Inf64 neg else F64 neg v))"

definition decimal_f64 :: "bool \<Rightarrow> nat \<Rightarrow> int \<Rightarrow> f64" where
  "decimal_f64 neg digits e =
     (if 0 \<le> e then round_f64 neg (digits * 10 ^ nat e) 1 else round_f64 neg digits (10 ^ nat (- e)))"

definition parse_exponent :: "string \<Rightarrow> int option" where
  "parse_exponent s =
     (let (neg, ds) = (case s of [] \<Rightarrow> (False, [])
                       | c # r \<Rightarrow> if c = CHR ''-'' then (True, r) else if c = CHR ''+'' then (False, r) else (False, s))
      in if ds = [] \<or> \<not> list_all is_ascii_digit ds then None
         else Some (if neg then - int (dec_value ds) else int (dec_value ds)))"

definition parse_number_body :: "bool \<Rightarrow> string \<Rightarrow> f64 option" where
  "parse_number_body neg s =
     (let ip = takeWhile is_ascii_digit s;
          r = dropWhile is_ascii_digit s;
          (fp, r) = (case r of [] \<Rightarrow> ([], [])
                     | c # t \<Rightarrow> if c = CHR ''.'' then (takeWhile is_ascii_digit t, dropWhile is_ascii_digit t) else ([], r))
      in if ip @ fp = [] then None
         else (case r of
                 [] \<Rightarrow> Some (decimal_f64 neg (dec_value (ip @ fp)) (- int (length fp)))
               | c # t \<Rightarrow>
                   if c = CHR ''e'' \<or> c = CHR ''E'' then
                     map_option (\<lambda>e. decimal_f64 neg (dec_value (ip @ fp)) (e - int (length fp))) (parse_exponent t)
                   else None))"

definition parse_f64 :: "string \<Rightarrow> f64 option" where
  "parse_f64 s =
     (let (neg, r) = (case s of [] \<Rightarrow> (False, [])
                      | c # t \<Rightarrow> if c = CHR ''-'' then (True, t) else if c = CHR ''+'' then (False, t) else (False, s))
      in if r = [] then None
         else (case parse_number_body neg r of
                 Some x \<Rightarrow> Some x
               | None \<Rightarrow>
                   (let l = map to_ascii_lower r in
                    if l = ''nan'' then Some NaN64
                    else if l = ''inf'' \<or> l = ''infinity'' then Some (Inf64 neg) else None)))"

section \<open>Rounding of rationals\<close>

definition rat_exponent :: "rat \<Rightarrow> int" where
  "rat_exponent q =
     (let (a, b) = quotient_of q;
          k0 = int (ilog2 (nat a)) - int (ilog2 (nat b))
      in if pow2 k0 \<le> q then k0 else k0 - 1)"

definition round_pos :: "nat \<Rightarrow> int \<Rightarrow> rat \<Rightarrow> rat" where
  "round_pos p emin q =
     (if q = 0 then 0
      else (let e = max emin (rat_exponent q - (int p - 1)) in of_int (round_half_even (q / pow2 e)) * pow2 e))"

definition round_rat :: "nat \<Rightarrow> int \<Rightarrow> rat \<Rightarrow> rat" where
  "round_rat p emin q = (if q < 0 then - round_pos p emin (- q) else round_pos p emin q)"

abbreviation r64 :: "rat \<Rightarrow> rat" where "r64 \<equiv> round_rat 53 (-1074)"
abbreviation r32 :: "rat \<Rightarrow> rat" where "r32 \<equiv> round_rat 24 (-149)"

text \<open>\<open>as u64\<close>, and \<open>f32::round\<close>, which rounds half away from zero.\<close>

definition rat_to_u64 :: "rat \<Rightarrow> nat" where
  "rat_to_u64 x = min u64_max (nat \<lfloor>x\<rfloor>)"

definition round_half_away :: "rat \<Rightarrow> int" where
  "round_half_away x = (if x < 0 then - \<lfloor>- x + 1 / 2\<rfloor> else \<lfloor>x + 1 / 2\<rfloor>)"

end
