(* ===== verification/Cot.thy ===== *)
theory Cot
  imports Floats
begin

text \<open>
  Cursor-on-Target events and the location table (\<open>kaonic-atak-plugin/src/cot.rs\<close>). The XML parser
  \<open>roxmltree\<close> is the parameter \<open>xml_ops\<close>: a document parses to its root element or to an error, and a
  node has a tag name, attributes, children and descendants. A \<open>SystemTime\<close> and a \<open>Duration\<close> are
  counts of nanoseconds.
\<close>

section \<open>Events\<close>

definition MAX_COT_UID_LEN :: nat where "MAX_COT_UID_LEN = 128"
definition MAX_COT_EVENT_TYPE_LEN :: nat where "MAX_COT_EVENT_TYPE_LEN = 96"
definition MAX_COT_OPTIONAL_ATTR_LEN :: nat where "MAX_COT_OPTIONAL_ATTR_LEN = 128"
definition DEFAULT_MAX_LOCATION_RECORDS :: nat where "DEFAULT_MAX_LOCATION_RECORDS = 512"
definition DEFAULT_RECORD_RETENTION :: nat where "DEFAULT_RECORD_RETENTION = 60 * 60 * 1000000000"

record cot_point =
  pt_lat :: f64
  pt_lon :: f64
  pt_hae :: "f64 option"
  pt_ce :: "f64 option"
  pt_le :: "f64 option"

record cot_event =
  ev_uid :: string
  ev_event_type :: string
  ev_how :: "string option"
  ev_callsign :: "string option"
  ev_time :: "string option"
  ev_start :: "string option"
  ev_stale :: "string option"
  ev_point :: "cot_point option"

datatype cot_parse_error =
    CotNotUtf8
  | CotXml string
  | CotWrongRoot
  | CotMissingAttribute string
  | CotAttributeTooLong string
  | CotInvalidNumber string
  | CotInvalidCoordinate string

fun cot_error_to_string :: "cot_parse_error \<Rightarrow> string" where
  "cot_error_to_string CotNotUtf8 = ''payload is not UTF-8''"
| "cot_error_to_string (CotXml err) = ''invalid XML: '' @ err"
| "cot_error_to_string CotWrongRoot = ''root element is not CoT event''"
| "cot_error_to_string (CotMissingAttribute a) = ''missing CoT attribute '' @ a"
| "cot_error_to_string (CotAttributeTooLong a) = ''CoT attribute '' @ a @ '' exceeds maximum length''"
| "cot_error_to_string (CotInvalidNumber a) = ''invalid CoT numeric attribute '' @ a"
| "cot_error_to_string (CotInvalidCoordinate a) = ''invalid CoT coordinate '' @ a"

record 'n xml_ops =
  xml_parse :: "string \<Rightarrow> string + 'n"
  xml_tag_name :: "'n \<Rightarrow> string"
  xml_is_element :: "'n \<Rightarrow> bool"
  xml_attribute :: "'n \<Rightarrow> string \<Rightarrow> string option"
  xml_children :: "'n \<Rightarrow> 'n list"
  xml_descendants :: "'n \<Rightarrow> 'n list"

fun opt_transpose :: "('e + 'a) option \<Rightarrow> 'e + 'a option" where
  "opt_transpose None = Inr None"
| "opt_transpose (Some (Inl e)) = Inl e"
| "opt_transpose (Some (Inr x)) = Inr (Some x)"

definition validate_attr_len :: "string \<Rightarrow> string \<Rightarrow> nat \<Rightarrow> cot_parse_error + unit" where
  "validate_attr_len name v max_len = (if length v > max_len then Inl (CotAttributeTooLong name) else Inr ())"

definition bounded_optional_attr :: "string \<Rightarrow> string \<Rightarrow> cot_parse_error + string" where
  "bounded_optional_attr name v =
     (case validate_attr_len name v MAX_COT_OPTIONAL_ATTR_LEN of Inl e \<Rightarrow> Inl e | Inr _ \<Rightarrow> Inr v)"

definition required_attr :: "'n xml_ops \<Rightarrow> 'n \<Rightarrow> string \<Rightarrow> cot_parse_error + string" where
  "required_attr X n name =
     (case xml_attribute X n name of None \<Rightarrow> Inl (CotMissingAttribute name) | Some v \<Rightarrow> Inr v)"

definition parse_finite :: "string \<Rightarrow> string \<Rightarrow> cot_parse_error + f64" where
  "parse_finite v name =
     (case parse_f64 v of
        None \<Rightarrow> Inl (CotInvalidNumber name)
      | Some x \<Rightarrow> if f64_is_finite x then Inr x else Inl (CotInvalidNumber name))"

definition parse_number :: "'n xml_ops \<Rightarrow> 'n \<Rightarrow> string \<Rightarrow> cot_parse_error + f64" where
  "parse_number X n name =
     (case required_attr X n name of Inl e \<Rightarrow> Inl e | Inr v \<Rightarrow> parse_finite v name)"

definition parse_optional_number :: "'n xml_ops \<Rightarrow> 'n \<Rightarrow> string \<Rightarrow> cot_parse_error + f64 option" where
  "parse_optional_number X n name =
     opt_transpose (map_option (\<lambda>v. parse_finite v name) (xml_attribute X n name))"

definition validate_coordinate :: "string \<Rightarrow> f64 \<Rightarrow> rat \<Rightarrow> rat \<Rightarrow> cot_parse_error + unit" where
  "validate_coordinate name v lo hi = (if f64_in lo hi v then Inr () else Inl (CotInvalidCoordinate name))"

definition parse_point :: "'n xml_ops \<Rightarrow> 'n \<Rightarrow> cot_parse_error + cot_point" where
  "parse_point X n =
     and_then (parse_number X n ''lat'') (\<lambda>lat.
     and_then (parse_number X n ''lon'') (\<lambda>lon.
     and_then (validate_coordinate ''lat'' lat (-90) 90) (\<lambda>_.
     and_then (validate_coordinate ''lon'' lon (-180) 180) (\<lambda>_.
     and_then (parse_optional_number X n ''hae'') (\<lambda>hae.
     and_then (parse_optional_number X n ''ce'') (\<lambda>ce.
     and_then (parse_optional_number X n ''le'') (\<lambda>le.
     Inr \<lparr>pt_lat = lat, pt_lon = lon, pt_hae = hae, pt_ce = ce, pt_le = le\<rparr>)))))))"

definition optional_attr :: "'n xml_ops \<Rightarrow> 'n \<Rightarrow> string \<Rightarrow> cot_parse_error + string option" where
  "optional_attr X n name =
     opt_transpose (map_option (bounded_optional_attr name) (xml_attribute X n name))"

definition event_point :: "'n xml_ops \<Rightarrow> 'n \<Rightarrow> cot_parse_error + cot_point option" where
  "event_point X event =
     opt_transpose (map_option (parse_point X)
       (find (\<lambda>n. xml_is_element X n \<and> xml_tag_name X n = ''point'') (xml_children X event)))"

definition event_callsign :: "'n xml_ops \<Rightarrow> 'n \<Rightarrow> cot_parse_error + string option" where
  "event_callsign X event =
     (case find (\<lambda>n. xml_is_element X n \<and> xml_tag_name X n = ''contact'') (xml_descendants X event) of
        None \<Rightarrow> Inr None
      | Some n \<Rightarrow> optional_attr X n ''callsign'')"

definition parse_event :: "'n xml_ops \<Rightarrow> 'n \<Rightarrow> cot_parse_error + cot_event" where
  "parse_event X event =
     and_then (required_attr X event ''uid'') (\<lambda>uid_raw.
     and_then (required_attr X event ''type'') (\<lambda>type_raw.
     let uid = trim uid_raw; event_type = trim type_raw in
     if uid = [] then Inl (CotMissingAttribute ''uid'')
     else if event_type = [] then Inl (CotMissingAttribute ''type'')
     else
     and_then (validate_attr_len ''uid'' uid MAX_COT_UID_LEN) (\<lambda>_.
     and_then (validate_attr_len ''type'' event_type MAX_COT_EVENT_TYPE_LEN) (\<lambda>_.
     and_then (event_point X event) (\<lambda>point.
     and_then (event_callsign X event) (\<lambda>callsign.
     and_then (optional_attr X event ''how'') (\<lambda>how.
     and_then (optional_attr X event ''time'') (\<lambda>tm.
     and_then (optional_attr X event ''start'') (\<lambda>strt.
     and_then (optional_attr X event ''stale'') (\<lambda>stale.
     Inr \<lparr>ev_uid = uid, ev_event_type = event_type, ev_how = how, ev_callsign = callsign,
          ev_time = tm, ev_start = strt, ev_stale = stale, ev_point = point\<rparr>))))))))))"

definition parse_cot_payload :: "'n xml_ops \<Rightarrow> bytes \<Rightarrow> cot_parse_error + cot_event" where
  "parse_cot_payload X payload =
     (case from_utf8 payload of None \<Rightarrow> Inl CotNotUtf8 | Some xml \<Rightarrow>
      case xml_parse X xml of Inl err \<Rightarrow> Inl (CotXml err) | Inr event \<Rightarrow>
      if xml_tag_name X event \<noteq> ''event'' then Inl CotWrongRoot else parse_event X event)"

section \<open>The location table\<close>

datatype pkt_source = LocalUdp | RemoteReticulum

record loc_record =
  lr_uid :: string
  lr_event_type :: string
  lr_how :: "string option"
  lr_callsign :: "string option"
  lr_point :: cot_point
  lr_source :: pkt_source
  lr_channel_port :: nat
  lr_updated_at :: nat

type_synonym location_map = "((pkt_source \<times> string) \<times> loc_record) list"

record location_state =
  ls_records :: location_map
  ls_max_records :: nat
  ls_retention :: nat

definition location_new :: "nat \<Rightarrow> nat \<Rightarrow> location_state" where
  "location_new max_records retention =
     \<lparr>ls_records = [], ls_max_records = max max_records 1, ls_retention = retention\<rparr>"

definition location_default :: location_state where
  "location_default = location_new DEFAULT_MAX_LOCATION_RECORDS DEFAULT_RECORD_RETENTION"

definition prune_locations :: "nat \<Rightarrow> nat \<Rightarrow> location_map \<Rightarrow> location_map" where
  "prune_locations now retention m = filter (\<lambda>(k, r). now - lr_updated_at r \<le> retention) m"

text \<open>\<open>iter().min_by_key(updated_at)\<close>: the first of the entries with the least time stamp.\<close>

fun oldest :: "location_map \<Rightarrow> ((pkt_source \<times> string) \<times> loc_record) option" where
  "oldest [] = None"
| "oldest (x # xs) =
     (case oldest xs of
        None \<Rightarrow> Some x
      | Some y \<Rightarrow> if lr_updated_at (snd x) \<le> lr_updated_at (snd y) then Some x else Some y)"

lemma oldest_in: "oldest m = Some x \<Longrightarrow> x \<in> set m"
  by (induction m arbitrary: x) (auto split: option.splits if_splits)

lemma length_delete_less: "k \<in> set (keys m) \<Longrightarrow> length (AList.delete k m) < length m"
  by (auto simp: AList.delete_eq intro!: length_filter_less)

function evict :: "nat \<Rightarrow> location_map \<Rightarrow> location_map" where
  "evict max_records m =
     (if length m > max_records then
        (case oldest m of None \<Rightarrow> m | Some (k, _) \<Rightarrow> evict max_records (AList.delete k m))
      else m)"
  by pat_completeness auto
termination
  by (relation "measure (\<lambda>(_, m). length m)") (auto dest!: oldest_in intro!: length_delete_less, force)

declare evict.simps [simp del]

text \<open>\<open>updated_at\<close> is the clock when the record is made, \<open>now\<close> the one that the pruning reads.\<close>

definition location_record ::
    "nat \<Rightarrow> nat \<Rightarrow> pkt_source \<Rightarrow> nat \<Rightarrow> cot_event \<Rightarrow> location_state
       \<Rightarrow> loc_record option \<times> location_state" where
  "location_record updated_at now source channel_port ev s =
     (case ev_point ev of
        None \<Rightarrow> (None, s)
      | Some point \<Rightarrow>
          (let r = \<lparr>lr_uid = ev_uid ev, lr_event_type = ev_event_type ev, lr_how = ev_how ev,
                    lr_callsign = ev_callsign ev, lr_point = point, lr_source = source,
                    lr_channel_port = channel_port, lr_updated_at = updated_at\<rparr>;
               m = prune_locations now (ls_retention s) (ls_records s);
               m = AList.update (source, lr_uid r) r m
           in (Some r, s\<lparr>ls_records := evict (ls_max_records s) m\<rparr>)))"

definition location_len :: "nat \<Rightarrow> location_state \<Rightarrow> nat \<times> location_state" where
  "location_len now s =
     (let m = prune_locations now (ls_retention s) (ls_records s)
      in (length m, s\<lparr>ls_records := m\<rparr>))"

section \<open>What a parsed event guarantees\<close>

lemma opt_transpose_Inr: "opt_transpose x = Inr y \<longleftrightarrow> x = map_option Inr y"
  by (cases x; cases y) (auto split: sum.splits, (case_tac a; auto)+)

lemma parse_finite_Inr: "parse_finite v name = Inr x \<Longrightarrow> parse_f64 v = Some x \<and> f64_is_finite x"
  by (auto simp: parse_finite_def split: option.splits if_splits)

lemma parse_number_Inr: "parse_number X n name = Inr x \<Longrightarrow> f64_is_finite x"
  by (auto simp: parse_number_def split: sum.splits dest: parse_finite_Inr)

definition valid_point :: "cot_point \<Rightarrow> bool" where
  "valid_point p \<longleftrightarrow> f64_in (-90) 90 (pt_lat p) \<and> f64_in (-180) 180 (pt_lon p)
     \<and> pred_option f64_is_finite (pt_hae p) \<and> pred_option f64_is_finite (pt_ce p) \<and> pred_option f64_is_finite (pt_le p)"

lemma parse_optional_number_Inr:
  "parse_optional_number X n name = Inr x \<Longrightarrow> pred_option f64_is_finite x"
  by (cases x) (auto simp: parse_optional_number_def opt_transpose_Inr dest: parse_finite_Inr)

lemma parse_point_valid: "parse_point X n = Inr p \<Longrightarrow> valid_point p"
  by (auto simp: parse_point_def and_then_Inr validate_coordinate_def valid_point_def
      dest: parse_optional_number_Inr split: if_splits)

definition valid_event :: "cot_event \<Rightarrow> bool" where
  "valid_event e \<longleftrightarrow>
     ev_uid e \<noteq> [] \<and> length (ev_uid e) \<le> MAX_COT_UID_LEN
     \<and> ev_event_type e \<noteq> [] \<and> length (ev_event_type e) \<le> MAX_COT_EVENT_TYPE_LEN
     \<and> (\<forall>a\<in>{ev_how e, ev_callsign e, ev_time e, ev_start e, ev_stale e}.
          pred_option (\<lambda>s. length s \<le> MAX_COT_OPTIONAL_ATTR_LEN) a)
     \<and> pred_option valid_point (ev_point e)"

lemma validate_attr_len_Inr [simp]: "validate_attr_len name v n = Inr u \<longleftrightarrow> length v \<le> n"
  by (auto simp: validate_attr_len_def)

lemma optional_attr_Inr:
  "optional_attr X n name = Inr a \<Longrightarrow> pred_option (\<lambda>s. length s \<le> MAX_COT_OPTIONAL_ATTR_LEN) a"
  by (cases a) (auto simp: optional_attr_def opt_transpose_Inr bounded_optional_attr_def validate_attr_len_def
      split: if_splits)

lemma event_point_Inr: "event_point X n = Inr p \<Longrightarrow> pred_option valid_point p"
  by (cases p) (auto simp: event_point_def opt_transpose_Inr dest: parse_point_valid)

lemma event_callsign_Inr:
  "event_callsign X n = Inr a \<Longrightarrow> pred_option (\<lambda>s. length s \<le> MAX_COT_OPTIONAL_ATTR_LEN) a"
  by (auto simp: event_callsign_def split: option.splits dest: optional_attr_Inr)

lemma parse_event_valid: "parse_event X n = Inr e \<Longrightarrow> valid_event e"
  by (auto simp: parse_event_def and_then_Inr Let_def valid_event_def split: if_splits
      dest: optional_attr_Inr event_point_Inr event_callsign_Inr)

lemma parse_cot_payload_Inr:
  "parse_cot_payload X payload = Inr e \<Longrightarrow>
   utf8_valid payload \<and> (\<exists>n. xml_parse X payload = Inr n \<and> xml_tag_name X n = ''event'' \<and> parse_event X n = Inr e)"
  by (auto simp: parse_cot_payload_def from_utf8_def split: if_splits sum.splits)

section \<open>The location table stays bounded and drops the oldest\<close>

lemma oldest_None [simp]: "oldest m = None \<longleftrightarrow> m = []"
  by (cases m) (auto split: option.splits)

lemma oldest_least: "oldest m = Some x \<Longrightarrow> y \<in> set m \<Longrightarrow> lr_updated_at (snd x) \<le> lr_updated_at (snd y)"
  by (induction m arbitrary: x) (auto split: option.splits if_splits dest: order_trans)

lemma set_delete_entry:
  "distinct (keys m) \<Longrightarrow> (k, v) \<in> set m \<Longrightarrow> set (AList.delete k m) = set m - {(k, v)}"
  by (auto simp: AList.delete_eq) (metis map_of_is_SomeI option.inject)+

lemma length_delete_entry:
  assumes "distinct (keys m)" "k \<in> set (keys m)"
  shows "Suc (length (AList.delete k m)) = length m"
proof -
  from assms(2) obtain v where v: "(k, v) \<in> set m" by auto
  have d: "distinct m" "distinct (AList.delete k m)"
    using assms(1) distinct_keys_delete [OF assms(1), of k] by (simp_all add: distinct_map)
  have "length (AList.delete k m) = card (set m - {(k, v)})"
    using set_delete_entry [OF assms(1) v] distinct_card [OF d(2)] by simp
  also have "\<dots> = card (set m) - 1" using v by simp
  finally show ?thesis using distinct_card [OF d(1)] v by (metis Suc_diff_1 length_pos_if_in_set)
qed

definition keeps_newest :: "location_map \<Rightarrow> location_map \<Rightarrow> bool" where
  "keeps_newest m m' \<longleftrightarrow> set m' \<subseteq> set m \<and>
     (\<forall>x\<in>set m'. \<forall>y\<in>set m - set m'. lr_updated_at (snd y) \<le> lr_updated_at (snd x))"

lemma evict_result:
  "distinct (keys m) \<Longrightarrow>
   distinct (keys (evict n m)) \<and> length (evict n m) = min n (length m) \<and> keeps_newest m (evict n m)"
proof (induction n m rule: evict.induct)
  case (1 n m)
  show ?case
  proof (cases "length m > n")
    case False
    then show ?thesis using 1 by (simp add: evict.simps keeps_newest_def)
  next
    case True
    then obtain k v where o: "oldest m = Some (k, v)" by (cases "oldest m") auto
    let ?m = "AList.delete k m"
    have e: "evict n m = evict n ?m" using True o by (subst evict.simps) simp
    have kv: "(k, v) \<in> set m" using oldest_in [OF o] .
    have s: "set ?m = set m - {(k, v)}" by (rule set_delete_entry [OF 1(2) kv])
    have l: "Suc (length ?m) = length m" by (rule length_delete_entry) (use 1(2) kv in \<open>auto intro: rev_image_eqI\<close>)
    have "distinct (keys ?m)" using 1(2) by blast
    with 1(1) [OF True o refl] have i: "distinct (keys (evict n ?m))" "length (evict n ?m) = min n (length ?m)"
      "keeps_newest ?m (evict n ?m)" by auto
    have "keeps_newest m (evict n ?m)"
      unfolding keeps_newest_def
    proof (intro conjI ballI)
      show sub: "set (evict n ?m) \<subseteq> set m" using i(3) s by (auto simp: keeps_newest_def)
      fix x y assume x: "x \<in> set (evict n ?m)" and y: "y \<in> set m - set (evict n ?m)"
      show "lr_updated_at (snd y) \<le> lr_updated_at (snd x)"
      proof (cases "y = (k, v)")
        case True
        then show ?thesis using oldest_least [OF o, of x] x sub by auto
      next
        case False
        then show ?thesis using i(3) x y s by (auto simp: keeps_newest_def)
      qed
    qed
    with i e l True show ?thesis by simp
  qed
qed

definition location_inv :: "location_state \<Rightarrow> bool" where
  "location_inv s \<longleftrightarrow> distinct (keys (ls_records s)) \<and> length (ls_records s) \<le> ls_max_records s
     \<and> 1 \<le> ls_max_records s
     \<and> (\<forall>(k, r)\<in>set (ls_records s). k = (lr_source r, lr_uid r))"

lemma location_inv_new: "location_inv (location_new n d)"
  by (simp add: location_inv_def location_new_def)

lemma prune_locations_props:
  "distinct (keys m) \<Longrightarrow> distinct (keys (prune_locations now d m))"
  "set (prune_locations now d m) = {(k, r) \<in> set m. now - lr_updated_at r \<le> d}"
  "length (prune_locations now d m) \<le> length m"
  by (auto simp: prune_locations_def distinct_map_filter)

lemma location_record_result:
  assumes i: "location_inv s" and r: "location_record t now src port ev s = (Some r, s')"
  shows "location_inv s' \<and> ls_max_records s' = ls_max_records s
    \<and> lr_source r = src \<and> lr_uid r = ev_uid ev \<and> lr_updated_at r = t
    \<and> (let m = AList.update (src, ev_uid ev) r (prune_locations now (ls_retention s) (ls_records s))
       in length (ls_records s') = min (ls_max_records s) (length m) \<and> keeps_newest m (ls_records s'))"
proof -
  let ?p = "prune_locations now (ls_retention s) (ls_records s)"
  let ?m = "AList.update (src, ev_uid ev) r ?p"
  from r have f: "lr_source r = src" "lr_uid r = ev_uid ev" "lr_updated_at r = t"
    and s': "s' = s\<lparr>ls_records := evict (ls_max_records s) ?m\<rparr>"
    by (auto simp: location_record_def Let_def split: option.splits)
  have dp: "distinct (keys ?p)" using i by (simp add: location_inv_def prune_locations_props(1))
  then have d: "distinct (keys ?m)" by blast
  note e = evict_result [OF d, of "ls_max_records s"]
  have "k = (lr_source q, lr_uid q)" if "(k, q) \<in> set (evict (ls_max_records s) ?m)" for k q
  proof -
    from that e have "(k, q) \<in> set ?m" by (auto simp: keeps_newest_def)
    then show ?thesis
      using i f by (auto simp: in_set_update_distinct [OF dp] prune_locations_props(2) location_inv_def split: if_splits)
  qed
  with e i f show ?thesis by (auto simp: s' location_inv_def Let_def)
qed

end
