(* ===== verification/Diagnostics.thy ===== *)
theory Diagnostics
  imports Cot
begin

text \<open>
  Diagnostics commands and state (\<open>kaonic-atak-plugin/src/diagnostics.rs\<close>). A command is parsed from
  and encoded to one text line; the state holds until when recording is enabled, the recent records
  and the commands already seen. Clock readings are arguments, in nanoseconds. The locale
  \<open>bounded_queue\<close> is the contract of the two bounded queues of the state: appending at the back and
  dropping from the front while there are too many.
\<close>

section \<open>Commands\<close>

definition DEFAULT_ENABLE_SECONDS :: nat where "DEFAULT_ENABLE_SECONDS = 15 * 60"
definition MAX_ENABLE_SECONDS :: nat where "MAX_ENABLE_SECONDS = 24 * 60 * 60"
definition MAX_COMMAND_BYTES :: nat where "MAX_COMMAND_BYTES = 512"
definition CONTROL_VERSION :: string where "CONTROL_VERSION = ''KAD1''"
definition DEFAULT_MAX_RECORDS :: nat where "DEFAULT_MAX_RECORDS = 512"
definition DEFAULT_MAX_SEEN_COMMANDS :: nat where "DEFAULT_MAX_SEEN_COMMANDS = 2048"
definition SEEN_COMMAND_RETENTION :: nat where "SEEN_COMMAND_RETENTION = 24 * 60 * 60 * 1000000000"

datatype diagnostic_action = EnableFor nat | DisableNow

record diagnostic_command =
  dc_id :: string
  dc_action :: diagnostic_action

datatype diagnostic_command_error =
  DcNotUtf8 | DcInvalidFormat | DcInvalidVersion | DcInvalidId | DcInvalidDuration | DcInvalidAction | DcTooLarge

fun dc_error_to_string :: "diagnostic_command_error \<Rightarrow> string" where
  "dc_error_to_string DcNotUtf8 = ''diagnostics command is not UTF-8''"
| "dc_error_to_string DcInvalidFormat = ''invalid diagnostics command format''"
| "dc_error_to_string DcInvalidVersion = ''unsupported diagnostics command version''"
| "dc_error_to_string DcInvalidId = ''invalid diagnostics command id''"
| "dc_error_to_string DcInvalidDuration = ''invalid diagnostics enable duration''"
| "dc_error_to_string DcInvalidAction = ''invalid diagnostics command action''"
| "dc_error_to_string DcTooLarge = ''diagnostics command is too large''"

definition validate_id :: "string \<Rightarrow> diagnostic_command_error + unit" where
  "validate_id i =
     (if i = [] \<or> length i > 96 \<or> \<not> list_all (\<lambda>c. is_ascii_alphanumeric c \<or> c = CHR ''-'') (chars i)
      then Inl DcInvalidId else Inr ())"

definition enable_command :: "string \<Rightarrow> nat \<Rightarrow> diagnostic_command_error + diagnostic_command" where
  "enable_command i seconds =
     and_then (validate_id i) (\<lambda>_.
       if \<not> (1 \<le> seconds \<and> seconds \<le> MAX_ENABLE_SECONDS) then Inl DcInvalidDuration
       else Inr \<lparr>dc_id = i, dc_action = EnableFor seconds\<rparr>)"

definition disable_command :: "string \<Rightarrow> diagnostic_command_error + diagnostic_command" where
  "disable_command i = and_then (validate_id i) (\<lambda>_. Inr \<lparr>dc_id = i, dc_action = DisableNow\<rparr>)"

definition parse_command :: "bytes \<Rightarrow> diagnostic_command_error + diagnostic_command" where
  "parse_command payload =
     (if length payload > MAX_COMMAND_BYTES then Inl DcTooLarge
      else (case from_utf8 payload of None \<Rightarrow> Inl DcNotUtf8 | Some txt \<Rightarrow>
        let fields = split_on CHR ''|'' (trim txt) in
        if length fields \<noteq> 4 then Inl DcInvalidFormat
        else if fields ! 0 \<noteq> CONTROL_VERSION then Inl DcInvalidVersion
        else
          (let i = fields ! 1 in
           if fields ! 2 = ''enable'' then
             (case parse_uint u64_max (fields ! 3) of
                None \<Rightarrow> Inl DcInvalidDuration
              | Some seconds \<Rightarrow> enable_command i seconds)
           else if fields ! 2 = ''disable'' then
             (if fields ! 3 = ''0'' then disable_command i else Inl DcInvalidDuration)
           else Inl DcInvalidAction)))"

definition encode_command :: "diagnostic_command \<Rightarrow> bytes" where
  "encode_command c =
     (case dc_action c of
        EnableFor seconds \<Rightarrow> CONTROL_VERSION @ ''|'' @ dc_id c @ ''|enable|'' @ dec_str seconds
      | DisableNow \<Rightarrow> CONTROL_VERSION @ ''|'' @ dc_id c @ ''|disable|0'')"

section \<open>State\<close>

record diagnostic_record =
  dr_remote_peer_hash :: string
  dr_channel_port :: nat
  dr_uid :: string
  dr_callsign :: "string option"
  dr_event_type :: string
  dr_point :: "(f64 \<times> f64) option"
  dr_observed_at :: nat

record diagnostic_status =
  ds_enabled :: bool
  ds_remaining_seconds :: nat
  ds_record_count :: nat

record diagnostic_inner =
  di_enabled_until :: "nat option"
  di_records :: "diagnostic_record list"
  di_seen_commands :: "(string \<times> nat) list"
  di_seen_order :: "string list"

record diagnostic_state =
  dst_inner :: diagnostic_inner
  dst_max_records :: nat
  dst_max_seen_commands :: nat

definition diagnostics_new :: "nat \<Rightarrow> diagnostic_state" where
  "diagnostics_new max_records =
     \<lparr>dst_inner = \<lparr>di_enabled_until = None, di_records = [], di_seen_commands = [], di_seen_order = []\<rparr>,
      dst_max_records = max max_records 1, dst_max_seen_commands = DEFAULT_MAX_SEEN_COMMANDS\<rparr>"

definition diagnostics_default :: diagnostic_state where
  "diagnostics_default = diagnostics_new DEFAULT_MAX_RECORDS"

text \<open>\<open>SystemTime::checked_add\<close>: seconds are an \<open>i64\<close>.\<close>

definition SYSTEM_TIME_MAX :: nat where "SYSTEM_TIME_MAX = 9223372036854775807 * 1000000000 + 999999999"

definition checked_add_secs :: "nat \<Rightarrow> nat \<Rightarrow> nat option" where
  "checked_add_secs t secs =
     (if t + secs * 1000000000 \<le> SYSTEM_TIME_MAX then Some (t + secs * 1000000000) else None)"

fun prune_seen :: "nat \<Rightarrow> string list \<Rightarrow> (string \<times> nat) list \<Rightarrow> string list \<times> (string \<times> nat) list" where
  "prune_seen now [] seen = ([], seen)"
| "prune_seen now (i # ids) seen =
     (if (case map_of seen i of Some t \<Rightarrow> now - t \<le> SEEN_COMMAND_RETENTION | None \<Rightarrow> False)
      then (i # ids, seen)
      else prune_seen now ids (AList.delete i seen))"

definition prune_inner :: "nat \<Rightarrow> diagnostic_inner \<Rightarrow> diagnostic_inner" where
  "prune_inner now s =
     (let s = (if (case di_enabled_until s of Some u \<Rightarrow> u \<le> now | None \<Rightarrow> False)
               then s\<lparr>di_enabled_until := None, di_records := []\<rparr> else s);
          (order, seen) = prune_seen now (di_seen_order s) (di_seen_commands s)
      in s\<lparr>di_seen_order := order, di_seen_commands := seen\<rparr>)"

fun enforce_seen :: "nat \<Rightarrow> string list \<Rightarrow> (string \<times> nat) list \<Rightarrow> string list \<times> (string \<times> nat) list" where
  "enforce_seen n [] seen = ([], seen)"
| "enforce_seen n (i # ids) seen =
     (if length seen > n then enforce_seen n ids (AList.delete i seen) else (i # ids, seen))"

definition enforce_seen_bound :: "nat \<Rightarrow> diagnostic_inner \<Rightarrow> diagnostic_inner" where
  "enforce_seen_bound n s =
     (case enforce_seen n (di_seen_order s) (di_seen_commands s) of
        (order, seen) \<Rightarrow> s\<lparr>di_seen_order := order, di_seen_commands := seen\<rparr>)"

definition is_enabled :: "diagnostic_inner \<Rightarrow> nat \<Rightarrow> bool" where
  "is_enabled s now \<longleftrightarrow> (case di_enabled_until s of Some u \<Rightarrow> now < u | None \<Rightarrow> False)"

definition apply_action :: "diagnostic_action \<Rightarrow> nat \<Rightarrow> diagnostic_inner \<Rightarrow> diagnostic_inner" where
  "apply_action a now s =
     (case a of
        EnableFor seconds \<Rightarrow> s\<lparr>di_records := [], di_enabled_until := checked_add_secs now seconds\<rparr>
      | DisableNow \<Rightarrow> s\<lparr>di_enabled_until := None, di_records := []\<rparr>)"

definition apply_once :: "diagnostic_command \<Rightarrow> nat \<Rightarrow> diagnostic_state \<Rightarrow> bool \<times> diagnostic_state" where
  "apply_once c now st =
     (let s = prune_inner now (dst_inner st) in
      if dc_id c \<in> set (keys (di_seen_commands s)) then (False, st\<lparr>dst_inner := s\<rparr>)
      else
        (let s = s\<lparr>di_seen_commands := AList.update (dc_id c) now (di_seen_commands s),
                   di_seen_order := di_seen_order s @ [dc_id c]\<rparr>;
             s = enforce_seen_bound (dst_max_seen_commands st) s
         in (True, st\<lparr>dst_inner := apply_action (dc_action c) now s\<rparr>)))"

fun drop_front :: "nat \<Rightarrow> 'a list \<Rightarrow> 'a list" where
  "drop_front n [] = []"
| "drop_front n (x # xs) = (if length (x # xs) > n then drop_front n xs else x # xs)"

definition record_remote ::
    "string \<Rightarrow> nat \<Rightarrow> cot_event \<Rightarrow> nat \<Rightarrow> diagnostic_state \<Rightarrow> bool \<times> diagnostic_state" where
  "record_remote peer_hash channel_port ev now st =
     (let s = prune_inner now (dst_inner st) in
      if \<not> is_enabled s now then (False, st\<lparr>dst_inner := s\<rparr>)
      else
        (let r = \<lparr>dr_remote_peer_hash = peer_hash, dr_channel_port = channel_port, dr_uid = ev_uid ev,
                  dr_callsign = ev_callsign ev, dr_event_type = ev_event_type ev,
                  dr_point = map_option (\<lambda>p. (pt_lat p, pt_lon p)) (ev_point ev), dr_observed_at = now\<rparr>
         in (True, st\<lparr>dst_inner := s\<lparr>di_records := drop_front (dst_max_records st) (di_records s @ [r])\<rparr>\<rparr>)))"

definition status_at :: "nat \<Rightarrow> diagnostic_state \<Rightarrow> diagnostic_status \<times> diagnostic_state" where
  "status_at now st =
     (let s = prune_inner now (dst_inner st);
          remaining_seconds = (case di_enabled_until s of
                                 Some u \<Rightarrow> if now \<le> u then (u - now) div 1000000000 else 0 | None \<Rightarrow> 0)
      in (\<lparr>ds_enabled = (remaining_seconds > 0), ds_remaining_seconds = remaining_seconds,
           ds_record_count = length (di_records s)\<rparr>, st\<lparr>dst_inner := s\<rparr>))"

definition recent_at :: "nat \<Rightarrow> nat \<Rightarrow> diagnostic_state \<Rightarrow> diagnostic_record list \<times> diagnostic_state" where
  "recent_at limit now st =
     (let s = prune_inner now (dst_inner st) in (take limit (rev (di_records s)), st\<lparr>dst_inner := s\<rparr>))"

definition prune_expired :: "nat \<Rightarrow> diagnostic_state \<Rightarrow> diagnostic_state" where
  "prune_expired now st = st\<lparr>dst_inner := prune_inner now (dst_inner st)\<rparr>"

section \<open>Round trip of commands\<close>

definition valid_command :: "diagnostic_command \<Rightarrow> bool" where
  "valid_command c \<longleftrightarrow> validate_id (dc_id c) = Inr () \<and>
     (case dc_action c of EnableFor n \<Rightarrow> 1 \<le> n \<and> n \<le> MAX_ENABLE_SECONDS | DisableNow \<Rightarrow> True)"

lemma and_then_unit [simp]: "and_then r (\<lambda>_. Inr x) = Inr y \<longleftrightarrow> (\<exists>u. r = Inr u) \<and> x = y"
  by (cases r) auto

lemma enable_command_Inr:
  "enable_command i n = Inr c \<longleftrightarrow>
     c = \<lparr>dc_id = i, dc_action = EnableFor n\<rparr> \<and> validate_id i = Inr () \<and> 1 \<le> n \<and> n \<le> MAX_ENABLE_SECONDS"
  by (auto simp: enable_command_def and_then_Inr split: if_splits)

lemma disable_command_Inr:
  "disable_command i = Inr c \<longleftrightarrow> c = \<lparr>dc_id = i, dc_action = DisableNow\<rparr> \<and> validate_id i = Inr ()"
  by (auto simp: disable_command_def)

lemma parse_command_valid: "parse_command bs = Inr c \<Longrightarrow> valid_command c"
  by (auto simp: parse_command_def Let_def enable_command_Inr disable_command_Inr valid_command_def
      split: if_splits option.splits)

lemma utf8_valid_head: "utf8_valid (a # s) \<Longrightarrow> \<not> is_continuation a"
  by (auto simp: byte_in_def is_continuation_def split: list.splits if_splits)

lemma utf8_ascii_chars:
  "utf8_valid s \<Longrightarrow> list_all is_ascii (chars s) \<Longrightarrow> list_all is_ascii s"
proof (induction s)
  case Nil
  then show ?case by simp
next
  case (Cons a s)
  from utf8_valid_head [OF Cons.prems(1)] Cons.prems(2)
  have "is_ascii a" "list_all is_ascii (chars s)" by (simp_all add: chars_def)
  moreover from \<open>is_ascii a\<close> have "byte_val a < 128" by (simp add: is_ascii_def)
  ultimately show ?case using Cons.IH Cons.prems(1) by simp
qed

lemma chars_ascii: "list_all is_ascii s \<Longrightarrow> chars s = s"
  by (auto simp: chars_def list_all_iff is_ascii_def is_continuation_def filter_id_conv)

definition id_char :: "char \<Rightarrow> bool" where
  "id_char c \<longleftrightarrow> is_ascii_alphanumeric c \<or> c = CHR ''-''"

lemma id_char_graphic: "id_char c \<Longrightarrow> is_ascii_graphic c \<and> is_ascii c \<and> c \<noteq> CHR ''|''"
  by (auto simp: id_char_def ascii_defs)

lemma validate_id_Inr:
  "utf8_valid i \<Longrightarrow> validate_id i = Inr () \<longleftrightarrow> i \<noteq> [] \<and> length i \<le> 96 \<and> list_all id_char i"
proof -
  assume u: "utf8_valid i"
  have "list_all id_char (chars i) \<longleftrightarrow> list_all id_char i"
  proof
    assume l: "list_all id_char (chars i)"
    then have "list_all is_ascii (chars i)" using id_char_graphic by (auto simp: list_all_iff)
    with u have "chars i = i" using utf8_ascii_chars chars_ascii by blast
    with l show "list_all id_char i" by simp
  next
    assume "list_all id_char i"
    then show "list_all id_char (chars i)" by (simp add: chars_def list_all_iff)
  qed
  then show ?thesis by (auto simp: validate_id_def id_char_def [abs_def])
qed

lemma dec_str_plain: "list_all is_ascii_digit (dec_str n)" "CHR ''|'' \<notin> set (dec_str n)"
  using dec_str_digits [of n] by (auto simp: list_all_iff is_ascii_digit_def)

definition command_fields :: "diagnostic_command \<Rightarrow> string list" where
  "command_fields c = [CONTROL_VERSION, dc_id c,
     (case dc_action c of EnableFor _ \<Rightarrow> ''enable'' | DisableNow \<Rightarrow> ''disable''),
     (case dc_action c of EnableFor n \<Rightarrow> dec_str n | DisableNow \<Rightarrow> ''0'')]"

lemma encode_command_join: "encode_command c = join_with ''|'' (command_fields c)"
  by (simp add: encode_command_def command_fields_def split: diagnostic_action.split)

lemma command_fields_plain:
  assumes "list_all id_char (dc_id c)" "f \<in> set (command_fields c)"
  shows "CHR ''|'' \<notin> set f \<and> list_all is_ascii_graphic f"
proof -
  have i: "CHR ''|'' \<notin> set (dc_id c) \<and> list_all is_ascii_graphic (dc_id c)"
    using assms(1) id_char_graphic by (auto simp: list_all_iff)
  have d: "CHR ''|'' \<notin> set (dec_str n) \<and> list_all is_ascii_graphic (dec_str n)" for n
    using dec_str_plain [of n] by (auto simp: list_all_iff intro: alnum_graphic digit_alnum)
  have k: "CHR ''|'' \<notin> set CONTROL_VERSION \<and> list_all is_ascii_graphic CONTROL_VERSION"
    "CHR ''|'' \<notin> set ''enable'' \<and> list_all is_ascii_graphic ''enable''"
    "CHR ''|'' \<notin> set ''disable'' \<and> list_all is_ascii_graphic ''disable''"
    "CHR ''|'' \<notin> set ''0'' \<and> list_all is_ascii_graphic ''0''"
    by (simp_all add: CONTROL_VERSION_def is_ascii_graphic_def)
  from assms(2) have "f = CONTROL_VERSION \<or> f = dc_id c \<or> f = ''enable'' \<or> f = ''disable'' \<or> f = ''0'' \<or> (\<exists>n. f = dec_str n)"
    by (auto simp: command_fields_def split: diagnostic_action.splits)
  then show ?thesis using i d k by (elim disjE exE; blast)
qed

lemma encode_command_graphic:
  assumes "list_all id_char (dc_id c)"
  shows "list_all is_ascii_graphic (encode_command c)"
proof -
  have "list_all is_ascii_graphic (join_with ''|'' fs)" if "\<forall>f\<in>set fs. list_all is_ascii_graphic f" for fs
    using that by (induction "''|''" fs rule: join_with.induct) (auto simp: is_ascii_graphic_def)
  then show ?thesis using command_fields_plain [OF assms] by (simp add: encode_command_join)
qed

lemma encode_command_length:
  assumes "valid_command c" "length (dc_id c) \<le> 96"
  shows "length (encode_command c) \<le> MAX_COMMAND_BYTES"
proof (cases "dc_action c")
  case (EnableFor n)
  with assms(1) have "n < 10 ^ 5" by (simp add: valid_command_def MAX_ENABLE_SECONDS_def)
  then have "length (dec_str n) \<le> 5" by (rule length_dec_str) simp
  with assms(2) EnableFor show ?thesis by (simp add: encode_command_def CONTROL_VERSION_def MAX_COMMAND_BYTES_def)
next
  case DisableNow
  with assms(2) show ?thesis by (simp add: encode_command_def CONTROL_VERSION_def MAX_COMMAND_BYTES_def)
qed

lemma parse_encode_command:
  assumes v: "valid_command c" and u: "utf8_valid (dc_id c)"
  shows "parse_command (encode_command c) = Inr c"
proof -
  from v u have i: "dc_id c \<noteq> []" "length (dc_id c) \<le> 96" "list_all id_char (dc_id c)"
    by (auto simp: valid_command_def validate_id_Inr)
  note g = encode_command_graphic [OF i(3)]
  have ne: "encode_command c \<noteq> []" by (simp add: encode_command_def CONTROL_VERSION_def split: diagnostic_action.split)
  have "from_utf8 (encode_command c) = Some (encode_command c)"
    by (rule from_utf8_ascii) (use g in \<open>auto simp: list_all_iff intro: graphic_ascii\<close>)
  moreover have "trim (encode_command c) = encode_command c"
    by (rule trim_graphic [OF ne]) (use g ne in \<open>auto simp: list_all_iff\<close>)
  moreover have "split_on CHR ''|'' (encode_command c) = command_fields c"
    unfolding encode_command_join
    by (rule split_on_join) (use command_fields_plain [OF i(3)] in \<open>auto simp: command_fields_def\<close>)
  moreover have "length (encode_command c) \<le> MAX_COMMAND_BYTES" by (rule encode_command_length [OF v i(2)])
  moreover have "parse_uint u64_max (dec_str n) = Some n" if "n \<le> MAX_ENABLE_SECONDS" for n
    using that by (intro parse_uint_dec_str) (simp add: u64_max_def MAX_ENABLE_SECONDS_def)
  ultimately have "parse_command (encode_command c) = (case dc_action c of
      EnableFor n \<Rightarrow> enable_command (dc_id c) n | DisableNow \<Rightarrow> disable_command (dc_id c))"
    using v by (auto simp: parse_command_def command_fields_def valid_command_def
        split: diagnostic_action.splits)
  with v show ?thesis
    by (cases c) (auto simp: enable_command_def disable_command_def valid_command_def
        split: diagnostic_action.splits)
qed

text \<open>
  A byte that continues a character follows a byte that is not ASCII. So a field of a valid text whose
  characters are ASCII holds no other bytes.
\<close>

fun cont_ok :: "char \<Rightarrow> string \<Rightarrow> bool" where
  "cont_ok p [] = True"
| "cont_ok p (c # s) = ((is_continuation c \<longrightarrow> 128 \<le> byte_val p) \<and> cont_ok c s)"

lemma cont_ok_append: "cont_ok p (a @ b) \<longleftrightarrow> cont_ok p a \<and> cont_ok (last (p # a)) b"
  by (induction a arbitrary: p) auto

lemma utf8_valid_cont_ok: "utf8_valid s \<Longrightarrow> cont_ok p s"
proof (induction s arbitrary: p rule: utf8_valid.induct)
  case 1
  then show ?case by simp
next
  case (2 a s)
  then show ?case
    using utf8_valid_head [OF 2(5)]
    by (auto simp: byte_in_def split: list.splits if_splits)
qed

lemma trim_front_suffix: "\<exists>a. s = a @ trim_front ps s"
proof (induction ps s rule: trim_front.induct)
  case (1 ps s)
  show ?case
  proof (cases "strip_any ps s")
    case None
    then show ?thesis by (subst trim_front.simps) simp
  next
    case (Some r)
    then obtain p where "s = p @ r" using strip_any_suffix by blast
    moreover obtain a where "r = a @ trim_front ps r" using 1 [OF Some] by blast
    ultimately have "s = (p @ a) @ trim_front ps s"
      using Some by (subst trim_front.simps) simp
    then show ?thesis by blast
  qed
qed

lemma trim_infix: "\<exists>a b. s = a @ trim s @ b"
proof -
  obtain a where a: "s = a @ trim_start s" unfolding trim_start_def using trim_front_suffix by blast
  obtain b where "rev (trim_start s) = b @ trim_front (map rev ws_words) (rev (trim_start s))"
    using trim_front_suffix by blast
  then have "trim_start s = trim s @ rev b" by (metis rev_append rev_rev_ident trim_def trim_end_def)
  with a show ?thesis by metis
qed

lemma cont_ok_ascii: "cont_ok p s \<Longrightarrow> byte_val p < 128 \<Longrightarrow> list_all is_ascii (chars s) \<Longrightarrow> list_all is_ascii s"
proof (induction s arbitrary: p)
  case (Cons c s)
  then have "\<not> is_continuation c" by auto
  with Cons.prems(3) have "is_ascii c" "list_all is_ascii (chars s)" by (simp_all add: chars_def)
  moreover from this(1) have "byte_val c < 128" by (simp add: is_ascii_def)
  ultimately show ?case using Cons.IH [of c] Cons.prems(1) by simp
qed simp

lemma split_on_second:
  assumes "split_on c t = f # g # gs"
  shows "\<exists>a b. t = a @ c # g @ b"
proof -
  have "t = join_with [c] (split_on c t)" by (simp add: join_with_split_on)
  then have "t = join_with [c] (f # g # gs)" using assms by simp
  then have "t = f @ c # g @ (case gs of [] \<Rightarrow> [] | _ \<Rightarrow> c # join_with [c] gs)" by (cases gs) auto
  then show ?thesis by blast
qed

lemma parse_command_id:
  assumes "parse_command bs = Inr c"
  shows "utf8_valid (dc_id c)"
proof -
  let ?fs = "split_on CHR ''|'' (trim bs)"
  from assms have u: "utf8_valid bs" and l: "length ?fs = 4" and i: "dc_id c = ?fs ! 1"
    and v: "validate_id (dc_id c) = Inr ()"
    by (auto simp: parse_command_def from_utf8_def Let_def enable_command_Inr disable_command_Inr
        split: if_splits option.splits)
  from l obtain f g gs where f: "?fs = f # g # gs" by (cases ?fs; cases "tl ?fs") auto
  with i have g: "dc_id c = g" by simp
  obtain a b where t: "trim bs = a @ CHR ''|'' # g @ b" using split_on_second [OF f] by blast
  obtain x y where "bs = x @ trim bs @ y" using trim_infix by blast
  from this [unfolded t] have "bs = (x @ a @ ''|'') @ g @ (b @ y)" by simp
  with utf8_valid_cont_ok [OF u] have "cont_ok CHR ''|'' ((x @ a @ ''|'') @ g @ (b @ y))" by metis
  then have k: "cont_ok CHR ''|'' g" unfolding cont_ok_append by simp
  have "list_all id_char (chars g)"
    using v g by (simp add: validate_id_def id_char_def [abs_def] split: if_splits)
  then have "list_all is_ascii (chars g)" by (rule list.pred_mono_strong) (use id_char_graphic in blast)
  from cont_ok_ascii [OF k _ this] have "list_all is_ascii g" by simp
  then show ?thesis using g by (auto simp: list_all_iff intro: utf8_valid_ascii)
qed

lemma parse_command_normal: "parse_command bs = Inr c \<Longrightarrow> parse_command (encode_command c) = Inr c"
  by (rule parse_encode_command [OF parse_command_valid parse_command_id])

section \<open>Bounded queues\<close>

locale bounded_queue =
  fixes inv :: "'q \<Rightarrow> bool" and order :: "'q \<Rightarrow> 'a list" and bound :: "'q \<Rightarrow> 'q" and cap :: nat
  assumes inv_bound: "inv q \<Longrightarrow> inv (bound q)"
    and order_bound: "inv q \<Longrightarrow> order (bound q) = drop (length (order q) - cap) (order q)"
begin

lemma length_bound: "inv q \<Longrightarrow> length (order (bound q)) = min cap (length (order q))"
  by (simp add: order_bound)

lemma bound_small: "inv q \<Longrightarrow> length (order q) \<le> cap \<Longrightarrow> order (bound q) = order q"
  by (simp add: order_bound)

lemma bound_last: "inv q \<Longrightarrow> 1 \<le> cap \<Longrightarrow> order q = xs @ [x] \<Longrightarrow> x \<in> set (order (bound q))"
  by (simp add: order_bound)

lemma bound_subset: "inv q \<Longrightarrow> set (order (bound q)) \<subseteq> set (order q)"
  by (simp add: order_bound set_drop_subset)

end

definition seen_inv :: "string list \<times> (string \<times> nat) list \<Rightarrow> bool" where
  "seen_inv q \<longleftrightarrow> distinct (fst q) \<and> distinct (keys (snd q)) \<and> set (fst q) = set (keys (snd q))"

lemma seen_inv_length: "seen_inv (order, seen) \<Longrightarrow> length seen = length order"
  by (metis (mono_tags) distinct_card fst_conv length_map seen_inv_def snd_conv)

lemma seen_inv_pop: "seen_inv (i # ids, seen) \<Longrightarrow> seen_inv (ids, AList.delete i seen)"
  unfolding seen_inv_def fst_conv snd_conv AList.delete_keys by (auto simp: distinct_removeAll simp del: set_map)

lemma enforce_seen_bound_queue:
  "seen_inv (ids, seen) \<Longrightarrow>
   seen_inv (enforce_seen n ids seen) \<and> fst (enforce_seen n ids seen) = drop (length ids - n) ids"
proof (induction n ids seen rule: enforce_seen.induct)
  case (1 n seen)
  then show ?case by simp
next
  case (2 n i ids seen)
  have l: "length seen = Suc (length ids)" using seen_inv_length [OF 2(2)] by simp
  show ?case
  proof (cases "length seen > n")
    case True
    with 2(1) [OF True seen_inv_pop [OF 2(2)]] l show ?thesis by (simp add: Suc_diff_le)
  next
    case False
    with 2 l show ?thesis by simp
  qed
qed

lemma drop_front_eq: "drop_front n xs = drop (length xs - n) xs"
  by (induction xs) (auto simp: Suc_diff_le)

interpretation records: bounded_queue "\<lambda>_. True" "\<lambda>xs. xs" "drop_front n" n for n
  by unfold_locales (simp_all add: drop_front_eq)

interpretation seen: bounded_queue seen_inv fst "\<lambda>(ids, seen). enforce_seen n ids seen" n for n
  by unfold_locales (auto simp: enforce_seen_bound_queue)


section \<open>Invariant of the diagnostics state\<close>

definition diag_inv :: "diagnostic_state \<Rightarrow> bool" where
  "diag_inv st \<longleftrightarrow>
     1 \<le> dst_max_records st \<and> 1 \<le> dst_max_seen_commands st
     \<and> length (di_records (dst_inner st)) \<le> dst_max_records st
     \<and> length (di_seen_commands (dst_inner st)) \<le> dst_max_seen_commands st
     \<and> seen_inv (di_seen_order (dst_inner st), di_seen_commands (dst_inner st))
     \<and> (di_enabled_until (dst_inner st) = None \<longrightarrow> di_records (dst_inner st) = [])"

definition seen_at :: "string \<Rightarrow> diagnostic_state \<Rightarrow> nat option" where
  "seen_at i st = map_of (di_seen_commands (dst_inner st)) i"

lemma prune_seen_props:
  "prune_seen now ids seen = (ids', seen') \<Longrightarrow> seen_inv (ids, seen) \<Longrightarrow>
   seen_inv (ids', seen') \<and> length seen' \<le> length seen
   \<and> (\<forall>i t. map_of seen i = Some t \<and> now - t \<le> SEEN_COMMAND_RETENTION \<longrightarrow> map_of seen' i = Some t)
   \<and> (\<forall>i t. map_of seen' i = Some t \<longrightarrow> map_of seen i = Some t)"
proof (induction now ids seen rule: prune_seen.induct)
  case (1 now seen)
  then show ?case by simp
next
  case (2 now i ids seen)
  show ?case
  proof (cases "case map_of seen i of Some t \<Rightarrow> now - t \<le> SEEN_COMMAND_RETENTION | None \<Rightarrow> False")
    case True
    with 2(2,3) show ?thesis by auto
  next
    case False
    with 2(2) have p: "prune_seen now ids (AList.delete i seen) = (ids', seen')" by simp
    have s: "seen_inv (ids, AList.delete i seen)" by (rule seen_inv_pop [OF 2(3)])
    have e: "\<not> now - t \<le> SEEN_COMMAND_RETENTION" if "map_of seen i = Some t" for t
      using False that by simp
    have l: "length (AList.delete i seen) \<le> length seen" by (rule AList.length_delete_le)
    note ih = 2(1) [OF False p s]
    show ?thesis
    proof (intro conjI allI impI)
      fix j t
      assume "map_of seen j = Some t \<and> now - t \<le> SEEN_COMMAND_RETENTION"
      moreover from this e have "j \<noteq> i" by auto
      ultimately show "map_of seen' j = Some t" using ih by (simp add: AList.delete_conv')
    next
      fix j t
      assume "map_of seen' j = Some t"
      with ih have "map_of (AList.delete i seen) j = Some t" by blast
      then show "map_of seen j = Some t" by (simp add: AList.delete_conv' split: if_splits)
    qed (use ih l in auto)
  qed
qed

definition expired :: "nat \<Rightarrow> diagnostic_inner \<Rightarrow> bool" where
  "expired now s \<longleftrightarrow> (case di_enabled_until s of Some u \<Rightarrow> u \<le> now | None \<Rightarrow> False)"

lemma prune_inner_fields:
  "di_enabled_until (prune_inner now s) = (if expired now s then None else di_enabled_until s)"
  "di_records (prune_inner now s) = (if expired now s then [] else di_records s)"
  "di_seen_order (prune_inner now s) = fst (prune_seen now (di_seen_order s) (di_seen_commands s))"
  "di_seen_commands (prune_inner now s) = snd (prune_seen now (di_seen_order s) (di_seen_commands s))"
  by (simp_all add: prune_inner_def Let_def expired_def [symmetric] split: prod.split)

lemma prune_inner_inv:
  assumes "diag_inv st"
  shows "diag_inv (st\<lparr>dst_inner := prune_inner now (dst_inner st)\<rparr>)"
proof -
  let ?s = "dst_inner st"
  obtain ids seen where p: "prune_seen now (di_seen_order ?s) (di_seen_commands ?s) = (ids, seen)"
    by (cases "prune_seen now (di_seen_order ?s) (di_seen_commands ?s)")
  have "seen_inv (ids, seen) \<and> length seen \<le> length (di_seen_commands ?s)"
    using prune_seen_props [OF p] assms by (simp add: diag_inv_def)
  with p assms show ?thesis by (simp add: diag_inv_def prune_inner_fields)
qed

lemma prune_inner_seen:
  assumes "diag_inv st" "map_of (di_seen_commands (dst_inner st)) i = Some t" "now - t \<le> SEEN_COMMAND_RETENTION"
  shows "map_of (di_seen_commands (prune_inner now (dst_inner st))) i = Some t"
proof -
  let ?s = "dst_inner st"
  obtain ids seen where p: "prune_seen now (di_seen_order ?s) (di_seen_commands ?s) = (ids, seen)"
    by (cases "prune_seen now (di_seen_order ?s) (di_seen_commands ?s)")
  have "seen_inv (di_seen_order ?s, di_seen_commands ?s)" using assms(1) by (simp add: diag_inv_def)
  then have "map_of seen i = Some t" using prune_seen_props [OF p] assms(2,3) by blast
  with p show ?thesis by (simp add: prune_inner_fields)
qed

lemma diagnostics_new_inv: "diag_inv (diagnostics_new n)"
  by (simp add: diag_inv_def diagnostics_new_def seen_inv_def DEFAULT_MAX_SEEN_COMMANDS_def)

lemmas diag_fields = diagnostic_state.simps diagnostic_inner.simps prune_inner_fields

lemma prune_expired_inv: "diag_inv st \<Longrightarrow> diag_inv (prune_expired now st)"
  by (simp add: prune_expired_def prune_inner_inv)

lemma status_at_inv: "diag_inv st \<Longrightarrow> diag_inv (snd (status_at now st))"
  by (simp add: status_at_def Let_def prune_inner_inv)

lemma recent_at_inv: "diag_inv st \<Longrightarrow> diag_inv (snd (recent_at k now st))"
  by (simp add: recent_at_def Let_def prune_inner_inv)

lemma recent_at_length: "length (fst (recent_at k now st)) \<le> k"
  by (simp add: recent_at_def Let_def)

lemma record_remote_result:
  "fst (record_remote h port ev now st) \<longleftrightarrow> is_enabled (dst_inner st) now"
  by (auto simp: record_remote_def Let_def is_enabled_def prune_inner_fields expired_def
      split: option.splits)

lemma record_remote_inv:
  assumes "diag_inv st"
  shows "diag_inv (snd (record_remote h port ev now st))"
proof -
  let ?s = "prune_inner now (dst_inner st)"
  have i: "diag_inv (st\<lparr>dst_inner := ?s\<rparr>)" by (rule prune_inner_inv [OF assms])
  show ?thesis
  proof (cases "is_enabled ?s now")
    case False
    with i show ?thesis by (simp add: record_remote_def Let_def)
  next
    case True
    then have "di_enabled_until ?s \<noteq> None" by (auto simp: is_enabled_def split: option.splits)
    with True i show ?thesis
      by (auto simp: record_remote_def Let_def diag_inv_def records.length_bound)
  qed
qed

lemma seen_push:
  assumes "seen_inv (ids, seen)" "i \<notin> set (keys seen)"
  shows "seen_inv (ids @ [i], AList.update i t seen)"
  using assms by (auto simp: seen_inv_def AList.distinct_update AList.dom_update simp del: set_map
      simp: set_keys_update)

lemma apply_action_fields:
  "di_seen_order (apply_action a now s) = di_seen_order s"
  "di_seen_commands (apply_action a now s) = di_seen_commands s"
  "di_records (apply_action a now s) = []"
  by (simp_all add: apply_action_def split: diagnostic_action.split)

lemma enforce_seen_fields:
  "di_seen_order (enforce_seen_bound n s) = fst (enforce_seen n (di_seen_order s) (di_seen_commands s))"
  "di_seen_commands (enforce_seen_bound n s) = snd (enforce_seen n (di_seen_order s) (di_seen_commands s))"
  by (simp_all add: enforce_seen_bound_def split: prod.split)

lemma enforce_seen_keeps:
  "seen_inv (ids, seen) \<Longrightarrow> j \<in> set (fst (enforce_seen n ids seen)) \<Longrightarrow>
   map_of (snd (enforce_seen n ids seen)) j = map_of seen j"
proof (induction n ids seen rule: enforce_seen.induct)
  case (1 n seen)
  then show ?case by simp
next
  case (2 n i ids seen)
  show ?case
  proof (cases "length seen > n")
    case True
    note s = seen_inv_pop [OF 2(2)]
    from 2(3) True have j: "j \<in> set (fst (enforce_seen n ids (AList.delete i seen)))" by simp
    from 2(2) have "i \<notin> set ids" by (simp add: seen_inv_def)
    moreover from j seen.bound_subset [OF s] have "j \<in> set ids" by auto
    ultimately show ?thesis using 2(1) [OF True s j] True by (auto simp: AList.delete_conv')
  next
    case False
    then show ?thesis by simp
  qed
qed

text \<open>The state of the seen commands after a command that is new.\<close>

lemma apply_once_cases:
  assumes "diag_inv st"
  obtains (seen) t where "map_of (di_seen_commands (prune_inner now (dst_inner st))) (dc_id c) = Some t"
      "apply_once c now st = (False, prune_expired now st)"
  | (new) st' ids sn where "apply_once c now st = (True, st')" "diag_inv st'"
      "map_of (di_seen_commands (prune_inner now (dst_inner st))) (dc_id c) = None"
      "ids = di_seen_order (prune_inner now (dst_inner st)) @ [dc_id c]"
      "sn = AList.update (dc_id c) now (di_seen_commands (prune_inner now (dst_inner st)))"
      "seen_inv (ids, sn)"
      "di_seen_order (dst_inner st') = fst (enforce_seen (dst_max_seen_commands st) ids sn)"
      "di_seen_commands (dst_inner st') = snd (enforce_seen (dst_max_seen_commands st) ids sn)"
      "di_records (dst_inner st') = []" "dst_max_seen_commands st' = dst_max_seen_commands st"
      "di_enabled_until (dst_inner st') = (case dc_action c of
         EnableFor n \<Rightarrow> checked_add_secs now n | DisableNow \<Rightarrow> None)"
proof -
  let ?s = "prune_inner now (dst_inner st)"
  let ?ids = "di_seen_order ?s @ [dc_id c]" and ?sn = "AList.update (dc_id c) now (di_seen_commands ?s)"
  let ?n = "dst_max_seen_commands st"
  show thesis
  proof (cases "dc_id c \<in> set (keys (di_seen_commands ?s))")
    case True
    then obtain t where "map_of (di_seen_commands ?s) (dc_id c) = Some t"
      by (metis map_of_eq_None_iff not_None_eq set_map)
    moreover have "apply_once c now st = (False, prune_expired now st)"
      using True by (simp add: apply_once_def Let_def prune_expired_def del: set_map)
    ultimately show thesis by (rule that(1))
  next
    case False
    have inv: "diag_inv (st\<lparr>dst_inner := ?s\<rparr>)" by (rule prune_inner_inv [OF assms])
    then have si: "seen_inv (?ids, ?sn)" using False by (intro seen_push) (simp_all add: diag_inv_def)
    define st' where "st' = snd (apply_once c now st)"
    have e: "apply_once c now st = (True, st')"
      using False by (simp add: st'_def apply_once_def Let_def del: set_map)
    have f: "di_seen_order (dst_inner st') = fst (enforce_seen ?n ?ids ?sn)"
      "di_seen_commands (dst_inner st') = snd (enforce_seen ?n ?ids ?sn)"
      "di_records (dst_inner st') = []" "dst_max_seen_commands st' = ?n" "dst_max_records st' = dst_max_records st"
      using False by (simp_all add: st'_def apply_once_def Let_def apply_action_fields enforce_seen_fields del: set_map)
    have u: "di_enabled_until (dst_inner st') = (case dc_action c of
         EnableFor n \<Rightarrow> checked_add_secs now n | DisableNow \<Rightarrow> None)"
      using False by (simp add: st'_def apply_once_def Let_def apply_action_def del: set_map
          split: diagnostic_action.split)
    have q: "seen_inv (enforce_seen ?n ?ids ?sn)" using enforce_seen_bound_queue [OF si] by blast
    have "length (snd (enforce_seen ?n ?ids ?sn)) \<le> ?n"
      using seen_inv_length [of "fst (enforce_seen ?n ?ids ?sn)" "snd (enforce_seen ?n ?ids ?sn)"] q
        seen.length_bound [OF si, of ?n] by simp
    with q f inv have "diag_inv st'" by (simp add: diag_inv_def)
    moreover have "map_of (di_seen_commands ?s) (dc_id c) = None" using False by (simp add: map_of_eq_None_iff)
    ultimately show thesis using that(2) [OF e _ _ refl refl si f(1-4) u] by blast
  qed
qed

lemma apply_once_inv: "diag_inv st \<Longrightarrow> diag_inv (snd (apply_once c now st))"
  by (rule apply_once_cases [of st now c]) (auto simp: prune_expired_inv)

section \<open>Runs of the operations\<close>

text \<open>
  Every operation holds the mutex for its whole body, so that the calls of the bridge's tasks are a
  sequence of operations. The result of a command is whether it was new.
\<close>

datatype diag_op =
    OpApply diagnostic_command nat
  | OpRecord string nat cot_event nat
  | OpStatus nat
  | OpRecent nat nat
  | OpPrune nat

fun diag_step :: "diag_op \<Rightarrow> diagnostic_state \<Rightarrow> bool \<times> diagnostic_state" where
  "diag_step (OpApply c now) st = apply_once c now st"
| "diag_step (OpRecord h port ev now) st = (False, snd (record_remote h port ev now st))"
| "diag_step (OpStatus now) st = (False, snd (status_at now st))"
| "diag_step (OpRecent k now) st = (False, snd (recent_at k now st))"
| "diag_step (OpPrune now) st = (False, prune_expired now st)"

fun op_time :: "diag_op \<Rightarrow> nat" where
  "op_time (OpApply c now) = now"
| "op_time (OpRecord h port ev now) = now"
| "op_time (OpStatus now) = now"
| "op_time (OpRecent k now) = now"
| "op_time (OpPrune now) = now"

text \<open>The number of new commands of a run and its final state.\<close>

fun diag_run :: "diag_op list \<Rightarrow> diagnostic_state \<Rightarrow> nat \<times> diagnostic_state" where
  "diag_run [] st = (0, st)"
| "diag_run (p # ps) st =
     (let (new, st1) = diag_step p st; (k, st2) = diag_run ps st1 in ((if new then Suc k else k), st2))"

lemma diag_step_inv: "diag_inv st \<Longrightarrow> diag_inv (snd (diag_step p st))"
  by (cases p) (simp_all add: apply_once_inv record_remote_inv status_at_inv recent_at_inv prune_expired_inv)

lemma diag_run_Cons:
  "snd (diag_run (p # ps) st) = snd (diag_run ps (snd (diag_step p st)))"
  "fst (diag_run (p # ps) st) =
     (if fst (diag_step p st) then Suc else id) (fst (diag_run ps (snd (diag_step p st))))"
  by (simp_all split: prod.split)

lemma diag_run_inv: "diag_inv st \<Longrightarrow> diag_inv (snd (diag_run ps st))"
proof (induction ps arbitrary: st)
  case (Cons p ps)
  show ?case unfolding diag_run_Cons by (rule Cons.IH [OF diag_step_inv [OF Cons.prems]])
qed simp

text \<open>The command \<open>i\<close> was seen at \<open>t\<close> and at most \<open>k\<close> newer commands are remembered.\<close>

definition remembered :: "nat \<Rightarrow> string \<Rightarrow> nat \<Rightarrow> diagnostic_state \<Rightarrow> bool" where
  "remembered k i t st \<longleftrightarrow>
     (\<exists>xs ys. di_seen_order (dst_inner st) = xs @ i # ys \<and> length ys \<le> k)
     \<and> map_of (di_seen_commands (dst_inner st)) i = Some t"

lemma suffix_keeps:
  assumes "xs @ i # ys = zs @ ws" "distinct (xs @ i # ys)" "i \<in> set ws"
  shows "\<exists>vs. ws = vs @ i # ys"
proof -
  from assms(3) obtain vs us where w: "ws = vs @ i # us" by (meson split_list)
  with assms(1) have "xs @ i # ys = (zs @ vs) @ i # us" by simp
  moreover have "i \<notin> set xs" "i \<notin> set ys" using assms(2) by auto
  ultimately have "ys = us" using append_Cons_eq_iff [of i xs ys "zs @ vs" us] by blast
  with w show ?thesis by blast
qed

lemma prune_seen_suffix: "\<exists>zs. ids = zs @ fst (prune_seen now ids seen)"
  by (induction now ids seen rule: prune_seen.induct) (auto, metis append_Cons)

lemma seen_inv_mem: "seen_inv (ids, seen) \<Longrightarrow> map_of seen i = Some t \<Longrightarrow> i \<in> set ids"
  by (auto simp: seen_inv_def dest!: map_of_SomeD) (metis fst_conv image_eqI)

lemma remembered_prune:
  assumes "diag_inv st" "remembered k i t st" "now - t \<le> SEEN_COMMAND_RETENTION"
  shows "remembered k i t (prune_expired now st)"
proof -
  let ?s = "dst_inner st"
  from assms(2) obtain xs ys where o1: "di_seen_order ?s = xs @ i # ys" "length ys \<le> k"
    and m: "map_of (di_seen_commands ?s) i = Some t" by (auto simp: remembered_def)
  have m': "map_of (di_seen_commands (prune_inner now ?s)) i = Some t"
    by (rule prune_inner_seen [OF assms(1) m assms(3)])
  have inv: "seen_inv (di_seen_order (prune_inner now ?s), di_seen_commands (prune_inner now ?s))"
    using prune_expired_inv [OF assms(1), of now] by (simp add: diag_inv_def prune_expired_def)
  obtain zs where "xs @ i # ys = zs @ di_seen_order (prune_inner now ?s)"
    using prune_seen_suffix [of "di_seen_order ?s" now] o1 by (metis prune_inner_fields(3))
  moreover have "distinct (xs @ i # ys)" using assms(1) o1 by (simp add: diag_inv_def seen_inv_def)
  ultimately obtain vs where "di_seen_order (prune_inner now ?s) = vs @ i # ys"
    using suffix_keeps seen_inv_mem [OF inv m'] by metis
  with o1 m' show ?thesis by (auto simp: remembered_def prune_expired_def)
qed

lemma remembered_cong:
  "di_seen_order (dst_inner a) = di_seen_order (dst_inner b) \<Longrightarrow>
   di_seen_commands (dst_inner a) = di_seen_commands (dst_inner b) \<Longrightarrow>
   remembered k i t a = remembered k i t b"
  by (simp add: remembered_def)

lemma remembered_apply:
  assumes inv: "diag_inv st" and r: "remembered k i t st" and t: "now - t \<le> SEEN_COMMAND_RETENTION"
    and k: "fst (apply_once c now st) \<Longrightarrow> Suc k < dst_max_seen_commands st"
  shows "remembered (if fst (apply_once c now st) then Suc k else k) i t (snd (apply_once c now st))"
proof (rule apply_once_cases [OF inv, of now c])
  fix t'
  assume "apply_once c now st = (False, prune_expired now st)"
  then show ?thesis using remembered_prune [OF inv r t] by simp
next
  let ?n = "dst_max_seen_commands st"
  fix st' ids sn
  assume a: "apply_once c now st = (True, st')"
    and n: "map_of (di_seen_commands (prune_inner now (dst_inner st))) (dc_id c) = None"
    and ids: "ids = di_seen_order (prune_inner now (dst_inner st)) @ [dc_id c]"
    and sn: "sn = AList.update (dc_id c) now (di_seen_commands (prune_inner now (dst_inner st)))"
    and si: "seen_inv (ids, sn)"
    and f: "di_seen_order (dst_inner st') = fst (enforce_seen ?n ids sn)"
      "di_seen_commands (dst_inner st') = snd (enforce_seen ?n ids sn)"
  from remembered_prune [OF inv r t] obtain xs ys where
    o1: "di_seen_order (prune_inner now (dst_inner st)) = xs @ i # ys" "length ys \<le> k"
    and m: "map_of (di_seen_commands (prune_inner now (dst_inner st))) i = Some t"
    by (auto simp: remembered_def prune_expired_def)
  from m n have "i \<noteq> dc_id c" by auto
  with m have m': "map_of sn i = Some t" by (simp add: sn AList.update_conv')
  from seen.order_bound [OF si, of ?n] o1 k a
  have o2: "fst (enforce_seen ?n ids sn) = drop (length ids - ?n) xs @ i # (ys @ [dc_id c])"
    by (simp add: ids)
  then have "map_of (snd (enforce_seen ?n ids sn)) i = Some t"
    using enforce_seen_keeps [OF si] m' by simp
  moreover have "length (ys @ [dc_id c]) \<le> Suc k" using o1 by simp
  ultimately show ?thesis unfolding a fst_conv snd_conv if_True remembered_def f o2 by blast
qed

lemma apply_once_max: "dst_max_seen_commands (snd (apply_once c now st)) = dst_max_seen_commands st"
  by (simp add: apply_once_def Let_def)

lemma diag_step_max: "dst_max_seen_commands (snd (diag_step p st)) = dst_max_seen_commands st"
  by (cases p) (simp_all add: apply_once_max record_remote_def status_at_def recent_at_def prune_expired_def Let_def)

lemma diag_step_other:
  assumes "\<forall>c now. p \<noteq> OpApply c now"
  shows "fst (diag_step p st) = False"
    "di_seen_order (dst_inner (snd (diag_step p st))) = di_seen_order (dst_inner (prune_expired (op_time p) st))"
    "di_seen_commands (dst_inner (snd (diag_step p st))) = di_seen_commands (dst_inner (prune_expired (op_time p) st))"
  using assms
  by (cases p; simp add: record_remote_def status_at_def recent_at_def prune_expired_def Let_def)+

lemma remembered_step:
  assumes "diag_inv st" "remembered k i t st" "op_time p \<le> t + SEEN_COMMAND_RETENTION"
    "fst (diag_step p st) \<Longrightarrow> Suc k < dst_max_seen_commands st"
  shows "remembered (if fst (diag_step p st) then Suc k else k) i t (snd (diag_step p st))"
proof (cases "\<exists>c now. p = OpApply c now")
  case True
  with assms remembered_apply show ?thesis by force
next
  case False
  then have p: "\<forall>c now. p \<noteq> OpApply c now" by blast
  have "remembered k i t (prune_expired (op_time p) st)"
    by (rule remembered_prune [OF assms(1,2)]) (use assms(3) in simp)
  then show ?thesis
    using remembered_cong [OF diag_step_other(2,3) [OF p]] diag_step_other(1) [OF p] by simp
qed

lemma remembered_run:
  "diag_inv st \<Longrightarrow> remembered k i t st \<Longrightarrow> \<forall>p\<in>set ps. op_time p \<le> t + SEEN_COMMAND_RETENTION \<Longrightarrow>
   k + fst (diag_run ps st) < dst_max_seen_commands st \<Longrightarrow>
   remembered (k + fst (diag_run ps st)) i t (snd (diag_run ps st))"
proof (induction ps arbitrary: k st)
  case Nil
  then show ?case by simp
next
  case (Cons p ps)
  let ?st = "snd (diag_step p st)" and ?k = "if fst (diag_step p st) then Suc k else k"
  have step: "remembered ?k i t ?st"
  proof (rule remembered_step [OF Cons.prems(1,2)])
    show "op_time p \<le> t + SEEN_COMMAND_RETENTION" using Cons.prems(3) by simp
    show "Suc k < dst_max_seen_commands st" if "fst (diag_step p st)"
      using Cons.prems(4) that unfolding diag_run_Cons by simp
  qed
  have "?k + fst (diag_run ps ?st) = k + fst (diag_run (p # ps) st)"
    unfolding diag_run_Cons by simp
  with Cons.IH [OF diag_step_inv [OF Cons.prems(1)] step] Cons.prems(3,4)
  show ?case unfolding diag_run_Cons(1) by (simp add: diag_step_max)
qed

lemma apply_once_remembered:
  assumes inv: "diag_inv st" and a: "apply_once c now st = (True, st')"
  shows "remembered 0 (dc_id c) now st'"
proof (rule apply_once_cases [OF inv, of now c])
  fix t
  assume "apply_once c now st = (False, prune_expired now st)"
  with a show ?thesis by simp
next
  let ?n = "dst_max_seen_commands st"
  fix st'' ids sn
  assume a': "apply_once c now st = (True, st'')"
    and ids: "ids = di_seen_order (prune_inner now (dst_inner st)) @ [dc_id c]"
    and sn: "sn = AList.update (dc_id c) now (di_seen_commands (prune_inner now (dst_inner st)))"
    and si: "seen_inv (ids, sn)"
    and f: "di_seen_order (dst_inner st'') = fst (enforce_seen ?n ids sn)"
      "di_seen_commands (dst_inner st'') = snd (enforce_seen ?n ids sn)"
  from inv have "1 \<le> ?n" by (simp add: diag_inv_def)
  with seen.order_bound [OF si, of ?n]
  have o2: "fst (enforce_seen ?n ids sn)
      = drop (length ids - ?n) (di_seen_order (prune_inner now (dst_inner st))) @ dc_id c # []"
    by (simp add: ids)
  then have "map_of (snd (enforce_seen ?n ids sn)) (dc_id c) = Some now"
    using enforce_seen_keeps [OF si] by (simp add: sn AList.update_conv')
  moreover from a a' have "st'' = st'" by simp
  ultimately show ?thesis unfolding remembered_def using f o2 by auto
qed

lemma duplicate_rejected:
  assumes "diag_inv st" "apply_once c t0 st = (True, st0)"
    "\<forall>p\<in>set ps. op_time p \<le> t0 + SEEN_COMMAND_RETENTION" "t \<le> t0 + SEEN_COMMAND_RETENTION"
    "fst (diag_run ps st0) < dst_max_seen_commands st" "dc_id c' = dc_id c"
  shows "\<not> fst (apply_once c' t (snd (diag_run ps st0)))"
proof -
  let ?st = "snd (diag_run ps st0)"
  have i0: "diag_inv st0" using apply_once_inv [OF assms(1), of c t0] assms(2) by simp
  have n0: "dst_max_seen_commands st0 = dst_max_seen_commands st"
    using apply_once_max [of c t0 st] assms(2) by simp
  have "remembered (0 + fst (diag_run ps st0)) (dc_id c) t0 ?st"
    using i0 apply_once_remembered [OF assms(1,2)] assms(3,5) n0 by (intro remembered_run) simp_all
  then have m: "map_of (di_seen_commands (dst_inner ?st)) (dc_id c') = Some t0"
    using assms(6) by (simp add: remembered_def)
  have "map_of (di_seen_commands (prune_inner t (dst_inner ?st))) (dc_id c') = Some t0"
    by (rule prune_inner_seen [OF diag_run_inv [OF i0] m]) (use assms(4) in simp)
  with apply_once_cases [OF diag_run_inv [OF i0], of t ps c'] show ?thesis
    by (metis fst_conv option.distinct(1))
qed

text \<open>Every record was observed before the current enabling ends.\<close>

definition window_inv :: "diagnostic_state \<Rightarrow> bool" where
  "window_inv st \<longleftrightarrow>
     (case di_enabled_until (dst_inner st) of
        None \<Rightarrow> di_records (dst_inner st) = []
      | Some u \<Rightarrow> \<forall>r\<in>set (di_records (dst_inner st)). dr_observed_at r < u)"

lemma window_prune: "window_inv st \<Longrightarrow> window_inv (prune_expired now st)"
  by (auto simp: window_inv_def prune_expired_def prune_inner_fields split: option.splits)

lemma window_record: "window_inv st \<Longrightarrow> window_inv (snd (record_remote h port ev now st))"
proof -
  let ?s = "prune_inner now (dst_inner st)"
  assume "window_inv st"
  then have w: "window_inv (prune_expired now st)" by (rule window_prune)
  show ?thesis
  proof (cases "is_enabled ?s now")
    case False
    with w show ?thesis by (simp add: record_remote_def prune_expired_def Let_def)
  next
    case True
    then obtain u where u: "di_enabled_until ?s = Some u" "now < u"
      by (auto simp: is_enabled_def split: option.splits)
    with w have "\<forall>r\<in>set (di_records ?s). dr_observed_at r < u"
      by (simp add: window_inv_def prune_expired_def)
    with True u show ?thesis
      by (auto simp: record_remote_def Let_def window_inv_def drop_front_eq dest!: in_set_dropD)
  qed
qed

lemma window_step: "window_inv st \<Longrightarrow> diag_inv st \<Longrightarrow> window_inv (snd (diag_step p st))"
proof (cases p)
  case (OpApply c now)
  assume w: "window_inv st" and i: "diag_inv st"
  show ?thesis
  proof (rule apply_once_cases [OF i, of now c])
    assume "apply_once c now st = (False, prune_expired now st)"
    then show ?thesis using window_prune [OF w] by (simp add: OpApply)
  next
    fix st'
    assume "apply_once c now st = (True, st')" "di_records (dst_inner st') = []"
    then show ?thesis by (simp add: OpApply window_inv_def split: option.split)
  qed
qed (simp_all add: window_record window_prune [unfolded prune_expired_def] status_at_def recent_at_def
    prune_expired_def Let_def)

lemma window_run: "window_inv st \<Longrightarrow> diag_inv st \<Longrightarrow> window_inv (snd (diag_run ps st))"
proof (induction ps arbitrary: st)
  case (Cons p ps)
  show ?case unfolding diag_run_Cons
    by (rule Cons.IH [OF window_step [OF Cons.prems] diag_step_inv [OF Cons.prems(2)]])
qed simp

lemma window_new: "window_inv (diagnostics_new n)"
  by (simp add: window_inv_def diagnostics_new_def)

lemma apply_once_disable:
  assumes "diag_inv st" "apply_once c now st = (True, st')" "dc_action c = DisableNow"
  shows "\<not> fst (record_remote h port ev t st')"
proof (rule apply_once_cases [OF assms(1), of now c])
  fix t'
  assume "apply_once c now st = (False, prune_expired now st)"
  with assms(2) show ?thesis by simp
next
  fix st''
  assume "apply_once c now st = (True, st'')"
    "di_enabled_until (dst_inner st'') = (case dc_action c of EnableFor n \<Rightarrow> checked_add_secs now n | DisableNow \<Rightarrow> None)"
  with assms(2,3) show ?thesis by (simp add: record_remote_result is_enabled_def)
qed

lemma status_records: "diag_inv st \<Longrightarrow> ds_record_count (fst (status_at now st)) \<le> dst_max_records st"
  using prune_inner_inv [of st now] by (simp add: status_at_def Let_def diag_inv_def)

text \<open>What holds of the state of a plugin, whose bounds are the defaults.\<close>

definition diag_ok :: "diagnostic_state \<Rightarrow> bool" where
  "diag_ok st \<longleftrightarrow> diag_inv st \<and> window_inv st
     \<and> dst_max_records st = DEFAULT_MAX_RECORDS \<and> dst_max_seen_commands st = DEFAULT_MAX_SEEN_COMMANDS"

lemma diag_step_max_records: "dst_max_records (snd (diag_step p st)) = dst_max_records st"
  by (cases p) (simp_all add: apply_once_def record_remote_def status_at_def recent_at_def prune_expired_def Let_def)

lemma diag_ok_step: "diag_ok st \<Longrightarrow> diag_ok (snd (diag_step p st))"
  by (simp add: diag_ok_def diag_step_inv window_step diag_step_max diag_step_max_records)

lemma diag_ok_default: "diag_ok diagnostics_default"
  by (simp add: diag_ok_def diagnostics_default_def diagnostics_new_inv window_new)
    (simp add: diagnostics_new_def DEFAULT_MAX_RECORDS_def)

lemmas diag_ok_ops =
  diag_ok_step [of _ "OpApply c t" for c t, unfolded diag_step.simps snd_conv]
  diag_ok_step [of _ "OpStatus t" for t, unfolded diag_step.simps snd_conv]
  diag_ok_step [of _ "OpRecent k t" for k t, unfolded diag_step.simps snd_conv]
  diag_ok_step [of _ "OpPrune t" for t, unfolded diag_step.simps snd_conv]
  diag_ok_step [of _ "OpRecord h port ev t" for h port ev t, unfolded diag_step.simps snd_conv]

end
