(* ===== verification/Iface.thy ===== *)
theory Iface
  imports Ip
begin

text \<open>
  Selection of the ATAK-facing interface (\<open>kaonic-atak-plugin/src/interface.rs\<close>) and the multicast
  channels and their sockets (\<open>multicast.rs\<close>). The interface list of the \<open>if_addrs\<close> crate is an
  argument. Socket calls go through the parameter \<open>sock_ops\<close>, which runs one call on a world.
\<close>

section \<open>Interfaces\<close>

record interface_candidate =
  ic_name :: string
  ic_addr :: ipv4

record local_interface =
  li_name :: string
  li_addr :: ipv4

record interface_selection =
  is_interface_name :: "string option"
  is_local_addr :: "ipv4 option"

datatype interface_selection_error =
    NoUsableInterfaces
  | NoAutomaticAtakInterface
  | InterfaceNotFound string
  | AddressNotFound ipv4
  | AmbiguousInterface string

fun selection_error_to_string :: "interface_selection_error \<Rightarrow> string" where
  "selection_error_to_string NoUsableInterfaces = ''no non-loopback IPv4 interfaces found''"
| "selection_error_to_string NoAutomaticAtakInterface =
     ''no unambiguous 192.168.10.0/24 ATAK interface found; configure KAONIC_ATAK_INTERFACE_IP or --local-address explicitly''"
| "selection_error_to_string (InterfaceNotFound name) = ''interface '' @ [CHR 0x27] @ name @ [CHR 0x27] @ '' was not found''"
| "selection_error_to_string (AddressNotFound a) = ''local address '' @ ipv4_to_string a @ '' was not found''"
| "selection_error_to_string (AmbiguousInterface detail) =
     ''local ATAK interface selection is ambiguous: '' @ detail"

text \<open>\<open>get_if_addrs\<close> is \<open>None\<close> when it fails.\<close>

definition load_interface_candidates :: "(string \<times> ip_addr) list option \<Rightarrow> interface_candidate list" where
  "load_interface_candidates ifs =
     List.map_filter
       (\<lambda>(name, ip). case ip of
          V4 a \<Rightarrow> if \<not> is_loopback_v4 a then Some \<lparr>ic_name = name, ic_addr = a\<rparr> else None
        | V6 _ \<Rightarrow> None)
       (case ifs of None \<Rightarrow> [] | Some l \<Rightarrow> l)"

definition to_local_interface :: "interface_candidate \<Rightarrow> local_interface" where
  "to_local_interface c = \<lparr>li_name = ic_name c, li_addr = ic_addr c\<rparr>"

definition is_kaonic_lan_addr :: "ipv4 \<Rightarrow> bool" where
  "is_kaonic_lan_addr a \<longleftrightarrow> octets a ! 0 = 192 \<and> octets a ! 1 = 168 \<and> octets a ! 2 = 10"

definition describe_candidates :: "interface_candidate list \<Rightarrow> string" where
  "describe_candidates cs = join_with '', '' (map (\<lambda>c. ic_name c @ ''='' @ ipv4_to_string (ic_addr c)) cs)"

fun one_candidate :: "interface_candidate list \<Rightarrow> string \<Rightarrow> interface_selection_error + local_interface" where
  "one_candidate [] ctx = Inl NoUsableInterfaces"
| "one_candidate [c] ctx = Inr (to_local_interface c)"
| "one_candidate cs ctx = Inl (AmbiguousInterface (ctx @ '' matched '' @ describe_candidates cs))"

definition auto_detect :: "interface_candidate list \<Rightarrow> interface_selection_error + local_interface" where
  "auto_detect cs =
     (if cs = [] then Inl NoUsableInterfaces
      else
        (let kaonic_lan = filter (\<lambda>c. is_kaonic_lan_addr (ic_addr c)) cs
         in case kaonic_lan of
              [c] \<Rightarrow> Inr (to_local_interface c)
            | [] \<Rightarrow> Inl NoAutomaticAtakInterface
            | _ \<Rightarrow> Inl (AmbiguousInterface
                     (''multiple 192.168.10.0/24 candidates: '' @ describe_candidates kaonic_lan))))"

definition selection_matches :: "interface_selection \<Rightarrow> interface_candidate \<Rightarrow> bool" where
  "selection_matches sel c =
     (case (is_interface_name sel, is_local_addr sel) of
        (Some name, Some a) \<Rightarrow> ic_name c = name \<and> ic_addr c = a
      | (Some name, None) \<Rightarrow> ic_name c = name
      | (None, Some a) \<Rightarrow> ic_addr c = a
      | (None, None) \<Rightarrow> True)"

definition select_local_interface ::
    "interface_candidate list \<Rightarrow> interface_selection \<Rightarrow> interface_selection_error + local_interface" where
  "select_local_interface candidates sel =
     (let cs = filter (selection_matches sel) candidates in
      case (is_interface_name sel, is_local_addr sel) of
        (Some name, Some a) \<Rightarrow>
          if cs = [] then Inl (InterfaceNotFound name) else one_candidate cs ''explicit interface/address''
      | (Some name, None) \<Rightarrow>
          if cs = [] then Inl (InterfaceNotFound name) else one_candidate cs ''explicit interface''
      | (None, Some a) \<Rightarrow>
          if cs = [] then Inl (AddressNotFound a) else one_candidate cs ''explicit address''
      | (None, None) \<Rightarrow> auto_detect cs)"

text \<open>
  The candidates that a selection may end in: those it names, and without any name or address those
  of 192.168.10.0/24.
\<close>

definition eligible :: "interface_selection \<Rightarrow> interface_candidate \<Rightarrow> bool" where
  "eligible sel c \<longleftrightarrow>
     pred_option (\<lambda>name. ic_name c = name) (is_interface_name sel)
     \<and> pred_option (\<lambda>a. ic_addr c = a) (is_local_addr sel)
     \<and> (is_interface_name sel = None \<and> is_local_addr sel = None \<longrightarrow> is_kaonic_lan_addr (ic_addr c))"

lemma one_candidate_Inr:
  "one_candidate cs ctx = Inr l \<longleftrightarrow> (\<exists>c. cs = [c] \<and> l = to_local_interface c)"
  by (cases "(cs, ctx)" rule: one_candidate.cases) auto

lemma auto_detect_Inr:
  "auto_detect cs = Inr l \<longleftrightarrow>
     (\<exists>c. filter (\<lambda>c. is_kaonic_lan_addr (ic_addr c)) cs = [c] \<and> l = to_local_interface c)"
  by (auto simp: auto_detect_def Let_def split: list.split)

lemma eligible_explicit:
  "is_interface_name sel \<noteq> None \<or> is_local_addr sel \<noteq> None \<Longrightarrow> eligible sel = selection_matches sel"
  by (auto simp: fun_eq_iff eligible_def selection_matches_def split: option.splits)

lemma eligible_auto:
  "is_interface_name sel = None \<Longrightarrow> is_local_addr sel = None \<Longrightarrow>
   eligible sel = (\<lambda>c. is_kaonic_lan_addr (ic_addr c)) \<and> selection_matches sel = (\<lambda>_. True)"
  by (auto simp: fun_eq_iff eligible_def selection_matches_def)

lemma select_local_interface_Inr:
  "select_local_interface cs sel = Inr l \<longleftrightarrow>
     (\<exists>c. filter (eligible sel) cs = [c] \<and> l = to_local_interface c)"
proof (cases "is_interface_name sel = None \<and> is_local_addr sel = None")
  case True
  then have "select_local_interface cs sel = auto_detect cs"
    using eligible_auto [of sel] by (simp add: select_local_interface_def)
  with True show ?thesis using eligible_auto [of sel] by (simp add: auto_detect_Inr)
next
  case False
  then show ?thesis using eligible_explicit [of sel]
    by (auto simp: select_local_interface_def Let_def one_candidate_Inr split: option.splits)
qed

section \<open>Multicast channels\<close>

record atak_channel =
  ch_name :: string
  ch_group :: ipv4
  ch_port :: nat

definition ATAK_CHANNELS :: "atak_channel list" where
  "ATAK_CHANNELS =
     [\<lparr>ch_name = ''cot'', ch_group = mk_ipv4 239 2 3 1, ch_port = 6969\<rparr>,
      \<lparr>ch_name = ''geochat'', ch_group = mk_ipv4 224 10 10 1, ch_port = 17012\<rparr>]"

datatype sock_role = Receiver | Sender

datatype sock_call =
    SocketNew
  | SetReuseAddress bool
  | SetNonblocking bool
  | Bind ipv4 nat
  | JoinMulticast ipv4 ipv4
  | SetMulticastLoop bool
  | SetMulticastTtl nat
  | SetMulticastIf ipv4

record 'w sock_ops =
  so_call :: "sock_role \<Rightarrow> sock_call \<Rightarrow> ('w, string) action"
  so_from_std :: "sock_role \<Rightarrow> ('w, string) action"

text \<open>The target of the sender is the group and the port of the channel.\<close>

definition open_multicast_sockets ::
    "'w sock_ops \<Rightarrow> atak_channel \<Rightarrow> local_interface \<Rightarrow> 'w \<Rightarrow> (string + (ipv4 \<times> nat)) \<times> 'w" where
  "open_multicast_sockets S channel l w =
     (case try_all
        ([so_call S Receiver SocketNew,
          so_call S Receiver (SetReuseAddress True),
          so_call S Receiver (SetNonblocking True),
          so_call S Receiver (Bind 0 (ch_port channel)),
          so_call S Receiver (JoinMulticast (ch_group channel) (li_addr l)),
          so_call S Sender SocketNew,
          so_call S Sender (SetNonblocking True),
          so_call S Sender (SetMulticastLoop False),
          so_call S Sender (SetMulticastTtl 1),
          so_call S Sender (SetMulticastIf (li_addr l)),
          so_call S Sender (Bind (li_addr l) 0),
          so_from_std S Receiver,
          so_from_std S Sender]) w of
        (Inl e, w) \<Rightarrow> (Inl e, w)
      | (Inr _, w) \<Rightarrow> (Inr (ch_group channel, ch_port channel), w))"

end
