(* ===== verification/Bridge.thy ===== *)
theory Bridge
  imports Diagnostics Iface
begin

text \<open>
  The bridge of one multicast channel (\<open>start_bridge\<close> and \<open>accept_payload\<close> of
  \<open>kaonic-atak-plugin/src/main.rs\<close>). The Reticulum transport and the UDP sender are the parameters
  \<open>mesh_ops\<close> on a world; each iteration of a task's loop is one function on the shared state, the
  bridge and the world. The locale \<open>link_tracker\<close> is the contract of the two tasks that keep a set
  of peers, here and in the diagnostics control: which peers they may ever track.
\<close>

section \<open>The transport\<close>

record ('h, 'd, 'p, 'w) mesh_ops =
  m_add_destination :: "string \<Rightarrow> string \<Rightarrow> 'w \<Rightarrow> 'h \<times> 'w"
  m_announce :: "'h \<Rightarrow> bytes \<Rightarrow> 'w \<Rightarrow> 'p option \<times> 'w"
  m_send_packet :: "'p \<Rightarrow> 'w \<Rightarrow> 'w"
  m_send_to_in_links :: "'h \<Rightarrow> bytes \<Rightarrow> 'w \<Rightarrow> 'w"
  m_link :: "'d \<Rightarrow> 'w \<Rightarrow> 'w"
  m_desc_hash :: "'d \<Rightarrow> 'h"
  m_hash_str :: "'h \<Rightarrow> string"
  m_udp_send :: "bytes \<Rightarrow> ipv4 \<times> nat \<Rightarrow> ('w, string) action"

definition announce_packet :: "('h, 'd, 'p, 'w) mesh_ops \<Rightarrow> 'h \<Rightarrow> bytes \<Rightarrow> 'w \<Rightarrow> 'w" where
  "announce_packet M dest app_data w =
     (case m_announce M dest app_data w of
        (Some pkt, w) \<Rightarrow> m_send_packet M pkt w
      | (None, w) \<Rightarrow> w)"

section \<open>State\<close>

record bridge_metrics =
  bm_local_rx_packets :: nat
  bm_remote_tx_packets :: nat
  bm_invalid_local_packets :: nat
  bm_invalid_remote_packets :: nat
  bm_local_locations :: nat
  bm_remote_locations :: nat

definition bridge_metrics_default :: bridge_metrics where
  "bridge_metrics_default =
     \<lparr>bm_local_rx_packets = 0, bm_remote_tx_packets = 0, bm_invalid_local_packets = 0,
      bm_invalid_remote_packets = 0, bm_local_locations = 0, bm_remote_locations = 0\<rparr>"

record shared_state =
  sh_locations :: location_state
  sh_diagnostics :: diagnostic_state

record 'h bridge =
  br_channel :: atak_channel
  br_dest :: 'h
  br_target :: "ipv4 \<times> nat"
  br_peers :: "'h list"
  br_metrics :: bridge_metrics

type_synonym ('h, 'w) bridge_world = "shared_state \<times> 'h bridge \<times> 'w"

definition port_tag :: "atak_channel \<Rightarrow> bytes" where
  "port_tag c = [char_of (ch_port c div 256 mod 256), char_of (ch_port c mod 256)]"

text \<open>\<open>HashSet::insert\<close> and \<open>HashSet::remove\<close>, the set as a list without duplicates.\<close>

definition hs_insert :: "'a \<Rightarrow> 'a list \<Rightarrow> 'a list" where
  "hs_insert x xs = (if x \<in> set xs then xs else xs @ [x])"

definition hs_remove :: "'a \<Rightarrow> 'a list \<Rightarrow> 'a list" where
  "hs_remove x xs = filter (\<lambda>y. y \<noteq> x) xs"

lemma set_hs [simp]: "set (hs_insert x xs) = insert x (set xs)" "set (hs_remove x xs) = set xs - {x}"
  by (auto simp: hs_insert_def hs_remove_def)

lemma distinct_hs [simp]: "distinct xs \<Longrightarrow> distinct (hs_insert x xs)" "distinct xs \<Longrightarrow> distinct (hs_remove x xs)"
  by (auto simp: hs_insert_def hs_remove_def)

section \<open>Accepting a payload\<close>

text \<open>The readings of the clock that accepting a payload takes.\<close>

record clock =
  ck_diagnostics :: nat
  ck_updated_at :: nat
  ck_prune :: nat
  ck_len :: nat

text \<open>The result is whether the payload goes on, the shared state and the two counters.\<close>

definition accept_payload ::
    "'n xml_ops \<Rightarrow> clock \<Rightarrow> bytes \<Rightarrow> pkt_source \<Rightarrow> string option \<Rightarrow> atak_channel \<Rightarrow> bool
       \<Rightarrow> nat \<Rightarrow> nat \<Rightarrow> shared_state \<Rightarrow> bool \<times> nat \<times> nat \<times> shared_state" where
  "accept_payload X ck data source remote_peer_hash channel allow_unvalidated invalid_counter location_counter sh =
     (case parse_cot_payload X data of
        Inr ev \<Rightarrow>
          (let sh = (case remote_peer_hash of
                       Some peer_hash \<Rightarrow> sh\<lparr>sh_diagnostics :=
                         snd (record_remote peer_hash (ch_port channel) ev (ck_diagnostics ck) (sh_diagnostics sh))\<rparr>
                     | None \<Rightarrow> sh)
           in case location_record (ck_updated_at ck) (ck_prune ck) source (ch_port channel) ev (sh_locations sh) of
                (Some r, loc) \<Rightarrow>
                  (True, invalid_counter, wrap64 (location_counter + 1),
                   sh\<lparr>sh_locations := snd (location_len (ck_len ck) loc)\<rparr>)
              | (None, loc) \<Rightarrow> (True, invalid_counter, location_counter, sh\<lparr>sh_locations := loc\<rparr>))
      | Inl err \<Rightarrow> (allow_unvalidated, wrap64 (invalid_counter + 1), location_counter, sh))"

section \<open>The tasks\<close>

definition udp_to_rns ::
    "('h, 'd, 'p, 'w) mesh_ops \<Rightarrow> 'n xml_ops \<Rightarrow> bool \<Rightarrow> clock \<Rightarrow> bytes
       \<Rightarrow> ('h, 'w) bridge_world \<Rightarrow> ('h, 'w) bridge_world" where
  "udp_to_rns M X allow ck data = (\<lambda>(sh, b, w).
     (let m = br_metrics b in
      case accept_payload X ck data LocalUdp None (br_channel b) allow
             (bm_invalid_local_packets m) (bm_local_locations m) sh of
        (accepted, invalid, locs, sh) \<Rightarrow>
          (let m = m\<lparr>bm_invalid_local_packets := invalid, bm_local_locations := locs\<rparr> in
           if \<not> accepted then (sh, b\<lparr>br_metrics := m\<rparr>, w)
           else (sh, b\<lparr>br_metrics := m\<lparr>bm_local_rx_packets := wrap64 (bm_local_rx_packets m + 1)\<rparr>\<rparr>,
                 m_send_to_in_links M (br_dest b) data w))))"

definition rns_data ::
    "('h, 'd, 'p, 'w) mesh_ops \<Rightarrow> 'n xml_ops \<Rightarrow> bool \<Rightarrow> clock \<Rightarrow> 'h \<Rightarrow> bytes
       \<Rightarrow> ('h, 'w) bridge_world \<Rightarrow> ('h, 'w) bridge_world" where
  "rns_data M X allow ck address_hash data = (\<lambda>(sh, b, w).
     (let m = br_metrics b in
      case accept_payload X ck data RemoteReticulum (Some (m_hash_str M address_hash)) (br_channel b) allow
             (bm_invalid_remote_packets m) (bm_remote_locations m) sh of
        (accepted, invalid, locs, sh) \<Rightarrow>
          (let m = m\<lparr>bm_invalid_remote_packets := invalid, bm_remote_locations := locs\<rparr> in
           if \<not> accepted then (sh, b\<lparr>br_metrics := m\<rparr>, w)
           else (case m_udp_send M data (br_target b) w of
                   (Inl err, w) \<Rightarrow> (sh, b\<lparr>br_metrics := m\<rparr>, w)
                 | (Inr _, w) \<Rightarrow>
                     (sh, b\<lparr>br_metrics := m\<lparr>bm_remote_tx_packets := wrap64 (bm_remote_tx_packets m + 1)\<rparr>\<rparr>, w)))))"

definition rns_to_udp ::
    "('h, 'd, 'p, 'w) mesh_ops \<Rightarrow> 'n xml_ops \<Rightarrow> bool \<Rightarrow> clock \<Rightarrow> 'h \<Rightarrow> link_event
       \<Rightarrow> ('h, 'w) bridge_world \<Rightarrow> ('h, 'w) bridge_world" where
  "rns_to_udp M X allow ck address_hash ev = (\<lambda>(sh, b, w).
     (if address_hash \<notin> set (br_peers b) then (sh, b, w)
      else (case ev of
              EvActivated \<Rightarrow> (sh, b, w)
            | EvClosed \<Rightarrow> (sh, b\<lparr>br_peers := hs_remove address_hash (br_peers b)\<rparr>, w)
            | EvData payload \<Rightarrow> rns_data M X allow ck address_hash payload (sh, b, w)
            | EvProof _ \<Rightarrow> (sh, b, w))))"

definition auto_link ::
    "('h, 'd, 'p, 'w) mesh_ops \<Rightarrow> 'd \<Rightarrow> bytes \<Rightarrow> ('h, 'w) bridge_world \<Rightarrow> ('h, 'w) bridge_world" where
  "auto_link M peer app_data = (\<lambda>(sh, b, w).
     (if app_data \<noteq> port_tag (br_channel b) then (sh, b, w)
      else if m_desc_hash M peer = br_dest b then (sh, b, w)
      else (sh, b\<lparr>br_peers := hs_insert (m_desc_hash M peer) (br_peers b)\<rparr>, m_link M peer w)))"

definition reannounce ::
    "('h, 'd, 'p, 'w) mesh_ops \<Rightarrow> ('h, 'w) bridge_world \<Rightarrow> ('h, 'w) bridge_world" where
  "reannounce M = (\<lambda>(sh, b, w). (sh, b, announce_packet M (br_dest b) (port_tag (br_channel b)) w))"

definition start_bridge ::
    "('h, 'd, 'p, 'w) mesh_ops \<Rightarrow> 'w sock_ops \<Rightarrow> atak_channel \<Rightarrow> local_interface
       \<Rightarrow> 'w \<Rightarrow> (string + 'h bridge) \<times> 'w" where
  "start_bridge M S channel local_if w =
     (case m_add_destination M ''kaonic'' (''atak.'' @ dec_str (ch_port channel)) w of
        (dest_hash, w) \<Rightarrow>
          (let w = announce_packet M dest_hash (port_tag channel) w in
           case open_multicast_sockets S channel local_if w of
             (Inl e, w) \<Rightarrow> (Inl e, w)
           | (Inr target, w) \<Rightarrow>
               (Inr \<lparr>br_channel = channel, br_dest = dest_hash, br_target = target, br_peers = [],
                     br_metrics = bridge_metrics_default\<rparr>, w)))"

section \<open>What accepting a payload guarantees\<close>

definition location_ok :: "location_state \<Rightarrow> bool" where
  "location_ok s \<longleftrightarrow> location_inv s \<and> ls_max_records s = DEFAULT_MAX_LOCATION_RECORDS"

definition shared_inv :: "shared_state \<Rightarrow> bool" where
  "shared_inv sh \<longleftrightarrow> location_ok (sh_locations sh) \<and> diag_ok (sh_diagnostics sh)"

lemma accept_payload_accepts:
  "fst (accept_payload X ck data src remote ch allow i l sh) \<longleftrightarrow> is_ok (parse_cot_payload X data) \<or> allow"
  by (auto simp: accept_payload_def Let_def split: sum.split option.split prod.split)

lemma accept_payload_invalid:
  "\<not> is_ok (parse_cot_payload X data) \<Longrightarrow>
   accept_payload X ck data src remote ch allow i l sh = (allow, wrap64 (i + 1), l, sh)"
  by (auto simp: accept_payload_def split: sum.splits)

lemma accept_payload_valid_counter:
  "is_ok (parse_cot_payload X data) \<Longrightarrow>
   fst (snd (accept_payload X ck data src remote ch allow i l sh)) = i"
  by (auto simp: accept_payload_def Let_def split: sum.splits option.splits prod.splits)

lemma location_record_inv:
  "location_inv s \<Longrightarrow> location_inv (snd (location_record t now src port ev s))"
proof (cases "location_record t now src port ev s")
  case (Pair r s')
  assume i: "location_inv s"
  show ?thesis
  proof (cases r)
    case None
    with Pair i show ?thesis by (auto simp: location_record_def Let_def split: option.splits)
  next
    case (Some q)
    with location_record_result [OF i, of t now src port ev q s'] Pair show ?thesis by simp
  qed
qed

lemma location_len_inv: "location_inv s \<Longrightarrow> location_inv (snd (location_len now s))"
  using prune_locations_props(1) [of "ls_records s" now "ls_retention s"]
    prune_locations_props(2) [of now "ls_retention s" "ls_records s"]
    prune_locations_props(3) [of now "ls_retention s" "ls_records s"]
  by (auto simp: location_len_def Let_def location_inv_def)

lemma location_ok_record: "location_ok s \<Longrightarrow> location_ok (snd (location_record t now src port ev s))"
  by (auto simp: location_ok_def location_record_inv)
    (simp add: location_record_def Let_def split: option.split)

lemma location_ok_len: "location_ok s \<Longrightarrow> location_ok (snd (location_len now s))"
  by (auto simp: location_ok_def location_len_inv) (simp add: location_len_def Let_def)

lemma location_ok_default: "location_ok location_default"
  by (simp add: location_ok_def location_default_def location_inv_new)
    (simp add: location_new_def DEFAULT_MAX_LOCATION_RECORDS_def)

lemma accept_payload_inv:
  assumes "shared_inv sh"
  shows "shared_inv (snd (snd (snd (accept_payload X ck data src remote ch allow i l sh))))"
proof (cases "parse_cot_payload X data")
  case (Inl err)
  with assms show ?thesis by (simp add: accept_payload_def)
next
  case (Inr ev)
  obtain r loc where r: "location_record (ck_updated_at ck) (ck_prune ck) src (ch_port ch) ev (sh_locations sh) = (r, loc)"
    by (cases "location_record (ck_updated_at ck) (ck_prune ck) src (ch_port ch) ev (sh_locations sh)")
  have l: "location_ok loc"
    using location_ok_record [of "sh_locations sh" "ck_updated_at ck" "ck_prune ck" src "ch_port ch" ev] assms r
    by (simp add: shared_inv_def)
  have d: "diag_ok (sh_diagnostics sh)" using assms by (simp add: shared_inv_def)
  show ?thesis
    using Inr r l d
    by (cases r; cases remote)
      (simp_all add: accept_payload_def shared_inv_def location_ok_len diag_ok_ops)
qed

section \<open>The peers a task tracks\<close>

locale link_tracker =
  fixes peers_of :: "'s \<Rightarrow> 'h list" and self :: "'s \<Rightarrow> 'h" and tag :: "'s \<Rightarrow> bytes"
    and step :: "'e \<Rightarrow> 's \<Rightarrow> 's"
    and announced :: "'e \<Rightarrow> ('h \<times> bytes) option" and closed :: "'e \<Rightarrow> 'h option"
  assumes self_step: "self (step e s) = self s"
    and tag_step: "tag (step e s) = tag s"
    and peers_announced: "announced e = Some (h, a) \<Longrightarrow>
      peers_of (step e s) = (if a = tag s \<and> h \<noteq> self s then hs_insert h (peers_of s) else peers_of s)"
    and peers_closed: "announced e = None \<Longrightarrow>
      peers_of (step e s) = (case closed e of Some h \<Rightarrow> hs_remove h (peers_of s) | None \<Rightarrow> peers_of s)"
begin

lemma self_run: "self (fold step es s) = self s"
  by (induction es arbitrary: s) (simp_all add: self_step)

lemma tag_run: "tag (fold step es s) = tag s"
  by (induction es arbitrary: s) (simp_all add: tag_step)

lemma peers_step_subset:
  "set (peers_of (step e s)) \<subseteq>
     set (peers_of s) \<union> (case announced e of Some (h, a) \<Rightarrow> if a = tag s \<and> h \<noteq> self s then {h} else {} | None \<Rightarrow> {})"
proof (cases "announced e")
  case None
  then show ?thesis using peers_closed [OF None, of s] by (cases "closed e") auto
next
  case (Some p)
  then obtain h a where p: "announced e = Some (h, a)" by (cases p) auto
  then show ?thesis using peers_announced [OF p, of s] by auto
qed

lemma distinct_step: "distinct (peers_of s) \<Longrightarrow> distinct (peers_of (step e s))"
proof (cases "announced e")
  case None
  assume "distinct (peers_of s)"
  then show ?thesis using peers_closed [OF None, of s] by (cases "closed e") simp_all
next
  case (Some p)
  assume "distinct (peers_of s)"
  then show ?thesis using peers_announced [of e "fst p" "snd p" s] Some by simp
qed

lemma distinct_run: "distinct (peers_of s) \<Longrightarrow> distinct (peers_of (fold step es s))"
  by (induction es arbitrary: s) (simp_all add: distinct_step)

lemma self_not_tracked_step: "self s \<notin> set (peers_of s) \<Longrightarrow> self s \<notin> set (peers_of (step e s))"
  using peers_step_subset [of e s] by (auto split: option.splits if_splits)

lemma self_not_tracked: "self s \<notin> set (peers_of s) \<Longrightarrow> self s \<notin> set (peers_of (fold step es s))"
proof (induction es arbitrary: s)
  case (Cons e es)
  show ?case using Cons.IH [of "step e s"] self_not_tracked_step [OF Cons.prems] by (simp add: self_step)
qed simp

lemma tracked_announced:
  "h \<in> set (peers_of (fold step es s)) \<Longrightarrow>
   h \<in> set (peers_of s) \<or> (\<exists>e\<in>set es. announced e = Some (h, tag s))"
proof (induction es arbitrary: s)
  case (Cons e es)
  then have "h \<in> set (peers_of (step e s)) \<or> (\<exists>e\<in>set es. announced e = Some (h, tag s))"
    using tag_step by fastforce
  moreover have "h \<in> set (peers_of s) \<or> announced e = Some (h, tag s)" if "h \<in> set (peers_of (step e s))"
    using that peers_step_subset [of e s] by (auto split: option.splits if_splits)
  ultimately show ?case by auto
qed simp

lemma closed_forgotten:
  assumes "announced e = None" "closed e = Some h" "\<forall>e\<in>set es. announced e \<noteq> Some (h, tag s)"
  shows "h \<notin> set (peers_of (fold step (e # es) s))"
  using tracked_announced [of h es "step e s"] assms peers_closed [OF assms(1), of s] by (auto simp: tag_step)

end

section \<open>Runs of a bridge\<close>

datatype ('h, 'd) bridge_op =
    BrUdp clock bytes
  | BrLink clock 'h link_event
  | BrAnnounce 'd bytes
  | BrTick

fun bridge_step ::
    "('h, 'd, 'p, 'w) mesh_ops \<Rightarrow> 'n xml_ops \<Rightarrow> bool \<Rightarrow> ('h, 'd) bridge_op
       \<Rightarrow> ('h, 'w) bridge_world \<Rightarrow> ('h, 'w) bridge_world" where
  "bridge_step M X allow (BrUdp ck data) s = udp_to_rns M X allow ck data s"
| "bridge_step M X allow (BrLink ck h ev) s = rns_to_udp M X allow ck h ev s"
| "bridge_step M X allow (BrAnnounce peer app_data) s = auto_link M peer app_data s"
| "bridge_step M X allow BrTick s = reannounce M s"

definition op_announced :: "('h, 'd, 'p, 'w) mesh_ops \<Rightarrow> ('h, 'd) bridge_op \<Rightarrow> ('h \<times> bytes) option" where
  "op_announced M p = (case p of BrAnnounce d a \<Rightarrow> Some (m_desc_hash M d, a) | _ \<Rightarrow> None)"

definition op_closed :: "('h, 'd) bridge_op \<Rightarrow> 'h option" where
  "op_closed p = (case p of BrLink _ h EvClosed \<Rightarrow> Some h | _ \<Rightarrow> None)"

definition bw_bridge :: "('h, 'w) bridge_world \<Rightarrow> 'h bridge" where
  "bw_bridge = (\<lambda>(sh, b, w). b)"

lemma bw_bridge_simp [simp]: "bw_bridge (sh, b, w) = b"
  by (simp add: bw_bridge_def)

lemma udp_to_rns_bridge:
  "\<exists>m. bw_bridge (udp_to_rns M X allow ck data s) = bw_bridge s\<lparr>br_metrics := m\<rparr>"
  by (cases s) (auto simp: udp_to_rns_def Let_def split: prod.split)

lemma rns_data_bridge:
  "\<exists>m. bw_bridge (rns_data M X allow ck h data s) = bw_bridge s\<lparr>br_metrics := m\<rparr>"
  by (cases s) (auto simp: rns_data_def Let_def split: prod.split sum.split)

lemma hs_remove_absent: "x \<notin> set xs \<Longrightarrow> hs_remove x xs = xs"
  by (auto simp: hs_remove_def filter_id_conv)

lemma bridge_step_bridge:
  "br_dest (bw_bridge (bridge_step M X allow p s)) = br_dest (bw_bridge s)
   \<and> br_channel (bw_bridge (bridge_step M X allow p s)) = br_channel (bw_bridge s)
   \<and> br_target (bw_bridge (bridge_step M X allow p s)) = br_target (bw_bridge s)
   \<and> br_peers (bw_bridge (bridge_step M X allow p s)) =
       (case op_announced M p of
          Some (h, a) \<Rightarrow> if a = port_tag (br_channel (bw_bridge s)) \<and> h \<noteq> br_dest (bw_bridge s)
                          then hs_insert h (br_peers (bw_bridge s)) else br_peers (bw_bridge s)
        | None \<Rightarrow> (case op_closed p of Some h \<Rightarrow> hs_remove h (br_peers (bw_bridge s))
                                     | None \<Rightarrow> br_peers (bw_bridge s)))"
proof (cases p)
  case (BrUdp ck data)
  then show ?thesis using udp_to_rns_bridge [of M X allow ck data s] by (auto simp: op_announced_def op_closed_def)
next
  case (BrLink ck h ev)
  obtain sh b w where s: "s = (sh, b, w)" by (cases s)
  show ?thesis
  proof (cases ev)
    case (EvData data)
    obtain m where "bw_bridge (rns_data M X allow ck h data (sh, b, w)) = b\<lparr>br_metrics := m\<rparr>"
      using rns_data_bridge [of M X allow ck h data "(sh, b, w)"] by auto
    then show ?thesis by (simp add: BrLink EvData s op_announced_def op_closed_def rns_to_udp_def)
  qed (simp_all add: BrLink s op_announced_def op_closed_def rns_to_udp_def hs_remove_absent)
next
  case (BrAnnounce d a)
  then show ?thesis by (cases s) (auto simp: op_announced_def op_closed_def auto_link_def)
next
  case BrTick
  then show ?thesis by (cases s) (auto simp: op_announced_def op_closed_def reannounce_def)
qed

interpretation bridge_links: link_tracker "\<lambda>s. br_peers (bw_bridge s)" "\<lambda>s. br_dest (bw_bridge s)"
    "\<lambda>s. port_tag (br_channel (bw_bridge s))" "bridge_step M X allow" "op_announced M" op_closed for M X allow
  by unfold_locales (simp_all add: bridge_step_bridge split: option.split)

text \<open>What a step of a bridge does to the world.\<close>

lemma udp_to_rns_world:
  "snd (snd (udp_to_rns M X allow ck data (sh, b, w))) =
     (if is_ok (parse_cot_payload X data) \<or> allow then m_send_to_in_links M (br_dest b) data w else w)"
  using accept_payload_accepts [of X ck data LocalUdp None "br_channel b" allow
      "bm_invalid_local_packets (br_metrics b)" "bm_local_locations (br_metrics b)" sh]
  by (auto simp: udp_to_rns_def Let_def split: prod.split)

lemma rns_data_world:
  "snd (snd (rns_data M X allow ck h data (sh, b, w))) =
     (if is_ok (parse_cot_payload X data) \<or> allow then snd (m_udp_send M data (br_target b) w) else w)"
  using accept_payload_accepts [of X ck data RemoteReticulum "Some (m_hash_str M h)" "br_channel b" allow
      "bm_invalid_remote_packets (br_metrics b)" "bm_remote_locations (br_metrics b)" sh]
  by (auto simp: rns_data_def Let_def split: prod.split sum.split)

lemma rns_to_udp_world:
  "snd (snd (rns_to_udp M X allow ck h ev (sh, b, w))) =
     (case ev of
        EvData data \<Rightarrow>
          if h \<in> set (br_peers b) \<and> (is_ok (parse_cot_payload X data) \<or> allow)
          then snd (m_udp_send M data (br_target b) w) else w
      | _ \<Rightarrow> w)"
  by (auto simp: rns_to_udp_def rns_data_world split: link_event.split)

lemma udp_to_rns_shared:
  "shared_inv (fst s) \<Longrightarrow> shared_inv (fst (udp_to_rns M X allow ck data s))"
  using accept_payload_inv [of "fst s" X ck data LocalUdp None "br_channel (bw_bridge s)" allow
      "bm_invalid_local_packets (br_metrics (bw_bridge s))" "bm_local_locations (br_metrics (bw_bridge s))"]
  by (cases s) (auto simp: udp_to_rns_def Let_def split: prod.split)

lemma rns_data_shared:
  "shared_inv (fst s) \<Longrightarrow> shared_inv (fst (rns_data M X allow ck h data s))"
  using accept_payload_inv [of "fst s" X ck data RemoteReticulum "Some (m_hash_str M h)" "br_channel (bw_bridge s)"
      allow "bm_invalid_remote_packets (br_metrics (bw_bridge s))" "bm_remote_locations (br_metrics (bw_bridge s))"]
  by (cases s) (auto simp: rns_data_def Let_def split: prod.split sum.split)

lemma bridge_step_shared:
  "shared_inv (fst s) \<Longrightarrow> shared_inv (fst (bridge_step M X allow p s))"
proof (cases p)
  case (BrLink ck h ev)
  assume i: "shared_inv (fst s)"
  with rns_data_shared [of s M X allow ck h] show ?thesis
    by (cases s; cases ev) (auto simp: BrLink rns_to_udp_def)
qed (cases s; auto simp: udp_to_rns_shared auto_link_def reannounce_def)+

end
