(* ===== verification/Config.thy ===== *)
theory Config
  imports Iface Rust_Str
begin

text \<open>
  The configuration of the ATAK plugin (\<open>Command\<close>, \<open>main\<close> and the helpers that read the environment in
  \<open>kaonic-atak-plugin/src/main.rs\<close>). The command line arrives parsed, the environment is a function
  from names to values. The parsing of addresses by the standard library is written out.
\<close>

section \<open>Addresses of the standard library\<close>

datatype socket_addr = SockV4 ipv4 nat | SockV6 "128 word" nat

text \<open>A parser gives a value and the rest of the input.\<close>

type_synonym 'a parser = "string \<Rightarrow> ('a \<times> string) option"

definition digit_of :: "nat \<Rightarrow> char \<Rightarrow> nat option" where
  "digit_of radix c =
     (let d = (if is_ascii_digit c then byte_val c - 48
               else if is_ascii_lowercase c then byte_val c - 87
               else if is_ascii_uppercase c then byte_val c - 55 else 99)
      in if d < radix then Some d else None)"

definition read_number :: "nat \<Rightarrow> nat option \<Rightarrow> bool \<Rightarrow> nat \<Rightarrow> nat parser" where
  "read_number radix max_digits allow_zero_prefix max_val s =
     (let ds = takeWhile (\<lambda>c. digit_of radix c \<noteq> None) s;
          v = foldl (\<lambda>n c. n * radix + (case digit_of radix c of Some d \<Rightarrow> d | None \<Rightarrow> 0)) 0 ds
      in if ds = [] \<or> max_val < v \<or> (case max_digits of Some k \<Rightarrow> k < length ds | None \<Rightarrow> False)
            \<or> (\<not> allow_zero_prefix \<and> hd ds = CHR ''0'' \<and> 1 < length ds) then None
         else Some (v, drop (length ds) s))"

definition read_char :: "char \<Rightarrow> unit parser" where
  "read_char c s = (case s of [] \<Rightarrow> None | d # t \<Rightarrow> if d = c then Some ((), t) else None)"

definition read_then :: "'a parser \<Rightarrow> ('a \<Rightarrow> 'b parser) \<Rightarrow> 'b parser" where
  "read_then p f s = (case p s of None \<Rightarrow> None | Some (x, t) \<Rightarrow> f x t)"

definition read_separator :: "char \<Rightarrow> nat \<Rightarrow> 'a parser \<Rightarrow> 'a parser" where
  "read_separator c i p = (if 0 < i then read_then (read_char c) (\<lambda>_. p) else p)"

definition octet_number :: "nat parser" where
  "octet_number = read_number 10 (Some 3) False 255"

definition read_ipv4 :: "ipv4 parser" where
  "read_ipv4 =
     read_then octet_number (\<lambda>a.
     read_then (read_separator CHR ''.'' 1 octet_number) (\<lambda>b.
     read_then (read_separator CHR ''.'' 2 octet_number) (\<lambda>c.
     read_then (read_separator CHR ''.'' 3 octet_number) (\<lambda>d s. Some (mk_ipv4 a b c d, s)))))"

text \<open>Up to \<open>limit - i\<close> groups of an IPv6 address; the flag says that it ended in an IPv4 address.\<close>

function read_groups :: "nat \<Rightarrow> nat \<Rightarrow> string \<Rightarrow> nat list \<times> bool \<times> string" where
  "read_groups limit i s =
     (if limit \<le> i then ([], False, s)
      else
        (case (if Suc i < limit then read_separator CHR '':'' i read_ipv4 s else None) of
           Some (v4, t) \<Rightarrow> ([unat v4 div 65536, unat v4 mod 65536], True, t)
         | None \<Rightarrow>
             (case read_separator CHR '':'' i (read_number 16 (Some 4) True 65535) s of
                None \<Rightarrow> ([], False, s)
              | Some (g, t) \<Rightarrow> (case read_groups limit (Suc i) t of (gs, v4, u) \<Rightarrow> (g # gs, v4, u)))))"
  by pat_completeness auto
termination by (relation "measure (\<lambda>(limit, i, s). limit - i)") auto

declare read_groups.simps [simp del]

definition ipv6_of_groups :: "nat list \<Rightarrow> 128 word" where
  "ipv6_of_groups gs = of_nat (foldl (\<lambda>n g. n * 65536 + g) 0 gs)"

definition read_ipv6 :: "128 word parser" where
  "read_ipv6 s =
     (case read_groups 8 0 s of (head, head_ipv4, t) \<Rightarrow>
        if length head = 8 then Some (ipv6_of_groups head, t)
        else if head_ipv4 then None
        else read_then (read_char CHR '':'') (\<lambda>_. read_then (read_char CHR '':'') (\<lambda>_ t.
          (case read_groups (7 - length head) 0 t of (back, _, u) \<Rightarrow>
             Some (ipv6_of_groups (head @ replicate (8 - length head - length back) 0 @ back), u)))) t)"

definition read_port :: "nat parser" where
  "read_port = read_then (read_char CHR '':'') (\<lambda>_. read_number 10 None True 65535)"

definition read_scope_id :: "nat parser" where
  "read_scope_id = read_then (read_char CHR ''%'') (\<lambda>_. read_number 10 None True 4294967295)"

definition read_socket_addr_v6 :: "socket_addr parser" where
  "read_socket_addr_v6 =
     read_then (read_char CHR ''['') (\<lambda>_. read_then read_ipv6 (\<lambda>ip s.
       (let t = (case read_scope_id s of None \<Rightarrow> s | Some (_, t) \<Rightarrow> t)
        in read_then (read_char CHR '']'') (\<lambda>_. read_then read_port (\<lambda>port u. Some (SockV6 ip port, u))) t)))"

definition read_socket_addr :: "socket_addr parser" where
  "read_socket_addr s =
     (case read_then read_ipv4 (\<lambda>ip. read_then read_port (\<lambda>port t. Some (SockV4 ip port, t))) s of
        Some r \<Rightarrow> Some r
      | None \<Rightarrow> read_socket_addr_v6 s)"

definition parse_with :: "'a parser \<Rightarrow> string \<Rightarrow> 'a option" where
  "parse_with p s = (case p s of Some (x, []) \<Rightarrow> Some x | _ \<Rightarrow> None)"

definition parse_ipv4 :: "string \<Rightarrow> ipv4 option" where
  "parse_ipv4 s = (if 15 < length s then None else parse_with read_ipv4 s)"

definition parse_socket_addr :: "string \<Rightarrow> socket_addr option" where
  "parse_socket_addr = parse_with read_socket_addr"

fun sock_ip :: "socket_addr \<Rightarrow> ip_addr" where
  "sock_ip (SockV4 ip _) = V4 ip"
| "sock_ip (SockV6 ip _) = V6 ip"

section \<open>The environment\<close>

definition ATAK_INTERFACE_ENV :: string where "ATAK_INTERFACE_ENV = ''KAONIC_ATAK_INTERFACE''"
definition ATAK_INTERFACE_IP_ENV :: string where "ATAK_INTERFACE_IP_ENV = ''KAONIC_ATAK_INTERFACE_IP''"
definition OPAQUE_FORWARDING_ENV :: string where "OPAQUE_FORWARDING_ENV = ''KAONIC_ATAK_ALLOW_OPAQUE_FORWARDING''"
definition DIAGNOSTICS_UNIX_SOCKET_ENV :: string where
  "DIAGNOSTICS_UNIX_SOCKET_ENV = ''KAONIC_ATAK_DIAGNOSTICS_UNIX_SOCKET''"
definition DISABLE_LOCAL_DIAGNOSTICS_CONTROL_ENV :: string where
  "DISABLE_LOCAL_DIAGNOSTICS_CONTROL_ENV = ''KAONIC_ATAK_DISABLE_LOCAL_DIAGNOSTICS_CONTROL''"
definition REQUIRE_DIAGNOSTICS_CONTROL_ENV :: string where
  "REQUIRE_DIAGNOSTICS_CONTROL_ENV = ''KAONIC_ATAK_REQUIRE_DIAGNOSTICS_CONTROL''"
definition DIAGNOSTICS_CONTROL_LISTEN_ENV :: string where
  "DIAGNOSTICS_CONTROL_LISTEN_ENV = ''KAONIC_ATAK_DIAGNOSTICS_CONTROL_LISTEN''"
definition INSECURE_DIAGNOSTICS_CONTROL_LISTEN_ENV :: string where
  "INSECURE_DIAGNOSTICS_CONTROL_LISTEN_ENV = ''KAONIC_ATAK_ALLOW_INSECURE_DIAGNOSTICS_CONTROL_LISTEN''"
definition UNAUTHENTICATED_DIAGNOSTICS_MESH_CONTROL_ENV :: string where
  "UNAUTHENTICATED_DIAGNOSTICS_MESH_CONTROL_ENV = ''KAONIC_ATAK_ENABLE_UNAUTHENTICATED_DIAGNOSTICS_MESH_CONTROL''"
definition DEFAULT_DIAGNOSTICS_UNIX_SOCKET :: string where
  "DEFAULT_DIAGNOSTICS_UNIX_SOCKET = ''/run/kaonic-atak-plugin/diagnostics.sock''"

text \<open>\<open>std::env::var\<close>: \<open>None\<close> when the variable is not set or not UTF-8.\<close>

type_synonym environ = "string \<Rightarrow> string option"

definition non_empty_env :: "environ \<Rightarrow> string \<Rightarrow> string option" where
  "non_empty_env env name =
     (case env name of None \<Rightarrow> None | Some v \<Rightarrow> if trim v = [] then None else Some (trim v))"

definition configured_ipv4 :: "environ \<Rightarrow> ipv4 option \<Rightarrow> string \<Rightarrow> unit + ipv4 option" where
  "configured_ipv4 env cli env_name =
     (if cli \<noteq> None then Inr cli
      else (case non_empty_env env env_name of
              Some v \<Rightarrow> (case parse_ipv4 v of Some ip \<Rightarrow> Inr (Some ip) | None \<Rightarrow> Inl ())
            | None \<Rightarrow> Inr None))"

definition validate_diagnostics_unix_socket_path :: "string \<Rightarrow> string + unit" where
  "validate_diagnostics_unix_socket_path path =
     (if path = [] then Inl ''socket path is empty''
      else if hd path \<noteq> CHR ''/'' then Inl (''socket path must be absolute: '' @ path)
      else Inr ())"

definition configured_diagnostics_unix_socket :: "environ \<Rightarrow> string option \<Rightarrow> string option" where
  "configured_diagnostics_unix_socket env cli =
     (let path = (case cli of Some p \<Rightarrow> p
                  | None \<Rightarrow> (case non_empty_env env DIAGNOSTICS_UNIX_SOCKET_ENV of
                              Some p \<Rightarrow> p | None \<Rightarrow> DEFAULT_DIAGNOSTICS_UNIX_SOCKET))
      in if is_ok (validate_diagnostics_unix_socket_path path) then Some path else None)"

definition validate_diagnostics_control_listen :: "socket_addr \<Rightarrow> bool \<Rightarrow> string + unit" where
  "validate_diagnostics_control_listen listen_addr allow_insecure =
     (if is_loopback (sock_ip listen_addr) \<or> allow_insecure then Inr ()
      else Inl (''diagnostics local control socket must bind to loopback unless ''
                @ ''--allow-insecure-diagnostics-control-listen or ''
                @ INSECURE_DIAGNOSTICS_CONTROL_LISTEN_ENV @ ''=true is set''))"

definition configured_diagnostics_udp_addr ::
    "environ \<Rightarrow> socket_addr option \<Rightarrow> bool \<Rightarrow> socket_addr option" where
  "configured_diagnostics_udp_addr env cli allow_insecure =
     (let configured = (case cli of
                          Some v \<Rightarrow> Some v
                        | None \<Rightarrow> (case non_empty_env env DIAGNOSTICS_CONTROL_LISTEN_ENV of
                                    Some v \<Rightarrow> parse_socket_addr v | None \<Rightarrow> None))
      in Option.bind configured (\<lambda>a.
           if is_ok (validate_diagnostics_control_listen a allow_insecure) then Some a else None))"

definition env_flag_enabled :: "environ \<Rightarrow> string \<Rightarrow> bool" where
  "env_flag_enabled env name =
     (case non_empty_env env name of
        Some v \<Rightarrow> map to_ascii_lower v \<in> {''1'', ''true'', ''yes'', ''on''}
      | None \<Rightarrow> False)"

section \<open>The configuration of main\<close>

record command =
  cmd_local_interface :: "string option"
  cmd_local_address :: "ipv4 option"
  cmd_allow_unvalidated_payloads :: bool
  cmd_diagnostics_unix_socket :: "string option"
  cmd_disable_local_diagnostics_control :: bool
  cmd_require_diagnostics_control :: bool
  cmd_diagnostics_control_listen :: "socket_addr option"
  cmd_allow_insecure_diagnostics_control_listen :: bool
  cmd_enable_unauthenticated_diagnostics_mesh_control :: bool

record diagnostics_control_config =
  dcc_unix_socket :: "string option"
  dcc_udp_addr :: "socket_addr option"
  dcc_require_control :: bool

record plugin_config =
  pc_local_interface :: local_interface
  pc_allow_unvalidated :: bool
  pc_diagnostics :: diagnostics_control_config
  pc_mesh_control :: bool

text \<open>\<open>Inl ()\<close> is the failure exit code.\<close>

definition plugin_config_of :: "environ \<Rightarrow> (string \<times> ip_addr) list option \<Rightarrow> command \<Rightarrow> unit + plugin_config" where
  "plugin_config_of env ifs cmd =
     (let interface_name = (case cmd_local_interface cmd of
                              Some n \<Rightarrow> Some n | None \<Rightarrow> non_empty_env env ATAK_INTERFACE_ENV)
      in and_then (configured_ipv4 env (cmd_local_address cmd) ATAK_INTERFACE_IP_ENV) (\<lambda>local_addr.
         case select_local_interface (load_interface_candidates ifs)
                \<lparr>is_interface_name = interface_name, is_local_addr = local_addr\<rparr> of
           Inl err \<Rightarrow> Inl ()
         | Inr local_interface \<Rightarrow>
             (let disable_local = cmd_disable_local_diagnostics_control cmd
                                  \<or> env_flag_enabled env DISABLE_LOCAL_DIAGNOSTICS_CONTROL_ENV;
                  allow_insecure = cmd_allow_insecure_diagnostics_control_listen cmd
                                   \<or> env_flag_enabled env INSECURE_DIAGNOSTICS_CONTROL_LISTEN_ENV
              in Inr \<lparr>pc_local_interface = local_interface,
                      pc_allow_unvalidated = (cmd_allow_unvalidated_payloads cmd
                                              \<or> env_flag_enabled env OPAQUE_FORWARDING_ENV),
                      pc_diagnostics =
                        \<lparr>dcc_unix_socket = (if disable_local then None
                           else configured_diagnostics_unix_socket env (cmd_diagnostics_unix_socket cmd)),
                         dcc_udp_addr = configured_diagnostics_udp_addr env
                           (cmd_diagnostics_control_listen cmd) allow_insecure,
                         dcc_require_control = (cmd_require_diagnostics_control cmd
                           \<or> env_flag_enabled env REQUIRE_DIAGNOSTICS_CONTROL_ENV)\<rparr>,
                      pc_mesh_control = (cmd_enable_unauthenticated_diagnostics_mesh_control cmd
                        \<or> env_flag_enabled env UNAUTHENTICATED_DIAGNOSTICS_MESH_CONTROL_ENV)\<rparr>)))"

section \<open>What the configuration guarantees\<close>

lemma configured_udp_safe:
  "configured_diagnostics_udp_addr env cli allow = Some a \<Longrightarrow> is_loopback (sock_ip a) \<or> allow"
  by (auto simp: configured_diagnostics_udp_addr_def Let_def Option.bind_eq_Some_conv
      validate_diagnostics_control_listen_def split: if_splits)

lemma configured_unix_absolute:
  "configured_diagnostics_unix_socket env cli = Some p \<Longrightarrow> \<exists>q. p = CHR ''/'' # q"
  by (auto simp: configured_diagnostics_unix_socket_def Let_def validate_diagnostics_unix_socket_path_def
      neq_Nil_conv split: if_splits)

lemma plugin_config_Inr:
  assumes "plugin_config_of env ifs cmd = Inr c"
  shows "pc_allow_unvalidated c \<longleftrightarrow> cmd_allow_unvalidated_payloads cmd \<or> env_flag_enabled env OPAQUE_FORWARDING_ENV"
    "pc_mesh_control c \<longleftrightarrow> cmd_enable_unauthenticated_diagnostics_mesh_control cmd
       \<or> env_flag_enabled env UNAUTHENTICATED_DIAGNOSTICS_MESH_CONTROL_ENV"
    "dcc_udp_addr (pc_diagnostics c) = configured_diagnostics_udp_addr env (cmd_diagnostics_control_listen cmd)
       (cmd_allow_insecure_diagnostics_control_listen cmd
        \<or> env_flag_enabled env INSECURE_DIAGNOSTICS_CONTROL_LISTEN_ENV)"
    "dcc_unix_socket (pc_diagnostics c) =
       (if cmd_disable_local_diagnostics_control cmd \<or> env_flag_enabled env DISABLE_LOCAL_DIAGNOSTICS_CONTROL_ENV
        then None else configured_diagnostics_unix_socket env (cmd_diagnostics_unix_socket cmd))"
    "dcc_require_control (pc_diagnostics c) \<longleftrightarrow>
       cmd_require_diagnostics_control cmd \<or> env_flag_enabled env REQUIRE_DIAGNOSTICS_CONTROL_ENV"
    "\<exists>sel. select_local_interface (load_interface_candidates ifs) sel = Inr (pc_local_interface c)"
proof -
  let ?sel = "\<lambda>la. \<lparr>is_interface_name = (case cmd_local_interface cmd of
           Some n \<Rightarrow> Some n | None \<Rightarrow> non_empty_env env ATAK_INTERFACE_ENV), is_local_addr = la\<rparr>"
  obtain la where la: "configured_ipv4 env (cmd_local_address cmd) ATAK_INTERFACE_IP_ENV = Inr la"
    using assms by (cases "configured_ipv4 env (cmd_local_address cmd) ATAK_INTERFACE_IP_ENV")
      (simp_all add: plugin_config_of_def)
  obtain li where li: "select_local_interface (load_interface_candidates ifs) (?sel la) = Inr li"
    using assms la by (cases "select_local_interface (load_interface_candidates ifs) (?sel la)")
      (simp_all add: plugin_config_of_def)
  note c = assms [unfolded plugin_config_of_def Let_def la and_then_simps li sum.case sum.inject, symmetric]
  show "pc_allow_unvalidated c \<longleftrightarrow> cmd_allow_unvalidated_payloads cmd \<or> env_flag_enabled env OPAQUE_FORWARDING_ENV"
    "pc_mesh_control c \<longleftrightarrow> cmd_enable_unauthenticated_diagnostics_mesh_control cmd
       \<or> env_flag_enabled env UNAUTHENTICATED_DIAGNOSTICS_MESH_CONTROL_ENV"
    "dcc_udp_addr (pc_diagnostics c) = configured_diagnostics_udp_addr env (cmd_diagnostics_control_listen cmd)
       (cmd_allow_insecure_diagnostics_control_listen cmd
        \<or> env_flag_enabled env INSECURE_DIAGNOSTICS_CONTROL_LISTEN_ENV)"
    "dcc_unix_socket (pc_diagnostics c) =
       (if cmd_disable_local_diagnostics_control cmd \<or> env_flag_enabled env DISABLE_LOCAL_DIAGNOSTICS_CONTROL_ENV
        then None else configured_diagnostics_unix_socket env (cmd_diagnostics_unix_socket cmd))"
    "dcc_require_control (pc_diagnostics c) \<longleftrightarrow>
       cmd_require_diagnostics_control cmd \<or> env_flag_enabled env REQUIRE_DIAGNOSTICS_CONTROL_ENV"
    by (simp_all add: c)
  show "\<exists>sel. select_local_interface (load_interface_candidates ifs) sel = Inr (pc_local_interface c)"
    using li by (auto simp: c)
qed

lemma load_interface_candidates_not_loopback:
  "c \<in> set (load_interface_candidates ifs) \<Longrightarrow> \<not> is_loopback_v4 (ic_addr c)"
  by (cases ifs)
    (auto simp: load_interface_candidates_def List.map_filter_def split: ip_addr.splits if_splits)

end
