(* ===== verification/Diag_Control.thy ===== *)
theory Diag_Control
  imports Bridge Config
begin

text \<open>
  The diagnostics control of the ATAK plugin (\<open>kaonic-atak-plugin/src/main.rs\<close>): the requests of the
  local sockets with their replies, the commands that come over the mesh, and the start of both. The
  clock, the random number of a command id and the calls on sockets and files are parameters.
\<close>

section \<open>Numbers in text\<close>

text \<open>
  The \<open>Display\<close> of a finite \<open>f64\<close>: the fewest digits that read back as the number, the nearest of
  them, without an exponent. Seventeen digits always do.
\<close>

fun dec_exponent :: "nat \<Rightarrow> nat \<Rightarrow> int" where
  "dec_exponent a b = int (length (dec_str a)) - int (length (dec_str b))"

definition shortest_candidate :: "rat \<Rightarrow> int \<Rightarrow> nat option" where
  "shortest_candidate m e =
     (let x = (if 0 \<le> e then m / 10 ^ nat e else m * 10 ^ nat (- e));
          lo = nat \<lfloor>x\<rfloor>; hi = lo + 1;
          reads = (\<lambda>c. decimal_f64 False c e = F64 False m)
      in if reads lo \<and> reads hi then Some (if x - of_nat lo \<le> of_nat hi - x then lo else hi)
         else if reads lo then Some lo else if reads hi then Some hi else None)"

fun shortest_decimal :: "nat \<Rightarrow> rat \<Rightarrow> int \<Rightarrow> nat \<times> int" where
  "shortest_decimal 0 m e = (nat \<lfloor>if 0 \<le> e then m / 10 ^ nat e else m * 10 ^ nat (- e)\<rfloor>, e)"
| "shortest_decimal (Suc k) m e =
     (case shortest_candidate m e of Some c \<Rightarrow> (c, e) | None \<Rightarrow> shortest_decimal k m (e - 1))"

fun strip_zeros :: "string \<Rightarrow> string" where
  "strip_zeros [] = []"
| "strip_zeros (c # s) = (if c = CHR ''0'' then strip_zeros s else c # s)"

definition with_fraction :: "string \<Rightarrow> nat \<Rightarrow> string" where
  "with_fraction ds k =
     (let ip = take (length ds - k) ds;
          fp = rev (strip_zeros (rev (drop (length ds - k) ds)))
      in if fp = [] then ip else ip @ ''.'' @ fp)"

definition place_point :: "nat \<Rightarrow> int \<Rightarrow> string" where
  "place_point c e =
     (if c = 0 then ''0''
      else if 0 \<le> e then dec_str c @ replicate (nat e) CHR ''0''
      else with_fraction (replicate (Suc (nat (- e)) - length (dec_str c)) CHR ''0'' @ dec_str c) (nat (- e)))"

fun f64_to_string :: "f64 \<Rightarrow> string" where
  "f64_to_string NaN64 = ''NaN''"
| "f64_to_string (Inf64 neg) = (if neg then ''-inf'' else ''inf'')"
| "f64_to_string (F64 neg m) =
     (let (n, d) = quotient_of m;
          (c, e) = (if m = 0 then (0, 0) else shortest_decimal 18 m (dec_exponent (nat n) (nat d)))
      in (if neg then ''-'' else []) @ place_point c e)"

section \<open>Local requests\<close>

definition MAX_LOCAL_RECENT_RECORDS :: nat where "MAX_LOCAL_RECENT_RECORDS = 20"
definition MAX_LOCAL_DIAGNOSTIC_REQUEST_BYTES :: nat where "MAX_LOCAL_DIAGNOSTIC_REQUEST_BYTES = 256"
definition DIAGNOSTICS_DEST_NAME :: string where "DIAGNOSTICS_DEST_NAME = ''atak.diag.control''"
definition DIAGNOSTICS_PORT_TAG :: bytes where "DIAGNOSTICS_PORT_TAG = ''atak-diag-control-v1''"

text \<open>\<open>usize\<close> of the target the plugin is released for, armv7.\<close>

definition usize_max :: nat where "usize_max = 4294967295"

datatype local_diagnostic_request = LrEnable nat | LrDisable | LrStatus | LrRecent nat

definition parse_enable :: "string \<Rightarrow> string + local_diagnostic_request" where
  "parse_enable f =
     (case parse_uint u64_max f of
        None \<Rightarrow> Inl ''enable duration must be an integer number of seconds''
      | Some seconds \<Rightarrow>
          if \<not> (1 \<le> seconds \<and> seconds \<le> MAX_ENABLE_SECONDS)
          then Inl (''enable duration must be between 1 and '' @ dec_str MAX_ENABLE_SECONDS @ '' seconds'')
          else Inr (LrEnable seconds))"

definition parse_recent :: "string \<Rightarrow> string + local_diagnostic_request" where
  "parse_recent f =
     (case parse_uint usize_max f of
        None \<Rightarrow> Inl ''recent limit must be an integer''
      | Some limit \<Rightarrow>
          if \<not> (1 \<le> limit \<and> limit \<le> MAX_LOCAL_RECENT_RECORDS)
          then Inl (''recent limit must be between 1 and '' @ dec_str MAX_LOCAL_RECENT_RECORDS)
          else Inr (LrRecent limit))"

definition parse_fields :: "string list \<Rightarrow> string + local_diagnostic_request" where
  "parse_fields fs =
     (if fs = [''enable''] then Inr (LrEnable DEFAULT_ENABLE_SECONDS)
      else if length fs = 2 \<and> fs ! 0 = ''enable'' then parse_enable (fs ! 1)
      else if fs = [''disable''] then Inr LrDisable
      else if fs = [''status''] then Inr LrStatus
      else if fs = [''recent''] then Inr (LrRecent 10)
      else if length fs = 2 \<and> fs ! 0 = ''recent'' then parse_recent (fs ! 1)
      else Inl ''expected: enable [seconds], disable, status, or recent [1-20]'')"

definition parse_local_diagnostic_request :: "bytes \<Rightarrow> string + local_diagnostic_request" where
  "parse_local_diagnostic_request payload =
     (if length payload \<ge> MAX_LOCAL_DIAGNOSTIC_REQUEST_BYTES \<or> length payload > MAX_COMMAND_BYTES
      then Inl ''local diagnostics command is too large''
      else (case from_utf8 payload of
              None \<Rightarrow> Inl ''local diagnostics command is not UTF-8''
            | Some txt \<Rightarrow> parse_fields (split_whitespace txt)))"

definition new_command_id :: "nat \<Rightarrow> nat \<Rightarrow> string" where
  "new_command_id timestamp random = hex_str timestamp @ ''-'' @ hex_str random"

section \<open>Replies\<close>

definition sanitize_field :: "string \<Rightarrow> string" where
  "sanitize_field v = map (\<lambda>c. if is_ascii_graphic c \<and> c \<noteq> CHR ''='' then c else CHR ''_'') (chars v)"

definition NL :: string where "NL = [CHR 0x0A]"

definition format_diagnostic_status :: "nat \<Rightarrow> diagnostic_state \<Rightarrow> string \<times> diagnostic_state" where
  "format_diagnostic_status now st =
     (case status_at now st of
        (s, st) \<Rightarrow>
          (''OK enabled='' @ bool_str (ds_enabled s) @ '' remaining_seconds='' @ dec_str (ds_remaining_seconds s)
           @ '' records='' @ dec_str (ds_record_count s) @ NL, st))"

definition format_diagnostic_record :: "diagnostic_record \<Rightarrow> string" where
  "format_diagnostic_record r =
     (let head = ''RECORD unix_ms='' @ dec_str (dr_observed_at r div 1000000) @ '' peer='' @ dr_remote_peer_hash r
                 @ '' port='' @ dec_str (dr_channel_port r) @ '' uid='' @ sanitize_field (dr_uid r)
                 @ '' callsign='' @ sanitize_field (case dr_callsign r of Some c \<Rightarrow> c | None \<Rightarrow> ''-'')
                 @ '' type='' @ sanitize_field (dr_event_type r)
      in case dr_point r of
           Some (lat, lon) \<Rightarrow> head @ '' lat='' @ f64_to_string lat @ '' lon='' @ f64_to_string lon @ NL
         | None \<Rightarrow> head @ '' lat=- lon=-'' @ NL)"

definition format_recent_records :: "nat \<Rightarrow> nat \<Rightarrow> nat \<Rightarrow> diagnostic_state \<Rightarrow> string \<times> diagnostic_state" where
  "format_recent_records limit now_recent now_status st =
     (case recent_at limit now_recent st of
        (records, st) \<Rightarrow>
          (case format_diagnostic_status now_status st of
             (out, st) \<Rightarrow> (out @ concat (map format_diagnostic_record records), st)))"

section \<open>Handling a local request\<close>

text \<open>
  The inputs of one request: the time stamp and the random number of a new command id, and the
  readings of the clock. The mesh control is the destination, when it is enabled.
\<close>

record request_env =
  rq_timestamp :: nat
  rq_random :: nat
  rq_apply :: nat
  rq_recent :: nat
  rq_status :: nat

definition apply_local_command ::
    "('h, 'd, 'p, 'w) mesh_ops \<Rightarrow> request_env \<Rightarrow> 'h option \<Rightarrow> diagnostic_command_error + diagnostic_command
       \<Rightarrow> diagnostic_state \<times> 'w \<Rightarrow> string \<times> diagnostic_state \<times> 'w" where
  "apply_local_command M q mesh command = (\<lambda>(st, w).
     (case command of
        Inl err \<Rightarrow> (''ERR '' @ dc_error_to_string err @ NL, st, w)
      | Inr c \<Rightarrow>
          (let st = snd (apply_once c (rq_apply q) st);
               w = (case mesh of Some dest \<Rightarrow> m_send_to_in_links M dest (encode_command c) w | None \<Rightarrow> w)
           in case format_diagnostic_status (rq_status q) st of (out, st) \<Rightarrow> (out, st, w))))"

definition handle_local_diagnostic_request ::
    "('h, 'd, 'p, 'w) mesh_ops \<Rightarrow> request_env \<Rightarrow> bytes \<Rightarrow> 'h option
       \<Rightarrow> diagnostic_state \<times> 'w \<Rightarrow> string \<times> diagnostic_state \<times> 'w" where
  "handle_local_diagnostic_request M q payload mesh = (\<lambda>(st, w).
     (let i = new_command_id (rq_timestamp q) (rq_random q) in
      case parse_local_diagnostic_request payload of
        Inr (LrEnable seconds) \<Rightarrow> apply_local_command M q mesh (enable_command i seconds) (st, w)
      | Inr LrDisable \<Rightarrow> apply_local_command M q mesh (disable_command i) (st, w)
      | Inr LrStatus \<Rightarrow> (case format_diagnostic_status (rq_status q) st of (out, st) \<Rightarrow> (out, st, w))
      | Inr (LrRecent limit) \<Rightarrow>
          (case format_recent_records limit (rq_recent q) (rq_status q) st of (out, st) \<Rightarrow> (out, st, w))
      | Inl err \<Rightarrow> (''ERR '' @ err @ NL, st, w)))"

text \<open>The socket tasks: a buffer of 256 bytes, and a Unix reply only to a sender with a path name.\<close>

definition udp_control ::
    "('h, 'd, 'p, 'w) mesh_ops \<Rightarrow> (string \<Rightarrow> 'a \<Rightarrow> 'w \<Rightarrow> 'w) \<Rightarrow> request_env \<Rightarrow> 'h option \<Rightarrow> bytes \<Rightarrow> 'a
       \<Rightarrow> diagnostic_state \<times> 'w \<Rightarrow> diagnostic_state \<times> 'w" where
  "udp_control M reply q mesh datagram source s =
     (case handle_local_diagnostic_request M q (take MAX_LOCAL_DIAGNOSTIC_REQUEST_BYTES datagram) mesh s of
        (response, st, w) \<Rightarrow> (st, reply response source w))"

definition unix_control ::
    "('h, 'd, 'p, 'w) mesh_ops \<Rightarrow> (string \<Rightarrow> 'a \<Rightarrow> 'w \<Rightarrow> 'w) \<Rightarrow> request_env \<Rightarrow> 'h option \<Rightarrow> bytes \<Rightarrow> 'a option
       \<Rightarrow> diagnostic_state \<times> 'w \<Rightarrow> diagnostic_state \<times> 'w" where
  "unix_control M reply q mesh datagram source s =
     (case handle_local_diagnostic_request M q (take MAX_LOCAL_DIAGNOSTIC_REQUEST_BYTES datagram) mesh s of
        (response, st, w) \<Rightarrow> (st, case source of Some path \<Rightarrow> reply response path w | None \<Rightarrow> w))"

section \<open>Commands over the mesh\<close>

record 'h diag_mesh =
  dm_dest :: 'h
  dm_peers :: "'h list"

type_synonym ('h, 'w) mesh_world = "diagnostic_state \<times> 'h diag_mesh \<times> 'w"

definition network_command ::
    "('h, 'd, 'p, 'w) mesh_ops \<Rightarrow> nat \<Rightarrow> bytes \<Rightarrow> ('h, 'w) mesh_world \<Rightarrow> ('h, 'w) mesh_world" where
  "network_command M now payload = (\<lambda>(st, m, w).
     (case parse_command payload of
        Inr c \<Rightarrow>
          (case apply_once c now st of
             (True, st) \<Rightarrow> (st, m, m_send_to_in_links M (dm_dest m) (encode_command c) w)
           | (False, st) \<Rightarrow> (st, m, w))
      | Inl err \<Rightarrow> (st, m, w)))"

definition network_control ::
    "('h, 'd, 'p, 'w) mesh_ops \<Rightarrow> nat \<Rightarrow> 'h \<Rightarrow> link_event \<Rightarrow> ('h, 'w) mesh_world \<Rightarrow> ('h, 'w) mesh_world" where
  "network_control M now address_hash ev = (\<lambda>(st, m, w).
     (if address_hash \<notin> set (dm_peers m) then (st, m, w)
      else (case ev of
              EvActivated \<Rightarrow> (st, m, w)
            | EvClosed \<Rightarrow> (st, m\<lparr>dm_peers := hs_remove address_hash (dm_peers m)\<rparr>, w)
            | EvData payload \<Rightarrow> network_command M now payload (st, m, w)
            | EvProof _ \<Rightarrow> (st, m, w))))"

definition mesh_auto_link ::
    "('h, 'd, 'p, 'w) mesh_ops \<Rightarrow> 'd \<Rightarrow> bytes \<Rightarrow> ('h, 'w) mesh_world \<Rightarrow> ('h, 'w) mesh_world" where
  "mesh_auto_link M peer app_data = (\<lambda>(st, m, w).
     (if app_data \<noteq> DIAGNOSTICS_PORT_TAG then (st, m, w)
      else if m_desc_hash M peer = dm_dest m then (st, m, w)
      else (st, m\<lparr>dm_peers := hs_insert (m_desc_hash M peer) (dm_peers m)\<rparr>, m_link M peer w)))"

definition mesh_reannounce ::
    "('h, 'd, 'p, 'w) mesh_ops \<Rightarrow> ('h, 'w) mesh_world \<Rightarrow> ('h, 'w) mesh_world" where
  "mesh_reannounce M = (\<lambda>(st, m, w). (st, m, announce_packet M (dm_dest m) DIAGNOSTICS_PORT_TAG w))"

section \<open>Start\<close>

record 'w control_ops =
  co_create_dir_all :: "string \<Rightarrow> ('w, string) action"
  co_remove_file :: "string \<Rightarrow> 'w \<Rightarrow> ((bool \<times> string) + unit) \<times> 'w"
  co_unix_bind :: "string \<Rightarrow> ('w, string) action"
  co_set_mode :: "string \<Rightarrow> nat \<Rightarrow> ('w, string) action"
  co_udp_bind :: "socket_addr \<Rightarrow> ('w, string) action"

text \<open>The flag of a failed removal tells that the file does not exist.\<close>

definition bind_unix_diagnostics_socket :: "'w control_ops \<Rightarrow> string \<Rightarrow> ('w, string) action" where
  "bind_unix_diagnostics_socket C path =
     try_all
       [\<lambda>w. (case path_parent path of Some parent \<Rightarrow> co_create_dir_all C parent w | None \<Rightarrow> (Inr (), w)),
        \<lambda>w. (case co_remove_file C path w of
               (Inr _, w) \<Rightarrow> (Inr (), w)
             | (Inl (not_found, err), w) \<Rightarrow> (if not_found then Inr () else Inl err, w)),
        co_unix_bind C path,
        co_set_mode C path 384]"

datatype control_error =
    UnixUnavailable string string
  | UdpUnavailable socket_addr string
  | NoLocalControl

text \<open>A task that was spawned; a socket task carries the destination of the mesh control.\<close>

datatype 'h control_task =
    UnixControl "'h option"
  | UdpControl "'h option"
  | NetworkControl
  | AutoLink
  | Reannounce

text \<open>Binding an endpoint that may be absent: whether it is bound.\<close>

definition bind_endpoint ::
    "'a option \<Rightarrow> ('a \<Rightarrow> ('w, string) action) \<Rightarrow> ('a \<Rightarrow> string \<Rightarrow> control_error) \<Rightarrow> bool
       \<Rightarrow> 'w \<Rightarrow> (control_error + bool) \<times> 'w" where
  "bind_endpoint endpoint bind_to err_of require_control w =
     (case endpoint of
        None \<Rightarrow> (Inr False, w)
      | Some a \<Rightarrow>
          (case bind_to a w of
             (Inr _, w) \<Rightarrow> (Inr True, w)
           | (Inl err, w) \<Rightarrow> (if require_control then Inl (err_of a err) else Inr False, w)))"

definition socket_tasks :: "bool \<Rightarrow> bool \<Rightarrow> 'h option \<Rightarrow> 'h control_task list" where
  "socket_tasks unix_bound udp_bound mesh =
     (if unix_bound then [UnixControl mesh] else []) @ (if udp_bound then [UdpControl mesh] else [])"

text \<open>The tasks, and the state of the mesh control when it is enabled.\<close>

definition start_diagnostics_control ::
    "'w control_ops \<Rightarrow> ('h, 'd, 'p, 'w) mesh_ops \<Rightarrow> diagnostics_control_config \<Rightarrow> bool
       \<Rightarrow> 'w \<Rightarrow> (control_error + 'h control_task list \<times> 'h diag_mesh option) \<times> 'w" where
  "start_diagnostics_control C M cfg enable_mesh_control w =
     (case bind_endpoint (dcc_unix_socket cfg) (bind_unix_diagnostics_socket C) UnixUnavailable
             (dcc_require_control cfg) w of
        (Inl e, w) \<Rightarrow> (Inl e, w)
      | (Inr unix_bound, w) \<Rightarrow>
     (case bind_endpoint (dcc_udp_addr cfg) (co_udp_bind C) UdpUnavailable (dcc_require_control cfg) w of
        (Inl e, w) \<Rightarrow> (Inl e, w)
      | (Inr udp_bound, w) \<Rightarrow>
        if \<not> (unix_bound \<or> udp_bound) \<and> dcc_require_control cfg then (Inl NoLocalControl, w)
        else if \<not> enable_mesh_control then (Inr (socket_tasks unix_bound udp_bound None, None), w)
        else
          (case m_add_destination M ''kaonic'' DIAGNOSTICS_DEST_NAME w of
             (dest_hash, w) \<Rightarrow>
               (Inr (socket_tasks unix_bound udp_bound (Some dest_hash) @ [NetworkControl, AutoLink, Reannounce],
                     Some \<lparr>dm_dest = dest_hash, dm_peers = []\<rparr>),
                announce_packet M dest_hash DIAGNOSTICS_PORT_TAG w))))"

section \<open>Lemmas\<close>

lemma start_not_required:
  "\<not> dcc_require_control cfg \<Longrightarrow> is_ok (fst (start_diagnostics_control C M cfg mesh w))"
  by (auto simp: start_diagnostics_control_def bind_endpoint_def split: option.split sum.split prod.split)

lemma bind_endpoint_result:
  "bind_endpoint ep b err_of req w = (Inr bound, w') \<Longrightarrow>
     (bound \<longleftrightarrow> (\<exists>a w1. ep = Some a \<and> b a w = (Inr (), w1))) \<and> (req \<and> ep \<noteq> None \<longrightarrow> bound)"
  by (auto simp: bind_endpoint_def split: option.splits sum.splits prod.splits if_splits)

text \<open>The two endpoints of a start that succeeds.\<close>

lemma start_bound:
  assumes "start_diagnostics_control C M cfg mesh w = (Inr (tasks, m), w')"
  obtains ub pb w1 w2 where
    "bind_endpoint (dcc_unix_socket cfg) (bind_unix_diagnostics_socket C) UnixUnavailable (dcc_require_control cfg) w
       = (Inr ub, w1)"
    "bind_endpoint (dcc_udp_addr cfg) (co_udp_bind C) UdpUnavailable (dcc_require_control cfg) w1 = (Inr pb, w2)"
    "ub \<or> pb \<or> \<not> dcc_require_control cfg"
    "set (socket_tasks ub pb (map_option dm_dest m)) \<subseteq> set tasks"
proof -
  let ?u = "bind_endpoint (dcc_unix_socket cfg) (bind_unix_diagnostics_socket C) UnixUnavailable (dcc_require_control cfg)"
  let ?p = "bind_endpoint (dcc_udp_addr cfg) (co_udp_bind C) UdpUnavailable (dcc_require_control cfg)"
  obtain ub w1 where u: "?u w = (Inr ub, w1)"
    using assms by (cases "?u w"; cases "fst (?u w)") (auto simp: start_diagnostics_control_def)
  obtain pb w2 where p: "?p w1 = (Inr pb, w2)"
    using assms u by (cases "?p w1"; cases "fst (?p w1)") (auto simp: start_diagnostics_control_def)
  have "ub \<or> pb \<or> \<not> dcc_require_control cfg"
    using assms u p by (auto simp: start_diagnostics_control_def)
  moreover have "set (socket_tasks ub pb (map_option dm_dest m)) \<subseteq> set tasks"
    using assms u p
    by (cases mesh; cases "m_add_destination M ''kaonic'' DIAGNOSTICS_DEST_NAME w2")
      (auto simp: start_diagnostics_control_def split: if_splits)
  ultimately show thesis using that u p by blast
qed

lemma socket_tasks_mem:
  "set (socket_tasks ub pb h) \<subseteq> set tasks \<Longrightarrow>
   (ub \<longrightarrow> UnixControl h \<in> set tasks) \<and> (pb \<longrightarrow> UdpControl h \<in> set tasks)"
  by (auto simp: socket_tasks_def)

lemma start_required:
  assumes "start_diagnostics_control C M cfg mesh w = (Inr (tasks, m), w')" "dcc_require_control cfg"
  shows "(\<exists>h. UnixControl h \<in> set tasks \<or> UdpControl h \<in> set tasks)
    \<and> (dcc_unix_socket cfg \<noteq> None \<longrightarrow> (\<exists>h. UnixControl h \<in> set tasks))
    \<and> (dcc_udp_addr cfg \<noteq> None \<longrightarrow> (\<exists>h. UdpControl h \<in> set tasks))"
proof (rule start_bound [OF assms(1)])
  fix ub pb w1 w2
  assume u: "bind_endpoint (dcc_unix_socket cfg) (bind_unix_diagnostics_socket C) UnixUnavailable
      (dcc_require_control cfg) w = (Inr ub, w1)"
    and p: "bind_endpoint (dcc_udp_addr cfg) (co_udp_bind C) UdpUnavailable (dcc_require_control cfg) w1 = (Inr pb, w2)"
    and b: "ub \<or> pb \<or> \<not> dcc_require_control cfg"
    and t: "set (socket_tasks ub pb (map_option dm_dest m)) \<subseteq> set tasks"
  show ?thesis
    using bind_endpoint_result [OF u] bind_endpoint_result [OF p] b socket_tasks_mem [OF t] assms(2) by blast
qed

text \<open>Without mesh control the transport is not touched.\<close>

lemma start_no_mesh:
  "start_diagnostics_control C M cfg False w = start_diagnostics_control C M' cfg False w"
  unfolding start_diagnostics_control_def not_False_eq_True if_True by (rule refl)

lemma start_no_mesh_result:
  "start_diagnostics_control C M cfg False w = (Inr (tasks, m), w') \<Longrightarrow>
   m = None \<and> set tasks \<subseteq> {UnixControl None, UdpControl None}"
  by (auto simp: start_diagnostics_control_def socket_tasks_def split: sum.splits prod.splits if_splits)

lemma command_id_valid:
  assumes "t < 2 ^ 128" "r < 2 ^ 64"
  shows "validate_id (new_command_id t r) = Inr ()" "utf8_valid (new_command_id t r)"
proof -
  have a: "list_all id_char (new_command_id t r)"
    using hex_str_alnum [of t] hex_str_alnum [of r]
    by (auto simp: new_command_id_def list_all_iff id_char_def)
  then show u: "utf8_valid (new_command_id t r)"
    using id_char_graphic by (intro utf8_valid_ascii) (auto simp: list_all_iff)
  have "length (hex_str t) \<le> 32" "length (hex_str r) \<le> 16"
    using assms by (auto intro!: length_hex_str)
  then show "validate_id (new_command_id t r) = Inr ()"
    using a by (subst validate_id_Inr [OF u]) (auto simp: new_command_id_def)
qed

section \<open>Runs of the mesh control\<close>

datatype ('h, 'd) mesh_op =
    MsLink nat 'h link_event
  | MsAnnounce 'd bytes
  | MsTick

fun mesh_step ::
    "('h, 'd, 'p, 'w) mesh_ops \<Rightarrow> ('h, 'd) mesh_op \<Rightarrow> ('h, 'w) mesh_world \<Rightarrow> ('h, 'w) mesh_world" where
  "mesh_step M (MsLink now h ev) s = network_control M now h ev s"
| "mesh_step M (MsAnnounce peer app_data) s = mesh_auto_link M peer app_data s"
| "mesh_step M MsTick s = mesh_reannounce M s"

definition mesh_announced :: "('h, 'd, 'p, 'w) mesh_ops \<Rightarrow> ('h, 'd) mesh_op \<Rightarrow> ('h \<times> bytes) option" where
  "mesh_announced M p = (case p of MsAnnounce d a \<Rightarrow> Some (m_desc_hash M d, a) | _ \<Rightarrow> None)"

definition mesh_closed :: "('h, 'd) mesh_op \<Rightarrow> 'h option" where
  "mesh_closed p = (case p of MsLink _ h EvClosed \<Rightarrow> Some h | _ \<Rightarrow> None)"

definition mw_mesh :: "('h, 'w) mesh_world \<Rightarrow> 'h diag_mesh" where
  "mw_mesh = (\<lambda>(st, m, w). m)"

lemma mw_mesh_simp [simp]: "mw_mesh (st, m, w) = m"
  by (simp add: mw_mesh_def)

lemma network_command_mesh [simp]: "mw_mesh (network_command M now payload s) = mw_mesh s"
  by (cases s) (auto simp: network_command_def split: sum.split prod.split bool.split)

lemma mesh_step_mesh:
  "dm_dest (mw_mesh (mesh_step M p s)) = dm_dest (mw_mesh s)
   \<and> dm_peers (mw_mesh (mesh_step M p s)) =
       (case mesh_announced M p of
          Some (h, a) \<Rightarrow> if a = DIAGNOSTICS_PORT_TAG \<and> h \<noteq> dm_dest (mw_mesh s)
                          then hs_insert h (dm_peers (mw_mesh s)) else dm_peers (mw_mesh s)
        | None \<Rightarrow> (case mesh_closed p of Some h \<Rightarrow> hs_remove h (dm_peers (mw_mesh s))
                                       | None \<Rightarrow> dm_peers (mw_mesh s)))"
proof (cases p)
  case (MsLink now h ev)
  obtain st m w where s: "s = (st, m, w)" by (cases s)
  show ?thesis
    by (cases ev)
      (simp_all add: MsLink s mesh_announced_def mesh_closed_def network_control_def hs_remove_absent)
next
  case (MsAnnounce d a)
  then show ?thesis by (cases s) (auto simp: mesh_announced_def mesh_closed_def mesh_auto_link_def)
next
  case MsTick
  then show ?thesis by (cases s) (auto simp: mesh_announced_def mesh_closed_def mesh_reannounce_def)
qed

interpretation mesh_links: link_tracker "\<lambda>s. dm_peers (mw_mesh s)" "\<lambda>s. dm_dest (mw_mesh s)"
    "\<lambda>s. DIAGNOSTICS_PORT_TAG" "mesh_step M" "mesh_announced M" mesh_closed for M
  by unfold_locales (simp_all add: mesh_step_mesh split: option.split)

lemma network_command_ok: "diag_ok (fst s) \<Longrightarrow> diag_ok (fst (network_command M now payload s))"
  by (cases s; cases "parse_command payload")
    (simp_all add: network_command_def split_beta diag_ok_ops(1) split: bool.split)

lemma mesh_step_ok: "diag_ok (fst s) \<Longrightarrow> diag_ok (fst (mesh_step M p s))"
proof (cases p)
  case (MsLink now h ev)
  assume i: "diag_ok (fst s)"
  with network_command_ok [of s M now] show ?thesis
    by (cases s; cases ev) (auto simp: MsLink network_control_def)
qed (cases s; simp add: mesh_auto_link_def mesh_reannounce_def)+

lemma format_status_state [simp]: "snd (format_diagnostic_status now st) = snd (status_at now st)"
  by (simp add: format_diagnostic_status_def split: prod.split)

lemma format_recent_state [simp]:
  "snd (format_recent_records k t1 t2 st) = snd (status_at t2 (snd (recent_at k t1 st)))"
  by (simp add: format_recent_records_def format_diagnostic_status_def split: prod.split)

lemma apply_local_command_ok:
  "diag_ok st \<Longrightarrow> diag_ok (fst (snd (apply_local_command M q mesh c (st, w))))"
  by (cases c) (simp_all add: apply_local_command_def Let_def split_beta diag_ok_ops)

lemma handle_local_ok:
  assumes "diag_ok st"
  shows "diag_ok (fst (snd (handle_local_diagnostic_request M q payload mesh (st, w))))"
proof (cases "parse_local_diagnostic_request payload")
  case (Inl e)
  with assms show ?thesis by (simp add: handle_local_diagnostic_request_def)
next
  case (Inr r)
  with assms show ?thesis
    by (cases r)
      (simp_all add: handle_local_diagnostic_request_def Let_def split_beta apply_local_command_ok diag_ok_ops)
qed

section \<open>Requests and replies\<close>

text \<open>A request that parses is within its bounds, and its command is always accepted.\<close>

definition valid_request :: "local_diagnostic_request \<Rightarrow> bool" where
  "valid_request r =
     (case r of
        LrEnable n \<Rightarrow> 1 \<le> n \<and> n \<le> MAX_ENABLE_SECONDS
      | LrRecent k \<Rightarrow> 1 \<le> k \<and> k \<le> MAX_LOCAL_RECENT_RECORDS
      | _ \<Rightarrow> True)"

lemma parse_local_valid: "parse_local_diagnostic_request payload = Inr r \<Longrightarrow> valid_request r"
  by (auto simp: parse_local_diagnostic_request_def parse_fields_def parse_enable_def parse_recent_def
      valid_request_def DEFAULT_ENABLE_SECONDS_def MAX_ENABLE_SECONDS_def MAX_LOCAL_RECENT_RECORDS_def
      split: if_splits option.splits)

lemma parse_local_too_large: "256 \<le> length payload \<Longrightarrow> \<not> is_ok (parse_local_diagnostic_request payload)"
  by (simp add: parse_local_diagnostic_request_def MAX_LOCAL_DIAGNOSTIC_REQUEST_BYTES_def)

lemma handle_local_rejected:
  "parse_local_diagnostic_request payload = Inl err \<Longrightarrow>
   handle_local_diagnostic_request M q payload mesh (st, w) = (''ERR '' @ err @ NL, st, w)"
  by (simp add: handle_local_diagnostic_request_def)

lemma handle_local_enable:
  assumes "parse_local_diagnostic_request payload = Inr (LrEnable n)"
    "rq_timestamp q < 2 ^ 128" "rq_random q < 2 ^ 64"
  shows "handle_local_diagnostic_request M q payload mesh (st, w) =
    (let c = \<lparr>dc_id = new_command_id (rq_timestamp q) (rq_random q), dc_action = EnableFor n\<rparr>;
         st1 = snd (apply_once c (rq_apply q) st)
     in (fst (format_diagnostic_status (rq_status q) st1), snd (status_at (rq_status q) st1),
         case mesh of Some dest \<Rightarrow> m_send_to_in_links M dest (encode_command c) w | None \<Rightarrow> w))"
  using parse_local_valid [OF assms(1)] command_id_valid [OF assms(2,3)] assms(1)
  by (simp add: handle_local_diagnostic_request_def apply_local_command_def enable_command_def
      valid_request_def Let_def split_beta)

lemma sanitize_field_graphic: "list_all is_ascii_graphic (sanitize_field s) \<and> CHR ''='' \<notin> set (sanitize_field s)"
  by (auto simp: sanitize_field_def list_all_iff is_ascii_graphic_def)

lemma sanitize_field_id:
  "list_all is_ascii_graphic s \<Longrightarrow> CHR ''='' \<notin> set s \<Longrightarrow> sanitize_field s = s"
  by (auto simp: sanitize_field_def list_all_iff chars_ascii graphic_ascii intro!: map_idI)

text \<open>The text of a number has no blank, no equals sign and no line feed.\<close>

definition plain_text :: "string \<Rightarrow> bool" where
  "plain_text s \<longleftrightarrow> list_all is_ascii_graphic s \<and> CHR ''='' \<notin> set s"

lemma plain_text_append [simp]: "plain_text (a @ b) \<longleftrightarrow> plain_text a \<and> plain_text b"
  by (auto simp: plain_text_def)

lemma plain_text_subset: "plain_text s \<Longrightarrow> set t \<subseteq> set s \<Longrightarrow> plain_text t"
  by (auto simp: plain_text_def list_all_iff)

lemma plain_dec_str [simp]: "plain_text (dec_str n)"
  using dec_str_digits [of n] by (auto simp: plain_text_def list_all_iff is_ascii_digit_def is_ascii_graphic_def)

lemma plain_replicate_0: "plain_text (replicate n CHR ''0'')"
  by (auto simp: plain_text_def list_all_iff is_ascii_graphic_def)

lemma set_strip_zeros: "set (strip_zeros s) \<subseteq> set s"
  by (induction s) auto

lemma plain_with_fraction:
  assumes p: "plain_text ds"
  shows "plain_text (with_fraction ds k)"
proof -
  have "plain_text (take n ds)" for n by (rule plain_text_subset [OF p set_take_subset])
  moreover have "plain_text (rev (strip_zeros (rev (drop n ds))))" for n
    by (rule plain_text_subset [OF p]) (use set_strip_zeros set_drop_subset in fastforce)
  moreover have "plain_text ''.''" by (simp add: plain_text_def is_ascii_graphic_def)
  ultimately show ?thesis by (simp add: with_fraction_def Let_def del: append_Cons append_Nil)
qed

lemma plain_place_point: "plain_text (place_point c e)"
proof -
  have "plain_text ''0''" by (simp add: plain_text_def is_ascii_graphic_def)
  then show ?thesis by (simp add: place_point_def plain_with_fraction plain_replicate_0)
qed

lemma plain_f64: "plain_text (f64_to_string x)"
  by (cases x) (auto simp: plain_place_point split_beta Let_def, auto simp: plain_text_def is_ascii_graphic_def)

lemma plain_sanitize [simp]: "plain_text (sanitize_field s)"
  using sanitize_field_graphic by (simp add: plain_text_def)

lemma plain_counts: "plain_text s \<Longrightarrow> count_list s (CHR 0x0A) = 0 \<and> count_list s CHR ''='' = 0 \<and> count_list s CHR 0x20 = 0"
  by (auto simp: plain_text_def list_all_iff is_ascii_graphic_def count_list_0_iff)

text \<open>A record is one line of nine fields, whatever the remote event holds.\<close>

lemma format_record_counts:
  assumes "plain_text (dr_remote_peer_hash r)"
  shows "count_list (format_diagnostic_record r) (CHR 0x0A) = 1
    \<and> count_list (format_diagnostic_record r) CHR ''='' = 8
    \<and> count_list (format_diagnostic_record r) CHR 0x20 = 8
    \<and> last (format_diagnostic_record r) = CHR 0x0A"
  using plain_counts [OF assms] plain_counts [OF plain_f64] plain_counts [OF plain_sanitize]
    plain_counts [OF plain_dec_str]
  by (cases "dr_point r") (auto simp: format_diagnostic_record_def Let_def NL_def)

end
