(* ===== verification/Atak.thy ===== *)
theory Atak
  imports Diag_Control
begin

text \<open>
  The ATAK plugin as a whole (\<open>main\<close> of \<open>kaonic-atak-plugin/src/main.rs\<close>, after the radio is
  attached): the start of the diagnostics control and of one bridge per channel, and the interleaving
  of all their tasks. \<open>atak_step\<close> runs any iteration of any task with any clock readings, any datagram
  and any event; \<open>atak_reachable\<close> are the states that a started plugin can get into.
\<close>

record ('h, 'w) atak =
  at_shared :: shared_state
  at_bridges :: "'h bridge list"
  at_mesh :: "'h diag_mesh option"
  at_tasks :: "'h control_task list"
  at_world :: 'w

definition shared_new :: shared_state where
  "shared_new = \<lparr>sh_locations = location_default, sh_diagnostics = diagnostics_default\<rparr>"

fun start_bridges ::
    "('h, 'd, 'p, 'w) mesh_ops \<Rightarrow> 'w sock_ops \<Rightarrow> local_interface \<Rightarrow> atak_channel list
       \<Rightarrow> 'w \<Rightarrow> (string + 'h bridge list) \<times> 'w" where
  "start_bridges M S l [] w = (Inr [], w)"
| "start_bridges M S l (c # cs) w =
     (case start_bridge M S c l w of
        (Inl e, w) \<Rightarrow> (Inl e, w)
      | (Inr b, w) \<Rightarrow>
          (case start_bridges M S l cs w of
             (Inl e, w) \<Rightarrow> (Inl e, w)
           | (Inr bs, w) \<Rightarrow> (Inr (b # bs), w)))"

text \<open>\<open>None\<close> is the failure exit code.\<close>

definition start_plugin ::
    "'w control_ops \<Rightarrow> ('h, 'd, 'p, 'w) mesh_ops \<Rightarrow> 'w sock_ops \<Rightarrow> plugin_config
       \<Rightarrow> 'w \<Rightarrow> ('h, 'w) atak option \<times> 'w" where
  "start_plugin C M S cfg w =
     (case start_diagnostics_control C M (pc_diagnostics cfg) (pc_mesh_control cfg) w of
        (Inl e, w) \<Rightarrow> (None, w)
      | (Inr (tasks, mesh), w) \<Rightarrow>
          (case start_bridges M S (pc_local_interface cfg) ATAK_CHANNELS w of
             (Inl e, w) \<Rightarrow> (None, w)
           | (Inr bs, w) \<Rightarrow>
               (Some \<lparr>at_shared = shared_new, at_bridges = bs, at_mesh = mesh, at_tasks = tasks, at_world = w\<rparr>, w)))"

section \<open>Steps\<close>

definition run_bridge ::
    "('h, 'd, 'p, 'w) mesh_ops \<Rightarrow> 'n xml_ops \<Rightarrow> bool \<Rightarrow> nat \<Rightarrow> ('h, 'd) bridge_op
       \<Rightarrow> ('h, 'w) atak \<Rightarrow> ('h, 'w) atak" where
  "run_bridge M X allow i p a =
     (case bridge_step M X allow p (at_shared a, at_bridges a ! i, at_world a) of
        (sh, b, w) \<Rightarrow> a\<lparr>at_shared := sh, at_bridges := (at_bridges a)[i := b], at_world := w\<rparr>)"

definition set_diagnostics :: "diagnostic_state \<Rightarrow> ('h, 'w) atak \<Rightarrow> ('h, 'w) atak" where
  "set_diagnostics st a = a\<lparr>at_shared := (at_shared a)\<lparr>sh_diagnostics := st\<rparr>\<rparr>"

definition run_mesh ::
    "('h, 'd, 'p, 'w) mesh_ops \<Rightarrow> ('h, 'd) mesh_op \<Rightarrow> 'h diag_mesh \<Rightarrow> ('h, 'w) atak \<Rightarrow> ('h, 'w) atak" where
  "run_mesh M p m a =
     (case mesh_step M p (sh_diagnostics (at_shared a), m, at_world a) of
        (st, m, w) \<Rightarrow> (set_diagnostics st a)\<lparr>at_mesh := Some m, at_world := w\<rparr>)"

definition run_local ::
    "(diagnostic_state \<times> 'w \<Rightarrow> diagnostic_state \<times> 'w) \<Rightarrow> ('h, 'w) atak \<Rightarrow> ('h, 'w) atak" where
  "run_local f a =
     (case f (sh_diagnostics (at_shared a), at_world a) of (st, w) \<Rightarrow> (set_diagnostics st a)\<lparr>at_world := w\<rparr>)"

definition expiry_cleanup :: "nat \<Rightarrow> ('h, 'w) atak \<Rightarrow> ('h, 'w) atak" where
  "expiry_cleanup now a = set_diagnostics (prune_expired now (sh_diagnostics (at_shared a))) a"

inductive atak_step ::
    "('h, 'd, 'p, 'w) mesh_ops \<Rightarrow> 'n xml_ops \<Rightarrow> (string \<Rightarrow> string \<Rightarrow> 'w \<Rightarrow> 'w) \<Rightarrow> bool
       \<Rightarrow> ('h, 'w) atak \<Rightarrow> ('h, 'w) atak \<Rightarrow> bool"
  for M X reply allow where
  bridge_task: "i < length (at_bridges a) \<Longrightarrow> atak_step M X reply allow a (run_bridge M X allow i p a)"
| mesh_task: "at_mesh a = Some m \<Longrightarrow> atak_step M X reply allow a (run_mesh M p m a)"
| unix_task: "UnixControl h \<in> set (at_tasks a) \<Longrightarrow>
    atak_step M X reply allow a (run_local (unix_control M reply q h datagram source) a)"
| udp_task: "UdpControl h \<in> set (at_tasks a) \<Longrightarrow>
    atak_step M X reply allow a (run_local (udp_control M reply q h datagram source) a)"
| cleanup_task: "atak_step M X reply allow a (expiry_cleanup now a)"

inductive atak_reachable ::
    "'w control_ops \<Rightarrow> ('h, 'd, 'p, 'w) mesh_ops \<Rightarrow> 'w sock_ops \<Rightarrow> 'n xml_ops
       \<Rightarrow> (string \<Rightarrow> string \<Rightarrow> 'w \<Rightarrow> 'w) \<Rightarrow> plugin_config \<Rightarrow> ('h, 'w) atak \<Rightarrow> bool"
  for C M S X reply cfg where
  started: "start_plugin C M S cfg w = (Some a, w') \<Longrightarrow> atak_reachable C M S X reply cfg a"
| stepped: "atak_reachable C M S X reply cfg a \<Longrightarrow> atak_step M X reply (pc_allow_unvalidated cfg) a a'
    \<Longrightarrow> atak_reachable C M S X reply cfg a'"

section \<open>Invariant\<close>

definition bridge_ok :: "atak_channel \<Rightarrow> 'h bridge \<Rightarrow> bool" where
  "bridge_ok c b \<longleftrightarrow> br_channel b = c \<and> br_target b = (ch_group c, ch_port c)
     \<and> br_dest b \<notin> set (br_peers b) \<and> distinct (br_peers b)"

definition mesh_ok :: "'h diag_mesh \<Rightarrow> bool" where
  "mesh_ok m \<longleftrightarrow> dm_dest m \<notin> set (dm_peers m) \<and> distinct (dm_peers m)"

definition atak_inv :: "('h, 'w) atak \<Rightarrow> bool" where
  "atak_inv a \<longleftrightarrow> shared_inv (at_shared a) \<and> list_all2 bridge_ok ATAK_CHANNELS (at_bridges a)
     \<and> pred_option mesh_ok (at_mesh a)"

lemma shared_new_inv: "shared_inv shared_new"
  by (simp add: shared_inv_def shared_new_def location_ok_default diag_ok_default)

lemma start_bridge_ok: "start_bridge M S c l w = (Inr b, w') \<Longrightarrow> bridge_ok c b"
  by (auto simp: start_bridge_def Let_def bridge_ok_def open_multicast_sockets_def
      split: prod.splits sum.splits)

lemma start_bridges_ok: "start_bridges M S l cs w = (Inr bs, w') \<Longrightarrow> list_all2 bridge_ok cs bs"
  by (induction cs arbitrary: bs w w') (auto split: prod.splits sum.splits dest: start_bridge_ok)

lemma start_mesh_ok: "start_diagnostics_control C M cfg mesh w = (Inr (tasks, m), w') \<Longrightarrow> pred_option mesh_ok m"
  by (auto simp: start_diagnostics_control_def mesh_ok_def split: prod.splits sum.splits if_splits)

lemma start_plugin_inv:
  assumes "start_plugin C M S cfg w = (Some a, w')"
  shows "atak_inv a"
proof -
  obtain tasks mesh w1 where
    d: "start_diagnostics_control C M (pc_diagnostics cfg) (pc_mesh_control cfg) w = (Inr (tasks, mesh), w1)"
    using assms by (auto simp: start_plugin_def split: prod.splits sum.splits)
  with assms obtain bs where "start_bridges M S (pc_local_interface cfg) ATAK_CHANNELS w1 = (Inr bs, w')"
    and a: "a = \<lparr>at_shared = shared_new, at_bridges = bs, at_mesh = mesh, at_tasks = tasks, at_world = w'\<rparr>"
    by (auto simp: start_plugin_def split: prod.splits sum.splits)
  with start_bridges_ok start_mesh_ok [OF d] shared_new_inv show ?thesis by (auto simp: atak_inv_def)
qed

lemma bridge_step_ok:
  assumes "bridge_ok c (bw_bridge s)"
  shows "bridge_ok c (bw_bridge (bridge_step M X allow p s))"
  using assms bridge_step_bridge [of M X allow p s]
    bridge_links.self_not_tracked_step [of s M X allow p]
    bridge_links.distinct_step [of s M X allow p]
  by (simp add: bridge_ok_def)

lemma mesh_step_mesh_ok:
  assumes "mesh_ok (mw_mesh s)"
  shows "mesh_ok (mw_mesh (mesh_step M p s))"
  using assms mesh_step_mesh [of M p s] mesh_links.self_not_tracked_step [of s M p]
    mesh_links.distinct_step [of s M p]
  by (simp add: mesh_ok_def)

lemma list_all2_update:
  assumes "list_all2 P xs ys" "\<And>x. P x (ys ! i) \<Longrightarrow> P x y"
  shows "list_all2 P xs (ys[i := y])"
proof (cases "i < length ys")
  case True
  then have "list_all2 P (xs[i := xs ! i]) (ys[i := y])"
    using assms by (intro list_all2_update_cong) (auto simp: list_all2_conv_all_nth)
  then show ?thesis by simp
next
  case False
  with assms(1) show ?thesis by (simp add: list_update_beyond)
qed

lemma run_bridge_inv:
  assumes "atak_inv a"
  shows "atak_inv (run_bridge M X allow i p a)"
proof -
  let ?s = "(at_shared a, at_bridges a ! i, at_world a)"
  obtain sh b w where r: "bridge_step M X allow p ?s = (sh, b, w)" by (cases "bridge_step M X allow p ?s")
  have "shared_inv sh"
    using bridge_step_shared [of ?s M X allow p] r assms by (simp add: atak_inv_def)
  moreover have "bridge_ok c b" if "bridge_ok c (at_bridges a ! i)" for c
    using bridge_step_ok [of c ?s M X allow p] r that by simp
  ultimately show ?thesis
    using assms r by (auto simp: atak_inv_def run_bridge_def intro!: list_all2_update)
qed

lemma set_diagnostics_inv: "atak_inv a \<Longrightarrow> diag_ok st \<Longrightarrow> atak_inv (set_diagnostics st a)"
  by (simp add: atak_inv_def set_diagnostics_def shared_inv_def)

lemma atak_inv_diag: "atak_inv a \<Longrightarrow> diag_ok (sh_diagnostics (at_shared a))"
  by (simp add: atak_inv_def shared_inv_def)

lemma run_mesh_inv:
  assumes "atak_inv a" "at_mesh a = Some m"
  shows "atak_inv (run_mesh M p m a)"
proof -
  let ?s = "(sh_diagnostics (at_shared a), m, at_world a)"
  obtain st m' w where r: "mesh_step M p ?s = (st, m', w)" by (cases "mesh_step M p ?s")
  have "diag_ok st" using mesh_step_ok [of ?s M p] r atak_inv_diag [OF assms(1)] by simp
  moreover have "mesh_ok m'" using mesh_step_mesh_ok [of ?s M p] r assms by (simp add: atak_inv_def)
  ultimately show ?thesis
    using set_diagnostics_inv [OF assms(1)] r by (simp add: run_mesh_def atak_inv_def)
qed

lemma run_local_inv:
  assumes "atak_inv a" "\<And>st w. diag_ok st \<Longrightarrow> diag_ok (fst (f (st, w)))"
  shows "atak_inv (run_local f a)"
  using set_diagnostics_inv [OF assms(1) assms(2) [OF atak_inv_diag [OF assms(1)]]]
  by (auto simp: run_local_def atak_inv_def split_beta)

lemma control_ok:
  "diag_ok st \<Longrightarrow> diag_ok (fst (unix_control M reply q mesh datagram source (st, w)))"
  "diag_ok st \<Longrightarrow> diag_ok (fst (udp_control M reply q mesh datagram source' (st, w)))"
  using handle_local_ok [of st M q "take MAX_LOCAL_DIAGNOSTIC_REQUEST_BYTES datagram" mesh w]
  by (simp_all add: unix_control_def udp_control_def split_beta)

lemma atak_step_inv: "atak_step M X reply allow a a' \<Longrightarrow> atak_inv a \<Longrightarrow> atak_inv a'"
proof (induction rule: atak_step.induct)
  case (cleanup_task a now)
  then show ?case using diag_ok_ops(4) [OF atak_inv_diag [OF cleanup_task], of now]
    by (simp add: expiry_cleanup_def set_diagnostics_inv)
qed (auto intro: run_bridge_inv run_mesh_inv run_local_inv control_ok)

lemma atak_reachable_inv: "atak_reachable C M S X reply cfg a \<Longrightarrow> atak_inv a"
  by (induction rule: atak_reachable.induct) (auto intro: start_plugin_inv atak_step_inv)

section \<open>Without mesh control\<close>

definition local_only :: "('h, 'w) atak \<Rightarrow> bool" where
  "local_only a \<longleftrightarrow> at_mesh a = None \<and> set (at_tasks a) \<subseteq> {UnixControl None, UdpControl None}"

lemma start_local_only:
  assumes "start_plugin C M S cfg w = (Some a, w')" "\<not> pc_mesh_control cfg"
  shows "local_only a"
proof -
  obtain tasks mesh w1 where
    d: "start_diagnostics_control C M (pc_diagnostics cfg) False w = (Inr (tasks, mesh), w1)"
    using assms by (auto simp: start_plugin_def split: prod.splits sum.splits)
  with assms have "at_mesh a = mesh \<and> at_tasks a = tasks"
    by (auto simp: start_plugin_def split: prod.splits sum.splits)
  with start_no_mesh_result [OF d] show ?thesis by (simp add: local_only_def)
qed

lemma step_local_only: "atak_step M X reply allow a a' \<Longrightarrow> local_only a \<Longrightarrow> local_only a'"
  by (induction rule: atak_step.induct)
    (auto simp: local_only_def run_bridge_def run_local_def set_diagnostics_def expiry_cleanup_def split_beta)

lemma reachable_local_only:
  "atak_reachable C M S X reply cfg a \<Longrightarrow> \<not> pc_mesh_control cfg \<Longrightarrow> local_only a"
  by (induction rule: atak_reachable.induct) (auto intro: start_local_only step_local_only)

lemma handle_local_world:
  "snd (snd (handle_local_diagnostic_request M q payload None (st, w))) = w"
proof (cases "parse_local_diagnostic_request payload")
  case (Inr r)
  have "snd (snd (apply_local_command M q None c (st, w))) = w" for c
    by (cases c) (simp_all add: apply_local_command_def Let_def split_beta)
  with Inr show ?thesis
    by (cases r) (simp_all add: handle_local_diagnostic_request_def Let_def split_beta)
qed (simp add: handle_local_diagnostic_request_def)

end
