(* ===== verification/Atak_Props.thy ===== *)
theory Atak_Props
  imports Atak
begin

text \<open>
  The properties of the ATAK plugin, with a concrete environment on which each is applied: hashes and
  descriptors are strings, the world is the list of what was sent, and the XML parser accepts every
  text but \<open>X\<close> as an event without a point.
\<close>

section \<open>A concrete environment\<close>

datatype sent = SentLinks string bytes | SentUdp bytes "ipv4 \<times> nat" | SentPacket bytes | Linked string | Replied string string

definition wit_mesh :: "(string, string, bytes, sent list) mesh_ops" where
  "wit_mesh =
     \<lparr>m_add_destination = (\<lambda>app name w. (app @ ''.'' @ name, w)),
      m_announce = (\<lambda>h a w. (Some (h @ a), w)), m_send_packet = (\<lambda>p w. w @ [SentPacket p]),
      m_send_to_in_links = (\<lambda>h bs w. w @ [SentLinks h bs]), m_link = (\<lambda>d w. w @ [Linked d]),
      m_desc_hash = (\<lambda>d. d), m_hash_str = (\<lambda>h. h), m_udp_send = (\<lambda>bs t w. (Inr (), w @ [SentUdp bs t]))\<rparr>"

definition wit_xml :: "unit xml_ops" where
  "wit_xml =
     \<lparr>xml_parse = (\<lambda>s. if s = ''X'' then Inl ''unexpected end'' else Inr ()), xml_tag_name = (\<lambda>n. ''event''),
      xml_is_element = (\<lambda>n. True),
      xml_attribute = (\<lambda>n a. if a = ''uid'' then Some ''U1'' else if a = ''type'' then Some ''a-f'' else None),
      xml_children = (\<lambda>n. []), xml_descendants = (\<lambda>n. [n])\<rparr>"

definition wit_sock :: "sent list sock_ops" where
  "wit_sock = \<lparr>so_call = (\<lambda>r c w. (Inr (), w)), so_from_std = (\<lambda>r w. (Inr (), w))\<rparr>"

definition wit_control :: "sent list control_ops" where
  "wit_control =
     \<lparr>co_create_dir_all = (\<lambda>p w. (Inr (), w)), co_remove_file = (\<lambda>p w. (Inl (True, ''absent''), w)),
      co_unix_bind = (\<lambda>p w. (Inr (), w)), co_set_mode = (\<lambda>p m w. (Inr (), w)), co_udp_bind = (\<lambda>a w. (Inr (), w))\<rparr>"

definition wit_local :: local_interface where
  "wit_local = \<lparr>li_name = ''br0'', li_addr = mk_ipv4 192 168 10 1\<rparr>"

definition wit_plugin :: plugin_config where
  "wit_plugin = \<lparr>pc_local_interface = wit_local, pc_allow_unvalidated = False,
     pc_diagnostics = \<lparr>dcc_unix_socket = Some DEFAULT_DIAGNOSTICS_UNIX_SOCKET, dcc_udp_addr = None,
                       dcc_require_control = False\<rparr>, pc_mesh_control = False\<rparr>"

definition wit_bridge :: "string bridge" where
  "wit_bridge = \<lparr>br_channel = hd ATAK_CHANNELS, br_dest = ''kaonic.atak.6969'', br_target = (mk_ipv4 239 2 3 1, 6969),
     br_peers = [], br_metrics = bridge_metrics_default\<rparr>"

definition wit_reply :: "string \<Rightarrow> string \<Rightarrow> sent list \<Rightarrow> sent list" where
  "wit_reply r p w = w @ [Replied r p]"

definition wit_clock :: clock where
  "wit_clock = \<lparr>ck_diagnostics = 1, ck_updated_at = 2, ck_prune = 3, ck_len = 4\<rparr>"

lemma wit_tag: "port_tag \<lparr>ch_name = ''cot'', ch_group = g, ch_port = 6969\<rparr> = [CHR 0x1B, CHR ''9'']"
  by (simp add: port_tag_def char_of_eq_iff take_bit_eq_mod)

lemma wit_parse [simp]:
  "utf8_valid s \<Longrightarrow> is_ok (parse_cot_payload wit_xml s) \<longleftrightarrow> s \<noteq> ''X''"
  by (simp add: parse_cot_payload_def from_utf8_def wit_xml_def parse_event_def required_attr_def
      validate_attr_len_def MAX_COT_UID_LEN_def MAX_COT_EVENT_TYPE_LEN_def event_point_def event_callsign_def
      optional_attr_def trim_graphic is_ascii_graphic_def)

lemma wit_start: "\<exists>a w. start_plugin wit_control wit_mesh wit_sock wit_plugin [] = (Some a, w)"
  by (simp add: start_plugin_def start_diagnostics_control_def wit_plugin_def bind_endpoint_def
      bind_unix_diagnostics_socket_def wit_control_def ATAK_CHANNELS_def start_bridge_def wit_mesh_def
      announce_packet_def open_multicast_sockets_def wit_sock_def Let_def split: option.split)

section \<open>Properties\<close>

text \<open>
  C15. In every state that a started plugin can reach, under any interleaving of its tasks, the location
  table holds at most 512 entries, at most 512 diagnostics records and 2048 command ids are kept, every
  record was observed before the current enabling ends (none is kept while diagnostics are off), and no
  bridge counts its own destination among its peers.\<close>

theorem atak_state_bounded:
  assumes "atak_reachable C M S X reply cfg a"
  shows "length (ls_records (sh_locations (at_shared a))) \<le> 512
    \<and> length (di_records (dst_inner (sh_diagnostics (at_shared a)))) \<le> 512
    \<and> length (di_seen_commands (dst_inner (sh_diagnostics (at_shared a)))) \<le> 2048
    \<and> (case di_enabled_until (dst_inner (sh_diagnostics (at_shared a))) of
         None \<Rightarrow> di_records (dst_inner (sh_diagnostics (at_shared a))) = []
       | Some u \<Rightarrow> \<forall>r\<in>set (di_records (dst_inner (sh_diagnostics (at_shared a)))). dr_observed_at r < u)
    \<and> map br_channel (at_bridges a) = ATAK_CHANNELS
    \<and> (\<forall>b\<in>set (at_bridges a). br_dest b \<notin> set (br_peers b))"
proof -
  have i: "atak_inv a" using assms by (rule atak_reachable_inv)
  then have "list_all2 bridge_ok ATAK_CHANNELS (at_bridges a)" by (simp add: atak_inv_def)
  then have "map br_channel (at_bridges a) = ATAK_CHANNELS \<and> (\<forall>b\<in>set (at_bridges a). br_dest b \<notin> set (br_peers b))"
    by (induction rule: list_all2_induct) (auto simp: bridge_ok_def)
  with i show ?thesis
    by (auto simp: atak_inv_def shared_inv_def location_ok_def location_inv_def diag_ok_def diag_inv_def window_inv_def
        DEFAULT_MAX_LOCATION_RECORDS_def DEFAULT_MAX_RECORDS_def DEFAULT_MAX_SEEN_COMMANDS_def split: option.splits)
qed

theorem atak_state_bounded_witness:
  "\<exists>a. atak_reachable wit_control wit_mesh wit_sock wit_xml wit_reply wit_plugin a
     \<and> map br_channel (at_bridges a) = ATAK_CHANNELS"
proof -
  obtain a w where "start_plugin wit_control wit_mesh wit_sock wit_plugin [] = (Some a, w)"
    using wit_start by blast
  then have "atak_reachable wit_control wit_mesh wit_sock wit_xml wit_reply wit_plugin a" by (rule started)
  with atak_state_bounded [OF this] show ?thesis by blast
qed

text \<open>
  C16. What a bridge sends: a local payload goes to the links of the bridge's destination, and a payload
  of a tracked peer to the multicast group and port of its channel, exactly when the payload is a valid
  CoT event or the override allows any; the bytes are those received. The state of the locations and of
  the diagnostics has no influence on it.\<close>

theorem bridge_forwarding:
  "snd (snd (bridge_step M X allow p (sh, b, w))) =
     (case p of
        BrUdp ck data \<Rightarrow>
          if is_ok (parse_cot_payload X data) \<or> allow then m_send_to_in_links M (br_dest b) data w else w
      | BrLink ck h ev \<Rightarrow>
          (case ev of
             EvData data \<Rightarrow>
               if h \<in> set (br_peers b) \<and> (is_ok (parse_cot_payload X data) \<or> allow)
               then snd (m_udp_send M data (br_target b) w) else w
           | _ \<Rightarrow> w)
      | BrAnnounce peer app_data \<Rightarrow>
          if app_data = port_tag (br_channel b) \<and> m_desc_hash M peer \<noteq> br_dest b then m_link M peer w else w
      | BrTick \<Rightarrow> announce_packet M (br_dest b) (port_tag (br_channel b)) w)"
  by (cases p) (simp_all add: udp_to_rns_world rns_to_udp_world auto_link_def reannounce_def)

text \<open>
  A bridge takes payloads only from peers that announced the tag of its channel: after any run of a
  started bridge, every tracked peer has announced exactly that tag and is not the bridge itself.\<close>

lemma bridge_peers_announced:
  assumes "start_bridge M S c l w = (Inr b, w')"
    and "h \<in> set (br_peers (bw_bridge (fold (bridge_step M X allow) ps (sh, b, w'))))"
  shows "h \<noteq> br_dest b \<and> (\<exists>d. BrAnnounce d (port_tag c) \<in> set ps \<and> m_desc_hash M d = h)"
proof -
  have b: "br_peers b = []" "br_channel b = c"
    using assms(1) by (auto simp: start_bridge_def Let_def split: prod.splits sum.splits)
  from bridge_links.self_not_tracked [of "(sh, b, w')" M X allow ps] b assms(2) have "h \<noteq> br_dest b" by auto
  moreover from bridge_links.tracked_announced [OF assms(2)] b obtain p where
    p: "p \<in> set ps" "op_announced M p = Some (h, port_tag c)" by auto
  have "\<exists>d. BrAnnounce d (port_tag c) \<in> set ps \<and> m_desc_hash M d = h"
  proof (cases p)
    case (BrAnnounce d a)
    with p show ?thesis by (auto simp: op_announced_def)
  qed (use p in \<open>simp_all add: op_announced_def\<close>)
  ultimately show ?thesis by blast
qed

lemma bridge_peers_announced_witness:
  "\<exists>d. (BrAnnounce d (port_tag (hd ATAK_CHANNELS)) :: (string, string) bridge_op)
        \<in> set [BrAnnounce ''P'' [CHR 0x1B, CHR ''9'']]
     \<and> m_desc_hash wit_mesh d = ''P''"
proof -
  have s: "start_bridge wit_mesh wit_sock (hd ATAK_CHANNELS) wit_local [] =
      (Inr wit_bridge, [SentPacket (''kaonic.atak.6969'' @ [CHR 0x1B, CHR ''9''])])"
    by (simp add: start_bridge_def wit_mesh_def wit_sock_def wit_bridge_def announce_packet_def
        open_multicast_sockets_def ATAK_CHANNELS_def wit_tag dec_str.simps digit_char_def
        char_of_eq_iff take_bit_eq_mod)
  have m: "''P'' \<in> set (br_peers (bw_bridge (fold (bridge_step wit_mesh wit_xml False)
      [BrAnnounce ''P'' [CHR 0x1B, CHR ''9'']]
      (shared_new, wit_bridge, [SentPacket (''kaonic.atak.6969'' @ [CHR 0x1B, CHR ''9''])]))))"
    by (simp add: auto_link_def wit_mesh_def wit_bridge_def wit_tag ATAK_CHANNELS_def)
  from bridge_peers_announced [OF s m] show ?thesis by blast
qed

text \<open>
  Diagnostics commands survive the text encoding: what was parsed from any payload, and every
  well-formed command, encodes to bytes that parse to the same command, so that a rebroadcast carries
  the command unchanged over any number of hops.\<close>

lemma command_roundtrip:
  assumes "parse_command bs = Inr c \<or> valid_command c \<and> utf8_valid (dc_id c)"
  shows "parse_command (encode_command c) = Inr c"
  using assms by (auto intro: parse_command_normal parse_encode_command)

lemma command_roundtrip_witness:
  "parse_command (encode_command \<lparr>dc_id = ''1f-2a'', dc_action = EnableFor 900\<rparr>)
     = Inr \<lparr>dc_id = ''1f-2a'', dc_action = EnableFor 900\<rparr>"
  by (rule command_roundtrip [of "''x''"])
    (simp add: valid_command_def validate_id_def chars_def ascii_defs MAX_ENABLE_SECONDS_def)

text \<open>
  C17. A command is applied and rebroadcast once: when it was new at some time, then within the next 24
  hours a command with the same id changes neither the world nor the records, whatever operations ran
  in between, as long as fewer than 2048 other commands were new.\<close>

theorem duplicate_command_inert:
  assumes "diag_inv st" "apply_once c t0 st = (True, st0)"
    and "\<forall>p\<in>set ps. op_time p \<le> t0 + SEEN_COMMAND_RETENTION" "t \<le> t0 + SEEN_COMMAND_RETENTION"
    and "fst (diag_run ps st0) < dst_max_seen_commands st"
    and "parse_command bs = Inr c'" "dc_id c' = dc_id c"
  shows "snd (network_control M t h (EvData bs) (snd (diag_run ps st0), m, w)) = (m, w)
    \<and> fst (network_control M t h (EvData bs) (snd (diag_run ps st0), m, w))
        \<in> {snd (diag_run ps st0), prune_expired t (snd (diag_run ps st0))}"
proof -
  let ?st = "snd (diag_run ps st0)"
  have n: "\<not> fst (apply_once c' t ?st)" by (rule duplicate_rejected [OF assms(1-5) assms(7)])
  have "diag_inv st0" using apply_once_inv [OF assms(1), of c t0] assms(2) by simp
  then have "diag_inv ?st" by (rule diag_run_inv)
  with n have "apply_once c' t ?st = (False, prune_expired t ?st)"
    using apply_once_cases [of ?st t c'] by (metis fst_conv)
  with assms(6) show ?thesis by (simp add: network_control_def network_command_def)
qed

theorem duplicate_command_inert_witness:
  "snd (network_control wit_mesh 5 ''P'' (EvData ''KAD1|a|disable|0'')
     (snd (apply_once \<lparr>dc_id = ''a'', dc_action = DisableNow\<rparr> 3 diagnostics_default),
      \<lparr>dm_dest = ''D'', dm_peers = [''P'']\<rparr>, [])) = (\<lparr>dm_dest = ''D'', dm_peers = [''P'']\<rparr>, [])"
proof -
  let ?c = "\<lparr>dc_id = ''a'', dc_action = DisableNow\<rparr>"
  have a: "apply_once ?c 3 diagnostics_default = (True, snd (apply_once ?c 3 diagnostics_default))"
    by (simp add: apply_once_def diagnostics_default_def diagnostics_new_def prune_inner_def Let_def)
  have u: "from_utf8 ''KAD1|a|disable|0'' = Some ''KAD1|a|disable|0''"
    by (rule from_utf8_ascii) (simp add: is_ascii_def)
  have t: "trim ''KAD1|a|disable|0'' = ''KAD1|a|disable|0''"
    by (rule trim_graphic) (simp_all add: is_ascii_graphic_def)
  have p: "parse_command ''KAD1|a|disable|0'' = Inr ?c"
    using u t by (simp add: parse_command_def CONTROL_VERSION_def disable_command_def validate_id_def chars_def
        ascii_defs MAX_COMMAND_BYTES_def)
  have i: "diag_inv diagnostics_default" by (simp add: diagnostics_default_def diagnostics_new_inv)
  have k: "fst (diag_run [] (snd (apply_once ?c 3 diagnostics_default))) < dst_max_seen_commands diagnostics_default"
    by (simp add: diagnostics_default_def diagnostics_new_def DEFAULT_MAX_SEEN_COMMANDS_def)
  from duplicate_command_inert [OF i a _ _ k p, of 5 wit_mesh "''P''" "\<lparr>dm_dest = ''D'', dm_peers = [''P'']\<rparr>" "[]"]
  show ?thesis by (simp add: SEEN_COMMAND_RETENTION_def)
qed

text \<open>
  C18. A diagnostics record is printed as one line: whatever a remote event holds in its uid, callsign and
  type, the line has one line feed, at its end, and nine fields separated by blanks, eight of them with
  one equals sign, so that no remote text can forge a record or a field.\<close>

theorem record_line_safe:
  assumes "plain_text (dr_remote_peer_hash r)"
  shows "count_list (format_diagnostic_record r) (CHR 0x0A) = 1
    \<and> count_list (format_diagnostic_record r) CHR ''='' = 8
    \<and> count_list (format_diagnostic_record r) CHR 0x20 = 8
    \<and> last (format_diagnostic_record r) = CHR 0x0A"
  using assms by (rule format_record_counts)

definition wit_record :: diagnostic_record where
  "wit_record = \<lparr>dr_remote_peer_hash = ''ab'', dr_channel_port = 6969, dr_uid = ''a=b c'' @ NL,
     dr_callsign = None, dr_event_type = ''a-f'', dr_point = Some (F64 True (1 / 2), F64 False 3), dr_observed_at = 5000000\<rparr>"

theorem record_line_safe_witness:
  "plain_text (dr_remote_peer_hash wit_record) \<and> count_list (format_diagnostic_record wit_record) (CHR 0x0A) = 1"
proof -
  have p: "plain_text (dr_remote_peer_hash wit_record)"
    by (simp add: wit_record_def plain_text_def is_ascii_graphic_def)
  with record_line_safe [OF p] show ?thesis by blast
qed

text \<open>
  Interface selection is fail-closed: it succeeds exactly when one candidate, and only one, has the
  given name and the given address, or without either an address in 192.168.10.0/24; the result is that
  candidate.\<close>

lemma interface_selection_unique:
  "select_local_interface cs sel = Inr l \<longleftrightarrow>
     (\<exists>c. filter (\<lambda>c. pred_option (\<lambda>n. ic_name c = n) (is_interface_name sel)
                 \<and> pred_option (\<lambda>a. ic_addr c = a) (is_local_addr sel)
                 \<and> (if is_interface_name sel = None \<and> is_local_addr sel = None
                    then take 3 (octets (ic_addr c)) = [192, 168, 10] else True)) cs = [c]
        \<and> li_name l = ic_name c \<and> li_addr l = ic_addr c)"
proof -
  have "eligible sel = (\<lambda>c. pred_option (\<lambda>n. ic_name c = n) (is_interface_name sel)
                 \<and> pred_option (\<lambda>a. ic_addr c = a) (is_local_addr sel)
                 \<and> (if is_interface_name sel = None \<and> is_local_addr sel = None
                    then take 3 (octets (ic_addr c)) = [192, 168, 10] else True))"
    by (auto simp: fun_eq_iff eligible_def is_kaonic_lan_addr_def octets_def)
  moreover have "l = to_local_interface c \<longleftrightarrow> li_name l = ic_name c \<and> li_addr l = ic_addr c" for c
    by (cases l) (simp add: to_local_interface_def)
  ultimately show ?thesis by (simp add: select_local_interface_Inr)
qed

text \<open>
  Unless mesh control is switched on, no reachable state has a mesh destination or a task that could
  use one, and a local request leaves the transport alone: diagnostics never leave the device.\<close>

lemma mesh_control_off:
  assumes "atak_reachable C M S X reply cfg a" "\<not> pc_mesh_control cfg"
  shows "at_mesh a = None \<and> set (at_tasks a) \<subseteq> {UnixControl None, UdpControl None}
    \<and> snd (snd (handle_local_diagnostic_request M q payload None (st, w))) = w"
  using reachable_local_only [OF assms] handle_local_world by (simp add: local_only_def)

lemma mesh_control_off_witness:
  "\<exists>a. atak_reachable wit_control wit_mesh wit_sock wit_xml wit_reply wit_plugin a \<and> at_mesh a = None"
proof -
  obtain a w where "start_plugin wit_control wit_mesh wit_sock wit_plugin [] = (Some a, w)"
    using wit_start by blast
  then have r: "atak_reachable wit_control wit_mesh wit_sock wit_xml wit_reply wit_plugin a" by (rule started)
  have "\<not> pc_mesh_control wit_plugin" by (simp add: wit_plugin_def)
  from mesh_control_off [OF r this] r show ?thesis by blast
qed

text \<open>
  C19. An event that parses is within its limits: a non-empty uid of at most 128 bytes, a non-empty type
  of at most 96, optional attributes of at most 128, and a point, when it has one, with finite numbers
  and a latitude and longitude in range.\<close>

theorem parsed_event_valid:
  assumes "parse_cot_payload X payload = Inr ev"
  shows "ev_uid ev \<noteq> [] \<and> length (ev_uid ev) \<le> 128
    \<and> ev_event_type ev \<noteq> [] \<and> length (ev_event_type ev) \<le> 96
    \<and> pred_option (\<lambda>s. length s \<le> 128) (ev_callsign ev)
    \<and> (case ev_point ev of None \<Rightarrow> True
       | Some p \<Rightarrow> f64_in (-90) 90 (pt_lat p) \<and> f64_in (-180) 180 (pt_lon p)
           \<and> pred_option f64_is_finite (pt_hae p) \<and> pred_option f64_is_finite (pt_ce p)
           \<and> pred_option f64_is_finite (pt_le p))"
proof -
  obtain n where "parse_event X n = Inr ev" using parse_cot_payload_Inr [OF assms] by blast
  then have "valid_event ev" by (rule parse_event_valid)
  then show ?thesis
    by (auto simp: valid_event_def valid_point_def MAX_COT_UID_LEN_def MAX_COT_EVENT_TYPE_LEN_def
        MAX_COT_OPTIONAL_ATTR_LEN_def split: option.splits)
qed

theorem parsed_event_valid_witness:
  "\<exists>ev. parse_cot_payload wit_xml ''E'' = Inr ev \<and> ev_uid ev \<noteq> []"
proof -
  have "is_ok (parse_cot_payload wit_xml ''E'')" by simp
  then obtain ev where e: "parse_cot_payload wit_xml ''E'' = Inr ev"
    by (cases "parse_cot_payload wit_xml ''E''") auto
  with parsed_event_valid [OF e] show ?thesis by blast
qed

text \<open>
  C20. The location table refines a map of the newest records: after recording an event the table holds
  as many entries as fit of the unexpired ones and the new one, each kept entry is unchanged, and no
  entry that was dropped is newer than one that was kept.\<close>

theorem location_keeps_newest:
  assumes "location_inv s" "location_record t now src port ev s = (Some r, s')"
  shows "lr_source r = src \<and> lr_uid r = ev_uid ev \<and> lr_updated_at r = t
    \<and> (let m = AList.update (src, ev_uid ev) r (prune_locations now (ls_retention s) (ls_records s))
       in length (ls_records s') = min (ls_max_records s) (length m)
        \<and> set (ls_records s') \<subseteq> set m
        \<and> (\<forall>x\<in>set (ls_records s'). \<forall>y\<in>set m - set (ls_records s'). lr_updated_at (snd y) \<le> lr_updated_at (snd x)))"
  using location_record_result [OF assms] by (simp add: Let_def keeps_newest_def)

definition wit_event :: cot_event where
  "wit_event = \<lparr>ev_uid = ''U1'', ev_event_type = ''a-f'', ev_how = None, ev_callsign = None, ev_time = None,
     ev_start = None, ev_stale = None,
     ev_point = Some \<lparr>pt_lat = F64 False 1, pt_lon = F64 True 2, pt_hae = None, pt_ce = None, pt_le = None\<rparr>\<rparr>"

theorem location_keeps_newest_witness:
  "\<exists>r s'. location_record 7 8 LocalUdp 6969 wit_event location_default = (Some r, s') \<and> lr_uid r = ''U1''"
proof -
  have i: "location_inv location_default" by (simp add: location_default_def location_inv_new)
  have "ev_point wit_event \<noteq> None" "ev_uid wit_event = ''U1''" by (simp_all add: wit_event_def)
  then obtain r s' where r: "location_record 7 8 LocalUdp 6969 wit_event location_default = (Some r, s')"
    by (auto simp: location_record_def Let_def)
  from location_keeps_newest [OF i r] r show ?thesis by (auto simp: wit_event_def)
qed


definition wit_command :: command where
  "wit_command = \<lparr>cmd_local_interface = None, cmd_local_address = None, cmd_allow_unvalidated_payloads = False,
     cmd_diagnostics_unix_socket = None, cmd_disable_local_diagnostics_control = False,
     cmd_require_diagnostics_control = False, cmd_diagnostics_control_listen = Some (SockV4 (mk_ipv4 10 0 0 1) 9),
     cmd_allow_insecure_diagnostics_control_listen = False,
     cmd_enable_unauthenticated_diagnostics_mesh_control = False\<rparr>"


text \<open>
  Local diagnostics control can only stop the plugin when it is required: without the requirement its
  start always succeeds, and with it a start that succeeds has bound every endpoint that is configured,
  and at least one.\<close>

lemma diagnostics_control_start:
  assumes "start_diagnostics_control C M cfg mesh w = (r, w')"
  shows "if dcc_require_control cfg
     then (case r of Inl e \<Rightarrow> True
           | Inr (tasks, m) \<Rightarrow> (\<exists>h. UnixControl h \<in> set tasks \<or> UdpControl h \<in> set tasks)
               \<and> (dcc_unix_socket cfg = None \<or> (\<exists>h. UnixControl h \<in> set tasks))
               \<and> (dcc_udp_addr cfg = None \<or> (\<exists>h. UdpControl h \<in> set tasks)))
     else is_ok r"
proof (cases "dcc_require_control cfg")
  case True
  show ?thesis
  proof (cases r)
    case (Inr p)
    then obtain tasks m where p: "r = Inr (tasks, m)" by (cases p) auto
    from start_required [OF assms [unfolded p] True] True p show ?thesis by auto
  qed (use True in simp)
next
  case False
  with start_not_required [OF False, of C M mesh w] assms show ?thesis by simp
qed

lemma diagnostics_control_start_witness:
  "is_ok (fst (start_diagnostics_control wit_control wit_mesh (pc_diagnostics wit_plugin) False []))"
  using diagnostics_control_start [of wit_control wit_mesh "pc_diagnostics wit_plugin" False "[]"
      "fst (start_diagnostics_control wit_control wit_mesh (pc_diagnostics wit_plugin) False [])"
      "snd (start_diagnostics_control wit_control wit_mesh (pc_diagnostics wit_plugin) False [])"]
  by (simp add: wit_plugin_def)

end
