(* ===== verification/Gw_Settings.thy ===== *)
theory Gw_Settings
  imports Ip
begin

text \<open>
  The settings of the gateway: \<open>kaonic-gateway/src/settings\<close>, the configuration of \<open>config.rs\<close> and its
  transfer form in \<open>app_types.rs\<close>. The database is its two tables, and each SQL statement of the code is
  written out on them. A statement may fail: the faults to come are part of the state, and a failed
  statement leaves the tables alone, as SQLite documents. JSON, the \<open>cidr\<close> crate, and the radio types
  with their defaults are the parameter \<open>settings_env\<close>; random bytes are arguments.
\<close>

section \<open>Configuration\<close>

record ('r, 'm) radio_module_config =
  rmc_radio_config :: 'r
  rmc_modulation :: 'm

record ('r, 'm) hardware_radio_config =
  hrc_module_configs :: "('r, 'm) radio_module_config list"

record ('c, 'r, 'm) gateway_config =
  gc_network :: 'c
  gc_allow_all_peers :: bool
  gc_peers :: "string list"
  gc_advertised_routes :: "'c list"
  gc_announce_freq_secs :: nat
  gc_radio :: "('r, 'm) hardware_radio_config"

record ('c, 'r, 'm) settings_env =
  se_cidr :: "'c cidr_ops"
  se_routes_to_json :: "'c list \<Rightarrow> string"
  se_routes_of_json :: "string \<Rightarrow> 'c list option"
  se_radio_to_json :: "'r \<Rightarrow> string"
  se_radio_of_json :: "string \<Rightarrow> 'r option"
  se_modulation_to_json :: "'m \<Rightarrow> string"
  se_modulation_of_json :: "string \<Rightarrow> 'm option"
  se_default_radio :: "('r, 'm) hardware_radio_config"

section \<open>Database\<close>

definition DEFAULT_NETWORK :: string where "DEFAULT_NETWORK = ''10.20.0.0/16''"
definition DEFAULT_ANNOUNCE_FREQ_SECS :: nat where "DEFAULT_ANNOUNCE_FREQ_SECS = 5"
definition DEFAULT_ADVERTISED_ROUTES :: string where
  "DEFAULT_ADVERTISED_ROUTES = ''['' @ [CHR 0x22] @ ''192.168.10.0/24'' @ [CHR 0x22] @ '']''"
definition DEFAULT_ALLOW_ALL_PEERS :: bool where "DEFAULT_ALLOW_ALL_PEERS = True"
definition CODENAME_KEY :: string where "CODENAME_KEY = ''system_codename''"
definition CODENAME_LEN :: nat where "CODENAME_LEN = 8"
definition CODENAME_ALPHABET :: string where
  "CODENAME_ALPHABET = ''abcdefghijklmnopqrstuvwxyz0123456789''"

datatype sql_error = SqlFailure string | InvalidParameterName string

record database =
  db_settings :: "(string \<times> string) list"
  db_peers :: "string list"
  db_faults :: "sql_error option list"

definition statement :: "(database \<Rightarrow> 'a \<times> database) \<Rightarrow> (database, sql_error, 'a) fallible" where
  "statement f d =
     (case db_faults d of
        [] \<Rightarrow> (case f d of (x, d) \<Rightarrow> (Inr x, d))
      | None # fs \<Rightarrow> (case f (d\<lparr>db_faults := fs\<rparr>) of (x, d) \<Rightarrow> (Inr x, d))
      | Some e # fs \<Rightarrow> (Inl e, d\<lparr>db_faults := fs\<rparr>))"

text \<open>\<open>CREATE TABLE IF NOT EXISTS\<close>: a missing table is an empty one.\<close>

definition migrate :: "(database, sql_error, unit) fallible" where
  "migrate = statement (\<lambda>d. ((), d))"

definition open_database :: "sql_error + database \<Rightarrow> sql_error + database" where
  "open_database conn =
     and_then conn (\<lambda>d. case migrate d of (Inl e, _) \<Rightarrow> Inl e | (Inr _, d) \<Rightarrow> Inr d)"

definition db_get :: "string \<Rightarrow> (database, sql_error, string option) fallible" where
  "db_get key = statement (\<lambda>d. (map_of (db_settings d) key, d))"

definition db_set :: "string \<Rightarrow> string \<Rightarrow> (database, sql_error, unit) fallible" where
  "db_set key v = statement (\<lambda>d. ((), d\<lparr>db_settings := AList.update key v (db_settings d)\<rparr>))"

definition delete_peers :: "(database, sql_error, unit) fallible" where
  "delete_peers = statement (\<lambda>d. ((), d\<lparr>db_peers := []\<rparr>))"

definition insert_or_ignore :: "string \<Rightarrow> string list \<Rightarrow> string list" where
  "insert_or_ignore p ps = (if p \<in> set ps then ps else ps @ [p])"

definition insert_peer :: "string \<Rightarrow> (database, sql_error, unit) fallible" where
  "insert_peer p = statement (\<lambda>d. ((), d\<lparr>db_peers := insert_or_ignore p (db_peers d)\<rparr>))"

definition select_peers :: "(database, sql_error, string list) fallible" where
  "select_peers = statement (\<lambda>d. (sort (db_peers d), d))"

text \<open>Both \<open>load_or_create\<close> functions: the stored text, or a fresh one that is stored.\<close>

definition load_or_create ::
    "(string \<Rightarrow> ('s, 'e, string option) fallible) \<Rightarrow> (string \<Rightarrow> string \<Rightarrow> ('s, 'e, unit) fallible)
       \<Rightarrow> string \<Rightarrow> string \<Rightarrow> ('s, 'e, string) fallible" where
  "load_or_create get put key fresh =
     and_do (get key) (\<lambda>stored.
       (case stored of Some v \<Rightarrow> return_ok v
        | None \<Rightarrow> and_do (put key fresh) (\<lambda>_. return_ok fresh)))"

definition load_or_create_named_seed :: "bytes \<Rightarrow> string \<Rightarrow> (database, sql_error, string) fallible" where
  "load_or_create_named_seed random key =
     load_or_create db_get db_set key (concat (map hex2 (take 32 random)))"

definition load_or_create_seed :: "bytes \<Rightarrow> (database, sql_error, string) fallible" where
  "load_or_create_seed random = load_or_create_named_seed random ''identity_seed''"

definition generate_codename :: "bytes \<Rightarrow> string" where
  "generate_codename random =
     map (\<lambda>b. CODENAME_ALPHABET ! (byte_val b mod length CODENAME_ALPHABET)) (take CODENAME_LEN random)"

definition load_or_create_codename :: "bytes \<Rightarrow> (database, sql_error, string) fallible" where
  "load_or_create_codename random =
     load_or_create db_get db_set CODENAME_KEY (generate_codename random)"

definition save_codename :: "string \<Rightarrow> (database, sql_error, unit) fallible" where
  "save_codename codename = db_set CODENAME_KEY codename"

definition module_key :: "string \<Rightarrow> nat \<Rightarrow> string" where
  "module_key base i = base @ ''_'' @ dec_str i"

definition save_module_config ::
    "('c, 'r, 'm) settings_env \<Rightarrow> nat \<Rightarrow> ('r, 'm) radio_module_config \<Rightarrow> (database, sql_error) action" where
  "save_module_config E module cfg =
     try_all
      [db_set (module_key ''kaonic_ctrl_radio_config'' module) (se_radio_to_json E (rmc_radio_config cfg)),
       db_set (module_key ''kaonic_ctrl_modulation'' module) (se_modulation_to_json E (rmc_modulation cfg))]"

definition save_modules ::
    "('c, 'r, 'm) settings_env \<Rightarrow> ('r, 'm) radio_module_config list \<Rightarrow> (database, sql_error) action list" where
  "save_modules E ms = map (\<lambda>(i, m). save_module_config E i m) (zip [0..<length ms] ms)"

definition save_config ::
    "('c, 'r, 'm) settings_env \<Rightarrow> ('c, 'r, 'm) gateway_config \<Rightarrow> (database, sql_error) action" where
  "save_config E c =
     try_all
      ([db_set ''network'' (cidr_to_string (se_cidr E) (gc_network c)),
        db_set ''advertised_routes'' (se_routes_to_json E (gc_advertised_routes c)),
        db_set ''allow_all_peers'' (bool_str (gc_allow_all_peers c)),
        db_set ''announce_freq_secs'' (dec_str (gc_announce_freq_secs c)),
        delete_peers]
       @ map insert_peer (gc_peers c)
       @ save_modules E (hrc_module_configs (gc_radio c)))"

text \<open>\<open>get(..).ok().flatten()\<close>: an error reads as nothing. Module 0 also has a key without a number.\<close>

definition get_quiet :: "string \<Rightarrow> database \<Rightarrow> string option \<times> database" where
  "get_quiet key d = (case db_get key d of (Inl _, d) \<Rightarrow> (None, d) | (Inr v, d) \<Rightarrow> (v, d))"

definition get_module_text :: "string \<Rightarrow> nat \<Rightarrow> database \<Rightarrow> string option \<times> database" where
  "get_module_text base i d =
     (case get_quiet (module_key base i) d of
        (Some v, d) \<Rightarrow> (Some v, d)
      | (None, d) \<Rightarrow> if i = 0 then get_quiet base d else (None, d))"

definition parsed_or :: "(string \<Rightarrow> 'a option) \<Rightarrow> 'a \<Rightarrow> string option \<Rightarrow> 'a" where
  "parsed_or parse dflt text =
     (case text of None \<Rightarrow> dflt | Some v \<Rightarrow> (case parse v of None \<Rightarrow> dflt | Some x \<Rightarrow> x))"

definition load_module ::
    "('c, 'r, 'm) settings_env \<Rightarrow> nat \<Rightarrow> database \<Rightarrow> ('r, 'm) radio_module_config \<times> database" where
  "load_module E i d =
     (let dflt = hrc_module_configs (se_default_radio E) ! i;
          (radio_text, d) = get_module_text ''kaonic_ctrl_radio_config'' i d;
          (modulation_text, d) = get_module_text ''kaonic_ctrl_modulation'' i d
      in (\<lparr>rmc_radio_config = parsed_or (se_radio_of_json E) (rmc_radio_config dflt) radio_text,
           rmc_modulation = parsed_or (se_modulation_of_json E) (rmc_modulation dflt) modulation_text\<rparr>, d))"

definition parse_bool :: "string \<Rightarrow> bool option" where
  "parse_bool s = (if s = ''true'' then Some True else if s = ''false'' then Some False else None)"

definition load_rest ::
    "('c, 'r, 'm) settings_env \<Rightarrow> 'c \<Rightarrow> (database, sql_error, ('c, 'r, 'm) gateway_config) fallible" where
  "load_rest E network =
     and_do (db_get ''announce_freq_secs'') (\<lambda>freq.
     and_do (db_get ''allow_all_peers'') (\<lambda>allow.
     and_do select_peers (\<lambda>peers.
     and_do (db_get ''advertised_routes'') (\<lambda>routes d.
       let (m0, d) = load_module E 0 d;
           (m1, d) = load_module E 1 d
       in (Inr \<lparr>gc_network = network,
                gc_allow_all_peers = parsed_or parse_bool DEFAULT_ALLOW_ALL_PEERS allow,
                gc_peers = peers,
                gc_advertised_routes =
                  parsed_or (se_routes_of_json E) []
                    (Some (case routes of Some r \<Rightarrow> r | None \<Rightarrow> DEFAULT_ADVERTISED_ROUTES)),
                gc_announce_freq_secs = parsed_or (parse_uint 4294967295) DEFAULT_ANNOUNCE_FREQ_SECS freq,
                gc_radio = \<lparr>hrc_module_configs = [m0, m1]\<rparr>\<rparr>, d)))))"

definition load_config ::
    "('c, 'r, 'm) settings_env \<Rightarrow> (database, sql_error, ('c, 'r, 'm) gateway_config) fallible" where
  "load_config E =
     and_do (db_get ''network'') (\<lambda>stored.
       let network_str = (case stored of Some s \<Rightarrow> s | None \<Rightarrow> DEFAULT_NETWORK)
       in case cidr_from_str (se_cidr E) network_str of
            Inl e \<Rightarrow> fail_with (InvalidParameterName (''invalid network '' @ [CHR 0x27] @ network_str @ [CHR 0x27]
                       @ '': '' @ e))
          | Inr network \<Rightarrow> load_rest E network)"

text \<open>The operations of \<open>Settings\<close> (\<open>settings/mod.rs\<close>), each of which calls the database.\<close>

datatype ('c, 'r, 'm) settings_op =
    SoSeed bytes
  | SoNamedSeed string bytes
  | SoCodename bytes
  | SoSaveCodename string
  | SoLoadConfig
  | SoSaveConfig "('c, 'r, 'm) gateway_config"
  | SoSaveModule nat "('r, 'm) radio_module_config"

fun settings_step ::
    "('c, 'r, 'm) settings_env \<Rightarrow> ('c, 'r, 'm) settings_op \<Rightarrow> database \<Rightarrow> database" where
  "settings_step E (SoSeed random) d = snd (load_or_create_seed random d)"
| "settings_step E (SoNamedSeed key random) d = snd (load_or_create_named_seed random key d)"
| "settings_step E (SoCodename random) d = snd (load_or_create_codename random d)"
| "settings_step E (SoSaveCodename codename) d = snd (save_codename codename d)"
| "settings_step E SoLoadConfig d = snd (load_config E d)"
| "settings_step E (SoSaveConfig c) d = snd (save_config E c d)"
| "settings_step E (SoSaveModule module cfg) d = snd (save_module_config E module cfg d)"

definition normalize_codename :: "string \<Rightarrow> string + string" where
  "normalize_codename v =
     (let normalized = map to_ascii_lower (trim v)
      in if length normalized \<noteq> 8 then Inl ''Codename must be exactly 8 characters.''
         else if \<not> list_all (\<lambda>ch. is_ascii_lowercase ch \<or> is_ascii_digit ch) normalized
         then Inl ''Codename must use only letters and digits.''
         else Inr normalized)"

section \<open>Transfer form\<close>

record ('r, 'm) gateway_settings_dto =
  gs_network :: string
  gs_allow_all_peers :: bool
  gs_peers :: "string list"
  gs_advertised_routes :: "string list"
  gs_announce_freq_secs :: nat
  gs_radio_modules :: "('r, 'm) radio_module_config list"

definition settings_dto_of ::
    "'c cidr_ops \<Rightarrow> ('c, 'r, 'm) gateway_config \<Rightarrow> ('r, 'm) gateway_settings_dto" where
  "settings_dto_of C c =
     \<lparr>gs_network = cidr_to_string C (gc_network c), gs_allow_all_peers = gc_allow_all_peers c,
      gs_peers = gc_peers c, gs_advertised_routes = map (cidr_to_string C) (gc_advertised_routes c),
      gs_announce_freq_secs = gc_announce_freq_secs c,
      gs_radio_modules = [hrc_module_configs (gc_radio c) ! 0, hrc_module_configs (gc_radio c) ! 1]\<rparr>"

definition route_of_dto :: "'c cidr_ops \<Rightarrow> string \<Rightarrow> string + 'c" where
  "route_of_dto C route =
     (case cidr_from_str C route of
        Inl e \<Rightarrow> Inl (''invalid advertised route '' @ [CHR 0x27] @ route @ [CHR 0x27] @ '': '' @ e)
      | Inr c \<Rightarrow> Inr c)"

definition config_of_dto ::
    "'c cidr_ops \<Rightarrow> ('r, 'm) gateway_settings_dto \<Rightarrow> string + ('c, 'r, 'm) gateway_config" where
  "config_of_dto C d =
     (case cidr_from_str C (gs_network d) of
        Inl e \<Rightarrow> Inl (''invalid network CIDR '' @ [CHR 0x27] @ gs_network d @ '': '' @ e)
      | Inr network \<Rightarrow>
          and_then (collect_results (map (route_of_dto C) (gs_advertised_routes d))) (\<lambda>advertised_routes.
            Inr \<lparr>gc_network = network, gc_allow_all_peers = gs_allow_all_peers d, gc_peers = gs_peers d,
                 gc_advertised_routes = advertised_routes,
                 gc_announce_freq_secs = gs_announce_freq_secs d,
                 gc_radio = \<lparr>hrc_module_configs = [gs_radio_modules d ! 0, gs_radio_modules d ! 1]\<rparr>\<rparr>))"

section \<open>What a statement does\<close>

text \<open>
  A store of texts, as the two \<open>load_or_create\<close> functions use it: a successful read gives the content, a
  successful write changes one key, and a failure changes nothing.
\<close>

locale text_store =
  fixes get :: "string \<Rightarrow> ('s, 'e, string option) fallible"
    and put :: "string \<Rightarrow> string \<Rightarrow> ('s, 'e, unit) fallible"
    and content :: "'s \<Rightarrow> string \<Rightarrow> string option"
  assumes get_content: "get k s = (r, s') \<Longrightarrow> content s' = content s"
    and get_value: "get k s = (Inr stored, s') \<Longrightarrow> stored = content s k"
    and put_ok: "put k v s = (Inr u, s') \<Longrightarrow> content s' = (content s)(k \<mapsto> v)"
    and put_err: "put k v s = (Inl e, s') \<Longrightarrow> content s' = content s"
begin

lemma load_or_create_cases:
  assumes "load_or_create get put k v s = (r, s')"
  obtains (read_error) e where "r = Inl e" "content s' = content s"
    | (stored) x where "content s k = Some x" "r = Inr x" "content s' = content s"
    | (write_error) e where "content s k = None" "r = Inl e" "content s' = content s"
    | (created) "content s k = None" "r = Inr v" "content s' = (content s)(k \<mapsto> v)"
proof -
  obtain g s1 where g: "get k s = (g, s1)" by (cases "get k s")
  note c1 = get_content [OF g]
  show thesis
  proof (cases g)
    case (Inl e)
    with g assms c1 show ?thesis using read_error by (auto simp add: load_or_create_def)
  next
    case (Inr found)
    note f = get_value [OF g [unfolded Inr], symmetric]
    show ?thesis
    proof (cases found)
      case (Some x)
      with Inr g assms c1 f show ?thesis using stored by (simp add: load_or_create_def)
    next
      case None
      obtain p s2 where p: "put k v s1 = (p, s2)" by (cases "put k v s1")
      show ?thesis
      proof (cases p)
        case (Inl e)
        with p None Inr g assms c1 f put_err [OF p [unfolded Inl]] show ?thesis
          using write_error by (auto simp add: load_or_create_def)
      next
        case p': (Inr u)
        with p None Inr g assms c1 f put_ok [OF p [unfolded p']] show ?thesis
          using created by (simp add: load_or_create_def)
      qed
    qed
  qed
qed

lemma load_or_create_stored:
  assumes "load_or_create get put k v s = (Inr x, s')"
  shows "content s' k = Some x" "x = (case content s k of Some y \<Rightarrow> y | None \<Rightarrow> v)"
  using assms by (auto elim: load_or_create_cases)

lemma load_or_create_other:
  assumes "load_or_create get put k v s = (r, s')"
  shows "k' \<noteq> k \<Longrightarrow> content s' k' = content s k'" "content s k \<noteq> None \<Longrightarrow> content s' = content s"
  using assms by (auto elim: load_or_create_cases)

lemma load_or_create_keeps:
  "content s k' = Some y \<Longrightarrow> content (snd (load_or_create get put k v s)) k' = Some y"
  using load_or_create_other [of k v s] by (cases "load_or_create get put k v s"; cases "k' = k") auto

end

lemma statement_ok:
  "statement f d = (Inr x, d') \<Longrightarrow> \<exists>fs. f (d\<lparr>db_faults := fs\<rparr>) = (x, d')"
  by (cases d) (auto simp: statement_def split: list.splits option.splits prod.splits)

lemma statement_err: "statement f d = (Inl e, d') \<Longrightarrow> \<exists>fs. d' = d\<lparr>db_faults := fs\<rparr>"
  by (auto simp: statement_def split: list.splits option.splits prod.splits)

lemma statement_no_faults: "db_faults d = [] \<Longrightarrow> statement f d = (Inr (fst (f d)), snd (f d))"
  by (simp add: statement_def split: prod.splits)

interpretation settings_table: text_store db_get db_set "\<lambda>d. map_of (db_settings d)"
proof unfold_locales
  fix k s and r :: "sql_error + string option" and s'
  assume g: "db_get k s = (r, s')"
  show "map_of (db_settings s') = map_of (db_settings s)"
    using g by (cases r) (auto simp: db_get_def dest!: statement_ok statement_err)
next
  fix k s v s'
  assume "db_get k s = (Inr v, s')"
  then show "v = map_of (db_settings s) k" by (auto simp: db_get_def dest!: statement_ok)
next
  fix k v s u s'
  assume "db_set k v s = (Inr u, s')"
  then show "map_of (db_settings s') = (map_of (db_settings s))(k \<mapsto> v)"
    by (auto simp: db_set_def dest!: statement_ok)
next
  fix k v s e s'
  assume "db_set k v s = (Inl e, s')"
  then show "map_of (db_settings s') = map_of (db_settings s)" by (auto simp: db_set_def dest!: statement_err)
qed

lemma db_set_outcome:
  "db_set k v d = (r, d') \<Longrightarrow> db_peers d' = db_peers d
     \<and> db_settings d' = (case r of Inl _ \<Rightarrow> db_settings d | Inr _ \<Rightarrow> AList.update k v (db_settings d))"
  by (cases r) (auto simp: db_set_def dest!: statement_ok statement_err)

lemma insert_peer_outcome:
  "insert_peer p d = (r, d') \<Longrightarrow> db_settings d' = db_settings d
     \<and> db_peers d' = (case r of Inl _ \<Rightarrow> db_peers d | Inr _ \<Rightarrow> insert_or_ignore p (db_peers d))"
  by (cases r) (auto simp: insert_peer_def dest!: statement_ok statement_err)

lemma delete_peers_outcome:
  "delete_peers d = (r, d') \<Longrightarrow> db_settings d' = db_settings d
     \<and> db_peers d' = (case r of Inl _ \<Rightarrow> db_peers d | Inr _ \<Rightarrow> [])"
  by (cases r) (auto simp: delete_peers_def dest!: statement_ok statement_err)

definition put_all :: "(string \<times> string) list \<Rightarrow> (string \<times> string) list \<Rightarrow> (string \<times> string) list" where
  "put_all kvs m = fold (\<lambda>(k, v). AList.update k v) kvs m"

lemma put_all_simps [simp]:
  "put_all [] m = m" "put_all ((k, v) # kvs) m = put_all kvs (AList.update k v m)"
  "put_all (xs @ ys) m = put_all ys (put_all xs m)"
  by (simp_all add: put_all_def)

lemma map_of_put_all: "distinct (keys kvs) \<Longrightarrow> map_of (put_all kvs m) = map_of m ++ map_of kvs"
proof (induction kvs arbitrary: m)
  case (Cons kv kvs)
  obtain k v where kv: "kv = (k, v)" by (cases kv)
  with Cons have "map_of kvs k = None" by (simp add: map_of_eq_None_iff)
  with Cons kv show ?case by (auto simp: fun_eq_iff map_add_def split: option.splits)
qed simp

lemma db_sets_outcome:
  "try_all (map (\<lambda>(k, v). db_set k v) kvs) d = (r, d') \<Longrightarrow>
   \<exists>n\<le>length kvs. db_settings d' = put_all (take n kvs) (db_settings d) \<and> db_peers d' = db_peers d
     \<and> (r = Inr () \<longleftrightarrow> n = length kvs)"
proof (induction kvs arbitrary: d)
  case (Cons kv kvs)
  obtain k v where kv: "kv = (k, v)" by (cases kv)
  obtain r1 d1 where s: "db_set k v d = (r1, d1)" by (cases "db_set k v d")
  show ?case
  proof (cases r1)
    case (Inl e)
    with Cons.prems s kv have "r = Inl e" "d' = d1" by simp_all
    with db_set_outcome [OF s] Inl show ?thesis by (intro exI [of _ 0]) simp
  next
    case (Inr u)
    with Cons.prems s kv have "try_all (map (\<lambda>(k, v). db_set k v) kvs) d1 = (r, d')" by simp
    from Cons.IH [OF this] obtain n where "n \<le> length kvs"
      "db_settings d' = put_all (take n kvs) (db_settings d1)" "db_peers d' = db_peers d1"
      "r = Inr () \<longleftrightarrow> n = length kvs" by blast
    with db_set_outcome [OF s] Inr kv show ?thesis by (intro exI [of _ "Suc n"]) simp
  qed
qed simp

lemma insert_peers_outcome:
  "try_all (map insert_peer ps) d = (r, d') \<Longrightarrow>
   \<exists>n\<le>length ps. db_peers d' = fold insert_or_ignore (take n ps) (db_peers d) \<and> db_settings d' = db_settings d
     \<and> (r = Inr () \<longleftrightarrow> n = length ps)"
proof (induction ps arbitrary: d)
  case (Cons p ps)
  obtain r1 d1 where s: "insert_peer p d = (r1, d1)" by (cases "insert_peer p d")
  show ?case
  proof (cases r1)
    case (Inl e)
    with Cons.prems s have "r = Inl e" "d' = d1" by simp_all
    with insert_peer_outcome [OF s] Inl show ?thesis by (intro exI [of _ 0]) simp
  next
    case (Inr u)
    with Cons.prems s have "try_all (map insert_peer ps) d1 = (r, d')" by simp
    from Cons.IH [OF this] obtain n where "n \<le> length ps"
      "db_peers d' = fold insert_or_ignore (take n ps) (db_peers d1)" "db_settings d' = db_settings d1"
      "r = Inr () \<longleftrightarrow> n = length ps" by blast
    with insert_peer_outcome [OF s] Inr show ?thesis by (intro exI [of _ "Suc n"]) simp
  qed
qed simp

section \<open>Loading and saving\<close>

text \<open>The settings that \<open>save_config\<close> writes, in order.\<close>

definition module_values ::
    "('c, 'r, 'm) settings_env \<Rightarrow> nat \<Rightarrow> ('r, 'm) radio_module_config \<Rightarrow> (string \<times> string) list" where
  "module_values E i m =
     [(module_key ''kaonic_ctrl_radio_config'' i, se_radio_to_json E (rmc_radio_config m)),
      (module_key ''kaonic_ctrl_modulation'' i, se_modulation_to_json E (rmc_modulation m))]"

definition modules_values ::
    "('c, 'r, 'm) settings_env \<Rightarrow> ('r, 'm) radio_module_config list \<Rightarrow> (string \<times> string) list" where
  "modules_values E ms = concat (map (\<lambda>(i, m). module_values E i m) (zip [0..<length ms] ms))"

definition base_values ::
    "('c, 'r, 'm) settings_env \<Rightarrow> ('c, 'r, 'm) gateway_config \<Rightarrow> (string \<times> string) list" where
  "base_values E c =
     [(''network'', cidr_to_string (se_cidr E) (gc_network c)),
      (''advertised_routes'', se_routes_to_json E (gc_advertised_routes c)),
      (''allow_all_peers'', bool_str (gc_allow_all_peers c)),
      (''announce_freq_secs'', dec_str (gc_announce_freq_secs c))]"

abbreviation put_actions :: "(string \<times> string) list \<Rightarrow> (database, sql_error) action list" where
  "put_actions kvs \<equiv> map (\<lambda>(k, v). db_set k v) kvs"

lemma save_module_config_puts: "save_module_config E i m = try_all (put_actions (module_values E i m))"
  by (rule ext) (simp add: save_module_config_def module_values_def)

lemma concat_put_actions:
  "concat (map (\<lambda>(i, m). put_actions (module_values E i m)) zs) =
     put_actions (concat (map (\<lambda>(i, m). module_values E i m) zs))"
  by (induction zs) auto

lemma save_modules_puts: "try_all (save_modules E ms) d = try_all (put_actions (modules_values E ms)) d"
proof -
  have "save_modules E ms = map try_all (map (\<lambda>(i, m). put_actions (module_values E i m)) (zip [0..<length ms] ms))"
    by (auto simp: save_modules_def save_module_config_puts)
  moreover have "concat (map (\<lambda>(i, m). put_actions (module_values E i m)) (zip [0..<length ms] ms)) =
      put_actions (modules_values E ms)"
    unfolding modules_values_def by (rule concat_put_actions)
  ultimately show ?thesis by (simp only: try_all_concat)
qed

lemma save_config_phases:
  "save_config E c d =
     try_all (put_actions (base_values E c) @ delete_peers # map insert_peer (gc_peers c)
       @ save_modules E (hrc_module_configs (gc_radio c))) d"
  by (simp add: save_config_def base_values_def)

definition saved_peers :: "string list \<Rightarrow> string list" where
  "saved_peers ps = fold insert_or_ignore ps []"

lemma save_config_outcome:
  assumes "save_config E c d = (r, d')"
  shows
    "(\<exists>n<5. is_ok r = False \<and> db_settings d' = put_all (take n (base_values E c)) (db_settings d)
        \<and> db_peers d' = db_peers d)
   \<or> (\<exists>n<length (gc_peers c). is_ok r = False \<and> db_settings d' = put_all (base_values E c) (db_settings d)
        \<and> db_peers d' = saved_peers (take n (gc_peers c)))
   \<or> (\<exists>n\<le>length (modules_values E (hrc_module_configs (gc_radio c))).
        is_ok r = (n = length (modules_values E (hrc_module_configs (gc_radio c))))
        \<and> db_settings d' = put_all (base_values E c @ take n (modules_values E (hrc_module_configs (gc_radio c))))
            (db_settings d)
        \<and> db_peers d' = saved_peers (gc_peers c))"
proof -
  let ?ms = "hrc_module_configs (gc_radio c)"
  obtain r1 d1 where p1: "try_all (put_actions (base_values E c)) d = (r1, d1)" by fastforce
  obtain r2 d2 where p2: "delete_peers d1 = (r2, d2)" by fastforce
  obtain r3 d3 where p3: "try_all (map insert_peer (gc_peers c)) d2 = (r3, d3)" by fastforce
  obtain r4 d4 where p4: "try_all (save_modules E ?ms) d3 = (r4, d4)" by fastforce
  have run: "(r, d') =
      (case r1 of Inl e \<Rightarrow> (Inl e, d1) | Inr _ \<Rightarrow>
        (case r2 of Inl e \<Rightarrow> (Inl e, d2) | Inr _ \<Rightarrow>
          (case r3 of Inl e \<Rightarrow> (Inl e, d3) | Inr _ \<Rightarrow> (r4, d4))))"
    using assms p1 p2 p3 p4
    by (cases r1; cases r2; cases r3) (auto simp: save_config_phases try_all_append)
  obtain n where n: "n \<le> length (base_values E c)" "db_settings d1 = put_all (take n (base_values E c)) (db_settings d)"
    "db_peers d1 = db_peers d" "r1 = Inr () \<longleftrightarrow> n = length (base_values E c)"
    using db_sets_outcome [OF p1] by blast
  have len: "length (base_values E c) = 4" by (simp add: base_values_def)
  show ?thesis
  proof (cases r1)
    case (Inl e)
    then have "r = Inl e" "d' = d1" "n < 5" using run n len by simp_all
    then show ?thesis using n by (intro disjI1 exI [of _ n]) simp
  next
    case r1: (Inr u1)
    then have full: "db_settings d1 = put_all (base_values E c) (db_settings d)" using n by simp
    show ?thesis
    proof (cases r2)
      case (Inl e)
      then have "r = Inl e" "d' = d2" using run r1 by simp_all
      with delete_peers_outcome [OF p2] Inl full n len show ?thesis by (intro disjI1 exI [of _ 4]) simp
    next
      case r2: (Inr u2)
      with delete_peers_outcome [OF p2] full
      have d2: "db_settings d2 = put_all (base_values E c) (db_settings d)" "db_peers d2 = []" by simp_all
      obtain k where k: "k \<le> length (gc_peers c)" "db_peers d3 = saved_peers (take k (gc_peers c))"
        "db_settings d3 = db_settings d2" "r3 = Inr () \<longleftrightarrow> k = length (gc_peers c)"
        using insert_peers_outcome [OF p3] d2 by (auto simp: saved_peers_def)
      show ?thesis
      proof (cases r3)
        case (Inl e)
        then have "r = Inl e" "d' = d3" "k < length (gc_peers c)" using run r1 r2 k by simp_all
        with k d2 show ?thesis by (intro disjI2 disjI1 exI [of _ k]) simp
      next
        case r3: (Inr u3)
        then have e: "r = r4" "d' = d4" "k = length (gc_peers c)" using run r1 r2 k by simp_all
        obtain j where j: "j \<le> length (modules_values E ?ms)"
          "db_settings d4 = put_all (take j (modules_values E ?ms)) (db_settings d3)"
          "db_peers d4 = db_peers d3" "r4 = Inr () \<longleftrightarrow> j = length (modules_values E ?ms)"
          using db_sets_outcome [OF p4 [unfolded save_modules_puts]] by blast
        have "is_ok r4 = (r4 = Inr ())" by (cases r4) simp_all
        with e j k d2 show ?thesis by (intro disjI2 exI [of _ j]) simp
      qed
    qed
  qed
qed

lemma set_insert_or_ignore: "set (insert_or_ignore p ps) = insert p (set ps)"
  by (auto simp: insert_or_ignore_def)

lemma distinct_insert_or_ignore: "distinct ps \<Longrightarrow> distinct (insert_or_ignore p ps)"
  by (auto simp: insert_or_ignore_def)

lemma fold_insert_or_ignore:
  "distinct qs \<Longrightarrow> distinct (fold insert_or_ignore ps qs) \<and> set (fold insert_or_ignore ps qs) = set ps \<union> set qs"
  by (induction ps arbitrary: qs) (auto simp: distinct_insert_or_ignore set_insert_or_ignore)

lemma sort_saved_peers: "sort (saved_peers ps) = btree_set ps"
  using fold_insert_or_ignore [of "[]" ps]
  by (simp add: saved_peers_def btree_set_def sorted_distinct_set_unique)

lemma no_fault_simps:
  assumes "db_faults d = []"
  shows "db_get k d = (Inr (map_of (db_settings d) k), d)" "select_peers d = (Inr (sort (db_peers d)), d)"
    "get_quiet k d = (map_of (db_settings d) k, d)"
  using assms by (simp_all add: db_get_def select_peers_def statement_no_faults get_quiet_def)

lemma get_module_text_no_fault:
  "db_faults d = [] \<Longrightarrow> map_of (db_settings d) (module_key base i) = Some v \<Longrightarrow>
   get_module_text base i d = (Some v, d)"
  by (simp add: get_module_text_def no_fault_simps)

lemma load_module_no_fault:
  assumes "db_faults d = []"
    and "map_of (db_settings d) (module_key ''kaonic_ctrl_radio_config'' i) = Some (se_radio_to_json E (rmc_radio_config m))"
    and "map_of (db_settings d) (module_key ''kaonic_ctrl_modulation'' i) = Some (se_modulation_to_json E (rmc_modulation m))"
    and "se_radio_of_json E (se_radio_to_json E (rmc_radio_config m)) = Some (rmc_radio_config m)"
    and "se_modulation_of_json E (se_modulation_to_json E (rmc_modulation m)) = Some (rmc_modulation m)"
  shows "load_module E i d = (m, d)"
  using assms by (simp add: load_module_def get_module_text_no_fault parsed_or_def)

lemma dec_str_0_1: "dec_str 0 = ''0''" "dec_str (Suc 0) = ''1''"
  by (simp_all add: dec_str.simps digit_char_def char_of_eq_iff take_bit_eq_mod)

lemma parse_bool_str [simp]: "parse_bool (bool_str b) = Some b"
  by (simp add: parse_bool_def bool_str_def)

definition json_faithful :: "('c, 'r, 'm) settings_env \<Rightarrow> ('c, 'r, 'm) gateway_config \<Rightarrow> bool" where
  "json_faithful E c \<longleftrightarrow>
     cidr_from_str (se_cidr E) (cidr_to_string (se_cidr E) (gc_network c)) = Inr (gc_network c)
   \<and> se_routes_of_json E (se_routes_to_json E (gc_advertised_routes c)) = Some (gc_advertised_routes c)
   \<and> list_all (\<lambda>m. se_radio_of_json E (se_radio_to_json E (rmc_radio_config m)) = Some (rmc_radio_config m)
        \<and> se_modulation_of_json E (se_modulation_to_json E (rmc_modulation m)) = Some (rmc_modulation m))
       (hrc_module_configs (gc_radio c))"

definition well_sized :: "('c, 'r, 'm) gateway_config \<Rightarrow> bool" where
  "well_sized c \<longleftrightarrow> length (hrc_module_configs (gc_radio c)) = 2 \<and> gc_announce_freq_secs c \<le> 4294967295"

lemma saved_settings:
  assumes "save_config E c d = (Inr (), d')" and ms: "hrc_module_configs (gc_radio c) = [m0, m1]"
  shows "map_of (db_settings d') = map_of (db_settings d) ++ map_of (base_values E c @ module_values E 0 m0 @ module_values E 1 m1)"
    "db_peers d' = saved_peers (gc_peers c)"
proof -
  have v: "modules_values E [m0, m1] = module_values E 0 m0 @ module_values E 1 m1"
    by (simp add: modules_values_def upt_rec)
  have d: "distinct (keys (base_values E c @ module_values E 0 m0 @ module_values E 1 m1))"
    by (simp add: base_values_def module_values_def module_key_def dec_str_0_1)
  have "db_settings d' = put_all (base_values E c @ module_values E 0 m0 @ module_values E 1 m1) (db_settings d)"
    using save_config_outcome [OF assms(1)] by (auto simp: ms v)
  then show "map_of (db_settings d') = map_of (db_settings d) ++ map_of (base_values E c @ module_values E 0 m0 @ module_values E 1 m1)"
    using map_of_put_all [OF d] by simp
  show "db_peers d' = saved_peers (gc_peers c)"
    using save_config_outcome [OF assms(1)] by auto
qed

text \<open>
  A configuration that was saved without error is loaded again as it was, whatever the database held
  before, with its peers sorted and without duplicates: for a configuration whose parts survive their own
  text form, with both radio modules and an announce period that is a 32-bit number.
\<close>

lemma settings_roundtrip:
  assumes "save_config E c d = (Inr (), d')" and "json_faithful E c" and "well_sized c"
  shows "fst (load_config E (d'\<lparr>db_faults := []\<rparr>)) = Inr (c\<lparr>gc_peers := btree_set (gc_peers c)\<rparr>)"
proof -
  obtain m0 m1 where ms: "hrc_module_configs (gc_radio c) = [m0, m1]"
    using assms(3) by (auto simp: well_sized_def length_Suc_conv numeral_2_eq_2)
  let ?d = "d'\<lparr>db_faults := []\<rparr>"
  note saved = saved_settings [OF assms(1) ms]
  have get: "map_of (db_settings ?d) k = Some v"
    if "map_of (base_values E c @ module_values E 0 m0 @ module_values E 1 m1) k = Some v" for k v
    using saved(1) that by (auto simp: map_add_Some_iff)
  have base:
    "map_of (db_settings ?d) ''network'' = Some (cidr_to_string (se_cidr E) (gc_network c))"
    "map_of (db_settings ?d) ''advertised_routes'' = Some (se_routes_to_json E (gc_advertised_routes c))"
    "map_of (db_settings ?d) ''allow_all_peers'' = Some (bool_str (gc_allow_all_peers c))"
    "map_of (db_settings ?d) ''announce_freq_secs'' = Some (dec_str (gc_announce_freq_secs c))"
    by (rule get, simp add: base_values_def)+
  have modules:
    "map_of (db_settings ?d) (module_key ''kaonic_ctrl_radio_config'' 0) = Some (se_radio_to_json E (rmc_radio_config m0))"
    "map_of (db_settings ?d) (module_key ''kaonic_ctrl_modulation'' 0) = Some (se_modulation_to_json E (rmc_modulation m0))"
    "map_of (db_settings ?d) (module_key ''kaonic_ctrl_radio_config'' 1) = Some (se_radio_to_json E (rmc_radio_config m1))"
    "map_of (db_settings ?d) (module_key ''kaonic_ctrl_modulation'' 1) = Some (se_modulation_to_json E (rmc_modulation m1))"
    by (rule get, simp add: base_values_def module_values_def module_key_def dec_str_0_1)+
  have faithful:
    "se_radio_of_json E (se_radio_to_json E (rmc_radio_config m)) = Some (rmc_radio_config m)"
    "se_modulation_of_json E (se_modulation_to_json E (rmc_modulation m)) = Some (rmc_modulation m)"
    if "m = m0 \<or> m = m1" for m
    using assms(2) that by (auto simp: json_faithful_def ms)
  have load: "load_module E 0 ?d = (m0, ?d)" "load_module E 1 ?d = (m1, ?d)"
    by (rule load_module_no_fault; use modules faithful in simp)+
  have "gc_announce_freq_secs c \<le> 4294967295" using assms(3) by (simp add: well_sized_def)
  note freq = parse_uint_dec_str [OF this]
  have radio: "\<lparr>hrc_module_configs = [m0, m1]\<rparr> = gc_radio c" using ms by simp
  show ?thesis
    using assms(2) base load freq radio saved(2)
    by (simp add: load_config_def load_rest_def no_fault_simps and_do_def json_faithful_def parsed_or_def sort_saved_peers Let_def)
qed

lemma load_config_well_sized:
  assumes "load_config E d = (Inr c, d')"
  shows "well_sized c"
proof -
  have freq: "parsed_or (parse_uint 4294967295) DEFAULT_ANNOUNCE_FREQ_SECS t \<le> 4294967295" for t
    by (auto simp: parsed_or_def DEFAULT_ANNOUNCE_FREQ_SECS_def split: option.splits dest: parse_uint_Some_le)
  have rest: "load_rest E n d = (Inr c, d') \<Longrightarrow> well_sized c" for n d
    using freq by (auto simp: load_rest_def well_sized_def Let_def and_do_ok split_beta)
  have cont: "(case r of Inl e \<Rightarrow> fail_with (f e) | Inr n \<Rightarrow> load_rest E n) s = (Inr c, d') \<Longrightarrow> well_sized c"
    for r s and f :: "string \<Rightarrow> sql_error"
    by (cases r) (auto dest: rest)
  show ?thesis using assms unfolding load_config_def Let_def and_do_ok by (elim exE conjE) (erule cont)
qed

section \<open>Identity\<close>

text \<open>The keys no configuration or codename is written to.\<close>

definition identity_key :: "string \<Rightarrow> bool" where
  "identity_key k \<longleftrightarrow>
     k \<notin> {''network'', ''advertised_routes'', ''allow_all_peers'', ''announce_freq_secs'', CODENAME_KEY}
     \<and> \<not> starts_with ''kaonic_ctrl_'' k"

lemma module_key_prefix [simp]:
  "starts_with ''kaonic_ctrl_'' (module_key ''kaonic_ctrl_radio_config'' i)"
  "starts_with ''kaonic_ctrl_'' (module_key ''kaonic_ctrl_modulation'' i)"
  by (simp_all add: starts_with_def module_key_def)

lemma map_of_put_all_other: "k \<notin> set (keys kvs) \<Longrightarrow> map_of (put_all kvs m) k = map_of m k"
  by (induction kvs arbitrary: m) auto

lemma not_in_keys_take: "k \<notin> set (keys kvs) \<Longrightarrow> k \<notin> set (keys (take n kvs))"
  by (auto dest: in_set_takeD)

lemma identity_not_base: "identity_key k \<Longrightarrow> k \<notin> set (keys (base_values E c))"
  by (simp add: base_values_def identity_key_def)

lemma identity_not_module: "identity_key k \<Longrightarrow> k \<notin> set (keys (module_values E i m))"
  by (auto simp: module_values_def identity_key_def)

lemma identity_not_modules: "identity_key k \<Longrightarrow> k \<notin> set (keys (modules_values E ms))"
proof -
  assume "identity_key k"
  then have "k \<notin> set (keys (concat (map (\<lambda>(i, m). module_values E i m) zs)))" for zs
    by (induction zs) (auto simp: module_values_def identity_key_def)
  then show ?thesis by (simp only: modules_values_def not_False_eq_True)
qed

lemma save_config_other:
  assumes "identity_key k" and "save_config E c d = (r, d')"
  shows "map_of (db_settings d') k = map_of (db_settings d) k"
proof -
  note b = identity_not_base [OF assms(1), of E c]
    and m = identity_not_modules [OF assms(1), of E "hrc_module_configs (gc_radio c)"]
  have "map_of (put_all (take n (base_values E c)) (db_settings d)) k = map_of (db_settings d) k"
    "map_of (put_all (base_values E c) (db_settings d)) k = map_of (db_settings d) k"
    "map_of (put_all (base_values E c @ take n (modules_values E (hrc_module_configs (gc_radio c)))) (db_settings d)) k
       = map_of (db_settings d) k" for n
    using not_in_keys_take [OF b] not_in_keys_take [OF m] b
    by (simp_all only: put_all_simps map_of_put_all_other not_False_eq_True)
  then show ?thesis using save_config_outcome [OF assms(2)] by (elim disjE exE conjE) (simp_all only:)
qed

lemma save_module_other:
  assumes "identity_key k" and "save_module_config E i m d = (r, d')"
  shows "map_of (db_settings d') k = map_of (db_settings d) k"
proof -
  obtain n where "db_settings d' = put_all (take n (module_values E i m)) (db_settings d)"
    using db_sets_outcome [OF assms(2) [unfolded save_module_config_puts]] by blast
  moreover have "k \<notin> set (keys (take n (module_values E i m)))"
    by (rule not_in_keys_take [OF identity_not_module [OF assms(1)]])
  ultimately show ?thesis by (simp add: map_of_put_all_other)
qed

text \<open>What the tables hold, whatever faults are still to come.\<close>

definition db_rows :: "database \<Rightarrow> (string \<times> string) list \<times> string list" where
  "db_rows d = (db_settings d, db_peers d)"

lemma get_quiet_rows: "db_rows (snd (get_quiet k d)) = db_rows d"
  by (cases "db_get k d"; cases "fst (db_get k d)")
    (auto simp: get_quiet_def db_get_def db_rows_def dest!: statement_ok statement_err)

lemma get_module_text_rows: "db_rows (snd (get_module_text base i d)) = db_rows d"
  using get_quiet_rows [of "module_key base i" d] get_quiet_rows [of base "snd (get_quiet (module_key base i) d)"]
  by (auto simp: get_module_text_def split: prod.splits option.splits)

lemma load_module_rows: "db_rows (snd (load_module E i d)) = db_rows d"
  using get_module_text_rows [of "''kaonic_ctrl_radio_config''" i d]
    get_module_text_rows [of "''kaonic_ctrl_modulation''" i "snd (get_module_text ''kaonic_ctrl_radio_config'' i d)"]
  by (simp add: load_module_def Let_def split_beta)

lemma db_get_rows: "db_get k d = (r, d') \<Longrightarrow> db_rows d' = db_rows d"
  by (cases r) (auto simp: db_get_def db_rows_def dest!: statement_ok statement_err)

lemma select_peers_rows: "select_peers d = (r, d') \<Longrightarrow> db_rows d' = db_rows d"
  by (cases r) (auto simp: select_peers_def db_rows_def dest!: statement_ok statement_err)

lemma and_do_keeps:
  assumes "\<And>s r s'. m s = (r, s') \<Longrightarrow> g s' = g s" and "\<And>x s. g (snd (f x s)) = g s"
  shows "g (snd (and_do m f s)) = g s"
proof -
  obtain r s1 where m: "m s = (r, s1)" by (cases "m s")
  with assms(1) [OF m] assms(2) show ?thesis by (cases r) (simp_all add: and_do_def)
qed

lemma load_modules_rows:
  "db_rows (snd (case load_module E 0 d of (m0, d) \<Rightarrow> case load_module E 1 d of (m1, d) \<Rightarrow> (f m0 m1, d))) =
     db_rows d"
  by (simp add: split_beta load_module_rows)

lemma load_rest_rows: "db_rows (snd (load_rest E n d)) = db_rows d"
proof -
  have routes: "db_rows (snd (and_do (db_get k) (\<lambda>routes d.
      case load_module E 0 d of (m0, d) \<Rightarrow> case load_module E 1 d of (m1, d) \<Rightarrow> (Inr (f routes m0 m1), d)) d)) =
      db_rows d" for k d and f :: "string option \<Rightarrow> _ \<Rightarrow> _ \<Rightarrow> ('a, 'b, 'c) gateway_config"
    by (rule and_do_keeps [where g = db_rows, OF db_get_rows load_modules_rows])
  show ?thesis
    unfolding load_rest_def Let_def
    by (rule and_do_keeps [where g = db_rows, OF db_get_rows], assumption,
       rule and_do_keeps [where g = db_rows, OF db_get_rows], assumption,
       rule and_do_keeps [where g = db_rows, OF select_peers_rows], assumption, rule routes)
qed

lemma load_config_rows: "db_rows (snd (load_config E d)) = db_rows d"
  unfolding load_config_def Let_def
  by (rule and_do_keeps [where g = db_rows, OF db_get_rows], assumption)
    (auto simp: load_rest_rows split: sum.split)

lemma load_config_settings: "db_settings (snd (load_config E d)) = db_settings d"
  using load_config_rows [of E d] by (simp add: db_rows_def)

lemma settings_step_keeps:
  assumes "identity_key k" and "map_of (db_settings d) k = Some v"
  shows "map_of (db_settings (settings_step E op d)) k = Some v"
proof (cases op)
  case (SoSaveCodename s)
  have "k \<noteq> CODENAME_KEY" using assms(1) by (simp add: identity_key_def)
  with SoSaveCodename assms(2) show ?thesis
    by (cases "db_set CODENAME_KEY s d") (auto simp: save_codename_def dest!: db_set_outcome split: sum.splits)
next
  case (SoSaveConfig c)
  with assms show ?thesis by (cases "save_config E c d") (simp add: save_config_other)
next
  case (SoSaveModule i m)
  with assms show ?thesis by (cases "save_module_config E i m d") (simp add: save_module_other)
qed (simp_all add: load_or_create_seed_def load_or_create_named_seed_def load_or_create_codename_def
      load_config_settings settings_table.load_or_create_keeps assms)

lemma fold_settings_keep:
  assumes "identity_key k" and "map_of (db_settings d) k = Some v"
  shows "map_of (db_settings (fold (settings_step E) ops d)) k = Some v"
  using assms(2) by (induction ops arbitrary: d) (simp_all add: settings_step_keeps [OF assms(1)])

text \<open>
  An identity, once created, never changes: after a seed was handed out for a key, every later request
  for that key that succeeds gives the same seed, whatever random bytes it draws and whatever operations on
  the settings, successful or failing, came in between. The key of the gateway's identity is such a key.
\<close>

lemma identity_seed_stable:
  assumes "identity_key key"
    and "load_or_create_named_seed random key d = (Inr seed, d1)"
    and "load_or_create_named_seed random' key (fold (settings_step E) ops d1) = (Inr seed', d3)"
  shows "seed' = seed"
proof -
  have "map_of (db_settings d1) key = Some seed"
    using settings_table.load_or_create_stored(1) assms(2) by (simp add: load_or_create_named_seed_def)
  from fold_settings_keep [OF assms(1) this, of E ops] show ?thesis
    using settings_table.load_or_create_stored(2) assms(3) by (fastforce simp: load_or_create_named_seed_def)
qed

section \<open>Codenames\<close>

definition codename_ok :: "string \<Rightarrow> bool" where
  "codename_ok s \<longleftrightarrow> length s = 8 \<and> list_all (\<lambda>c. is_ascii_lowercase c \<or> is_ascii_digit c) s"

lemma normalize_codename_ok: "normalize_codename s = Inr n \<Longrightarrow> codename_ok n"
  by (auto simp: normalize_codename_def codename_ok_def Let_def split: if_splits)

lemma to_ascii_lower_id: "is_ascii_lowercase c \<or> is_ascii_digit c \<Longrightarrow> to_ascii_lower c = c"
  by (auto simp: to_ascii_lower_def ascii_defs)

lemma codename_ok_normalized:
  assumes "codename_ok s"
  shows "normalize_codename s = Inr s"
proof -
  have g: "list_all is_ascii_graphic s" using assms
    by (auto simp: codename_ok_def list_all_iff is_ascii_alphanumeric_def intro!: alnum_graphic)
  have "s \<noteq> []" using assms by (auto simp: codename_ok_def)
  with g have "trim s = s" by (auto simp: list_all_iff intro!: trim_graphic)
  moreover have "map to_ascii_lower s = s"
    using assms by (simp add: codename_ok_def list_all_iff to_ascii_lower_id map_idI)
  ultimately show ?thesis using assms by (simp add: normalize_codename_def codename_ok_def)
qed

lemma codename_alphabet: "list_all (\<lambda>c. is_ascii_lowercase c \<or> is_ascii_digit c) CODENAME_ALPHABET"
  by code_simp

lemma generate_codename_ok: "8 \<le> length random \<Longrightarrow> codename_ok (generate_codename random)"
proof -
  assume len: "8 \<le> length random"
  have "0 < length CODENAME_ALPHABET" by (simp add: CODENAME_ALPHABET_def)
  then have "CODENAME_ALPHABET ! (n mod length CODENAME_ALPHABET) \<in> set CODENAME_ALPHABET" for n
    by (intro nth_mem mod_less_divisor)
  then have "is_ascii_lowercase (CODENAME_ALPHABET ! (n mod length CODENAME_ALPHABET))
      \<or> is_ascii_digit (CODENAME_ALPHABET ! (n mod length CODENAME_ALPHABET))" for n
    using codename_alphabet by (auto simp: list_all_iff)
  with len show ?thesis by (auto simp: codename_ok_def generate_codename_def CODENAME_LEN_def list_all_iff)
qed

text \<open>
  A codename is always eight lower-case letters and digits. The user's input is accepted exactly when it
  is, up to surrounding white space and case; normalising twice changes nothing, a generated codename is
  accepted as it is, and one that was saved is the one that is loaded from then on.
\<close>

lemma codename_wellformed:
  "(normalize_codename s = Inr n \<longleftrightarrow> n = map to_ascii_lower (trim s) \<and> codename_ok n)
   \<and> (codename_ok n \<longrightarrow> normalize_codename n = Inr n)
   \<and> (8 \<le> length random \<longrightarrow> codename_ok (generate_codename random))
   \<and> (save_codename n d = (Inr (), d') \<longrightarrow> load_or_create_codename random d' = (Inr m, d'') \<longrightarrow> m = n)"
proof (intro conjI impI)
  show "normalize_codename s = Inr n \<longleftrightarrow> n = map to_ascii_lower (trim s) \<and> codename_ok n"
    by (auto simp: normalize_codename_def codename_ok_def Let_def)
  show "codename_ok n \<Longrightarrow> normalize_codename n = Inr n" by (rule codename_ok_normalized)
  show "8 \<le> length random \<Longrightarrow> codename_ok (generate_codename random)" by (rule generate_codename_ok)
next
  assume s: "save_codename n d = (Inr (), d')" and l: "load_or_create_codename random d' = (Inr m, d'')"
  from s have "map_of (db_settings d') CODENAME_KEY = Some n"
    using settings_table.put_ok by (simp add: save_codename_def)
  then show "m = n"
    using settings_table.load_or_create_stored(2) l by (fastforce simp: load_or_create_codename_def)
qed

section \<open>Transfer form\<close>

lemma config_of_dto_of:
  assumes "cidr_from_str C (cidr_to_string C (gc_network c)) = Inr (gc_network c)"
    and "\<And>r. r \<in> set (gc_advertised_routes c) \<Longrightarrow> cidr_from_str C (cidr_to_string C r) = Inr r"
    and "length (hrc_module_configs (gc_radio c)) = 2"
  shows "config_of_dto C (settings_dto_of C c) = Inr c"
proof -
  obtain m0 m1 where ms: "hrc_module_configs (gc_radio c) = [m0, m1]"
    using assms(3) by (auto simp: length_Suc_conv numeral_2_eq_2)
  have "map (\<lambda>r. route_of_dto C (cidr_to_string C r)) (gc_advertised_routes c) = map Inr (gc_advertised_routes c)"
    using assms(2) by (simp add: route_of_dto_def)
  moreover have "\<lparr>hrc_module_configs = [m0, m1]\<rparr> = gc_radio c" using ms by simp
  ultimately show ?thesis
    using assms(1) collect_results_Inr [of "gc_advertised_routes c"]
    by (simp only: config_of_dto_def settings_dto_of_def gateway_settings_dto.simps ms map_map comp_def
        sum.case and_then_simps nth_Cons_0 nth_Cons_Suc One_nat_def gateway_config.surjective) simp
qed

section \<open>Instances\<close>

text \<open>
  Networks are the pairs of address and length of the model, a list of routes is their text forms with
  commas, and the radio types are texts. The database starts empty and without faults.
\<close>

definition routes_text :: "cidr4 list \<Rightarrow> string" where
  "routes_text rs = join_with '','' (map (cidr_to_string cidr4_ops) rs)"

definition routes_of_text :: "string \<Rightarrow> cidr4 list option" where
  "routes_of_text s =
     (if s = [] then Some []
      else ok (collect_results (map (cidr_from_str cidr4_ops) (split_on CHR '','' s))))"

lemma cidr4_text: "cidr_to_string cidr4_ops c \<noteq> []" "CHR '','' \<notin> set (cidr_to_string cidr4_ops c)"
proof -
  have "CHR '','' \<notin> set (dec_str n)" for n
    using dec_str_digits [of n] by (auto simp: list_all_iff is_ascii_digit_def)
  then show "CHR '','' \<notin> set (cidr_to_string cidr4_ops c)"
    by (auto simp: cidr4_ops_def ipv4_to_string_def octets_def)
qed (simp add: cidr4_ops_def)

lemma routes_text_roundtrip: "routes_of_text (routes_text rs) = Some rs"
proof (cases rs)
  case (Cons r rest)
  have "join_with '','' (map (cidr_to_string cidr4_ops) rs) \<noteq> []"
    using cidr4_text(1) [of r] by (cases rest) (simp_all add: Cons)
  moreover have "split_on CHR '','' (join_with '','' (map (cidr_to_string cidr4_ops) rs)) = map (cidr_to_string cidr4_ops) rs"
    by (rule split_on_join) (auto simp: Cons cidr4_text)
  moreover have "map (\<lambda>c. cidr_from_str cidr4_ops (cidr_to_string cidr4_ops c)) rs = map Inr rs"
    by (simp add: cidr4_parse_to_string)
  ultimately show ?thesis
    by (simp only: routes_of_text_def routes_text_def map_map comp_def if_False collect_results_Inr ok_simps)
qed (simp add: routes_text_def routes_of_text_def)

definition plain_env :: "(cidr4, string, string) settings_env" where
  "plain_env =
     \<lparr>se_cidr = cidr4_ops, se_routes_to_json = routes_text, se_routes_of_json = routes_of_text,
      se_radio_to_json = (\<lambda>r. r), se_radio_of_json = Some,
      se_modulation_to_json = (\<lambda>m. m), se_modulation_of_json = Some,
      se_default_radio = \<lparr>hrc_module_configs =
        [\<lparr>rmc_radio_config = ''3'', rmc_modulation = ''ofdm''\<rparr>,
         \<lparr>rmc_radio_config = ''11'', rmc_modulation = ''ofdm''\<rparr>]\<rparr>\<rparr>"

lemma plain_env_faithful: "json_faithful plain_env c"
  by (simp add: json_faithful_def plain_env_def routes_text_roundtrip cidr4_parse_to_string list_all_iff)

definition empty_database :: database where
  "empty_database = \<lparr>db_settings = [], db_peers = [], db_faults = []\<rparr>"

definition plain_config :: "(cidr4, string, string) gateway_config" where
  "plain_config =
     \<lparr>gc_network = cidr4_of (mk_ipv4 10 20 0 0) 16, gc_allow_all_peers = False, gc_peers = [''b'', ''a'', ''b''],
      gc_advertised_routes = [], gc_announce_freq_secs = 7,
      gc_radio = \<lparr>hrc_module_configs =
        [\<lparr>rmc_radio_config = ''1'', rmc_modulation = ''qam''\<rparr>, \<lparr>rmc_radio_config = ''2'', rmc_modulation = ''qpsk''\<rparr>]\<rparr>\<rparr>"

definition faultless :: "(database, sql_error) action \<Rightarrow> bool" where
  "faultless f \<longleftrightarrow> (\<forall>d. db_faults d = [] \<longrightarrow> (\<exists>d'. f d = (Inr (), d') \<and> db_faults d' = []))"

lemma faultless_statements: "faultless (db_set k v)" "faultless delete_peers" "faultless (insert_peer p)"
  by (simp_all add: faultless_def db_set_def delete_peers_def insert_peer_def statement_no_faults)

lemma faultless_try_all: "\<forall>f\<in>set fs. faultless f \<Longrightarrow> faultless (try_all fs)"
proof (induction fs)
  case (Cons f fs)
  show ?case unfolding faultless_def
  proof (intro allI impI)
    fix d :: database assume "db_faults d = []"
    moreover have "faultless f" using Cons.prems by simp
    ultimately obtain d1 where 1: "f d = (Inr (), d1)" "db_faults d1 = []" unfolding faultless_def by blast
    with Cons obtain d' where "try_all fs d1 = (Inr (), d')" "db_faults d' = []" unfolding faultless_def by force
    with 1 show "\<exists>d'. try_all (f # fs) d = (Inr (), d') \<and> db_faults d' = []" by simp
  qed
qed (simp add: faultless_def)

lemma faultless_save_config: "faultless (save_config E c)"
proof -
  have m: "faultless (save_module_config E i m)" for i m
    unfolding save_module_config_def by (rule faultless_try_all) (simp add: faultless_statements)
  show ?thesis unfolding save_config_def
    by (rule faultless_try_all) (auto simp: save_modules_def faultless_statements m)
qed

lemma load_or_create_named_seed_total:
  "db_faults d = [] \<Longrightarrow> \<exists>x d'. load_or_create_named_seed r k d = (Inr x, d') \<and> db_faults d' = []"
  by (auto simp: load_or_create_named_seed_def load_or_create_def no_fault_simps and_do_def
      db_set_def statement_no_faults split: option.splits)

lemma settings_roundtrip_witness:
  "\<exists>d'. save_config plain_env plain_config empty_database = (Inr (), d')
     \<and> fst (load_config plain_env (d'\<lparr>db_faults := []\<rparr>)) =
         Inr (plain_config\<lparr>gc_peers := btree_set [''b'', ''a'', ''b'']\<rparr>)"
proof -
  obtain d' where d': "save_config plain_env plain_config empty_database = (Inr (), d')"
    using faultless_save_config [of plain_env plain_config, unfolded faultless_def, rule_format, of empty_database]
    by (auto simp: empty_database_def)
  have "json_faithful plain_env plain_config" "well_sized plain_config" "gc_peers plain_config = [''b'', ''a'', ''b'']"
    by (simp_all add: plain_env_faithful well_sized_def plain_config_def)
  with settings_roundtrip [OF d'] d' show ?thesis by simp
qed

lemma identity_seed_stable_witness:
  "\<exists>seed d1 d3.
     load_or_create_named_seed (replicate 32 CHR ''a'') ''identity_seed'' empty_database = (Inr seed, d1)
   \<and> load_or_create_named_seed (replicate 32 CHR ''b'') ''identity_seed''
       (fold (settings_step plain_env) [SoSaveConfig plain_config, SoSaveCodename ''abcd1234''] d1) = (Inr seed, d3)"
proof -
  have key: "identity_key ''identity_seed''"
    by (simp add: identity_key_def CODENAME_KEY_def starts_with_def)
  have "db_faults empty_database = []" by (simp add: empty_database_def)
  from load_or_create_named_seed_total [OF this] obtain seed d1 where
    1: "load_or_create_named_seed (replicate 32 CHR ''a'') ''identity_seed'' empty_database = (Inr seed, d1)"
      "db_faults d1 = []" by blast
  obtain d2 where 2: "save_config plain_env plain_config d1 = (Inr (), d2)" "db_faults d2 = []"
    using faultless_save_config [of plain_env plain_config] 1(2) by (auto simp: faultless_def)
  obtain d3 where 3: "db_set CODENAME_KEY ''abcd1234'' d2 = (Inr (), d3)" "db_faults d3 = []"
    using faultless_statements(1) [unfolded faultless_def] 2(2) by blast
  have run: "fold (settings_step plain_env) [SoSaveConfig plain_config, SoSaveCodename ''abcd1234''] d1 = d3"
    using 2 3 by (simp add: save_codename_def)
  from load_or_create_named_seed_total [OF 3(2)] obtain seed' d4 where
    4: "load_or_create_named_seed (replicate 32 CHR ''b'') ''identity_seed'' d3 = (Inr seed', d4)" by blast
  have "seed' = seed" by (rule identity_seed_stable [OF key 1(1) 4 [folded run]])
  with 1 4 run show ?thesis by metis
qed

lemma codename_wellformed_witness:
  "normalize_codename '' AbCD1234 '' = Inr ''abcd1234'' \<and> codename_ok ''abcd1234''
     \<and> codename_ok (generate_codename ''12345678'')"
proof -
  have t: "map to_ascii_lower (trim '' AbCD1234 '') = ''abcd1234''" by code_simp
  have "codename_ok ''abcd1234''" by (simp add: codename_ok_def ascii_defs)
  with t codename_wellformed [of "'' AbCD1234 ''" "''abcd1234''" "''12345678''"] show ?thesis by auto
qed

end
