(* ===== verification/Gw_Sys.thy ===== *)
theory Gw_Sys
  imports Platform
begin

text \<open>
  The operating system as the gateway uses it: processes, files and the environment. All of it is the
  parameter \<open>sys_ops\<close> on a world; a \<open>std::io::Error\<close> is the string it displays as, a path is its bytes,
  and \<open>so_debug_path\<close> is how \<open>Debug\<close> shows a path.
\<close>

record 'w sys_ops =
  so_os :: "'w os"
  so_env :: "string \<Rightarrow> string option"
  so_read_file :: "string \<Rightarrow> 'w \<Rightarrow> string + string"
  so_exists :: "string \<Rightarrow> 'w \<Rightarrow> bool"
  so_write_file :: "string \<Rightarrow> bytes \<Rightarrow> ('w, string) action"
  so_create_dir_all :: "string \<Rightarrow> ('w, string) action"
  so_remove_file :: "string \<Rightarrow> ('w, string) action"
  so_rename :: "string \<Rightarrow> string \<Rightarrow> ('w, string) action"
  so_set_mode :: "string \<Rightarrow> nat \<Rightarrow> ('w, string + string) action"
  so_canonicalize :: "string \<Rightarrow> 'w \<Rightarrow> string option"
  so_debug_path :: "string \<Rightarrow> string"

text \<open>What a failed process said: its error output, or else its output.\<close>

definition output_message :: "proc_output \<Rightarrow> string" where
  "output_message out =
     (let stderr = trim (from_utf8_lossy (po_stderr out));
          stdout = trim (from_utf8_lossy (po_stdout out))
      in if stderr = [] then stdout else stderr)"

definition map_err :: "('e \<Rightarrow> 'f) \<Rightarrow> ('e + 'a) \<times> 'w \<Rightarrow> ('f + 'a) \<times> 'w" where
  "map_err f r = (case r of (Inl e, w) \<Rightarrow> (Inl (f e), w) | (Inr x, w) \<Rightarrow> (Inr x, w))"

lemma map_err_simps [simp]: "map_err f (Inl e, w) = (Inl (f e), w)" "map_err f (Inr x, w) = (Inr x, w)"
  by (simp_all add: map_err_def)

text \<open>The status codes of the answers.\<close>

definition NO_CONTENT :: nat where "NO_CONTENT = 204"
definition BAD_REQUEST :: nat where "BAD_REQUEST = 400"
definition NOT_FOUND :: nat where "NOT_FOUND = 404"
definition INTERNAL_SERVER_ERROR :: nat where "INTERNAL_SERVER_ERROR = 500"
definition BAD_GATEWAY :: nat where "BAD_GATEWAY = 502"
definition SERVICE_UNAVAILABLE :: nat where "SERVICE_UNAVAILABLE = 503"

lemmas status_codes =
  NO_CONTENT_def BAD_REQUEST_def NOT_FOUND_def INTERNAL_SERVER_ERROR_def BAD_GATEWAY_def
  SERVICE_UNAVAILABLE_def

text \<open>\<open>Result::map(|_| ())\<close>\<close>

definition to_unit :: "('e + 'a) \<times> 'w \<Rightarrow> ('e + unit) \<times> 'w" where
  "to_unit r = (case r of (Inl e, w) \<Rightarrow> (Inl e, w) | (Inr _, w) \<Rightarrow> (Inr (), w))"

lemma to_unit_simps [simp]: "to_unit (Inl e, w) = (Inl e, w)" "to_unit (Inr x, w) = (Inr (), w)"
  by (simp_all add: to_unit_def)

end
