(* ===== verification/Gw_Network.thy ===== *)
theory Gw_Network
  imports Gw_Sys Routes
begin

text \<open>
  WiFi and the network snapshot of the gateway (\<open>kaonic-gateway/src/network.rs\<close>, the Linux variant). The
  blocking tasks run to their end, so \<open>TaskJoin\<close> does not arise.
\<close>

definition DEFAULT_WIFI_SCRIPT :: string where "DEFAULT_WIFI_SCRIPT = ''/usr/bin/kaonic-wifi-mode''"
definition DEFAULT_WIFI_MODE_FILE :: string where "DEFAULT_WIFI_MODE_FILE = ''/etc/kaonic/wifi-mode''"
definition DEFAULT_WIFI_ANTENNA_FILE :: string where "DEFAULT_WIFI_ANTENNA_FILE = ''/etc/kaonic/wifi-antenna''"
definition DEFAULT_MACHINE_FILE :: string where "DEFAULT_MACHINE_FILE = ''/etc/kaonic/kaonic_machine''"
definition DEFAULT_WPA_CONF :: string where "DEFAULT_WPA_CONF = ''/etc/wpa_supplicant-wlan0.conf''"

datatype wifi_mode = Ap | Sta

fun wifi_mode_parse :: "string \<Rightarrow> wifi_mode option" where
  "wifi_mode_parse v =
     (if v = ''ap'' \<or> v = ''AP'' then Some Ap else if v = ''sta'' \<or> v = ''STA'' then Some Sta else None)"

fun wifi_mode_str :: "wifi_mode \<Rightarrow> string" where
  "wifi_mode_str Ap = ''ap''"
| "wifi_mode_str Sta = ''sta''"

datatype wifi_antenna = Internal | External

fun wifi_antenna_parse :: "string \<Rightarrow> wifi_antenna option" where
  "wifi_antenna_parse v =
     (if v = ''internal'' \<or> v = ''INTERNAL'' then Some Internal
      else if v = ''external'' \<or> v = ''EXTERNAL'' then Some External else None)"

fun wifi_antenna_str :: "wifi_antenna \<Rightarrow> string" where
  "wifi_antenna_str Internal = ''internal''"
| "wifi_antenna_str External = ''external''"

datatype network_error =
    InvalidMode string
  | InvalidAntenna string
  | InvalidSsid
  | InvalidPsk
  | MissingStaConfig
  | NetStatePoisoned
  | NetTaskJoin string
  | ModeFileWrite string
  | NetCommandIo string string
  | NetCommandFailed string string

definition quoted :: "string \<Rightarrow> string" where
  "quoted s = CHR 0x27 # s @ [CHR 0x27]"

definition backquoted :: "string \<Rightarrow> string" where
  "backquoted s = CHR 0x60 # s @ [CHR 0x60]"

fun network_error_to_string :: "network_error \<Rightarrow> string" where
  "network_error_to_string (InvalidMode m) = ''invalid WiFi mode '' @ quoted m"
| "network_error_to_string (InvalidAntenna a) = ''invalid WiFi antenna '' @ quoted a"
| "network_error_to_string InvalidSsid = ''SSID is required''"
| "network_error_to_string InvalidPsk = ''PSK must be between 8 and 63 characters''"
| "network_error_to_string MissingStaConfig = ''no saved station WiFi configuration is available''"
| "network_error_to_string NetStatePoisoned = ''network mock state lock poisoned''"
| "network_error_to_string (NetTaskJoin e) = ''blocking network task failed: '' @ e"
| "network_error_to_string (ModeFileWrite e) = ''failed to update WiFi mode file: '' @ e"
| "network_error_to_string (NetCommandIo c e) = ''failed to execute '' @ backquoted c @ '': '' @ e"
| "network_error_to_string (NetCommandFailed c m) = backquoted c @ '' failed: '' @ m"

record wifi_status =
  ws_mode :: string
  ws_antenna :: string
  ws_antenna_supported :: bool
  ws_configured_ssid :: "string option"
  ws_connected_ssid :: "string option"
  ws_wlan0_ip :: "string option"
  ws_hostapd_status :: string
  ws_wpa_supplicant_status :: string
  ws_link_details :: string

record network_snapshot =
  ns_backend :: string
  ns_interface_source :: string
  ns_interface_details :: string
  ns_wifi :: wifi_status

section \<open>Paths\<close>

definition env_path :: "'w sys_ops \<Rightarrow> string \<Rightarrow> string \<Rightarrow> string" where
  "env_path S var dflt = (case so_env S var of Some p \<Rightarrow> p | None \<Rightarrow> dflt)"

fun first_script :: "'w sys_ops \<Rightarrow> string list \<Rightarrow> 'w \<Rightarrow> string" where
  "first_script S [] w = DEFAULT_WIFI_SCRIPT"
| "first_script S (p # ps) w =
     (if is_absolute p then (if so_exists S p w then p else first_script S ps w) else p)"

definition wifi_script_path :: "'w sys_ops \<Rightarrow> 'w \<Rightarrow> string" where
  "wifi_script_path S w =
     (case so_env S ''KAONIC_WIFI_MODE_SCRIPT'' of
        Some p \<Rightarrow> p
      | None \<Rightarrow> first_script S [DEFAULT_WIFI_SCRIPT, ''/home/root/wifi_mode.sh'', ''wifi_mode.sh''] w)"

definition wifi_mode_file_path :: "'w sys_ops \<Rightarrow> string" where
  "wifi_mode_file_path S = env_path S ''KAONIC_WIFI_MODE_FILE'' DEFAULT_WIFI_MODE_FILE"

definition wifi_antenna_file_path :: "'w sys_ops \<Rightarrow> string" where
  "wifi_antenna_file_path S = env_path S ''KAONIC_WIFI_ANTENNA_FILE'' DEFAULT_WIFI_ANTENNA_FILE"

definition machine_file_path :: "'w sys_ops \<Rightarrow> string" where
  "machine_file_path S = env_path S ''KAONIC_MACHINE_FILE'' DEFAULT_MACHINE_FILE"

definition wpa_conf_path :: "'w sys_ops \<Rightarrow> string" where
  "wpa_conf_path S = env_path S ''KAONIC_WIFI_WPA_CONF'' DEFAULT_WPA_CONF"

definition wpa_pid_file_path :: string where
  "wpa_pid_file_path = ''/run/wpa_supplicant-wlan0.pid''"

definition wifi_iface_name :: string where
  "wifi_iface_name = ''wlan0''"

section \<open>Processes\<close>

definition run_program ::
    "'w sys_ops \<Rightarrow> string \<Rightarrow> string \<Rightarrow> string list \<Rightarrow> ('w, network_error, string) fallible" where
  "run_program S display program args w =
     (case exec (so_os S) program args w of
        (Inl source, w) \<Rightarrow> (Inl (NetCommandIo display source), w)
      | (Inr out, w) \<Rightarrow>
          if \<not> po_success out then (Inl (NetCommandFailed display (output_message out)), w)
          else (Inr (from_utf8_lossy (po_stdout out)), w))"

definition run_command ::
    "'w sys_ops \<Rightarrow> string \<Rightarrow> string \<Rightarrow> string list \<Rightarrow> ('w, network_error, string) fallible" where
  "run_command S display program args = run_program S display program args"

section \<open>Parsing\<close>

definition parse_ipv4_from_ip_addr :: "string \<Rightarrow> string option" where
  "parse_ipv4_from_ip_addr output =
     find_map (\<lambda>line.
       case strip_prefix ''inet '' (trim line) of
         None \<Rightarrow> None
       | Some v \<Rightarrow> Some (trim (hd (split_on CHR ''/'' v)))) (str_lines output)"

definition first_word :: "string \<Rightarrow> string option" where
  "first_word s = (case split_whitespace s of [] \<Rightarrow> None | x # _ \<Rightarrow> Some (trim x))"

definition parse_ipv4_from_ifconfig :: "string \<Rightarrow> string option" where
  "parse_ipv4_from_ifconfig output =
     find_map (\<lambda>line.
       let trimmed = trim line in
       case strip_prefix ''inet '' trimmed of
         Some v \<Rightarrow> first_word v
       | None \<Rightarrow>
           (case str_find ''inet '' trimmed of
              None \<Rightarrow> None
            | Some i \<Rightarrow> first_word (drop (i + 5) trimmed))) (str_lines output)"

definition read_configured_ssid :: "'w sys_ops \<Rightarrow> string \<Rightarrow> 'w \<Rightarrow> string option" where
  "read_configured_ssid S path w =
     (case so_read_file S path w of
        Inl _ \<Rightarrow> None
      | Inr text \<Rightarrow>
          find_map (\<lambda>line.
            let v = trim line in
            if starts_with ''#'' v then None
            else (case strip_prefix ''ssid='' v of
                    None \<Rightarrow> None
                  | Some ssid \<Rightarrow> Some (trim_matches CHR 0x22 ssid))) (str_lines text))"

definition read_interface_ipv4 :: "(string \<times> if_addr) list option \<Rightarrow> string \<Rightarrow> string option" where
  "read_interface_ipv4 interfaces name =
     (case interfaces of
        None \<Rightarrow> None
      | Some ifs \<Rightarrow>
          find_map (\<lambda>(n, addr).
            if n \<noteq> name then None
            else (case addr of IfV4 ip _ \<Rightarrow> Some (ipv4_to_string ip) | IfV6 _ \<Rightarrow> None)) ifs)"

definition validate_wifi_credentials :: "string \<Rightarrow> string \<Rightarrow> network_error + unit" where
  "validate_wifi_credentials ssid psk =
     (if trim ssid = [] then Inl InvalidSsid
      else if \<not> (8 \<le> length (chars psk) \<and> length (chars psk) \<le> 63) then Inl InvalidPsk
      else Inr ())"

section \<open>Reading the state\<close>

definition read_current_mode :: "'w sys_ops \<Rightarrow> 'w \<Rightarrow> wifi_mode" where
  "read_current_mode S w =
     (case so_read_file S (wifi_mode_file_path S) w of
        Inl _ \<Rightarrow> Ap
      | Inr v \<Rightarrow> (case wifi_mode_parse (trim (first_line v)) of Some m \<Rightarrow> m | None \<Rightarrow> Ap))"

definition read_current_antenna :: "'w sys_ops \<Rightarrow> 'w \<Rightarrow> wifi_antenna" where
  "read_current_antenna S w =
     (case so_read_file S (wifi_antenna_file_path S) w of
        Inl _ \<Rightarrow> Internal
      | Inr v \<Rightarrow> (case wifi_antenna_parse (trim (first_line v)) of Some a \<Rightarrow> a | None \<Rightarrow> Internal))"

definition machine_supports_antenna :: "'w sys_ops \<Rightarrow> 'w \<Rightarrow> bool" where
  "machine_supports_antenna S w =
     (case so_read_file S (machine_file_path S) w of
        Inl _ \<Rightarrow> False
      | Inr machine \<Rightarrow>
          trim (first_line machine) \<in> {''stm32mp1-kaonic-protob'', ''stm32mp1-kaonic-protoc''})"

definition read_interface_details :: "'w sys_ops \<Rightarrow> ('w, network_error, string \<times> string) fallible" where
  "read_interface_details S w =
     (case run_command S ''ifconfig -a'' ''ifconfig'' [''-a''] w of
        (Inr output, w) \<Rightarrow> (Inr (''ifconfig -a'', output), w)
      | (Inl _, w) \<Rightarrow>
          (case run_command S ''ip addr show'' ''ip'' [''addr'', ''show''] w of
             (Inl e, w) \<Rightarrow> (Inl e, w)
           | (Inr output, w) \<Rightarrow> (Inr (''ip addr show'', output), w)))"

definition read_station_link :: "'w sys_ops \<Rightarrow> ('w, network_error, string option \<times> string) fallible" where
  "read_station_link S =
     and_do (run_command S ''iw dev wlan0 link'' ''iw'' [''dev'', wifi_iface_name, ''link'']) (\<lambda>output.
       let trimmed = trim output in
       if trimmed = [] \<or> map to_ascii_lower trimmed = map to_ascii_lower ''Not connected.''
       then return_ok (None, ''Disconnected'')
       else return_ok
         (find_map (\<lambda>line. map_option trim (strip_prefix ''SSID: '' (trim line))) (str_lines output), output))"

definition read_wifi_ip :: "'w sys_ops \<Rightarrow> ('w, network_error, string option) fallible" where
  "read_wifi_ip S w =
     (case run_command S (''ip -4 addr show dev '' @ wifi_iface_name) ''ip''
             [''-4'', ''addr'', ''show'', ''dev'', wifi_iface_name] w of
        (Inr output, w) \<Rightarrow> (Inr (parse_ipv4_from_ip_addr output), w)
      | (Inl _, w) \<Rightarrow>
          (case run_command S (''ifconfig '' @ wifi_iface_name) ''ifconfig'' [wifi_iface_name] w of
             (Inr output, w) \<Rightarrow> (Inr (parse_ipv4_from_ifconfig output), w)
           | (Inl _, w) \<Rightarrow> (Inr None, w)))"

definition read_service_status_linux :: "'w sys_ops \<Rightarrow> string \<Rightarrow> ('w, network_error, string) fallible" where
  "read_service_status_linux S service =
     and_do (run_command S (''systemctl is-active '' @ service) ''systemctl'' [''is-active'', service])
       (\<lambda>output. return_ok (trim output))"

definition read_wifi_status :: "'w sys_ops \<Rightarrow> ('w, network_error, wifi_status) fallible" where
  "read_wifi_status S w =
     (let mode = read_current_mode S w;
          antenna = read_current_antenna S w;
          antenna_supported = machine_supports_antenna S w;
          configured_ssid = read_configured_ssid S (wpa_conf_path S) w
      in and_do (case mode of Ap \<Rightarrow> return_ok (Some ''192.168.10.1'') | Sta \<Rightarrow> read_wifi_ip S) (\<lambda>wlan0_ip w.
           let (service, w) = read_service_status_linux S ''hostapd.service'' w;
               hostapd_status = (case service of Inr s \<Rightarrow> s | Inl _ \<Rightarrow> ''unknown'');
               wpa_supplicant_status = (if so_exists S wpa_pid_file_path w then ''running'' else ''stopped'')
           in and_do (case mode of Ap \<Rightarrow> return_ok (None, ''Access Point mode enabled.'') | Sta \<Rightarrow> read_station_link S)
                (\<lambda>(connected_ssid, link_details).
                  return_ok
                    \<lparr>ws_mode = wifi_mode_str mode, ws_antenna = wifi_antenna_str antenna,
                     ws_antenna_supported = antenna_supported, ws_configured_ssid = configured_ssid,
                     ws_connected_ssid = connected_ssid, ws_wlan0_ip = wlan0_ip,
                     ws_hostapd_status = hostapd_status, ws_wpa_supplicant_status = wpa_supplicant_status,
                     ws_link_details = link_details\<rparr>) w) w)"

definition read_network_snapshot :: "'w sys_ops \<Rightarrow> ('w, network_error, network_snapshot) fallible" where
  "read_network_snapshot S =
     and_do (read_interface_details S) (\<lambda>(interface_source, interface_details).
     and_do (read_wifi_status S) (\<lambda>wifi.
       return_ok
         \<lparr>ns_backend = ''Linux'', ns_interface_source = interface_source,
          ns_interface_details = interface_details, ns_wifi = wifi\<rparr>))"

section \<open>Changing the state\<close>

definition create_parent :: "'w sys_ops \<Rightarrow> string \<Rightarrow> ('w, network_error) action" where
  "create_parent S path w =
     (case path_parent path of
        None \<Rightarrow> (Inr (), w)
      | Some parent \<Rightarrow>
          map_err (\<lambda>e. ModeFileWrite (so_debug_path S parent @ '': '' @ e)) (so_create_dir_all S parent w))"

definition write_text :: "'w sys_ops \<Rightarrow> string \<Rightarrow> string \<Rightarrow> ('w, network_error) action" where
  "write_text S path text w =
     map_err (\<lambda>e. ModeFileWrite (so_debug_path S path @ '': '' @ e)) (so_write_file S path text w)"

definition write_wifi_mode_file :: "'w sys_ops \<Rightarrow> string \<Rightarrow> ('w, network_error) action" where
  "write_wifi_mode_file S mode =
     (let mode_file = wifi_mode_file_path S
      in try_all [create_parent S mode_file, write_text S mode_file (mode @ [CHR 0x0A])])"

definition sta_network_file :: string where
  "sta_network_file = ''/etc/systemd/network/62-wlan0.network''"

definition sta_network_text :: string where
  "sta_network_text =
     join_with [CHR 0x0A] [''[Match]'', ''Name=wlan0'', [], ''[Network]'', ''DHCP=yes'', ''IPv6AcceptRA=yes'', []]"

definition write_sta_network_override :: "'w sys_ops \<Rightarrow> ('w, network_error) action" where
  "write_sta_network_override S =
     try_all [create_parent S sta_network_file, write_text S sta_network_file sta_network_text]"

definition prepare_station_mode_without_config :: "'w sys_ops \<Rightarrow> ('w, network_error) action" where
  "prepare_station_mode_without_config S =
     try_all
      [write_sta_network_override S,
       \<lambda>w. (Inr (), snd (run_command S ''systemctl stop hostapd.service'' ''systemctl''
                          [''stop'', ''hostapd.service''] w)),
       \<lambda>w. to_unit (run_command S ''systemctl restart systemd-networkd.service'' ''systemctl''
                      [''restart'', ''systemd-networkd.service''] w)]"

definition set_wifi_mode :: "'w sys_ops \<Rightarrow> wifi_mode \<Rightarrow> ('w, network_error) action" where
  "set_wifi_mode S mode w =
     (let script = wifi_script_path S w in
      case mode of
        Ap \<Rightarrow> to_unit (run_program S (script @ '' ap'') script [''ap''] w)
      | Sta \<Rightarrow>
          and_do (write_wifi_mode_file S ''sta'') (\<lambda>_ w.
            if so_exists S (wpa_conf_path S) w
            then to_unit (run_program S (script @ '' apply'') script [''apply''] w)
            else prepare_station_mode_without_config S w) w)"

definition connect_wifi_linux :: "'w sys_ops \<Rightarrow> string \<Rightarrow> string \<Rightarrow> ('w, network_error) action" where
  "connect_wifi_linux S ssid psk w =
     (let script = wifi_script_path S w
      in to_unit (run_program S (script @ '' sta <ssid> <redacted>'') script [''sta'', ssid, psk] w))"

definition connect_wifi :: "'w sys_ops \<Rightarrow> string \<Rightarrow> string \<Rightarrow> ('w, network_error) action" where
  "connect_wifi S ssid psk w =
     (case validate_wifi_credentials ssid psk of
        Inl e \<Rightarrow> (Inl e, w)
      | Inr _ \<Rightarrow> connect_wifi_linux S (trim ssid) psk w)"

definition set_wifi_antenna :: "'w sys_ops \<Rightarrow> wifi_antenna \<Rightarrow> ('w, network_error) action" where
  "set_wifi_antenna S antenna w =
     (let script = wifi_script_path S w
      in to_unit (run_program S (script @ '' antenna '' @ wifi_antenna_str antenna) script
                    [''antenna'', wifi_antenna_str antenna] w))"

section \<open>Lemmas\<close>

lemma wifi_mode_parse_str: "wifi_mode_parse (wifi_mode_str m) = Some m"
  by (cases m) simp_all

lemma wifi_antenna_parse_str: "wifi_antenna_parse (wifi_antenna_str a) = Some a"
  by (cases a) simp_all

lemma chars_length: "length (chars s) \<le> length s"
  by (simp add: chars_def)

lemma trim_first_line_sta: "trim (first_line (''sta'' @ [CHR 0x0A])) = ''sta''"
  by code_simp

text \<open>What stays readable: a predicate on the world that processes and directories leave alone.\<close>

lemma run_program_keeps:
  assumes "\<And>p a w r w'. exec (so_os S) p a w = (r, w') \<Longrightarrow> f w' = f w"
  shows "f (snd (run_program S d p a w)) = f w"
  using assms by (auto simp: run_program_def split: prod.splits sum.splits)

lemma to_unit_snd [simp]: "snd (to_unit r) = snd r"
  by (cases r; cases "fst r") auto

lemma map_err_snd [simp]: "snd (map_err f r) = snd r"
  by (cases r; cases "fst r") auto

lemma fst_map_err_Inr: "fst (map_err f r) = Inr x \<longleftrightarrow> fst r = Inr x"
  by (cases r; cases "fst r") auto

lemma try_all_keeps:
  assumes "\<And>g w. g \<in> set fs \<Longrightarrow> f (snd (g w)) = f w"
  shows "f (snd (try_all fs w)) = f w"
  using assms
proof (induction fs arbitrary: w)
  case (Cons g fs)
  obtain r w1 where g: "g w = (r, w1)" by (cases "g w")
  with Cons.prems [of g w] have "f w1 = f w" by simp
  with Cons g show ?case by (cases r) simp_all
qed simp

lemma read_wifi_status_mode:
  "read_wifi_status S w = (Inr wifi, w') \<Longrightarrow> ws_mode wifi = wifi_mode_str (read_current_mode S w)"
  by (auto simp: read_wifi_status_def Let_def and_do_ok split_beta)

section \<open>Properties\<close>

text \<open>
  Once station mode was requested and the mode file could be written, the gateway reports station mode,
  also when the WiFi script failed afterwards: the mode read back and every snapshot taken next say
  \<open>sta\<close>. This holds on every system whose files read as they were last written and whose processes and new
  directories leave the mode file alone.
\<close>

lemma wifi_station_mode_reported:
  assumes "set_wifi_mode S Sta w = (r, w')" and "\<And>m. r \<noteq> Inl (ModeFileWrite m)"
    and written: "\<And>p t w w'. so_write_file S p t w = (Inr (), w') \<Longrightarrow> so_read_file S p w' = Inr t"
    and others: "\<And>p q t w r w'. so_write_file S p t w = (r, w') \<Longrightarrow> q \<noteq> p \<Longrightarrow> so_read_file S q w' = so_read_file S q w"
    and dirs: "\<And>p q w. so_read_file S q (snd (so_create_dir_all S p w)) = so_read_file S q w"
    and procs: "\<And>p a w r w'. exec (so_os S) p a w = (r, w') \<Longrightarrow>
      so_read_file S (wifi_mode_file_path S) w' = so_read_file S (wifi_mode_file_path S) w"
    and path: "wifi_mode_file_path S \<noteq> sta_network_file"
  shows "read_current_mode S w' = Sta
    \<and> (\<forall>n w''. read_network_snapshot S w' = (Inr n, w'') \<longrightarrow> ws_mode (ns_wifi n) = ''sta'')"
proof -
  let ?f = "so_read_file S (wifi_mode_file_path S)"
  have run: "?f (snd (run_program S d p a w)) = ?f w" for d p a w
    by (rule run_program_keeps) (rule procs)
  have cmd: "?f (snd (run_command S d p a w)) = ?f w" for d p a w
    by (simp add: run_command_def run)
  have cmd': "run_command S d p a w = (r, w') \<Longrightarrow> ?f w' = ?f w" for d p a w r w'
    using cmd [of d p a w] by simp
  have parent: "?f (snd (create_parent S p w)) = ?f w" for p w
    by (simp add: create_parent_def dirs split: option.splits)
  have other: "?f (snd (write_text S sta_network_file t w)) = ?f w" for t w
    using others [OF prod.collapse [symmetric] path] by (simp add: write_text_def)
  have override: "?f (snd (write_sta_network_override S w)) = ?f w" for w
    unfolding write_sta_network_override_def by (rule try_all_keeps) (auto simp: parent other)
  have prepare: "?f (snd (prepare_station_mode_without_config S w)) = ?f w" for w
    unfolding prepare_station_mode_without_config_def by (rule try_all_keeps) (auto simp: override cmd)
  obtain r1 w1 where 1: "write_wifi_mode_file S ''sta'' w = (r1, w1)" by fastforce
  have "r1 = Inr ()"
  proof (cases r1)
    case (Inl e)
    with 1 have "\<exists>m. e = ModeFileWrite m"
      by (auto simp: write_wifi_mode_file_def create_parent_def write_text_def map_err_def Let_def
          split: prod.splits sum.splits option.splits)
    moreover have "r = Inl e" using assms(1) 1 Inl by (simp add: set_wifi_mode_def Let_def and_do_def)
    ultimately show ?thesis using assms(2) by blast
  qed simp
  with 1 have "?f w1 = Inr (''sta'' @ [CHR 0x0A])"
    by (auto simp: write_wifi_mode_file_def write_text_def map_err_def Let_def
        split: prod.splits sum.splits dest: written)
  moreover have "?f w' = ?f w1"
    using assms(1) 1 \<open>r1 = Inr ()\<close> run prepare
    by (auto simp: set_wifi_mode_def Let_def and_do_def split: if_splits) (metis snd_conv to_unit_snd)+
  ultimately have sta_text: "?f w' = Inr (''sta'' @ [CHR 0x0A])" by simp
  have mode: "read_current_mode S w = Sta" if "?f w = Inr (''sta'' @ [CHR 0x0A])" for w
    using that trim_first_line_sta by (simp add: read_current_mode_def)
  have "ws_mode (ns_wifi n) = ''sta''" if n: "read_network_snapshot S w' = (Inr n, w'')" for n w''
  proof -
    obtain x w2 wifi where d: "read_interface_details S w' = (Inr x, w2)"
      and s: "read_wifi_status S w2 = (Inr wifi, w'')" and e: "ns_wifi n = wifi"
      using n by (auto simp: read_network_snapshot_def and_do_ok)
    have "?f (snd (read_interface_details S w')) = ?f w'"
      by (auto simp: read_interface_details_def split: prod.splits sum.splits dest!: cmd')
    with d sta_text have "?f w2 = Inr (''sta'' @ [CHR 0x0A])" by simp
    from read_wifi_status_mode [OF s] mode [OF this] have "ws_mode wifi = wifi_mode_str Sta" by simp
    with e show ?thesis by simp
  qed
  with mode [OF sta_text] show ?thesis by blast
qed

text \<open>A system whose world is its files, on which every process succeeds and says nothing.\<close>

definition plain_sys :: "(string \<Rightarrow> string option) sys_ops" where
  "plain_sys =
     \<lparr>so_os = \<lparr>exec = (\<lambda>p a w. (Inr \<lparr>po_success = True, po_stdout = [], po_stderr = []\<rparr>, w))\<rparr>,
      so_env = (\<lambda>_. None),
      so_read_file = (\<lambda>p w. case w p of None \<Rightarrow> Inl ''not found'' | Some t \<Rightarrow> Inr t),
      so_exists = (\<lambda>p w. w p \<noteq> None),
      so_write_file = (\<lambda>p t w. (Inr (), w(p \<mapsto> t))),
      so_create_dir_all = (\<lambda>p w. (Inr (), w)),
      so_remove_file = (\<lambda>p w. (Inr (), w(p := None))),
      so_rename = (\<lambda>p q w. (Inr (), (w(q := w p))(p := None))),
      so_set_mode = (\<lambda>p m w. (Inr (), w)),
      so_canonicalize = (\<lambda>p w. Some p),
      so_debug_path = (\<lambda>p. p)\<rparr>"

lemma wifi_station_mode_reported_witness:
  "read_current_mode plain_sys (snd (set_wifi_mode plain_sys Sta (\<lambda>_. None))) = Sta"
proof -
  let ?r = "set_wifi_mode plain_sys Sta (\<lambda>_. None)"
  have ok: "fst ?r = Inr ()"
    by (simp add: set_wifi_mode_def Let_def write_wifi_mode_file_def create_parent_def write_text_def
        prepare_station_mode_without_config_def write_sta_network_override_def run_program_def
        run_command_def plain_sys_def map_err_def to_unit_def and_do_def split: option.splits)
  then have run: "?r = (Inr (), snd ?r)" by (metis prod.collapse)
  show ?thesis
    by (rule wifi_station_mode_reported [OF run, THEN conjunct1])
      (auto simp: plain_sys_def wifi_mode_file_path_def env_path_def
        DEFAULT_WIFI_MODE_FILE_def sta_network_file_def)
qed

end
