(* ===== verification/Gw_System.thy ===== *)
theory Gw_System
  imports Gw_Sys Floats "HOL-Library.Product_Lexorder"
begin

text \<open>
  What the gateway shows of its host: \<open>kaonic-gateway/src/system_metrics.rs\<close> (the Linux variant) and the
  frame statistics and the list of ports of \<open>state.rs\<close>. The calls of the C library are the parameter
  \<open>host_ops\<close>; an \<open>Instant\<close> is a count of nanoseconds. \<open>f32\<close> and \<open>f64\<close> computations are rationals with
  their rounding written out.
\<close>

record statvfs =
  sv_frsize :: nat
  sv_bsize :: nat
  sv_blocks :: nat
  sv_bavail :: nat

record 'w host_ops =
  ho_sys :: "'w sys_ops"
  ho_statvfs :: "string \<Rightarrow> 'w \<Rightarrow> statvfs option"
  ho_current_dir :: "'w \<Rightarrow> string option"
  ho_uname :: "'w \<Rightarrow> (bytes \<times> bytes) option"
  ho_os :: string
  ho_arch :: string
  ho_parallelism :: "'w \<Rightarrow> nat option"

section \<open>Processor, memory, file system\<close>

definition read_sys :: "'w host_ops \<Rightarrow> string \<Rightarrow> 'w \<Rightarrow> string option" where
  "read_sys H path w = (case so_read_file (ho_sys H) path w of Inl _ \<Rightarrow> None | Inr s \<Rightarrow> Some s)"

definition parse_stat_text :: "string \<Rightarrow> (nat \<times> nat) option" where
  "parse_stat_text data =
     (case str_lines data of
        [] \<Rightarrow> None
      | line # _ \<Rightarrow>
          (let vals = List.map_filter (parse_uint u64_max) (drop 1 (split_whitespace line))
           in if length vals < 4 then None else Some (vals ! 3, wrap64 (sum_list vals))))"

definition parse_stat :: "'w host_ops \<Rightarrow> 'w \<Rightarrow> (nat \<times> nat) option" where
  "parse_stat H w = (case read_sys H ''/proc/stat'' w of None \<Rightarrow> None | Some data \<Rightarrow> parse_stat_text data)"

definition cpu_percent :: "nat \<times> nat \<Rightarrow> nat \<times> nat \<Rightarrow> rat" where
  "cpu_percent = (\<lambda>(idle1, total1) (idle2, total2).
     let total_diff = r32 (of_nat (total2 - total1));
         idle_diff = r32 (of_nat (idle2 - idle1))
     in if total_diff = 0 then 0
        else r32 (of_int (round_half_away
               (r32 (r32 (r32 (r32 (total_diff - idle_diff) / total_diff) * 100) * 10))) / 10))"

text \<open>The two readings are 100 ms apart, so of two worlds.\<close>

definition read_cpu_percent :: "'w host_ops \<Rightarrow> 'w \<Rightarrow> 'w \<Rightarrow> rat" where
  "read_cpu_percent H w1 w2 =
     (case parse_stat H w1 of
        None \<Rightarrow> 0
      | Some s1 \<Rightarrow> (case parse_stat H w2 of None \<Rightarrow> 0 | Some s2 \<Rightarrow> cpu_percent s1 s2))"

definition leading_number :: "string \<Rightarrow> nat" where
  "leading_number r =
     (case split_whitespace r of
        [] \<Rightarrow> 0
      | v # _ \<Rightarrow> (case parse_uint u64_max v of None \<Rightarrow> 0 | Some n \<Rightarrow> n))"

definition meminfo_line :: "string \<Rightarrow> nat \<times> nat \<Rightarrow> nat \<times> nat" where
  "meminfo_line line = (\<lambda>(total_kb, available).
     case strip_prefix ''MemTotal:'' line of
       Some r \<Rightarrow> (leading_number r, available)
     | None \<Rightarrow>
         (case strip_prefix ''MemAvailable:'' line of
            Some r \<Rightarrow> (total_kb, leading_number r)
          | None \<Rightarrow> (total_kb, available)))"

definition read_mem_mb :: "'w host_ops \<Rightarrow> 'w \<Rightarrow> nat \<times> nat" where
  "read_mem_mb H w =
     (case read_sys H ''/proc/meminfo'' w of
        None \<Rightarrow> (0, 0)
      | Some data \<Rightarrow>
          (case fold meminfo_line (str_lines data) (0, 0) of
             (total_kb, available) \<Rightarrow> ((total_kb - available) div 1024, total_kb div 1024)))"

definition user_filesystem_probe_path :: "'w host_ops \<Rightarrow> 'w \<Rightarrow> string" where
  "user_filesystem_probe_path H w =
     (let cwd = (case ho_current_dir H w of Some p \<Rightarrow> p | None \<Rightarrow> ''/'')
      in case so_env (ho_sys H) ''HOME'' of
           Some p \<Rightarrow> if so_exists (ho_sys H) p w then p else cwd
         | None \<Rightarrow> cwd)"

definition read_fs_mb :: "'w host_ops \<Rightarrow> 'w \<Rightarrow> nat \<times> nat" where
  "read_fs_mb H w =
     (let path = from_utf8_lossy (user_filesystem_probe_path H w) in
      if CHR 0x00 \<in> set path then (0, 0)
      else (case ho_statvfs H path w of
              None \<Rightarrow> (0, 0)
            | Some st \<Rightarrow>
                (let block_size = (if 0 < sv_frsize st then sv_frsize st else sv_bsize st);
                     total_kb = sat64 (sv_blocks st * block_size);
                     free = sat64 (sv_bavail st * block_size)
                 in (free div 1024 div 1024, total_kb div 1024 div 1024))))"

section \<open>Names\<close>

definition read_os_name :: "'w host_ops \<Rightarrow> 'w \<Rightarrow> string" where
  "read_os_name H w =
     (let dflt = ho_os H @ '' '' @ ho_arch H
      in case read_sys H ''/etc/os-release'' w of
           None \<Rightarrow> dflt
         | Some data \<Rightarrow>
             (case find_map (strip_prefix ''PRETTY_NAME='') (str_lines data) of
                Some v \<Rightarrow> trim_matches CHR 0x22 v
              | None \<Rightarrow> dflt))"

definition read_kernel_release :: "'w host_ops \<Rightarrow> 'w \<Rightarrow> string" where
  "read_kernel_release H w =
     (case ho_uname H w of Some (release, _) \<Rightarrow> ''Kernel '' @ from_utf8_lossy release | None \<Rightarrow> [])"

definition read_os_details :: "'w host_ops \<Rightarrow> 'w \<Rightarrow> string" where
  "read_os_details H w =
     (let os_name = read_os_name H w; kernel = read_kernel_release H w
      in if os_name \<noteq> [] \<and> kernel \<noteq> [] then os_name @ '' / '' @ kernel
         else if os_name \<noteq> [] then os_name
         else if kernel \<noteq> [] then kernel
         else ''Unknown'')"

definition read_hostname :: "'w host_ops \<Rightarrow> 'w \<Rightarrow> string" where
  "read_hostname H w =
     (case read_sys H ''/etc/hostname'' w of
        None \<Rightarrow> ''Unknown''
      | Some v \<Rightarrow> if trim v = [] then ''Unknown'' else trim v)"

definition cpu_model_line :: "string \<Rightarrow> string \<Rightarrow> string option" where
  "cpu_model_line key line =
     (case split_once CHR '':'' line of
        None \<Rightarrow> None
      | Some (name, v) \<Rightarrow> if trim name = key \<and> trim v \<noteq> [] then Some (trim v) else None)"

definition read_cpu_model :: "'w host_ops \<Rightarrow> 'w \<Rightarrow> string" where
  "read_cpu_model H w =
     (case read_sys H ''/proc/cpuinfo'' w of
        None \<Rightarrow> ''Unknown''
      | Some data \<Rightarrow>
          (case find_map (\<lambda>key. find_map (cpu_model_line key) (str_lines data))
                  [''model name'', ''Hardware'', ''Processor'', ''Model''] of
             Some v \<Rightarrow> v
           | None \<Rightarrow> ''Unknown''))"

definition read_architecture :: "'w host_ops \<Rightarrow> 'w \<Rightarrow> string" where
  "read_architecture H w =
     (case ho_uname H w of
        Some (_, machine) \<Rightarrow>
          (let v = trim (from_utf8_lossy machine) in if v \<noteq> [] then v else ho_arch H)
      | None \<Rightarrow> ho_arch H)"

definition read_cpu_cores :: "'w host_ops \<Rightarrow> 'w \<Rightarrow> nat" where
  "read_cpu_cores H w = (case ho_parallelism H w of Some n \<Rightarrow> n | None \<Rightarrow> 1)"

section \<open>Services\<close>

record service_status =
  ss_unit :: string
  ss_brief_name :: string
  ss_load_state :: string
  ss_active_state :: string
  ss_sub_state :: string
  ss_status :: string

definition GATEWAY_SERVICE_UNITS :: "string list" where
  "GATEWAY_SERVICE_UNITS =
     [''kaonic-commd.service'', ''kaonic-factory.service'', ''kaonic-gateway.service'',
      ''kaonic-installer.service'']"

definition is_gateway_service_unit :: "string \<Rightarrow> bool" where
  "is_gateway_service_unit unit \<longleftrightarrow> unit \<in> set GATEWAY_SERVICE_UNITS"

definition service_brief_name :: "string \<Rightarrow> string" where
  "service_brief_name unit =
     (if unit = ''kaonic-commd.service'' then ''Radio control''
      else if unit = ''kaonic-factory.service'' then ''Factory setup''
      else if unit = ''kaonic-gateway.service'' then ''Web gateway''
      else if unit = ''kaonic-installer.service'' then ''Installer agent''
      else ''Service'')"

definition format_service_status :: "string \<Rightarrow> string \<Rightarrow> string \<Rightarrow> string" where
  "format_service_status load_state active_state sub_state =
     (if load_state \<noteq> ''loaded'' \<and> load_state \<noteq> [] then load_state
      else if active_state = [] \<and> sub_state = [] then ''unknown''
      else if sub_state = [] \<or> sub_state = active_state then active_state
      else active_state @ '' ('' @ sub_state @ '')'')"

definition line_or :: "nat \<Rightarrow> string \<Rightarrow> string list \<Rightarrow> string" where
  "line_or i dflt ls = trim (if i < length ls then ls ! i else dflt)"

definition read_service_status :: "'w sys_ops \<Rightarrow> string \<Rightarrow> 'w \<Rightarrow> service_status \<times> 'w" where
  "read_service_status S unit w =
     (case exec (so_os S) ''systemctl''
             [''show'', ''--property=LoadState'', ''--property=ActiveState'', ''--property=SubState'',
              ''--value'', unit] w of
        (Inr out, w) \<Rightarrow>
          (if po_success out then
             (let ls = str_lines (from_utf8_lossy (po_stdout out));
                  load_state = line_or 0 ''unknown'' ls;
                  active_state = line_or 1 ''unknown'' ls;
                  sub_state = line_or 2 [] ls
              in (\<lparr>ss_unit = unit, ss_brief_name = service_brief_name unit, ss_load_state = load_state,
                   ss_active_state = active_state, ss_sub_state = sub_state,
                   ss_status = format_service_status load_state active_state sub_state\<rparr>, w))
           else
             (let message = output_message out
              in (\<lparr>ss_unit = unit, ss_brief_name = service_brief_name unit, ss_load_state = ''unknown'',
                   ss_active_state = ''error'', ss_sub_state = [],
                   ss_status = (if message = [] then ''systemctl error'' else message)\<rparr>, w)))
      | (Inl err, w) \<Rightarrow>
          (\<lparr>ss_unit = unit, ss_brief_name = service_brief_name unit, ss_load_state = ''unknown'',
            ss_active_state = ''error'', ss_sub_state = [],
            ss_status = ''systemctl unavailable: '' @ err\<rparr>, w))"

fun read_services :: "'w sys_ops \<Rightarrow> string list \<Rightarrow> 'w \<Rightarrow> service_status list \<times> 'w" where
  "read_services S [] w = ([], w)"
| "read_services S (u # us) w =
     (case read_service_status S u w of (s, w) \<Rightarrow>
        (case read_services S us w of (ss, w) \<Rightarrow> (s # ss, w)))"

definition read_gateway_services :: "'w sys_ops \<Rightarrow> 'w \<Rightarrow> service_status list \<times> 'w" where
  "read_gateway_services S = read_services S GATEWAY_SERVICE_UNITS"

fun find_first :: "('a \<Rightarrow> bool) \<Rightarrow> 'a list \<Rightarrow> 'a option" where
  "find_first p [] = None"
| "find_first p (x # xs) = (if p x then Some x else find_first p xs)"

definition service_active :: "service_status list \<Rightarrow> string \<Rightarrow> bool" where
  "service_active services unit =
     (case find_first (\<lambda>s. ss_unit s = unit) services of
        Some s \<Rightarrow> ss_load_state s = ''loaded'' \<and> ss_active_state s = ''active''
      | None \<Rightarrow> False)"

definition service_label :: "service_status list \<Rightarrow> string \<Rightarrow> string" where
  "service_label services unit =
     (case find_first (\<lambda>s. ss_unit s = unit) services of
        Some s \<Rightarrow> if ss_load_state s \<noteq> ''loaded'' then ss_load_state s else ss_active_state s
      | None \<Rightarrow> ''unknown'')"

section \<open>Ports\<close>

record network_port_status =
  np_name :: string
  np_protocol :: string
  np_port :: nat
  np_service :: string
  np_status :: string
  np_details :: string

text \<open>The control address is given by its port and displayed host, the HTTP address by its port.\<close>

definition network_ports :: "nat \<Rightarrow> string \<Rightarrow> nat \<Rightarrow> service_status list \<Rightarrow> network_port_status list" where
  "network_ports ctrl_port ctrl_ip http_port services =
     (let commd = ''kaonic-commd.service''; gateway = ''kaonic-gateway.service'';
          commd_active = service_active services commd;
          gateway_active = service_active services gateway;
          commd_status = service_label services commd;
          gateway_status = service_label services gateway
      in sort_key (\<lambda>p. (np_port p, np_protocol p))
         [\<lparr>np_name = ''kaonic-commd gRPC'', np_protocol = ''TCP'', np_port = 50051, np_service = commd,
           np_status = (if commd_active then ''listening'' else commd_status),
           np_details = ''Radio daemon gRPC API''\<rparr>,
          \<lparr>np_name = ''kaonic-commd control'', np_protocol = ''UDP'', np_port = ctrl_port, np_service = commd,
           np_status = (if commd_active then ''reachable'' else commd_status), np_details = ctrl_ip\<rparr>,
          \<lparr>np_name = ''kaonic-gateway HTTP'', np_protocol = ''TCP'', np_port = http_port, np_service = gateway,
           np_status = (if gateway_active then ''listening'' else gateway_status),
           np_details = ''Dashboard, API, WebSocket''\<rparr>])"

section \<open>Frame statistics\<close>

record frame_rate_state =
  fr_last_sample :: "nat option"
  fr_last_rx_bytes :: nat
  fr_last_tx_bytes :: nat
  fr_rx_bps :: nat
  fr_tx_bps :: nat

record frame_stats =
  fs_rx_frames :: nat
  fs_rx_bytes :: nat
  fs_tx_frames :: nat
  fs_tx_bytes :: nat
  fs_last_rssi :: int
  fs_rate :: frame_rate_state

definition default_frame_stats :: frame_stats where
  "default_frame_stats =
     \<lparr>fs_rx_frames = 0, fs_rx_bytes = 0, fs_tx_frames = 0, fs_tx_bytes = 0, fs_last_rssi = 0,
      fs_rate = \<lparr>fr_last_sample = None, fr_last_rx_bytes = 0, fr_last_tx_bytes = 0, fr_rx_bps = 0,
                 fr_tx_bps = 0\<rparr>\<rparr>"

text \<open>\<open>Duration::as_secs_f64\<close>\<close>

definition as_secs_f64 :: "nat \<Rightarrow> rat" where
  "as_secs_f64 ns = r64 (r64 (of_nat (ns div 1000000000)) + r64 (of_nat (ns mod 1000000000) / 1000000000))"

definition bytes_per_second :: "nat \<Rightarrow> rat \<Rightarrow> nat" where
  "bytes_per_second n elapsed = rat_to_u64 (r64 (r64 (of_nat n) / elapsed))"

definition frame_rates ::
    "nat \<Rightarrow> nat \<Rightarrow> nat \<Rightarrow> frame_rate_state \<Rightarrow> (nat \<times> nat) \<times> frame_rate_state" where
  "frame_rates now rx_bytes tx_bytes rate =
     (let rate =
        (case fr_last_sample rate of
           Some last_sample \<Rightarrow>
             (let elapsed = as_secs_f64 (now - last_sample) in
              if r64 (1 / 5) \<le> elapsed then
                \<lparr>fr_last_sample = Some now, fr_last_rx_bytes = rx_bytes, fr_last_tx_bytes = tx_bytes,
                 fr_rx_bps = bytes_per_second (rx_bytes - fr_last_rx_bytes rate) elapsed,
                 fr_tx_bps = bytes_per_second (tx_bytes - fr_last_tx_bytes rate) elapsed\<rparr>
              else rate)
         | None \<Rightarrow>
             rate\<lparr>fr_last_sample := Some now, fr_last_rx_bytes := rx_bytes, fr_last_tx_bytes := tx_bytes\<rparr>)
      in ((fr_rx_bps rate, fr_tx_bps rate), rate))"

end
