(* ===== verification/Radio_Iface.thy ===== *)
theory Radio_Iface
  imports Rust_Str
begin

text \<open>
  The Reticulum interface over the radio (\<open>kaonic-reticulum/src/lib.rs\<close>). The LDPC network coder, the
  packet format and the radio client are the parameter \<open>radio_ops\<close>; an observer is an effect on the
  world. The loop that drains the coder after a frame ends when the coder has no more packets, so it is
  a partial function, and its termination is a theorem about coders that hold finitely many packets.
\<close>

datatype interface_error_kind =
  RxLdpcDecode | RxReassembly | RxDeserialize | TxLdpcEncode | TxTransmit | TxSerialize

datatype process_result = Assembled bytes | TryAgain | ProcessFailed

record ('n, 'p, 'w) radio_ops =
  ro_receive :: "nat \<Rightarrow> bytes \<Rightarrow> 'n \<Rightarrow> bool \<times> 'n"
  ro_process :: "nat \<Rightarrow> 'n \<Rightarrow> process_result \<times> 'n"
  ro_deserialize :: "bytes \<Rightarrow> 'p option"
  ro_serialize :: "'p \<Rightarrow> bytes option"
  ro_encode :: "bytes \<Rightarrow> 'n \<Rightarrow> 'w \<Rightarrow> bytes list option \<times> 'n \<times> 'w"
  ro_transmit :: "nat \<Rightarrow> bytes \<Rightarrow> 'w \<Rightarrow> (string + unit) \<times> 'w"
  ro_deliver :: "'p \<Rightarrow> 'w \<Rightarrow> 'w"

record 'w ctrl_interface =
  ci_module :: nat
  ci_tx_observer :: "(nat \<Rightarrow> bytes \<Rightarrow> 'w \<Rightarrow> 'w) option"
  ci_error_observer :: "(nat \<Rightarrow> interface_error_kind \<Rightarrow> 'w \<Rightarrow> 'w) option"

definition notify_error :: "'w ctrl_interface \<Rightarrow> interface_error_kind \<Rightarrow> 'w \<Rightarrow> 'w" where
  "notify_error I kind w =
     (case ci_error_observer I of Some obs \<Rightarrow> obs (ci_module I) kind w | None \<Rightarrow> w)"

section \<open>Receiving\<close>

definition rx_assembled :: "('n, 'p, 'w) radio_ops \<Rightarrow> 'w ctrl_interface \<Rightarrow> bytes \<Rightarrow> 'w \<Rightarrow> 'w" where
  "rx_assembled R I bs w =
     (case ro_deserialize R bs of
        Some packet \<Rightarrow> ro_deliver R packet w
      | None \<Rightarrow> notify_error I RxDeserialize w)"

partial_function (option) rx_process ::
    "('n, 'p, 'w) radio_ops \<Rightarrow> 'w ctrl_interface \<Rightarrow> nat \<Rightarrow> 'n \<Rightarrow> 'w \<Rightarrow> ('n \<times> 'w) option" where
  "rx_process R I t n w =
     (case ro_process R t n of (r, n') \<Rightarrow>
        (case r of
           Assembled bs \<Rightarrow> rx_process R I t n' (rx_assembled R I bs w)
         | TryAgain \<Rightarrow> Some (n', w)
         | ProcessFailed \<Rightarrow> Some (n', notify_error I RxReassembly w)))"

definition rx_frame ::
    "('n, 'p, 'w) radio_ops \<Rightarrow> 'w ctrl_interface \<Rightarrow> nat \<Rightarrow> nat \<Rightarrow> bytes \<Rightarrow> 'n \<Rightarrow> 'w \<Rightarrow> ('n \<times> 'w) option" where
  "rx_frame R I t module frame n w =
     (if module \<noteq> ci_module I then Some (n, w)
      else (case ro_receive R t frame n of
              (False, n) \<Rightarrow> Some (n, notify_error I RxLdpcDecode w)
            | (True, n) \<Rightarrow> rx_process R I t n w))"

text \<open>
  One event of the receive task. The branch of \<open>select!\<close> matches \<open>Ok\<close> only: after an error of \<open>recv\<close> it
  is disabled, the only other branch is the cancellation, and the task receives nothing any more.
\<close>

datatype 'n rx_state = RxRunning 'n | RxStalled

fun rx_event ::
    "('n, 'p, 'w) radio_ops \<Rightarrow> 'w ctrl_interface \<Rightarrow> nat \<Rightarrow> string + nat \<times> bytes
       \<Rightarrow> 'n rx_state \<times> 'w \<Rightarrow> ('n rx_state \<times> 'w) option" where
  "rx_event R I t ev (RxStalled, w) = Some (RxStalled, w)"
| "rx_event R I t (Inl err) (RxRunning n, w) = Some (RxStalled, w)"
| "rx_event R I t (Inr (module, frame)) (RxRunning n, w) =
     map_option (\<lambda>(n, w). (RxRunning n, w)) (rx_frame R I t module frame n w)"

section \<open>Transmitting\<close>

fun transmit_frames ::
    "('n, 'p, 'w) radio_ops \<Rightarrow> 'w ctrl_interface \<Rightarrow> bytes list \<Rightarrow> 'w \<Rightarrow> 'w" where
  "transmit_frames R I [] w = w"
| "transmit_frames R I (frame # frames) w =
     (case ro_transmit R (ci_module I) frame w of
        (Inl err, w) \<Rightarrow> notify_error I TxTransmit w
      | (Inr _, w) \<Rightarrow>
          transmit_frames R I frames
            (case ci_tx_observer I of Some obs \<Rightarrow> obs (ci_module I) frame w | None \<Rightarrow> w))"

definition transmit_message ::
    "('n, 'p, 'w) radio_ops \<Rightarrow> 'w ctrl_interface \<Rightarrow> 'p \<Rightarrow> 'n \<times> 'w \<Rightarrow> 'n \<times> 'w" where
  "transmit_message R I packet = (\<lambda>(n, w).
     (case ro_serialize R packet of
        Some bs \<Rightarrow>
          (case ro_encode R bs n w of
             (Some frames, n, w) \<Rightarrow> (n, transmit_frames R I frames w)
           | (None, n, w) \<Rightarrow> (n, notify_error I TxLdpcEncode w))
      | None \<Rightarrow> (n, notify_error I TxSerialize w)))"

section \<open>What is received\<close>

text \<open>
  \<open>yields R t n bss ok n'\<close>: processing from \<open>n\<close> gives the payloads \<open>bss\<close> and then stops in \<open>n'\<close>,
  because there are no more (\<open>ok\<close>) or with a reassembly error.
\<close>

inductive yields :: "('n, 'p, 'w) radio_ops \<Rightarrow> nat \<Rightarrow> 'n \<Rightarrow> bytes list \<Rightarrow> bool \<Rightarrow> 'n \<Rightarrow> bool" for R t where
  yields_done: "ro_process R t n = (TryAgain, n') \<Longrightarrow> yields R t n [] True n'"
| yields_failed: "ro_process R t n = (ProcessFailed, n') \<Longrightarrow> yields R t n [] False n'"
| yields_step: "ro_process R t n = (Assembled bs, n1) \<Longrightarrow> yields R t n1 bss fin n'
    \<Longrightarrow> yields R t n (bs # bss) fin n'"

inductive_cases yields_NilE: "yields R t n [] fin n'"
inductive_cases yields_ConsE: "yields R t n (bs # bss) fin n'"

lemma rx_process_yields:
  "yields R t n bss fin n' \<Longrightarrow>
   rx_process R I t n w =
     Some (n', (let w' = fold (rx_assembled R I) bss w in if fin then w' else notify_error I RxReassembly w'))"
proof (induction arbitrary: w rule: yields.induct)
  case (yields_done n n')
  then show ?case by (subst rx_process.simps) simp
next
  case (yields_failed n n')
  then show ?case by (subst rx_process.simps) simp
next
  case (yields_step n bs n1 bss fin n')
  show ?case by (subst rx_process.simps) (simp add: yields_step.hyps(1) yields_step.IH)
qed

lemma rx_process_returns:
  assumes "\<And>n bs n'. ro_process R t n = (Assembled bs, n') \<Longrightarrow> pending n' < (pending n :: nat)"
  shows "\<exists>bss fin n'. yields R t n bss fin n' \<and> length bss \<le> pending n"
proof (induction "pending n" arbitrary: n rule: less_induct)
  case less
  obtain r n1 where p: "ro_process R t n = (r, n1)" by (cases "ro_process R t n")
  show ?case
  proof (cases r)
    case (Assembled bs)
    with p assms have d: "pending n1 < pending n" by blast
    from less [OF d] obtain bss fin n' where y: "yields R t n1 bss fin n'" "length bss \<le> pending n1" by blast
    with p Assembled have "yields R t n (bs # bss) fin n'" by (blast intro: yields_step)
    moreover have "length (bs # bss) \<le> pending n" using y(2) d by simp
    ultimately show ?thesis by blast
  qed (use p in \<open>force intro: yields_done yields_failed\<close>)+
qed

section \<open>What is transmitted\<close>

inductive frames_sent ::
    "('n, 'p, 'w) radio_ops \<Rightarrow> 'w ctrl_interface \<Rightarrow> bytes list \<Rightarrow> 'w \<Rightarrow> 'w \<Rightarrow> bool" for R I where
  sent_none: "frames_sent R I [] w w"
| sent_next: "ro_transmit R (ci_module I) f w = (Inr (), w1)
    \<Longrightarrow> frames_sent R I fs (case ci_tx_observer I of Some obs \<Rightarrow> obs (ci_module I) f w1 | None \<Rightarrow> w1) w'
    \<Longrightarrow> frames_sent R I (f # fs) w w'"

lemma transmit_frames_sent:
  "frames_sent R I frames w (transmit_frames R I frames w)
   \<or> (\<exists>pre f post w1 err w2. frames = pre @ f # post \<and> frames_sent R I pre w w1
        \<and> ro_transmit R (ci_module I) f w1 = (Inl err, w2)
        \<and> transmit_frames R I frames w = notify_error I TxTransmit w2)"
proof (induction frames arbitrary: w)
  case Nil
  then show ?case by (simp add: sent_none)
next
  case (Cons f fs)
  obtain r w1 where t: "ro_transmit R (ci_module I) f w = (r, w1)" by (cases "ro_transmit R (ci_module I) f w")
  show ?case
  proof (cases r)
    case (Inl err)
    with t have "f # fs = [] @ f # fs \<and> frames_sent R I [] w w
        \<and> ro_transmit R (ci_module I) f w = (Inl err, w1)
        \<and> transmit_frames R I (f # fs) w = notify_error I TxTransmit w1" by (simp add: sent_none)
    then show ?thesis by blast
  next
    case (Inr u)
    let ?w = "case ci_tx_observer I of Some obs \<Rightarrow> obs (ci_module I) f w1 | None \<Rightarrow> w1"
    have t': "ro_transmit R (ci_module I) f w = (Inr (), w1)" using t Inr by simp
    then have e: "transmit_frames R I (f # fs) w = transmit_frames R I fs ?w" by simp
    from Cons.IH [of ?w] show ?thesis
    proof (elim disjE exE conjE)
      assume "frames_sent R I fs ?w (transmit_frames R I fs ?w)"
      then show ?thesis using sent_next [OF t'] e by auto
    next
      fix pre g post w2 err w3
      assume a: "fs = pre @ g # post" "frames_sent R I pre ?w w2"
        "ro_transmit R (ci_module I) g w2 = (Inl err, w3)" "transmit_frames R I fs ?w = notify_error I TxTransmit w3"
      have "f # fs = (f # pre) @ g # post" using a(1) by simp
      with sent_next [OF t' a(2)] a(3,4) e show ?thesis by metis
    qed
  qed
qed

section \<open>Properties\<close>

text \<open>
  A concrete radio: the coder holds the frames that were received and not yet processed, a frame is one
  packet, an empty frame cannot be decoded, and the world records what was delivered, transmitted and
  reported. A transmission fails on an empty frame.
\<close>

definition list_radio :: "(bytes list, bytes, bytes list) radio_ops" where
  "list_radio =
     \<lparr>ro_receive = (\<lambda>t frame n. if frame = [] then (False, n) else (True, n @ [frame])),
      ro_process = (\<lambda>t n. case n of [] \<Rightarrow> (TryAgain, []) | f # n \<Rightarrow> (Assembled f, n)),
      ro_deserialize = Some, ro_serialize = Some,
      ro_encode = (\<lambda>bs n w. (Some (map (\<lambda>c. [c]) bs), n, w)),
      ro_transmit = (\<lambda>m f w. if f = [] then (Inl ''closed'', w) else (Inr (), w @ [f])),
      ro_deliver = (\<lambda>p w. w @ [p])\<rparr>"

definition plain_iface :: "nat \<Rightarrow> 'w ctrl_interface" where
  "plain_iface m = \<lparr>ci_module = m, ci_tx_observer = None, ci_error_observer = None\<rparr>"

text \<open>
  C24. Handling a received frame ends, for every coder whose number of held packets falls with each packet
  it hands out: whatever the event is, the receive task reaches its next state. For a frame of its own
  module that decodes, it delivers at most as many packets as the coder held, in the order the coder
  produced them, and reports a reassembly error only at the end.
\<close>

theorem rx_event_terminates:
  fixes pending :: "'n \<Rightarrow> nat"
  assumes "\<And>n bs n'. ro_process R t n = (Assembled bs, n') \<Longrightarrow> pending n' < pending n"
  shows "rx_event R I t ev (st, w) \<noteq> None
    \<and> (\<forall>n frame n1. st = RxRunning n \<longrightarrow> ev = Inr (ci_module I, frame) \<longrightarrow> ro_receive R t frame n = (True, n1) \<longrightarrow>
         (\<exists>bss fin n'. yields R t n1 bss fin n' \<and> length bss \<le> pending n1
            \<and> rx_event R I t ev (st, w) =
                Some (RxRunning n', if fin then fold (rx_assembled R I) bss w
                                    else notify_error I RxReassembly (fold (rx_assembled R I) bss w))))"
proof -
  have run: "\<exists>bss fin n'. yields R t n bss fin n' \<and> length bss \<le> pending n
      \<and> rx_process R I t n w = Some (n', if fin then fold (rx_assembled R I) bss w
           else notify_error I RxReassembly (fold (rx_assembled R I) bss w))" for n w
  proof -
    obtain bss fin n' where y: "yields R t n bss fin n'" "length bss \<le> pending n"
      using rx_process_returns [of R t pending n] assms by blast
    note y
    moreover have "rx_process R I t n w = Some (n', if fin then fold (rx_assembled R I) bss w
           else notify_error I RxReassembly (fold (rx_assembled R I) bss w))"
      using rx_process_yields [OF y(1), of I w] by (simp only: Let_def)
    ultimately show ?thesis by blast
  qed
  then have some: "\<exists>r. rx_process R I t n w = Some r" for n w by blast
  have "rx_event R I t ev (st, w) \<noteq> None"
  proof (cases st)
    case (RxRunning n)
    show ?thesis
    proof (cases ev)
      case (Inr f)
      obtain m frame where f: "f = (m, frame)" by (cases f)
      obtain b n1 where b: "ro_receive R t frame n = (b, n1)" by (cases "ro_receive R t frame n")
      show ?thesis using RxRunning Inr f b some [of n1 w]
        by (auto simp: rx_frame_def split: bool.splits)
    qed (use RxRunning in simp)
  qed simp
  moreover have "\<exists>bss fin n'. yields R t n1 bss fin n' \<and> length bss \<le> pending n1
      \<and> rx_event R I t ev (st, w) =
          Some (RxRunning n', if fin then fold (rx_assembled R I) bss w
                              else notify_error I RxReassembly (fold (rx_assembled R I) bss w))"
    if "st = RxRunning n" "ev = Inr (ci_module I, frame)" "ro_receive R t frame n = (True, n1)" for n frame n1
    using run [of n1 w] that by (fastforce simp: rx_frame_def)
  ultimately show ?thesis by blast
qed

theorem rx_event_terminates_witness:
  "rx_event list_radio (plain_iface 0) 7 (Inr (0, ''ab'')) (RxRunning [], []) \<noteq> None"
proof -
  have "\<And>n bs n'. ro_process list_radio 7 n = (Assembled bs, n') \<Longrightarrow> length n' < length n"
    by (auto simp: list_radio_def split: list.splits)
  then show ?thesis
    using rx_event_terminates [of list_radio 7 length "plain_iface 0" "Inr (0, ''ab'')" "RxRunning []" "[]"] by blast
qed

text \<open>
  After an error of the frame channel (a lagging receiver or a closed channel) the receive task handles
  no further frame: whatever arrives, the world does not change any more.
\<close>

lemma rx_error_stalls:
  "foldl (\<lambda>st ev. case st of None \<Rightarrow> None | Some st \<Rightarrow> rx_event R I t ev st)
     (rx_event R I t (Inl err) (RxRunning n, w)) evs = Some (RxStalled, w)"
  by (induction evs rule: rev_induct) auto

text \<open>
  Transmitting a packet either hands all its encoded frames to the radio in order, each followed by the
  observer, or it stops at the first frame the radio refuses: the frames before it were sent, none after
  it is, and exactly that failure is reported. A packet that cannot be serialised or encoded sends nothing.
\<close>

lemma transmit_message_prefix:
  "case ro_serialize R packet of
     None \<Rightarrow> transmit_message R I packet (n, w) = (n, notify_error I TxSerialize w)
   | Some bs \<Rightarrow>
       (case ro_encode R bs n w of (r, n', w') \<Rightarrow>
          fst (transmit_message R I packet (n, w)) = n'
          \<and> (case r of
               None \<Rightarrow> snd (transmit_message R I packet (n, w)) = notify_error I TxLdpcEncode w'
             | Some frames \<Rightarrow>
                 frames_sent R I frames w' (snd (transmit_message R I packet (n, w)))
                 \<or> (\<exists>pre f post w1 err w2. frames = pre @ f # post \<and> frames_sent R I pre w' w1
                      \<and> ro_transmit R (ci_module I) f w1 = (Inl err, w2)
                      \<and> snd (transmit_message R I packet (n, w)) = notify_error I TxTransmit w2)))"
proof (cases "ro_serialize R packet")
  case (Some bs)
  obtain r n' w' where e: "ro_encode R bs n w = (r, n', w')" by (cases "ro_encode R bs n w")
  show ?thesis
  proof (cases r)
    case None
    with Some e show ?thesis by (simp add: transmit_message_def)
  next
    case (Some frames)
    with \<open>ro_serialize R packet = Some bs\<close> e
    have "transmit_message R I packet (n, w) = (n', transmit_frames R I frames w')"
      by (simp add: transmit_message_def)
    then show ?thesis using \<open>ro_serialize R packet = Some bs\<close> e Some transmit_frames_sent [of R I frames w'] by simp
  qed
qed (simp add: transmit_message_def)

end
