(* ===== verification/Gw_Reticulum.thy ===== *)
theory Gw_Reticulum
  imports Radio_Iface "HOL-Library.Product_Lexorder" "HOL-Library.Multiset"
begin

text \<open>
  The Reticulum view of the gateway (\<open>kaonic-gateway/src/gateway_reticulum.rs\<close> and its records in
  \<open>app_types.rs\<close>): error counters of the radio interface, the links in both directions and the log of
  the last 256 events. Every handler holds the lock of the state while it changes it, so a run is a
  sequence of the four operations. The clock reading, the link found in the transport and the displayed
  form of hashes are arguments. The counters are \<open>u64\<close> and wrap, as in a release build.
\<close>

definition RETICULUM_EVENT_BUF_SIZE :: nat where "RETICULUM_EVENT_BUF_SIZE = 256"

record reticulum_link_dto =
  rl_id :: string
  rl_destination :: string
  rl_status :: string
  rl_last_event :: string
  rl_packets :: nat
  rl_bytes :: nat
  rl_rtt_ms :: "nat option"
  rl_last_seen_ts :: nat

record reticulum_interface_stats =
  is_rx_errors :: nat
  is_tx_errors :: nat
  is_rx_ldpc_errors :: nat
  is_rx_reassembly_errors :: nat
  is_rx_deserialize_errors :: nat
  is_tx_ldpc_errors :: nat
  is_tx_transmit_errors :: nat
  is_tx_serialize_errors :: nat

record reticulum_event =
  re_ts :: nat
  re_direction :: string
  re_kind :: string
  re_link_id :: string
  re_destination :: string
  re_details :: string

record reticulum_snapshot =
  rsn_interface_stats :: reticulum_interface_stats
  rsn_incoming_links :: "reticulum_link_dto list"
  rsn_outgoing_links :: "reticulum_link_dto list"
  rsn_events :: "reticulum_event list"

record gateway_reticulum =
  gr_interface_stats :: reticulum_interface_stats
  gr_incoming_links :: "(string \<times> reticulum_link_dto) list"
  gr_outgoing_links :: "(string \<times> reticulum_link_dto) list"
  gr_events :: "reticulum_event list"

definition default_interface_stats :: reticulum_interface_stats where
  "default_interface_stats =
     \<lparr>is_rx_errors = 0, is_tx_errors = 0, is_rx_ldpc_errors = 0, is_rx_reassembly_errors = 0,
      is_rx_deserialize_errors = 0, is_tx_ldpc_errors = 0, is_tx_transmit_errors = 0,
      is_tx_serialize_errors = 0\<rparr>"

definition gateway_reticulum_new :: gateway_reticulum where
  "gateway_reticulum_new =
     \<lparr>gr_interface_stats = default_interface_stats, gr_incoming_links = [], gr_outgoing_links = [], gr_events = []\<rparr>"

text \<open>What the code reads of a link, and of an event of the transport.\<close>

record link_view =
  lv_id :: string
  lv_destination :: string
  lv_status :: link_status
  lv_rtt_ms :: nat

record link_event_data =
  le_id :: string
  le_address_hash :: string
  le_event :: link_event

section \<open>Labels\<close>

fun link_status_label :: "link_status \<Rightarrow> string" where
  "link_status_label LPending = ''pending''"
| "link_status_label LHandshake = ''handshake''"
| "link_status_label LActive = ''active''"
| "link_status_label LStale = ''stale''"
| "link_status_label LClosed = ''closed''"

fun link_event_kind :: "link_event \<Rightarrow> string" where
  "link_event_kind EvActivated = ''activated''"
| "link_event_kind (EvData payload) = ''data''"
| "link_event_kind (EvProof hash) = ''proof''"
| "link_event_kind EvClosed = ''closed''"

fun link_event_details :: "(bytes \<Rightarrow> string) \<Rightarrow> link_event \<Rightarrow> string" where
  "link_event_details show_hash EvActivated = ''Link activated''"
| "link_event_details show_hash (EvData payload) = dec_str (length payload) @ '' B''"
| "link_event_details show_hash (EvProof hash) = show_hash hash"
| "link_event_details show_hash EvClosed = ''Link closed''"

fun link_event_packet_len :: "link_event \<Rightarrow> nat option" where
  "link_event_packet_len (EvData payload) = Some (length payload)"
| "link_event_packet_len _ = None"

fun link_event_status :: "link_event \<Rightarrow> string" where
  "link_event_status EvClosed = ''closed''"
| "link_event_status _ = ''active''"

fun interface_error_label :: "interface_error_kind \<Rightarrow> string" where
  "interface_error_label RxLdpcDecode = ''rx ldpc decode''"
| "interface_error_label RxReassembly = ''rx reassembly''"
| "interface_error_label RxDeserialize = ''rx deserialize''"
| "interface_error_label TxLdpcEncode = ''tx ldpc encode''"
| "interface_error_label TxTransmit = ''tx transmit''"
| "interface_error_label TxSerialize = ''tx serialize''"

section \<open>Operations\<close>

definition push_event :: "reticulum_event \<Rightarrow> reticulum_event list \<Rightarrow> reticulum_event list" where
  "push_event e events = take RETICULUM_EVENT_BUF_SIZE (e # events)"

abbreviation inc64 :: "nat \<Rightarrow> nat" where
  "inc64 n \<equiv> wrap64 (n + 1)"

fun count_error :: "interface_error_kind \<Rightarrow> reticulum_interface_stats \<Rightarrow> reticulum_interface_stats" where
  "count_error RxLdpcDecode s =
     s\<lparr>is_rx_errors := inc64 (is_rx_errors s), is_rx_ldpc_errors := inc64 (is_rx_ldpc_errors s)\<rparr>"
| "count_error RxReassembly s =
     s\<lparr>is_rx_errors := inc64 (is_rx_errors s), is_rx_reassembly_errors := inc64 (is_rx_reassembly_errors s)\<rparr>"
| "count_error RxDeserialize s =
     s\<lparr>is_rx_errors := inc64 (is_rx_errors s), is_rx_deserialize_errors := inc64 (is_rx_deserialize_errors s)\<rparr>"
| "count_error TxLdpcEncode s =
     s\<lparr>is_tx_errors := inc64 (is_tx_errors s), is_tx_ldpc_errors := inc64 (is_tx_ldpc_errors s)\<rparr>"
| "count_error TxTransmit s =
     s\<lparr>is_tx_errors := inc64 (is_tx_errors s), is_tx_transmit_errors := inc64 (is_tx_transmit_errors s)\<rparr>"
| "count_error TxSerialize s =
     s\<lparr>is_tx_errors := inc64 (is_tx_errors s), is_tx_serialize_errors := inc64 (is_tx_serialize_errors s)\<rparr>"

definition record_interface_error ::
    "nat \<Rightarrow> nat \<Rightarrow> interface_error_kind \<Rightarrow> gateway_reticulum \<Rightarrow> gateway_reticulum" where
  "record_interface_error ts module kind g =
     g\<lparr>gr_interface_stats := count_error kind (gr_interface_stats g),
       gr_events := push_event
         \<lparr>re_ts = ts, re_direction = ''interface'', re_kind = ''error'', re_link_id = [], re_destination = [],
          re_details = ''module '' @ dec_str module @ '': '' @ interface_error_label kind\<rparr> (gr_events g)\<rparr>"

definition link_snapshot :: "link_view \<Rightarrow> string \<Rightarrow> nat \<Rightarrow> reticulum_link_dto" where
  "link_snapshot link last_event ts =
     \<lparr>rl_id = lv_id link, rl_destination = lv_destination link, rl_status = link_status_label (lv_status link),
      rl_last_event = last_event, rl_packets = 0, rl_bytes = 0, rl_rtt_ms = Some (wrap64 (lv_rtt_ms link)),
      rl_last_seen_ts = ts\<rparr>"

definition resolve_link_snapshot ::
    "link_view option \<Rightarrow> link_event_data \<Rightarrow> string \<Rightarrow> nat \<Rightarrow> reticulum_link_dto" where
  "resolve_link_snapshot found event last_event ts =
     (case found of
        Some link \<Rightarrow> link_snapshot link last_event ts
      | None \<Rightarrow>
          \<lparr>rl_id = le_id event, rl_destination = le_address_hash event,
           rl_status = link_event_status (le_event event), rl_last_event = last_event, rl_packets = 0,
           rl_bytes = 0, rl_rtt_ms = None, rl_last_seen_ts = ts\<rparr>)"

definition update_entry ::
    "reticulum_link_dto \<Rightarrow> nat option \<Rightarrow> reticulum_link_dto \<Rightarrow> reticulum_link_dto" where
  "update_entry snapshot packet_len entry =
     (let entry = entry\<lparr>rl_destination := rl_destination snapshot, rl_status := rl_status snapshot,
            rl_rtt_ms := rl_rtt_ms snapshot, rl_last_event := rl_last_event snapshot,
            rl_last_seen_ts := rl_last_seen_ts snapshot\<rparr>
      in case packet_len of
           None \<Rightarrow> entry
         | Some n \<Rightarrow> entry\<lparr>rl_packets := inc64 (rl_packets entry), rl_bytes := wrap64 (rl_bytes entry + n)\<rparr>)"

definition upsert_link ::
    "reticulum_link_dto \<Rightarrow> nat option \<Rightarrow> (string \<times> reticulum_link_dto) list
       \<Rightarrow> (string \<times> reticulum_link_dto) list" where
  "upsert_link snapshot packet_len links =
     (let links = (if rl_id snapshot \<in> set (keys links) then links
                   else AList.update (rl_id snapshot) snapshot links)
      in hm_modify (rl_id snapshot) (update_entry snapshot packet_len) links)"

definition handle_link_event ::
    "(bytes \<Rightarrow> string) \<Rightarrow> nat \<Rightarrow> bool \<Rightarrow> link_view option \<Rightarrow> link_event_data
       \<Rightarrow> gateway_reticulum \<Rightarrow> gateway_reticulum" where
  "handle_link_event show_hash ts incoming found event g =
     (let ev = le_event event;
          kind = link_event_kind ev;
          snapshot = (resolve_link_snapshot found event kind ts)
            \<lparr>rl_status := link_event_status ev, rl_last_event := kind, rl_last_seen_ts := ts\<rparr>;
          upsert = upsert_link snapshot (link_event_packet_len ev);
          g = (if incoming then g\<lparr>gr_incoming_links := upsert (gr_incoming_links g)\<rparr>
               else g\<lparr>gr_outgoing_links := upsert (gr_outgoing_links g)\<rparr>)
      in g\<lparr>gr_events := push_event
           \<lparr>re_ts = ts, re_direction = (if incoming then ''incoming'' else ''outgoing''), re_kind = kind,
            re_link_id = le_id event, re_destination = le_address_hash event,
            re_details = link_event_details show_hash ev\<rparr> (gr_events g)\<rparr>)"

definition handle_received_data :: "nat \<Rightarrow> string \<Rightarrow> bytes \<Rightarrow> gateway_reticulum \<Rightarrow> gateway_reticulum" where
  "handle_received_data ts destination payload g =
     g\<lparr>gr_events := push_event
         \<lparr>re_ts = ts, re_direction = ''transport'', re_kind = ''received-data'', re_link_id = [],
          re_destination = destination, re_details = dec_str (length payload) @ '' B''\<rparr> (gr_events g)\<rparr>"

definition handle_announce :: "nat \<Rightarrow> string \<Rightarrow> bytes \<Rightarrow> gateway_reticulum \<Rightarrow> gateway_reticulum" where
  "handle_announce ts destination app_data g =
     g\<lparr>gr_events := push_event
         \<lparr>re_ts = ts, re_direction = ''transport'', re_kind = ''announce'', re_link_id = [],
          re_destination = destination,
          re_details = ''app data '' @ dec_str (length app_data) @ '' B''\<rparr> (gr_events g)\<rparr>"

text \<open>Links are shown with the last seen first, and by identifier among equals.\<close>

definition sort_links :: "reticulum_link_dto list \<Rightarrow> reticulum_link_dto list" where
  "sort_links = sort_key (\<lambda>l. (- int (rl_last_seen_ts l), rl_id l))"

definition reticulum_snapshot_of :: "gateway_reticulum \<Rightarrow> reticulum_snapshot" where
  "reticulum_snapshot_of g =
     \<lparr>rsn_interface_stats = gr_interface_stats g,
      rsn_incoming_links = sort_links (map snd (gr_incoming_links g)),
      rsn_outgoing_links = sort_links (map snd (gr_outgoing_links g)),
      rsn_events = gr_events g\<rparr>"

section \<open>Runs\<close>

datatype gw_event =
    GwError nat interface_error_kind
  | GwLink bool "link_view option" link_event_data
  | GwData string bytes
  | GwAnnounce string bytes

fun gw_step :: "(bytes \<Rightarrow> string) \<Rightarrow> nat \<times> gw_event \<Rightarrow> gateway_reticulum \<Rightarrow> gateway_reticulum" where
  "gw_step show_hash (ts, GwError module kind) g = record_interface_error ts module kind g"
| "gw_step show_hash (ts, GwLink incoming found event) g = handle_link_event show_hash ts incoming found event g"
| "gw_step show_hash (ts, GwData destination payload) g = handle_received_data ts destination payload g"
| "gw_step show_hash (ts, GwAnnounce destination app_data) g = handle_announce ts destination app_data g"

definition gw_run :: "(bytes \<Rightarrow> string) \<Rightarrow> (nat \<times> gw_event) list \<Rightarrow> gateway_reticulum" where
  "gw_run show_hash evs = fold (gw_step show_hash) evs gateway_reticulum_new"

lemma gw_run_Nil [simp]: "gw_run show_hash [] = gateway_reticulum_new"
  by (simp add: gw_run_def)

lemma gw_run_snoc [simp]: "gw_run show_hash (evs @ [e]) = gw_step show_hash e (gw_run show_hash evs)"
  by (simp add: gw_run_def)

section \<open>The history a state stands for\<close>

text \<open>The log entry of an event.\<close>

fun log_entry :: "(bytes \<Rightarrow> string) \<Rightarrow> nat \<times> gw_event \<Rightarrow> reticulum_event" where
  "log_entry show_hash (ts, GwError module kind) =
     \<lparr>re_ts = ts, re_direction = ''interface'', re_kind = ''error'', re_link_id = [], re_destination = [],
      re_details = ''module '' @ dec_str module @ '': '' @ interface_error_label kind\<rparr>"
| "log_entry show_hash (ts, GwLink incoming found e) =
     \<lparr>re_ts = ts, re_direction = (if incoming then ''incoming'' else ''outgoing''),
      re_kind = link_event_kind (le_event e), re_link_id = le_id e, re_destination = le_address_hash e,
      re_details = link_event_details show_hash (le_event e)\<rparr>"
| "log_entry show_hash (ts, GwData destination payload) =
     \<lparr>re_ts = ts, re_direction = ''transport'', re_kind = ''received-data'', re_link_id = [],
      re_destination = destination, re_details = dec_str (length payload) @ '' B''\<rparr>"
| "log_entry show_hash (ts, GwAnnounce destination app_data) =
     \<lparr>re_ts = ts, re_direction = ''transport'', re_kind = ''announce'', re_link_id = [],
      re_destination = destination, re_details = ''app data '' @ dec_str (length app_data) @ '' B''\<rparr>"

lemma gw_step_events:
  "gr_events (gw_step show_hash e g) = push_event (log_entry show_hash e) (gr_events g)"
  by (cases "(show_hash, e, g)" rule: gw_step.cases)
    (auto simp: record_interface_error_def handle_link_event_def handle_received_data_def
      handle_announce_def Let_def)

lemma gw_run_events:
  "gr_events (gw_run show_hash evs) =
     take RETICULUM_EVENT_BUF_SIZE (rev (map (log_entry show_hash) evs))"
  by (induction evs rule: rev_induct)
    (simp_all add: gw_step_events push_event_def gateway_reticulum_new_def RETICULUM_EVENT_BUF_SIZE_def
      take_Cons' min_def)

text \<open>The events of one link, and what its entry says of them.\<close>

definition resolved_id :: "link_view option \<Rightarrow> link_event_data \<Rightarrow> string" where
  "resolved_id found e = (case found of Some link \<Rightarrow> lv_id link | None \<Rightarrow> le_id e)"

fun concerning :: "bool \<Rightarrow> string \<Rightarrow> nat \<times> gw_event \<Rightarrow> (nat \<times> link_event) list" where
  "concerning incoming k (ts, GwLink dir found e) =
     (if dir = incoming \<and> resolved_id found e = k then [(ts, le_event e)] else [])"
| "concerning incoming k _ = []"

definition link_history :: "bool \<Rightarrow> string \<Rightarrow> (nat \<times> gw_event) list \<Rightarrow> (nat \<times> link_event) list" where
  "link_history incoming k evs = concat (map (concerning incoming k) evs)"

lemma link_history_simps [simp]:
  "link_history incoming k [] = []"
  "link_history incoming k (evs @ [e]) = link_history incoming k evs @ concerning incoming k e"
  by (simp_all add: link_history_def)

definition payload_lengths :: "(nat \<times> link_event) list \<Rightarrow> nat list" where
  "payload_lengths es = List.map_filter (link_event_packet_len \<circ> snd) es"

lemma payload_lengths_append [simp]:
  "payload_lengths (xs @ ys) = payload_lengths xs @ payload_lengths ys"
  by (simp add: payload_lengths_def map_filter_def)

lemma payload_lengths_Nil [simp]: "payload_lengths [] = []"
  by (simp add: payload_lengths_def)

lemma payload_lengths_single:
  "payload_lengths [(ts, ev)] = (case link_event_packet_len ev of None \<Rightarrow> [] | Some n \<Rightarrow> [n])"
  by (simp add: payload_lengths_def map_filter_def split: option.splits)

definition link_facts :: "reticulum_link_dto \<Rightarrow> nat \<times> nat \<times> string \<times> string \<times> nat" where
  "link_facts l = (rl_packets l, rl_bytes l, rl_status l, rl_last_event l, rl_last_seen_ts l)"

definition history_facts :: "(nat \<times> link_event) list \<Rightarrow> (nat \<times> nat \<times> string \<times> string \<times> nat) option" where
  "history_facts es =
     (if es = [] then None
      else Some (wrap64 (length (payload_lengths es)), wrap64 (sum_list (payload_lengths es)),
                 link_event_status (snd (last es)), link_event_kind (snd (last es)), fst (last es)))"

definition dir_links :: "bool \<Rightarrow> gateway_reticulum \<Rightarrow> (string \<times> reticulum_link_dto) list" where
  "dir_links incoming g = (if incoming then gr_incoming_links g else gr_outgoing_links g)"

lemma wrap64_add_wrap64 [simp]: "wrap64 (wrap64 a + b) = wrap64 (a + b)"
  by (simp add: wrap64_def mod_add_left_eq)

lemma wrap64_Suc_wrap64 [simp]: "wrap64 (Suc (wrap64 a)) = wrap64 (Suc a)"
  using wrap64_add_wrap64 [of a 1] by simp

lemma wrap64_0 [simp]: "wrap64 0 = 0"
  by (simp add: wrap64_def)

lemma map_of_upsert_link:
  "map_of (upsert_link s n links) k =
     (if k = rl_id s then Some (update_entry s n (case map_of links k of Some e \<Rightarrow> e | None \<Rightarrow> s))
      else map_of links k)"
proof (cases "map_of links (rl_id s)")
  case None
  then have "rl_id s \<notin> set (keys links)" by (simp add: map_of_eq_None_iff)
  with None show ?thesis by (simp add: upsert_link_def)
next
  case (Some e)
  then have "rl_id s \<in> set (keys links)" by (force dest: map_of_SomeD)
  with Some show ?thesis by (simp add: upsert_link_def)
qed

lemma keys_upsert_link: "distinct (keys links) \<Longrightarrow> distinct (keys (upsert_link s n links))"
  by (simp add: upsert_link_def Let_def)

lemma dir_links_step:
  "dir_links incoming (handle_link_event show_hash ts dir found e g) =
     (if dir = incoming
      then upsert_link ((resolve_link_snapshot found e (link_event_kind (le_event e)) ts)
             \<lparr>rl_status := link_event_status (le_event e), rl_last_event := link_event_kind (le_event e),
              rl_last_seen_ts := ts\<rparr>) (link_event_packet_len (le_event e)) (dir_links incoming g)
      else dir_links incoming g)"
  by (auto simp: dir_links_def handle_link_event_def Let_def)

lemma dir_links_other:
  "dir_links incoming (record_interface_error ts m kind g) = dir_links incoming g"
  "dir_links incoming (handle_received_data ts d bs g) = dir_links incoming g"
  "dir_links incoming (handle_announce ts d bs g) = dir_links incoming g"
  by (simp_all add: dir_links_def record_interface_error_def handle_received_data_def handle_announce_def)

lemma resolve_link_snapshot_facts:
  "rl_id (resolve_link_snapshot found e kind ts) = resolved_id found e"
  "rl_packets (resolve_link_snapshot found e kind ts) = 0"
  "rl_bytes (resolve_link_snapshot found e kind ts) = 0"
  by (simp_all add: resolve_link_snapshot_def resolved_id_def link_snapshot_def split: option.splits)

lemma update_entry_facts:
  "link_facts (update_entry s n entry) =
     (case n of None \<Rightarrow> rl_packets entry | Some _ \<Rightarrow> inc64 (rl_packets entry),
      case n of None \<Rightarrow> rl_bytes entry | Some m \<Rightarrow> wrap64 (rl_bytes entry + m),
      rl_status s, rl_last_event s, rl_last_seen_ts s)"
  by (simp add: update_entry_def link_facts_def Let_def split: option.splits)

lemma history_facts_snoc:
  "history_facts (es @ [(ts, ev)]) =
     Some (case link_event_packet_len ev of None \<Rightarrow> wrap64 (length (payload_lengths es))
             | Some _ \<Rightarrow> inc64 (length (payload_lengths es)),
           case link_event_packet_len ev of None \<Rightarrow> wrap64 (sum_list (payload_lengths es))
             | Some m \<Rightarrow> wrap64 (sum_list (payload_lengths es) + m),
           link_event_status ev, link_event_kind ev, ts)"
  by (simp add: history_facts_def payload_lengths_single split: option.splits)

lemma gw_run_links:
  "map_option link_facts (map_of (dir_links incoming (gw_run show_hash evs)) k) =
     history_facts (link_history incoming k evs)"
proof (induction evs rule: rev_induct)
  case Nil
  then show ?case by (simp add: dir_links_def gateway_reticulum_new_def history_facts_def)
next
  case (snoc x evs)
  let ?g = "gw_run show_hash evs" and ?h = "link_history incoming k evs"
  show ?case
  proof (cases "(show_hash, x, ?g)" rule: gw_step.cases)
    case (2 sh ts dir found e g)
    show ?thesis
    proof (cases "dir = incoming \<and> resolved_id found e = k")
      case False
      with 2 snoc.IH show ?thesis
        by (auto simp: dir_links_step map_of_upsert_link resolve_link_snapshot_facts)
    next
      case True
      have f: "map_option (\<lambda>l. (rl_packets l, rl_bytes l)) (map_of (dir_links incoming ?g) k) =
          (if ?h = [] then None
           else Some (wrap64 (length (payload_lengths ?h)), wrap64 (sum_list (payload_lengths ?h))))"
        using snoc.IH by (auto simp: link_facts_def history_facts_def split: if_splits)
      show ?thesis
        using True 2 f
        by (cases "map_of (dir_links incoming ?g) k")
          (auto simp: dir_links_step map_of_upsert_link resolve_link_snapshot_facts update_entry_facts
            history_facts_snoc split: option.splits if_splits)
    qed
  qed (use snoc.IH in \<open>auto simp: dir_links_other\<close>)
qed

lemma gw_run_keys: "distinct (keys (dir_links incoming (gw_run show_hash evs)))"
proof (induction evs rule: rev_induct)
  case Nil
  then show ?case by (simp add: dir_links_def gateway_reticulum_new_def)
next
  case (snoc x evs)
  then show ?case
    by (cases "(show_hash, x, gw_run show_hash evs)" rule: gw_step.cases)
      (auto simp: dir_links_step dir_links_other intro: keys_upsert_link)
qed

text \<open>The error counters.\<close>

fun error_kinds :: "nat \<times> gw_event \<Rightarrow> interface_error_kind list" where
  "error_kinds (ts, GwError m kind) = [kind]"
| "error_kinds _ = []"

definition errors_of :: "(nat \<times> gw_event) list \<Rightarrow> interface_error_kind list" where
  "errors_of evs = concat (map error_kinds evs)"

definition counts_errors :: "interface_error_kind list \<Rightarrow> reticulum_interface_stats \<Rightarrow> bool" where
  "counts_errors ks s \<longleftrightarrow>
     is_rx_ldpc_errors s = wrap64 (count_list ks RxLdpcDecode)
   \<and> is_rx_reassembly_errors s = wrap64 (count_list ks RxReassembly)
   \<and> is_rx_deserialize_errors s = wrap64 (count_list ks RxDeserialize)
   \<and> is_tx_ldpc_errors s = wrap64 (count_list ks TxLdpcEncode)
   \<and> is_tx_transmit_errors s = wrap64 (count_list ks TxTransmit)
   \<and> is_tx_serialize_errors s = wrap64 (count_list ks TxSerialize)
   \<and> is_rx_errors s =
       wrap64 (count_list ks RxLdpcDecode + count_list ks RxReassembly + count_list ks RxDeserialize)
   \<and> is_tx_errors s =
       wrap64 (count_list ks TxLdpcEncode + count_list ks TxTransmit + count_list ks TxSerialize)"

lemma count_error_counts: "counts_errors ks s \<Longrightarrow> counts_errors (ks @ [kind]) (count_error kind s)"
  by (cases kind) (simp_all add: counts_errors_def add_ac)

lemma gw_run_errors: "counts_errors (errors_of evs) (gr_interface_stats (gw_run show_hash evs))"
proof (induction evs rule: rev_induct)
  case Nil
  then show ?case
    by (simp add: counts_errors_def errors_of_def gateway_reticulum_new_def default_interface_stats_def)
next
  case (snoc x evs)
  then show ?case
    by (cases "(show_hash, x, gw_run show_hash evs)" rule: gw_step.cases)
      (auto simp: errors_of_def record_interface_error_def handle_link_event_def handle_received_data_def
        handle_announce_def Let_def intro: count_error_counts)
qed

lemma sort_links_order:
  "sorted_wrt (\<lambda>a b. rl_last_seen_ts b < rl_last_seen_ts a
      \<or> rl_last_seen_ts a = rl_last_seen_ts b \<and> rl_id a \<le> rl_id b) (sort_links ls)"
proof -
  have "sorted (map (\<lambda>l. (- int (rl_last_seen_ts l), rl_id l)) (sort_links ls))"
    by (simp add: sort_links_def)
  then show ?thesis
    by (simp add: sorted_map) (erule sorted_wrt_mono_rel [rotated], auto)
qed

section \<open>Property\<close>

text \<open>
  C25. After any sequence of radio errors, link events, received packets and announces, the snapshot of the
  gateway is a function of that history. The log holds the newest 256 events, newest first. A link is listed
  exactly when it had an event in its direction, and then with the number and the total size of the data
  packets received on it (modulo 2 to the 64), the status, kind and time of its last event; links are listed
  once, last seen first. The error counters count the errors of each kind and of each direction.
\<close>

theorem gateway_reticulum_history:
  "let g = gw_run show_hash evs; s = reticulum_snapshot_of g in
     rsn_events s = take 256 (rev (map (log_entry show_hash) evs))
   \<and> (\<forall>incoming k. map_option link_facts (map_of (dir_links incoming g) k) =
        history_facts (link_history incoming k evs))
   \<and> mset (rsn_incoming_links s) = mset (map snd (dir_links True g)) \<and> distinct (keys (dir_links True g))
   \<and> mset (rsn_outgoing_links s) = mset (map snd (dir_links False g)) \<and> distinct (keys (dir_links False g))
   \<and> sorted_wrt (\<lambda>a b. rl_last_seen_ts b < rl_last_seen_ts a
        \<or> rl_last_seen_ts a = rl_last_seen_ts b \<and> rl_id a \<le> rl_id b) (rsn_incoming_links s)
   \<and> sorted_wrt (\<lambda>a b. rl_last_seen_ts b < rl_last_seen_ts a
        \<or> rl_last_seen_ts a = rl_last_seen_ts b \<and> rl_id a \<le> rl_id b) (rsn_outgoing_links s)
   \<and> counts_errors (errors_of evs) (rsn_interface_stats s)"
proof -
  have snap: "rsn_events (reticulum_snapshot_of g) = gr_events g"
    "rsn_incoming_links (reticulum_snapshot_of g) = sort_links (map snd (dir_links True g))"
    "rsn_outgoing_links (reticulum_snapshot_of g) = sort_links (map snd (dir_links False g))"
    "rsn_interface_stats (reticulum_snapshot_of g) = gr_interface_stats g" for g
    by (simp_all add: reticulum_snapshot_of_def dir_links_def)
  have m: "mset (sort_links ls) = mset ls" for ls by (simp add: sort_links_def)
  show ?thesis
    unfolding Let_def snap m
    by (intro conjI allI gw_run_links gw_run_keys sort_links_order gw_run_errors refl)
      (simp add: gw_run_events RETICULUM_EVENT_BUF_SIZE_def)
qed

end
