(* ===== verification/Gw_Http.thy ===== *)
theory Gw_Http
  imports Gw_Settings Gw_Network Gw_System Gw_Reticulum Snapshot Config
begin

text \<open>
  The radio functions and the request handlers of the gateway (\<open>kaonic-gateway/src/radio.rs\<close> and
  \<open>http/handlers.rs\<close>). Requests arrive parsed: a path parameter or a JSON body is an argument. A handler
  is a function of the application state to a response and the next state; an error response is its status
  code with a text. The settings lock is held for a whole group of database statements, and the VPN's
  operations run under their own locks, so a handler's parts are the calls it makes, in order.
\<close>

section \<open>Radio\<close>

text \<open>The radio client of the \<open>kaonic-ctrl\<close> crate, with the size of its frames.\<close>

record ('r, 'm, 'w) radio_client =
  rc_set_radio_config :: "nat \<Rightarrow> 'r \<Rightarrow> ('w, string) action"
  rc_set_modulation :: "nat \<Rightarrow> 'm \<Rightarrow> ('w, string) action"
  rc_transmit :: "nat \<Rightarrow> bytes \<Rightarrow> ('w, string) action"
  rc_frame_size :: nat

definition apply_module ::
    "('r, 'm, 'w) radio_client \<Rightarrow> nat \<Rightarrow> ('r, 'm) radio_module_config \<Rightarrow> 'w \<Rightarrow> 'w" where
  "apply_module R rf cfg w =
     snd (rc_set_modulation R rf (rmc_modulation cfg)
            (snd (rc_set_radio_config R rf (rmc_radio_config cfg) w)))"

definition attach_radio_interface ::
    "('r, 'm, 'w) radio_client \<Rightarrow> (nat \<Rightarrow> 'w \<Rightarrow> 'w) \<Rightarrow> ('r, 'm) hardware_radio_config \<Rightarrow> nat \<Rightarrow> 'w \<Rightarrow> 'w" where
  "attach_radio_interface R spawn radio rns_module w =
     spawn rns_module
       (fold (\<lambda>(rf, cfg). apply_module R rf cfg)
          (zip [0..<length (hrc_module_configs radio)] (hrc_module_configs radio)) w)"

definition attach_selected_radio_interface ::
    "('r, 'm, 'w) radio_client \<Rightarrow> (nat \<Rightarrow> 'w \<Rightarrow> 'w) \<Rightarrow> ('r, 'm) hardware_radio_config \<Rightarrow> nat
       \<Rightarrow> ('w, string) action" where
  "attach_selected_radio_interface R spawn radio rns_module w =
     (if rns_module < length (hrc_module_configs radio)
      then (Inr (), spawn rns_module (apply_module R rns_module (hrc_module_configs radio ! rns_module) w))
      else (Inl (''radio module '' @ dec_str rns_module @ '' not found''), w))"

definition transmit_test_frame ::
    "('r, 'm, 'w) radio_client option \<Rightarrow> (nat \<Rightarrow> bytes \<Rightarrow> 'w \<Rightarrow> 'w) option \<Rightarrow> nat \<Rightarrow> nat \<Rightarrow> bytes
       \<Rightarrow> ('w, string) action" where
  "transmit_test_frame client observer frame_size rf payload w =
     (if 1 < rf then (Inl (''radio module '' @ dec_str rf @ '' not found''), w)
      else if payload = [] then (Inl ''message is required'', w)
      else if min frame_size 2047 < length payload
      then (Inl (''message exceeds '' @ dec_str (min frame_size 2047) @ '' bytes''), w)
      else (case client of
              None \<Rightarrow> (Inl ''radio backend unavailable'', w)
            | Some R \<Rightarrow>
                (case map_err (\<lambda>e. ''transmit: '' @ e) (rc_transmit R rf payload w) of
                   (Inl e, w) \<Rightarrow> (Inl e, w)
                 | (Inr _, w) \<Rightarrow>
                     (Inr (), case observer of Some obs \<Rightarrow> obs rf payload w | None \<Rightarrow> w))))"

section \<open>The application\<close>

record ('h, 'c, 'd, 'l, 'r, 'm, 'w) gateway_env =
  ge_vpn :: "('h, 'c, 'd, 'l, 'w) vpn_env"
  ge_settings :: "('c, 'r, 'm) settings_env"
  ge_sys :: "'w sys_ops"
  ge_interfaces :: "'w \<Rightarrow> string + net_if list"
  ge_radio :: "('r, 'm, 'w) radio_client option"
  ge_tx_observer :: "(nat \<Rightarrow> bytes \<Rightarrow> 'w \<Rightarrow> 'w) option"
  ge_frame_size :: nat

record ('h, 'c, 'd, 'l, 'w) app_state =
  ap_settings :: database
  ap_poisoned :: bool
  ap_vpn :: "('h, 'c, 'd, 'l) vpn_runtime option"
  ap_world :: 'w

type_synonym http_error = "nat \<times> string"

fun sql_error_to_string :: "sql_error \<Rightarrow> string" where
  "sql_error_to_string (SqlFailure e) = e"
| "sql_error_to_string (InvalidParameterName e) = ''Invalid parameter name: '' @ e"

text \<open>Running statements of the database, and operations on the world, inside a handler.\<close>

definition on_settings ::
    "(sql_error \<Rightarrow> 'e) \<Rightarrow> (database, sql_error, 'a) fallible
       \<Rightarrow> (('h, 'c, 'd, 'l, 'w) app_state, 'e, 'a) fallible" where
  "on_settings err m s =
     (case m (ap_settings s) of
        (Inl e, d) \<Rightarrow> (Inl (err e), s\<lparr>ap_settings := d\<rparr>)
      | (Inr x, d) \<Rightarrow> (Inr x, s\<lparr>ap_settings := d\<rparr>))"

definition on_world ::
    "('e \<Rightarrow> 'f) \<Rightarrow> ('w, 'e, 'a) fallible \<Rightarrow> (('h, 'c, 'd, 'l, 'w) app_state, 'f, 'a) fallible" where
  "on_world err m s =
     (case m (ap_world s) of
        (Inl e, w) \<Rightarrow> (Inl (err e), s\<lparr>ap_world := w\<rparr>)
      | (Inr x, w) \<Rightarrow> (Inr x, s\<lparr>ap_world := w\<rparr>))"

definition lock_settings :: "'e \<Rightarrow> (('h, 'c, 'd, 'l, 'w) app_state, 'e, unit) fallible" where
  "lock_settings err s = (if ap_poisoned s then (Inl err, s) else (Inr (), s))"

section \<open>Settings\<close>

definition get_settings ::
    "('h, 'c, 'd, 'l, 'r, 'm, 'w) gateway_env
       \<Rightarrow> (('h, 'c, 'd, 'l, 'w) app_state, nat, ('c, 'r, 'm) gateway_config) fallible" where
  "get_settings G =
     and_do (lock_settings INTERNAL_SERVER_ERROR) (\<lambda>_.
       on_settings (\<lambda>_. INTERNAL_SERVER_ERROR) (load_config (ge_settings G)))"

definition vpn_set_routes ::
    "('h, 'c::linorder, 'd, 'l, 'r, 'm, 'w) gateway_env \<Rightarrow> 'c list
       \<Rightarrow> ('h, 'c, 'd, 'l, 'w) app_state \<Rightarrow> ('h, 'c, 'd, 'l, 'w) app_state" where
  "vpn_set_routes G routes s =
     (case ap_vpn s of
        None \<Rightarrow> s
      | Some rt \<Rightarrow>
          (case replace_advertised_routes (ge_vpn G) (ge_interfaces G (ap_world s)) routes (rt, ap_world s) of
             (rt, w) \<Rightarrow> s\<lparr>ap_vpn := Some rt, ap_world := w\<rparr>))"

definition vpn_set_policy ::
    "('h, 'c, 'd, 'l, 'r, 'm, 'w) gateway_env \<Rightarrow> nat \<Rightarrow> bool \<Rightarrow> string list
       \<Rightarrow> (('h, 'c, 'd, 'l, 'w) app_state, vpn_error, unit) fallible" where
  "vpn_set_policy G now allow_all peer_strs s =
     (case ap_vpn s of
        None \<Rightarrow> (Inr (), s)
      | Some rt \<Rightarrow>
          (case replace_peer_policy (ge_vpn G) now allow_all peer_strs (rt, ap_world s) of
             (r, rt, w) \<Rightarrow> (r, s\<lparr>ap_vpn := Some rt, ap_world := w\<rparr>)))"

definition put_settings ::
    "('h, 'c::linorder, 'd, 'l, 'r, 'm, 'w) gateway_env \<Rightarrow> nat \<Rightarrow> ('c, 'r, 'm) gateway_config
       \<Rightarrow> ('h, 'c, 'd, 'l, 'w) app_state \<Rightarrow> nat \<times> ('h, 'c, 'd, 'l, 'w) app_state" where
  "put_settings G now c s =
     (case on_settings (\<lambda>e. e) (save_config (ge_settings G) c) s of
        (Inl _, s) \<Rightarrow> (INTERNAL_SERVER_ERROR, s)
      | (Inr _, s) \<Rightarrow>
          (case vpn_set_policy G now (gc_allow_all_peers c) (gc_peers c) s of
             (Inl _, s) \<Rightarrow> (BAD_REQUEST, s)
           | (Inr _, s) \<Rightarrow> (NO_CONTENT, vpn_set_routes G (gc_advertised_routes c) s)))"

definition get_radio ::
    "('h, 'c, 'd, 'l, 'r, 'm, 'w) gateway_env \<Rightarrow> nat
       \<Rightarrow> (('h, 'c, 'd, 'l, 'w) app_state, nat, ('r, 'm) radio_module_config) fallible" where
  "get_radio G rf =
     and_do (get_settings G) (\<lambda>c.
       (let ms = hrc_module_configs (gc_radio c)
        in if rf < length ms then return_ok (ms ! rf) else fail_with NOT_FOUND))"

definition put_radio ::
    "('h, 'c, 'd, 'l, 'r, 'm, 'w) gateway_env \<Rightarrow> nat \<Rightarrow> ('r, 'm) radio_module_config
       \<Rightarrow> ('h, 'c, 'd, 'l, 'w) app_state \<Rightarrow> nat \<times> ('h, 'c, 'd, 'l, 'w) app_state" where
  "put_radio G rf cfg s =
     (case on_settings (\<lambda>e. e) (save_module_config (ge_settings G) rf cfg) s of
        (Inl _, s) \<Rightarrow> (INTERNAL_SERVER_ERROR, s)
      | (Inr _, s) \<Rightarrow>
          (NO_CONTENT,
           case ge_radio G of
             Some R \<Rightarrow> s\<lparr>ap_world := apply_module R rf cfg (ap_world s)\<rparr>
           | None \<Rightarrow> s))"

definition post_radio_test ::
    "('h, 'c, 'd, 'l, 'r, 'm, 'w) gateway_env \<Rightarrow> nat \<Rightarrow> string
       \<Rightarrow> (('h, 'c, 'd, 'l, 'w) app_state, http_error, string) fallible" where
  "post_radio_test G rf request =
     (let message = trim request in
      if 1 < rf then fail_with (NOT_FOUND, ''radio module '' @ dec_str rf @ '' not found'')
      else if message = [] then fail_with (BAD_REQUEST, ''message is required'')
      else if 2047 < length (chars message) then fail_with (BAD_REQUEST, ''message exceeds 2047 characters'')
      else and_do
        (on_world (\<lambda>e. (SERVICE_UNAVAILABLE, e))
           (transmit_test_frame (ge_radio G) (ge_tx_observer G) (ge_frame_size G) rf message)) (\<lambda>_.
        return_ok (''Sent test frame on '' @ (if rf = 0 then ''Radio A'' else ''Radio B''))))"

section \<open>VPN\<close>

definition and_then_all :: "('a \<Rightarrow> 'e + 'b) \<Rightarrow> 'a list \<Rightarrow> 'e + 'b list" where
  "and_then_all f xs = collect_results (map f xs)"

definition normalize_vpn_peer :: "'h hash_ops \<Rightarrow> string \<Rightarrow> http_error + string" where
  "normalize_vpn_peer H peer =
     (let raw = trim peer in
      if raw = [] then Inl (BAD_REQUEST, ''peer hash is required'')
      else (case h_from_hex H raw of
              Inr hash \<Rightarrow> Inr (h_hex H hash)
            | Inl err \<Rightarrow> Inl (BAD_REQUEST, ''invalid peer hash '' @ quoted raw @ '': '' @ err)))"

definition normalize_vpn_peer_hashes :: "'h hash_ops \<Rightarrow> string list \<Rightarrow> http_error + string list" where
  "normalize_vpn_peer_hashes H request =
     and_then (and_then_all (normalize_vpn_peer H) request) (\<lambda>ps. Inr (remdups_adj (sort ps)))"

definition parse_route :: "'c cidr_ops \<Rightarrow> string \<Rightarrow> http_error + 'c" where
  "parse_route C route =
     (case cidr_from_str C (trim route) of
        Inr c \<Rightarrow> Inr c
      | Inl err \<Rightarrow> Inl (BAD_REQUEST, ''invalid route '' @ quoted route @ '': '' @ err))"

text \<open>Load the configuration, change it, save it, all under the settings lock.\<close>

definition update_config ::
    "('h, 'c, 'd, 'l, 'r, 'm, 'w) gateway_env \<Rightarrow> (('c, 'r, 'm) gateway_config \<Rightarrow> ('c, 'r, 'm) gateway_config)
       \<Rightarrow> (('h, 'c, 'd, 'l, 'w) app_state, http_error, unit) fallible" where
  "update_config G change =
     and_do (lock_settings (INTERNAL_SERVER_ERROR, ''settings lock poisoned'')) (\<lambda>_.
     and_do (on_settings (\<lambda>e. (INTERNAL_SERVER_ERROR, ''failed to load config: '' @ sql_error_to_string e))
               (load_config (ge_settings G))) (\<lambda>config.
       on_settings (\<lambda>e. (INTERNAL_SERVER_ERROR, ''failed to save config: '' @ sql_error_to_string e))
         (save_config (ge_settings G) (change config))))"

definition put_vpn_routes ::
    "('h, 'c::linorder, 'd, 'l, 'r, 'm, 'w) gateway_env \<Rightarrow> string list
       \<Rightarrow> (('h, 'c, 'd, 'l, 'w) app_state, http_error, string) fallible" where
  "put_vpn_routes G request =
     (case and_then_all (parse_route (se_cidr (ge_settings G))) request of
        Inl e \<Rightarrow> fail_with e
      | Inr routes \<Rightarrow>
          and_do (update_config G (\<lambda>c. c\<lparr>gc_advertised_routes := routes\<rparr>)) (\<lambda>_ s.
            (Inr ''VPN advertised routes updated'', vpn_set_routes G routes s)))"

definition put_vpn_access ::
    "('h, 'c, 'd, 'l, 'r, 'm, 'w) gateway_env \<Rightarrow> nat \<Rightarrow> bool \<Rightarrow> string list
       \<Rightarrow> (('h, 'c, 'd, 'l, 'w) app_state, http_error, string \<times> bool \<times> string list) fallible" where
  "put_vpn_access G now allow_all request =
     (case normalize_vpn_peer_hashes (e_hash (ge_vpn G)) request of
        Inl e \<Rightarrow> fail_with e
      | Inr hashes \<Rightarrow>
          and_do (update_config G (\<lambda>c. c\<lparr>gc_allow_all_peers := allow_all, gc_peers := hashes\<rparr>)) (\<lambda>_ s.
            (case vpn_set_policy G now allow_all hashes s of
               (Inl err, s) \<Rightarrow>
                 (Inl (BAD_REQUEST, ''failed to apply VPN peer policy: '' @ vpn_error_to_string err), s)
             | (Inr _, s) \<Rightarrow>
                 (Inr (if allow_all then ''VPN access updated (allow all peers)''
                       else ''VPN access updated (allowlist only)'', allow_all, hashes), s))))"

text \<open>The snapshot of the VPN reads clocks: its own, and one for each counter set.\<close>

definition vpn_snapshot_default :: vpn_snapshot where
  "vpn_snapshot_default =
     \<lparr>vs_destination_hash = [], vs_network = [], vs_local_tunnel_ip = None, vs_backend = [],
      vs_interface_name = None, vs_status = [], vs_advertised_routes = [], vs_local_routes = [],
      vs_metrics = \<lparr>ms_tx_packets = 0, ms_tx_bytes = 0, ms_rx_packets = 0, ms_rx_bytes = 0,
        ms_drop_packets = 0, ms_last_tx_ts = 0, ms_last_rx_ts = 0, ms_tx_bps = 0, ms_rx_bps = 0\<rparr>,
      vs_peers = [], vs_remote_routes = [], vs_route_mappings = [], vs_last_error = None\<rparr>"

definition build_vpn_snapshot ::
    "('h, 'c::linorder, 'd, 'l, 'r, 'm, 'w) gateway_env \<Rightarrow> nat \<Rightarrow> nat \<Rightarrow> ('h \<Rightarrow> nat)
       \<Rightarrow> ('h, 'c, 'd, 'l, 'w) app_state \<Rightarrow> vpn_snapshot \<times> ('h, 'c, 'd, 'l, 'w) app_state" where
  "build_vpn_snapshot G now mnow pnow s =
     (case ap_vpn s of
        None \<Rightarrow> (vpn_snapshot_default, s)
      | Some rt \<Rightarrow> (case snapshot_of (ge_vpn G) now mnow pnow rt of (snap, rt) \<Rightarrow> (snap, s\<lparr>ap_vpn := Some rt\<rparr>)))"

record vpn_routes_response =
  vrr_tunnel_ip :: "string option"
  vrr_exported_routes :: "string list"
  vrr_remote_installed :: "string list"

definition get_vpn_routes ::
    "('h, 'c::linorder, 'd, 'l, 'r, 'm, 'w) gateway_env \<Rightarrow> nat \<Rightarrow> nat \<Rightarrow> ('h \<Rightarrow> nat)
       \<Rightarrow> ('h, 'c, 'd, 'l, 'w) app_state \<Rightarrow> vpn_routes_response \<times> ('h, 'c, 'd, 'l, 'w) app_state" where
  "get_vpn_routes G now mnow pnow s =
     (case build_vpn_snapshot G now mnow pnow s of (vpn, s) \<Rightarrow>
        (\<lparr>vrr_tunnel_ip = vs_local_tunnel_ip vpn, vrr_exported_routes = vs_local_routes vpn,
          vrr_remote_installed = map vr_network (filter vr_installed (vs_remote_routes vpn))\<rparr>, s))"

definition parse_ping_latency :: "bytes \<Rightarrow> string option" where
  "parse_ping_latency stdout =
     (case find_first (\<lambda>line. str_contains ''time='' line \<or> str_contains ''time<'' line)
             (str_lines (from_utf8_lossy stdout)) of
        None \<Rightarrow> None
      | Some line \<Rightarrow>
          (let start = (case str_find ''time='' line of
                          Some i \<Rightarrow> Some (i + 5)
                        | None \<Rightarrow> map_option (\<lambda>i. i + 4) (str_find ''time'' line))
           in case start of
                None \<Rightarrow> None
              | Some i \<Rightarrow>
                  (let rest = drop i line;
                       end_at = (case str_find '' ms'' rest of Some j \<Rightarrow> Some j | None \<Rightarrow> str_find ''ms'' rest)
                   in case end_at of
                        None \<Rightarrow> None
                      | Some j \<Rightarrow>
                          (let v = trim (take j rest) in if v = [] then None else Some (v @ '' ms'')))))"

definition request_vpn_ping :: "'w sys_ops \<Rightarrow> ipv4 \<Rightarrow> ('w, string, bool \<times> string option) fallible" where
  "request_vpn_ping S address w =
     (case exec (so_os S) ''ping'' [''-n'', ''-c'', ''1'', ''-W'', ''3'', ipv4_to_string address] w of
        (Inl err, w) \<Rightarrow> (Inl (''failed to execute ping '' @ ipv4_to_string address @ '': '' @ err), w)
      | (Inr out, w) \<Rightarrow>
          (Inr (if po_success out then (True, parse_ping_latency (po_stdout out)) else (False, None)), w))"

text \<open>The standard library displays every error of an IPv4 address the same way.\<close>

definition parse_request_address :: "string \<Rightarrow> http_error + ipv4" where
  "parse_request_address address =
     (case parse_ipv4 (trim address) of
        Some ip \<Rightarrow> Inr ip
      | None \<Rightarrow> Inl (BAD_REQUEST, ''invalid IPv4 address '' @ quoted (trim address) @ '': invalid IPv4 address syntax''))"

definition post_vpn_ping ::
    "('h, 'c, 'd, 'l, 'r, 'm, 'w) gateway_env \<Rightarrow> string
       \<Rightarrow> (('h, 'c, 'd, 'l, 'w) app_state, http_error, bool \<times> string option) fallible" where
  "post_vpn_ping G request =
     (case parse_request_address request of
        Inl e \<Rightarrow> fail_with e
      | Inr address \<Rightarrow> on_world (\<lambda>e. (BAD_GATEWAY, e)) (request_vpn_ping (ge_sys G) address))"

section \<open>System\<close>

definition request_system_reboot :: "'w sys_ops \<Rightarrow> ('w, string, string) fallible" where
  "request_system_reboot S w =
     (case exec (so_os S) ''systemctl'' [''--no-block'', ''reboot''] w of
        (Inl err, w) \<Rightarrow> (Inl (''failed to execute systemctl reboot: '' @ err), w)
      | (Inr out, w) \<Rightarrow>
          if po_success out then (Inr ''Reboot requested'', w)
          else (let message = output_message out
                in (Inl (if message = [] then ''systemctl reboot failed'' else message), w)))"

definition request_service_restart :: "'w sys_ops \<Rightarrow> string \<Rightarrow> ('w, string, string) fallible" where
  "request_service_restart S unit w =
     (case exec (so_os S) ''systemctl'' [''--no-block'', ''restart'', unit] w of
        (Inl err, w) \<Rightarrow> (Inl (''failed to execute systemctl restart '' @ unit @ '': '' @ err), w)
      | (Inr out, w) \<Rightarrow>
          if po_success out then (Inr (''Restart requested for '' @ unit), w)
          else (let message = output_message out
                in (Inl (if message = [] then ''systemctl restart '' @ unit @ '' failed'' else message), w)))"

definition post_system_reboot ::
    "('h, 'c, 'd, 'l, 'r, 'm, 'w) gateway_env
       \<Rightarrow> (('h, 'c, 'd, 'l, 'w) app_state, http_error, string) fallible" where
  "post_system_reboot G = on_world (\<lambda>e. (INTERNAL_SERVER_ERROR, e)) (request_system_reboot (ge_sys G))"

definition post_system_service_restart ::
    "('h, 'c, 'd, 'l, 'r, 'm, 'w) gateway_env \<Rightarrow> string
       \<Rightarrow> (('h, 'c, 'd, 'l, 'w) app_state, http_error, string) fallible" where
  "post_system_service_restart G unit =
     (if \<not> is_gateway_service_unit unit then fail_with (BAD_REQUEST, ''unsupported service'')
      else on_world (\<lambda>e. (INTERNAL_SERVER_ERROR, e)) (request_service_restart (ge_sys G) unit))"

definition post_system_codename ::
    "string \<Rightarrow> (('h, 'c, 'd, 'l, 'w) app_state, http_error, string \<times> string) fallible" where
  "post_system_codename request =
     (case normalize_codename request of
        Inl e \<Rightarrow> fail_with (BAD_REQUEST, e)
      | Inr codename \<Rightarrow>
          and_do (lock_settings (INTERNAL_SERVER_ERROR, ''settings lock poisoned'')) (\<lambda>_.
          and_do (on_settings (\<lambda>e. (INTERNAL_SERVER_ERROR, ''failed to save codename: '' @ sql_error_to_string e))
                    (save_codename codename)) (\<lambda>_.
            return_ok (''Codename updated'', codename))))"

section \<open>WiFi\<close>

fun network_error_status :: "network_error \<Rightarrow> nat" where
  "network_error_status (InvalidMode _) = BAD_REQUEST"
| "network_error_status (InvalidAntenna _) = BAD_REQUEST"
| "network_error_status InvalidSsid = BAD_REQUEST"
| "network_error_status InvalidPsk = BAD_REQUEST"
| "network_error_status MissingStaConfig = BAD_REQUEST"
| "network_error_status _ = INTERNAL_SERVER_ERROR"

definition map_network_error :: "network_error \<Rightarrow> http_error" where
  "map_network_error err = (network_error_status err, network_error_to_string err)"

definition post_wifi_mode ::
    "('h, 'c, 'd, 'l, 'r, 'm, 'w) gateway_env \<Rightarrow> string
       \<Rightarrow> (('h, 'c, 'd, 'l, 'w) app_state, http_error, nat) fallible" where
  "post_wifi_mode G form =
     (case wifi_mode_parse form of
        None \<Rightarrow> fail_with (BAD_REQUEST, network_error_to_string (InvalidMode form))
      | Some mode \<Rightarrow>
          and_do (on_world map_network_error (set_wifi_mode (ge_sys G) mode)) (\<lambda>_. return_ok NO_CONTENT))"

definition post_wifi_antenna ::
    "('h, 'c, 'd, 'l, 'r, 'm, 'w) gateway_env \<Rightarrow> string
       \<Rightarrow> (('h, 'c, 'd, 'l, 'w) app_state, http_error, nat) fallible" where
  "post_wifi_antenna G form =
     (case wifi_antenna_parse form of
        None \<Rightarrow> fail_with (BAD_REQUEST, network_error_to_string (InvalidAntenna form))
      | Some antenna \<Rightarrow>
          and_do (on_world map_network_error (set_wifi_antenna (ge_sys G) antenna)) (\<lambda>_. return_ok NO_CONTENT))"

definition post_wifi_connect ::
    "('h, 'c, 'd, 'l, 'r, 'm, 'w) gateway_env \<Rightarrow> string \<Rightarrow> string
       \<Rightarrow> (('h, 'c, 'd, 'l, 'w) app_state, http_error, nat) fallible" where
  "post_wifi_connect G ssid psk =
     and_do (on_world map_network_error (connect_wifi (ge_sys G) ssid psk)) (\<lambda>_. return_ok NO_CONTENT)"

definition get_network_snapshot ::
    "('h, 'c, 'd, 'l, 'r, 'm, 'w) gateway_env
       \<Rightarrow> (('h, 'c, 'd, 'l, 'w) app_state, http_error, network_snapshot) fallible" where
  "get_network_snapshot G = on_world map_network_error (read_network_snapshot (ge_sys G))"

section \<open>Handlers and the VPN\<close>

lemma on_settings_result:
  "on_settings err m s = (r, s') \<Longrightarrow> ap_vpn s' = ap_vpn s \<and> ap_world s' = ap_world s \<and> ap_poisoned s' = ap_poisoned s"
  by (auto simp: on_settings_def split: prod.splits sum.splits)

lemma on_settings_ok:
  "on_settings err m s = (Inr x, s') \<longleftrightarrow> (\<exists>d. m (ap_settings s) = (Inr x, d) \<and> s' = s\<lparr>ap_settings := d\<rparr>)"
  by (auto simp: on_settings_def split: prod.splits sum.splits)

lemma lock_settings_result: "lock_settings err s = (r, s') \<Longrightarrow> s' = s"
  by (auto simp: lock_settings_def split: if_splits)

lemma update_config_result:
  assumes "update_config G change s = (r, s')"
  shows "ap_vpn s' = ap_vpn s" "ap_world s' = ap_world s"
    "r = Inl e \<Longrightarrow> fst e = INTERNAL_SERVER_ERROR"
    "r = Inr () \<Longrightarrow> \<exists>c d. well_sized c \<and> save_config (ge_settings G) (change c) d = (Inr (), ap_settings s')"
proof -
  obtain r1 s1 where 1: "lock_settings (INTERNAL_SERVER_ERROR, ''settings lock poisoned'') s = (r1, s1)" by fastforce
  note l = lock_settings_result [OF 1]
  let ?load = "on_settings (\<lambda>e. (INTERNAL_SERVER_ERROR, ''failed to load config: '' @ sql_error_to_string e))
                 (load_config (ge_settings G))"
  let ?save = "\<lambda>c. on_settings (\<lambda>e. (INTERNAL_SERVER_ERROR, ''failed to save config: '' @ sql_error_to_string e))
                 (save_config (ge_settings G) (change c))"
  obtain r2 s2 where 2: "?load s1 = (r2, s2)" by fastforce
  have run: "update_config G change s =
      (case r1 of Inl e \<Rightarrow> (Inl e, s1) | Inr _ \<Rightarrow> (case r2 of Inl e \<Rightarrow> (Inl e, s2) | Inr c \<Rightarrow> ?save c s2))"
    using 1 2 by (cases r1; cases r2) (simp_all add: update_config_def)
  show "ap_vpn s' = ap_vpn s" "ap_world s' = ap_world s"
    using assms run l on_settings_result [OF 2] by (auto split: sum.splits dest!: on_settings_result)
  show "fst e = INTERNAL_SERVER_ERROR" if "r = Inl e"
    using assms run that 1 2
    by (auto simp: lock_settings_def on_settings_def split: sum.splits if_splits prod.splits)
  show "\<exists>c d. well_sized c \<and> save_config (ge_settings G) (change c) d = (Inr (), ap_settings s')" if "r = Inr ()"
  proof -
    from assms run that obtain c where c: "r2 = Inr c" "?save c s2 = (Inr (), s')"
      by (auto split: sum.splits)
    obtain d1 where "load_config (ge_settings G) (ap_settings s1) = (Inr c, d1)"
      using 2 c(1) by (auto simp: on_settings_ok)
    then have "well_sized c" by (rule load_config_well_sized)
    moreover obtain d where "save_config (ge_settings G) (change c) (ap_settings s2) = (Inr (), d)"
      "s' = s2\<lparr>ap_settings := d\<rparr>" using c(2) by (auto simp: on_settings_ok)
    ultimately show ?thesis by (intro exI [of _ c] exI [of _ "ap_settings s2"]) simp
  qed
qed

lemma distinct_remdups_adj_sorted: "sorted xs \<Longrightarrow> distinct (remdups_adj xs)"
  by (induction xs rule: remdups_adj.induct) (auto simp: less_le)

lemma remdups_adj_sort: "remdups_adj (sort xs) = btree_set xs"
  by (simp add: btree_set_def sorted_distinct_set_unique distinct_remdups_adj_sorted sorted_remdups_adj)

text \<open>What the hash library promises: the displayed form of a hash parses to it.\<close>

definition hex_faithful :: "'h hash_ops \<Rightarrow> bool" where
  "hex_faithful H \<longleftrightarrow> (\<forall>h. h_from_hex H (h_hex H h) = Inr h)"

lemma normalized_hashes:
  assumes "normalize_vpn_peer_hashes H request = Inr hashes"
  obtains hs where "hashes = btree_set (map (h_hex H) hs)"
    "map (\<lambda>p. h_from_hex H (trim p)) request = map Inr hs"
proof -
  from assms obtain ps where ps: "map (normalize_vpn_peer H) request = map Inr ps" "hashes = btree_set ps"
    by (auto simp: normalize_vpn_peer_hashes_def and_then_all_def and_then_Inr remdups_adj_sort
        collect_results_eq_Inr_conv)
  have "\<exists>hs. ps = map (h_hex H) hs \<and> map (\<lambda>p. h_from_hex H (trim p)) request = map Inr hs"
    using ps(1)
  proof (induction request arbitrary: ps)
    case (Cons x xs)
    then obtain q qs where q: "ps = q # qs" "normalize_vpn_peer H x = Inr q" "map (normalize_vpn_peer H) xs = map Inr qs"
      by (cases ps) auto
    from Cons.IH [OF q(3)] obtain hs where
      hs: "qs = map (h_hex H) hs" "map (\<lambda>p. h_from_hex H (trim p)) xs = map Inr hs" by blast
    from q(2) obtain h where "h_from_hex H (trim x) = Inr h" "q = h_hex H h"
      by (auto simp: normalize_vpn_peer_def Let_def split: if_splits sum.splits)
    with q(1) hs show ?case by (intro exI [of _ "h # hs"]) simp
  qed simp
  with ps(2) that show thesis by blast
qed

lemma parse_normalized:
  assumes "hex_faithful H"
  shows "\<exists>allowed. parse_configured_peers H (btree_set (map (h_hex H) hs)) = Inr allowed \<and> set allowed = set hs"
proof -
  have "\<exists>ks. qs = map (h_hex H) ks \<and> set ks \<subseteq> set hs" if "set qs \<subseteq> h_hex H ` set hs" for qs
    using that
  proof (induction qs)
    case (Cons q qs)
    then obtain ks k where "qs = map (h_hex H) ks" "set ks \<subseteq> set hs" "k \<in> set hs" "q = h_hex H k" by auto
    then show ?case by (intro exI [of _ "k # ks"]) simp
  qed simp
  from this [of "btree_set (map (h_hex H) hs)"] obtain ks where
    ks: "btree_set (map (h_hex H) hs) = map (h_hex H) ks" "set ks \<subseteq> set hs" by auto
  have inj: "inj (h_hex H)"
    using assms by (intro injI) (metis hex_faithful_def sum.inject(2))
  have "h_hex H ` set ks = h_hex H ` set hs" using arg_cong [OF ks(1), of set] by simp
  then have "set ks = set hs" by (simp add: inj_image_eq_iff [OF inj])
  moreover have "parse_configured_peers H (map (h_hex H) ks) = Inr (remdups ks)"
    using assms collect_results_Inr [of ks]
    by (simp add: parse_configured_peers_def hex_faithful_def comp_def)
  ultimately show ?thesis using ks(1) by simp
qed

lemma parse_configured_peers_error:
  assumes "p \<in> set ps" "h_from_hex H p = Inl e"
  shows "\<exists>e. parse_configured_peers H ps = Inl e"
proof -
  let ?f = "\<lambda>p. case h_from_hex H p of
      Inl err \<Rightarrow> Inl (Config (''invalid peer '' @ [CHR 0x27] @ p @ [CHR 0x27] @ '': '' @ err)) | Inr h \<Rightarrow> Inr h"
  have "?f p = Inl (Config (''invalid peer '' @ [CHR 0x27] @ p @ [CHR 0x27] @ '': '' @ e))" (is "_ = Inl ?e")
    using assms(2) by simp
  with assms(1) have "Inl ?e \<in> set (map ?f ps)" by (simp add: rev_image_eqI)
  then have "\<exists>e. collect_results (map ?f ps) = Inl e" by (rule collect_results_Inl_ex)
  then show ?thesis by (auto simp: parse_configured_peers_def)
qed

lemma normalize_error: "normalize_vpn_peer_hashes H request = Inl e \<Longrightarrow> fst e = 400"
  by (cases "collect_results (map (normalize_vpn_peer H) request)")
    (auto simp: normalize_vpn_peer_hashes_def and_then_all_def normalize_vpn_peer_def Let_def status_codes
      dest!: collect_results_Inl_in split: if_splits sum.splits)

lemma policy_applied:
  assumes "rt_inv E rt" and "parse_configured_peers (e_hash E) strs = Inr allowed"
    and "replace_peer_policy E now allow_all strs (rt, w) = (r, rt', w')"
  shows "r = Inr ()" "rt_inv E rt'" "allow_all_peers (slow rt') = allow_all" "allowed_peers (slow rt') = allowed"
    "\<not> allow_all \<Longrightarrow> peers_get h (peers rt') \<noteq> None \<longleftrightarrow> h \<in> set allowed \<and> h \<noteq> destination rt"
proof -
  have ri: "reg_inv E rt" using assms(1) by (simp add: rt_inv_def)
  from replace_peer_policy_Inr [OF ri assms(2), of now allow_all w] obtain rt1 where
    e: "replace_peer_policy E now allow_all strs (rt, w) = (Inr (), sync_routes E (rebuild_router E now rt1, w))"
    and g: "\<And>h. peers_get h (peers rt1) = policy_peers E allow_all allowed rt h"
    and f: "allow_all_peers (slow rt1) = allow_all" "allowed_peers (slow rt1) = allowed" by auto
  have s: "sync_routes E (rebuild_router E now rt1, w) = (rt', w')" and r: "r = Inr ()"
    using e assms(3) by simp_all
  have c: "peers rt' = peers rt1" "allow_all_peers (slow rt') = allow_all" "allowed_peers (slow rt') = allowed"
    using sync_core [OF s] f by (simp_all add: same_core_def rebuild_router_def)
  show "r = Inr ()" "allow_all_peers (slow rt') = allow_all" "allowed_peers (slow rt') = allowed"
    using r c by simp_all
  show "rt_inv E rt'" by (rule replace_peer_policy_inv [OF assms(1,3)])
  show "peers_get h (peers rt') \<noteq> None \<longleftrightarrow> h \<in> set allowed \<and> h \<noteq> destination rt" if "\<not> allow_all"
  proof -
    have "peers_get (destination rt) (peers rt) = None"
      using ri by (cases "peers_get (destination rt) (peers rt)") (auto simp: reg_inv_def peer_allowed_iff)
    then show ?thesis using that by (auto simp: c g policy_peers_def split: option.splits)
  qed
qed

end
