(* ===== verification/Gw_Props.thy ===== *)
theory Gw_Props
  imports Gw_Http Vpn_Props
begin

text \<open>
  The properties of the gateway that span its components: the request handlers, the settings and the VPN.
\<close>

section \<open>Properties\<close>

text \<open>
  C26. Changing who may use the VPN is all or nothing towards the running VPN, and what runs is what is
  stored. A refused request (a hash that does not parse, a failing database) leaves the VPN and the system
  alone. An accepted one has stored the flag and the sorted hashes, so that the next start loads them, and
  has given the same policy to the running VPN: with a closed policy its registry holds exactly the listed
  peers. This is for a VPN in a reachable state, and for hashes and configurations that survive their text
  form.
\<close>

theorem vpn_access_consistent:
  assumes run: "put_vpn_access G now allow_all request s = (r, s')"
    and vpn: "ap_vpn s = Some rt" "rt_inv (ge_vpn G) rt"
    and hex: "hex_faithful (e_hash (ge_vpn G))"
    and json: "\<And>c. json_faithful (ge_settings G) c"
  shows "case r of
      Inl (code, msg) \<Rightarrow> code \<in> {400, 500} \<and> ap_vpn s' = Some rt \<and> ap_world s' = ap_world s
    | Inr (msg, flag, hashes) \<Rightarrow>
        (\<exists>rt' c. ap_vpn s' = Some rt' \<and> rt_inv (ge_vpn G) rt' \<and> allow_all_peers (slow rt') = allow_all
           \<and> set hashes = h_hex (e_hash (ge_vpn G)) ` set (allowed_peers (slow rt'))
           \<and> (\<not> allow_all \<longrightarrow> (\<forall>h. peers_get h (peers rt') \<noteq> None \<longleftrightarrow>
                 h \<in> set (allowed_peers (slow rt')) \<and> h \<noteq> destination rt))
           \<and> fst (load_config (ge_settings G) ((ap_settings s')\<lparr>db_faults := []\<rparr>)) = Inr c
           \<and> gc_allow_all_peers c = allow_all \<and> gc_peers c = hashes)"
proof (cases "normalize_vpn_peer_hashes (e_hash (ge_vpn G)) request")
  case (Inl e)
  then have "fst e = 400" by (rule normalize_error)
  with Inl run vpn show ?thesis by (cases e) (auto simp: put_vpn_access_def)
next
  case (Inr hashes)
  let ?change = "\<lambda>c. c\<lparr>gc_allow_all_peers := allow_all, gc_peers := hashes\<rparr>"
  obtain r1 s1 where u: "update_config G ?change s = (r1, s1)" by fastforce
  note same = update_config_result(1,2) [OF u]
  show ?thesis
  proof (cases r1)
    case (Inl e)
    with u run Inr have "r = Inl e" "s' = s1" by (simp_all add: put_vpn_access_def)
    with update_config_result(3) [OF u] Inl same vpn show ?thesis
      by (cases e) (simp add: status_codes)
  next
    case r1: (Inr x)
    obtain hs where hs: "hashes = btree_set (map (h_hex (e_hash (ge_vpn G))) hs)"
      using normalized_hashes [OF Inr] by blast
    obtain allowed where a: "parse_configured_peers (e_hash (ge_vpn G)) hashes = Inr allowed" "set allowed = set hs"
      using parse_normalized [OF hex] hs by blast
    obtain r2 rt' w' where p: "replace_peer_policy (ge_vpn G) now allow_all hashes (rt, ap_world s1) = (r2, rt', w')"
      by (metis prod_cases3)
    note applied = policy_applied [OF vpn(2) a(1) p]
    have s': "s' = s1\<lparr>ap_vpn := Some rt', ap_world := w'\<rparr>" and r: "\<exists>msg. r = Inr (msg, allow_all, hashes)"
      using run u Inr r1 p same(1) vpn(1) applied(1)
      by (auto simp: put_vpn_access_def vpn_set_policy_def)
    obtain c d where c: "well_sized c" "save_config (ge_settings G) (?change c) d = (Inr (), ap_settings s1)"
      using update_config_result(4) [OF u] r1 by auto
    have "well_sized (?change c)" using c(1) by (simp add: well_sized_def)
    from settings_roundtrip [OF c(2) json this]
    have load: "fst (load_config (ge_settings G) ((ap_settings s1)\<lparr>db_faults := []\<rparr>)) = Inr (?change c)"
      using hs by simp
    have "set hashes = h_hex (e_hash (ge_vpn G)) ` set (allowed_peers (slow rt'))"
      using applied(4) a(2) hs by simp
    then have "\<exists>rt' c. ap_vpn s' = Some rt' \<and> rt_inv (ge_vpn G) rt' \<and> allow_all_peers (slow rt') = allow_all
           \<and> set hashes = h_hex (e_hash (ge_vpn G)) ` set (allowed_peers (slow rt'))
           \<and> (\<not> allow_all \<longrightarrow> (\<forall>h. peers_get h (peers rt') \<noteq> None \<longleftrightarrow>
                 h \<in> set (allowed_peers (slow rt')) \<and> h \<noteq> destination rt))
           \<and> fst (load_config (ge_settings G) ((ap_settings s')\<lparr>db_faults := []\<rparr>)) = Inr c
           \<and> gc_allow_all_peers c = allow_all \<and> gc_peers c = hashes"
      using applied(2,3,4,5) load s' by (intro exI [of _ rt'] exI [of _ "?change c"]) simp
    with r show ?thesis by auto
  qed
qed

text \<open>
  C27. Replacing the settings stores them before the VPN checks them: when a peer of the request is no
  hash, the request is answered with an error and the running VPN keeps its policy, but the configuration
  is stored, and with what is stored the VPN does not start any more.
\<close>

theorem invalid_settings_stored:
  assumes run: "put_settings G now c s = (code, s')" and code: "code \<noteq> 500"
    and vpn: "ap_vpn s = Some rt" and bad: "p \<in> set (gc_peers c)" "h_from_hex (e_hash (ge_vpn G)) p = Inl e"
    and form: "json_faithful (ge_settings G) c" "well_sized c"
  shows "code = 400 \<and> ap_vpn s' = Some rt \<and> ap_world s' = ap_world s
    \<and> (\<exists>stored. fst (load_config (ge_settings G) ((ap_settings s')\<lparr>db_faults := []\<rparr>)) = Inr stored
         \<and> (\<forall>now' dest riptun ifs w. \<exists>err.
              fst (start_runtime (ge_vpn G) now'
                \<lparr>cfg_network = gc_network stored, cfg_allow_all_peers = gc_allow_all_peers stored,
                 cfg_peers = gc_peers stored, cfg_advertised_routes = gc_advertised_routes stored,
                 cfg_announce_freq_secs = gc_announce_freq_secs stored\<rparr> dest riptun ifs w) = Inl err))"
proof -
  let ?H = "e_hash (ge_vpn G)"
  obtain r1 s1 where 1: "on_settings (\<lambda>e. e) (save_config (ge_settings G) c) s = (r1, s1)" by fastforce
  have "r1 = Inr ()" using run code 1 by (cases r1) (simp_all add: put_settings_def status_codes)
  with 1 obtain d where d: "save_config (ge_settings G) c (ap_settings s) = (Inr (), d)" "s1 = s\<lparr>ap_settings := d\<rparr>"
    by (auto simp: on_settings_ok)
  obtain e1 where e1: "parse_configured_peers ?H (gc_peers c) = Inl e1"
    using parse_configured_peers_error [OF bad] by blast
  have s': "ap_settings s' = d" "ap_vpn s' = Some rt" "ap_world s' = ap_world s" "code = 400"
    using run 1 \<open>r1 = Inr ()\<close> d(2) vpn e1
    by (auto simp: put_settings_def vpn_set_policy_def replace_peer_policy_def status_codes)
  obtain e2 where e2: "parse_configured_peers ?H (btree_set (gc_peers c)) = Inl e2"
    using parse_configured_peers_error [of p "btree_set (gc_peers c)", OF _ bad(2)] bad(1) by auto
  have load: "fst (load_config (ge_settings G) ((ap_settings s')\<lparr>db_faults := []\<rparr>)) = Inr (c\<lparr>gc_peers := btree_set (gc_peers c)\<rparr>)"
    using settings_roundtrip [OF d(1) form] s' by simp
  have "\<exists>err. fst (start_runtime (ge_vpn G) now' (\<lparr>cfg_network = n, cfg_allow_all_peers = a,
      cfg_peers = btree_set (gc_peers c), cfg_advertised_routes = rs, cfg_announce_freq_secs = f\<rparr>) dest riptun ifs w) = Inl err"
    for now' n a rs f dest riptun ifs w
    using e2 by (simp add: start_runtime_def split: sum.split)
  with load s' show ?thesis
    by (intro conjI exI [of _ "c\<lparr>gc_peers := btree_set (gc_peers c)\<rparr>"]) simp_all
qed

section \<open>Instances\<close>

text \<open>
  A gateway whose VPN is the started example of the VPN, with hashes that are displayed with a leading
  \<open>x\<close>, and whose database is empty.
\<close>

definition gw_hash :: "string hash_ops" where
  "gw_hash = \<lparr>h_bytes = (\<lambda>s. s), h_hex = (\<lambda>s. CHR ''x'' # s),
     h_from_hex = (\<lambda>s. case s of [] \<Rightarrow> Inl ''empty'' | c # t \<Rightarrow> Inr t)\<rparr>"

definition gw_env :: "(string, cidr4, string, unit, string, string, kernel_state) gateway_env" where
  "gw_env =
     \<lparr>ge_vpn = wit_env\<lparr>e_hash := gw_hash\<rparr>, ge_settings = plain_env,
      ge_sys = \<lparr>so_os = ks_os, so_env = (\<lambda>_. None), so_read_file = (\<lambda>p w. Inl ''not found''),
        so_exists = (\<lambda>p w. False), so_write_file = (\<lambda>p t w. (Inr (), w)),
        so_create_dir_all = (\<lambda>p w. (Inr (), w)), so_remove_file = (\<lambda>p w. (Inr (), w)),
        so_rename = (\<lambda>p q w. (Inr (), w)), so_set_mode = (\<lambda>p m w. (Inr (), w)),
        so_canonicalize = (\<lambda>p w. Some p), so_debug_path = (\<lambda>p. p)\<rparr>,
      ge_interfaces = (\<lambda>w. Inr []), ge_radio = None, ge_tx_observer = None, ge_frame_size = 2048\<rparr>"

definition gw_start :: "(string, cidr4, string, unit, kernel_state) app_state" where
  "gw_start = \<lparr>ap_settings = empty_database, ap_poisoned = False, ap_vpn = Some wit_rt, ap_world = wit_kernel\<rparr>"

lemma gw_hash_derive: "derive_tunnel_ip C gw_hash n h = derive_tunnel_ip C wit_hash n h"
proof -
  have "h_bytes gw_hash = h_bytes wit_hash" by (simp add: gw_hash_def wit_hash_def)
  then have "tunnel_seed gw_hash h = tunnel_seed wit_hash h" by (simp add: tunnel_seed_def)
  then show ?thesis by (simp add: derive_tunnel_ip_def split: sum.split)
qed

lemma gw_rt_inv: "rt_inv (ge_vpn gw_env) wit_rt"
  using wit_rt_inv by (simp add: rt_inv_def reg_inv_def router_fresh_def gw_env_def gw_hash_derive)

lemma gw_hex: "hex_faithful (e_hash (ge_vpn gw_env))"
  by (simp add: hex_faithful_def gw_env_def gw_hash_def)

theorem vpn_access_consistent_witness:
  "case put_vpn_access gw_env 9 False [''xC''] gw_start of (r, s') \<Rightarrow>
     (case r of
        Inl (code, msg) \<Rightarrow> code \<in> {400, 500} \<and> ap_vpn s' = Some wit_rt
      | Inr (msg, flag, hashes) \<Rightarrow> \<exists>rt'. ap_vpn s' = Some rt' \<and> rt_inv (ge_vpn gw_env) rt')"
proof -
  obtain r s' where run: "put_vpn_access gw_env 9 False [''xC''] gw_start = (r, s')" by fastforce
  have "ap_vpn gw_start = Some wit_rt" "\<And>c. json_faithful (ge_settings gw_env) c"
    by (simp_all add: gw_start_def gw_env_def plain_env_faithful)
  from vpn_access_consistent [OF run this(1) gw_rt_inv gw_hex this(2)]
  show ?thesis unfolding run by (auto split: sum.splits prod.splits)
qed

theorem invalid_settings_stored_witness:
  "fst (put_settings gw_env 9 (plain_config\<lparr>gc_peers := [[]]\<rparr>) gw_start) = 400"
proof -
  let ?c = "plain_config\<lparr>gc_peers := [[]]\<rparr>"
  obtain code s' where run: "put_settings gw_env 9 ?c gw_start = (code, s')" by fastforce
  obtain d where d: "save_config plain_env ?c empty_database = (Inr (), d)"
    using faultless_save_config [of plain_env ?c, unfolded faultless_def, rule_format, of empty_database]
    by (auto simp: empty_database_def)
  have code: "code \<noteq> 500"
    using run d
    by (auto simp: put_settings_def on_settings_def gw_start_def gw_env_def status_codes split: prod.splits sum.splits)
  have vpn: "ap_vpn gw_start = Some wit_rt" by (simp add: gw_start_def)
  have bad: "[] \<in> set (gc_peers ?c)" "h_from_hex (e_hash (ge_vpn gw_env)) [] = Inl ''empty''"
    by (simp_all add: gw_env_def gw_hash_def)
  have form: "json_faithful (ge_settings gw_env) ?c" "well_sized ?c"
    by (simp_all add: gw_env_def plain_env_faithful well_sized_def plain_config_def)
  from invalid_settings_stored [OF run code vpn bad form] run show ?thesis by simp
qed

end
