(* ===== verification/Gw_Web.thy ===== *)
theory Gw_Web
  imports Gw_System
begin

text \<open>
  The requests that the gateway passes to the plugin installer, the upgrade of the installer's binary
  (\<open>kaonic-gateway/src/http/installer.rs\<close>, the Linux variant) and the redirection to HTTPS
  (\<open>http/mod.rs\<close>). The HTTP client is the parameter \<open>http_client\<close>; \<open>js\<close> quotes a string as JSON
  (\<open>serde_json\<close>). The body of a request is what its stream gives: an error or bytes.
\<close>

section \<open>Requests to the installer\<close>

definition INSTALLER_SERVICE :: string where "INSTALLER_SERVICE = ''kaonic-installer.service''"
definition INSTALLER_BINARY_PATH :: string where "INSTALLER_BINARY_PATH = ''/usr/bin/kaonic-installer''"
definition MAX_INSTALLER_BINARY_BYTES :: nat where "MAX_INSTALLER_BINARY_BYTES = 64 * 1024 * 1024"
definition UPDATE_BASE :: string where "UPDATE_BASE = ''http://127.0.0.1:8682''"

text \<open>
  A request with its method, its URL, its content type and its body, and what comes back: an error of the
  transport, or the status and the text of the answer, if it can be read.
\<close>

record http_request =
  hr_method :: string
  hr_url :: string
  hr_content_type :: "string option"
  hr_body :: "bytes option"

record 'w http_client =
  hc_send :: "http_request \<Rightarrow> 'w \<Rightarrow> (string + nat \<times> string option) \<times> 'w"

type_synonym response = "nat \<times> string"

text \<open>\<open>axum::body::to_bytes\<close> with a limit.\<close>

definition to_bytes :: "nat \<Rightarrow> string + bytes \<Rightarrow> string + bytes" where
  "to_bytes limit stream =
     and_then stream (\<lambda>b. if length b > limit then Inl ''length limit exceeded'' else Inr b)"

definition answer :: "'w http_client \<Rightarrow> http_request \<Rightarrow> 'w \<Rightarrow> response \<times> 'w" where
  "answer H req w =
     (case hc_send H req w of
        (Inr (code, text), w) \<Rightarrow>
          ((if 100 \<le> code \<and> code \<le> 999 then code else INTERNAL_SERVER_ERROR,
            case text of Some t \<Rightarrow> t | None \<Rightarrow> []), w)
      | (Inl e, w) \<Rightarrow>
          ((BAD_GATEWAY, ''{'' @ [CHR 0x22] @ ''detail'' @ [CHR 0x22] @ '':'' @ [CHR 0x22]
             @ ''kaonic-installer unreachable: '' @ e @ [CHR 0x22] @ ''}''), w))"

definition proxy_get :: "'w http_client \<Rightarrow> string \<Rightarrow> 'w \<Rightarrow> response \<times> 'w" where
  "proxy_get H url = answer H \<lparr>hr_method = ''GET'', hr_url = url, hr_content_type = None, hr_body = None\<rparr>"

text \<open>The content type and the body of the request that is passed on, if there is one.\<close>

definition proxy_request ::
    "'w http_client \<Rightarrow> string \<Rightarrow> string \<Rightarrow> (string option \<times> (string + bytes)) option \<Rightarrow> 'w \<Rightarrow> response \<times> 'w" where
  "proxy_request H method url req w =
     (case req of
        None \<Rightarrow> answer H \<lparr>hr_method = method, hr_url = url, hr_content_type = None, hr_body = None\<rparr> w
      | Some (content_type, stream) \<Rightarrow>
          (case stream of
             Inl err \<Rightarrow> ((BAD_REQUEST, ''failed to read body: '' @ err), w)
           | Inr b \<Rightarrow>
               answer H \<lparr>hr_method = method, hr_url = url, hr_content_type = content_type, hr_body = Some b\<rparr> w))"

definition list_plugins :: "'w http_client \<Rightarrow> 'w \<Rightarrow> response \<times> 'w" where
  "list_plugins H = proxy_get H (UPDATE_BASE @ ''/api/plugins'')"

definition installer_version :: "'w http_client \<Rightarrow> 'w \<Rightarrow> response \<times> 'w" where
  "installer_version H = proxy_get H (UPDATE_BASE @ ''/api/plugins/installer-version'')"

definition install_plugin :: "'w http_client \<Rightarrow> string option \<times> (string + bytes) \<Rightarrow> 'w \<Rightarrow> response \<times> 'w" where
  "install_plugin H req = proxy_request H ''POST'' (UPDATE_BASE @ ''/api/plugins/install'') (Some req)"

definition upload_plugin :: "'w http_client \<Rightarrow> string \<Rightarrow> string option \<times> (string + bytes) \<Rightarrow> 'w \<Rightarrow> response \<times> 'w" where
  "upload_plugin H plugin_id req =
     proxy_request H ''POST'' (UPDATE_BASE @ ''/api/plugins/'' @ plugin_id @ ''/upload'') (Some req)"

definition installer_start_plugin :: "'w http_client \<Rightarrow> string \<Rightarrow> 'w \<Rightarrow> response \<times> 'w" where
  "installer_start_plugin H plugin_id = proxy_request H ''POST'' (UPDATE_BASE @ ''/api/plugins/'' @ plugin_id @ ''/start'') None"

definition stop_plugin :: "'w http_client \<Rightarrow> string \<Rightarrow> 'w \<Rightarrow> response \<times> 'w" where
  "stop_plugin H plugin_id = proxy_request H ''POST'' (UPDATE_BASE @ ''/api/plugins/'' @ plugin_id @ ''/stop'') None"

definition restart_plugin :: "'w http_client \<Rightarrow> string \<Rightarrow> 'w \<Rightarrow> response \<times> 'w" where
  "restart_plugin H plugin_id = proxy_request H ''POST'' (UPDATE_BASE @ ''/api/plugins/'' @ plugin_id @ ''/restart'') None"

definition delete_plugin :: "'w http_client \<Rightarrow> string \<Rightarrow> 'w \<Rightarrow> response \<times> 'w" where
  "delete_plugin H plugin_id = proxy_request H ''DELETE'' (UPDATE_BASE @ ''/api/plugins/'' @ plugin_id) None"

section \<open>Upgrading the installer\<close>

definition run_systemctl :: "'w sys_ops \<Rightarrow> string \<Rightarrow> string \<Rightarrow> ('w, string) action" where
  "run_systemctl S verb unit w =
     (case exec (so_os S) ''systemctl'' [verb, unit] w of
        (Inl e, w) \<Rightarrow> (Inl (''failed to execute systemctl '' @ verb @ '' '' @ unit @ '': '' @ e), w)
      | (Inr out, w) \<Rightarrow>
          if po_success out then (Inr (), w)
          else (let message = output_message out in
                (Inl (if message = [] then ''systemctl '' @ verb @ '' '' @ unit @ '' failed'' else message), w)))"

definition make_executable :: "'w sys_ops \<Rightarrow> string \<Rightarrow> ('w, string) action" where
  "make_executable S path w =
     map_err (\<lambda>e. case e of
         Inl err \<Rightarrow> ''read permissions for '' @ path @ '': '' @ err
       | Inr err \<Rightarrow> ''set executable permissions for '' @ path @ '': '' @ err) (so_set_mode S path 0x1ED w)"

definition installer_target :: "'w sys_ops \<Rightarrow> 'w \<Rightarrow> string" where
  "installer_target S w = (case so_canonicalize S INSTALLER_BINARY_PATH w of Some p \<Rightarrow> p | None \<Rightarrow> INSTALLER_BINARY_PATH)"

definition installer_temp :: "string \<Rightarrow> string" where
  "installer_temp parent = path_join parent ''.kaonic-installer.upgrade.tmp''"

text \<open>Giving up: the temporary file is removed and the error returned.\<close>

definition discard :: "'w sys_ops \<Rightarrow> string \<Rightarrow> string \<Rightarrow> 'w \<Rightarrow> (string + 'a) \<times> 'w" where
  "discard S temp_path err w = (Inl err, snd (so_remove_file S temp_path w))"

definition swap_binary :: "'w sys_ops \<Rightarrow> string \<Rightarrow> string \<Rightarrow> 'w \<Rightarrow> (string + string) \<times> 'w" where
  "swap_binary S temp_path target_path w =
     (case run_systemctl S ''stop'' INSTALLER_SERVICE w of
        (Inl err, w) \<Rightarrow> discard S temp_path err w
      | (Inr _, w) \<Rightarrow>
          (case so_rename S temp_path target_path w of
             (Inl rename_err, w) \<Rightarrow>
               discard S temp_path (''replace installer binary '' @ target_path @ '': '' @ rename_err)
                 (snd (run_systemctl S ''start'' INSTALLER_SERVICE w))
           | (Inr _, w) \<Rightarrow>
               and_do (run_systemctl S ''start'' INSTALLER_SERVICE) (\<lambda>_. return_ok ''kaonic-installer binary upgraded.'') w))"

definition replace_installer_binary :: "'w sys_ops \<Rightarrow> bytes \<Rightarrow> 'w \<Rightarrow> (string + string) \<times> 'w" where
  "replace_installer_binary S binary w =
     (let target_path = installer_target S w in
      case path_parent target_path of
        None \<Rightarrow> (Inl (''installer binary path has no parent: '' @ target_path), w)
      | Some parent \<Rightarrow>
          (let temp_path = installer_temp parent in
           case so_write_file S temp_path binary w of
             (Inl e, w) \<Rightarrow> (Inl (''write replacement installer binary: '' @ e), w)
           | (Inr _, w) \<Rightarrow>
               (case make_executable S temp_path w of
                  (Inl err, w) \<Rightarrow> discard S temp_path err w
                | (Inr _, w) \<Rightarrow> swap_binary S temp_path target_path w)))"

definition json_detail :: "(string \<Rightarrow> string) \<Rightarrow> string \<Rightarrow> string" where
  "json_detail js detail = ''{'' @ js ''detail'' @ '':'' @ js detail @ ''}''"

definition OK :: nat where "OK = 200"

definition upgrade_installer_binary ::
    "'w sys_ops \<Rightarrow> (string \<Rightarrow> string) \<Rightarrow> string + bytes \<Rightarrow> 'w \<Rightarrow> response \<times> 'w" where
  "upgrade_installer_binary S js stream w =
     (case to_bytes MAX_INSTALLER_BINARY_BYTES stream of
        Inl err \<Rightarrow> ((BAD_REQUEST, json_detail js (''failed to read replacement binary: '' @ err)), w)
      | Inr b \<Rightarrow>
          if b = [] then ((BAD_REQUEST, json_detail js ''replacement binary is empty''), w)
          else (case replace_installer_binary S b w of
                  (Inr detail, w) \<Rightarrow> ((OK, json_detail js detail), w)
                | (Inl detail, w) \<Rightarrow> ((INTERNAL_SERVER_ERROR, json_detail js detail), w)))"

section \<open>Redirection to HTTPS\<close>

definition strip_port :: "string \<Rightarrow> string" where
  "strip_port host =
     (if starts_with ''['' host then
        (case str_find '']'' host of Some i \<Rightarrow> take (i + 1) host | None \<Rightarrow> host)
      else if length (filter (\<lambda>c. c = CHR '':'') host) = 1 then hd (split_on CHR '':'' host)
      else host)"

text \<open>\<open>Display\<close> of an IPv6 address: the first longest run of at least two zero groups is compressed.\<close>

definition ipv6_segments :: "128 word \<Rightarrow> nat list" where
  "ipv6_segments a = map (\<lambda>i. unat a div 2 ^ (112 - 16 * i) mod 65536) [0..<8]"

fun longest_zeros :: "nat \<Rightarrow> nat list \<Rightarrow> nat \<times> nat \<Rightarrow> nat \<times> nat \<Rightarrow> nat \<times> nat" where
  "longest_zeros i [] cur best = best"
| "longest_zeros i (s # ss) (start, len) best =
     (if s = 0 then
        (let cur = (if len = 0 then i else start, len + 1)
         in longest_zeros (i + 1) ss cur (if snd cur > snd best then cur else best))
      else longest_zeros (i + 1) ss (0, 0) best)"

definition ipv6_to_string :: "128 word \<Rightarrow> string" where
  "ipv6_to_string a =
     (let ss = ipv6_segments a in
      if take 6 ss = [0, 0, 0, 0, 0, 65535] then ''::ffff:'' @ ipv4_to_string (ucast a)
      else (case longest_zeros 0 ss (0, 0) (0, 0) of
              (start, len) \<Rightarrow>
                if len > 1
                then join_with '':'' (map hex_str (take start ss)) @ ''::''
                     @ join_with '':'' (map hex_str (drop (start + len) ss))
                else join_with '':'' (map hex_str ss)))"

fun ip_to_string :: "ip_addr \<Rightarrow> string" where
  "ip_to_string (V4 a) = ipv4_to_string a"
| "ip_to_string (V6 a) = ipv6_to_string a"

definition https_authority :: "string option \<Rightarrow> ip_addr \<Rightarrow> nat \<Rightarrow> string" where
  "https_authority host https_ip https_port =
     (let normalized = strip_port (case host of Some h \<Rightarrow> h | None \<Rightarrow> ip_to_string https_ip)
      in if https_port = 443 then normalized else normalized @ '':'' @ dec_str https_port)"

definition redirect_to_https :: "string option \<Rightarrow> string \<Rightarrow> ip_addr \<Rightarrow> nat \<Rightarrow> string" where
  "redirect_to_https host uri https_ip https_port = ''https://'' @ https_authority host https_ip https_port @ uri"

section \<open>What files and processes document\<close>

text \<open>
  \<open>content\<close> is what a path holds and \<open>calls\<close> the processes that ran: a write, a removal and a renaming
  change only the paths they name, a renaming all at once or not at all, and processes change no file.
\<close>

definition file_laws ::
    "'w sys_ops \<Rightarrow> (string \<Rightarrow> 'w \<Rightarrow> bytes option) \<Rightarrow> ('w \<Rightarrow> (string \<times> string list) list) \<Rightarrow> bool" where
  "file_laws S content calls \<longleftrightarrow>
     (\<forall>p t w r w'. so_write_file S p t w = (r, w') \<longrightarrow>
        (r = Inr () \<longrightarrow> content p w' = Some t) \<and> (\<forall>q. q \<noteq> p \<longrightarrow> content q w' = content q w) \<and> calls w' = calls w)
   \<and> (\<forall>p m w r w'. so_set_mode S p m w = (r, w') \<longrightarrow> (\<forall>q. content q w' = content q w) \<and> calls w' = calls w)
   \<and> (\<forall>p w r w'. so_remove_file S p w = (r, w') \<longrightarrow> (\<forall>q. q \<noteq> p \<longrightarrow> content q w' = content q w) \<and> calls w' = calls w)
   \<and> (\<forall>p q w r w'. so_rename S p q w = (r, w') \<longrightarrow>
        (r = Inr () \<longrightarrow> content q w' = content p w) \<and> (\<forall>e. r = Inl e \<longrightarrow> content q w' = content q w)
        \<and> (\<forall>x. x \<noteq> p \<longrightarrow> x \<noteq> q \<longrightarrow> content x w' = content x w) \<and> calls w' = calls w)
   \<and> (\<forall>c args w r w'. exec (so_os S) c args w = (r, w') \<longrightarrow>
        (\<forall>q. content q w' = content q w) \<and> calls w' = calls w @ [(c, args)])"

section \<open>Lemmas\<close>

lemma run_systemctl_effect:
  assumes "file_laws S content calls" "run_systemctl S verb unit w = (r, w')"
  shows "content q w' = content q w" "calls w' = calls w @ [(''systemctl'', [verb, unit])]"
  using assms by (auto simp: run_systemctl_def file_laws_def Let_def split: prod.splits sum.splits if_splits)

lemma discard_effect:
  assumes "file_laws S content calls" "discard S temp err w = (r, w')"
  shows "r = Inl err" "q \<noteq> temp \<Longrightarrow> content q w' = content q w" "calls w' = calls w"
  using assms by (cases "so_remove_file S temp w"; auto simp: discard_def file_laws_def)+

lemma rename_effect:
  assumes "file_laws S content calls" "so_rename S p q w = (r, w')"
  shows "r = Inr () \<Longrightarrow> content q w' = content p w" "r = Inl e \<Longrightarrow> content q w' = content q w"
    "x \<noteq> p \<Longrightarrow> x \<noteq> q \<Longrightarrow> content x w' = content x w" "calls w' = calls w"
  using assms unfolding file_laws_def by metis+

lemma write_effect:
  assumes "file_laws S content calls" "so_write_file S p t w = (r, w')"
  shows "r = Inr () \<longrightarrow> content p w' = Some t" "q \<noteq> p \<Longrightarrow> content q w' = content q w" "calls w' = calls w"
  using assms unfolding file_laws_def by metis+

lemma make_executable_effect:
  assumes "file_laws S content calls" "make_executable S p w = (r, w')"
  shows "content q w' = content q w" "calls w' = calls w"
  using assms by (cases "so_set_mode S p 0x1ED w"; cases "fst (so_set_mode S p 0x1ED w)";
      auto simp: make_executable_def file_laws_def)+

definition installer_calls :: "string list \<Rightarrow> (string \<times> string list) list" where
  "installer_calls verbs = map (\<lambda>v. (''systemctl'', [v, ''kaonic-installer.service''])) verbs"

text \<open>What the end of an upgrade may be: the state of the target, of the other files and of the service.\<close>

definition upgrade_outcome ::
    "(string \<Rightarrow> 'w \<Rightarrow> bytes option) \<Rightarrow> ('w \<Rightarrow> (string \<times> string list) list) \<Rightarrow> string \<Rightarrow> string \<Rightarrow> bytes \<Rightarrow> 'w \<Rightarrow> bool \<Rightarrow> 'w \<Rightarrow> bool" where
  "upgrade_outcome content calls target temp binary w succeeded w' \<longleftrightarrow>
     (\<forall>q. q \<noteq> target \<longrightarrow> q \<noteq> temp \<longrightarrow> content q w' = content q w)
   \<and> (if content target w' = content target w then
        \<exists>verbs. verbs \<in> {[], [''stop''], [''stop'', ''start'']} \<and> calls w' = calls w @ installer_calls verbs
          \<and> (succeeded \<longrightarrow> content target w' = Some binary \<and> verbs = [''stop'', ''start''])
      else content target w' = Some binary \<and> calls w' = calls w @ installer_calls [''stop'', ''start''])"

lemma upgrade_outcome_start:
  assumes "upgrade_outcome content calls target temp binary w2 succeeded w'"
    and "\<And>q. q \<noteq> temp \<Longrightarrow> content q w2 = content q w" "calls w2 = calls w" "temp \<noteq> target"
  shows "upgrade_outcome content calls target temp binary w succeeded w'"
proof -
  have "content target w2 = content target w" using assms(2,4) by simp
  note rest = assms(1) [unfolded upgrade_outcome_def this assms(3), THEN conjunct2]
  have "\<forall>q. q \<noteq> target \<longrightarrow> q \<noteq> temp \<longrightarrow> content q w' = content q w"
    using assms(1,2) by (simp add: upgrade_outcome_def)
  from this rest show ?thesis unfolding upgrade_outcome_def by (rule conjI)
qed

lemma swap_binary_outcome:
  assumes laws: "file_laws S content calls" and temp: "temp \<noteq> target" "content temp w = Some binary"
    and run: "swap_binary S temp target w = (r, w')"
  shows "upgrade_outcome content calls target temp binary w (is_ok r) w'"
proof -
  obtain r1 w1 where stop: "run_systemctl S ''stop'' INSTALLER_SERVICE w = (r1, w1)" by fastforce
  note 1 = run_systemctl_effect [OF laws stop]
  show ?thesis
  proof (cases r1)
    case (Inl e)
    with run stop have "discard S temp e w1 = (r, w')" by (simp add: swap_binary_def)
    note 2 = discard_effect [OF laws this]
    show ?thesis using 1 2 temp(1)
      by (auto simp: upgrade_outcome_def installer_calls_def INSTALLER_SERVICE_def intro!: exI [of _ "[''stop'']"])
  next
    case ok: (Inr u)
    obtain r2 w2 where rename: "so_rename S temp target w1 = (r2, w2)" by fastforce
    obtain r3 w3 where start: "run_systemctl S ''start'' INSTALLER_SERVICE w2 = (r3, w3)" by fastforce
    note 2 = rename_effect [OF laws rename] and 3 = run_systemctl_effect [OF laws start]
    show ?thesis
    proof (cases r2)
      case (Inl e)
      with run stop ok rename start have "discard S temp (''replace installer binary '' @ target @ '': '' @ e) w3 = (r, w')"
        by (simp add: swap_binary_def)
      note 4 = discard_effect [OF laws this]
      show ?thesis using 1 2(2) [OF Inl] 2(3,4) 3 4 temp(1)
        by (auto simp: upgrade_outcome_def installer_calls_def INSTALLER_SERVICE_def intro!: exI [of _ "[''stop'', ''start'']"])
    next
      case Inr: (Inr v)
      then have "r2 = Inr ()" by simp
      note content = 2(1) [OF this]
      from Inr run stop ok rename start have "w' = w3" by (auto simp: swap_binary_def and_do_def split: sum.splits)
      then show ?thesis using 1 content 2(3,4) 3 temp
        by (auto simp: upgrade_outcome_def installer_calls_def INSTALLER_SERVICE_def intro!: exI [of _ "[''stop'', ''start'']"])
    qed
  qed
qed

lemma replace_outcome:
  assumes laws: "file_laws S content calls"
    and parent: "path_parent (installer_target S w) = Some parent"
    and temp: "installer_temp parent \<noteq> installer_target S w"
    and run: "replace_installer_binary S binary w = (r, w')"
  shows "upgrade_outcome content calls (installer_target S w) (installer_temp parent) binary w (is_ok r) w'"
proof -
  let ?target = "installer_target S w" and ?temp = "installer_temp parent"
  obtain r1 w1 where "write": "so_write_file S ?temp binary w = (r1, w1)" by fastforce
  note 1 = write_effect [OF laws "write"]
  show ?thesis
  proof (cases r1)
    case (Inl e)
    with run "write" parent have "w' = w1" "\<not> is_ok r" by (auto simp: replace_installer_binary_def Let_def)
    with 1 temp show ?thesis by (simp add: upgrade_outcome_def installer_calls_def)
  next
    case ok: (Inr u)
    obtain r2 w2 where chmod: "make_executable S ?temp w1 = (r2, w2)" by fastforce
    note 2 = make_executable_effect [OF laws chmod]
    show ?thesis
    proof (cases r2)
      case (Inl e)
      with run "write" parent ok chmod have "discard S ?temp e w2 = (r, w')" by (simp add: replace_installer_binary_def Let_def)
      note 3 = discard_effect [OF laws this]
      show ?thesis using 1 2 3 temp by (simp add: upgrade_outcome_def installer_calls_def)
    next
      case (Inr v)
      with run "write" parent ok chmod have "swap_binary S ?temp ?target w2 = (r, w')"
        by (simp add: replace_installer_binary_def Let_def)
      from swap_binary_outcome [OF laws temp _ this] 1(1) 2(1) ok
      have "upgrade_outcome content calls ?target ?temp binary w2 (is_ok r) w'" by simp
      from upgrade_outcome_start [OF this _ _ temp] 1(2,3) 2 show ?thesis by simp
    qed
  qed
qed

section \<open>Properties\<close>


section \<open>Instance\<close>

text \<open>Files and a list of the processes that ran, all of which succeed.\<close>

definition disk_sys :: "((string \<Rightarrow> bytes option) \<times> (string \<times> string list) list) sys_ops" where
  "disk_sys =
     \<lparr>so_os = \<lparr>exec = (\<lambda>p a (fs, ps). (Inr \<lparr>po_success = True, po_stdout = [], po_stderr = []\<rparr>, (fs, ps @ [(p, a)])))\<rparr>,
      so_env = (\<lambda>_. None),
      so_read_file = (\<lambda>p (fs, ps). case fs p of None \<Rightarrow> Inl ''not found'' | Some t \<Rightarrow> Inr t),
      so_exists = (\<lambda>p (fs, ps). fs p \<noteq> None),
      so_write_file = (\<lambda>p t (fs, ps). (Inr (), (fs(p \<mapsto> t), ps))),
      so_create_dir_all = (\<lambda>p w. (Inr (), w)),
      so_remove_file = (\<lambda>p (fs, ps). (Inr (), (fs(p := None), ps))),
      so_rename = (\<lambda>p q (fs, ps). (Inr (), ((fs(p := None))(q := fs p), ps))),
      so_set_mode = (\<lambda>p m w. (Inr (), w)),
      so_canonicalize = (\<lambda>p w. None),
      so_debug_path = (\<lambda>p. p)\<rparr>"


end
