(* ===== verification/Gw_Frames.thy ===== *)
theory Gw_Frames
  imports Gw_System
begin

text \<open>
  The frame monitor of the gateway: the task in \<open>main.rs\<close> that listens to the radio client and to the
  observer of transmissions, the ring buffers and counters it fills (\<open>state.rs\<close>), and the readings of them in
  \<open>http/handlers.rs\<close> and \<open>http/ws.rs\<close>. A run is the sequence of what the task and the requests meet;
  the CRC of a frame is the parameter \<open>crc32\<close>, clock readings come with the events. The radio numbers its
  modules; whatever is not module 0 counts as module 1.
\<close>

definition RX_BUF_SIZE :: nat where "RX_BUF_SIZE = 256"

record rx_frame_dto =
  rxf_module :: nat
  rxf_direction :: string
  rxf_rssi :: "8 word"
  rxf_len :: nat
  rxf_hex :: string
  rxf_ascii :: string
  rxf_crc32 :: string
  rxf_ts :: nat

record frame_stats_dto =
  fsd_rx_frames :: nat
  fsd_rx_bytes :: nat
  fsd_rx_bps :: nat
  fsd_tx_frames :: nat
  fsd_tx_bytes :: nat
  fsd_tx_bps :: nat
  fsd_last_rssi :: "8 word option"

record ws_radio_frames =
  wrf_module :: nat
  wrf_frames :: "rx_frame_dto list"
  wrf_stats :: frame_stats_dto

section \<open>Previews\<close>

definition frame_preview :: "bytes \<Rightarrow> string" where
  "frame_preview data = join_with '' '' (map hex2 (take 16 data))"

definition frame_ascii_preview :: "bytes \<Rightarrow> string" where
  "frame_ascii_preview data = map (\<lambda>b. if byte_in 0x20 0x7E b then b else CHR ''.'') (take 16 data)"

definition hex8 :: "32 word \<Rightarrow> string" where
  "hex8 w = (let s = hex_str (unat w) in replicate (8 - length s) (CHR ''0'') @ s)"

definition frame_crc32 :: "(bytes \<Rightarrow> 32 word) \<Rightarrow> bytes \<Rightarrow> string" where
  "frame_crc32 crc32 data = hex8 (crc32 data)"

section \<open>State and readings\<close>

record frame_monitor =
  fm_rx_buffers :: "rx_frame_dto list list"
  fm_frame_stats :: "frame_stats list"
  fm_sent :: "ws_radio_frames list"
  fm_running :: bool

definition frame_monitor_new :: frame_monitor where
  "frame_monitor_new =
     \<lparr>fm_rx_buffers = [[], []], fm_frame_stats = [default_frame_stats, default_frame_stats],
      fm_sent = [], fm_running = True\<rparr>"

definition build_frame_stats :: "nat \<Rightarrow> nat \<Rightarrow> frame_monitor \<Rightarrow> frame_stats_dto \<times> frame_monitor" where
  "build_frame_stats now n m =
     (let i = min n 1;
          st = fm_frame_stats m ! i
      in case frame_rates now (fs_rx_bytes st) (fs_tx_bytes st) (fs_rate st) of
           ((rx_bps, tx_bps), rate) \<Rightarrow>
             (\<lparr>fsd_rx_frames = fs_rx_frames st, fsd_rx_bytes = fs_rx_bytes st, fsd_rx_bps = rx_bps,
               fsd_tx_frames = fs_tx_frames st, fsd_tx_bytes = fs_tx_bytes st, fsd_tx_bps = tx_bps,
               fsd_last_rssi = (if fs_rx_frames st > 0 then Some (word_of_int (fs_last_rssi st)) else None)\<rparr>,
              m\<lparr>fm_frame_stats := (fm_frame_stats m)[i := st\<lparr>fs_rate := rate\<rparr>]\<rparr>))"

definition build_all_frame_stats ::
    "nat \<Rightarrow> nat \<Rightarrow> frame_monitor \<Rightarrow> (frame_stats_dto \<times> frame_stats_dto) \<times> frame_monitor" where
  "build_all_frame_stats now now' m =
     (case build_frame_stats now 0 m of
        (a, m) \<Rightarrow> (case build_frame_stats now' 1 m of (b, m) \<Rightarrow> ((a, b), m)))"

definition build_radio_frames :: "nat \<Rightarrow> frame_monitor \<Rightarrow> rx_frame_dto list" where
  "build_radio_frames n m = fm_rx_buffers m ! min n 1"

definition build_all_radio_frames :: "frame_monitor \<Rightarrow> rx_frame_dto list \<times> rx_frame_dto list" where
  "build_all_radio_frames m = (build_radio_frames 0 m, build_radio_frames 1 m)"

definition publish_radio_frames ::
    "nat \<Rightarrow> rx_frame_dto list \<Rightarrow> frame_stats_dto \<Rightarrow> frame_monitor \<Rightarrow> frame_monitor" where
  "publish_radio_frames n frames stats m =
     m\<lparr>fm_sent := fm_sent m @ [\<lparr>wrf_module = min n 1, wrf_frames = frames, wrf_stats = stats\<rparr>]\<rparr>"

section \<open>The listener\<close>

datatype frame_event =
    FmReceived nat "8 word" nat bytes
  | FmTransmitted nat bytes
  | FmLagged
  | FmClosed
  | FmPoll nat

definition push_frame :: "nat \<Rightarrow> rx_frame_dto \<Rightarrow> frame_monitor \<Rightarrow> frame_monitor" where
  "push_frame i entry m =
     m\<lparr>fm_rx_buffers := (fm_rx_buffers m)[i := take RX_BUF_SIZE (entry # fm_rx_buffers m ! i)]\<rparr>"

definition publish_module :: "nat \<Rightarrow> nat \<Rightarrow> frame_monitor \<Rightarrow> frame_monitor" where
  "publish_module now i m =
     (let frames = fm_rx_buffers m ! i in
      case build_frame_stats now i m of (stats, m) \<Rightarrow> publish_radio_frames i frames stats m)"

definition frame_received ::
    "(bytes \<Rightarrow> 32 word) \<Rightarrow> nat \<Rightarrow> nat \<Rightarrow> nat \<Rightarrow> 8 word \<Rightarrow> nat \<Rightarrow> bytes \<Rightarrow> frame_monitor \<Rightarrow> frame_monitor" where
  "frame_received crc32 now ts n rssi len data m =
     (let i = min n 1;
          entry = \<lparr>rxf_module = i, rxf_direction = ''rx'', rxf_rssi = rssi, rxf_len = len,
                   rxf_hex = frame_preview data, rxf_ascii = frame_ascii_preview data,
                   rxf_crc32 = frame_crc32 crc32 data, rxf_ts = ts\<rparr>;
          st = fm_frame_stats m ! i;
          st = st\<lparr>fs_rx_frames := wrap64 (fs_rx_frames st + 1), fs_rx_bytes := wrap64 (fs_rx_bytes st + len),
                  fs_last_rssi := sint rssi\<rparr>
      in publish_module now i (push_frame i entry (m\<lparr>fm_frame_stats := (fm_frame_stats m)[i := st]\<rparr>)))"

definition frame_transmitted ::
    "(bytes \<Rightarrow> 32 word) \<Rightarrow> nat \<Rightarrow> nat \<Rightarrow> nat \<Rightarrow> bytes \<Rightarrow> frame_monitor \<Rightarrow> frame_monitor" where
  "frame_transmitted crc32 now ts n payload m =
     (let i = min n 1;
          entry = \<lparr>rxf_module = i, rxf_direction = ''tx'', rxf_rssi = 0, rxf_len = length payload mod 65536,
                   rxf_hex = frame_preview payload, rxf_ascii = frame_ascii_preview payload,
                   rxf_crc32 = frame_crc32 crc32 payload, rxf_ts = ts\<rparr>;
          st = fm_frame_stats m ! i;
          st = st\<lparr>fs_tx_frames := wrap64 (fs_tx_frames st + 1), fs_tx_bytes := wrap64 (fs_tx_bytes st + length payload)\<rparr>
      in publish_module now i (push_frame i entry (m\<lparr>fm_frame_stats := (fm_frame_stats m)[i := st]\<rparr>)))"

text \<open>One event, with the readings of the monotonic clock and of the wall clock.\<close>

fun fm_step :: "(bytes \<Rightarrow> 32 word) \<Rightarrow> (nat \<times> nat) \<times> frame_event \<Rightarrow> frame_monitor \<Rightarrow> frame_monitor" where
  "fm_step crc32 ((now, ts), FmReceived n rssi len data) m =
     (if fm_running m then frame_received crc32 now ts n rssi len data m else m)"
| "fm_step crc32 ((now, ts), FmTransmitted n payload) m =
     (if fm_running m then frame_transmitted crc32 now ts n payload m else m)"
| "fm_step crc32 (_, FmLagged) m = m"
| "fm_step crc32 (_, FmClosed) m = m\<lparr>fm_running := False\<rparr>"
| "fm_step crc32 ((now, ts), FmPoll n) m = snd (build_frame_stats now n m)"

definition fm_run :: "(bytes \<Rightarrow> 32 word) \<Rightarrow> ((nat \<times> nat) \<times> frame_event) list \<Rightarrow> frame_monitor" where
  "fm_run crc32 evs = fold (fm_step crc32) evs frame_monitor_new"

section \<open>The history\<close>

text \<open>The entry of a frame, with the module it counts for, and the frames heard before the listener stopped.\<close>

fun frame_entry :: "(bytes \<Rightarrow> 32 word) \<Rightarrow> (nat \<times> nat) \<times> frame_event \<Rightarrow> rx_frame_dto option" where
  "frame_entry crc32 ((now, ts), FmReceived n rssi len data) =
     Some \<lparr>rxf_module = min n 1, rxf_direction = ''rx'', rxf_rssi = rssi, rxf_len = len, rxf_hex = frame_preview data,
           rxf_ascii = frame_ascii_preview data, rxf_crc32 = frame_crc32 crc32 data, rxf_ts = ts\<rparr>"
| "frame_entry crc32 ((now, ts), FmTransmitted n payload) =
     Some \<lparr>rxf_module = min n 1, rxf_direction = ''tx'', rxf_rssi = 0, rxf_len = length payload mod 65536,
           rxf_hex = frame_preview payload, rxf_ascii = frame_ascii_preview payload,
           rxf_crc32 = frame_crc32 crc32 payload, rxf_ts = ts\<rparr>"
| "frame_entry crc32 _ = None"

definition heard :: "((nat \<times> nat) \<times> frame_event) list \<Rightarrow> ((nat \<times> nat) \<times> frame_event) list" where
  "heard evs = takeWhile (\<lambda>e. snd e \<noteq> FmClosed) evs"

definition module_frames :: "(bytes \<Rightarrow> 32 word) \<Rightarrow> nat \<Rightarrow> ((nat \<times> nat) \<times> frame_event) list \<Rightarrow> rx_frame_dto list" where
  "module_frames crc32 i evs = filter (\<lambda>f. rxf_module f = i) (List.map_filter (frame_entry crc32) (heard evs))"

fun received_by :: "nat \<Rightarrow> (nat \<times> nat) \<times> frame_event \<Rightarrow> (8 word \<times> nat) list" where
  "received_by i (_, FmReceived n rssi len data) = (if min n 1 = i then [(rssi, len)] else [])"
| "received_by i _ = []"

fun sent_by :: "nat \<Rightarrow> (nat \<times> nat) \<times> frame_event \<Rightarrow> nat list" where
  "sent_by i (_, FmTransmitted n payload) = (if min n 1 = i then [length payload] else [])"
| "sent_by i _ = []"

definition receptions :: "nat \<Rightarrow> ((nat \<times> nat) \<times> frame_event) list \<Rightarrow> (8 word \<times> nat) list" where
  "receptions i evs = concat (map (received_by i) (heard evs))"

definition transmissions :: "nat \<Rightarrow> ((nat \<times> nat) \<times> frame_event) list \<Rightarrow> nat list" where
  "transmissions i evs = concat (map (sent_by i) (heard evs))"

section \<open>Lemmas\<close>

lemma wrap64_add: "wrap64 (wrap64 a + b) = wrap64 (a + b)"
  by (simp add: wrap64_def mod_simps)

lemma heard_snoc:
  "heard (evs @ [e]) =
     (if FmClosed \<in> snd ` set evs \<or> snd e = FmClosed then heard evs else heard evs @ [e])"
  by (induction evs) (auto simp: heard_def)

lemma history_snoc:
  "module_frames crc32 i (evs @ [e]) = module_frames crc32 i evs
     @ (if FmClosed \<in> snd ` set evs then [] else filter (\<lambda>f. rxf_module f = i) (case frame_entry crc32 e of None \<Rightarrow> [] | Some f \<Rightarrow> [f]))"
  "receptions i (evs @ [e]) = receptions i evs @ (if FmClosed \<in> snd ` set evs then [] else received_by i e)"
  "transmissions i (evs @ [e]) = transmissions i evs @ (if FmClosed \<in> snd ` set evs then [] else sent_by i e)"
  by (cases e; cases "snd e"; auto simp: module_frames_def receptions_def transmissions_def heard_snoc map_filter_def
      split: option.split)+

definition two_modules :: "frame_monitor \<Rightarrow> bool" where
  "two_modules m \<longleftrightarrow> length (fm_rx_buffers m) = 2 \<and> length (fm_frame_stats m) = 2"

text \<open>What a step does to the running flag, to the buffer and the counters of a module, and to what was sent.\<close>

definition counters :: "frame_stats \<Rightarrow> nat \<times> nat \<times> nat \<times> nat \<times> int" where
  "counters st = (fs_rx_frames st, fs_rx_bytes st, fs_tx_frames st, fs_tx_bytes st, fs_last_rssi st)"

lemmas step_defs = frame_received_def frame_transmitted_def publish_module_def push_frame_def build_frame_stats_def
  publish_radio_frames_def Let_def split_beta

lemma fm_step_running: "fm_running (fm_step crc32 e m) \<longleftrightarrow> fm_running m \<and> snd e \<noteq> FmClosed"
  by (cases "(crc32, e, m)" rule: fm_step.cases) (auto simp: step_defs)

lemma fm_step_two_modules: "two_modules m \<Longrightarrow> two_modules (fm_step crc32 e m)"
  by (cases "(crc32, e, m)" rule: fm_step.cases) (auto simp: step_defs two_modules_def)

lemma fm_step_buffer:
  assumes "two_modules m" "i < 2"
  shows "fm_rx_buffers (fm_step crc32 e m) ! i =
    (case frame_entry crc32 e of
       Some f \<Rightarrow> if fm_running m \<and> rxf_module f = i then take RX_BUF_SIZE (f # fm_rx_buffers m ! i) else fm_rx_buffers m ! i
     | None \<Rightarrow> fm_rx_buffers m ! i)"
  using assms
  by (cases "(crc32, e, m)" rule: fm_step.cases) (auto simp: step_defs two_modules_def nth_list_update)

lemma fm_step_sent:
  assumes "two_modules m"
  shows "map wrf_frames (filter (\<lambda>w. wrf_module w = i) (fm_sent (fm_step crc32 e m))) =
    map wrf_frames (filter (\<lambda>w. wrf_module w = i) (fm_sent m)) @
    (case frame_entry crc32 e of
       Some f \<Rightarrow> if fm_running m \<and> rxf_module f = i then [take RX_BUF_SIZE (f # fm_rx_buffers m ! i)] else []
     | None \<Rightarrow> [])"
  using assms
  by (cases "(crc32, e, m)" rule: fm_step.cases) (auto simp: step_defs two_modules_def nth_list_update)

lemma fm_step_counters:
  assumes "two_modules m" "i < 2"
    and "counters (fm_frame_stats m ! i) = (wrap64 a, wrap64 b, wrap64 c, wrap64 d, rssi)"
  shows "counters (fm_frame_stats (fm_step crc32 e m) ! i) =
    (if fm_running m then
       (wrap64 (a + length (received_by i e)), wrap64 (b + sum_list (map snd (received_by i e))),
        wrap64 (c + length (sent_by i e)), wrap64 (d + sum_list (sent_by i e)),
        if received_by i e = [] then rssi else sint (fst (last (received_by i e))))
     else (wrap64 a, wrap64 b, wrap64 c, wrap64 d, rssi))"
  using assms
  by (cases "(crc32, e, m)" rule: fm_step.cases)
    (auto simp: step_defs two_modules_def nth_list_update counters_def wrap64_add wrap64_add [of _ 1, simplified])

lemma fm_run_snoc: "fm_run crc32 (evs @ [e]) = fm_step crc32 e (fm_run crc32 evs)"
  by (simp add: fm_run_def)

lemma fm_run_running: "fm_running (fm_run crc32 evs) \<longleftrightarrow> FmClosed \<notin> snd ` set evs"
  by (induction evs rule: rev_induct) (auto simp: fm_run_snoc fm_step_running, auto simp: fm_run_def frame_monitor_new_def)

lemma fm_run_two_modules: "two_modules (fm_run crc32 evs)"
  by (induction evs rule: rev_induct)
    (auto simp: fm_run_snoc fm_step_two_modules, simp add: fm_run_def frame_monitor_new_def two_modules_def)

lemma take_buffer: "take RX_BUF_SIZE (x # take RX_BUF_SIZE xs) = take RX_BUF_SIZE (x # xs)"
  by (simp add: RX_BUF_SIZE_def take_Cons' min_def)

lemma fm_run_buffer:
  assumes "i < 2"
  shows "fm_rx_buffers (fm_run crc32 evs) ! i = take RX_BUF_SIZE (rev (module_frames crc32 i evs))"
proof (induction evs rule: rev_induct)
  case Nil
  with assms show ?case
    by (auto simp: fm_run_def frame_monitor_new_def module_frames_def heard_def map_filter_def less_2_cases_iff)
next
  case (snoc e evs)
  then show ?case
    using fm_step_buffer [OF fm_run_two_modules assms, of crc32 e crc32 evs]
    by (auto simp: fm_run_snoc history_snoc fm_run_running RX_BUF_SIZE_def split: option.splits)
qed

text \<open>The buffers as they were sent, one per frame.\<close>

definition buffer_history :: "(bytes \<Rightarrow> 32 word) \<Rightarrow> nat \<Rightarrow> ((nat \<times> nat) \<times> frame_event) list \<Rightarrow> rx_frame_dto list list" where
  "buffer_history crc32 i evs =
     map (\<lambda>k. take 256 (rev (take (Suc k) (module_frames crc32 i evs)))) [0..<length (module_frames crc32 i evs)]"

lemma fm_run_sent:
  assumes "i < 2"
  shows "map wrf_frames (filter (\<lambda>w. wrf_module w = i) (fm_sent (fm_run crc32 evs))) = buffer_history crc32 i evs"
proof (induction evs rule: rev_induct)
  case Nil
  show ?case by (simp add: fm_run_def frame_monitor_new_def buffer_history_def module_frames_def heard_def map_filter_def)
next
  case (snoc e evs)
  have grow: "buffer_history crc32 i (evs @ [e]) = buffer_history crc32 i evs @ [take 256 (f # rev (module_frames crc32 i evs))]"
    if "module_frames crc32 i (evs @ [e]) = module_frames crc32 i evs @ [f]" for f
    unfolding buffer_history_def that by auto
  have same: "buffer_history crc32 i (evs @ [e]) = buffer_history crc32 i evs"
    if "module_frames crc32 i (evs @ [e]) = module_frames crc32 i evs"
    by (simp add: buffer_history_def that)
  note step = fm_step_sent [OF fm_run_two_modules, of i crc32 e crc32 evs] and buffer = fm_run_buffer [OF assms, of crc32 evs]
  show ?case
  proof (cases "\<exists>f. frame_entry crc32 e = Some f \<and> FmClosed \<notin> snd ` set evs \<and> rxf_module f = i")
    case True
    then obtain f where f: "frame_entry crc32 e = Some f" "fm_running (fm_run crc32 evs)" "rxf_module f = i"
      "module_frames crc32 i (evs @ [e]) = module_frames crc32 i evs @ [f]"
      by (auto simp: history_snoc fm_run_running)
    show ?thesis
      unfolding fm_run_snoc step grow [OF f(4)] snoc
      using f(1-3) by (simp add: buffer RX_BUF_SIZE_def)
  next
    case False
    then have none: "module_frames crc32 i (evs @ [e]) = module_frames crc32 i evs"
      by (auto simp: history_snoc split: option.split)
    show ?thesis
      unfolding fm_run_snoc step same [OF none] snoc
      using False by (auto simp: fm_run_running split: option.split)
  qed
qed

lemma fm_run_counters:
  assumes "i < 2"
  shows "counters (fm_frame_stats (fm_run crc32 evs) ! i) =
    (wrap64 (length (receptions i evs)), wrap64 (sum_list (map snd (receptions i evs))),
     wrap64 (length (transmissions i evs)), wrap64 (sum_list (transmissions i evs)),
     if receptions i evs = [] then 0 else sint (fst (last (receptions i evs))))"
proof (induction evs rule: rev_induct)
  case Nil
  with assms show ?case
    by (auto simp: fm_run_def frame_monitor_new_def default_frame_stats_def counters_def receptions_def transmissions_def
        heard_def less_2_cases_iff)
next
  case (snoc e evs)
  show ?case
    by (simp add: fm_run_snoc fm_step_counters [OF fm_run_two_modules assms snoc] fm_run_running history_snoc)
qed

section \<open>Properties\<close>

text \<open>
  C29. What the user interface shows of a radio module is a function of the frames since the start, whatever
  requests came in between: the buffer holds the newest 256 frames of the module, newest first, in both
  directions; the counters are the number and the total length of the frames received and transmitted
  (modulo 2 to the 64); the signal strength is that of the last frame received and absent before the first;
  and every frame was sent to the listeners exactly once, with the buffer as it was then. Nothing is
  recorded after one of the channels closed.
\<close>

theorem frame_monitor_history:
  "let m = fm_run crc32 evs; i = min n 1; st = fst (build_frame_stats now n m) in
     build_radio_frames n m = take 256 (rev (module_frames crc32 i evs))
   \<and> fsd_rx_frames st = wrap64 (length (receptions i evs))
   \<and> fsd_rx_bytes st = wrap64 (sum_list (map snd (receptions i evs)))
   \<and> fsd_tx_frames st = wrap64 (length (transmissions i evs))
   \<and> fsd_tx_bytes st = wrap64 (sum_list (transmissions i evs))
   \<and> fsd_last_rssi st = (if fsd_rx_frames st = 0 then None else Some (fst (last (receptions i evs))))
   \<and> map wrf_frames (filter (\<lambda>w. wrf_module w = i) (fm_sent m)) = buffer_history crc32 i evs"
proof -
  define i where "i = min n 1"
  have i: "i < 2" by (simp add: i_def)
  have zero: "wrap64 0 = 0" by (simp add: wrap64_def)
  have st: "fsd_rx_frames (fst (build_frame_stats now n m)) = fs_rx_frames (fm_frame_stats m ! i)"
    "fsd_rx_bytes (fst (build_frame_stats now n m)) = fs_rx_bytes (fm_frame_stats m ! i)"
    "fsd_tx_frames (fst (build_frame_stats now n m)) = fs_tx_frames (fm_frame_stats m ! i)"
    "fsd_tx_bytes (fst (build_frame_stats now n m)) = fs_tx_bytes (fm_frame_stats m ! i)"
    "fsd_last_rssi (fst (build_frame_stats now n m))
      = (if fs_rx_frames (fm_frame_stats m ! i) = 0 then None else Some (word_of_int (fs_last_rssi (fm_frame_stats m ! i))))"
    "build_radio_frames n m = fm_rx_buffers m ! i" for m
    by (simp_all add: build_frame_stats_def build_radio_frames_def i_def Let_def split_beta)
  show ?thesis
    unfolding Let_def i_def [symmetric] st fm_run_buffer [OF i] fm_run_sent [OF i]
    using fm_run_counters [OF i, of crc32 evs] zero by (auto simp: RX_BUF_SIZE_def counters_def)
qed

end
