(* ===== verification/Gw_Boot.thy ===== *)
theory Gw_Boot
  imports Gw_Props Gw_Web Gw_Frames
begin

text \<open>
  The start of the gateway (\<open>async_main\<close> and \<open>should_run_webapp_only\<close> in \<open>kaonic-gateway/src/main.rs\<close>): from
  the opened database to the state that the request handlers share. The command line is parsed by \<open>clap\<close>;
  the identity that a seed gives, the radio client, the transport and the preparation of the certificates
  (\<open>prepare_tls\<close> of \<open>Gw_Tls\<close>) are parameters, and logging is left out. Leaving the process is an outcome
  with its exit code and the database as it is then.
\<close>

record ('h, 'r, 'm, 'w) boot_ops =
  bo_client :: "('r, 'm, 'w) radio_client"
  bo_connect :: "socket_addr \<Rightarrow> ('w, string) action"
  bo_spawn :: "nat \<Rightarrow> 'w \<Rightarrow> 'w"
  bo_address_hash :: "string \<Rightarrow> 'h"
  bo_destination_hash :: "string \<Rightarrow> 'h"
  bo_add_destination :: "string \<Rightarrow> 'w \<Rightarrow> 'w"
  bo_prepare_tls :: "'w \<Rightarrow> 'w"

record gateway_command =
  gm_kaonic_ctrl_server :: "socket_addr option"
  gm_http_addr :: socket_addr

text \<open>What a start draws and reads: random bytes, the clock, and what opening the tunnel and listing the interfaces give.\<close>

record boot_inputs =
  bi_codename_random :: bytes
  bi_seed_random :: bytes
  bi_now :: nat
  bi_riptun :: "string + string"
  bi_interfaces :: "string + net_if list"

record ('h, 'c, 'd, 'l, 'w) running_gateway =
  rg_webapp_only :: bool
  rg_vpn_hash :: string
  rg_serial :: string
  rg_server :: socket_addr
  rg_https_addr :: "ip_addr \<times> nat"
  rg_app :: "('h, 'c, 'd, 'l, 'w) app_state"

datatype ('h, 'c, 'd, 'l, 'w) boot_outcome =
    BootExit nat "database option"
  | BootRunning "('h, 'c, 'd, 'l, 'w) running_gateway"

definition DEFAULT_DB_PATH :: string where "DEFAULT_DB_PATH = ''kaonic-gateway.db''"

definition DEFAULT_SERVER :: socket_addr where "DEFAULT_SERVER = SockV4 (mk_ipv4 192 168 10 1) 9090"

definition db_path :: "'w sys_ops \<Rightarrow> string" where
  "db_path S = (case so_env S ''KAONIC_GATEWAY_DB_PATH'' of Some p \<Rightarrow> p | None \<Rightarrow> DEFAULT_DB_PATH)"

definition should_run_webapp_only :: "'w sys_ops \<Rightarrow> 'w \<Rightarrow> bool" where
  "should_run_webapp_only S w =
     (case so_env S ''KAONIC_GATEWAY_WEBAPP_ONLY'' of
        Some v \<Rightarrow> map to_ascii_lower (trim v) \<in> {''1'', ''true'', ''yes'', ''on''}
      | None \<Rightarrow> \<not> so_exists S ''/etc/kaonic/kaonic_serial'' w)"

definition read_serial :: "'w sys_ops \<Rightarrow> 'w \<Rightarrow> string" where
  "read_serial S w = (case so_read_file S ''/etc/kaonic/kaonic_serial'' w of Inr s \<Rightarrow> trim s | Inl _ \<Rightarrow> ''unknown'')"

definition vpn_config_of :: "('c, 'r, 'm) gateway_config \<Rightarrow> 'c vpn_config" where
  "vpn_config_of c =
     \<lparr>cfg_network = gc_network c, cfg_allow_all_peers = gc_allow_all_peers c, cfg_peers = gc_peers c,
      cfg_advertised_routes = gc_advertised_routes c, cfg_announce_freq_secs = gc_announce_freq_secs c\<rparr>"

text \<open>From the identity on: the radio, the transport and the VPN, without which the gateway goes on.\<close>

definition boot_mesh ::
    "('h, 'c::linorder, 'd, 'l, 'r, 'm, 'w) gateway_env \<Rightarrow> ('h, 'r, 'm, 'w) boot_ops \<Rightarrow> gateway_command \<Rightarrow> boot_inputs
       \<Rightarrow> ('c, 'r, 'm) gateway_config \<Rightarrow> string \<Rightarrow> database \<Rightarrow> 'w \<Rightarrow> ('h, 'c, 'd, 'l, 'w) boot_outcome \<times> 'w" where
  "boot_mesh G B cmd inp config serial d w =
     (case load_or_create_seed (bi_seed_random inp) d of
        (Inl _, d) \<Rightarrow> (BootExit 1 (Some d), w)
      | (Inr seed, d) \<Rightarrow>
          (let server = (case gm_kaonic_ctrl_server cmd of Some a \<Rightarrow> a | None \<Rightarrow> DEFAULT_SERVER) in
           case bo_connect B server w of
             (Inl _, w) \<Rightarrow> (BootExit 1 (Some d), w)
           | (Inr _, w) \<Rightarrow>
               (let w = attach_radio_interface (bo_client B) (bo_spawn B) (gc_radio config) 0 w;
                    w = bo_add_destination B seed w
                in case start_runtime (ge_vpn G) (bi_now inp) (vpn_config_of config) (bo_destination_hash B seed)
                          (bi_riptun inp) (bi_interfaces inp) w of
                     (vpn, w) \<Rightarrow>
                       (BootRunning
                          \<lparr>rg_webapp_only = False, rg_vpn_hash = h_hex (e_hash (ge_vpn G)) (bo_address_hash B seed),
                           rg_serial = serial, rg_server = server, rg_https_addr = (sock_ip (gm_http_addr cmd), 443),
                           rg_app = \<lparr>ap_settings = d, ap_poisoned = False, ap_vpn = ok vpn, ap_world = w\<rparr>\<rparr>, w))))"

definition boot ::
    "('h, 'c::linorder, 'd, 'l, 'r, 'm, 'w) gateway_env \<Rightarrow> ('h, 'r, 'm, 'w) boot_ops \<Rightarrow> gateway_command \<Rightarrow> boot_inputs
       \<Rightarrow> sql_error + database \<Rightarrow> 'w \<Rightarrow> ('h, 'c, 'd, 'l, 'w) boot_outcome \<times> 'w" where
  "boot G B cmd inp conn w =
     (case open_database conn of
        Inl _ \<Rightarrow> (BootExit 1 None, w)
      | Inr d \<Rightarrow>
          (case load_config (ge_settings G) d of
             (Inl _, d) \<Rightarrow> (BootExit 1 (Some d), w)
           | (Inr config, d) \<Rightarrow>
               (case load_or_create_codename (bi_codename_random inp) d of
                  (Inl _, d) \<Rightarrow> (BootExit 1 (Some d), w)
                | (Inr codename, d) \<Rightarrow>
                    (let webapp_only = should_run_webapp_only (ge_sys G) w;
                         serial = read_serial (ge_sys G) w;
                         w = bo_prepare_tls B w
                     in if webapp_only
                        then (BootRunning
                                \<lparr>rg_webapp_only = True, rg_vpn_hash = ''webapp-only'', rg_serial = serial,
                                 rg_server = (case gm_kaonic_ctrl_server cmd of Some a \<Rightarrow> a | None \<Rightarrow> DEFAULT_SERVER),
                                 rg_https_addr = (sock_ip (gm_http_addr cmd), 443),
                                 rg_app = \<lparr>ap_settings = d, ap_poisoned = False, ap_vpn = None, ap_world = w\<rparr>\<rparr>, w)
                        else boot_mesh G B cmd inp config serial d w))))"

section \<open>Lemmas\<close>

lemma identity_seed_key: "identity_key ''identity_seed''"
  by (simp add: identity_key_def CODENAME_KEY_def starts_with_def)

lemma open_database_settings: "open_database conn = Inr d \<Longrightarrow> \<exists>d0. conn = Inr d0 \<and> db_settings d = db_settings d0"
  by (auto simp: open_database_def and_then_def migrate_def dest!: statement_ok split: sum.splits prod.splits)

lemma boot_mesh_running:
  assumes "boot_mesh G B cmd inp config serial d w = (BootRunning g, w1)"
  shows "\<exists>seed w2. load_or_create_seed (bi_seed_random inp) d = (Inr seed, ap_settings (rg_app g))
    \<and> rg_vpn_hash g = h_hex (e_hash (ge_vpn G)) (bo_address_hash B seed)
    \<and> (\<forall>rt. ap_vpn (rg_app g) = Some rt \<longrightarrow>
         start_runtime (ge_vpn G) (bi_now inp) (vpn_config_of config) (bo_destination_hash B seed) (bi_riptun inp) (bi_interfaces inp) w2
           = (Inr rt, ap_world (rg_app g)))"
proof -
  obtain seed d2 where seed: "load_or_create_seed (bi_seed_random inp) d = (Inr seed, d2)"
    using assms by (auto simp: boot_mesh_def split: sum.splits prod.splits)
  obtain w2 where w2: "bo_connect B (case gm_kaonic_ctrl_server cmd of Some a \<Rightarrow> a | None \<Rightarrow> DEFAULT_SERVER) w = (Inr (), w2)"
    using assms seed by (auto simp: boot_mesh_def Let_def split: sum.splits prod.splits)
  define w3 where "w3 = bo_add_destination B seed (attach_radio_interface (bo_client B) (bo_spawn B) (gc_radio config) 0 w2)"
  obtain r w4 where r: "start_runtime (ge_vpn G) (bi_now inp) (vpn_config_of config) (bo_destination_hash B seed)
      (bi_riptun inp) (bi_interfaces inp) w3 = (r, w4)" by fastforce
  have g: "ap_settings (rg_app g) = d2 \<and> rg_vpn_hash g = h_hex (e_hash (ge_vpn G)) (bo_address_hash B seed)
      \<and> ap_vpn (rg_app g) = ok r \<and> ap_world (rg_app g) = w4"
    using assms seed w2 r by (auto simp: boot_mesh_def Let_def w3_def)
  show ?thesis
    by (rule exI [of _ seed], rule exI [of _ w3]) (use g seed r in \<open>cases r; simp\<close>)
qed

text \<open>What a start that took the mesh into use has done, and the settings it has left as they were.\<close>

lemma boot_running:
  assumes run: "boot G B cmd inp conn w = (BootRunning g, w1)" and mesh: "\<not> rg_webapp_only g"
  obtains d0 d seed vc w2 where
    "conn = Inr d0" "load_or_create_seed (bi_seed_random inp) d = (Inr seed, ap_settings (rg_app g))"
    "\<And>v. map_of (db_settings d0) ''identity_seed'' = Some v \<Longrightarrow> map_of (db_settings d) ''identity_seed'' = Some v"
    "rg_vpn_hash g = h_hex (e_hash (ge_vpn G)) (bo_address_hash B seed)"
    "\<And>rt. ap_vpn (rg_app g) = Some rt \<Longrightarrow>
       start_runtime (ge_vpn G) (bi_now inp) vc (bo_destination_hash B seed) (bi_riptun inp) (bi_interfaces inp) w2
         = (Inr rt, ap_world (rg_app g))"
proof -
  obtain d1 where d1: "open_database conn = Inr d1"
    using run by (auto simp: boot_def split: sum.splits)
  obtain config d2 where d2: "load_config (ge_settings G) d1 = (Inr config, d2)"
    using run d1 by (auto simp: boot_def split: sum.splits prod.splits)
  obtain codename d where d: "load_or_create_codename (bi_codename_random inp) d2 = (Inr codename, d)"
    using run d1 d2 by (auto simp: boot_def split: sum.splits prod.splits)
  have m: "boot_mesh G B cmd inp config (read_serial (ge_sys G) w) d (bo_prepare_tls B w) = (BootRunning g, w1)"
    using run mesh d1 d2 d by (auto simp: boot_def Let_def split: if_splits)
  note seed = boot_mesh_running [OF m]
  obtain d0 where d0: "conn = Inr d0" "db_settings d1 = db_settings d0" using open_database_settings [OF d1] by blast
  have "map_of (db_settings d) ''identity_seed'' = Some v" if "map_of (db_settings d0) ''identity_seed'' = Some v" for v
  proof -
    have "db_settings d2 = db_settings d1" using load_config_settings [of "ge_settings G" d1] d2 by simp
    with that d0 have "map_of (db_settings d2) ''identity_seed'' = Some v" by simp
    from settings_step_keeps [OF identity_seed_key this, of "ge_settings G" "SoCodename (bi_codename_random inp)"] d
    show ?thesis by simp
  qed
  note found = this
  from seed obtain seed w2 where s:
    "load_or_create_seed (bi_seed_random inp) d = (Inr seed, ap_settings (rg_app g))"
    "rg_vpn_hash g = h_hex (e_hash (ge_vpn G)) (bo_address_hash B seed)"
    "\<And>rt. ap_vpn (rg_app g) = Some rt \<Longrightarrow>
      start_runtime (ge_vpn G) (bi_now inp) (vpn_config_of config) (bo_destination_hash B seed) (bi_riptun inp) (bi_interfaces inp) w2
        = (Inr rt, ap_world (rg_app g))" by blast
  show thesis
  proof (rule that)
    show "conn = Inr d0" by (rule d0(1))
    show "load_or_create_seed (bi_seed_random inp) d = (Inr seed, ap_settings (rg_app g))" by (rule s(1))
    show "map_of (db_settings d) ''identity_seed'' = Some v" if "map_of (db_settings d0) ''identity_seed'' = Some v" for v
      by (rule found [OF that])
    show "rg_vpn_hash g = h_hex (e_hash (ge_vpn G)) (bo_address_hash B seed)" by (rule s(2))
    show "start_runtime (ge_vpn G) (bi_now inp) (vpn_config_of config) (bo_destination_hash B seed) (bi_riptun inp) (bi_interfaces inp) w2
      = (Inr rt, ap_world (rg_app g))" if "ap_vpn (rg_app g) = Some rt" for rt by (rule s(3) [OF that])
  qed
qed

lemma stored_seed:
  assumes "load_or_create_seed random d = (Inr seed, d')"
  shows "map_of (db_settings d') ''identity_seed'' = Some seed"
    "map_of (db_settings d) ''identity_seed'' = Some v \<Longrightarrow> seed = v"
  using settings_table.load_or_create_stored [OF assms [unfolded load_or_create_seed_def load_or_create_named_seed_def]]
  by simp_all

section \<open>Properties\<close>

text \<open>
  C31. A gateway keeps its address: a start that takes the mesh into use, on the database that an earlier such start
  left, has the same identity and its VPN the same destination, whatever operations on the settings, successful
  or failing, came in between, and whatever random bytes are drawn. The VPN of a started gateway is a started
  VPN with the policy and the network of the stored configuration, to which the properties of the reachable
  states apply.
\<close>

theorem gateway_identity_stable:
  assumes first: "boot G B cmd inp conn w = (BootRunning g, w1)" "\<not> rg_webapp_only g"
  and second: "boot G B cmd' inp'
        (Inr ((fold (settings_step (ge_settings G)) ops (ap_settings (rg_app g)))\<lparr>db_faults := fs\<rparr>)) w' = (BootRunning g', w2)"
      "\<not> rg_webapp_only g'"
  shows "rg_vpn_hash g' = rg_vpn_hash g
    \<and> (\<forall>rt rt'. ap_vpn (rg_app g) = Some rt \<longrightarrow> ap_vpn (rg_app g') = Some rt' \<longrightarrow> destination rt' = destination rt)
    \<and> (\<forall>rt. ap_vpn (rg_app g) = Some rt \<longrightarrow> vpn_reachable (ge_vpn G) (rt, ap_world (rg_app g), []))"
proof (rule boot_running [OF first], rule boot_running [OF second])
  fix d0 d1 seed vc w3 e0 e1 seed' vc' w4
  assume s: "load_or_create_seed (bi_seed_random inp) d1 = (Inr seed, ap_settings (rg_app g))"
    and hash: "rg_vpn_hash g = h_hex (e_hash (ge_vpn G)) (bo_address_hash B seed)"
      "rg_vpn_hash g' = h_hex (e_hash (ge_vpn G)) (bo_address_hash B seed')"
    and start: "\<And>rt. ap_vpn (rg_app g) = Some rt \<Longrightarrow>
       start_runtime (ge_vpn G) (bi_now inp) vc (bo_destination_hash B seed) (bi_riptun inp) (bi_interfaces inp) w3
         = (Inr rt, ap_world (rg_app g))"
      "\<And>rt. ap_vpn (rg_app g') = Some rt \<Longrightarrow>
       start_runtime (ge_vpn G) (bi_now inp') vc' (bo_destination_hash B seed') (bi_riptun inp') (bi_interfaces inp') w4
         = (Inr rt, ap_world (rg_app g'))"
    and e0: "Inr ((fold (settings_step (ge_settings G)) ops (ap_settings (rg_app g)))\<lparr>db_faults := fs\<rparr>) = Inr e0"
    and e1: "\<And>v. map_of (db_settings e0) ''identity_seed'' = Some v \<Longrightarrow> map_of (db_settings e1) ''identity_seed'' = Some v"
    and s': "load_or_create_seed (bi_seed_random inp') e1 = (Inr seed', ap_settings (rg_app g'))"
  have "map_of (db_settings (fold (settings_step (ge_settings G)) ops (ap_settings (rg_app g)))) ''identity_seed'' = Some seed"
    by (rule fold_settings_keep [OF identity_seed_key stored_seed(1) [OF s]])
  with e0 e1 have "map_of (db_settings e1) ''identity_seed'' = Some seed" by auto
  from stored_seed(2) [OF s' this] have same: "seed' = seed" .
  show ?thesis
  proof (intro conjI allI impI)
    show "rg_vpn_hash g' = rg_vpn_hash g" using hash same by simp
    show "destination rt' = destination rt" if "ap_vpn (rg_app g) = Some rt" "ap_vpn (rg_app g') = Some rt'" for rt rt'
      using start_runtime_config(1) [OF start(1) [OF that(1)]] start_runtime_config(1) [OF start(2) [OF that(2)]] same by simp
    show "vpn_reachable (ge_vpn G) (rt, ap_world (rg_app g), [])" if "ap_vpn (rg_app g) = Some rt" for rt
      by (rule vpn_reachable.started [OF start(1) [OF that]])
  qed
qed

section \<open>Instance\<close>

lemma load_module_same: "db_faults d = [] \<Longrightarrow> snd (load_module E i d) = d"
  by (simp add: load_module_def get_module_text_def no_fault_simps Let_def split_beta split: option.split)

lemma load_config_same: "db_faults d = [] \<Longrightarrow> snd (load_config E d) = d"
  using load_module_same [of d E 0] load_module_same [of d E 1]
  by (simp add: load_config_def load_rest_def no_fault_simps and_do_def Let_def split_beta split: sum.split)

lemma load_or_create_total:
  "db_faults d = [] \<Longrightarrow> \<exists>x d'. load_or_create db_get db_set k v d = (Inr x, d') \<and> db_faults d' = []"
  by (auto simp: load_or_create_def no_fault_simps and_do_def db_set_def statement_no_faults split: option.splits)

text \<open>Without failures of the database and of the radio client the mesh is taken into use.\<close>

lemma boot_ok:
  assumes "db_faults d = []" "fst (load_config (ge_settings G) d) = Inr config"
    and "\<not> should_run_webapp_only (ge_sys G) w" and connect: "\<And>a w. bo_connect B a w = (Inr (), w)"
  shows "\<exists>g w1. boot G B cmd inp (Inr d) w = (BootRunning g, w1) \<and> \<not> rg_webapp_only g
    \<and> db_faults (ap_settings (rg_app g)) = []"
proof -
  have open_ok: "open_database (Inr d) = Inr d"
    using assms(1) by (simp add: open_database_def and_then_def migrate_def statement_no_faults)
  have load: "load_config (ge_settings G) d = (Inr config, d)"
    using assms(2) load_config_same [OF assms(1), of "ge_settings G"] by (metis prod.collapse)
  obtain codename d1 where c: "load_or_create_codename (bi_codename_random inp) d = (Inr codename, d1)" "db_faults d1 = []"
    using load_or_create_total [OF assms(1), of CODENAME_KEY "generate_codename (bi_codename_random inp)"]
    by (auto simp: load_or_create_codename_def)
  obtain seed d2 where s: "load_or_create_seed (bi_seed_random inp) d1 = (Inr seed, d2)" "db_faults d2 = []"
    using load_or_create_total [OF c(2), of "''identity_seed''" "concat (map hex2 (take 32 (bi_seed_random inp)))"]
    by (auto simp: load_or_create_seed_def load_or_create_named_seed_def)
  show ?thesis
    using assms(3) by (simp add: boot_def open_ok load c boot_mesh_def s connect Let_def split_beta)
qed

definition mesh_gateway :: "(string, cidr4, string, unit, string, string, kernel_state) gateway_env" where
  "mesh_gateway = gw_env\<lparr>ge_sys := (ge_sys gw_env)\<lparr>so_env := (\<lambda>_. Some ''0'')\<rparr>\<rparr>"

definition plain_boot :: "(string, string, string, kernel_state) boot_ops" where
  "plain_boot =
     \<lparr>bo_client = \<lparr>rc_set_radio_config = (\<lambda>i r w. (Inr (), w)), rc_set_modulation = (\<lambda>i m w. (Inr (), w)),
        rc_transmit = (\<lambda>i p w. (Inr (), w)), rc_frame_size = 2048\<rparr>,
      bo_connect = (\<lambda>a w. (Inr (), w)), bo_spawn = (\<lambda>i w. w), bo_address_hash = (\<lambda>seed. seed),
      bo_destination_hash = (\<lambda>seed. seed), bo_add_destination = (\<lambda>seed w. w), bo_prepare_tls = (\<lambda>w. w)\<rparr>"

lemma mesh_settings: "ge_settings mesh_gateway = plain_env"
  by (simp add: mesh_gateway_def gw_env_def)

text \<open>The instance takes the mesh into use on every database that holds the plain configuration.\<close>

lemma mesh_boots:
  assumes "db_faults d = []"
  shows "\<exists>g w1. boot mesh_gateway plain_boot cmd inp (Inr ((snd (save_config plain_env plain_config d))\<lparr>db_faults := []\<rparr>)) w
      = (BootRunning g, w1) \<and> \<not> rg_webapp_only g \<and> db_faults (ap_settings (rg_app g)) = []"
proof -
  have mesh: "\<not> should_run_webapp_only (ge_sys mesh_gateway) w" for w
  proof -
    have "map to_ascii_lower (trim ''0'') = ''0''" by code_simp
    then show ?thesis by (simp add: should_run_webapp_only_def mesh_gateway_def)
  qed
  have connect: "bo_connect plain_boot a w = (Inr (), w)" for a w by (simp add: plain_boot_def)
  have form: "json_faithful plain_env plain_config" "well_sized plain_config"
    by (simp_all add: plain_env_faithful well_sized_def plain_config_def)
  obtain d1 where d1: "save_config plain_env plain_config d = (Inr (), d1)"
    using faultless_save_config [of plain_env plain_config, unfolded faultless_def, rule_format, of d] assms by blast
  have "fst (load_config (ge_settings mesh_gateway) (d1\<lparr>db_faults := []\<rparr>)) = Inr (plain_config\<lparr>gc_peers := btree_set (gc_peers plain_config)\<rparr>)"
    using settings_roundtrip [OF d1 form] mesh_settings by simp
  from boot_ok [OF _ this mesh connect] d1 show ?thesis by simp
qed

theorem gateway_identity_stable_witness:
  "\<forall>cmd inp inp'. \<exists>d g g' w1 w2.
     boot mesh_gateway plain_boot cmd inp (Inr d) wit_kernel = (BootRunning g, w1)
   \<and> boot mesh_gateway plain_boot cmd inp' (Inr ((settings_step plain_env (SoSaveConfig plain_config) (ap_settings (rg_app g)))
        \<lparr>db_faults := []\<rparr>)) wit_kernel = (BootRunning g', w2)
   \<and> rg_vpn_hash g' = rg_vpn_hash g"
proof (intro allI)
  fix cmd :: gateway_command and inp inp' :: boot_inputs
  obtain g w1 where g: "boot mesh_gateway plain_boot cmd inp
      (Inr ((snd (save_config plain_env plain_config empty_database))\<lparr>db_faults := []\<rparr>)) wit_kernel = (BootRunning g, w1)"
    "\<not> rg_webapp_only g" "db_faults (ap_settings (rg_app g)) = []"
    using mesh_boots [of empty_database cmd inp wit_kernel] by (auto simp: empty_database_def)
  obtain g' w2 where g': "boot mesh_gateway plain_boot cmd inp'
      (Inr ((settings_step plain_env (SoSaveConfig plain_config) (ap_settings (rg_app g)))\<lparr>db_faults := []\<rparr>)) wit_kernel = (BootRunning g', w2)"
    "\<not> rg_webapp_only g'"
    using mesh_boots [OF g(3), of cmd inp' wit_kernel] by auto
  have "boot mesh_gateway plain_boot cmd inp'
      (Inr ((fold (settings_step (ge_settings mesh_gateway)) [SoSaveConfig plain_config] (ap_settings (rg_app g)))\<lparr>db_faults := []\<rparr>))
      wit_kernel = (BootRunning g', w2)" using g'(1) mesh_settings by simp
  from gateway_identity_stable [OF g(1,2) this g'(2)] g(1) g'(1) show "\<exists>d g g' w1 w2.
     boot mesh_gateway plain_boot cmd inp (Inr d) wit_kernel = (BootRunning g, w1)
   \<and> boot mesh_gateway plain_boot cmd inp' (Inr ((settings_step plain_env (SoSaveConfig plain_config) (ap_settings (rg_app g)))
        \<lparr>db_faults := []\<rparr>)) wit_kernel = (BootRunning g', w2)
   \<and> rg_vpn_hash g' = rg_vpn_hash g" by blast
qed

end
