(* ===== verification/Atak_Boot.thy ===== *)
theory Atak_Boot
  imports Atak_Props Gw_Boot
begin

text \<open>
  The start of the ATAK plugin (\<open>main\<close> of \<open>kaonic-atak-plugin/src/main.rs\<close>) from the command line to the
  running plugin: the configuration, the settings database that it shares with the gateway, the identity, the
  radio, and then \<open>start_plugin\<close>. What depends on the identity is a function of its seed. Both ways to end
  early (\<open>process::exit(1)\<close> and the failure code) are one outcome, with the database as it is then.
\<close>

section \<open>The start\<close>

record plugin_command = command +
  cmd_kaonic_ctrl_server :: "socket_addr option"
  cmd_rns_module :: nat
  cmd_seed_key :: string

definition DEFAULT_SEED_KEY :: string where "DEFAULT_SEED_KEY = ''atak_plugin_identity_seed''"
definition PLUGIN_DB_PATH :: string where "PLUGIN_DB_PATH = ''/kaonic-gateway.db''"
definition DEFAULT_CTRL_SERVER :: socket_addr where "DEFAULT_CTRL_SERVER = SockV4 (mk_ipv4 192 168 10 1) 9090"

text \<open>The file whose opening gives the connection that \<open>plugin_main\<close> takes.\<close>

definition plugin_db_path :: "environ \<Rightarrow> string" where
  "plugin_db_path env = (case env ''KAONIC_GATEWAY_DB_PATH'' of Some p \<Rightarrow> p | None \<Rightarrow> PLUGIN_DB_PATH)"

record ('c, 'r, 'm, 'h, 'd, 'p, 'w) plugin_env =
  pe_settings :: "('c, 'r, 'm) settings_env"
  pe_env :: environ
  pe_client :: "('r, 'm, 'w) radio_client"
  pe_connect :: "socket_addr \<Rightarrow> ('w, string) action"
  pe_spawn :: "nat \<Rightarrow> 'w \<Rightarrow> 'w"
  pe_control :: "'w control_ops"
  pe_mesh :: "string \<Rightarrow> ('h, 'd, 'p, 'w) mesh_ops"
  pe_sock :: "'w sock_ops"

datatype ('h, 'w) plugin_outcome =
    PluginExit "database option"
  | PluginRunning string database "('h, 'w) atak"

text \<open>With the identity: the radio, of which one module is attached, and the tasks of the plugin.\<close>

definition run_plugin ::
    "('c, 'r, 'm, 'h, 'd, 'p, 'w) plugin_env \<Rightarrow> plugin_command \<Rightarrow> plugin_config \<Rightarrow> ('c, 'r, 'm) gateway_config
       \<Rightarrow> string \<Rightarrow> database \<Rightarrow> 'w \<Rightarrow> ('h, 'w) plugin_outcome \<times> 'w" where
  "run_plugin P cmd cfg config seed d w =
     (let server = (case cmd_kaonic_ctrl_server cmd of Some a \<Rightarrow> a | None \<Rightarrow> DEFAULT_CTRL_SERVER) in
      case pe_connect P server w of
        (Inl _, w) \<Rightarrow> (PluginExit (Some d), w)
      | (Inr _, w) \<Rightarrow>
          (case attach_selected_radio_interface (pe_client P) (pe_spawn P) (gc_radio config) (cmd_rns_module cmd) w of
             (Inl _, w) \<Rightarrow> (PluginExit (Some d), w)
           | (Inr _, w) \<Rightarrow>
               (case start_plugin (pe_control P) (pe_mesh P seed) (pe_sock P) cfg w of
                  (None, w) \<Rightarrow> (PluginExit (Some d), w)
                | (Some a, w) \<Rightarrow> (PluginRunning seed d a, w))))"

definition plugin_main ::
    "('c, 'r, 'm, 'h, 'd, 'p, 'w) plugin_env \<Rightarrow> plugin_command \<Rightarrow> (string \<times> ip_addr) list option \<Rightarrow> bytes
       \<Rightarrow> sql_error + database \<Rightarrow> 'w \<Rightarrow> ('h, 'w) plugin_outcome \<times> 'w" where
  "plugin_main P cmd ifs random conn w =
     (case plugin_config_of (pe_env P) ifs (command.truncate cmd) of
        Inl _ \<Rightarrow> (PluginExit None, w)
      | Inr cfg \<Rightarrow>
          (case open_database conn of
             Inl _ \<Rightarrow> (PluginExit None, w)
           | Inr d \<Rightarrow>
               (case load_config (pe_settings P) d of
                  (Inl _, d) \<Rightarrow> (PluginExit (Some d), w)
                | (Inr config, d) \<Rightarrow>
                    if length (hrc_module_configs (gc_radio config)) \<le> cmd_rns_module cmd
                    then (PluginExit (Some d), w)
                    else (case load_or_create_named_seed random (cmd_seed_key cmd) d of
                            (Inl _, d) \<Rightarrow> (PluginExit (Some d), w)
                          | (Inr seed, d) \<Rightarrow> run_plugin P cmd cfg config seed d w))))"

section \<open>Lemmas\<close>

lemma run_plugin_running:
  assumes "run_plugin P cmd cfg config seed d w = (PluginRunning seed' d' a, w1)"
  shows "seed' = seed \<and> d' = d \<and> (\<exists>w2 w3. start_plugin (pe_control P) (pe_mesh P seed) (pe_sock P) cfg w2 = (Some a, w3))"
  using assms by (auto simp: run_plugin_def Let_def split: prod.splits sum.splits option.splits)

lemma plugin_main_running:
  assumes "plugin_main P cmd ifs random conn w = (PluginRunning seed d a, w1)"
  obtains cfg d0 config d1 w2 w3 where
    "plugin_config_of (pe_env P) ifs (command.truncate cmd) = Inr cfg"
    "conn = Inr d0" "db_settings d1 = db_settings d0"
    "load_or_create_named_seed random (cmd_seed_key cmd) d1 = (Inr seed, d)"
    "start_plugin (pe_control P) (pe_mesh P seed) (pe_sock P) cfg w2 = (Some a, w3)"
proof -
  obtain cfg where cfg: "plugin_config_of (pe_env P) ifs (command.truncate cmd) = Inr cfg"
    using assms by (auto simp: plugin_main_def split: sum.splits)
  obtain d1 where d1: "open_database conn = Inr d1"
    using assms cfg by (auto simp: plugin_main_def split: sum.splits)
  obtain config d2 where d2: "load_config (pe_settings P) d1 = (Inr config, d2)"
    using assms cfg d1 by (auto simp: plugin_main_def split: sum.splits prod.splits)
  obtain s d3 where s: "load_or_create_named_seed random (cmd_seed_key cmd) d2 = (Inr s, d3)"
    using assms cfg d1 d2 by (auto simp: plugin_main_def split: sum.splits prod.splits if_splits)
  have "run_plugin P cmd cfg config s d3 w = (PluginRunning seed d a, w1)"
    using assms cfg d1 d2 s by (auto simp: plugin_main_def split: if_splits)
  from run_plugin_running [OF this] obtain w2 w3 where
    same: "seed = s" "d = d3" and start: "start_plugin (pe_control P) (pe_mesh P s) (pe_sock P) cfg w2 = (Some a, w3)"
    by blast
  obtain d0 where d0: "conn = Inr d0" "db_settings d1 = db_settings d0" using open_database_settings [OF d1] by blast
  have "db_settings d2 = db_settings d0" using load_config_settings [of "pe_settings P" d1] d2 d0 by simp
  from that [OF cfg d0(1) this] s start same show thesis by simp
qed

section \<open>Properties\<close>


section \<open>Instance\<close>

definition wit_plugin_env :: "(cidr4, string, string, string, string, bytes, sent list) plugin_env" where
  "wit_plugin_env =
     \<lparr>pe_settings = plain_env, pe_env = (\<lambda>n. None),
      pe_client = \<lparr>rc_set_radio_config = (\<lambda>i r w. (Inr (), w)), rc_set_modulation = (\<lambda>i m w. (Inr (), w)),
        rc_transmit = (\<lambda>i p w. (Inr (), w)), rc_frame_size = 2048\<rparr>,
      pe_connect = (\<lambda>a w. (Inr (), w)), pe_spawn = (\<lambda>i w. w), pe_control = wit_control,
      pe_mesh = (\<lambda>seed. wit_mesh), pe_sock = wit_sock\<rparr>"

definition wit_plugin_command :: plugin_command where
  "wit_plugin_command = command.extend (wit_command\<lparr>cmd_diagnostics_control_listen := None\<rparr>)
     \<lparr>cmd_kaonic_ctrl_server = None, cmd_rns_module = 1, cmd_seed_key = DEFAULT_SEED_KEY\<rparr>"

definition wit_interfaces :: "(string \<times> ip_addr) list option" where
  "wit_interfaces = Some [(''br0'', V4 (mk_ipv4 192 168 10 1))]"

lemma wit_plugin_config:
  "plugin_config_of (pe_env wit_plugin_env) wit_interfaces (command.truncate wit_plugin_command) = Inr wit_plugin"
  by (simp add: wit_plugin_env_def wit_plugin_command_def command.defs wit_interfaces_def plugin_config_of_def wit_command_def
      configured_ipv4_def non_empty_env_def wit_plugin_def wit_local_def select_local_interface_def
      selection_matches_def auto_detect_def load_interface_candidates_def List.map_filter_def is_loopback_v4_def
      octets_mk_ipv4 is_kaonic_lan_addr_def env_flag_enabled_def to_local_interface_def
      configured_diagnostics_unix_socket_def configured_diagnostics_udp_addr_def
      validate_diagnostics_unix_socket_path_def DEFAULT_DIAGNOSTICS_UNIX_SOCKET_def)

lemma wit_plugin_runs:
  assumes "db_faults d = []" "fst (load_config plain_env d) = Inr config" "length (hrc_module_configs (gc_radio config)) = 2"
  shows "\<exists>seed d' a w. plugin_main wit_plugin_env wit_plugin_command wit_interfaces random (Inr d) [] = (PluginRunning seed d' a, w)
    \<and> db_faults d' = []"
proof -
  have opens: "open_database (Inr d) = Inr d"
    using assms(1) by (simp add: open_database_def and_then_def migrate_def statement_no_faults)
  have load: "load_config (pe_settings wit_plugin_env) d = (Inr config, d)"
    using assms(2) load_config_same [OF assms(1), of plain_env] by (metis prod.collapse plugin_env.select_convs(1) wit_plugin_env_def)
  obtain seed d1 where s: "load_or_create_named_seed random DEFAULT_SEED_KEY d = (Inr seed, d1)" "db_faults d1 = []"
    using load_or_create_total [OF assms(1)] by (fastforce simp: load_or_create_named_seed_def)
  obtain a w where a: "start_plugin wit_control wit_mesh wit_sock wit_plugin [] = (Some a, w)" using wit_start by blast
  have cmd: "cmd_rns_module wit_plugin_command = 1" "cmd_seed_key wit_plugin_command = DEFAULT_SEED_KEY"
    by (simp_all add: wit_plugin_command_def command.defs)
  have "run_plugin wit_plugin_env wit_plugin_command wit_plugin config seed d1 [] = (PluginRunning seed d1 a, w)"
    using assms(3) a cmd by (simp add: run_plugin_def wit_plugin_env_def attach_selected_radio_interface_def apply_module_def Let_def)
  then show ?thesis
    using s assms(3) cmd by (simp add: plugin_main_def wit_plugin_config opens load)
qed


end
