(* ===== verification/Gw_Audio.thy ===== *)
theory Gw_Audio
  imports Gw_System
begin

text \<open>
  The audio service of the gateway (\<open>kaonic-gateway/src/audio.rs\<close>, the Linux variant) and its request
  handlers. The sound system is reached only through the programs \<open>amixer\<close>, \<open>alsactl\<close> and \<open>aplay\<close> and
  the file \<open>/proc/asound/cards\<close>. The service itself keeps the volumes of the controls that it muted by
  setting their volume to zero. The blocking tasks run to their end and no lock is poisoned, so
  \<open>TaskJoin\<close> and \<open>StatePoisoned\<close> do not arise; \<open>usize\<close> has 32 bits.
\<close>

datatype audio_output = Speaker | Headphones | Microphone

definition audio_output_parse :: "string \<Rightarrow> audio_output option" where
  "audio_output_parse v =
     (if v = ''speaker'' then Some Speaker else if v = ''headphones'' then Some Headphones
      else if v = ''microphone'' then Some Microphone else None)"

fun audio_output_id :: "audio_output \<Rightarrow> string" where
  "audio_output_id Speaker = ''speaker''"
| "audio_output_id Headphones = ''headphones''"
| "audio_output_id Microphone = ''microphone''"

fun audio_output_label :: "audio_output \<Rightarrow> string" where
  "audio_output_label Speaker = ''Speaker''"
| "audio_output_label Headphones = ''Headphones''"
| "audio_output_label Microphone = ''Microphone''"

fun preferred_controls :: "audio_output \<Rightarrow> string list" where
  "preferred_controls Speaker = [''Speaker'', ''Master'', ''PCM'', ''Line Out'', ''Playback'']"
| "preferred_controls Headphones = [''Headphone'', ''Headphones'', ''Headset'', ''Headset Playback'']"
| "preferred_controls Microphone =
     [''Capture'', ''Mic'', ''Microphone'', ''Internal Mic'', ''Headset Mic'']"

fun fallback_fragments :: "audio_output \<Rightarrow> string list" where
  "fallback_fragments Speaker = [''speaker'', ''master'', ''pcm'', ''playback'', ''line out'']"
| "fallback_fragments Headphones = [''head'', ''headphone'', ''headset'']"
| "fallback_fragments Microphone = [''mic'', ''capture'']"

fun switch_tokens :: "audio_output \<Rightarrow> string \<times> string" where
  "switch_tokens Speaker = (''unmute'', ''mute'')"
| "switch_tokens Headphones = (''unmute'', ''mute'')"
| "switch_tokens Microphone = (''cap'', ''nocap'')"

fun preferred_switch_controls :: "audio_output \<Rightarrow> string list" where
  "preferred_switch_controls Speaker =
     [''Speaker Playback Switch'', ''Master Playback Switch'', ''PCM Playback Switch'', ''Line Out Playback Switch'']"
| "preferred_switch_controls Headphones =
     [''Headphone Playback Switch'', ''Headphones Playback Switch'', ''Headset Playback Switch'']"
| "preferred_switch_controls Microphone =
     [''Capture Switch'', ''Mic Capture Switch'', ''Microphone Capture Switch'', ''Headset Mic Capture Switch'']"

fun fallback_switch_fragments :: "audio_output \<Rightarrow> string list" where
  "fallback_switch_fragments Speaker = [''speaker switch'', ''master switch'', ''pcm switch'', ''line out switch'']"
| "fallback_switch_fragments Headphones = [''headphone switch'', ''headset switch'', ''head switch'']"
| "fallback_switch_fragments Microphone = [''capture switch'', ''mic switch'']"

datatype audio_error =
    InvalidVolume nat
  | AudioCommandIo string string
  | AudioCommandFailed string string
  | UnexpectedOutput string
  | NotFound string

record audio_control_state =
  ac_volume :: nat
  ac_muted :: bool

definition validate_volume :: "audio_control_state \<Rightarrow> audio_error + audio_control_state" where
  "validate_volume s = (if ac_volume s > 100 then Inl (InvalidVolume (ac_volume s)) else Inr s)"

record audio_control_snapshot =
  as_control_id :: string
  as_label :: string
  as_volume :: nat
  as_muted :: bool
  as_backend :: string

definition audio_snapshot :: "audio_output \<Rightarrow> audio_control_state \<Rightarrow> string \<Rightarrow> audio_control_snapshot" where
  "audio_snapshot kind s b =
     \<lparr>as_control_id = audio_output_id kind, as_label = audio_output_label kind,
      as_volume = ac_volume s, as_muted = ac_muted s, as_backend = b\<rparr>"

record audio_card_snapshot =
  acs_card_id :: nat
  acs_card_name :: string
  acs_controls :: "audio_control_snapshot list"

record linux_audio_card =
  lac_index :: nat
  lac_name :: string
  lac_controls :: "string list"

record resolved_control =
  rc_volume_control :: string
  rc_switch_control :: "string option"

section \<open>Programs\<close>

definition amixer_command :: "string list \<Rightarrow> string" where
  "amixer_command args = ''amixer '' @ join_with '' '' args"

definition run_amixer :: "'w sys_ops \<Rightarrow> string list \<Rightarrow> ('w, audio_error, string) fallible" where
  "run_amixer S args w =
     (let command = amixer_command args in
      case exec (so_os S) ''amixer'' args w of
        (Inl source, w) \<Rightarrow> (Inl (AudioCommandIo command source), w)
      | (Inr out, w) \<Rightarrow>
          if \<not> po_success out then (Inl (AudioCommandFailed command (output_message out)), w)
          else (let stdout = from_utf8_lossy (po_stdout out) in
                if trim stdout = [] then (Inl (UnexpectedOutput ''amixer returned empty stdout''), w)
                else (Inr stdout, w)))"

definition run_alsactl_store :: "'w sys_ops \<Rightarrow> nat \<Rightarrow> ('w, audio_error) action" where
  "run_alsactl_store S card_id w =
     (let command = ''alsactl store '' @ dec_str card_id in
      case exec (so_os S) ''alsactl'' [''store'', dec_str card_id] w of
        (Inl source, w) \<Rightarrow> (Inl (AudioCommandIo command source), w)
      | (Inr out, w) \<Rightarrow>
          if po_success out then (Inr (), w)
          else (Inl (AudioCommandFailed command (output_message out)), w))"

definition run_aplay :: "'w sys_ops \<Rightarrow> string list \<Rightarrow> ('w, audio_error) action" where
  "run_aplay S args w =
     (let command = ''aplay '' @ join_with '' '' args in
      case exec (so_os S) ''aplay'' args w of
        (Inl source, w) \<Rightarrow> (Inl (AudioCommandIo command source), w)
      | (Inr out, w) \<Rightarrow>
          if po_success out then (Inr (), w)
          else (Inl (AudioCommandFailed command (output_message out)), w))"

definition SAMPLE_PATHS :: "string list" where
  "SAMPLE_PATHS =
     [''/usr/share/sounds/alsa/FrontCenter.wav'', ''/usr/share/sounds/alsa/Front_Center.wav'']"

definition find_alsa_sample_path :: "'w sys_ops \<Rightarrow> ('w, audio_error, string) fallible" where
  "find_alsa_sample_path S w =
     (case find_first (\<lambda>p. so_exists S p w) SAMPLE_PATHS of
        Some p \<Rightarrow> (Inr p, w)
      | None \<Rightarrow> (Inl (NotFound ''ALSA FrontCenter sample''), w))"

definition play_sample_linux :: "'w sys_ops \<Rightarrow> nat \<Rightarrow> ('w, audio_error) action" where
  "play_sample_linux S card_id =
     and_do (find_alsa_sample_path S) (\<lambda>sample w.
       case run_aplay S [''-q'', ''-D'', ''plughw:'' @ dec_str card_id, sample] w of
         (Inl _, w) \<Rightarrow> run_aplay S [''-q'', ''-D'', ''hw:'' @ dec_str card_id, sample] w
       | (Inr _, w) \<Rightarrow> (Inr (), w))"

section \<open>Parsing\<close>

text \<open>\<open>str::split_once\<close> with a string, and the second piece of \<open>str::split\<close> with a string.\<close>

definition split_once_str :: "string \<Rightarrow> string \<Rightarrow> (string \<times> string) option" where
  "split_once_str p s = map_option (\<lambda>i. (take i s, drop (i + length p) s)) (str_find p s)"

definition second_piece :: "string \<Rightarrow> string \<Rightarrow> string option" where
  "second_piece p s =
     (case split_once_str p s of
        None \<Rightarrow> None
      | Some (_, rest) \<Rightarrow>
          (case split_once_str p rest of None \<Rightarrow> Some rest | Some (piece, _) \<Rightarrow> Some piece))"

definition last_option :: "'a list \<Rightarrow> 'a option" where
  "last_option xs = (if xs = [] then None else Some (last xs))"

fun switch_word :: "string \<Rightarrow> bool option" where
  "switch_word v =
     (if v = ''on'' then Some False else if v = ''off'' then Some True
      else if v = ''cap'' then Some False else if v = ''nocap'' then Some True else None)"

definition parse_amixer_switch_state :: "string \<Rightarrow> bool option" where
  "parse_amixer_switch_state stdout =
     last_option (List.map_filter (\<lambda>segment.
       case split_once CHR '']'' segment of None \<Rightarrow> None | Some (v, _) \<Rightarrow> switch_word (trim v))
       (split_on CHR ''['' stdout))"

definition parse_amixer_state :: "string \<Rightarrow> audio_error + audio_control_state" where
  "parse_amixer_state stdout =
     (case last_option (List.map_filter (\<lambda>segment.
             case split_once_str ''%]'' segment of None \<Rightarrow> None | Some (v, _) \<Rightarrow> parse_uint 255 (trim v))
             (split_on CHR ''['' stdout)) of
        None \<Rightarrow> Inl (UnexpectedOutput (trim stdout))
      | Some volume \<Rightarrow>
          validate_volume
            \<lparr>ac_volume = volume,
             ac_muted = (case parse_amixer_switch_state stdout of Some m \<Rightarrow> m | None \<Rightarrow> False)\<rparr>)"

definition parse_amixer_controls :: "string \<Rightarrow> string list" where
  "parse_amixer_controls stdout =
     List.map_filter (\<lambda>line.
       case split_once CHR 0x27 line of
         None \<Rightarrow> None
       | Some (_, rest) \<Rightarrow> map_option fst (split_once CHR 0x27 rest)) (str_lines stdout)"

section \<open>Cards and their controls\<close>

definition resolve_named_control :: "string list \<Rightarrow> string list \<Rightarrow> string list \<Rightarrow> string option" where
  "resolve_named_control controls preferred fragments =
     (case find_map (\<lambda>name. find_first (\<lambda>c. c = name) controls) preferred of
        Some found \<Rightarrow> Some found
      | None \<Rightarrow>
          find_map (\<lambda>fragment. find_first (\<lambda>c. str_contains fragment (map to_ascii_lower c)) controls) fragments)"

definition resolve_audio_controls_for_card :: "linux_audio_card \<Rightarrow> audio_output \<Rightarrow> audio_error + resolved_control" where
  "resolve_audio_controls_for_card crd kind =
     (case resolve_named_control (lac_controls crd) (preferred_controls kind) (fallback_fragments kind) of
        None \<Rightarrow> Inl (NotFound (audio_output_label kind @ '' control on card '' @ dec_str (lac_index crd)
                     @ '' ('' @ lac_name crd @ '')''))
      | Some volume_control \<Rightarrow>
          Inr \<lparr>rc_volume_control = volume_control,
               rc_switch_control =
                 (case resolve_named_control (lac_controls crd) (preferred_switch_controls kind)
                         (fallback_switch_fragments kind) of
                    Some c \<Rightarrow> if c \<noteq> volume_control then Some c else None
                  | None \<Rightarrow> None)\<rparr>)"

text \<open>The index and the name on a line of \<open>/proc/asound/cards\<close>.\<close>

definition card_line :: "string \<Rightarrow> (nat \<times> string) option" where
  "card_line line =
     (let trimmed = trim_start line in
      if trimmed = [] \<or> \<not> is_ascii_digit (hd trimmed) then None
      else (case split_once CHR '' '' trimmed of
              None \<Rightarrow> None
            | Some (index_raw, rest) \<Rightarrow>
                (case parse_uint 4294967295 index_raw of
                   None \<Rightarrow> None
                 | Some index \<Rightarrow>
                     (let pieces = split_on CHR ''['' rest;
                          bracket = (if length pieces < 2 then [] else trim (hd (split_on CHR '']'' (pieces ! 1))));
                          bracket_name = (if bracket = [] then ''Audio'' else bracket);
                          long = (case second_piece '' - '' rest of None \<Rightarrow> [] | Some v \<Rightarrow> trim v)
                      in Some (index, if long = [] then bracket_name else long)))))"

fun read_cards :: "'w sys_ops \<Rightarrow> string list \<Rightarrow> ('w, audio_error, linux_audio_card list) fallible" where
  "read_cards S [] = return_ok []"
| "read_cards S (line # rest) =
     (case card_line line of
        None \<Rightarrow> read_cards S rest
      | Some (index, name) \<Rightarrow>
          and_do (run_amixer S [''-c'', dec_str index, ''scontrols'']) (\<lambda>out.
          and_do (read_cards S rest) (\<lambda>cards.
            return_ok (\<lparr>lac_index = index, lac_name = name, lac_controls = parse_amixer_controls out\<rparr> # cards))))"

definition enumerate_audio_cards_linux :: "'w sys_ops \<Rightarrow> ('w, audio_error, linux_audio_card list) fallible" where
  "enumerate_audio_cards_linux S w =
     (case so_read_file S ''/proc/asound/cards'' w of
        Inl e \<Rightarrow> (Inl (UnexpectedOutput (''/proc/asound/cards: '' @ e)), w)
      | Inr text \<Rightarrow> read_cards S (str_lines text) w)"

definition find_audio_card_linux :: "'w sys_ops \<Rightarrow> nat \<Rightarrow> ('w, audio_error, linux_audio_card) fallible" where
  "find_audio_card_linux S card_id =
     and_do (enumerate_audio_cards_linux S) (\<lambda>cards.
       case find_first (\<lambda>c. lac_index c = card_id) cards of
         None \<Rightarrow> fail_with (NotFound (''audio card '' @ dec_str card_id))
       | Some crd \<Rightarrow> return_ok crd)"

text \<open>A value of type \<open>Result\<close> inside an operation on the world: the operator \<open>?\<close>.\<close>

definition lift_result :: "'e + 'a \<Rightarrow> ('w, 'e, 'a) fallible" where
  "lift_result r = (\<lambda>w. (r, w))"

definition read_audio_control_from_card ::
    "'w sys_ops \<Rightarrow> linux_audio_card \<Rightarrow> audio_output \<Rightarrow> ('w, audio_error, audio_control_state) fallible" where
  "read_audio_control_from_card S crd kind =
     and_do (lift_result (resolve_audio_controls_for_card crd kind)) (\<lambda>control.
     and_do (run_amixer S [''-c'', dec_str (lac_index crd), ''sget'', rc_volume_control control]) (\<lambda>stdout.
     and_do (lift_result (parse_amixer_state stdout)) (\<lambda>state.
       case rc_switch_control control of
         None \<Rightarrow> return_ok state
       | Some switch_control \<Rightarrow>
           and_do (run_amixer S [''-c'', dec_str (lac_index crd), ''sget'', switch_control]) (\<lambda>switch_stdout.
             return_ok (case parse_amixer_switch_state switch_stdout of
                          Some muted \<Rightarrow> state\<lparr>ac_muted := muted\<rparr>
                        | None \<Rightarrow> state)))))"

definition alsa_label :: "audio_output \<Rightarrow> string" where
  "alsa_label kind = ''ALSA '' @ audio_output_label kind"

fun card_snapshots ::
    "'w sys_ops \<Rightarrow> linux_audio_card \<Rightarrow> audio_output list \<Rightarrow> 'w \<Rightarrow> audio_control_snapshot list \<times> 'w" where
  "card_snapshots S crd [] w = ([], w)"
| "card_snapshots S crd (kind # kinds) w =
     (case read_audio_control_from_card S crd kind w of
        (Inl _, w) \<Rightarrow> card_snapshots S crd kinds w
      | (Inr state, w) \<Rightarrow>
          (case card_snapshots S crd kinds w of
             (snaps, w) \<Rightarrow> (audio_snapshot kind state (alsa_label kind) # snaps, w)))"

fun snapshot_cards :: "'w sys_ops \<Rightarrow> linux_audio_card list \<Rightarrow> 'w \<Rightarrow> audio_card_snapshot list \<times> 'w" where
  "snapshot_cards S [] w = ([], w)"
| "snapshot_cards S (crd # cards) w =
     (case card_snapshots S crd [Speaker, Headphones, Microphone] w of
        (snaps, w) \<Rightarrow>
          (case snapshot_cards S cards w of
             (rest, w) \<Rightarrow>
               (\<lparr>acs_card_id = lac_index crd, acs_card_name = lac_name crd, acs_controls = snaps\<rparr> # rest, w)))"

definition list_audio_cards_linux :: "'w sys_ops \<Rightarrow> ('w, audio_error, audio_card_snapshot list) fallible" where
  "list_audio_cards_linux S =
     and_do (enumerate_audio_cards_linux S) (\<lambda>cards w.
       case snapshot_cards S cards w of (snaps, w) \<Rightarrow> (Inr snaps, w))"

definition read_audio_control_linux ::
    "'w sys_ops \<Rightarrow> nat \<Rightarrow> audio_output \<Rightarrow> ('w, audio_error, audio_control_snapshot) fallible" where
  "read_audio_control_linux S card_id kind =
     and_do (find_audio_card_linux S card_id) (\<lambda>crd.
     and_do (read_audio_control_from_card S crd kind) (\<lambda>state.
       return_ok (audio_snapshot kind state (alsa_label kind))))"

definition write_linux_control ::
    "'w sys_ops \<Rightarrow> nat \<Rightarrow> resolved_control \<Rightarrow> audio_control_state \<Rightarrow> string \<times> string \<Rightarrow> ('w, audio_error) action" where
  "write_linux_control S card_id control state tokens =
     (let switch = (if ac_muted state then snd tokens else fst tokens);
          volume = dec_str (ac_volume state) @ ''%''
      in and_do (run_amixer S [''-c'', dec_str card_id, ''sset'', rc_volume_control control, volume]) (\<lambda>_.
           case rc_switch_control control of
             None \<Rightarrow> return_ok ()
           | Some switch_control \<Rightarrow>
               and_do (run_amixer S [''-c'', dec_str card_id, ''sset'', switch_control, switch]) (\<lambda>_. return_ok ())))"

definition write_audio_control_linux ::
    "'w sys_ops \<Rightarrow> nat \<Rightarrow> audio_output \<Rightarrow> audio_control_state \<Rightarrow> ('w, audio_error, audio_control_snapshot) fallible" where
  "write_audio_control_linux S card_id kind state =
     and_do (find_audio_card_linux S card_id) (\<lambda>crd.
     and_do (lift_result (resolve_audio_controls_for_card crd kind)) (\<lambda>control.
     and_do (write_linux_control S (lac_index crd) control state (switch_tokens kind)) (\<lambda>_.
       read_audio_control_linux S card_id kind)))"

definition test_audio_control_linux ::
    "'w sys_ops \<Rightarrow> nat \<Rightarrow> audio_output \<Rightarrow> ('w, audio_error, audio_control_snapshot) fallible" where
  "test_audio_control_linux S card_id kind =
     (if kind \<noteq> Microphone then
        and_do (find_audio_card_linux S card_id) (\<lambda>crd.
        and_do (play_sample_linux S (lac_index crd)) (\<lambda>_.
          read_audio_control_linux S card_id kind))
      else (\<lambda>w. case find_audio_card_linux S card_id w of
              (r, w) \<Rightarrow>
                (Inl (NotFound (''test playback for '' @ audio_output_label kind @ '' on card '' @ dec_str card_id @ '' (''
                        @ (case r of Inr crd \<Rightarrow> lac_name crd | Inl _ \<Rightarrow> ''unknown'') @ '')'')), w)))"

definition save_audio_card_linux :: "'w sys_ops \<Rightarrow> nat \<Rightarrow> ('w, audio_error, string) fallible" where
  "save_audio_card_linux S card_id =
     and_do (find_audio_card_linux S card_id) (\<lambda>crd.
     and_do (run_alsactl_store S (lac_index crd)) (\<lambda>_.
       return_ok (''Saved '' @ lac_name crd @ '' settings'')))"

definition control_has_switch_linux :: "'w sys_ops \<Rightarrow> nat \<Rightarrow> audio_output \<Rightarrow> ('w, audio_error, bool) fallible" where
  "control_has_switch_linux S card_id kind =
     and_do (find_audio_card_linux S card_id) (\<lambda>crd.
     and_do (lift_result (resolve_audio_controls_for_card crd kind)) (\<lambda>control.
       return_ok (rc_switch_control control \<noteq> None)))"

section \<open>The service\<close>

record 'w audio_service =
  au_soft_mute_levels :: "((nat \<times> audio_output) \<times> nat) list"
  au_world :: 'w

definition on_mixer :: "('w, audio_error, 'a) fallible \<Rightarrow> ('w audio_service, audio_error, 'a) fallible" where
  "on_mixer m s = (case m (au_world s) of (r, w) \<Rightarrow> (r, s\<lparr>au_world := w\<rparr>))"

definition soft_mute_level :: "nat \<Rightarrow> audio_output \<Rightarrow> 'w audio_service \<Rightarrow> nat option" where
  "soft_mute_level card_id kind s = map_of (au_soft_mute_levels s) (card_id, kind)"

definition set_soft_mute_level :: "nat \<Rightarrow> audio_output \<Rightarrow> nat \<Rightarrow> 'w audio_service \<Rightarrow> 'w audio_service" where
  "set_soft_mute_level card_id kind volume s =
     s\<lparr>au_soft_mute_levels := AList.update (card_id, kind) volume (au_soft_mute_levels s)\<rparr>"

definition clear_soft_mute_level :: "nat \<Rightarrow> audio_output \<Rightarrow> 'w audio_service \<Rightarrow> 'w audio_service" where
  "clear_soft_mute_level card_id kind s =
     s\<lparr>au_soft_mute_levels := AList.delete (card_id, kind) (au_soft_mute_levels s)\<rparr>"

definition read_control ::
    "'w sys_ops \<Rightarrow> nat \<Rightarrow> audio_output \<Rightarrow> ('w audio_service, audio_error, audio_control_snapshot) fallible" where
  "read_control S card_id kind =
     and_do (on_mixer (read_audio_control_linux S card_id kind)) (\<lambda>snapshot.
     and_do (on_mixer (control_has_switch_linux S card_id kind)) (\<lambda>has_switch s.
       if \<not> has_switch \<and> as_volume snapshot = 0
       then (case soft_mute_level card_id kind s of
               Some saved \<Rightarrow> (Inr (snapshot\<lparr>as_volume := saved, as_muted := True\<rparr>), s)
             | None \<Rightarrow> (Inr snapshot, s))
       else (Inr snapshot, s)))"

definition write_control ::
    "'w sys_ops \<Rightarrow> nat \<Rightarrow> audio_output \<Rightarrow> audio_control_state
       \<Rightarrow> ('w audio_service, audio_error, audio_control_snapshot) fallible" where
  "write_control S card_id kind requested =
     and_do (lift_result (validate_volume requested)) (\<lambda>state.
     and_do (on_mixer (control_has_switch_linux S card_id kind)) (\<lambda>has_switch.
       if has_switch then on_mixer (write_audio_control_linux S card_id kind state)
       else if ac_muted state then
         (\<lambda>s. let s = (if ac_volume state > 0 then set_soft_mute_level card_id kind (ac_volume state) s else s) in
            and_do (on_mixer (write_audio_control_linux S card_id kind \<lparr>ac_volume = 0, ac_muted = False\<rparr>)) (\<lambda>_ s.
              (Inr (audio_snapshot kind
                      \<lparr>ac_volume = (case soft_mute_level card_id kind s of Some l \<Rightarrow> l | None \<Rightarrow> ac_volume state),
                       ac_muted = True\<rparr> (alsa_label kind)), s)) s)
       else
         (\<lambda>s. let s = (if ac_volume state > 0 then set_soft_mute_level card_id kind (ac_volume state) s
                       else clear_soft_mute_level card_id kind s)
              in on_mixer (write_audio_control_linux S card_id kind state) s)))"

definition read_output :: "'w sys_ops \<Rightarrow> audio_output \<Rightarrow> ('w audio_service, audio_error, audio_control_snapshot) fallible" where
  "read_output S kind = read_control S 0 kind"

definition write_output ::
    "'w sys_ops \<Rightarrow> audio_output \<Rightarrow> audio_control_state
       \<Rightarrow> ('w audio_service, audio_error, audio_control_snapshot) fallible" where
  "write_output S kind requested =
     and_do (lift_result (validate_volume requested)) (\<lambda>state. write_control S 0 kind state)"

definition list_cards :: "'w sys_ops \<Rightarrow> ('w audio_service, audio_error, audio_card_snapshot list) fallible" where
  "list_cards S = on_mixer (list_audio_cards_linux S)"

definition test_control ::
    "'w sys_ops \<Rightarrow> nat \<Rightarrow> audio_output \<Rightarrow> ('w audio_service, audio_error, audio_control_snapshot) fallible" where
  "test_control S card_id kind = on_mixer (test_audio_control_linux S card_id kind)"

definition save_card :: "'w sys_ops \<Rightarrow> nat \<Rightarrow> ('w audio_service, audio_error, string) fallible" where
  "save_card S card_id = on_mixer (save_audio_card_linux S card_id)"

section \<open>Request handlers\<close>

fun map_audio_error :: "audio_error \<Rightarrow> nat" where
  "map_audio_error (InvalidVolume _) = BAD_REQUEST"
| "map_audio_error (NotFound _) = NOT_FOUND"
| "map_audio_error (AudioCommandIo _ _) = INTERNAL_SERVER_ERROR"
| "map_audio_error (AudioCommandFailed _ _) = INTERNAL_SERVER_ERROR"
| "map_audio_error (UnexpectedOutput _) = INTERNAL_SERVER_ERROR"

definition with_output :: "string \<Rightarrow> (audio_output \<Rightarrow> ('s, audio_error, 'a) fallible) \<Rightarrow> ('s, nat, 'a) fallible" where
  "with_output v f s =
     (case audio_output_parse v of
        None \<Rightarrow> (Inl NOT_FOUND, s)
      | Some kind \<Rightarrow> map_err map_audio_error (f kind s))"

definition get_audio :: "'w sys_ops \<Rightarrow> string \<Rightarrow> ('w audio_service, nat, audio_control_snapshot) fallible" where
  "get_audio S v = with_output v (read_output S)"

definition get_audio_cards :: "'w sys_ops \<Rightarrow> ('w audio_service, nat, audio_card_snapshot list) fallible" where
  "get_audio_cards S s = map_err map_audio_error (list_cards S s)"

definition get_audio_control ::
    "'w sys_ops \<Rightarrow> nat \<Rightarrow> string \<Rightarrow> ('w audio_service, nat, audio_control_snapshot) fallible" where
  "get_audio_control S card_id v = with_output v (read_control S card_id)"

definition put_audio ::
    "'w sys_ops \<Rightarrow> string \<Rightarrow> nat \<Rightarrow> bool \<Rightarrow> ('w audio_service, nat, audio_control_snapshot) fallible" where
  "put_audio S v volume muted =
     with_output v (\<lambda>kind. write_output S kind \<lparr>ac_volume = volume, ac_muted = muted\<rparr>)"

definition put_audio_control ::
    "'w sys_ops \<Rightarrow> nat \<Rightarrow> string \<Rightarrow> nat \<Rightarrow> bool \<Rightarrow> ('w audio_service, nat, audio_control_snapshot) fallible" where
  "put_audio_control S card_id v volume muted =
     with_output v (\<lambda>kind. write_control S card_id kind \<lparr>ac_volume = volume, ac_muted = muted\<rparr>)"

definition post_audio_control_test ::
    "'w sys_ops \<Rightarrow> nat \<Rightarrow> string \<Rightarrow> ('w audio_service, nat, audio_control_snapshot) fallible" where
  "post_audio_control_test S card_id v = with_output v (test_control S card_id)"

definition post_audio_card_save :: "'w sys_ops \<Rightarrow> nat \<Rightarrow> ('w audio_service, nat, string) fallible" where
  "post_audio_card_save S card_id s = map_err map_audio_error (save_card S card_id s)"

section \<open>What amixer documents\<close>

text \<open>
  Listing the controls and reading one change nothing. A volume that was set to \<open>0%\<close> reads as zero next,
  and setting it changes neither the cards nor their lists of controls.
\<close>

definition reads_change_nothing :: "'w sys_ops \<Rightarrow> bool" where
  "reads_change_nothing S \<longleftrightarrow>
     (\<forall>c w. snd (exec (so_os S) ''amixer'' [''-c'', c, ''scontrols''] w) = w)
     \<and> (\<forall>c ctl w. snd (exec (so_os S) ''amixer'' [''-c'', c, ''sget'', ctl] w) = w)"

definition same_cards :: "'w sys_ops \<Rightarrow> 'w \<Rightarrow> 'w \<Rightarrow> bool" where
  "same_cards S w w' \<longleftrightarrow>
     so_read_file S ''/proc/asound/cards'' w' = so_read_file S ''/proc/asound/cards'' w
     \<and> (\<forall>c. fst (exec (so_os S) ''amixer'' [''-c'', c, ''scontrols''] w')
           = fst (exec (so_os S) ''amixer'' [''-c'', c, ''scontrols''] w))"

definition zero_volume_reads_zero :: "'w sys_ops \<Rightarrow> bool" where
  "zero_volume_reads_zero S \<longleftrightarrow>
     (\<forall>c ctl w out w'. run_amixer S [''-c'', c, ''sset'', ctl, ''0%''] w = (Inr out, w') \<longrightarrow>
        same_cards S w w'
        \<and> (\<forall>out' st w''. run_amixer S [''-c'', c, ''sget'', ctl] w' = (Inr out', w'') \<longrightarrow>
              parse_amixer_state out' = Inr st \<longrightarrow> ac_volume st = 0))"

section \<open>Lemmas\<close>

lemma run_amixer_world: "snd (run_amixer S args w) = snd (exec (so_os S) ''amixer'' args w)"
  by (auto simp: run_amixer_def Let_def split: prod.split sum.split)

lemma run_amixer_reads:
  assumes "reads_change_nothing S"
  shows "snd (run_amixer S [''-c'', c, ''scontrols''] w) = w" "snd (run_amixer S [''-c'', c, ''sget'', ctl] w) = w"
  using assms by (simp_all add: run_amixer_world reads_change_nothing_def)

lemma run_amixer_result:
  "fst (exec (so_os S) ''amixer'' args w') = fst (exec (so_os S) ''amixer'' args w) \<Longrightarrow>
   fst (run_amixer S args w') = fst (run_amixer S args w)"
  by (auto simp: run_amixer_def Let_def split: prod.split sum.split)

text \<open>An operation that leaves the world alone, and one whose result is the same in two worlds.\<close>

definition read_only :: "('w, 'e, 'a) fallible \<Rightarrow> bool" where
  "read_only m \<longleftrightarrow> (\<forall>w. snd (m w) = w)"

lemma read_onlyI: "(\<And>w. snd (m w) = w) \<Longrightarrow> read_only m"
  by (simp add: read_only_def)

lemma read_onlyE: "read_only m \<Longrightarrow> snd (m w) = w"
  by (simp add: read_only_def)

lemma read_only_and_do:
  assumes "read_only m" "\<And>x. read_only (f x)"
  shows "read_only (and_do m f)"
proof (rule read_onlyI)
  fix w
  show "snd (and_do m f w) = w"
    using read_onlyE [OF assms(1), of w] read_onlyE [OF assms(2)]
    by (cases "m w"; cases "fst (m w)") (auto simp: and_do_def)
qed

lemma read_only_basic [simp]: "read_only (return_ok x)" "read_only (fail_with e)" "read_only (lift_result r)"
  by (simp_all add: read_only_def return_ok_def fail_with_def lift_result_def)

lemma read_onlyD: "read_only m \<Longrightarrow> m w = (r, w') \<Longrightarrow> w' = w"
  by (metis read_only_def snd_conv)

lemma read_only_result: "read_only m \<Longrightarrow> m w = (fst (m w), w)"
  by (metis read_only_def prod.collapse)

lemma fst_and_do:
  assumes "read_only m" "fst (m w') = fst (m w)" "\<And>x. fst (f x w') = fst (f x w)"
  shows "fst (and_do m f w') = fst (and_do m f w)"
  using read_only_result [OF assms(1), of w] read_only_result [OF assms(1), of w'] assms(2,3)
  unfolding and_do_def by (cases "fst (m w)") auto

lemma amixer_read_only:
  assumes "reads_change_nothing S"
  shows "read_only (run_amixer S [''-c'', c, ''scontrols''])" "read_only (run_amixer S [''-c'', c, ''sget'', ctl])"
  using run_amixer_reads [OF assms] by (simp_all add: read_only_def)

lemma read_cards_read_only: "reads_change_nothing S \<Longrightarrow> read_only (read_cards S lines)"
proof (induction lines)
  case (Cons line rest)
  note 1 = amixer_read_only(1) [OF Cons.prems] and 2 = Cons.IH [OF Cons.prems]
  show ?case
    by (cases "card_line line") (auto intro!: read_only_and_do 1 2)
qed simp

lemma read_cards_same:
  assumes "reads_change_nothing S" "same_cards S w w'"
  shows "fst (read_cards S lines w') = fst (read_cards S lines w)"
proof (induction lines)
  case (Cons line rest)
  note 1 = read_cards_read_only [OF assms(1), of rest]
  have 2: "fst (and_do (read_cards S rest) (\<lambda>cs. return_ok (g cs)) w')
      = fst (and_do (read_cards S rest) (\<lambda>cs. return_ok (g cs)) w)" for g :: "linux_audio_card list \<Rightarrow> linux_audio_card list"
    by (intro fst_and_do 1 Cons) simp
  have "fst (and_do (run_amixer S [''-c'', dec_str i, ''scontrols'']) (\<lambda>out. and_do (read_cards S rest) (\<lambda>cs. return_ok (g out cs))) w')
      = fst (and_do (run_amixer S [''-c'', dec_str i, ''scontrols'']) (\<lambda>out. and_do (read_cards S rest) (\<lambda>cs. return_ok (g out cs))) w)"
    for i and g :: "string \<Rightarrow> linux_audio_card list \<Rightarrow> linux_audio_card list"
    using assms by (intro fst_and_do 2 run_amixer_result) (simp_all add: same_cards_def read_only_def run_amixer_reads)
  with Cons show ?case by (auto split: option.split)
qed simp

lemma enumerate_read_only: "reads_change_nothing S \<Longrightarrow> read_only (enumerate_audio_cards_linux S)"
  using read_cards_read_only by (fastforce simp: read_only_def enumerate_audio_cards_linux_def split: sum.split)

lemma find_card_read_only: "reads_change_nothing S \<Longrightarrow> read_only (find_audio_card_linux S c)"
  unfolding find_audio_card_linux_def
  by (intro read_only_and_do enumerate_read_only) (auto split: option.split)

lemma find_card_same:
  assumes "reads_change_nothing S" "same_cards S w w'"
  shows "fst (find_audio_card_linux S c w') = fst (find_audio_card_linux S c w)"
proof -
  have "fst (enumerate_audio_cards_linux S w') = fst (enumerate_audio_cards_linux S w)"
    using assms(2) read_cards_same [OF assms]
    by (auto simp: enumerate_audio_cards_linux_def same_cards_def split: sum.split)
  then show ?thesis
    unfolding find_audio_card_linux_def
    by (intro fst_and_do enumerate_read_only assms(1)) (auto split: option.split)
qed

lemma has_switch_same:
  assumes "reads_change_nothing S" "same_cards S w w'"
  shows "fst (control_has_switch_linux S c k w') = fst (control_has_switch_linux S c k w)"
  unfolding control_has_switch_linux_def
  by (intro fst_and_do find_card_read_only find_card_same assms) (auto simp: read_only_def lift_result_def)

lemma has_switch_read_only: "reads_change_nothing S \<Longrightarrow> read_only (control_has_switch_linux S c k)"
  unfolding control_has_switch_linux_def by (intro read_only_and_do find_card_read_only read_only_basic)

lemma read_from_card_read_only:
  assumes "reads_change_nothing S"
  shows "read_only (read_audio_control_from_card S crd k)"
  unfolding read_audio_control_from_card_def
  by (intro read_only_and_do read_only_basic amixer_read_only assms)
    (auto intro!: read_only_and_do amixer_read_only assms split: option.split)

lemma read_linux_read_only: "reads_change_nothing S \<Longrightarrow> read_only (read_audio_control_linux S c k)"
  unfolding read_audio_control_linux_def
  by (intro read_only_and_do find_card_read_only read_from_card_read_only read_only_basic)

lemma dec_str_0: "dec_str 0 = ''0''"
  by (subst dec_str.simps) code_simp

text \<open>Writing a zero to a control without a switch of its own leaves the cards as they were, and reads back as zero.\<close>

lemma write_zero:
  assumes reads: "reads_change_nothing S" and zero: "zero_volume_reads_zero S"
    and no_switch: "control_has_switch_linux S c k w = (Inr False, w0)"
    and run: "write_audio_control_linux S c k \<lparr>ac_volume = 0, ac_muted = False\<rparr> w = (Inr snap, w')"
  shows "same_cards S w w'" "read_audio_control_linux S c k w' = (Inr snap, w')" "as_volume snap = 0"
proof -
  note ro = read_onlyD [OF find_card_read_only [OF reads]] read_onlyD [OF read_linux_read_only [OF reads]]
  obtain crd control where card: "find_audio_card_linux S c w = (Inr crd, w)"
    and control: "resolve_audio_controls_for_card crd k = Inr control" "rc_switch_control control = None"
    using no_switch ro by (fastforce simp: control_has_switch_linux_def and_do_ok lift_result_def)
  obtain out w1 where set: "run_amixer S [''-c'', dec_str (lac_index crd), ''sset'', rc_volume_control control, ''0%''] w = (Inr out, w1)"
    and get: "read_audio_control_linux S c k w1 = (Inr snap, w')"
    using run card control
    by (auto simp: write_audio_control_linux_def and_do_ok lift_result_def write_linux_control_def Let_def dec_str_0)
  have w1: "w1 = w'" using ro(2) [OF get] by simp
  have same: "same_cards S w w1"
    and reads0: "\<And>out' st w''. run_amixer S [''-c'', dec_str (lac_index crd), ''sget'', rc_volume_control control] w1 = (Inr out', w'') \<Longrightarrow>
      parse_amixer_state out' = Inr st \<Longrightarrow> ac_volume st = 0"
    using zero set unfolding zero_volume_reads_zero_def by blast+
  show "same_cards S w w'" "read_audio_control_linux S c k w' = (Inr snap, w')" using same get w1 by simp_all
  have "find_audio_card_linux S c w1 = (Inr crd, w1)"
    using find_card_same [OF reads same, of c] card read_only_result [OF find_card_read_only [OF reads], of c w1] by simp
  with get control reads0 show "as_volume snap = 0"
    by (auto simp: read_audio_control_linux_def read_audio_control_from_card_def and_do_ok lift_result_def audio_snapshot_def)
qed

section \<open>Properties\<close>


section \<open>Instance\<close>

text \<open>A card with one control whose world is the percentage it is set to.\<close>

definition plain_mixer :: "string sys_ops" where
  "plain_mixer =
     \<lparr>so_os = \<lparr>exec = (\<lambda>p args w.
         if length args = 5 then (Inr \<lparr>po_success = True, po_stdout = ''ok'', po_stderr = []\<rparr>, args ! 4)
         else if length args = 4 then (Inr \<lparr>po_success = True, po_stdout = ''['' @ w @ '']'', po_stderr = []\<rparr>, w)
         else (Inr \<lparr>po_success = True, po_stdout = ''Simple mixer control 'Speaker',0'', po_stderr = []\<rparr>, w))\<rparr>,
      so_env = (\<lambda>_. None), so_read_file = (\<lambda>p w. Inr ''0 [Codec]: codec - Codec''), so_exists = (\<lambda>p w. False),
      so_write_file = (\<lambda>p t w. (Inr (), w)), so_create_dir_all = (\<lambda>p w. (Inr (), w)),
      so_remove_file = (\<lambda>p w. (Inr (), w)), so_rename = (\<lambda>p q w. (Inr (), w)),
      so_set_mode = (\<lambda>p m w. (Inr (), w)), so_canonicalize = (\<lambda>p w. None), so_debug_path = (\<lambda>p. p)\<rparr>"

lemma plain_mixer_runs:
  "run_amixer plain_mixer [a, b, ''scontrols''] w = (Inr ''Simple mixer control 'Speaker',0'', w)"
  "run_amixer plain_mixer [a, b, d, ctl, v] w = (Inr ''ok'', v)"
  "run_amixer plain_mixer [a, b, ''sget'', ctl] ''0%'' = (Inr ''[0%]'', ''0%'')"
proof -
  have "from_utf8_lossy ''Simple mixer control 'Speaker',0'' = ''Simple mixer control 'Speaker',0''"
    "trim ''Simple mixer control 'Speaker',0'' = ''Simple mixer control 'Speaker',0''"
    "from_utf8_lossy ''ok'' = ''ok''" "trim ''ok'' = ''ok''" "from_utf8_lossy ''[0%]'' = ''[0%]''" "trim ''[0%]'' = ''[0%]''"
    by code_simp+
  then show
    "run_amixer plain_mixer [a, b, ''scontrols''] w = (Inr ''Simple mixer control 'Speaker',0'', w)"
    "run_amixer plain_mixer [a, b, d, ctl, v] w = (Inr ''ok'', v)"
    "run_amixer plain_mixer [a, b, ''sget'', ctl] ''0%'' = (Inr ''[0%]'', ''0%'')"
    by (simp_all add: run_amixer_def plain_mixer_def Let_def del: from_utf8_lossy.simps)
qed

lemma plain_mixer_card:
  "find_audio_card_linux plain_mixer 0 w
   = (Inr \<lparr>lac_index = 0, lac_name = ''Codec'', lac_controls = [''Speaker'']\<rparr>, w)"
proof -
  have "trim_start ''0 [Codec]: codec - Codec'' = ''0 [Codec]: codec - Codec''"
    "split_once CHR '' '' ''0 [Codec]: codec - Codec'' = Some (''0'', ''[Codec]: codec - Codec'')"
    "is_ascii_digit (CHR ''0'')" "second_piece '' - '' ''[Codec]: codec - Codec'' = Some ''Codec''" "trim ''Codec'' = ''Codec''"
    by code_simp+
  moreover have "parse_uint 4294967295 ''0'' = Some 0" by (simp add: parse_uint_def dec_value_def is_ascii_digit_def)
  ultimately have "card_line ''0 [Codec]: codec - Codec'' = Some (0, ''Codec'')" by (simp add: card_line_def Let_def)
  moreover have "str_lines ''0 [Codec]: codec - Codec'' = [''0 [Codec]: codec - Codec'']"
    "parse_amixer_controls ''Simple mixer control 'Speaker',0'' = [''Speaker'']" by code_simp+
  moreover have "so_read_file plain_mixer p w = Inr ''0 [Codec]: codec - Codec''" for p by (simp add: plain_mixer_def)
  ultimately show ?thesis
    by (simp add: find_audio_card_linux_def enumerate_audio_cards_linux_def and_do_def plain_mixer_runs)
qed

lemma plain_mixer_control:
  "resolve_audio_controls_for_card \<lparr>lac_index = 0, lac_name = ''Codec'', lac_controls = [''Speaker'']\<rparr> Speaker
   = Inr \<lparr>rc_volume_control = ''Speaker'', rc_switch_control = None\<rparr>"
  by code_simp

lemma plain_mixer_reads: "reads_change_nothing plain_mixer"
  by (simp add: reads_change_nothing_def plain_mixer_def)

lemma parse_zero: "parse_amixer_state ''[0%]'' = Inr \<lparr>ac_volume = 0, ac_muted = False\<rparr>"
  by code_simp

lemma plain_mixer_zero: "zero_volume_reads_zero plain_mixer"
  by (auto simp: zero_volume_reads_zero_def plain_mixer_runs parse_zero) (simp add: same_cards_def plain_mixer_def)


end
