(* ===== verification/Gw_Tls.thy ===== *)
theory Gw_Tls
  imports Gw_Sys
begin

text \<open>
  The certificate authority of a device and the certificates of its services
  (\<open>kaonic-gateway/src/local_https.rs\<close>). The cryptographic crates are the parameter \<open>tls_crypto\<close>: keys
  and certificates are of unknown types, and signing draws from the world. The random root key of each call
  is an argument. \<open>tls_sys\<close> adds to \<open>sys_ops\<close> the calls whose errors are told apart.
\<close>

section \<open>Files and cryptography\<close>

datatype read_error = NotFound string | ReadError string

fun read_error_string :: "read_error \<Rightarrow> string" where
  "read_error_string (NotFound e) = e"
| "read_error_string (ReadError e) = e"

record 'w tls_sys = "'w sys_ops" +
  ts_read :: "string \<Rightarrow> 'w \<Rightarrow> read_error + bytes"
  ts_set_permissions :: "string \<Rightarrow> nat \<Rightarrow> ('w, string) action"

datatype key_usage = KeyCertSign | CrlSign | DigitalSignature | KeyEncipherment

record 'san cert_params =
  cp_sans :: "'san list"
  cp_common_name :: string
  cp_organization :: string
  cp_not_before :: "nat \<times> nat \<times> nat"
  cp_not_after :: "nat \<times> nat \<times> nat"
  cp_serial_number :: bytes
  cp_ca_path_length :: "nat option"
  cp_authority_key_identifier :: bool
  cp_key_usages :: "key_usage list"
  cp_server_auth :: bool

record ('sk, 'kp, 'san, 'cert, 'w) tls_crypto =
  tc_sha256 :: "bytes \<Rightarrow> bytes"
  tc_signing_key :: "bytes \<Rightarrow> 'sk option"
  tc_pkcs8 :: "'sk \<Rightarrow> string + bytes"
  tc_key_pair :: "bytes \<Rightarrow> string + 'kp"
  tc_key_der :: "'kp \<Rightarrow> bytes"
  tc_key_pem :: "'kp \<Rightarrow> string"
  tc_sans :: "string list \<Rightarrow> string + 'san list"
  tc_debug_san :: "'san \<Rightarrow> string"
  tc_self_signed :: "'san cert_params \<Rightarrow> 'kp \<Rightarrow> 'w \<Rightarrow> (string + 'cert) \<times> 'w"
  tc_signed_by :: "'san cert_params \<Rightarrow> 'kp \<Rightarrow> 'cert \<Rightarrow> 'kp \<Rightarrow> 'w \<Rightarrow> (string + 'cert) \<times> 'w"
  tc_pem :: "'cert \<Rightarrow> string"

record ('kp, 'cert) root_ca_artifacts =
  ra_cert :: 'cert
  ra_key_pair :: 'kp
  ra_cert_pem :: string
  ra_key_der :: bytes

definition DEFAULT_CERTS_DIR :: string where "DEFAULT_CERTS_DIR = ''/etc/kaonic/certs''"
definition ROOT_CA_CERT_FILE :: string where "ROOT_CA_CERT_FILE = ''rootca.crt''"
definition ROOT_CA_KEY_FILE :: string where "ROOT_CA_KEY_FILE = ''rootca.key''"
definition GATEWAY_TLS_CERT_PATH :: string where "GATEWAY_TLS_CERT_PATH = ''/etc/kaonic/kaonic-gateway-tls.crt''"
definition GATEWAY_TLS_KEY_PATH :: string where "GATEWAY_TLS_KEY_PATH = ''/etc/kaonic/kaonic-gateway-tls.key''"
definition PLUGIN_TLS_CERT_FILE :: string where "PLUGIN_TLS_CERT_FILE = ''plugin-tls.crt''"
definition PLUGIN_TLS_KEY_FILE :: string where "PLUGIN_TLS_KEY_FILE = ''plugin-tls.key''"
definition DEFAULT_CA_SEED_PHRASE :: string where "DEFAULT_CA_SEED_PHRASE = ''BEECHAT_KAONIC_GATEWAY''"

definition certs_dir :: "('w, 'x) tls_sys_scheme \<Rightarrow> string" where
  "certs_dir S = (case so_env S ''KAONIC_GATEWAY_CERTS_DIR'' of Some d \<Rightarrow> d | None \<Rightarrow> DEFAULT_CERTS_DIR)"

definition ensure_certs_dir :: "('w, 'x) tls_sys_scheme \<Rightarrow> 'w \<Rightarrow> (string + string) \<times> 'w" where
  "ensure_certs_dir S = and_do (so_create_dir_all S (certs_dir S)) (\<lambda>_. return_ok (certs_dir S))"

definition root_ca_cert_path_for :: "string \<Rightarrow> string" where
  "root_ca_cert_path_for dir = path_join dir ROOT_CA_CERT_FILE"

definition root_ca_cert_path :: "('w, 'x) tls_sys_scheme \<Rightarrow> string" where
  "root_ca_cert_path S = path_join (certs_dir S) ROOT_CA_CERT_FILE"

definition ca_seed_phrase :: "('w, 'x) tls_sys_scheme \<Rightarrow> string" where
  "ca_seed_phrase S = (case so_env S ''KAONIC_GATEWAY_CA_SEED_PHRASE'' of Some p \<Rightarrow> p | None \<Rightarrow> DEFAULT_CA_SEED_PHRASE)"

definition tls_hostname :: "('w, 'x) tls_sys_scheme \<Rightarrow> 'w \<Rightarrow> string option" where
  "tls_hostname S w =
     (case so_read_file S ''/etc/hostname'' w of
        Inl _ \<Rightarrow> None
      | Inr v \<Rightarrow>
          (let h = trim v in
           if h \<noteq> [] \<and> list_all (\<lambda>c. is_ascii_alphanumeric c \<or> c = CHR ''-'' \<or> c = CHR ''.'') h then Some h else None))"

definition read_device_serial :: "('w, 'x) tls_sys_scheme \<Rightarrow> 'w \<Rightarrow> string option" where
  "read_device_serial S w =
     (case so_read_file S ''/etc/kaonic/kaonic_serial'' w of
        Inl _ \<Rightarrow> None
      | Inr v \<Rightarrow> (let s = trim v in if s \<noteq> [] then Some s else None))"

definition device_identity :: "('w, 'x) tls_sys_scheme \<Rightarrow> 'w \<Rightarrow> string" where
  "device_identity S w =
     (case read_device_serial S w of
        Some s \<Rightarrow> s
      | None \<Rightarrow> (case tls_hostname S w of Some h \<Rightarrow> h | None \<Rightarrow> ''kaonic-gateway''))"

definition service_common_name :: "string \<Rightarrow> string \<Rightarrow> string" where
  "service_common_name service_name identity = service_name @ '' '' @ identity"

definition root_ca_common_name :: "string option \<Rightarrow> string" where
  "root_ca_common_name serial =
     (case serial of
        None \<Rightarrow> ''Kaonic Local Root CA''
      | Some s \<Rightarrow> (if trim s = [] then ''Kaonic Local Root CA'' else ''Kaonic Local Root CA '' @ trim s))"

definition service_subject_alt_names :: "('w, 'x) tls_sys_scheme \<Rightarrow> 'w \<Rightarrow> string list" where
  "service_subject_alt_names S w =
     (let names = [''localhost'', ''127.0.0.1'', ''192.168.10.1'']
      in case tls_hostname S w of
           None \<Rightarrow> names
         | Some hostname \<Rightarrow>
             (let names = (if hostname \<in> set names then names else names @ [hostname])
              in if starts_with (rev ''.local'') (rev hostname) then names
                 else (let local_name = hostname @ ''.local''
                       in if local_name \<in> set names then names else names @ [local_name])))"

section \<open>Serial numbers and keys\<close>

text \<open>The first 16 bytes of a digest with the sign bit cleared, and never zero.\<close>

definition serial_of_digest :: "bytes \<Rightarrow> bytes" where
  "serial_of_digest digest =
     (let serial = take 16 digest;
          serial = serial[0 := char_of (byte_val (serial ! 0) mod 128)]
      in if list_all (\<lambda>b. b = CHR 0x00) serial then serial[15 := CHR 0x01] else serial)"

definition derived_serial_number ::
    "('sk, 'kp, 'san, 'cert, 'w) tls_crypto \<Rightarrow> string \<Rightarrow> bytes \<Rightarrow> bytes list \<Rightarrow> bytes" where
  "derived_serial_number T label material context_parts =
     serial_of_digest (tc_sha256 T (label @ [CHR 0x00] @ material @ concat (map (\<lambda>part. CHR 0x00 # part) context_parts)))"

fun first_signing_key :: "nat \<Rightarrow> ('sk, 'kp, 'san, 'cert, 'w) tls_crypto \<Rightarrow> bytes \<Rightarrow> string + 'sk" where
  "first_signing_key 0 T material = Inl ''derive deterministic P-256 root CA key''"
| "first_signing_key (Suc n) T material =
     (case tc_signing_key T material of
        Some k \<Rightarrow> Inr k
      | None \<Rightarrow> first_signing_key n T (tc_sha256 T material))"

definition deterministic_p256_signing_key :: "('sk, 'kp, 'san, 'cert, 'w) tls_crypto \<Rightarrow> string \<Rightarrow> string + 'sk" where
  "deterministic_p256_signing_key T seed_phrase = first_signing_key 8 T (tc_sha256 T seed_phrase)"

definition generate_secure_root_ca_key_der :: "('sk, 'kp, 'san, 'cert, 'w) tls_crypto \<Rightarrow> 'sk \<Rightarrow> string + bytes" where
  "generate_secure_root_ca_key_der T random =
     (case tc_pkcs8 T random of Inl err \<Rightarrow> Inl (''encode local root CA key: '' @ err) | Inr der \<Rightarrow> Inr der)"

definition is_legacy_root_ca_key_der ::
    "('w, 'x) tls_sys_scheme \<Rightarrow> ('sk, 'kp, 'san, 'cert, 'w) tls_crypto \<Rightarrow> bytes \<Rightarrow> bool" where
  "is_legacy_root_ca_key_der S T key_der =
     (case deterministic_p256_signing_key T (ca_seed_phrase S) of
        Inl _ \<Rightarrow> False
      | Inr legacy \<Rightarrow> (case tc_pkcs8 T legacy of Inl _ \<Rightarrow> False | Inr der \<Rightarrow> key_der = der))"

text \<open>The key of a service, with the words that its errors use.\<close>

definition deterministic_tls_key_pair ::
    "('sk, 'kp, 'san, 'cert, 'w) tls_crypto \<Rightarrow> string \<Rightarrow> string \<Rightarrow> string + 'kp" where
  "deterministic_tls_key_pair T name seed =
     and_then (deterministic_p256_signing_key T seed) (\<lambda>k.
       case tc_pkcs8 T k of
         Inl err \<Rightarrow> Inl (''encode deterministic '' @ name @ '' TLS key: '' @ err)
       | Inr der \<Rightarrow>
           (case tc_key_pair T der of
              Inl err \<Rightarrow> Inl (''load deterministic '' @ name @ '' TLS key: '' @ err)
            | Inr kp \<Rightarrow> Inr kp))"

definition deterministic_gateway_tls_key_pair ::
    "('w, 'x) tls_sys_scheme \<Rightarrow> ('sk, 'kp, 'san, 'cert, 'w) tls_crypto \<Rightarrow> 'w \<Rightarrow> string + 'kp" where
  "deterministic_gateway_tls_key_pair S T w =
     deterministic_tls_key_pair T ''gateway'' (ca_seed_phrase S @ ''|gateway-tls|'' @ device_identity S w)"

definition deterministic_plugin_tls_key_pair ::
    "('w, 'x) tls_sys_scheme \<Rightarrow> ('sk, 'kp, 'san, 'cert, 'w) tls_crypto \<Rightarrow> string \<Rightarrow> 'w \<Rightarrow> string + 'kp" where
  "deterministic_plugin_tls_key_pair S T plugin_id w =
     deterministic_tls_key_pair T ''plugin'' (ca_seed_phrase S @ ''|plugin-tls|'' @ device_identity S w @ ''|'' @ plugin_id)"

section \<open>Certificates\<close>

definition ORGANIZATION :: string where "ORGANIZATION = ''Beechat Network Systems Ltd''"

definition root_ca_params ::
    "('sk, 'kp, 'san, 'cert, 'w) tls_crypto \<Rightarrow> bytes \<Rightarrow> string option \<Rightarrow> 'san cert_params" where
  "root_ca_params T key_der device_serial =
     (let common_name = root_ca_common_name device_serial in
      \<lparr>cp_sans = [], cp_common_name = common_name, cp_organization = ORGANIZATION,
       cp_not_before = (2024, 1, 1), cp_not_after = (2044, 1, 1),
       cp_serial_number = derived_serial_number T ''root-ca-v4'' key_der [common_name],
       cp_ca_path_length = Some 0, cp_authority_key_identifier = True,
       cp_key_usages = [KeyCertSign, CrlSign], cp_server_auth = False\<rparr>)"

definition generate_root_ca_artifacts ::
    "('sk, 'kp, 'san, 'cert, 'w) tls_crypto \<Rightarrow> bytes \<Rightarrow> string option \<Rightarrow> 'w
       \<Rightarrow> (string + ('kp, 'cert) root_ca_artifacts) \<times> 'w" where
  "generate_root_ca_artifacts T key_der device_serial w =
     (case tc_key_pair T key_der of
        Inl err \<Rightarrow> (Inl (''load local root CA key: '' @ err), w)
      | Inr key_pair \<Rightarrow>
          (case tc_self_signed T (root_ca_params T key_der device_serial) key_pair w of
             (Inl err, w) \<Rightarrow> (Inl (''generate local root CA certificate: '' @ err), w)
           | (Inr cert, w) \<Rightarrow>
               (Inr \<lparr>ra_cert = cert, ra_key_pair = key_pair, ra_cert_pem = tc_pem T cert, ra_key_der = key_der\<rparr>, w)))"

definition service_params ::
    "('sk, 'kp, 'san, 'cert, 'w) tls_crypto \<Rightarrow> 'san list \<Rightarrow> string \<Rightarrow> string \<Rightarrow> 'kp \<Rightarrow> 'san cert_params" where
  "service_params T sans serial_label common_name key_pair =
     \<lparr>cp_sans = sans, cp_common_name = common_name, cp_organization = ORGANIZATION,
      cp_not_before = (2024, 1, 1), cp_not_after = (2034, 1, 1),
      cp_serial_number =
        derived_serial_number T serial_label (tc_key_der T key_pair)
          [common_name, join_with ''|'' (map (tc_debug_san T) sans)],
      cp_ca_path_length = None, cp_authority_key_identifier = True,
      cp_key_usages = [DigitalSignature, KeyEncipherment], cp_server_auth = True\<rparr>"

text \<open>The certificate and the key of a service, both as PEM.\<close>

definition generate_service_tls_material ::
    "('w, 'x) tls_sys_scheme \<Rightarrow> ('sk, 'kp, 'san, 'cert, 'w) tls_crypto \<Rightarrow> ('kp, 'cert) root_ca_artifacts
       \<Rightarrow> string \<Rightarrow> string \<Rightarrow> 'kp \<Rightarrow> 'w \<Rightarrow> (string + string \<times> string) \<times> 'w" where
  "generate_service_tls_material S T root_ca serial_label common_name key_pair w =
     (case tc_sans T (service_subject_alt_names S w) of
        Inl err \<Rightarrow> (Inl (''build gateway TLS SANs: '' @ err), w)
      | Inr sans \<Rightarrow>
          (case tc_signed_by T (service_params T sans serial_label common_name key_pair) key_pair
                  (ra_cert root_ca) (ra_key_pair root_ca) w of
             (Inl err, w) \<Rightarrow> (Inl (''generate gateway TLS certificate: '' @ err), w)
           | (Inr cert, w) \<Rightarrow> (Inr (tc_pem T cert, tc_key_pem T key_pair), w)))"

section \<open>Files\<close>

definition ensure_parent_dir :: "('w, 'x) tls_sys_scheme \<Rightarrow> string \<Rightarrow> ('w, string) action" where
  "ensure_parent_dir S path =
     (case path_parent path of Some parent \<Rightarrow> so_create_dir_all S parent | None \<Rightarrow> return_ok ())"

definition write_if_changed :: "('w, 'x) tls_sys_scheme \<Rightarrow> string \<Rightarrow> bytes \<Rightarrow> ('w, string) action" where
  "write_if_changed S path content w =
     (if ts_read S path w = Inr content then (Inr (), w) else so_write_file S path content w)"

definition set_private_permissions :: "('w, 'x) tls_sys_scheme \<Rightarrow> string \<Rightarrow> ('w, string) action" where
  "set_private_permissions S path = ts_set_permissions S path 0x180"

text \<open>The stored key, or a new one if there is none, an empty one or the one that older versions derived.\<close>

definition root_ca_key ::
    "('w, 'x) tls_sys_scheme \<Rightarrow> ('sk, 'kp, 'san, 'cert, 'w) tls_crypto \<Rightarrow> 'sk \<Rightarrow> string \<Rightarrow> 'w \<Rightarrow> string + bytes" where
  "root_ca_key S T random dir w =
     (case ts_read S (path_join dir ROOT_CA_KEY_FILE) w of
        Inr existing \<Rightarrow>
          if existing \<noteq> [] \<and> \<not> is_legacy_root_ca_key_der S T existing then Inr existing
          else generate_secure_root_ca_key_der T random
      | Inl (NotFound _) \<Rightarrow> generate_secure_root_ca_key_der T random
      | Inl (ReadError err) \<Rightarrow> Inl err)"

definition load_or_create_root_ca_artifacts ::
    "('w, 'x) tls_sys_scheme \<Rightarrow> ('sk, 'kp, 'san, 'cert, 'w) tls_crypto \<Rightarrow> 'sk \<Rightarrow> string \<Rightarrow> 'w
       \<Rightarrow> (string + ('kp, 'cert) root_ca_artifacts) \<times> 'w" where
  "load_or_create_root_ca_artifacts S T random dir w =
     (case root_ca_key S T random dir w of
        Inl err \<Rightarrow> (Inl err, w)
      | Inr key_der \<Rightarrow> generate_root_ca_artifacts T key_der (read_device_serial S w) w)"

definition ensure_root_ca_files ::
    "('w, 'x) tls_sys_scheme \<Rightarrow> ('sk, 'kp, 'san, 'cert, 'w) tls_crypto \<Rightarrow> 'sk \<Rightarrow> 'w \<Rightarrow> (string + string) \<times> 'w" where
  "ensure_root_ca_files S T random =
     and_do (ensure_certs_dir S) (\<lambda>dir.
     and_do (load_or_create_root_ca_artifacts S T random dir) (\<lambda>root_ca.
     and_do (write_if_changed S (root_ca_cert_path_for dir) (ra_cert_pem root_ca)) (\<lambda>_.
     and_do (write_if_changed S (path_join dir ROOT_CA_KEY_FILE) (ra_key_der root_ca)) (\<lambda>_.
     and_do (set_private_permissions S (path_join dir ROOT_CA_KEY_FILE)) (\<lambda>_.
     return_ok dir)))))"

text \<open>Writing the certificate and the key of a service.\<close>

definition write_tls_files ::
    "('w, 'x) tls_sys_scheme \<Rightarrow> string \<Rightarrow> string \<Rightarrow> string \<times> string \<Rightarrow> ('w, string) action" where
  "write_tls_files S cert_path key_path tls =
     try_all [ensure_parent_dir S cert_path, ensure_parent_dir S key_path,
       write_if_changed S cert_path (fst tls), write_if_changed S key_path (snd tls),
       set_private_permissions S key_path]"

definition ensure_gateway_tls_files ::
    "('w, 'x) tls_sys_scheme \<Rightarrow> ('sk, 'kp, 'san, 'cert, 'w) tls_crypto \<Rightarrow> 'sk \<Rightarrow> 'sk \<Rightarrow> 'w \<Rightarrow> (string + string) \<times> 'w" where
  "ensure_gateway_tls_files S T random random' =
     and_do (ensure_root_ca_files S T random) (\<lambda>dir.
     and_do (load_or_create_root_ca_artifacts S T random' dir) (\<lambda>root_ca w.
       case deterministic_gateway_tls_key_pair S T w of
         Inl err \<Rightarrow> (Inl err, w)
       | Inr key_pair \<Rightarrow>
           and_do (generate_service_tls_material S T root_ca ''gateway-tls-v2''
                     (service_common_name ''kaonic-gateway'' (device_identity S w)) key_pair) (\<lambda>tls.
           and_do (write_tls_files S GATEWAY_TLS_CERT_PATH GATEWAY_TLS_KEY_PATH tls) (\<lambda>_.
           return_ok dir)) w))"

definition ensure_plugin_tls_files ::
    "('w, 'x) tls_sys_scheme \<Rightarrow> ('sk, 'kp, 'san, 'cert, 'w) tls_crypto \<Rightarrow> 'sk \<Rightarrow> 'sk \<Rightarrow> string \<Rightarrow> string
       \<Rightarrow> ('w, string) action" where
  "ensure_plugin_tls_files S T random random' current_dir plugin_id =
     and_do (ensure_root_ca_files S T random) (\<lambda>dir.
     and_do (load_or_create_root_ca_artifacts S T random' dir) (\<lambda>root_ca w.
       case deterministic_plugin_tls_key_pair S T plugin_id w of
         Inl err \<Rightarrow> (Inl err, w)
       | Inr key_pair \<Rightarrow>
           and_do (generate_service_tls_material S T root_ca (''plugin-tls-v1:'' @ plugin_id)
                     (service_common_name plugin_id (device_identity S w)) key_pair)
             (write_tls_files S (path_join current_dir PLUGIN_TLS_CERT_FILE) (path_join current_dir PLUGIN_TLS_KEY_FILE)) w))"

text \<open>What the start of the gateway prepares, whose errors are only logged.\<close>

definition prepare_tls ::
    "('w, 'x) tls_sys_scheme \<Rightarrow> ('sk, 'kp, 'san, 'cert, 'w) tls_crypto \<Rightarrow> 'sk \<Rightarrow> 'sk \<Rightarrow> 'sk \<Rightarrow> string option \<Rightarrow> 'w \<Rightarrow> 'w" where
  "prepare_tls S T random1 random2 random3 current_dir w =
     (let w = snd (ensure_root_ca_files S T random1 w) in
      case current_dir of
        Some dir \<Rightarrow> snd (ensure_plugin_tls_files S T random2 random3 dir ''kaonic-gateway'' w)
      | None \<Rightarrow> w)"

section \<open>What files and signing document\<close>

text \<open>
  \<open>mode\<close> is the access mode of a path. Writing a file, creating directories and setting permissions change
  no other file; a file that can be read stays as it is when directories are created or permissions are set;
  rewriting a file keeps its mode; and signing touches no file.
\<close>

definition tls_file_laws :: "('w, 'x) tls_sys_scheme \<Rightarrow> (string \<Rightarrow> 'w \<Rightarrow> nat) \<Rightarrow> bool" where
  "tls_file_laws S mode \<longleftrightarrow>
     (\<forall>p t w r w'. so_write_file S p t w = (r, w') \<longrightarrow>
        (r = Inr () \<longrightarrow> ts_read S p w' = Inr t)
      \<and> (\<forall>b. ts_read S p w = Inr b \<longrightarrow> mode p w' = mode p w)
      \<and> (\<forall>q. q \<noteq> p \<longrightarrow> ts_read S q w' = ts_read S q w \<and> mode q w' = mode q w))
   \<and> (\<forall>p w r w' q b. so_create_dir_all S p w = (r, w') \<longrightarrow> ts_read S q w = Inr b \<longrightarrow>
        ts_read S q w' = Inr b \<and> mode q w' = mode q w)
   \<and> (\<forall>p m w r w'. ts_set_permissions S p m w = (r, w') \<longrightarrow>
        (\<forall>q. ts_read S q w' = ts_read S q w) \<and> (\<forall>q. q \<noteq> p \<longrightarrow> mode q w' = mode q w)
      \<and> mode p w' = (if r = Inr () then m else mode p w))"

definition signing_laws ::
    "('w, 'x) tls_sys_scheme \<Rightarrow> ('sk, 'kp, 'san, 'cert, 'w) tls_crypto \<Rightarrow> (string \<Rightarrow> 'w \<Rightarrow> nat) \<Rightarrow> bool" where
  "signing_laws S T mode \<longleftrightarrow>
     (\<forall>ps k w r w' q. tc_self_signed T ps k w = (r, w') \<longrightarrow> ts_read S q w' = ts_read S q w \<and> mode q w' = mode q w)
   \<and> (\<forall>ps k c k' w r w' q. tc_signed_by T ps k c k' w = (r, w') \<longrightarrow> ts_read S q w' = ts_read S q w \<and> mode q w' = mode q w)"

text \<open>A key that is taken as it is stored.\<close>

definition usable_key :: "('w, 'x) tls_sys_scheme \<Rightarrow> ('sk, 'kp, 'san, 'cert, 'w) tls_crypto \<Rightarrow> bytes \<Rightarrow> bool" where
  "usable_key S T key \<longleftrightarrow> key \<noteq> [] \<and> \<not> is_legacy_root_ca_key_der S T key"

text \<open>A file holds a content, with one of the given modes.\<close>

definition holds_file ::
    "('w, 'x) tls_sys_scheme \<Rightarrow> (string \<Rightarrow> 'w \<Rightarrow> nat) \<Rightarrow> string \<Rightarrow> bytes \<Rightarrow> nat set \<Rightarrow> 'w \<Rightarrow> bool" where
  "holds_file S mode p key modes w \<longleftrightarrow> ts_read S p w = Inr key \<and> mode p w \<in> modes"

definition keeps :: "('w \<Rightarrow> bool) \<Rightarrow> ('w \<Rightarrow> 'r \<times> 'w) \<Rightarrow> bool" where
  "keeps P m \<longleftrightarrow> (\<forall>w r w'. P w \<longrightarrow> m w = (r, w') \<longrightarrow> P w')"

definition root_key_path :: "('w, 'x) tls_sys_scheme \<Rightarrow> string" where
  "root_key_path S = path_join (certs_dir S) ''rootca.key''"

section \<open>Lemmas\<close>

named_theorems keeps_intros

lemma keeps_return [keeps_intros]: "keeps P (return_ok x)"
  by (simp add: keeps_def)

lemma keeps_and_do:
  assumes "keeps P m" "\<And>x w w'. P w \<Longrightarrow> m w = (Inr x, w') \<Longrightarrow> keeps P (f x)"
  shows "keeps P (and_do m f)"
  unfolding keeps_def
proof (intro allI impI)
  fix w r w' assume P: "P w" and run: "and_do m f w = (r, w')"
  obtain a w1 where m: "m w = (a, w1)" by fastforce
  have P1: "P w1" using assms(1) P m unfolding keeps_def by blast
  show "P w'"
  proof (cases a)
    case (Inl e)
    with run m P1 show ?thesis by simp
  next
    case (Inr x)
    with run m have "f x w1 = (r, w')" by simp
    then show ?thesis using assms(2) [OF P] m Inr P1 unfolding keeps_def by blast
  qed
qed

lemma keeps_try_all [keeps_intros]:
  assumes "\<And>f. f \<in> set fs \<Longrightarrow> keeps P f" shows "keeps P (try_all fs)"
  using assms
proof (induction fs)
  case (Cons f fs)
  have "keeps P f" "keeps P (try_all fs)" using Cons by simp_all
  moreover have "try_all (f # fs) = and_do f (\<lambda>_. try_all fs)"
    by (simp add: and_do_def fun_eq_iff)
  ultimately show ?case by (simp add: keeps_and_do)
qed (simp add: keeps_def)

lemma keeps_snd: "keeps P m \<Longrightarrow> P w \<Longrightarrow> P (snd (m w))"
  by (simp add: keeps_def) (metis prod.collapse)

lemma keepsD: "keeps P m \<Longrightarrow> P w \<Longrightarrow> m w = (r, w') \<Longrightarrow> P w'"
  by (auto simp: keeps_def)

text \<open>Paths that end differently are different.\<close>

lemma path_join_suffix:
  assumes "\<not> starts_with ''/'' q" shows "\<exists>p'. path_join p q = p' @ q"
  using assms by (auto simp: path_join_def is_absolute_def)

lemma path_join_differ:
  assumes "\<not> starts_with ''/'' q" "\<not> starts_with ''/'' q'" "n \<le> length q" "n \<le> length q'" "take n (rev q) \<noteq> take n (rev q')"
  shows "path_join p q \<noteq> path_join p' q'"
proof
  assume eq: "path_join p q = path_join p' q'"
  obtain a b where "path_join p q = a @ q" "path_join p' q' = b @ q'"
    using path_join_suffix assms(1,2) by meson
  with eq have "take n (rev (a @ q)) = take n (rev (b @ q'))" by simp
  with assms(3-5) show False by simp
qed

lemma key_paths:
  "path_join d PLUGIN_TLS_CERT_FILE \<noteq> root_key_path S" "path_join d PLUGIN_TLS_KEY_FILE \<noteq> root_key_path S"
  "root_ca_cert_path_for d \<noteq> root_key_path S"
  "path_join d PLUGIN_TLS_CERT_FILE \<noteq> path_join e PLUGIN_TLS_KEY_FILE"
  unfolding root_key_path_def root_ca_cert_path_for_def
  by (rule path_join_differ [where n = 7];
      simp add: PLUGIN_TLS_CERT_FILE_def PLUGIN_TLS_KEY_FILE_def ROOT_CA_CERT_FILE_def starts_with_def strip_prefix_def)+

lemma gateway_paths: "GATEWAY_TLS_CERT_PATH \<noteq> root_key_path S" "GATEWAY_TLS_KEY_PATH \<noteq> root_key_path S"
proof -
  obtain a where a: "root_key_path S = a @ ''rootca.key''"
    using path_join_suffix [of "''rootca.key''" "certs_dir S"] by (auto simp: root_key_path_def starts_with_def)
  have "take 7 (rev (root_key_path S)) = rev ''tca.key''" by (simp add: a)
  moreover have "take 7 (rev GATEWAY_TLS_CERT_PATH) \<noteq> rev ''tca.key''" "take 7 (rev GATEWAY_TLS_KEY_PATH) \<noteq> rev ''tca.key''"
    by (simp_all add: GATEWAY_TLS_CERT_PATH_def GATEWAY_TLS_KEY_PATH_def)
  ultimately show "GATEWAY_TLS_CERT_PATH \<noteq> root_key_path S" "GATEWAY_TLS_KEY_PATH \<noteq> root_key_path S"
    by metis+
qed

text \<open>The single calls keep a file that they do not name.\<close>

lemma keeps_dirs [keeps_intros]:
  assumes "tls_file_laws S mode"
  shows "keeps (holds_file S mode q key modes) (so_create_dir_all S p)"
  using assms unfolding tls_file_laws_def keeps_def holds_file_def by metis

lemma keeps_write [keeps_intros]:
  assumes "tls_file_laws S mode" "p \<noteq> q"
  shows "keeps (holds_file S mode q key modes) (write_if_changed S p t)"
  using assms unfolding tls_file_laws_def keeps_def holds_file_def write_if_changed_def by (metis prod.inject)

lemma keeps_same_write:
  assumes "tls_file_laws S mode"
  shows "keeps (holds_file S mode q key modes) (write_if_changed S q key)"
  using assms unfolding tls_file_laws_def keeps_def holds_file_def write_if_changed_def by auto

lemma keeps_mode [keeps_intros]:
  assumes "tls_file_laws S mode" "0x180 \<in> modes"
  shows "keeps (holds_file S mode q key modes) (set_private_permissions S p)"
  unfolding keeps_def
proof (intro allI impI)
  fix w r w' assume h: "holds_file S mode q key modes w" and run: "set_private_permissions S p w = (r, w')"
  have "ts_read S q w' = ts_read S q w" "q \<noteq> p \<longrightarrow> mode q w' = mode q w" "mode p w' = (if r = Inr () then 0x180 else mode p w)"
    using run assms(1) unfolding tls_file_laws_def set_private_permissions_def by blast+
  then show "holds_file S mode q key modes w'"
    using h assms(2) by (cases "q = p") (auto simp: holds_file_def)
qed

lemma keeps_parent [keeps_intros]:
  assumes "tls_file_laws S mode"
  shows "keeps (holds_file S mode q key modes) (ensure_parent_dir S p)"
  using keeps_dirs [OF assms] keeps_return by (auto simp: ensure_parent_dir_def split: option.split)

lemma keeps_certs_dir [keeps_intros]:
  assumes "tls_file_laws S mode"
  shows "keeps (holds_file S mode q key modes) (ensure_certs_dir S)"
  unfolding ensure_certs_dir_def by (intro keeps_and_do keeps_intros assms)

lemma keeps_tls_files:
  assumes "tls_file_laws S mode" "0x180 \<in> modes" "c \<noteq> q" "k \<noteq> q"
  shows "keeps (holds_file S mode q key modes) (write_tls_files S c k tls)"
  unfolding write_tls_files_def
  by (rule keeps_try_all)
    (auto intro: keeps_parent keeps_mode keeps_write [OF assms(1,3)] keeps_write [OF assms(1,4)] assms(1,2))

lemma keeps_service_material:
  assumes "signing_laws S T mode"
  shows "keeps (holds_file S mode q key modes) (generate_service_tls_material S T ca label name kp)"
  using assms unfolding signing_laws_def keeps_def holds_file_def generate_service_tls_material_def
  by (auto split: prod.splits sum.splits)

lemma keeps_load:
  assumes "signing_laws S T mode"
  shows "keeps (holds_file S mode q key modes) (load_or_create_root_ca_artifacts S T random dir)"
  using assms unfolding signing_laws_def keeps_def holds_file_def load_or_create_root_ca_artifacts_def
    generate_root_ca_artifacts_def
  by (auto split: prod.splits sum.splits)

lemma certs_dir_result: "ensure_certs_dir S w = (Inr dir, w') \<Longrightarrow> dir = certs_dir S"
  by (auto simp: ensure_certs_dir_def and_do_ok)

lemma load_key:
  "load_or_create_root_ca_artifacts S T random dir w = (Inr ra, w') \<Longrightarrow>
     root_ca_key S T random dir w = Inr (ra_key_der ra) \<and> tc_key_pair T (ra_key_der ra) = Inr (ra_key_pair ra)
     \<and> fst (tc_self_signed T (root_ca_params T (ra_key_der ra) (read_device_serial S w)) (ra_key_pair ra) w) = Inr (ra_cert ra)"
  by (auto simp: load_or_create_root_ca_artifacts_def generate_root_ca_artifacts_def split: sum.splits prod.splits)

lemma root_ca_key_usable:
  assumes "usable_key S T key" "holds_file S mode (root_key_path S) key modes w"
  shows "root_ca_key S T random (certs_dir S) w = Inr key"
  using assms by (simp add: root_ca_key_def usable_key_def holds_file_def root_key_path_def ROOT_CA_KEY_FILE_def)

text \<open>No operation changes a stored usable key; its mode can only become private.\<close>

lemma keeps_ensure_root:
  assumes "tls_file_laws S mode" "signing_laws S T mode" "usable_key S T key" "0x180 \<in> modes"
  shows "keeps (holds_file S mode (root_key_path S) key modes) (ensure_root_ca_files S T random)"
  unfolding ensure_root_ca_files_def
proof (rule keeps_and_do [OF keeps_certs_dir [OF assms(1)]], rule keeps_and_do [OF keeps_load [OF assms(2)]])
  fix dir w w' root_ca w1 w2
  assume dir: "ensure_certs_dir S w = (Inr dir, w')" and h: "holds_file S mode (root_key_path S) key modes w1"
    and load: "load_or_create_root_ca_artifacts S T random dir w1 = (Inr root_ca, w2)"
  have "dir = certs_dir S" using dir by (rule certs_dir_result)
  with load_key [OF load] root_ca_key_usable [OF assms(3) h]
  have "ra_key_der root_ca = key" "path_join dir ROOT_CA_KEY_FILE = root_key_path S"
    by (simp_all add: root_key_path_def ROOT_CA_KEY_FILE_def)
  then show "keeps (holds_file S mode (root_key_path S) key modes)
      (and_do (write_if_changed S (root_ca_cert_path_for dir) (ra_cert_pem root_ca))
        (\<lambda>_. and_do (write_if_changed S (path_join dir ROOT_CA_KEY_FILE) (ra_key_der root_ca))
          (\<lambda>_. and_do (set_private_permissions S (path_join dir ROOT_CA_KEY_FILE)) (\<lambda>_. return_ok dir))))"
    by (auto intro!: keeps_and_do keeps_return keeps_write keeps_same_write keeps_mode key_paths assms(1,4))
qed

lemma keeps_ensure_gateway:
  assumes "tls_file_laws S mode" "signing_laws S T mode" "usable_key S T key" "0x180 \<in> modes"
  shows "keeps (holds_file S mode (root_key_path S) key modes) (ensure_gateway_tls_files S T random random')"
proof -
  let ?P = "holds_file S mode (root_key_path S) key modes"
  have "keeps ?P (and_do (generate_service_tls_material S T ca l n kp)
      (\<lambda>tls. and_do (write_tls_files S GATEWAY_TLS_CERT_PATH GATEWAY_TLS_KEY_PATH tls) (\<lambda>_. return_ok dir)))" for ca l n kp and dir :: string
    by (intro keeps_and_do keeps_service_material keeps_tls_files keeps_return gateway_paths assms)
  then show ?thesis unfolding ensure_gateway_tls_files_def
    by (intro keeps_and_do keeps_ensure_root keeps_load assms) (auto simp: keeps_def split: sum.splits)
qed

lemma keeps_ensure_plugin:
  assumes "tls_file_laws S mode" "signing_laws S T mode" "usable_key S T key" "0x180 \<in> modes"
  shows "keeps (holds_file S mode (root_key_path S) key modes) (ensure_plugin_tls_files S T random random' d plugin_id)"
proof -
  let ?P = "holds_file S mode (root_key_path S) key modes"
  let ?put_files = "write_tls_files S (path_join d PLUGIN_TLS_CERT_FILE) (path_join d PLUGIN_TLS_KEY_FILE)"
  have "keeps ?P (and_do (generate_service_tls_material S T ca l n kp) ?put_files)" for ca l n kp
    by (intro keeps_and_do keeps_service_material keeps_tls_files key_paths assms)
  then show ?thesis unfolding ensure_plugin_tls_files_def
    by (intro keeps_and_do keeps_ensure_root keeps_load assms) (auto simp: keeps_def split: sum.splits)
qed

text \<open>The operations that write certificates, with the random keys that they draw.\<close>

datatype 'sk tls_operation =
    EnsureRootCa 'sk
  | EnsureGatewayTls 'sk 'sk
  | EnsurePluginTls 'sk 'sk string string

fun tls_step :: "('w, 'x) tls_sys_scheme \<Rightarrow> ('sk, 'kp, 'san, 'cert, 'w) tls_crypto \<Rightarrow> 'sk tls_operation \<Rightarrow> 'w \<Rightarrow> 'w" where
  "tls_step S T (EnsureRootCa r) w = snd (ensure_root_ca_files S T r w)"
| "tls_step S T (EnsureGatewayTls r r') w = snd (ensure_gateway_tls_files S T r r' w)"
| "tls_step S T (EnsurePluginTls r r' d plugin_id) w = snd (ensure_plugin_tls_files S T r r' d plugin_id w)"

lemma tls_step_keeps:
  assumes "tls_file_laws S mode" "signing_laws S T mode" "usable_key S T key" "0x180 \<in> modes"
    and "holds_file S mode (root_key_path S) key modes w"
  shows "holds_file S mode (root_key_path S) key modes (tls_step S T op w)"
  using assms(5) by (cases op)
    (simp_all add: keeps_snd keeps_ensure_root [OF assms(1-4)] keeps_ensure_gateway [OF assms(1-4)]
       keeps_ensure_plugin [OF assms(1-4)])

lemma tls_steps_keep:
  assumes "tls_file_laws S mode" "signing_laws S T mode" "usable_key S T key" "0x180 \<in> modes"
  shows "holds_file S mode (root_key_path S) key modes w \<Longrightarrow>
    holds_file S mode (root_key_path S) key modes (fold (tls_step S T) ops w)"
  by (induction ops arbitrary: w) (simp_all add: tls_step_keeps [OF assms])

text \<open>What a successful preparation of the root files leaves.\<close>

lemma ensure_root_result:
  assumes laws: "tls_file_laws S mode" and run: "ensure_root_ca_files S T random w = (Inr dir, w')"
  shows "\<exists>key kp w1. dir = certs_dir S \<and> ensure_certs_dir S w = (Inr dir, w1)
    \<and> root_ca_key S T random dir w1 = Inr key \<and> tc_key_pair T key = Inr kp
    \<and> holds_file S mode (root_key_path S) key {0x180} w'"
proof -
  obtain w1 ra w2 w3 w4 where dirs: "ensure_certs_dir S w = (Inr dir, w1)"
    and load: "load_or_create_root_ca_artifacts S T random dir w1 = (Inr ra, w2)"
    and "write": "write_if_changed S (path_join dir ROOT_CA_KEY_FILE) (ra_key_der ra) w3 = (Inr (), w4)"
    and chmod: "set_private_permissions S (path_join dir ROOT_CA_KEY_FILE) w4 = (Inr (), w')"
    using run by (auto simp: ensure_root_ca_files_def and_do_ok)
  have dir: "dir = certs_dir S" using dirs by (rule certs_dir_result)
  then have path: "path_join dir ROOT_CA_KEY_FILE = root_key_path S" by (simp add: root_key_path_def ROOT_CA_KEY_FILE_def)
  have "ts_read S (root_key_path S) w4 = Inr (ra_key_der ra)"
    using "write" laws unfolding path write_if_changed_def tls_file_laws_def by (auto split: if_splits)
  moreover have "ts_read S (root_key_path S) w' = ts_read S (root_key_path S) w4 \<and> mode (root_key_path S) w' = 0x180"
    using chmod laws unfolding path set_private_permissions_def tls_file_laws_def by simp
  ultimately have "holds_file S mode (root_key_path S) (ra_key_der ra) {0x180} w'" by (simp add: holds_file_def)
  with dir dirs load_key [OF load] show ?thesis by blast
qed

text \<open>Every key that is used is usable, if the key that is drawn is.\<close>

lemma root_ca_key_is_usable:
  assumes "root_ca_key S T random dir w = Inr key" "\<forall>der. tc_pkcs8 T random = Inr der \<longrightarrow> usable_key S T der"
  shows "usable_key S T key"
  using assms by (auto simp: root_ca_key_def usable_key_def generate_secure_root_ca_key_der_def
      split: sum.splits if_splits read_error.splits)

lemma first_bytes:
  assumes "length digest = 32"
  obtains b bs where "take 16 digest = b # bs" "length bs = 15"
  using assms by (cases "take 16 digest") (auto dest: arg_cong [where f = length])

text \<open>A serial number is a positive number of 16 bytes.\<close>

definition positive_serial :: "bytes \<Rightarrow> bool" where
  "positive_serial serial \<longleftrightarrow> length serial = 16 \<and> byte_val (hd serial) < 128 \<and> (\<exists>b\<in>set serial. byte_val b \<noteq> 0)"

lemma serial_positive:
  assumes "length digest = 32" shows "positive_serial (serial_of_digest digest)"
proof -
  obtain b bs where bs: "take 16 digest = b # bs" "length bs = 15" using assms by (rule first_bytes)
  let ?c = "char_of (byte_val b mod 128) :: char"
  have c: "byte_val ?c < 128" by simp
  show ?thesis
  proof (cases "list_all (\<lambda>x. x = CHR 0x00) (?c # bs)")
    case True
    then have "serial_of_digest digest = ?c # bs[14 := CHR 0x01]" using bs by (simp add: serial_of_digest_def Let_def)
    moreover have "CHR 0x01 \<in> set (bs[14 := CHR 0x01])" using bs(2) by (simp add: set_update_memI)
    ultimately show ?thesis using bs(2) c by (auto simp: positive_serial_def intro!: bexI [of _ "CHR 0x01"])
  next
    case False
    then obtain x where x: "x \<in> set (?c # bs)" "x \<noteq> CHR 0x00" by (auto simp: list_all_iff)
    have "byte_val x \<noteq> 0"
    proof
      assume "byte_val x = 0"
      then have "x = char_of (0 :: nat)" by (metis char_of_char)
      with x(2) show False by (simp add: char_of_def)
    qed
    moreover have "serial_of_digest digest = ?c # bs" using bs False by (auto simp: serial_of_digest_def Let_def)
    ultimately show ?thesis using x(1) bs(2) c unfolding positive_serial_def
      by (intro conjI) (simp, simp, rule bexI [of _ x], simp_all only: not_False_eq_True)
  qed
qed

lemma tls_files_written:
  assumes laws: "tls_file_laws S mode" and paths: "c \<noteq> k"
    and run: "write_tls_files S c k tls w = (Inr (), w')"
  shows "ts_read S c w' = Inr (fst tls)" "ts_read S k w' = Inr (snd tls)" "mode k w' = 384"
proof -
  obtain w1 w2 w3 w4 where dirs: "ensure_parent_dir S c w = (Inr (), w1)" "ensure_parent_dir S k w1 = (Inr (), w2)"
    and cert: "write_if_changed S c (fst tls) w2 = (Inr (), w3)" and key: "write_if_changed S k (snd tls) w3 = (Inr (), w4)"
    and chmod: "set_private_permissions S k w4 = (Inr (), w')"
    using run by (auto simp: write_tls_files_def split: prod.splits sum.splits)
  have written: "ts_read S p v' = Inr t" if "write_if_changed S p t v = (Inr (), v')" for p t v v'
    using that laws unfolding write_if_changed_def tls_file_laws_def by (auto split: if_splits)
  have "holds_file S mode c (fst tls) UNIV w3" using written [OF cert] by (simp add: holds_file_def)
  from keepsD [OF keeps_write [OF laws paths [symmetric]] this key]
  have "holds_file S mode c (fst tls) UNIV w4" .
  from keepsD [OF keeps_mode [OF laws] this chmod] show "ts_read S c w' = Inr (fst tls)" by (simp add: holds_file_def)
  have "ts_read S k w' = ts_read S k w4 \<and> mode k w' = 384"
    using chmod laws unfolding set_private_permissions_def tls_file_laws_def by simp
  with written [OF key] show "ts_read S k w' = Inr (snd tls)" "mode k w' = 384" by simp_all
qed

section \<open>Properties\<close>

text \<open>
  C32. A device has one root key. When the root files were prepared successfully, the key file holds a key that
  loads and only its owner may read it; a usable key that was stored before is kept, and no later sequence
  of operations, whatever fails in them and whatever keys they draw, changes the key or its mode. (The
  key that is drawn is assumed to be encoded as a document that is not empty and not the key that older
  versions derived from the seed phrase.)
\<close>

theorem root_ca_key_stable:
  assumes laws: "tls_file_laws S mode" "signing_laws S T mode"
    and drawn: "\<forall>der. tc_pkcs8 T random = Inr der \<longrightarrow> usable_key S T der"
    and run: "ensure_root_ca_files S T random w = (Inr dir, w')"
  shows "\<exists>key kp. usable_key S T key \<and> tc_key_pair T key = Inr kp
    \<and> (\<forall>old. ts_read S (root_key_path S) w = Inr old \<and> usable_key S T old \<longrightarrow> key = old)
    \<and> (\<forall>ops. ts_read S (root_key_path S) (fold (tls_step S T) ops w') = Inr key
         \<and> mode (root_key_path S) (fold (tls_step S T) ops w') = 384)"
proof -
  obtain key kp w1 where r: "dir = certs_dir S" "ensure_certs_dir S w = (Inr dir, w1)"
      "root_ca_key S T random dir w1 = Inr key" "tc_key_pair T key = Inr kp"
      "holds_file S mode (root_key_path S) key {0x180} w'"
    using ensure_root_result [OF laws(1) run] by (elim exE conjE)
  have usable: "usable_key S T key" using root_ca_key_is_usable [OF r(3) drawn] .
  have old: "key = old" if "ts_read S (root_key_path S) w = Inr old" "usable_key S T old" for old
  proof -
    from that(1) have "holds_file S mode (root_key_path S) old UNIV w" by (simp add: holds_file_def)
    then have "holds_file S mode (root_key_path S) old UNIV w1"
      by (rule keepsD [OF keeps_certs_dir [OF laws(1)] _ r(2)])
    from root_ca_key_usable [OF that(2) this] r(1,3) show ?thesis by simp
  qed
  have "holds_file S mode (root_key_path S) key {0x180} (fold (tls_step S T) ops w')" for ops
    by (rule tls_steps_keep [OF laws usable _ r(5)]) simp
  then have "\<forall>ops. ts_read S (root_key_path S) (fold (tls_step S T) ops w') = Inr key
         \<and> mode (root_key_path S) (fold (tls_step S T) ops w') = 384" by (simp add: holds_file_def)
  then show ?thesis using usable r(4) old by meson
qed

text \<open>
  C33. A service gets a certificate that the stored root key signed. When the files of a plugin were prepared
  successfully, its certificate is for the service key and the name of the plugin on this device and was
  signed by a certificate and the key pair of the root key on disk, its key file holds the service key
  and only its owner may read it; and the serial number of the certificate is a positive number of 16 bytes.
\<close>

theorem plugin_certificate_signed:
  assumes laws: "tls_file_laws S mode" "signing_laws S T mode"
    and drawn: "\<forall>der. tc_pkcs8 T random = Inr der \<longrightarrow> usable_key S T der"
    and sha256: "\<forall>b. length (tc_sha256 T b) = 32"
    and run: "ensure_plugin_tls_files S T random random' d plugin_id w = (Inr (), w')"
  shows "\<exists>key ca_kp ca serial sans kp params cert u v v' v''.
    ts_read S (root_key_path S) w' = Inr key \<and> tc_key_pair T key = Inr ca_kp
    \<and> fst (tc_self_signed T (root_ca_params T key serial) ca_kp u) = Inr ca
    \<and> deterministic_plugin_tls_key_pair S T plugin_id v = Inr kp
    \<and> params = service_params T sans (''plugin-tls-v1:'' @ plugin_id) (plugin_id @ '' '' @ device_identity S v') kp
    \<and> fst (tc_signed_by T params kp ca ca_kp v'') = Inr cert \<and> positive_serial (cp_serial_number params)
    \<and> ts_read S (path_join d ''plugin-tls.crt'') w' = Inr (tc_pem T cert)
    \<and> ts_read S (path_join d ''plugin-tls.key'') w' = Inr (tc_key_pem T kp)
    \<and> mode (path_join d ''plugin-tls.key'') w' = 384"
proof -
  let ?K = "root_key_path S" and ?c = "path_join d PLUGIN_TLS_CERT_FILE" and ?k = "path_join d PLUGIN_TLS_KEY_FILE"
  obtain dir w1 where root: "ensure_root_ca_files S T random w = (Inr dir, w1)"
    using run by (auto simp: ensure_plugin_tls_files_def and_do_ok)
  then obtain ra w2 where load: "load_or_create_root_ca_artifacts S T random' dir w1 = (Inr ra, w2)"
    and rest: "(case deterministic_plugin_tls_key_pair S T plugin_id w2 of
         Inl err \<Rightarrow> (Inl err, w2)
       | Inr key_pair \<Rightarrow>
           and_do (generate_service_tls_material S T ra (''plugin-tls-v1:'' @ plugin_id)
               (service_common_name plugin_id (device_identity S w2)) key_pair) (write_tls_files S ?c ?k) w2) = (Inr (), w')"
    using run unfolding ensure_plugin_tls_files_def by (simp only: and_do_ok fallible_simps) blast
  obtain kp where kp: "deterministic_plugin_tls_key_pair S T plugin_id w2 = Inr kp"
    using rest by (cases "deterministic_plugin_tls_key_pair S T plugin_id w2") auto
  obtain tls w3 where tls: "generate_service_tls_material S T ra (''plugin-tls-v1:'' @ plugin_id)
      (service_common_name plugin_id (device_identity S w2)) kp w2 = (Inr tls, w3)"
    and files: "write_tls_files S ?c ?k tls w3 = (Inr (), w')"
    using rest unfolding kp sum.case and_do_ok by blast
  obtain key where key: "dir = certs_dir S" "usable_key S T key" "holds_file S mode ?K key {0x180} w1"
    using ensure_root_result [OF laws(1) root] root_ca_key_is_usable [OF _ drawn] by blast
  have ra: "ra_key_der ra = key" "tc_key_pair T key = Inr (ra_key_pair ra)"
    using load_key [OF load] root_ca_key_usable [OF key(2,3)] key(1) by auto
  have ca: "fst (tc_self_signed T (root_ca_params T key (read_device_serial S w1)) (ra_key_pair ra) w1) = Inr (ra_cert ra)"
    using load_key [OF load] ra by simp
  obtain sans cert where cert: "tc_signed_by T (service_params T sans (''plugin-tls-v1:'' @ plugin_id)
        (plugin_id @ '' '' @ device_identity S w2) kp) kp (ra_cert ra) (ra_key_pair ra) w2 = (Inr cert, w3)"
      "tls = (tc_pem T cert, tc_key_pem T kp)"
    using tls by (auto simp: generate_service_tls_material_def service_common_name_def split: prod.splits sum.splits)
  have "holds_file S mode ?K key {0x180} w2" by (rule keepsD [OF keeps_load [OF laws(2)] key(3) load])
  from keepsD [OF keeps_service_material [OF laws(2)] this tls]
  have "holds_file S mode ?K key {0x180} w3" .
  from keepsD [OF keeps_tls_files [OF laws(1) _ key_paths(1,2)] this files]
  have K: "ts_read S ?K w' = Inr key" by (simp add: holds_file_def)
  have serial: "positive_serial (cp_serial_number (service_params T sans (''plugin-tls-v1:'' @ plugin_id)
      (plugin_id @ '' '' @ device_identity S w2) kp))"
    by (simp add: service_params_def derived_serial_number_def serial_positive sha256)
  note written = tls_files_written [OF laws(1) key_paths(4) files, unfolded cert(2) PLUGIN_TLS_CERT_FILE_def PLUGIN_TLS_KEY_FILE_def]
  let ?params = "service_params T sans (''plugin-tls-v1:'' @ plugin_id) (plugin_id @ '' '' @ device_identity S w2) kp"
  show ?thesis
    by (rule exI [of _ key], rule exI [of _ "ra_key_pair ra"], rule exI [of _ "ra_cert ra"],
        rule exI [of _ "read_device_serial S w1"], rule exI [of _ sans], rule exI [of _ kp], rule exI [of _ ?params], rule exI [of _ cert],
        rule exI [of _ w1], rule exI [of _ w2], rule exI [of _ w2], rule exI [of _ w2])
      (use K ra(2) ca kp cert(1) serial written in simp)
qed

section \<open>Instance\<close>

text \<open>Files with modes, and keys and certificates that are strings.\<close>

definition tls_disk :: "(string \<Rightarrow> (bytes \<times> nat) option) tls_sys" where
  "tls_disk =
     \<lparr>so_os = \<lparr>exec = (\<lambda>p a w. (Inl ''unavailable'', w))\<rparr>,
      so_env = (\<lambda>_. None),
      so_read_file = (\<lambda>p w. case w p of None \<Rightarrow> Inl ''not found'' | Some (t, _) \<Rightarrow> Inr t),
      so_exists = (\<lambda>p w. w p \<noteq> None),
      so_write_file = (\<lambda>p t w. (Inr (), w(p \<mapsto> (t, case w p of None \<Rightarrow> 420 | Some (_, m) \<Rightarrow> m)))),
      so_create_dir_all = (\<lambda>p w. (Inr (), w)),
      so_remove_file = (\<lambda>p w. (Inr (), w(p := None))),
      so_rename = (\<lambda>p q w. (Inr (), (w(p := None))(q := w p))),
      so_set_mode = (\<lambda>p m w. (Inr (), w)),
      so_canonicalize = (\<lambda>p w. None),
      so_debug_path = (\<lambda>p. p),
      ts_read = (\<lambda>p w. case w p of None \<Rightarrow> Inl (NotFound ''not found'') | Some (t, _) \<Rightarrow> Inr t),
      ts_set_permissions = (\<lambda>p m w. case w p of None \<Rightarrow> (Inl ''not found'', w) | Some (t, _) \<Rightarrow> (Inr (), w(p \<mapsto> (t, m))))\<rparr>"

definition disk_mode :: "string \<Rightarrow> (string \<Rightarrow> (bytes \<times> nat) option) \<Rightarrow> nat" where
  "disk_mode p w = (case w p of None \<Rightarrow> 0 | Some (_, m) \<Rightarrow> m)"

definition string_crypto :: "(bytes, bytes, string, string, 'w) tls_crypto" where
  "string_crypto =
     \<lparr>tc_sha256 = (\<lambda>b. take 32 (b @ replicate 32 CHR ''x'')), tc_signing_key = Some, tc_pkcs8 = Inr, tc_key_pair = Inr,
      tc_key_der = (\<lambda>k. k), tc_key_pem = (\<lambda>k. k), tc_sans = Inr, tc_debug_san = (\<lambda>n. n),
      tc_self_signed = (\<lambda>ps k w. (Inr (cp_common_name ps), w)),
      tc_signed_by = (\<lambda>ps k c k' w. (Inr (cp_common_name ps @ '' by '' @ c), w)), tc_pem = (\<lambda>c. c)\<rparr>"

lemma tls_disk_ops [simp]:
  "so_env tls_disk v = None"
  "so_read_file tls_disk p w = (case w p of None \<Rightarrow> Inl ''not found'' | Some (t, _) \<Rightarrow> Inr t)"
  "so_write_file tls_disk p t w = (Inr (), w(p \<mapsto> (t, case w p of None \<Rightarrow> 420 | Some (_, m) \<Rightarrow> m)))"
  "so_create_dir_all tls_disk p w = (Inr (), w)"
  "ts_read tls_disk p w = (case w p of None \<Rightarrow> Inl (NotFound ''not found'') | Some (t, _) \<Rightarrow> Inr t)"
  "ts_set_permissions tls_disk p m w = (case w p of None \<Rightarrow> (Inl ''not found'', w) | Some (t, _) \<Rightarrow> (Inr (), w(p \<mapsto> (t, m))))"
  by (simp_all add: tls_disk_def)

lemma string_crypto_ops [simp]:
  "tc_sha256 string_crypto b = take 32 (b @ replicate 32 CHR ''x'')" "tc_signing_key string_crypto b = Some b"
  "tc_pkcs8 string_crypto b = Inr b" "tc_key_pair string_crypto b = Inr b" "tc_key_pem string_crypto b = b"
  "tc_sans string_crypto names = Inr names" "tc_pem string_crypto c = c"
  "tc_self_signed string_crypto ps k w = (Inr (cp_common_name ps), w)"
  "tc_signed_by string_crypto ps k c k' w = (Inr (cp_common_name ps @ '' by '' @ c), w)"
  by (simp_all add: string_crypto_def)

lemma tls_disk_laws: "tls_file_laws tls_disk disk_mode"
  by (auto simp: tls_file_laws_def tls_disk_def disk_mode_def split: option.splits if_splits)

lemma string_crypto_laws: "signing_laws S string_crypto mode"
  by (simp add: signing_laws_def string_crypto_def)

lemma drawn_key_usable: "usable_key tls_disk string_crypto ''KEY''"
proof -
  have "\<not> is_legacy_root_ca_key_der tls_disk string_crypto ''KEY''"
    by (simp add: is_legacy_root_ca_key_der_def deterministic_p256_signing_key_def string_crypto_def numeral_eq_Suc
        ca_seed_phrase_def tls_disk_def DEFAULT_CA_SEED_PHRASE_def)
  then show ?thesis by (simp add: usable_key_def)
qed

lemma drawn_key: "\<forall>der. tc_pkcs8 string_crypto ''KEY'' = Inr der \<longrightarrow> usable_key tls_disk string_crypto der"
  using drawn_key_usable by (simp add: string_crypto_def)

definition disk_after :: "string \<Rightarrow> (bytes \<times> nat) option" where
  "disk_after = [''/etc/kaonic/certs/rootca.crt'' \<mapsto> (''Kaonic Local Root CA'', 420), ''/etc/kaonic/certs/rootca.key'' \<mapsto> (''KEY'', 384)]"

lemmas tls_file_defs =
  write_if_changed_def set_private_permissions_def certs_dir_def root_ca_cert_path_for_def ensure_parent_dir_def
  path_join_def is_absolute_def starts_with_def DEFAULT_CERTS_DIR_def ROOT_CA_CERT_FILE_def ROOT_CA_KEY_FILE_def
  PLUGIN_TLS_CERT_FILE_def PLUGIN_TLS_KEY_FILE_def

lemma disk_root: "ensure_root_ca_files tls_disk string_crypto ''KEY'' (\<lambda>_. None) = (Inr ''/etc/kaonic/certs'', disk_after)"
proof -
  have load: "load_or_create_root_ca_artifacts tls_disk string_crypto ''KEY'' ''/etc/kaonic/certs'' (\<lambda>_. None)
      = (Inr \<lparr>ra_cert = ''Kaonic Local Root CA'', ra_key_pair = ''KEY'', ra_cert_pem = ''Kaonic Local Root CA'', ra_key_der = ''KEY''\<rparr>, \<lambda>_. None)"
    by (simp add: load_or_create_root_ca_artifacts_def root_ca_key_def generate_secure_root_ca_key_der_def
        generate_root_ca_artifacts_def root_ca_params_def Let_def root_ca_common_name_def read_device_serial_def)
  have dirs: "ensure_certs_dir tls_disk (\<lambda>_. None) = (Inr ''/etc/kaonic/certs'', \<lambda>_. None)"
    by (simp add: ensure_certs_dir_def and_do_def certs_dir_def DEFAULT_CERTS_DIR_def)
  show ?thesis
    by (simp add: ensure_root_ca_files_def dirs load and_do_def tls_file_defs disk_after_def fun_eq_iff)
qed

theorem root_ca_key_stable_witness:
  "\<forall>ops. ts_read tls_disk (root_key_path tls_disk)
       (fold (tls_step tls_disk (string_crypto :: (bytes, bytes, string, string, _) tls_crypto)) ops disk_after) = Inr ''KEY''"
proof -
  have "ts_read tls_disk (root_key_path tls_disk) (fold (tls_step tls_disk string_crypto) [] disk_after) = Inr ''KEY''"
    by (simp add: root_key_path_def tls_file_defs disk_after_def)
  with root_ca_key_stable [OF tls_disk_laws string_crypto_laws drawn_key disk_root] show ?thesis by (metis sum.inject(2))
qed

lemma disk_load: "load_or_create_root_ca_artifacts tls_disk string_crypto ''OTHER'' ''/etc/kaonic/certs'' disk_after
    = (Inr \<lparr>ra_cert = ''Kaonic Local Root CA'', ra_key_pair = ''KEY'', ra_cert_pem = ''Kaonic Local Root CA'', ra_key_der = ''KEY''\<rparr>, disk_after)"
proof -
  have h: "holds_file tls_disk disk_mode (root_key_path tls_disk) ''KEY'' {384} disk_after"
    by (simp add: holds_file_def disk_mode_def root_key_path_def tls_file_defs disk_after_def)
  have "certs_dir tls_disk = ''/etc/kaonic/certs''" by (simp add: tls_file_defs)
  with root_ca_key_usable [OF drawn_key_usable h]
  have "root_ca_key tls_disk string_crypto ''OTHER'' ''/etc/kaonic/certs'' disk_after = Inr ''KEY''" by simp
  then show ?thesis
    by (simp add: load_or_create_root_ca_artifacts_def generate_root_ca_artifacts_def tls_disk_def
        root_ca_params_def Let_def root_ca_common_name_def read_device_serial_def disk_after_def)
qed

theorem plugin_certificate_signed_witness:
  "\<exists>w' key. ensure_plugin_tls_files tls_disk string_crypto ''KEY'' ''OTHER'' ''/opt'' ''demo'' (\<lambda>_. None) = (Inr (), w')
     \<and> ts_read tls_disk (root_key_path tls_disk) w' = Inr key
     \<and> disk_mode ''/opt/plugin-tls.key'' w' = 384"
proof -
  obtain kp where kp: "deterministic_plugin_tls_key_pair tls_disk string_crypto ''demo'' disk_after = Inr kp"
    by (simp add: deterministic_plugin_tls_key_pair_def deterministic_tls_key_pair_def deterministic_p256_signing_key_def
        numeral_eq_Suc)
  have parents: "path_parent ''/opt/plugin-tls.crt'' = Some ''/opt''" "path_parent ''/opt/plugin-tls.key'' = Some ''/opt''"
    by code_simp+
  have absent: "disk_after ''/opt/plugin-tls.crt'' = None" "disk_after ''/opt/plugin-tls.key'' = None"
    by (simp_all add: disk_after_def)
  obtain w' where run: "ensure_plugin_tls_files tls_disk string_crypto ''KEY'' ''OTHER'' ''/opt'' ''demo'' (\<lambda>_. None) = (Inr (), w')"
    by (simp add: ensure_plugin_tls_files_def and_do_def disk_root disk_load kp generate_service_tls_material_def
        write_tls_files_def tls_file_defs parents absent)
  have sha: "\<forall>b. length (tc_sha256 string_crypto b) = 32" by (simp add: min_def)
  from plugin_certificate_signed [OF tls_disk_laws string_crypto_laws drawn_key sha run]
  obtain key where "ts_read tls_disk (root_key_path tls_disk) w' = Inr key"
    "disk_mode (path_join ''/opt'' ''plugin-tls.key'') w' = 384" by blast
  with run show ?thesis by (auto simp: path_join_def is_absolute_def starts_with_def simp del: tls_disk_ops)
qed

end
