(* ===== verification/Gw_Status.thy ===== *)
theory Gw_Status
  imports Gw_Props Gw_Frames Gw_Web Gw_Tls
begin

text \<open>
  What the gateway shows of itself: the answers of \<open>/api/info\<close>, \<open>/api/status\<close>, the root certificate and
  the speed test (\<open>http/handlers.rs\<close>), and the WebSocket that sends the state of the gateway and then every
  change of it (\<open>http/ws.rs\<close>). The shared state is a record; clock readings and the addresses of the
  interfaces are read from outside. Between the readings of a status other tasks may run.
\<close>

section \<open>The shared state\<close>

record ('h, 'c, 'd, 'l, 'w) live_state =
  lv_app :: "('h, 'c, 'd, 'l, 'w) app_state"
  lv_frames :: frame_monitor
  lv_reticulum :: gateway_reticulum
  lv_serial :: string
  lv_vpn_hash :: string
  lv_ctrl_server :: socket_addr
  lv_http_addr :: socket_addr

text \<open>What a status reads from outside: interfaces, clocks, and the world 100 ms later.\<close>

record ('h, 'w) status_reads =
  sr_interfaces :: "(string \<times> if_addr) list option"
  sr_later :: 'w
  sr_now :: nat
  sr_mnow :: nat
  sr_pnow :: "'h \<Rightarrow> nat"
  sr_frames_now :: nat
  sr_frames_now' :: nat

record system_status_dto =
  sy_cpu_percent :: rat
  sy_ram_used_mb :: nat
  sy_ram_total_mb :: nat
  sy_fs_free_mb :: nat
  sy_fs_total_mb :: nat
  sy_os_details :: string

record ws_interfaces =
  wi_wlan0_ip :: "string option"
  wi_usb0_ip :: "string option"

record ws_reticulum_snapshot =
  wr_interface_stats :: reticulum_interface_stats
  wr_incoming_links :: "reticulum_link_dto list"
  wr_outgoing_links :: "reticulum_link_dto list"

datatype ws_status_event =
    WsInterfaces ws_interfaces
  | WsNetworkPorts "network_port_status list"
  | WsSystem system_status_dto
  | WsServices "service_status list"
  | WsVpn vpn_snapshot
  | WsReticulum ws_reticulum_snapshot
  | WsRadioFrames ws_radio_frames

fun sock_port :: "socket_addr \<Rightarrow> nat" where
  "sock_port (SockV4 _ p) = p"
| "sock_port (SockV6 _ p) = p"

section \<open>Identity and root certificate\<close>

record info_response =
  in_serial :: string

definition get_info :: "('h, 'c, 'd, 'l, 'w) live_state \<Rightarrow> info_response" where
  "get_info s = \<lparr>in_serial = lv_serial s\<rparr>"

definition get_serial :: "('h, 'c, 'd, 'l, 'w) live_state \<Rightarrow> (string \<times> string) list \<times> string" where
  "get_serial s = ([(''content-type'', ''text/plain; charset=utf-8'')], lv_serial s)"

definition ROOT_CA_DOWNLOAD_NAME :: string where "ROOT_CA_DOWNLOAD_NAME = ''kaonic-rootca.crt''"

definition get_system_rootca ::
    "('w, 'x) tls_sys_scheme \<Rightarrow> 'w \<Rightarrow> http_error + (string \<times> string) list \<times> bytes" where
  "get_system_rootca S w =
     (let path = root_ca_cert_path S in
      case ts_read S path w of
        Inl err \<Rightarrow>
          Inl ((case err of NotFound _ \<Rightarrow> NOT_FOUND | ReadError _ \<Rightarrow> INTERNAL_SERVER_ERROR),
               ''failed to read root CA certificate '' @ path @ '': '' @ read_error_string err)
      | Inr b \<Rightarrow>
          Inr ([(''content-type'', ''application/x-x509-ca-cert''),
                (''content-disposition'', ''attachment; filename='' @ [CHR 0x22] @ ROOT_CA_DOWNLOAD_NAME @ [CHR 0x22])], b))"

section \<open>Speed test\<close>

text \<open>
  The HTTPS client: a root certificate is parsed, a client is built with it, and a request gives an error or a
  status with its displayed form, and the body or an error while reading it.
\<close>

record ('ca, 'client, 'w) https_ops =
  ht_from_pem :: "bytes \<Rightarrow> string + 'ca"
  ht_build :: "'ca \<Rightarrow> string + 'client"
  ht_get :: "'client \<Rightarrow> string \<Rightarrow> 'w \<Rightarrow> (string + (nat \<times> string) \<times> (string + bytes)) \<times> 'w"

record vpn_speed_test_response =
  sp_bytes :: nat
  sp_duration_ms :: nat
  sp_bps :: nat

text \<open>\<open>u128\<close> holds the product; the quotient is cut to a \<open>u64\<close>.\<close>

definition speed_result :: "nat \<Rightarrow> nat \<Rightarrow> vpn_speed_test_response" where
  "speed_result len elapsed_ms =
     (let duration_ms = wrap64 (max elapsed_ms 1)
      in \<lparr>sp_bytes = len, sp_duration_ms = duration_ms, sp_bps = wrap64 (len * 8 * 1000 div duration_ms)\<rparr>)"

definition speed_request ::
    "('w, 'x) tls_sys_scheme \<Rightarrow> ('ca, 'client, 'w) https_ops \<Rightarrow> nat \<Rightarrow> string
       \<Rightarrow> ('w, http_error, vpn_speed_test_response) fallible" where
  "speed_request S X elapsed_ms peer_ip w =
     (case ts_read S (root_ca_cert_path S) w of
        Inl err \<Rightarrow> (Inl (INTERNAL_SERVER_ERROR, ''failed to read local Root CA certificate: '' @ read_error_string err), w)
      | Inr pem \<Rightarrow>
          (case ht_from_pem X pem of
             Inl err \<Rightarrow> (Inl (INTERNAL_SERVER_ERROR, ''failed to parse local Root CA certificate: '' @ err), w)
           | Inr ca \<Rightarrow>
               (case ht_build X ca of
                  Inl err \<Rightarrow> (Inl (INTERNAL_SERVER_ERROR, ''failed to build speed-test client: '' @ err), w)
                | Inr client \<Rightarrow>
                    (case ht_get X client (''https://'' @ peer_ip @ ''/'') w of
                       (Inl err, w) \<Rightarrow> (Inl (BAD_GATEWAY, ''speed-test request failed: '' @ err), w)
                     | (Inr ((code, shown), body), w) \<Rightarrow>
                         if \<not> (200 \<le> code \<and> code < 300) then (Inl (BAD_GATEWAY, ''speed-test returned '' @ shown), w)
                         else (case body of
                                 Inl err \<Rightarrow> (Inl (BAD_GATEWAY, ''failed to read speed-test body: '' @ err), w)
                               | Inr b \<Rightarrow> (Inr (speed_result (length b) elapsed_ms), w))))))"

definition post_vpn_speed_test ::
    "('h, 'c::linorder, 'd, 'l, 'r, 'm, 'w) gateway_env \<Rightarrow> ('w, 'x) tls_sys_scheme \<Rightarrow> ('ca, 'client, 'w) https_ops
       \<Rightarrow> nat \<Rightarrow> nat \<Rightarrow> ('h \<Rightarrow> nat) \<Rightarrow> nat \<Rightarrow> string
       \<Rightarrow> (('h, 'c, 'd, 'l, 'w) app_state, http_error, vpn_speed_test_response) fallible" where
  "post_vpn_speed_test G S X now mnow pnow elapsed_ms request s =
     (case parse_request_address request of
        Inl e \<Rightarrow> (Inl e, s)
      | Inr address \<Rightarrow>
          if ap_vpn s = None then (Inl (SERVICE_UNAVAILABLE, ''vpn unavailable''), s)
          else (let peer_ip = ipv4_to_string address in
                case build_vpn_snapshot G now mnow pnow s of
                  (snapshot, s) \<Rightarrow>
                    if list_all (\<lambda>p. vp_tunnel_ip p \<noteq> Some peer_ip) (vs_peers snapshot)
                    then (Inl (NOT_FOUND, ''peer tunnel IP not found''), s)
                    else on_world (\<lambda>e. e) (speed_request S X elapsed_ms peer_ip) s))"

section \<open>Status\<close>

definition build_ws_interfaces :: "(string \<times> if_addr) list option \<Rightarrow> ws_interfaces" where
  "build_ws_interfaces interfaces =
     \<lparr>wi_wlan0_ip = read_interface_ipv4 interfaces ''wlan0'', wi_usb0_ip = read_interface_ipv4 interfaces ''usb0''\<rparr>"

definition build_services ::
    "'w sys_ops \<Rightarrow> ('h, 'c, 'd, 'l, 'w) live_state \<Rightarrow> service_status list \<times> ('h, 'c, 'd, 'l, 'w) live_state" where
  "build_services S s =
     (case read_gateway_services S (ap_world (lv_app s)) of
        (services, w) \<Rightarrow> (services, s\<lparr>lv_app := (lv_app s)\<lparr>ap_world := w\<rparr>\<rparr>))"

definition build_network_ports ::
    "('h, 'c, 'd, 'l, 'w) live_state \<Rightarrow> service_status list \<Rightarrow> network_port_status list" where
  "build_network_ports s services =
     network_ports (sock_port (lv_ctrl_server s)) (ip_to_string (sock_ip (lv_ctrl_server s))) (sock_port (lv_http_addr s)) services"

definition build_system_status :: "'w host_ops \<Rightarrow> 'w \<Rightarrow> 'w \<Rightarrow> system_status_dto" where
  "build_system_status H w later =
     (case read_mem_mb H w of (ram_used_mb, ram_total_mb) \<Rightarrow>
      case read_fs_mb H w of (fs_free_mb, fs_total_mb) \<Rightarrow>
        \<lparr>sy_cpu_percent = read_cpu_percent H w later, sy_ram_used_mb = ram_used_mb, sy_ram_total_mb = ram_total_mb,
         sy_fs_free_mb = fs_free_mb, sy_fs_total_mb = fs_total_mb, sy_os_details = read_os_details H later\<rparr>)"

definition build_reticulum_snapshot :: "('h, 'c, 'd, 'l, 'w) live_state \<Rightarrow> reticulum_snapshot" where
  "build_reticulum_snapshot s = reticulum_snapshot_of (lv_reticulum s)"

definition build_ws_reticulum_snapshot :: "('h, 'c, 'd, 'l, 'w) live_state \<Rightarrow> ws_reticulum_snapshot" where
  "build_ws_reticulum_snapshot s =
     (let snapshot = reticulum_snapshot_of (lv_reticulum s)
      in \<lparr>wr_interface_stats = rsn_interface_stats snapshot, wr_incoming_links = rsn_incoming_links snapshot,
          wr_outgoing_links = rsn_outgoing_links snapshot\<rparr>)"

definition live_vpn_snapshot ::
    "('h, 'c::linorder, 'd, 'l, 'r, 'm, 'w) gateway_env \<Rightarrow> ('h, 'w) status_reads
       \<Rightarrow> ('h, 'c, 'd, 'l, 'w) live_state \<Rightarrow> vpn_snapshot \<times> ('h, 'c, 'd, 'l, 'w) live_state" where
  "live_vpn_snapshot G rd s =
     (case build_vpn_snapshot G (sr_now rd) (sr_mnow rd) (sr_pnow rd) (lv_app s) of
        (vpn, app) \<Rightarrow> (vpn, s\<lparr>lv_app := app\<rparr>))"

record ('r, 'm) status_response =
  st_vpn_hash :: string
  st_wlan0_ip :: "string option"
  st_usb0_ip :: "string option"
  st_network_ports :: "network_port_status list"
  st_system :: system_status_dto
  st_services :: "service_status list"
  st_radio_modules :: "('r, 'm) radio_module_config list"
  st_reticulum :: reticulum_snapshot
  st_vpn :: vpn_snapshot
  st_rx_frames :: "rx_frame_dto list \<times> rx_frame_dto list"
  st_frame_stats :: "frame_stats_dto \<times> frame_stats_dto"

text \<open>The configured radio modules: none when the lock is poisoned or the configuration does not load.\<close>

definition status_radio_modules ::
    "('h, 'c, 'd, 'l, 'r, 'm, 'w) gateway_env \<Rightarrow> ('h, 'c, 'd, 'l, 'w) app_state
       \<Rightarrow> ('r, 'm) radio_module_config list \<times> ('h, 'c, 'd, 'l, 'w) app_state" where
  "status_radio_modules G s =
     (case get_settings G s of
        (Inr c, s) \<Rightarrow> (hrc_module_configs (gc_radio c), s)
      | (Inl _, s) \<Rightarrow> ([], s))"

definition build_status ::
    "('h, 'c::linorder, 'd, 'l, 'r, 'm, 'w) gateway_env \<Rightarrow> 'w host_ops \<Rightarrow> ('h, 'w) status_reads
       \<Rightarrow> ('h, 'c, 'd, 'l, 'w) live_state \<Rightarrow> ('r, 'm) status_response \<times> ('h, 'c, 'd, 'l, 'w) live_state" where
  "build_status G H rd s =
     (case status_radio_modules G (lv_app s) of (radio_modules, app) \<Rightarrow>
      case build_services (ge_sys G) (s\<lparr>lv_app := app\<rparr>) of (services, s) \<Rightarrow>
        (let interfaces = build_ws_interfaces (sr_interfaces rd);
             system = build_system_status H (ap_world (lv_app s)) (sr_later rd);
             rx_frames = build_all_radio_frames (lv_frames s)
         in case build_all_frame_stats (sr_frames_now rd) (sr_frames_now' rd) (lv_frames s) of (frame_stats, m) \<Rightarrow>
            case live_vpn_snapshot G rd (s\<lparr>lv_frames := m\<rparr>) of (vpn, s') \<Rightarrow>
              (\<lparr>st_vpn_hash = lv_vpn_hash s, st_wlan0_ip = wi_wlan0_ip interfaces, st_usb0_ip = wi_usb0_ip interfaces,
                st_network_ports = build_network_ports s services, st_system = system, st_services = services,
                st_radio_modules = radio_modules, st_reticulum = build_reticulum_snapshot s, st_vpn = vpn,
                st_rx_frames = rx_frames, st_frame_stats = frame_stats\<rparr>, s')))"

definition get_status ::
    "('h, 'c::linorder, 'd, 'l, 'r, 'm, 'w) gateway_env \<Rightarrow> 'w host_ops \<Rightarrow> ('h, 'w) status_reads
       \<Rightarrow> ('h, 'c, 'd, 'l, 'w) live_state \<Rightarrow> ('r, 'm) status_response \<times> ('h, 'c, 'd, 'l, 'w) live_state" where
  "get_status G H rd s = build_status G H rd s"

section \<open>Events\<close>

text \<open>The events that are published every second, in order.\<close>

definition publish_periodic_events ::
    "('h, 'c::linorder, 'd, 'l, 'r, 'm, 'w) gateway_env \<Rightarrow> 'w host_ops \<Rightarrow> ('h, 'w) status_reads
       \<Rightarrow> ('h, 'c, 'd, 'l, 'w) live_state \<Rightarrow> ws_status_event list \<times> ('h, 'c, 'd, 'l, 'w) live_state" where
  "publish_periodic_events G H rd s =
     (case build_services (ge_sys G) s of (services, s) \<Rightarrow>
      case live_vpn_snapshot G rd s of (vpn, s') \<Rightarrow>
        ([WsInterfaces (build_ws_interfaces (sr_interfaces rd)),
          WsSystem (build_system_status H (ap_world (lv_app s)) (sr_later rd)),
          WsServices services,
          WsNetworkPorts (build_network_ports s services),
          WsVpn vpn,
          WsReticulum (build_ws_reticulum_snapshot s')], s'))"

definition radio_frames_event :: "nat \<Rightarrow> nat \<Rightarrow> frame_monitor \<Rightarrow> ws_status_event \<times> frame_monitor" where
  "radio_frames_event now n m =
     (case build_frame_stats now n m of
        (stats, m') \<Rightarrow> (WsRadioFrames \<lparr>wrf_module = n, wrf_frames = build_radio_frames n m, wrf_stats = stats\<rparr>, m'))"

text \<open>
  The first events of a new client. \<open>before\<close> and \<open>between\<close> are what the frame listener does until the
  buffer of the first module is read, and from there until that of the second one is.
\<close>

definition initial_events ::
    "('h, 'c::linorder, 'd, 'l, 'r, 'm, 'w) gateway_env \<Rightarrow> 'w host_ops \<Rightarrow> ('h, 'w) status_reads
       \<Rightarrow> (frame_monitor \<Rightarrow> frame_monitor) \<Rightarrow> (frame_monitor \<Rightarrow> frame_monitor)
       \<Rightarrow> ('h, 'c, 'd, 'l, 'w) live_state \<Rightarrow> ws_status_event list \<times> ('h, 'c, 'd, 'l, 'w) live_state" where
  "initial_events G H rd before between s =
     (case build_services (ge_sys G) s of (services, s) \<Rightarrow>
      case live_vpn_snapshot G rd s of (vpn, s') \<Rightarrow>
      case radio_frames_event (sr_frames_now rd) 0 (before (lv_frames s')) of (frames0, m) \<Rightarrow>
      case radio_frames_event (sr_frames_now' rd) 1 (between m) of (frames1, m) \<Rightarrow>
        ([WsInterfaces (build_ws_interfaces (sr_interfaces rd)),
          WsSystem (build_system_status H (ap_world (lv_app s)) (sr_later rd)),
          WsServices services,
          WsNetworkPorts (build_network_ports s services),
          WsVpn vpn,
          WsReticulum (build_ws_reticulum_snapshot s'),
          frames0, frames1], s'\<lparr>lv_frames := m\<rparr>))"

section \<open>The socket\<close>

text \<open>A socket sends a text or fails; \<open>serde_json\<close> may refuse to serialise.\<close>

record 'w ws_ops =
  ws_json :: "ws_status_event \<Rightarrow> string option"
  ws_send :: "string \<Rightarrow> 'w \<Rightarrow> bool \<times> 'w"

datatype ws_recv = RecvEvent ws_status_event | RecvLagged nat | RecvClosed

definition send_event :: "'w ws_ops \<Rightarrow> ws_status_event \<Rightarrow> 'w \<Rightarrow> bool \<times> 'w" where
  "send_event K event w = (case ws_json K event of Some json \<Rightarrow> ws_send K json w | None \<Rightarrow> (False, w))"

fun send_events :: "'w ws_ops \<Rightarrow> ws_status_event list \<Rightarrow> 'w \<Rightarrow> bool \<times> 'w" where
  "send_events K [] w = (True, w)"
| "send_events K (e # es) w =
     (case send_event K e w of (True, w) \<Rightarrow> send_events K es w | (False, w) \<Rightarrow> (False, w))"

text \<open>What the loop does with what it receives: whether it still runs, and the world.\<close>

fun socket_loop :: "'w ws_ops \<Rightarrow> ws_recv list \<Rightarrow> 'w \<Rightarrow> bool \<times> 'w" where
  "socket_loop K [] w = (True, w)"
| "socket_loop K (RecvEvent e # rs) w =
     (case send_event K e w of (True, w) \<Rightarrow> socket_loop K rs w | (False, w) \<Rightarrow> (False, w))"
| "socket_loop K (RecvLagged _ # rs) w = socket_loop K rs w"
| "socket_loop K (RecvClosed # rs) w = (False, w)"

definition handle_socket :: "'w ws_ops \<Rightarrow> ws_status_event list \<Rightarrow> ws_recv list \<Rightarrow> 'w \<Rightarrow> bool \<times> 'w" where
  "handle_socket K initial rs w =
     (case send_events K initial w of (True, w) \<Rightarrow> socket_loop K rs w | (False, w) \<Rightarrow> (False, w))"

section \<open>The view of a client\<close>

text \<open>What a list of events shows of a radio module: the buffer of the last event about it.\<close>

fun radio_of :: "ws_status_event \<Rightarrow> ws_radio_frames list" where
  "radio_of (WsRadioFrames f) = [f]"
| "radio_of _ = []"

definition radio_events :: "ws_status_event list \<Rightarrow> ws_radio_frames list" where
  "radio_events es = concat (map radio_of es)"

definition shown_frames :: "nat \<Rightarrow> ws_radio_frames list \<Rightarrow> rx_frame_dto list option" where
  "shown_frames n fs =
     (let own = filter (\<lambda>f. wrf_module f = n) fs in if own = [] then None else Some (wrf_frames (last own)))"

text \<open>The events that the loop receives before the channel closes.\<close>

fun received :: "ws_recv list \<Rightarrow> ws_status_event list" where
  "received [] = []"
| "received (RecvEvent e # rs) = e # received rs"
| "received (RecvLagged _ # rs) = received rs"
| "received (RecvClosed # rs) = []"

text \<open>\<open>texts\<close> is what a client got: a send that succeeds adds its text, one that fails adds nothing.\<close>

definition socket_law :: "'w ws_ops \<Rightarrow> ('w \<Rightarrow> string list) \<Rightarrow> bool" where
  "socket_law K texts \<longleftrightarrow>
     (\<forall>json w sent w'. ws_send K json w = (sent, w') \<longrightarrow> texts w' = texts w @ (if sent then [json] else []))"

section \<open>Lemmas\<close>

lemma radio_events_append [simp]: "radio_events (xs @ ys) = radio_events xs @ radio_events ys"
  by (simp add: radio_events_def)

lemma shown_frames_append:
  "shown_frames n (xs @ ys) = (case shown_frames n ys of None \<Rightarrow> shown_frames n xs | Some fs \<Rightarrow> Some fs)"
  by (simp add: shown_frames_def Let_def)

lemma shown_frames_nil [simp]: "shown_frames n [] = None"
  by (simp add: shown_frames_def)

text \<open>What was sent since a state determines how the buffers changed since then.\<close>

definition tracks :: "frame_monitor \<Rightarrow> frame_monitor \<Rightarrow> bool" where
  "tracks m m' \<longleftrightarrow> two_modules m' \<and>
     (\<exists>ps. fm_sent m' = fm_sent m @ ps \<and>
        (\<forall>n<2. fm_rx_buffers m' ! n = (case shown_frames n ps of None \<Rightarrow> fm_rx_buffers m ! n | Some fs \<Rightarrow> fs)))"

lemma tracks_refl: "two_modules m \<Longrightarrow> tracks m m"
  by (simp add: tracks_def)

lemma tracks_trans: "tracks m m1 \<Longrightarrow> tracks m1 m2 \<Longrightarrow> tracks m m2"
  by (fastforce simp: tracks_def shown_frames_append split: option.splits)

lemma tracks_same: "two_modules m' \<Longrightarrow> fm_sent m' = fm_sent m \<Longrightarrow> fm_rx_buffers m' = fm_rx_buffers m \<Longrightarrow> tracks m m'"
  by (simp add: tracks_def)

lemma tracks_step:
  assumes "two_modules m" shows "tracks m (fm_step crc32 e m)"
  using assms fm_step_two_modules [OF assms, of crc32 e]
  by (cases "(crc32, e, m)" rule: fm_step.cases)
    (auto simp: tracks_def step_defs two_modules_def nth_list_update shown_frames_def)

lemma tracks_steps: "two_modules m \<Longrightarrow> tracks m (fold (fm_step crc32) evs m)"
proof (induction evs arbitrary: m)
  case (Cons e evs)
  then show ?case using tracks_trans [OF tracks_step Cons.IH] fm_step_two_modules by simp
qed (simp add: tracks_refl)

lemma tracks_readings: "two_modules m \<Longrightarrow> tracks m (snd (build_frame_stats now n m))"
  by (rule tracks_same) (auto simp: build_frame_stats_def Let_def two_modules_def split: prod.split)

lemma frames_event:
  assumes "radio_frames_event now n m = (e, m')"
  shows "\<exists>stats. e = WsRadioFrames \<lparr>wrf_module = n, wrf_frames = build_radio_frames n m, wrf_stats = stats\<rparr>"
    "m' = snd (build_frame_stats now n m)"
  using assms by (auto simp: radio_frames_event_def split: prod.splits)

lemma live_parts:
  "lv_frames (snd (build_services S s)) = lv_frames s" "lv_frames (snd (live_vpn_snapshot G rd s)) = lv_frames s"
  by (simp_all add: build_services_def live_vpn_snapshot_def split: prod.split)

text \<open>The buffers that the first events show, and the buffers when they were read.\<close>

lemma initial_events_radio:
  assumes run: "initial_events G H rd before between s = (es, s')"
  shows "\<exists>e0 e1. let m0 = before (lv_frames s); m1 = between (snd (build_frame_stats (sr_frames_now rd) 0 m0)) in
      radio_events es = [e0, e1] \<and> wrf_module e0 = 0 \<and> wrf_frames e0 = fm_rx_buffers m0 ! 0
    \<and> wrf_module e1 = 1 \<and> wrf_frames e1 = fm_rx_buffers m1 ! 1
    \<and> lv_frames s' = snd (build_frame_stats (sr_frames_now' rd) 1 m1)"
proof -
  obtain services s1 where s1: "build_services (ge_sys G) s = (services, s1)" by fastforce
  obtain vpn s2 where s2: "live_vpn_snapshot G rd s1 = (vpn, s2)" by fastforce
  have frames: "lv_frames s2 = lv_frames s"
    using live_parts(1) [of "ge_sys G" s] live_parts(2) [of G rd s1] s1 s2 by simp
  obtain e0 m0 where e0: "radio_frames_event (sr_frames_now rd) 0 (before (lv_frames s)) = (e0, m0)" by fastforce
  obtain e1 m1 where e1: "radio_frames_event (sr_frames_now' rd) 1 (between m0) = (e1, m1)" by fastforce
  from frames_event [OF e0] frames_event [OF e1] run s1 s2 frames e0 e1 show ?thesis
    by (auto simp: initial_events_def radio_events_def build_radio_frames_def Let_def)
qed

lemma send_event_effect:
  assumes "socket_law K texts" "send_event K e w = (sent, w')"
  shows "texts w' = texts w @ (if sent then [the (ws_json K e)] else [])"
  using assms by (auto simp: send_event_def socket_law_def split: option.splits)

lemma send_events_effect:
  assumes "socket_law K texts"
  shows "send_events K es w = (sent, w') \<Longrightarrow>
    \<exists>k\<le>length es. texts w' = texts w @ map (\<lambda>e. the (ws_json K e)) (take k es) \<and> (sent \<longrightarrow> k = length es)"
proof (induction es arbitrary: w)
  case (Cons e es)
  obtain x w1 where s: "send_event K e w = (x, w1)" by fastforce
  note 1 = send_event_effect [OF assms s]
  show ?case
  proof (cases x)
    case True
    with Cons.prems s have "send_events K es w1 = (sent, w')" by simp
    from Cons.IH [OF this] obtain k where "k \<le> length es"
      "texts w' = texts w1 @ map (\<lambda>e. the (ws_json K e)) (take k es)" "sent \<longrightarrow> k = length es" by blast
    with 1 True show ?thesis by (intro exI [of _ "Suc k"]) simp
  next
    case False
    with Cons.prems s 1 show ?thesis by (intro exI [of _ 0]) simp
  qed
qed simp

lemma socket_loop_sends:
  "socket_loop K rs w = (sent, w') \<Longrightarrow> \<exists>sent'. send_events K (received rs) w = (sent', w') \<and> (sent \<longrightarrow> sent')"
  by (induction K rs w rule: socket_loop.induct) (auto split: prod.splits bool.splits)

lemma send_events_append:
  "send_events K (xs @ ys) w = (case send_events K xs w of (True, w) \<Rightarrow> send_events K ys w | (False, w) \<Rightarrow> (False, w))"
  by (induction xs arbitrary: w) (auto split: prod.split bool.split)

lemma handle_socket_effect:
  assumes law: "socket_law K texts" and run: "handle_socket K initial rs w = (running, w')"
  shows "\<exists>k\<le>length (initial @ received rs). texts w' = texts w @ map (\<lambda>e. the (ws_json K e)) (take k (initial @ received rs))
    \<and> (running \<longrightarrow> k = length (initial @ received rs))"
proof -
  obtain sent where sent: "send_events K (initial @ received rs) w = (sent, w')" "running \<longrightarrow> sent"
    using run by (auto simp: handle_socket_def send_events_append split: prod.splits bool.splits dest!: socket_loop_sends)
  with send_events_effect [OF law sent(1)] show ?thesis by blast
qed

section \<open>Properties\<close>


lemma received_all: "received (map (\<lambda>f. RecvEvent (WsRadioFrames f)) fs) = map WsRadioFrames fs"
  by (induction fs) auto

lemma radio_events_all: "radio_events (map WsRadioFrames fs) = fs"
  by (induction fs) (auto simp: radio_events_def)

definition recording_socket :: "string list ws_ops" where
  "recording_socket = \<lparr>ws_json = (\<lambda>_. Some ''event''), ws_send = (\<lambda>json w. (True, w @ [json]))\<rparr>"

lemma recording_sends: "send_events recording_socket es w = (True, w @ map (\<lambda>_. ''event'') es)"
  by (induction es arbitrary: w) (simp_all add: send_event_def recording_socket_def)

lemma recording_loop: "socket_loop recording_socket (map (\<lambda>f. RecvEvent (WsRadioFrames f)) fs) w = (True, w @ map (\<lambda>_. ''event'') fs)"
  by (induction fs arbitrary: w) (simp_all add: send_event_def recording_socket_def)

lemma initial_tracks:
  assumes "two_modules (lv_frames s)"
    and "initial_events G H rd (fold (fm_step crc32) evs1) (fold (fm_step crc32) evs2) s = (es, s')"
  shows "\<exists>ps. fm_sent (fold (fm_step crc32) evs3 (lv_frames s')) = fm_sent (lv_frames s) @ [] @ ps"
proof -
  have e: "lv_frames s' = snd (build_frame_stats (sr_frames_now' rd) 1
      (fold (fm_step crc32) evs2 (snd (build_frame_stats (sr_frames_now rd) 0 (fold (fm_step crc32) evs1 (lv_frames s))))))"
    using initial_events_radio [OF assms(2)] by (auto simp: Let_def)
  have a: "tracks (lv_frames s) (fold (fm_step crc32) evs1 (lv_frames s))" (is "tracks _ ?a") by (rule tracks_steps [OF assms(1)])
  then have b: "tracks ?a (snd (build_frame_stats (sr_frames_now rd) 0 ?a))" (is "tracks _ ?b")
    by (intro tracks_readings) (simp add: tracks_def)
  then have c: "tracks ?b (fold (fm_step crc32) evs2 ?b)" (is "tracks _ ?c") by (intro tracks_steps) (simp add: tracks_def)
  then have d: "tracks ?c (lv_frames s')" unfolding e by (intro tracks_readings) (simp add: tracks_def)
  then have "tracks (lv_frames s') (fold (fm_step crc32) evs3 (lv_frames s'))"
    by (intro tracks_steps) (simp add: tracks_def)
  with a b c d have "tracks (lv_frames s) (fold (fm_step crc32) evs3 (lv_frames s'))" by (blast intro: tracks_trans)
  then show ?thesis by (auto simp: tracks_def)
qed

definition plain_host :: "kernel_state host_ops" where
  "plain_host =
     \<lparr>ho_sys = ge_sys gw_env, ho_statvfs = (\<lambda>_ _. None), ho_current_dir = (\<lambda>_. None), ho_uname = (\<lambda>_. None),
      ho_os = ''linux'', ho_arch = ''arm'', ho_parallelism = (\<lambda>_. Some 1)\<rparr>"

definition plain_reads :: "(string, kernel_state) status_reads" where
  "plain_reads =
     \<lparr>sr_interfaces = None, sr_later = wit_kernel, sr_now = 0, sr_mnow = 0, sr_pnow = (\<lambda>_. 0),
      sr_frames_now = 0, sr_frames_now' = 0\<rparr>"

definition plain_live :: "(string, cidr4, string, unit, kernel_state) live_state" where
  "plain_live =
     \<lparr>lv_app = \<lparr>ap_settings = empty_database, ap_poisoned = False, ap_vpn = None, ap_world = wit_kernel\<rparr>,
      lv_frames = frame_monitor_new, lv_reticulum = gateway_reticulum_new, lv_serial = ''K1'', lv_vpn_hash = [],
      lv_ctrl_server = SockV4 0 9090, lv_http_addr = SockV4 0 80\<rparr>"


text \<open>
  A speed test sends a request only when the VPN runs and the address is the tunnel address of a peer it
  knows; every other request is refused without touching anything but the rates of the snapshot.
\<close>

lemma speed_test_known_peer:
  assumes "post_vpn_speed_test G S X now mnow pnow elapsed_ms request s = (r, s')"
  shows "(\<exists>code text. r = Inl (code, text) \<and> code \<in> {400, 404, 503} \<and> ap_world s' = ap_world s \<and> ap_settings s' = ap_settings s)
    \<or> (\<exists>address rt peer. parse_request_address request = Inr address \<and> ap_vpn s = Some rt
         \<and> peer \<in> set (vs_peers (fst (snapshot_of (ge_vpn G) now mnow pnow rt)))
         \<and> vp_tunnel_ip peer = Some (ipv4_to_string address))"
  using assms
  by (auto simp: post_vpn_speed_test_def parse_request_address_def build_vpn_snapshot_def status_codes Let_def list_all_iff
      split: option.splits prod.splits sum.splits if_splits)

lemma speed_result_rate:
  assumes "elapsed_ms \<le> u64_max" "len * 8000 \<le> u64_max"
  shows "sp_bps (speed_result len elapsed_ms) = len * 8000 div max elapsed_ms 1"
proof -
  have "len * 8000 div max elapsed_ms 1 \<le> u64_max" using assms(2) by (meson div_le_dividend le_trans)
  moreover have "max elapsed_ms 1 \<le> u64_max" using assms(1) by (simp add: u64_max_def)
  ultimately show ?thesis by (simp add: speed_result_def Let_def mult.commute [of len])
qed

end
