(* ===== verification/Gw_Pages.thy ===== *)
theory Gw_Pages
  imports Gw_Status Gw_Audio "HOL-Library.Multiset"
begin

text \<open>
  What the pages of the web interface compute on the server (\<open>kaonic-gateway/src/pages\<close> and
  \<open>components/navbar.rs\<close>): the functions that load and save for a page, and the texts and classes that they
  show. The views are those of \<open>Views_Status\<close>, \<open>Views_Devices\<close> and \<open>Views_Vpn\<close>. A server function finds the shared state in its
  context or fails; the error of a server function is its message.
\<close>

section \<open>Texts\<close>

definition ellipsis :: string where "ellipsis = [CHR 0xE2, CHR 0x80, CHR 0xA6]"
definition em_dash :: string where "em_dash = [CHR 0xE2, CHR 0x80, CHR 0x94]"

text \<open>Slicing a string inside a character panics: no value.\<close>

definition truncate_hash :: "string \<Rightarrow> string option" where
  "truncate_hash hash =
     (let compact = concat (split_whitespace hash) in
      if length compact > 16
      then (if is_continuation (compact ! 16) then None else Some (take 16 compact @ ellipsis))
      else Some compact)"

definition two_digits :: "nat \<Rightarrow> string" where
  "two_digits n = (if n < 10 then ''0'' @ dec_str n else dec_str n)"

definition format_relative_time :: "nat \<Rightarrow> string" where
  "format_relative_time ts =
     (if ts = 0 then ''never''
      else (let seconds = ts mod 86400
            in two_digits (seconds div 3600) @ '':'' @ two_digits (seconds mod 3600 div 60) @ '':''
               @ two_digits (seconds mod 60) @ '' UTC''))"

text \<open>\<open>{:.1}\<close> of a number: the nearest tenth of its exact value, ties to even.\<close>

definition one_decimal :: "rat \<Rightarrow> string" where
  "one_decimal x = (let t = nat (round_half_even (10 * x)) in dec_str (t div 10) @ ''.'' @ dec_str (t mod 10))"

definition f64_quotient :: "nat \<Rightarrow> nat \<Rightarrow> rat" where
  "f64_quotient a b = r64 (r64 (of_nat a) / of_nat b)"

definition format_bytes :: "nat \<Rightarrow> string" where
  "format_bytes n =
     (if 1024 * 1024 \<le> n then one_decimal (f64_quotient n (1024 * 1024)) @ '' MB''
      else if 1024 \<le> n then one_decimal (f64_quotient n 1024) @ '' KB''
      else dec_str n @ '' B'')"

definition format_bps :: "nat \<Rightarrow> string" where
  "format_bps bps =
     (if 1000000 \<le> bps then one_decimal (f64_quotient bps 1000000) @ '' Mbps''
      else if 1000 \<le> bps then one_decimal (f64_quotient bps 1000) @ '' Kbps''
      else dec_str bps @ '' bps'')"

definition dashboard_format_bytes :: "nat \<Rightarrow> string" where
  "dashboard_format_bytes n =
     (if 1024 * 1024 * 1024 \<le> n then one_decimal (f64_quotient n (1024 * 1024 * 1024)) @ '' GB''
      else if 1024 * 1024 \<le> n then one_decimal (f64_quotient n (1024 * 1024)) @ '' MB''
      else if 1024 \<le> n then one_decimal (f64_quotient n 1024) @ '' KB''
      else dec_str n @ '' B'')"

definition format_storage_mb :: "nat \<Rightarrow> string" where
  "format_storage_mb mb =
     (if 1024 \<le> mb then one_decimal (f64_quotient mb 1024) @ '' GB'' else dec_str mb @ '' MB'')"

definition radio_label :: "nat \<Rightarrow> string" where
  "radio_label index = (if index = 0 then ''Radio A'' else if index = 1 then ''Radio B'' else ''Radio'')"

definition vpn_badge_class :: "string \<Rightarrow> string" where
  "vpn_badge_class v =
     (let s = map to_ascii_lower (trim v) in
      if s \<in> {''running'', ''active'', ''ready'', ''installed'', ''yes''} then ''badge-ok''
      else if s \<in> {''discovered'', ''configured'', ''pending'', ''starting''} then ''badge-warn''
      else if s \<in> {''error'', ''closed'', ''failed'', ''no'', ''drop''} then ''badge-err''
      else ''reticulum-badge-soft'')"

definition status_dot_class :: "string \<Rightarrow> string" where
  "status_dot_class v =
     (let s = map to_ascii_lower (trim v) in
      if s = ''running'' then ''status-dot status-dot--ok''
      else if s = ''error'' then ''status-dot status-dot--err''
      else if s = ''mock'' then ''status-dot status-dot--idle''
      else ''status-dot status-dot--warn'')"

definition banner_modifier :: "string \<Rightarrow> string" where
  "banner_modifier v =
     (let s = map to_ascii_lower (trim v) in
      if s = ''running'' then ''vpn-banner vpn-banner--ok''
      else if s = ''error'' then ''vpn-banner vpn-banner--err''
      else ''vpn-banner vpn-banner--idle'')"

definition peer_dot_class :: "string \<Rightarrow> string" where
  "peer_dot_class v =
     (let s = map to_ascii_lower (trim v) in
      if s = ''active'' then ''status-dot status-dot--ok''
      else if s \<in> {''pending'', ''starting'', ''configured'', ''discovered''} then ''status-dot status-dot--warn''
      else if s \<in> {''closed'', ''error'', ''failed''} then ''status-dot status-dot--err''
      else ''status-dot status-dot--idle'')"

definition status_badge_class :: "string \<Rightarrow> string" where
  "status_badge_class v =
     (let s = map to_ascii_lower (trim v) in
      if s \<in> {''active'', ''ready'', ''running'', ''announce'', ''open''} then ''badge-ok''
      else if s \<in> {''starting'', ''discovered'', ''configured'', ''pending''} then ''badge-warn''
      else if s \<in> {''error'', ''failed'', ''closed'', ''down''} then ''badge-err''
      else ''reticulum-badge-soft'')"

definition source_badge_class :: "string \<Rightarrow> string" where
  "source_badge_class v =
     (let s = map to_ascii_lower (trim v) in
      if s = ''incoming link'' then ''reticulum-badge-source-in''
      else if s = ''outgoing link'' then ''reticulum-badge-source-out''
      else if s = ''announce'' then ''reticulum-badge-source-announce''
      else ''reticulum-badge-soft'')"

definition destination_kind_badge_class :: "string \<Rightarrow> string" where
  "destination_kind_badge_class v =
     (if map to_ascii_lower (trim v) = ''vpn'' then ''reticulum-badge-kind-vpn'' else ''reticulum-badge-soft'')"

definition service_badge_class :: "service_status \<Rightarrow> string" where
  "service_badge_class s =
     (if ss_load_state s \<noteq> ''loaded'' then ''badge-err''
      else if ss_active_state s = ''active'' then ''badge-ok''
      else if ss_active_state s \<in> {''activating'', ''reloading''} then ''badge-warn''
      else ''badge-err'')"

definition service_badge_label :: "service_status \<Rightarrow> string" where
  "service_badge_label s = (if ss_load_state s \<noteq> ''loaded'' then ss_load_state s else ss_active_state s)"

definition vpn_status_badge_class :: "string \<Rightarrow> string" where
  "vpn_status_badge_class s =
     (if s = ''running'' then ''badge badge-ok''
      else if s = ''mock'' then ''badge badge-warn''
      else if s = ''error'' then ''badge badge-err''
      else ''badge'')"

definition format_hash :: "string \<Rightarrow> string" where
  "format_hash v = (let compact = concat (split_whitespace v) in if compact = [] then em_dash else compact)"

definition split_badge_values :: "string \<Rightarrow> string list" where
  "split_badge_values v = filter (\<lambda>s. s \<noteq> []) (map trim (split_on CHR '','' v))"

section \<open>Routes and codes of the VPN page\<close>

definition parse_route_display :: "string \<Rightarrow> string \<times> string option" where
  "parse_route_display route =
     (case str_find '' -> '' route of
        Some idx \<Rightarrow> (trim (take idx route), Some (trim (drop (idx + 4) route)))
      | None \<Rightarrow> (trim route, None))"

definition serial_test_ip :: "string \<Rightarrow> string option" where
  "serial_test_ip route =
     (case split_on CHR ''.'' (trim (hd (split_on CHR ''/'' route))) of
        [a, b, c, d] \<Rightarrow> if d \<noteq> ''0'' then None else Some (a @ ''.'' @ b @ ''.'' @ c @ ''.1'')
      | _ \<Rightarrow> None)"

definition default_advertised_route_strings :: "string list \<Rightarrow> string list" where
  "default_advertised_route_strings routes = (if routes = [] then [''192.168.10.0/24''] else routes)"

definition vpn_add_peer_url :: "string \<Rightarrow> string \<Rightarrow> string" where
  "vpn_add_peer_url hash codename =
     ''https://192.168.10.1/vpn?vpn-add-peer='' @ hash @ ''&codename='' @ codename"

text \<open>\<open>slice::chunks\<close>\<close>

function chunks :: "nat \<Rightarrow> string \<Rightarrow> string list" where
  "chunks n s = (if n = 0 \<or> s = [] then [] else take n s # chunks n (drop n s))"
  by pat_completeness auto
termination
  by (relation "measure (\<lambda>(n, s). length s)") auto

declare chunks.simps [simp del]

definition split_hash_rows :: "string \<Rightarrow> nat \<Rightarrow> string list" where
  "split_hash_rows v row_len = (if row_len = 0 then [v] else map from_utf8_lossy (chunks row_len v))"

text \<open>A QR code is its size and its modules; the encoder of the \<open>qrcodegen\<close> crate is the argument \<open>qr\<close>.\<close>

definition qq :: string where "qq = [CHR 0x22]"

definition attribute :: "string \<Rightarrow> string \<Rightarrow> string" where
  "attribute name v = '' '' @ name @ ''='' @ qq @ v @ qq"

definition render_hash_qr_svg :: "(string \<Rightarrow> (nat \<times> (nat \<Rightarrow> nat \<Rightarrow> bool)) option) \<Rightarrow> string \<Rightarrow> string option" where
  "render_hash_qr_svg qr v =
     (case qr v of
        None \<Rightarrow> None
      | Some (n, dark) \<Rightarrow>
          (let border = 2; dimension = dec_str (n + border * 2)
           in Some
             (''<svg'' @ attribute ''xmlns'' ''http://www.w3.org/2000/svg''
                @ attribute ''viewBox'' (''0 0 '' @ dimension @ '' '' @ dimension)
                @ attribute ''shape-rendering'' ''crispEdges'' @ attribute ''aria-hidden'' ''true'' @ ''>''
              @ ''<rect'' @ attribute ''width'' ''100%'' @ attribute ''height'' ''100%'' @ attribute ''fill'' ''#ffffff'' @ ''/>''
              @ concat (map (\<lambda>y. concat (map (\<lambda>x.
                  if dark x y
                  then ''<rect'' @ attribute ''x'' (dec_str (x + border)) @ attribute ''y'' (dec_str (y + border))
                    @ attribute ''width'' ''1'' @ attribute ''height'' ''1'' @ attribute ''fill'' ''#111827'' @ ''/>''
                  else []) [0..<n])) [0..<n])
              @ ''</svg>'')))"

section \<open>Destinations\<close>

record local_destination_row =
  ld_name :: string
  ld_destination :: string
  ld_kind :: string
  ld_status :: string

record destination_row =
  dr_destination :: string
  dr_source :: string
  dr_status :: string

definition collect_local_destinations :: "vpn_snapshot \<Rightarrow> local_destination_row list" where
  "collect_local_destinations vpn =
     sort_key ld_name
       (if vs_destination_hash vpn = [] then []
        else [\<lparr>ld_name = ''kaonic.vpn'', ld_destination = vs_destination_hash vpn, ld_kind = ''VPN'',
               ld_status = vs_status vpn\<rparr>])"

text \<open>The sources and the statuses of a destination; a \<open>BTreeMap\<close> is read in the order of its keys.\<close>

type_synonym destination_entry = "string list \<times> string list"

definition push_unique :: "string \<Rightarrow> string list \<Rightarrow> string list" where
  "push_unique v items = (if v \<noteq> [] \<and> v \<notin> set items then items @ [v] else items)"

definition add_link ::
    "string \<Rightarrow> reticulum_link_dto \<Rightarrow> (string \<times> destination_entry) list \<Rightarrow> (string \<times> destination_entry) list" where
  "add_link source link entries =
     (case (case map_of entries (rl_destination link) of Some e \<Rightarrow> e | None \<Rightarrow> ([], [])) of
        (sources, statuses) \<Rightarrow>
          AList.update (rl_destination link) (push_unique source sources, push_unique (rl_status link) statuses) entries)"

definition joined_or_dash :: "string list \<Rightarrow> string" where
  "joined_or_dash vs = (if vs = [] then em_dash else join_with '', '' vs)"

definition collect_open_destinations :: "reticulum_snapshot \<Rightarrow> destination_row list" where
  "collect_open_destinations reticulum =
     (let entries = fold (add_link ''incoming link'') (rsn_incoming_links reticulum) [];
          entries = fold (add_link ''outgoing link'') (rsn_outgoing_links reticulum) entries
      in map (\<lambda>(destination, (sources, statuses)).
              \<lparr>dr_destination = destination, dr_source = joined_or_dash sources, dr_status = joined_or_dash statuses\<rparr>)
           (sort_key fst entries))"

section \<open>Labels of routes\<close>

definition graphic_text :: "string \<Rightarrow> bool" where
  "graphic_text s \<longleftrightarrow> s \<noteq> [] \<and> list_all is_ascii_graphic s"

lemma graphic_no_space: "list_all is_ascii_graphic s \<Longrightarrow> CHR '' '' \<notin> set s"
  by (auto simp: list_all_iff is_ascii_graphic_def)

lemma trim_graphic_text: "graphic_text s \<Longrightarrow> trim s = s"
  by (auto simp: graphic_text_def list_all_iff intro!: trim_graphic)

lemma str_find_absent: "c \<notin> set s \<Longrightarrow> str_find (c # p) s = None"
  by (induction s) (auto simp: starts_with_def)

lemma str_find_after: "c \<notin> set a \<Longrightarrow> str_find (c # p) (a @ c # p @ b) = Some (length a)"
  by (induction a) (auto simp: starts_with_def)

lemma parse_mapping_label:
  assumes "\<forall>c. graphic_text (cidr_to_string C c)"
  shows "parse_route_display (mapping_label C t) =
    (cidr_to_string C (lrt_exported t),
     if lrt_local t = lrt_exported t then None else Some (cidr_to_string C (lrt_local t)))"
proof -
  have g: "trim (cidr_to_string C c) = cidr_to_string C c" "CHR '' '' \<notin> set (cidr_to_string C c)" for c
    using assms graphic_no_space by (auto simp: trim_graphic_text graphic_text_def)
  show ?thesis
    by (cases "lrt_local t = lrt_exported t")
      (simp_all add: parse_route_display_def mapping_label_def str_find_absent g
        str_find_after [of "CHR '' ''" _ "''-> ''", simplified])
qed

lemma map_sort_key: "map f (sort_key f xs) = sort (map f xs)"
  by (rule properties_for_sort [symmetric]) simp_all

text \<open>
  The page shows the exported network of every translation, which is the announced one, and the local network
  when it differs: the labels of a snapshot are taken apart as they were put together.
\<close>

lemma route_labels_shown:
  assumes "\<forall>c. graphic_text (cidr_to_string (e_cidr E) c)"
  shows "\<exists>ts. mset ts = mset (route_translations E rt)
    \<and> map parse_route_display (vs_local_routes (fst (snapshot_of E now mnow pnow rt)))
      = map (\<lambda>t. (cidr_to_string (e_cidr E) (lrt_exported t),
                  if lrt_local t = lrt_exported t then None else Some (cidr_to_string (e_cidr E) (lrt_local t)))) ts"
proof (intro exI conjI)
  let ?l = "mapping_label (e_cidr E)" and ?ts = "route_translations E rt"
  show "mset (sort_key ?l ?ts) = mset ?ts" by simp
  have "vs_local_routes (fst (snapshot_of E now mnow pnow rt)) = map ?l (sort_key ?l ?ts)"
    by (simp add: snapshot_of_def Let_def map_sort_key split: prod.split)
  then show "map parse_route_display (vs_local_routes (fst (snapshot_of E now mnow pnow rt)))
      = map (\<lambda>t. (cidr_to_string (e_cidr E) (lrt_exported t),
                  if lrt_local t = lrt_exported t then None else Some (cidr_to_string (e_cidr E) (lrt_local t))))
          (sort_key ?l ?ts)"
    by (simp add: parse_mapping_label [OF assms])
qed

lemma cidr4_graphic: "graphic_text (cidr_to_string cidr4_ops c)"
proof -
  have "list_all is_ascii_graphic (dec_str n)" for n
    using dec_str_digits [of n] by (auto simp: list_all_iff is_ascii_digit_def is_ascii_graphic_def)
  then show ?thesis
    by (simp add: graphic_text_def cidr4_ops_def ipv4_to_string_def octets_def is_ascii_graphic_def)
qed

section \<open>Open destinations\<close>

text \<open>The elements of a list at their first positions.\<close>

definition firsts :: "'a list \<Rightarrow> 'a list" where
  "firsts xs = rev (remdups (rev xs))"

lemma firsts_snoc: "firsts (xs @ [x]) = (if x \<in> set xs then firsts xs else firsts xs @ [x])"
  by (simp add: firsts_def)

lemma set_firsts [simp]: "set (firsts xs) = set xs"
  by (simp add: firsts_def)

lemma push_unique_firsts: "push_unique v (firsts ys) = firsts (ys @ filter (\<lambda>v. v \<noteq> []) [v])"
  by (simp add: push_unique_def firsts_snoc)

lemma fold_push_unique: "fold push_unique vs (firsts ys) = firsts (ys @ filter (\<lambda>v. v \<noteq> []) vs)"
proof (induction vs arbitrary: ys)
  case (Cons v vs)
  show ?case by (simp add: push_unique_firsts Cons.IH del: filter.simps) simp
qed simp

lemma firsts_Nil [simp]: "firsts [] = []"
  by (simp add: firsts_def)

lemma fold_push_unique_Nil: "fold push_unique vs [] = firsts (filter (\<lambda>v. v \<noteq> []) vs)"
  using fold_push_unique [of vs "[]"] by simp

abbreviation links_to :: "string \<Rightarrow> reticulum_link_dto list \<Rightarrow> reticulum_link_dto list" where
  "links_to d ls \<equiv> filter (\<lambda>l. rl_destination l = d) ls"

lemma push_unique_idem: "push_unique v (push_unique v xs) = push_unique v xs"
  by (simp add: push_unique_def)

abbreviation entry_of :: "(string \<times> destination_entry) list \<Rightarrow> string \<Rightarrow> destination_entry" where
  "entry_of es d \<equiv> (case map_of es d of Some e \<Rightarrow> e | None \<Rightarrow> ([], []))"

lemma add_link_update: "\<exists>e. add_link source l es = AList.update (rl_destination l) e es"
  by (auto simp: add_link_def split: prod.splits)

lemma keys_add_link:
  "fst ` set (add_link source l es) = insert (rl_destination l) (fst ` set es)"
  "distinct (map fst es) \<Longrightarrow> distinct (map fst (add_link source l es))"
proof -
  obtain e where "add_link source l es = AList.update (rl_destination l) e es"
    using add_link_update by blast
  then show "fst ` set (add_link source l es) = insert (rl_destination l) (fst ` set es)"
    "distinct (map fst es) \<Longrightarrow> distinct (map fst (add_link source l es))"
    by (simp_all add: dom_update distinct_update)
qed

lemma fold_add_link_keys:
  "fst ` set (fold (add_link source) ls es) = rl_destination ` set ls \<union> fst ` set es"
  "distinct (map fst es) \<Longrightarrow> distinct (map fst (fold (add_link source) ls es))"
  by (induction ls arbitrary: es) (simp_all add: keys_add_link)

lemma fold_add_link_entry:
  "entry_of (fold (add_link source) ls es) d =
     (let (sources, statuses) = entry_of es d
      in (if links_to d ls = [] then sources else push_unique source sources,
          fold push_unique (map rl_status (links_to d ls)) statuses))"
proof (induction ls arbitrary: es)
  case (Cons l ls)
  have step: "entry_of (add_link source l es) d =
      (if rl_destination l = d
       then (push_unique source (fst (entry_of es d)), push_unique (rl_status l) (snd (entry_of es d)))
       else entry_of es d)"
    by (auto simp: add_link_def update_conv' split: prod.splits option.splits)
  show ?case
    by (simp only: fold_Cons comp_apply Cons.IH step)
       (simp add: push_unique_idem split: prod.splits)
qed (simp split: prod.splits)

lemma sort_key_fst_map_of:
  fixes es :: "('k::linorder \<times> 'v) list"
  assumes "distinct (map fst es)"
  shows "sort_key fst es = map (\<lambda>k. (k, the (map_of es k))) (sorted_list_of_set (set (map fst es)))"
proof -
  have "map fst (sort_key fst es) = sorted_list_of_set (set (map fst es))"
    by (rule sorted_distinct_set_unique) (use assms in \<open>simp_all add: distinct_map\<close>)
  moreover have "sort_key fst es = map (\<lambda>k. (k, the (map_of es k))) (map fst (sort_key fst es))"
    using assms by (auto simp: map_idI intro!: map_idI [symmetric])
  ultimately show ?thesis by simp
qed

text \<open>
  The open destinations of the Reticulum page are the destinations of the incoming and outgoing links, each
  once and in order. Each names the directions it has a link in, incoming first, and every status that one of
  its links reports once, in the order in which they first appear; a dash stands for no status.
\<close>

lemma open_destinations_exact:
  "collect_open_destinations r =
     (let incoming = rsn_incoming_links r; outgoing = rsn_outgoing_links r in
      map (\<lambda>d. \<lparr>dr_destination = d,
                 dr_source = join_with '', '' ((if links_to d incoming = [] then [] else [''incoming link''])
                                             @ (if links_to d outgoing = [] then [] else [''outgoing link''])),
                 dr_status = joined_or_dash (firsts (filter (\<lambda>v. v \<noteq> [])
                               (map rl_status (links_to d incoming @ links_to d outgoing))))\<rparr>)
        (sorted_list_of_set (rl_destination ` (set incoming \<union> set outgoing))))"
proof -
  let ?i = "rsn_incoming_links r" and ?o = "rsn_outgoing_links r"
  let ?es = "fold (add_link ''outgoing link'') ?o (fold (add_link ''incoming link'') ?i [])"
  have keys: "set (map fst ?es) = rl_destination ` (set ?i \<union> set ?o)"
    by (simp add: fold_add_link_keys image_Un Un_commute)
  have entry: "the (map_of ?es d) =
      ((if links_to d ?i = [] then [] else [''incoming link'']) @ (if links_to d ?o = [] then [] else [''outgoing link'']),
       firsts (filter (\<lambda>v. v \<noteq> []) (map rl_status (links_to d ?i @ links_to d ?o))))"
    (is "_ = ?e") if d: "d \<in> rl_destination ` (set ?i \<union> set ?o)" for d
  proof -
    have "entry_of ?es d = ?e"
      by (simp add: fold_add_link_entry push_unique_def fold_push_unique fold_push_unique_Nil)
    moreover have "map_of ?es d \<noteq> None" using d keys by (simp add: map_of_eq_None_iff)
    ultimately show ?thesis by (auto split: option.splits)
  qed
  have sources: "joined_or_dash ((if links_to d ?i = [] then [] else [''incoming link''])
        @ (if links_to d ?o = [] then [] else [''outgoing link'']))
      = join_with '', '' ((if links_to d ?i = [] then [] else [''incoming link''])
        @ (if links_to d ?o = [] then [] else [''outgoing link'']))"
    if "d \<in> rl_destination ` (set ?i \<union> set ?o)" for d
    using that by (auto simp: joined_or_dash_def filter_empty_conv)
  have "distinct (map fst ?es)" by (simp add: fold_add_link_keys)
  then have "sort_key fst ?es = map (\<lambda>k. (k, the (map_of ?es k))) (sorted_list_of_set (rl_destination ` (set ?i \<union> set ?o)))"
    using keys by (simp add: sort_key_fst_map_of)
  then show ?thesis
    by (simp add: collect_open_destinations_def Let_def entry sources cong: map_cong)
qed

end
