(* ===== verification/Gw_Server.thy ===== *)
theory Gw_Server
  imports Gw_Pages
begin

text \<open>
  The server functions of the pages (\<open>kaonic-gateway/src/pages\<close>): what a page loads and saves. The shared
  state is taken from the context of the request, or there is none; every error is its message. What is read
  from outside (random bytes, clocks, interfaces, the file test, the working directory) is an argument.
\<close>

section \<open>Context and errors\<close>

definition with_context :: "('s, string, 'a) fallible \<Rightarrow> 's option \<Rightarrow> (string + 'a) \<times> 's option" where
  "with_context m state =
     (case state of
        None \<Rightarrow> (Inl ''missing AppState context'', None)
      | Some s \<Rightarrow> (case m s of (r, s') \<Rightarrow> (r, Some s')))"

definition on_app ::
    "(('h, 'c, 'd, 'l, 'w) app_state, 'e, 'a) fallible \<Rightarrow> (('h, 'c, 'd, 'l, 'w) live_state, 'e, 'a) fallible" where
  "on_app m s = (case m (lv_app s) of (r, app) \<Rightarrow> (r, s\<lparr>lv_app := app\<rparr>))"

definition page_settings ::
    "(database, sql_error, 'a) fallible \<Rightarrow> (('h, 'c, 'd, 'l, 'w) app_state, string, 'a) fallible" where
  "page_settings m =
     and_do (lock_settings ''settings lock poisoned'') (\<lambda>_. on_settings sql_error_to_string m)"

fun audio_error_to_string :: "audio_error \<Rightarrow> string" where
  "audio_error_to_string (InvalidVolume v) = ''invalid volume '' @ dec_str v @ ''; expected 0-100''"
| "audio_error_to_string (AudioCommandIo command source) = ''failed to execute '' @ backquoted command @ '': '' @ source"
| "audio_error_to_string (AudioCommandFailed command message) = backquoted command @ '' failed: '' @ message"
| "audio_error_to_string (UnexpectedOutput s) = ''unexpected amixer output: '' @ s"
| "audio_error_to_string (audio_error.NotFound s) = ''audio control not found: '' @ s"

section \<open>Radio\<close>

definition load_settings ::
    "('h, 'c, 'd, 'l, 'r, 'm, 'w) gateway_env \<Rightarrow> ('h, 'c, 'd, 'l, 'w) app_state option
       \<Rightarrow> (string + ('r, 'm) gateway_settings_dto) \<times> ('h, 'c, 'd, 'l, 'w) app_state option" where
  "load_settings G =
     with_context
       (and_do (page_settings (load_config (ge_settings G))) (\<lambda>c.
          return_ok (settings_dto_of (se_cidr (ge_settings G)) c)))"

definition save_settings ::
    "('h, 'c, 'd, 'l, 'r, 'm, 'w) gateway_env \<Rightarrow> ('r, 'm) gateway_settings_dto
       \<Rightarrow> ('h, 'c, 'd, 'l, 'w) app_state option \<Rightarrow> (string + unit) \<times> ('h, 'c, 'd, 'l, 'w) app_state option" where
  "save_settings G d =
     with_context
       (and_do (lift_result (config_of_dto (se_cidr (ge_settings G)) d)) (\<lambda>c.
          page_settings (save_config (ge_settings G) c)))"

definition save_radio_module ::
    "('h, 'c, 'd, 'l, 'r, 'm, 'w) gateway_env \<Rightarrow> nat \<Rightarrow> ('r, 'm) radio_module_config
       \<Rightarrow> ('h, 'c, 'd, 'l, 'w) app_state option \<Rightarrow> (string + unit) \<times> ('h, 'c, 'd, 'l, 'w) app_state option" where
  "save_radio_module G rf cfg =
     with_context
       (and_do (page_settings (save_module_config (ge_settings G) rf cfg)) (\<lambda>_.
          case ge_radio G of
            None \<Rightarrow> return_ok ()
          | Some R \<Rightarrow>
              and_do (on_world (\<lambda>e. ''set_radio_config: '' @ e) (rc_set_radio_config R rf (rmc_radio_config cfg))) (\<lambda>_.
                on_world (\<lambda>e. ''set_modulation: '' @ e) (rc_set_modulation R rf (rmc_modulation cfg)))))"

section \<open>Network and media\<close>

definition load_network_snapshot ::
    "('h, 'c, 'd, 'l, 'r, 'm, 'w) gateway_env \<Rightarrow> ('h, 'c, 'd, 'l, 'w) app_state option
       \<Rightarrow> (string + network_snapshot) \<times> ('h, 'c, 'd, 'l, 'w) app_state option" where
  "load_network_snapshot G =
     with_context (on_world network_error_to_string (read_network_snapshot (ge_sys G)))"

definition load_audio_cards ::
    "'w sys_ops \<Rightarrow> 'w audio_service option \<Rightarrow> (string + audio_card_snapshot list) \<times> 'w audio_service option" where
  "load_audio_cards S =
     with_context (\<lambda>s. map_err audio_error_to_string (list_cards S s))"

section \<open>VPN and Reticulum\<close>

record vpn_page_snapshot =
  vps_local_hash :: string
  vps_codename :: string
  vps_wlan0_ip :: "string option"
  vps_usb0_ip :: "string option"
  vps_allow_all_peers :: bool
  vps_allowed_peers :: "string list"
  vps_vpn :: vpn_snapshot

definition load_vpn_snapshot ::
    "('h, 'c::linorder, 'd, 'l, 'r, 'm, 'w) gateway_env \<Rightarrow> bytes \<Rightarrow> ('h, 'w) status_reads
       \<Rightarrow> ('h, 'c, 'd, 'l, 'w) live_state option
       \<Rightarrow> (string + vpn_page_snapshot) \<times> ('h, 'c, 'd, 'l, 'w) live_state option" where
  "load_vpn_snapshot G random rd =
     with_context
       (and_do (on_app (page_settings (load_config (ge_settings G)))) (\<lambda>c.
        and_do (on_app (page_settings (load_or_create_codename random))) (\<lambda>codename s.
          case live_vpn_snapshot G rd s of (vpn, s') \<Rightarrow>
            (Inr \<lparr>vps_local_hash = lv_vpn_hash s, vps_codename = codename,
                  vps_wlan0_ip = read_interface_ipv4 (sr_interfaces rd) ''wlan0'',
                  vps_usb0_ip = read_interface_ipv4 (sr_interfaces rd) ''usb0'',
                  vps_allow_all_peers = gc_allow_all_peers c, vps_allowed_peers = gc_peers c, vps_vpn = vpn\<rparr>,
             s'))))"

record reticulum_page_snapshot =
  rps_local_hash :: string
  rps_local_destinations :: "local_destination_row list"
  rps_open_destinations :: "destination_row list"
  rps_reticulum :: reticulum_snapshot

definition load_reticulum_snapshot ::
    "('h, 'c::linorder, 'd, 'l, 'r, 'm, 'w) gateway_env \<Rightarrow> ('h, 'w) status_reads
       \<Rightarrow> ('h, 'c, 'd, 'l, 'w) live_state option
       \<Rightarrow> (string + reticulum_page_snapshot) \<times> ('h, 'c, 'd, 'l, 'w) live_state option" where
  "load_reticulum_snapshot G rd =
     with_context (\<lambda>s.
       let reticulum = build_reticulum_snapshot s in
       case live_vpn_snapshot G rd s of (vpn, s') \<Rightarrow>
         (Inr \<lparr>rps_local_hash = lv_vpn_hash s, rps_local_destinations = collect_local_destinations vpn,
               rps_open_destinations = collect_open_destinations reticulum, rps_reticulum = reticulum\<rparr>, s'))"

section \<open>Dashboard\<close>

record ('r, 'm) gateway_status_dto =
  gst_serial :: string
  gst_vpn_hash :: string
  gst_network_ports :: "network_port_status list"
  gst_system :: system_status_dto
  gst_services :: "service_status list"
  gst_radio_modules :: "('r, 'm) radio_module_config list"
  gst_reticulum :: reticulum_snapshot
  gst_vpn :: vpn_snapshot

definition get_gateway_status ::
    "('h, 'c::linorder, 'd, 'l, 'r, 'm, 'w) gateway_env \<Rightarrow> 'w host_ops \<Rightarrow> ('h, 'w) status_reads
       \<Rightarrow> ('h, 'c, 'd, 'l, 'w) live_state option
       \<Rightarrow> (string + ('r, 'm) gateway_status_dto) \<times> ('h, 'c, 'd, 'l, 'w) live_state option" where
  "get_gateway_status G H rd =
     with_context (\<lambda>s.
       case status_radio_modules G (lv_app s) of (radio_modules, app) \<Rightarrow>
       (let s = s\<lparr>lv_app := app\<rparr>; system = build_system_status H (ap_world app) (sr_later rd) in
        case build_services (ge_sys G) s of (services, s) \<Rightarrow>
        case live_vpn_snapshot G rd s of (vpn, s') \<Rightarrow>
          (Inr \<lparr>gst_serial = lv_serial s, gst_vpn_hash = lv_vpn_hash s,
                gst_network_ports = build_network_ports s services, gst_system = system,
                gst_services = services, gst_radio_modules = radio_modules,
                gst_reticulum = build_reticulum_snapshot s, gst_vpn = vpn\<rparr>, s')))"

section \<open>About\<close>

record system_about =
  sa_serial :: string
  sa_codename :: string
  sa_hostname :: string
  sa_os_details :: string
  sa_architecture :: string
  sa_cpu_model :: string
  sa_cpu_cores :: nat
  sa_ram_total_mb :: nat
  sa_fs_total_mb :: nat
  sa_certs_dir :: string
  sa_tls_cert_path :: string
  sa_tls_key_path :: string
  sa_root_ca_available :: bool

text \<open>Certificate files that cannot be made do not stop the page: it then names the configured directory.\<close>

definition load_system_about ::
    "'w host_ops \<Rightarrow> 'w tls_sys
       \<Rightarrow> ('sk, 'kp, 'san, 'cert, 'w) tls_crypto \<Rightarrow> (string \<Rightarrow> 'w \<Rightarrow> bool) \<Rightarrow> bytes \<Rightarrow> 'sk
       \<Rightarrow> ('h, 'c, 'd, 'l, 'w) live_state option
       \<Rightarrow> (string + system_about) \<times> ('h, 'c, 'd, 'l, 'w) live_state option" where
  "load_system_about H S T is_file random ca_random =
     with_context
       (and_do (on_app (page_settings (load_or_create_codename random))) (\<lambda>codename s.
          case ensure_root_ca_files S T ca_random (ap_world (lv_app s)) of (r, w) \<Rightarrow>
            (let dir = (case r of Inr path \<Rightarrow> path | Inl _ \<Rightarrow> certs_dir S);
                 current = (case ho_current_dir H w of Some d \<Rightarrow> d | None \<Rightarrow> ''.'')
             in (Inr \<lparr>sa_serial = lv_serial s, sa_codename = codename, sa_hostname = read_hostname H w,
                      sa_os_details = read_os_details H w, sa_architecture = read_architecture H w,
                      sa_cpu_model = read_cpu_model H w, sa_cpu_cores = read_cpu_cores H w,
                      sa_ram_total_mb = snd (read_mem_mb H w), sa_fs_total_mb = snd (read_fs_mb H w),
                      sa_certs_dir = dir, sa_tls_cert_path = path_join current PLUGIN_TLS_CERT_FILE,
                      sa_tls_key_path = path_join current PLUGIN_TLS_KEY_FILE,
                      sa_root_ca_available = is_file (root_ca_cert_path_for dir) w\<rparr>,
                 s\<lparr>lv_app := (lv_app s)\<lparr>ap_world := w\<rparr>\<rparr>))))"

section \<open>Top bar\<close>

text \<open>The version of the plugin that is the gateway, as the installer lists it, or the version this was built as.\<close>

record navbar_plugin_info =
  np_id :: string
  np_version :: "string option"
  np_target_name :: "string option"

record topbar_info =
  ti_serial :: string
  ti_gateway_version :: string

definition listed_gateway_version :: "navbar_plugin_info list \<Rightarrow> string option" where
  "listed_gateway_version plugins =
     (case find_first (\<lambda>p. np_target_name p = Some ''gateway'' \<or> np_id p = ''kaonic-gateway'') plugins of
        Some p \<Rightarrow> np_version p
      | None \<Rightarrow> None)"

definition fetch_topbar_info ::
    "'w http_client \<Rightarrow> (string \<Rightarrow> navbar_plugin_info list option) \<Rightarrow> string
       \<Rightarrow> ('h, 'c, 'd, 'l, 'w) live_state option
       \<Rightarrow> (string + topbar_info) \<times> ('h, 'c, 'd, 'l, 'w) live_state option" where
  "fetch_topbar_info H of_json pkg_version state =
     (case state of
        None \<Rightarrow> (Inl ''missing AppState'', None)
      | Some s \<Rightarrow>
          (case hc_send H \<lparr>hr_method = ''GET'', hr_url = ''http://127.0.0.1:8682/api/plugins'',
                          hr_content_type = None, hr_body = None\<rparr> (ap_world (lv_app s)) of
             (reply, w) \<Rightarrow>
               (let listed = (case reply of
                                Inl _ \<Rightarrow> None
                              | Inr (_, None) \<Rightarrow> None
                              | Inr (_, Some body) \<Rightarrow>
                                  (case of_json body of Some plugins \<Rightarrow> listed_gateway_version plugins | None \<Rightarrow> None))
                in (Inr \<lparr>ti_serial = lv_serial s,
                         ti_gateway_version = (case listed of Some v \<Rightarrow> v | None \<Rightarrow> pkg_version)\<rparr>,
                    Some (s\<lparr>lv_app := (lv_app s)\<lparr>ap_world := w\<rparr>\<rparr>)))))"

section \<open>The settings page\<close>

lemma page_settings_ok:
  "page_settings m s = (Inr x, s') \<longleftrightarrow>
     \<not> ap_poisoned s \<and> (\<exists>d. m (ap_settings s) = (Inr x, d) \<and> s' = s\<lparr>ap_settings := d\<rparr>)"
  by (auto simp: page_settings_def and_do_ok lock_settings_def on_settings_ok split: if_splits)

lemma with_context_ok:
  "with_context m (Some s) = (Inr x, s') \<longleftrightarrow> (\<exists>s1. m s = (Inr x, s1) \<and> s' = Some s1)"
  by (auto simp: with_context_def split: prod.splits)

lemma save_settings_ok:
  assumes "save_settings G d (Some s) = (Inr u, state)"
  obtains c db where "config_of_dto (se_cidr (ge_settings G)) d = Inr c" "\<not> ap_poisoned s"
    "save_config (ge_settings G) c (ap_settings s) = (Inr (), db)" "state = Some (s\<lparr>ap_settings := db\<rparr>)"
  using assms by (auto simp: save_settings_def with_context_ok and_do_ok page_settings_ok lift_result_def)

text \<open>A network text is canonical when reading and printing it gives it back.\<close>

definition canonical_text :: "'c cidr_ops \<Rightarrow> string \<Rightarrow> bool" where
  "canonical_text C t \<longleftrightarrow> (case cidr_from_str C t of Inl _ \<Rightarrow> True | Inr c \<Rightarrow> cidr_to_string C c = t)"

lemma routes_of_dto_texts:
  "collect_results (map (route_of_dto C) ts) = Inr rs \<Longrightarrow> list_all (canonical_text C) ts
     \<Longrightarrow> map (cidr_to_string C) rs = ts"
  by (induction ts arbitrary: rs)
    (auto simp: route_of_dto_def canonical_text_def split: sum.splits)

lemma dto_of_config_of_dto:
  assumes "config_of_dto C d = Inr c" "canonical_text C (gs_network d)"
    and "list_all (canonical_text C) (gs_advertised_routes d)" "length (gs_radio_modules d) = 2"
  shows "settings_dto_of C (c\<lparr>gc_peers := ps\<rparr>) = d\<lparr>gs_peers := ps\<rparr>" "gc_peers c = gs_peers d"
    "gc_announce_freq_secs c = gs_announce_freq_secs d" "length (hrc_module_configs (gc_radio c)) = 2"
proof -
  obtain m0 m1 where m: "gs_radio_modules d = [m0, m1]"
    using assms(4) by (auto simp: length_Suc_conv numeral_2_eq_2)
  obtain n rs where n: "cidr_from_str C (gs_network d) = Inr n"
    and rs: "collect_results (map (route_of_dto C) (gs_advertised_routes d)) = Inr rs"
    and c: "c = \<lparr>gc_network = n, gc_allow_all_peers = gs_allow_all_peers d, gc_peers = gs_peers d,
                 gc_advertised_routes = rs, gc_announce_freq_secs = gs_announce_freq_secs d,
                 gc_radio = \<lparr>hrc_module_configs = [m0, m1]\<rparr>\<rparr>"
    using assms(1) m by (auto simp: config_of_dto_def and_then_Inr split: sum.splits)
  have "cidr_to_string C n = gs_network d" using n assms(2) by (simp add: canonical_text_def)
  with routes_of_dto_texts [OF rs assms(3)] m
  show "settings_dto_of C (c\<lparr>gc_peers := ps\<rparr>) = d\<lparr>gs_peers := ps\<rparr>"
    by (cases d) (simp add: settings_dto_of_def c)
  show "gc_peers c = gs_peers d" "gc_announce_freq_secs c = gs_announce_freq_secs d"
    "length (hrc_module_configs (gc_radio c)) = 2" by (simp_all add: c)
qed


definition page_dto :: "(string, string) gateway_settings_dto" where
  "page_dto =
     \<lparr>gs_network = cidr_to_string cidr4_ops wit_net, gs_allow_all_peers = False, gs_peers = [''b'', ''a'', ''b''],
      gs_advertised_routes = [cidr_to_string cidr4_ops wit_route], gs_announce_freq_secs = 9,
      gs_radio_modules = [\<lparr>rmc_radio_config = ''r'', rmc_modulation = ''m''\<rparr>, \<lparr>rmc_radio_config = ''r'', rmc_modulation = ''n''\<rparr>]\<rparr>"


end
