(* ===== verification/Gw_Router.thy ===== *)
theory Gw_Router
  imports Gw_Server Gw_Boot
begin

text \<open>
  The gateway as a whole (\<open>kaonic-gateway/src/http/mod.rs\<close> and \<open>AppState::new\<close> of \<open>state.rs\<close>): the table
  of its routes, the handler that each route runs on the shared state, the embedded assets, and the system of
  requests, page loads, events and VPN tasks that share this state from the start on. Matching a request
  against the table, the parsing of its parameters and of its body, and the form of the response body are the
  business of \<open>axum\<close>; what is kept of a response is its status. A handler runs here without other tasks in
  between; each of its calls into the VPN is by itself a step of the VPN.
\<close>

section \<open>Calls and routes\<close>

datatype http_method = GET | POST | PUT | DELETE

datatype audio_call =
    ApiAudioCards
  | ApiAudioCardSave nat
  | ApiAudioControlTest nat string
  | ApiGetAudioControl nat string
  | ApiPutAudioControl nat string nat bool
  | ApiGetAudio string
  | ApiPutAudio string nat bool

datatype ('c, 'r, 'm) settings_call =
    ApiGetSettings
  | ApiPutSettings "('c, 'r, 'm) gateway_config"
  | ApiGetRadio nat
  | ApiPutRadio nat "('r, 'm) radio_module_config"
  | ApiRadioTest nat string
  | ApiCodename string

datatype system_call =
    ApiRootCa
  | ApiReboot
  | ApiServiceRestart string
  | ApiStatus
  | ApiInfo
  | ApiSerial
  | ApiNetworkSnapshot
  | ApiWifiMode string
  | ApiWifiAntenna string
  | ApiWifiConnect string string
  | ApiWsStatus

datatype vpn_call =
    ApiGetVpnRoutes
  | ApiPutVpnRoutes "string list"
  | ApiVpnAccess bool "string list"
  | ApiVpnPing string
  | ApiVpnSpeedTest string

datatype plugin_call =
    ApiPlugins
  | ApiInstallerVersion
  | ApiInstallPlugin "string option \<times> (string + bytes)"
  | ApiUpgradeInstaller "string + bytes"
  | ApiUploadPlugin string "string option \<times> (string + bytes)"
  | ApiStartPlugin string
  | ApiStopPlugin string
  | ApiRestartPlugin string
  | ApiDeletePlugin string

datatype asset_call =
    ApiAsset string
  | ApiStyleCss
  | ApiLogo

datatype ('c, 'r, 'm) api_call =
    CallAudio audio_call
  | CallSettings "('c, 'r, 'm) settings_call"
  | CallSystem system_call
  | CallVpn vpn_call
  | CallPlugins plugin_call
  | CallAsset asset_call

primrec audio_route :: "audio_call \<Rightarrow> http_method \<times> string" where
  "audio_route ApiAudioCards = (GET, ''/api/audio/cards'')"
| "audio_route (ApiAudioCardSave _) = (POST, ''/api/audio/{card}/save'')"
| "audio_route (ApiAudioControlTest _ _) = (POST, ''/api/audio/{card}/{output}/test'')"
| "audio_route (ApiGetAudioControl _ _) = (GET, ''/api/audio/{card}/{output}'')"
| "audio_route (ApiPutAudioControl _ _ _ _) = (PUT, ''/api/audio/{card}/{output}'')"
| "audio_route (ApiGetAudio _) = (GET, ''/api/audio/{output}'')"
| "audio_route (ApiPutAudio _ _ _) = (PUT, ''/api/audio/{output}'')"

primrec settings_route :: "('c, 'r, 'm) settings_call \<Rightarrow> http_method \<times> string" where
  "settings_route ApiGetSettings = (GET, ''/api/settings'')"
| "settings_route (ApiPutSettings _) = (PUT, ''/api/settings'')"
| "settings_route (ApiGetRadio _) = (GET, ''/api/settings/radio/{module}'')"
| "settings_route (ApiPutRadio _ _) = (PUT, ''/api/settings/radio/{module}'')"
| "settings_route (ApiRadioTest _ _) = (POST, ''/api/radio/{module}/test'')"
| "settings_route (ApiCodename _) = (POST, ''/api/system/codename'')"

primrec system_route :: "system_call \<Rightarrow> http_method \<times> string" where
  "system_route ApiRootCa = (GET, ''/api/system/rootca'')"
| "system_route ApiReboot = (POST, ''/api/system/reboot'')"
| "system_route (ApiServiceRestart _) = (POST, ''/api/system/service/restart'')"
| "system_route ApiStatus = (GET, ''/api/status'')"
| "system_route ApiInfo = (GET, ''/api/info'')"
| "system_route ApiSerial = (GET, ''/api/serial'')"
| "system_route ApiNetworkSnapshot = (GET, ''/api/network/snapshot'')"
| "system_route (ApiWifiMode _) = (POST, ''/network/wifi/mode'')"
| "system_route (ApiWifiAntenna _) = (POST, ''/network/wifi/antenna'')"
| "system_route (ApiWifiConnect _ _) = (POST, ''/network/wifi/connect'')"
| "system_route ApiWsStatus = (GET, ''/api/ws/status'')"

primrec vpn_route :: "vpn_call \<Rightarrow> http_method \<times> string" where
  "vpn_route ApiGetVpnRoutes = (GET, ''/api/vpn/routes'')"
| "vpn_route (ApiPutVpnRoutes _) = (PUT, ''/api/vpn/routes'')"
| "vpn_route (ApiVpnAccess _ _) = (POST, ''/api/vpn/access'')"
| "vpn_route (ApiVpnPing _) = (POST, ''/api/vpn/ping'')"
| "vpn_route (ApiVpnSpeedTest _) = (POST, ''/api/vpn/speed-test'')"

primrec plugin_route :: "plugin_call \<Rightarrow> http_method \<times> string" where
  "plugin_route ApiPlugins = (GET, ''/api/plugins'')"
| "plugin_route ApiInstallerVersion = (GET, ''/api/plugins/installer-version'')"
| "plugin_route (ApiInstallPlugin _) = (POST, ''/api/plugins/install'')"
| "plugin_route (ApiUpgradeInstaller _) = (POST, ''/api/plugins/kaonic-installer/upgrade'')"
| "plugin_route (ApiUploadPlugin _ _) = (POST, ''/api/plugins/{plugin_id}/upload'')"
| "plugin_route (ApiStartPlugin _) = (POST, ''/api/plugins/{plugin_id}/start'')"
| "plugin_route (ApiStopPlugin _) = (POST, ''/api/plugins/{plugin_id}/stop'')"
| "plugin_route (ApiRestartPlugin _) = (POST, ''/api/plugins/{plugin_id}/restart'')"
| "plugin_route (ApiDeletePlugin _) = (DELETE, ''/api/plugins/{plugin_id}'')"

primrec asset_route :: "asset_call \<Rightarrow> http_method \<times> string" where
  "asset_route (ApiAsset _) = (GET, ''/assets/{*path}'')"
| "asset_route ApiStyleCss = (GET, ''/style.css'')"
| "asset_route ApiLogo = (GET, ''/kaonic-logo.svg'')"

primrec route_of :: "('c, 'r, 'm) api_call \<Rightarrow> http_method \<times> string" where
  "route_of (CallAudio call) = audio_route call"
| "route_of (CallSettings call) = settings_route call"
| "route_of (CallSystem call) = system_route call"
| "route_of (CallVpn call) = vpn_route call"
| "route_of (CallPlugins call) = plugin_route call"
| "route_of (CallAsset call) = asset_route call"

section \<open>The shared state and what the handlers use\<close>

record ('h, 'c, 'd, 'l, 'w) gateway_state =
  gy_live :: "('h, 'c, 'd, 'l, 'w) live_state"
  gy_soft_mute :: "((nat \<times> audio_output) \<times> nat) list"
  gy_pending :: "'d request list"

record ('sk, 'kp, 'san, 'cert, 'ca, 'client, 'w) gateway_ports =
  gp_host :: "'w host_ops"
  gp_http :: "'w http_client"
  gp_tls :: "'w tls_sys"
  gp_crypto :: "('sk, 'kp, 'san, 'cert, 'w) tls_crypto"
  gp_https :: "('ca, 'client, 'w) https_ops"
  gp_json :: "string \<Rightarrow> string"
  gp_plugins_of_json :: "string \<Rightarrow> navbar_plugin_info list option"
  gp_is_file :: "string \<Rightarrow> 'w \<Rightarrow> bool"
  gp_asset :: "string \<Rightarrow> bytes option"
  gp_mime :: "string \<Rightarrow> string"
  gp_version :: string

text \<open>The state that \<open>AppState::new\<close> makes for a started gateway; the address is the one of the command line.\<close>

definition app_state_new ::
    "gateway_command \<Rightarrow> ('h, 'c, 'd, 'l, 'w) running_gateway \<Rightarrow> ('h, 'c, 'd, 'l, 'w) gateway_state" where
  "app_state_new cmd g =
     \<lparr>gy_live =
        \<lparr>lv_app = rg_app g, lv_frames = frame_monitor_new, lv_reticulum = gateway_reticulum_new,
         lv_serial = rg_serial g, lv_vpn_hash = rg_vpn_hash g, lv_ctrl_server = rg_server g,
         lv_http_addr = gm_http_addr cmd\<rparr>,
      gy_soft_mute = [], gy_pending = []\<rparr>"

section \<open>Running a handler\<close>

fun code_of :: "http_error + 'a \<Rightarrow> nat" where
  "code_of (Inl e) = fst e"
| "code_of (Inr _) = OK"

fun code_of_status :: "nat + 'a \<Rightarrow> nat" where
  "code_of_status (Inl code) = code"
| "code_of_status (Inr _) = OK"

fun code_of_reply :: "http_error + nat \<Rightarrow> nat" where
  "code_of_reply (Inl e) = fst e"
| "code_of_reply (Inr code) = code"

definition run_live ::
    "('a \<Rightarrow> nat) \<Rightarrow> (('h, 'c, 'd, 'l, 'w) live_state \<Rightarrow> 'a \<times> ('h, 'c, 'd, 'l, 'w) live_state)
       \<Rightarrow> ('h, 'c, 'd, 'l, 'w) gateway_state \<Rightarrow> nat \<times> ('h, 'c, 'd, 'l, 'w) gateway_state" where
  "run_live code m s = (case m (gy_live s) of (r, live) \<Rightarrow> (code r, s\<lparr>gy_live := live\<rparr>))"

definition run_app ::
    "('a \<Rightarrow> nat) \<Rightarrow> (('h, 'c, 'd, 'l, 'w) app_state \<Rightarrow> 'a \<times> ('h, 'c, 'd, 'l, 'w) app_state)
       \<Rightarrow> ('h, 'c, 'd, 'l, 'w) gateway_state \<Rightarrow> nat \<times> ('h, 'c, 'd, 'l, 'w) gateway_state" where
  "run_app code m = run_live code (\<lambda>s. case m (lv_app s) of (r, app) \<Rightarrow> (r, s\<lparr>lv_app := app\<rparr>))"

definition run_world ::
    "('w \<Rightarrow> response \<times> 'w) \<Rightarrow> ('h, 'c, 'd, 'l, 'w) gateway_state \<Rightarrow> nat \<times> ('h, 'c, 'd, 'l, 'w) gateway_state" where
  "run_world m = run_app fst (\<lambda>s. case m (ap_world s) of (r, w) \<Rightarrow> (r, s\<lparr>ap_world := w\<rparr>))"

definition run_mixer ::
    "('w audio_service, nat, 'a) fallible
       \<Rightarrow> ('h, 'c, 'd, 'l, 'w) gateway_state \<Rightarrow> nat \<times> ('h, 'c, 'd, 'l, 'w) gateway_state" where
  "run_mixer m s =
     (case m \<lparr>au_soft_mute_levels = gy_soft_mute s, au_world = ap_world (lv_app (gy_live s))\<rparr> of
        (r, audio) \<Rightarrow>
          (code_of_status r,
           s\<lparr>gy_live := (gy_live s)\<lparr>lv_app := (lv_app (gy_live s))\<lparr>ap_world := au_world audio\<rparr>\<rparr>,
             gy_soft_mute := au_soft_mute_levels audio\<rparr>))"

definition serve_embedded :: "(string \<Rightarrow> bytes option) \<Rightarrow> (string \<Rightarrow> string) \<Rightarrow> string \<Rightarrow> nat + (string \<times> string) list \<times> bytes" where
  "serve_embedded assets mime path =
     (case assets path of
        Some content \<Rightarrow> Inr ([(''content-type'', mime path)], content)
      | None \<Rightarrow> Inl NOT_FOUND)"

definition serve_asset :: "(string \<Rightarrow> bytes option) \<Rightarrow> (string \<Rightarrow> string) \<Rightarrow> string \<Rightarrow> nat + (string \<times> string) list \<times> bytes" where
  "serve_asset assets mime path = serve_embedded assets mime path"

definition serve_style_css :: "(string \<Rightarrow> bytes option) \<Rightarrow> (string \<Rightarrow> string) \<Rightarrow> nat + (string \<times> string) list \<times> bytes" where
  "serve_style_css assets mime = serve_embedded assets mime ''style.css''"

definition serve_logo_svg :: "(string \<Rightarrow> bytes option) \<Rightarrow> (string \<Rightarrow> string) \<Rightarrow> nat + (string \<times> string) list \<times> bytes" where
  "serve_logo_svg assets mime = serve_embedded assets mime ''kaonic-logo.svg''"

text \<open>The handlers of the routes. \<open>rd\<close> holds the readings of clocks and interfaces, \<open>elapsed\<close> the time a request took.\<close>

primrec run_audio ::
    "('h, 'c::linorder, 'd, 'l, 'r, 'm, 'w) gateway_env
       \<Rightarrow> audio_call \<Rightarrow> ('h, 'c, 'd, 'l, 'w) gateway_state \<Rightarrow> nat \<times> ('h, 'c, 'd, 'l, 'w) gateway_state" where
  "run_audio G ApiAudioCards s = run_mixer (get_audio_cards (ge_sys G)) s"
| "run_audio G (ApiAudioCardSave card_id) s = run_mixer (post_audio_card_save (ge_sys G) card_id) s"
| "run_audio G (ApiAudioControlTest card_id v) s = run_mixer (post_audio_control_test (ge_sys G) card_id v) s"
| "run_audio G (ApiGetAudioControl card_id v) s = run_mixer (get_audio_control (ge_sys G) card_id v) s"
| "run_audio G (ApiPutAudioControl card_id v volume muted) s =
     run_mixer (put_audio_control (ge_sys G) card_id v volume muted) s"
| "run_audio G (ApiGetAudio v) s = run_mixer (get_audio (ge_sys G) v) s"
| "run_audio G (ApiPutAudio v volume muted) s = run_mixer (put_audio (ge_sys G) v volume muted) s"

primrec run_settings ::
    "('h, 'c::linorder, 'd, 'l, 'r, 'm, 'w) gateway_env \<Rightarrow> ('h, 'w) status_reads
       \<Rightarrow> ('c, 'r, 'm) settings_call \<Rightarrow> ('h, 'c, 'd, 'l, 'w) gateway_state \<Rightarrow> nat \<times> ('h, 'c, 'd, 'l, 'w) gateway_state" where
  "run_settings G rd ApiGetSettings s = run_app code_of_status (get_settings G) s"
| "run_settings G rd (ApiPutSettings c) s = run_app (\<lambda>code. code) (put_settings G (sr_now rd) c) s"
| "run_settings G rd (ApiGetRadio rf) s = run_app code_of_status (get_radio G rf) s"
| "run_settings G rd (ApiPutRadio rf cfg) s = run_app (\<lambda>code. code) (put_radio G rf cfg) s"
| "run_settings G rd (ApiRadioTest rf request) s = run_app code_of (post_radio_test G rf request) s"
| "run_settings G rd (ApiCodename request) s = run_app code_of (post_system_codename request) s"

primrec run_system ::
    "('sk, 'kp, 'san, 'cert, 'ca, 'client, 'w) gateway_ports \<Rightarrow> ('h, 'c::linorder, 'd, 'l, 'r, 'm, 'w) gateway_env \<Rightarrow> ('h, 'w) status_reads
       \<Rightarrow> system_call \<Rightarrow> ('h, 'c, 'd, 'l, 'w) gateway_state \<Rightarrow> nat \<times> ('h, 'c, 'd, 'l, 'w) gateway_state" where
  "run_system P G rd ApiRootCa s =
     (code_of (get_system_rootca (gp_tls P) (ap_world (lv_app (gy_live s)))), s)"
| "run_system P G rd ApiReboot s = run_app code_of (post_system_reboot G) s"
| "run_system P G rd (ApiServiceRestart unit) s = run_app code_of (post_system_service_restart G unit) s"
| "run_system P G rd ApiStatus s = run_live (\<lambda>_. OK) (get_status G (gp_host P) rd) s"
| "run_system P G rd ApiInfo s = run_live (\<lambda>_. OK) (\<lambda>live. (get_info live, live)) s"
| "run_system P G rd ApiSerial s = run_live (\<lambda>_. OK) (\<lambda>live. (get_serial live, live)) s"
| "run_system P G rd ApiNetworkSnapshot s = run_app code_of (get_network_snapshot G) s"
| "run_system P G rd (ApiWifiMode form) s = run_app code_of_reply (post_wifi_mode G form) s"
| "run_system P G rd (ApiWifiAntenna form) s = run_app code_of_reply (post_wifi_antenna G form) s"
| "run_system P G rd (ApiWifiConnect ssid psk) s = run_app code_of_reply (post_wifi_connect G ssid psk) s"
| "run_system P G rd ApiWsStatus s =
     run_live (\<lambda>_. 101) (initial_events G (gp_host P) rd (\<lambda>m. m) (\<lambda>m. m)) s"

primrec run_vpn ::
    "('sk, 'kp, 'san, 'cert, 'ca, 'client, 'w) gateway_ports \<Rightarrow> ('h, 'c::linorder, 'd, 'l, 'r, 'm, 'w) gateway_env \<Rightarrow> ('h, 'w) status_reads \<Rightarrow> nat
       \<Rightarrow> vpn_call \<Rightarrow> ('h, 'c, 'd, 'l, 'w) gateway_state \<Rightarrow> nat \<times> ('h, 'c, 'd, 'l, 'w) gateway_state" where
  "run_vpn P G rd elapsed ApiGetVpnRoutes s =
     run_app (\<lambda>_. OK) (get_vpn_routes G (sr_now rd) (sr_mnow rd) (sr_pnow rd)) s"
| "run_vpn P G rd elapsed (ApiPutVpnRoutes request) s = run_app code_of (put_vpn_routes G request) s"
| "run_vpn P G rd elapsed (ApiVpnAccess allow_all request) s =
     run_app code_of (put_vpn_access G (sr_now rd) allow_all request) s"
| "run_vpn P G rd elapsed (ApiVpnPing request) s = run_app code_of (post_vpn_ping G request) s"
| "run_vpn P G rd elapsed (ApiVpnSpeedTest request) s =
     run_app code_of
       (post_vpn_speed_test G (gp_tls P) (gp_https P) (sr_now rd) (sr_mnow rd) (sr_pnow rd) elapsed request) s"

primrec run_installer ::
    "('sk, 'kp, 'san, 'cert, 'ca, 'client, 'w) gateway_ports \<Rightarrow> ('h, 'c::linorder, 'd, 'l, 'r, 'm, 'w) gateway_env
       \<Rightarrow> plugin_call \<Rightarrow> ('h, 'c, 'd, 'l, 'w) gateway_state \<Rightarrow> nat \<times> ('h, 'c, 'd, 'l, 'w) gateway_state" where
  "run_installer P G ApiPlugins s = run_world (list_plugins (gp_http P)) s"
| "run_installer P G ApiInstallerVersion s = run_world (installer_version (gp_http P)) s"
| "run_installer P G (ApiInstallPlugin req) s = run_world (install_plugin (gp_http P) req) s"
| "run_installer P G (ApiUpgradeInstaller stream) s =
     run_world (upgrade_installer_binary (ge_sys G) (gp_json P) stream) s"
| "run_installer P G (ApiUploadPlugin i req) s = run_world (upload_plugin (gp_http P) i req) s"
| "run_installer P G (ApiStartPlugin i) s = run_world (installer_start_plugin (gp_http P) i) s"
| "run_installer P G (ApiStopPlugin i) s = run_world (stop_plugin (gp_http P) i) s"
| "run_installer P G (ApiRestartPlugin i) s = run_world (restart_plugin (gp_http P) i) s"
| "run_installer P G (ApiDeletePlugin i) s = run_world (delete_plugin (gp_http P) i) s"

primrec run_asset ::
    "('sk, 'kp, 'san, 'cert, 'ca, 'client, 'w) gateway_ports
       \<Rightarrow> asset_call \<Rightarrow> ('h, 'c, 'd, 'l, 'w) gateway_state \<Rightarrow> nat \<times> ('h, 'c, 'd, 'l, 'w) gateway_state" where
  "run_asset P (ApiAsset path) s = (code_of_status (serve_asset (gp_asset P) (gp_mime P) path), s)"
| "run_asset P ApiStyleCss s = (code_of_status (serve_style_css (gp_asset P) (gp_mime P)), s)"
| "run_asset P ApiLogo s = (code_of_status (serve_logo_svg (gp_asset P) (gp_mime P)), s)"

primrec run_call ::
    "('sk, 'kp, 'san, 'cert, 'ca, 'client, 'w) gateway_ports \<Rightarrow> ('h, 'c::linorder, 'd, 'l, 'r, 'm, 'w) gateway_env \<Rightarrow> ('h, 'w) status_reads \<Rightarrow> nat
       \<Rightarrow> ('c, 'r, 'm) api_call \<Rightarrow> ('h, 'c, 'd, 'l, 'w) gateway_state \<Rightarrow> nat \<times> ('h, 'c, 'd, 'l, 'w) gateway_state" where
  "run_call P G rd elapsed (CallAudio call) s = run_audio G call s"
| "run_call P G rd elapsed (CallSettings call) s = run_settings G rd call s"
| "run_call P G rd elapsed (CallSystem call) s = run_system P G rd call s"
| "run_call P G rd elapsed (CallVpn call) s = run_vpn P G rd elapsed call s"
| "run_call P G rd elapsed (CallPlugins call) s = run_installer P G call s"
| "run_call P G rd elapsed (CallAsset call) s = run_asset P call s"

end
