(* ===== verification/Gw_Live.thy ===== *)
theory Gw_Live
  imports Gw_Router
begin

text \<open>
  The running gateway: requests, page loads, published events, radio frames, Reticulum events and VPN tasks act
  on one shared state, which \<open>boot\<close> has made. Each of its parts is always in a state that the part reaches on
  its own: the invariants of the components hold in the composed program.
\<close>

section \<open>Page loads\<close>

datatype ('r, 'm, 'sk) page_call =
    PageSettings
  | PageSaveSettings "('r, 'm) gateway_settings_dto"
  | PageSaveRadio nat "('r, 'm) radio_module_config"
  | PageNetwork
  | PageMedia
  | PageVpn bytes
  | PageReticulum
  | PageDashboard
  | PageAbout bytes 'sk
  | PageTopbar

text \<open>A server function finds the shared state in its context. What is kept of its answer is whether it is an error.\<close>

definition page_live ::
    "(('h, 'c, 'd, 'l, 'w) live_state option \<Rightarrow> (string + 'a) \<times> ('h, 'c, 'd, 'l, 'w) live_state option)
       \<Rightarrow> ('h, 'c, 'd, 'l, 'w) gateway_state \<Rightarrow> bool \<times> ('h, 'c, 'd, 'l, 'w) gateway_state" where
  "page_live m s =
     (case m (Some (gy_live s)) of
        (r, Some live) \<Rightarrow> (is_ok r, s\<lparr>gy_live := live\<rparr>)
      | (r, None) \<Rightarrow> (is_ok r, s))"

definition page_app ::
    "(('h, 'c, 'd, 'l, 'w) app_state option \<Rightarrow> (string + 'a) \<times> ('h, 'c, 'd, 'l, 'w) app_state option)
       \<Rightarrow> ('h, 'c, 'd, 'l, 'w) gateway_state \<Rightarrow> bool \<times> ('h, 'c, 'd, 'l, 'w) gateway_state" where
  "page_app m =
     page_live (\<lambda>state. case m (map_option lv_app state) of
        (r, app) \<Rightarrow> (r, map_option (\<lambda>s. case app of Some a \<Rightarrow> s\<lparr>lv_app := a\<rparr> | None \<Rightarrow> s) state))"

definition page_mixer ::
    "('w audio_service option \<Rightarrow> (string + 'a) \<times> 'w audio_service option)
       \<Rightarrow> ('h, 'c, 'd, 'l, 'w) gateway_state \<Rightarrow> bool \<times> ('h, 'c, 'd, 'l, 'w) gateway_state" where
  "page_mixer m s =
     (case m (Some \<lparr>au_soft_mute_levels = gy_soft_mute s, au_world = ap_world (lv_app (gy_live s))\<rparr>) of
        (r, Some audio) \<Rightarrow>
          (is_ok r,
           s\<lparr>gy_live := (gy_live s)\<lparr>lv_app := (lv_app (gy_live s))\<lparr>ap_world := au_world audio\<rparr>\<rparr>,
             gy_soft_mute := au_soft_mute_levels audio\<rparr>)
      | (r, None) \<Rightarrow> (is_ok r, s))"

primrec run_page ::
    "('sk, 'kp, 'san, 'cert, 'ca, 'client, 'w) gateway_ports \<Rightarrow> ('h, 'c::linorder, 'd, 'l, 'r, 'm, 'w) gateway_env
       \<Rightarrow> ('h, 'w) status_reads \<Rightarrow> ('r, 'm, 'sk) page_call
       \<Rightarrow> ('h, 'c, 'd, 'l, 'w) gateway_state \<Rightarrow> bool \<times> ('h, 'c, 'd, 'l, 'w) gateway_state" where
  "run_page P G rd PageSettings s = page_app (load_settings G) s"
| "run_page P G rd (PageSaveSettings d) s = page_app (save_settings G d) s"
| "run_page P G rd (PageSaveRadio rf cfg) s = page_app (save_radio_module G rf cfg) s"
| "run_page P G rd PageNetwork s = page_app (load_network_snapshot G) s"
| "run_page P G rd PageMedia s = page_mixer (load_audio_cards (ge_sys G)) s"
| "run_page P G rd (PageVpn random) s = page_live (load_vpn_snapshot G random rd) s"
| "run_page P G rd PageReticulum s = page_live (load_reticulum_snapshot G rd) s"
| "run_page P G rd PageDashboard s = page_live (get_gateway_status G (gp_host P) rd) s"
| "run_page P G rd (PageAbout random ca_random) s =
     page_live (load_system_about (gp_host P) (gp_tls P) (gp_crypto P) (gp_is_file P) random ca_random) s"
| "run_page P G rd PageTopbar s = page_live (fetch_topbar_info (gp_http P) (gp_plugins_of_json P) (gp_version P)) s"

section \<open>The system\<close>

definition set_app ::
    "('h, 'c, 'd, 'l, 'w) app_state \<Rightarrow> ('h, 'c, 'd, 'l, 'w) gateway_state \<Rightarrow> ('h, 'c, 'd, 'l, 'w) gateway_state" where
  "set_app app s = s\<lparr>gy_live := (gy_live s)\<lparr>lv_app := app\<rparr>\<rparr>"

text \<open>\<open>crc32\<close> and \<open>show_hash\<close> are the functions that the frame listener and the Reticulum view use.\<close>

inductive gateway_step ::
    "('sk, 'kp, 'san, 'cert, 'ca, 'client, 'w) gateway_ports \<Rightarrow> ('h, 'c::linorder, 'd, 'l, 'r, 'm, 'w) gateway_env
       \<Rightarrow> (bytes \<Rightarrow> 32 word) \<Rightarrow> (bytes \<Rightarrow> string)
       \<Rightarrow> ('h, 'c, 'd, 'l, 'w) gateway_state \<Rightarrow> ('h, 'c, 'd, 'l, 'w) gateway_state \<Rightarrow> bool"
  for P G crc32 show_hash where
  request: "gateway_step P G crc32 show_hash s (snd (run_call P G rd elapsed call s))"
| page: "gateway_step P G crc32 show_hash s (snd (run_page P G rd pg s))"
| publish: "gateway_step P G crc32 show_hash s
    (s\<lparr>gy_live := snd (publish_periodic_events G (gp_host P) rd (gy_live s))\<rparr>)"
| frame: "gateway_step P G crc32 show_hash s
    (s\<lparr>gy_live := (gy_live s)\<lparr>lv_frames := fm_step crc32 fe (lv_frames (gy_live s))\<rparr>\<rparr>)"
| reticulum: "gateway_step P G crc32 show_hash s
    (s\<lparr>gy_live := (gy_live s)\<lparr>lv_reticulum := gw_step show_hash re (lv_reticulum (gy_live s))\<rparr>\<rparr>)"
| vpn_task: "ap_vpn (lv_app (gy_live s)) = Some rt \<Longrightarrow>
    vpn_step (ge_vpn G) (rt, ap_world (lv_app (gy_live s)), gy_pending s) (rt', w', ps') \<Longrightarrow>
    gateway_step P G crc32 show_hash s
      ((set_app ((lv_app (gy_live s))\<lparr>ap_vpn := Some rt', ap_world := w'\<rparr>) s)\<lparr>gy_pending := ps'\<rparr>)"
| world: "gateway_step P G crc32 show_hash s (set_app ((lv_app (gy_live s))\<lparr>ap_world := w'\<rparr>) s)"

text \<open>Without the mesh the handlers have no radio; with it they have the client that the start connected.\<close>

definition handler_env ::
    "('h, 'c, 'd, 'l, 'r, 'm, 'w) gateway_env \<Rightarrow> ('h, 'r, 'm, 'w) boot_ops \<Rightarrow> ('h, 'c, 'd, 'l, 'w) running_gateway
       \<Rightarrow> ('h, 'c, 'd, 'l, 'r, 'm, 'w) gateway_env" where
  "handler_env G B g =
     (if rg_webapp_only g then G\<lparr>ge_radio := None, ge_tx_observer := None\<rparr>
      else G\<lparr>ge_radio := Some (bo_client B)\<rparr>)"

inductive gateway_reachable ::
    "('sk, 'kp, 'san, 'cert, 'ca, 'client, 'w) gateway_ports \<Rightarrow> ('h, 'c::linorder, 'd, 'l, 'r, 'm, 'w) gateway_env
       \<Rightarrow> ('h, 'r, 'm, 'w) boot_ops \<Rightarrow> (bytes \<Rightarrow> 32 word) \<Rightarrow> (bytes \<Rightarrow> string)
       \<Rightarrow> ('h, 'c, 'd, 'l, 'w) running_gateway \<Rightarrow> ('h, 'c, 'd, 'l, 'w) gateway_state \<Rightarrow> bool"
  for P G B crc32 show_hash where
  booted: "boot G B cmd inp conn w = (BootRunning g, w1) \<Longrightarrow>
    gateway_reachable P G B crc32 show_hash g (app_state_new cmd g)"
| stepped: "gateway_reachable P G B crc32 show_hash g s \<Longrightarrow>
    gateway_step P (handler_env G B g) crc32 show_hash s s' \<Longrightarrow>
    gateway_reachable P G B crc32 show_hash g s'"

section \<open>What every operation does to the shared state\<close>

text \<open>
  The lock is not poisoned by an operation, stored identity seeds stay, there is a VPN afterwards exactly if there was
  one before, and what happened to it is a sequence of its own steps.
\<close>

definition app_sim ::
    "('h, 'c::linorder, 'd, 'l, 'w) vpn_env \<Rightarrow> 'd request list
       \<Rightarrow> ('h, 'c, 'd, 'l, 'w) app_state \<Rightarrow> ('h, 'c, 'd, 'l, 'w) app_state \<Rightarrow> bool" where
  "app_sim E ps s s' \<longleftrightarrow>
     ap_poisoned s' = ap_poisoned s
   \<and> (\<forall>k v. identity_key k \<longrightarrow> map_of (db_settings (ap_settings s)) k = Some v
        \<longrightarrow> map_of (db_settings (ap_settings s')) k = Some v)
   \<and> (case ap_vpn s of
        None \<Rightarrow> ap_vpn s' = None
      | Some rt \<Rightarrow> \<exists>rt'. ap_vpn s' = Some rt' \<and> (vpn_step E)\<^sup>*\<^sup>* (rt, ap_world s, ps) (rt', ap_world s', ps))"

definition sim ::
    "('h, 'c::linorder, 'd, 'l, 'w) vpn_env \<Rightarrow> 'd request list
       \<Rightarrow> (('h, 'c, 'd, 'l, 'w) app_state \<Rightarrow> 'a \<times> ('h, 'c, 'd, 'l, 'w) app_state) \<Rightarrow> bool" where
  "sim E ps m \<longleftrightarrow> (\<forall>s. app_sim E ps s (snd (m s)))"

definition live_sim ::
    "('h, 'c::linorder, 'd, 'l, 'w) vpn_env \<Rightarrow> 'd request list \<Rightarrow> (bytes \<Rightarrow> 32 word)
       \<Rightarrow> ('h, 'c, 'd, 'l, 'w) live_state \<Rightarrow> ('h, 'c, 'd, 'l, 'w) live_state \<Rightarrow> bool" where
  "live_sim E ps crc32 s s' \<longleftrightarrow>
     app_sim E ps (lv_app s) (lv_app s')
   \<and> (\<exists>evs. lv_frames s' = fold (fm_step crc32) evs (lv_frames s))
   \<and> lv_reticulum s' = lv_reticulum s \<and> lv_serial s' = lv_serial s \<and> lv_vpn_hash s' = lv_vpn_hash s"

named_theorems sim_intros

lemma app_sim_refl [simp, intro]: "app_sim E ps s s"
  by (simp add: app_sim_def split: option.split)

lemma app_sim_trans: "app_sim E ps s1 s2 \<Longrightarrow> app_sim E ps s2 s3 \<Longrightarrow> app_sim E ps s1 s3"
  by (auto simp: app_sim_def split: option.splits intro: rtranclp_trans)

lemma app_sim_step:
  assumes "ap_vpn s = Some rt" "vpn_step E (rt, ap_world s, ps) (rt', w', ps)"
  shows "app_sim E ps s (s\<lparr>ap_vpn := Some rt', ap_world := w'\<rparr>)"
  using assms by (auto simp: app_sim_def)

lemma app_sim_world [simp, intro]: "app_sim E ps s (s\<lparr>ap_world := w\<rparr>)"
  by (auto simp: app_sim_def split: option.split intro: r_into_rtranclp vpn_step.environment)

lemma app_sim_settings:
  "(\<And>k v. identity_key k \<Longrightarrow> map_of (db_settings (ap_settings s)) k = Some v \<Longrightarrow> map_of (db_settings d) k = Some v)
     \<Longrightarrow> app_sim E ps s (s\<lparr>ap_settings := d\<rparr>)"
  by (auto simp: app_sim_def split: option.split)

lemma sim_same: "(\<And>s. snd (m s) = s) \<Longrightarrow> sim E ps m"
  by (simp add: sim_def)

lemma and_do_cases: "and_do m f = (\<lambda>s. case m s of (r, s') \<Rightarrow> case r of Inl e \<Rightarrow> (Inl e, s') | Inr x \<Rightarrow> f x s')"
  by (rule ext) (auto simp: and_do_def split: sum.split prod.split)

lemma sim_and_do [sim_intros]:
  assumes "sim E ps m" "\<And>x. sim E ps (f x)"
  shows "sim E ps (and_do m f)"
  unfolding sim_def
proof
  fix s
  obtain r s1 where m: "m s = (r, s1)" by fastforce
  with assms(1) have 1: "app_sim E ps s s1" by (metis sim_def snd_conv)
  from assms(2) have "app_sim E ps s1 (snd (f x s1))" for x by (simp add: sim_def)
  with 1 m show "app_sim E ps s (snd (and_do m f s))"
    by (cases r) (auto simp: and_do_def intro: app_sim_trans)
qed

lemma sim_on_world [sim_intros]: "sim E ps (on_world err m)"
  by (simp add: sim_def on_world_def split: prod.split sum.split)

lemma sim_lock [sim_intros]: "sim E ps (lock_settings err)"
  by (rule sim_same) (simp add: lock_settings_def)

lemma sim_return [sim_intros]: "sim E ps (return_ok x)"
  by (rule sim_same) (simp add: return_ok_def)

lemma sim_fail [sim_intros]: "sim E ps (fail_with e)"
  by (rule sim_same) (simp add: fail_with_def)

lemma sim_lift [sim_intros]: "sim E ps (lift_result r)"
  by (rule sim_same) (simp add: lift_result_def)

lemma sim_if [sim_intros]: "(b \<Longrightarrow> sim E ps m) \<Longrightarrow> (\<not> b \<Longrightarrow> sim E ps m') \<Longrightarrow> sim E ps (if b then m else m')"
  by simp

lemma sim_sum [sim_intros]:
  "(\<And>e. sim E ps (f e)) \<Longrightarrow> (\<And>x. sim E ps (g x)) \<Longrightarrow> sim E ps (case r of Inl e \<Rightarrow> f e | Inr x \<Rightarrow> g x)"
  by (simp split: sum.split)

lemma sim_option [sim_intros]:
  "sim E ps m \<Longrightarrow> (\<And>x. sim E ps (f x)) \<Longrightarrow> sim E ps (case r of None \<Rightarrow> m | Some x \<Rightarrow> f x)"
  by (simp split: option.split)

lemma sim_under [sim_intros]:
  "(\<And>e. sim E ps (f e)) \<Longrightarrow> (\<And>x. sim E ps (g x)) \<Longrightarrow> sim E ps (\<lambda>s. case r of Inl e \<Rightarrow> f e s | Inr x \<Rightarrow> g x s)"
  "sim E ps m \<Longrightarrow> (\<And>x. sim E ps (h x)) \<Longrightarrow> sim E ps (\<lambda>s. case p of None \<Rightarrow> m s | Some x \<Rightarrow> h x s)"
  "sim E ps m \<Longrightarrow> sim E ps m' \<Longrightarrow> sim E ps (\<lambda>s. if b then m s else m' s)"
  "sim E ps (\<lambda>s. (x, s))"
  by (simp_all add: sim_def split: sum.split option.split)

lemma sim_state: "(\<And>s. app_sim E ps s (f s)) \<Longrightarrow> sim E ps (\<lambda>s. (x, f s))"
  by (simp add: sim_def)

lemma sim_after [sim_intros]:
  assumes "sim E ps m" "\<And>x. sim E ps (f x)"
  shows "sim E ps (\<lambda>s. case m s of (x, s') \<Rightarrow> f x s')"
proof -
  have "app_sim E ps s (snd (case m s of (x, s') \<Rightarrow> f x s'))" for s
  proof -
    obtain x s1 where m: "m s = (x, s1)" by fastforce
    with assms(1) have "app_sim E ps s s1" by (metis sim_def snd_conv)
    moreover have "app_sim E ps s1 (snd (f x s1))" using assms(2) by (simp add: sim_def)
    ultimately show ?thesis using m by (simp add: app_sim_trans)
  qed
  then show ?thesis by (simp add: sim_def)
qed

definition keeps_seeds :: "(database \<Rightarrow> 'a \<times> database) \<Rightarrow> bool" where
  "keeps_seeds m \<longleftrightarrow>
     (\<forall>d k v. identity_key k \<longrightarrow> map_of (db_settings d) k = Some v \<longrightarrow> map_of (db_settings (snd (m d))) k = Some v)"

lemma keeps_seeds_ops [sim_intros]:
  "keeps_seeds (load_config E)" "keeps_seeds (save_config E c)" "keeps_seeds (save_module_config E i cfg)"
  "keeps_seeds (save_codename codename)" "keeps_seeds (load_or_create_codename random)"
  using settings_step_keeps [of _ _ _ E SoLoadConfig] settings_step_keeps [of _ _ _ E "SoSaveConfig c"]
    settings_step_keeps [of _ _ _ E "SoSaveModule i cfg"] settings_step_keeps [of _ _ _ _ "SoSaveCodename codename"]
    settings_step_keeps [of _ _ _ _ "SoCodename random"]
  by (simp_all add: keeps_seeds_def)

lemma sim_on_settings [sim_intros]: "keeps_seeds m \<Longrightarrow> sim E ps (on_settings err m)"
  by (auto simp: sim_def on_settings_def keeps_seeds_def split: prod.split sum.split
      intro!: app_sim_settings) (metis snd_conv)+

lemma sim_vpn_routes [sim_intros]: "app_sim (ge_vpn G) ps s (vpn_set_routes G routes s)"
proof (cases "ap_vpn s")
  case (Some rt)
  obtain rt' w' where r: "replace_advertised_routes (ge_vpn G) (ge_interfaces G (ap_world s)) routes (rt, ap_world s) = (rt', w')"
    by fastforce
  have "vpn_step (ge_vpn G) (rt, ap_world s, ps) (rt', w', ps)"
    using vpn_step.set_advertised [of "ge_vpn G" rt "ap_world s" ps "ge_interfaces G (ap_world s)" routes]
    by (simp add: r with_pending_def)
  from app_sim_step [OF Some this] Some r show ?thesis by (simp add: vpn_set_routes_def)
qed (simp add: vpn_set_routes_def)

lemma sim_vpn_policy [sim_intros]: "sim (ge_vpn G) ps (vpn_set_policy G now allow_all strs)"
proof -
  have "app_sim (ge_vpn G) ps s (snd (vpn_set_policy G now allow_all strs s))" for s
  proof (cases "ap_vpn s")
    case (Some rt)
    obtain r rt' w' where r: "replace_peer_policy (ge_vpn G) now allow_all strs (rt, ap_world s) = (r, rt', w')"
      by (metis prod.exhaust)
    have "vpn_step (ge_vpn G) (rt, ap_world s, ps) (rt', w', ps)"
      using vpn_step.set_policy [OF r, of ps] by (simp add: with_pending_def)
    from app_sim_step [OF Some this] Some r show ?thesis by (simp add: vpn_set_policy_def)
  qed (simp add: vpn_set_policy_def)
  then show ?thesis by (simp add: sim_def)
qed

lemma sim_vpn_snapshot [sim_intros]: "sim (ge_vpn G) ps (build_vpn_snapshot G now mnow pnow)"
proof -
  have "app_sim (ge_vpn G) ps s (snd (build_vpn_snapshot G now mnow pnow s))" for s
  proof (cases "ap_vpn s")
    case (Some rt)
    from app_sim_step [OF Some vpn_step.snapshot_taken [of "ge_vpn G" rt "ap_world s" ps now mnow pnow]] Some
    show ?thesis by (simp add: build_vpn_snapshot_def split_beta)
  qed (simp add: build_vpn_snapshot_def)
  then show ?thesis by (simp add: sim_def)
qed

section \<open>The handlers\<close>

lemma sim_get_settings [sim_intros]: "sim E ps (get_settings G)"
  unfolding get_settings_def by (intro sim_intros)

lemma sim_update_config [sim_intros]: "sim E ps (update_config G change)"
  unfolding update_config_def by (intro sim_intros)

lemma sim_put_settings [sim_intros]: "sim (ge_vpn G) ps (put_settings G now c)"
  unfolding put_settings_def by (intro sim_intros sim_state)

lemma sim_radio [sim_intros]:
  "sim E ps (get_radio G rf)" "sim E ps (put_radio G rf cfg)" "sim E ps (post_radio_test G rf request)"
  unfolding get_radio_def put_radio_def post_radio_test_def Let_def
  by (intro sim_intros sim_state; auto split: option.split)+

lemma sim_put_vpn [sim_intros]:
  "sim (ge_vpn G) ps (put_vpn_routes G request)" "sim (ge_vpn G) ps (put_vpn_access G now allow_all hashes)"
  unfolding put_vpn_routes_def put_vpn_access_def
  by (intro sim_intros sim_state)+

lemma sim_get_vpn_routes [sim_intros]: "sim (ge_vpn G) ps (get_vpn_routes G now mnow pnow)"
  unfolding get_vpn_routes_def by (intro sim_intros)

lemma sim_speed_test [sim_intros]: "sim (ge_vpn G) ps (post_vpn_speed_test G S X now mnow pnow elapsed request)"
proof -
  have "app_sim (ge_vpn G) ps s (snd (post_vpn_speed_test G S X now mnow pnow elapsed request s))" for s
  proof -
    obtain snap s1 where b: "build_vpn_snapshot G now mnow pnow s = (snap, s1)" by fastforce
    with sim_vpn_snapshot [of G ps now mnow pnow] have 1: "app_sim (ge_vpn G) ps s s1" by (metis sim_def snd_conv)
    show ?thesis using 1 b app_sim_trans [OF 1 sim_on_world [unfolded sim_def, rule_format]]
      by (auto simp: post_vpn_speed_test_def Let_def split: sum.split)
  qed
  then show ?thesis by (simp add: sim_def)
qed

lemma sim_system [sim_intros]:
  "sim E ps (post_vpn_ping G request)" "sim E ps (post_system_reboot G)" "sim E ps (post_system_service_restart G unit)"
  "sim E ps (post_system_codename codename)" "sim E ps (post_wifi_mode G form)" "sim E ps (post_wifi_antenna G form)"
  "sim E ps (post_wifi_connect G ssid psk)" "sim E ps (get_network_snapshot G)"
  unfolding post_vpn_ping_def post_system_reboot_def post_system_service_restart_def post_system_codename_def
    post_wifi_mode_def post_wifi_antenna_def post_wifi_connect_def get_network_snapshot_def
  by (intro sim_intros)+

section \<open>The shared state of the handlers and of the pages\<close>

definition lsim ::
    "('h, 'c::linorder, 'd, 'l, 'w) vpn_env \<Rightarrow> 'd request list \<Rightarrow> (bytes \<Rightarrow> 32 word)
       \<Rightarrow> (('h, 'c, 'd, 'l, 'w) live_state \<Rightarrow> 'a \<times> ('h, 'c, 'd, 'l, 'w) live_state) \<Rightarrow> bool" where
  "lsim E ps crc32 m \<longleftrightarrow> (\<forall>s. live_sim E ps crc32 s (snd (m s)))"

lemma live_sim_refl [simp, intro]: "live_sim E ps crc32 s s"
  by (auto simp: live_sim_def intro: exI [of _ "[]"])

lemma live_sim_trans:
  assumes "live_sim E ps crc32 s1 s2" "live_sim E ps crc32 s2 s3"
  shows "live_sim E ps crc32 s1 s3"
proof -
  from assms obtain evs evs' where "lv_frames s3 = fold (fm_step crc32) (evs @ evs') (lv_frames s1)"
    by (auto simp: live_sim_def)
  then have "\<exists>evs. lv_frames s3 = fold (fm_step crc32) evs (lv_frames s1)" by (rule exI)
  moreover have "app_sim E ps (lv_app s1) (lv_app s3)" using assms by (auto simp: live_sim_def intro: app_sim_trans)
  ultimately show ?thesis using assms by (simp add: live_sim_def)
qed

lemma live_sim_app: "app_sim E ps (lv_app s) app \<Longrightarrow> live_sim E ps crc32 s (s\<lparr>lv_app := app\<rparr>)"
  by (auto simp: live_sim_def intro: exI [of _ "[]"])

lemma live_sim_frames: "m = fold (fm_step crc32) evs (lv_frames s) \<Longrightarrow> live_sim E ps crc32 s (s\<lparr>lv_frames := m\<rparr>)"
  by (auto simp: live_sim_def)

lemma lsim_same: "(\<And>s. snd (m s) = s) \<Longrightarrow> lsim E ps crc32 m"
  by (simp add: lsim_def)

lemma lsim_on_app [sim_intros]: "sim E ps m \<Longrightarrow> lsim E ps crc32 (on_app m)"
  by (auto simp: lsim_def sim_def on_app_def split_beta intro: live_sim_app)

lemma lsim_run_app: "sim E ps m \<Longrightarrow> lsim E ps crc32 (\<lambda>s. case m (lv_app s) of (r, app) \<Rightarrow> (r, s\<lparr>lv_app := app\<rparr>))"
  by (auto simp: lsim_def sim_def split_beta intro: live_sim_app)

lemma lsim_after [sim_intros]:
  assumes "lsim E ps crc32 m" "\<And>s x. lsim E ps crc32 (f s x)"
  shows "lsim E ps crc32 (\<lambda>s. case m s of (x, s') \<Rightarrow> f s x s')"
proof -
  have "live_sim E ps crc32 s (snd (case m s of (x, s') \<Rightarrow> f s x s'))" for s
  proof -
    obtain x s1 where m: "m s = (x, s1)" by fastforce
    with assms(1) have "live_sim E ps crc32 s s1" by (metis lsim_def snd_conv)
    moreover have "live_sim E ps crc32 s1 (snd (f s x s1))" using assms(2) by (simp add: lsim_def)
    ultimately show ?thesis using m by (simp add: live_sim_trans)
  qed
  then show ?thesis by (simp add: lsim_def)
qed

lemma lsim_and_do [sim_intros]:
  assumes "lsim E ps crc32 m" "\<And>x. lsim E ps crc32 (f x)"
  shows "lsim E ps crc32 (and_do m f)"
proof -
  have f: "lsim E ps crc32 (\<lambda>s. case r of Inl e \<Rightarrow> (Inl e, s) | Inr x \<Rightarrow> f x s)" for r
    using assms(2) by (auto simp: lsim_def split: sum.split)
  show ?thesis unfolding and_do_cases using lsim_after [OF assms(1), of "\<lambda>_ r s. case r of Inl e \<Rightarrow> (Inl e, s) | Inr x \<Rightarrow> f x s"] f by simp
qed

lemma lsim_services [sim_intros]: "lsim E ps crc32 (build_services S)"
  by (auto simp: lsim_def build_services_def split_beta intro: live_sim_app)

lemma lsim_snapshot [sim_intros]: "lsim (ge_vpn G) ps crc32 (live_vpn_snapshot G rd)"
  using sim_vpn_snapshot [of G ps "sr_now rd" "sr_mnow rd" "sr_pnow rd"]
  by (auto simp: lsim_def sim_def live_vpn_snapshot_def split_beta intro: live_sim_app)

lemma sim_radio_modules [sim_intros]: "sim E ps (status_radio_modules G)"
  unfolding status_radio_modules_def by (intro sim_intros)

lemma frames_poll:
  "snd (build_frame_stats now n m) = fold (fm_step crc32) [((now, 0), FmPoll n)] m"
  "snd (radio_frames_event now n m) = fold (fm_step crc32) [((now, 0), FmPoll n)] m"
  "snd (build_all_frame_stats now now' m) = fold (fm_step crc32) [((now, 0), FmPoll 0), ((now', 0), FmPoll 1)] m"
  by (simp_all add: radio_frames_event_def build_all_frame_stats_def split_beta)

lemma sim_page_settings [sim_intros]: "keeps_seeds m \<Longrightarrow> sim E ps (page_settings m)"
  unfolding page_settings_def by (intro sim_intros)

lemma live_poll: "live_sim E ps crc32 s (s\<lparr>lv_frames := snd (radio_frames_event now n (lv_frames s))\<rparr>)"
  "live_sim E ps crc32 s (s\<lparr>lv_frames := snd (build_all_frame_stats now now' (lv_frames s))\<rparr>)"
  by (rule live_sim_frames, rule frames_poll)+

lemma lsim_status [sim_intros]: "lsim (ge_vpn G) ps crc32 (get_status G H rd)"
proof -
  have "live_sim (ge_vpn G) ps crc32 s (snd (build_status G H rd s))" for s
  proof -
    define s1 where "s1 = s\<lparr>lv_app := snd (status_radio_modules G (lv_app s))\<rparr>"
    define s2 where "s2 = snd (build_services (ge_sys G) s1)"
    define s3 where "s3 = s2\<lparr>lv_frames := snd (build_all_frame_stats (sr_frames_now rd) (sr_frames_now' rd) (lv_frames s2))\<rparr>"
    have "live_sim (ge_vpn G) ps crc32 s s1"
      using sim_radio_modules [of "ge_vpn G" ps G] by (auto simp: s1_def sim_def intro: live_sim_app)
    moreover have "live_sim (ge_vpn G) ps crc32 s1 s2"
      using lsim_services [of "ge_vpn G" ps crc32 "ge_sys G"] by (simp add: s2_def lsim_def)
    moreover have "live_sim (ge_vpn G) ps crc32 s2 s3" unfolding s3_def by (rule live_poll)
    moreover have "live_sim (ge_vpn G) ps crc32 s3 (snd (live_vpn_snapshot G rd s3))"
      using lsim_snapshot [of G ps crc32 rd] by (simp add: lsim_def)
    moreover have "snd (build_status G H rd s) = snd (live_vpn_snapshot G rd s3)"
      by (simp add: build_status_def Let_def split_beta s1_def s2_def s3_def)
    ultimately show ?thesis by (metis live_sim_trans)
  qed
  then show ?thesis by (simp add: lsim_def get_status_def)
qed

lemma lsim_periodic [sim_intros]: "lsim (ge_vpn G) ps crc32 (publish_periodic_events G H rd)"
  unfolding publish_periodic_events_def by (intro lsim_after lsim_services lsim_snapshot lsim_same) simp

lemma lsim_initial [sim_intros]:
  fixes G :: "('h, 'c::linorder, 'd, 'l, 'r, 'm, 'w) gateway_env"
  shows "lsim (ge_vpn G) ps crc32 (initial_events G H rd (\<lambda>m. m) (\<lambda>m. m))"
proof -
  have "lsim (ge_vpn G) ps crc32 (\<lambda>s'. case radio_frames_event n 0 (lv_frames s') of (frames0, m) \<Rightarrow>
      case radio_frames_event n' 1 m of (frames1, m) \<Rightarrow> (es s' frames0 frames1, s'\<lparr>lv_frames := m\<rparr>))"
    for n n' and es :: "('h, 'c, 'd, 'l, 'w) live_state \<Rightarrow> ws_status_event \<Rightarrow> ws_status_event \<Rightarrow> ws_status_event list"
    unfolding lsim_def
  proof
    fix s :: "('h, 'c, 'd, 'l, 'w) live_state"
    have "snd (radio_frames_event n' 1 (snd (radio_frames_event n 0 (lv_frames s))))
        = fold (fm_step crc32) [((n, 0), FmPoll 0), ((n', 0), FmPoll 1)] (lv_frames s)"
      by (simp add: frames_poll(2) [of _ _ _ crc32])
    from live_sim_frames [OF this] show "live_sim (ge_vpn G) ps crc32 s
       (snd (case radio_frames_event n 0 (lv_frames s) of (frames0, m) \<Rightarrow>
          case radio_frames_event n' 1 m of (frames1, m) \<Rightarrow> (es s frames0 frames1, s\<lparr>lv_frames := m\<rparr>)))"
      by (simp add: split_beta)
  qed
  then show ?thesis unfolding initial_events_def
    by (intro lsim_after lsim_services lsim_snapshot) simp
qed

section \<open>Requests and page loads\<close>

definition gw_sim ::
    "('h, 'c::linorder, 'd, 'l, 'w) vpn_env \<Rightarrow> (bytes \<Rightarrow> 32 word)
       \<Rightarrow> ('h, 'c, 'd, 'l, 'w) gateway_state \<Rightarrow> ('h, 'c, 'd, 'l, 'w) gateway_state \<Rightarrow> bool" where
  "gw_sim E crc32 s s' \<longleftrightarrow>
     live_sim E (gy_pending s) crc32 (gy_live s) (gy_live s') \<and> gy_pending s' = gy_pending s"

lemma gw_sim_refl [simp, intro]: "gw_sim E crc32 s s"
  by (simp add: gw_sim_def)

lemma gw_sim_live:
  assumes "\<And>ps. lsim E ps crc32 m"
  shows "gw_sim E crc32 s (snd (run_live code m s))"
  using assms by (simp add: gw_sim_def run_live_def lsim_def split_beta)

lemma gw_sim_app:
  assumes "\<And>ps. sim E ps m"
  shows "gw_sim E crc32 s (snd (run_app code m s))"
  unfolding run_app_def by (rule gw_sim_live, rule lsim_run_app, rule assms)

lemma gw_sim_world: "gw_sim E crc32 s (snd (run_world m s))"
  unfolding run_world_def by (rule gw_sim_app) (auto simp: sim_def split_beta)

lemma gw_sim_mixer: "gw_sim E crc32 s (snd (run_mixer m s))"
  by (auto simp: gw_sim_def run_mixer_def split_beta intro: live_sim_app)

lemma gw_sim_call: "gw_sim (ge_vpn G) crc32 s (snd (run_call P G rd elapsed call s))"
proof (cases call)
  case (CallAudio c)
  then show ?thesis by (cases c) (simp_all add: gw_sim_mixer)
next
  case (CallSettings c)
  then show ?thesis by (cases c) (auto intro!: gw_sim_app sim_intros)
next
  case (CallSystem c)
  then show ?thesis by (cases c) (auto intro!: gw_sim_app gw_sim_live sim_intros lsim_same)
next
  case (CallVpn c)
  then show ?thesis by (cases c) (auto intro!: gw_sim_app sim_intros)
next
  case (CallPlugins c)
  then show ?thesis by (cases c) (simp_all add: gw_sim_world)
next
  case (CallAsset c)
  then show ?thesis by (cases c) simp_all
qed

lemma gw_sim_page_live:
  assumes "\<And>ps. lsim E ps crc32 m"
  shows "gw_sim E crc32 s (snd (page_live (with_context m) s))"
  using assms by (simp add: gw_sim_def page_live_def with_context_def lsim_def split_beta)

lemma gw_sim_page_app:
  assumes "\<And>ps. sim E ps m"
  shows "gw_sim E crc32 s (snd (page_app (with_context m) s))"
  using assms by (auto simp: gw_sim_def page_app_def page_live_def with_context_def sim_def split_beta intro: live_sim_app)

lemma sim_save_radio [sim_intros]:
  "sim E ps (case client of
       None \<Rightarrow> return_ok ()
     | Some R \<Rightarrow> and_do (on_world f (set_config R)) (\<lambda>_. on_world h (modulation R)))"
  by (intro sim_intros)

lemma lsim_status_page: "lsim (ge_vpn G) ps crc32 (\<lambda>s.
    case status_radio_modules G (lv_app s) of (rm, app) \<Rightarrow>
    case build_services (ge_sys G) (s\<lparr>lv_app := app\<rparr>) of (services, s) \<Rightarrow>
    case live_vpn_snapshot G rd s of (vpn, s') \<Rightarrow> (shown rm app services s vpn, s'))"
proof -
  have 1: "lsim (ge_vpn G) ps crc32 (\<lambda>s. case status_radio_modules G (lv_app s) of (rm, app) \<Rightarrow> (rm, s\<lparr>lv_app := app\<rparr>))"
    by (rule lsim_run_app) (rule sim_radio_modules)
  have 2: "lsim (ge_vpn G) ps crc32 (\<lambda>s. case build_services (ge_sys G) s of (services, s1) \<Rightarrow>
      case live_vpn_snapshot G rd s1 of (vpn, s') \<Rightarrow> (shown rm (lv_app s) services s1 vpn, s'))" for rm
    by (intro lsim_after lsim_services lsim_snapshot lsim_same) simp
  from lsim_after [OF 1, of "\<lambda>_ rm s. case build_services (ge_sys G) s of (services, s1) \<Rightarrow>
      case live_vpn_snapshot G rd s1 of (vpn, s') \<Rightarrow> (shown rm (lv_app s) services s1 vpn, s')", OF 2]
  show ?thesis by (simp add: lsim_def split_beta)
qed

lemma lsim_vpn_page:
  "lsim (ge_vpn G) ps crc32
     (and_do (on_app (page_settings (load_config E))) (\<lambda>c.
      and_do (on_app (page_settings (load_or_create_codename random))) (\<lambda>codename s.
        case live_vpn_snapshot G rd s of (vpn, s') \<Rightarrow> (Inr (shown c codename s vpn), s'))))"
  by (intro lsim_and_do lsim_on_app sim_page_settings keeps_seeds_ops lsim_after lsim_snapshot lsim_same) simp

lemma lsim_reticulum_page:
  "lsim (ge_vpn G) ps crc32 (\<lambda>s. case live_vpn_snapshot G rd s of (vpn, s') \<Rightarrow> (shown s vpn, s'))"
  by (intro lsim_after lsim_snapshot lsim_same) simp

lemma lsim_world: "lsim E ps crc32 (\<lambda>s. case m (ap_world (lv_app s)) of (r, w) \<Rightarrow> (f s r w, s\<lparr>lv_app := (lv_app s)\<lparr>ap_world := w\<rparr>\<rparr>))"
  by (auto simp: lsim_def split_beta intro: live_sim_app)

lemma lsim_about_page:
  "lsim E ps crc32
     (and_do (on_app (page_settings (load_or_create_codename random))) (\<lambda>codename s.
        case m (ap_world (lv_app s)) of (r, w) \<Rightarrow> (Inr (shown codename s r w), s\<lparr>lv_app := (lv_app s)\<lparr>ap_world := w\<rparr>\<rparr>)))"
  by (intro lsim_and_do lsim_on_app sim_page_settings keeps_seeds_ops lsim_world)

lemma gw_sim_topbar: "gw_sim E crc32 s (snd (page_live (fetch_topbar_info H of_json version) s))"
  by (auto simp: gw_sim_def page_live_def fetch_topbar_info_def Let_def split_beta intro: live_sim_app)

lemma gw_sim_page: "gw_sim (ge_vpn G) crc32 s (snd (run_page P G rd pg s))"
proof (cases pg)
  case PageSettings
  then show ?thesis by (simp add: load_settings_def) (intro gw_sim_page_app sim_intros)
next
  case (PageSaveSettings d)
  then show ?thesis by (simp add: save_settings_def) (intro gw_sim_page_app sim_intros)
next
  case (PageSaveRadio rf cfg)
  then show ?thesis by (simp add: save_radio_module_def) (intro gw_sim_page_app sim_intros)
next
  case PageNetwork
  then show ?thesis by (simp add: load_network_snapshot_def) (intro gw_sim_page_app sim_intros)
next
  case PageMedia
  then show ?thesis
    by (auto simp: page_mixer_def load_audio_cards_def with_context_def gw_sim_def split_beta intro: live_sim_app)
next
  case (PageVpn random)
  then show ?thesis by (simp add: load_vpn_snapshot_def) (intro gw_sim_page_live lsim_vpn_page)
next
  case PageReticulum
  then show ?thesis by (simp add: load_reticulum_snapshot_def Let_def) (intro gw_sim_page_live lsim_reticulum_page)
next
  case PageDashboard
  then show ?thesis by (simp add: get_gateway_status_def Let_def) (intro gw_sim_page_live lsim_status_page)
next
  case (PageAbout random ca_random)
  then show ?thesis by (simp add: load_system_about_def Let_def) (intro gw_sim_page_live lsim_about_page)
next
  case PageTopbar
  then show ?thesis by (simp add: gw_sim_topbar)
qed

section \<open>The parts of a reachable state\<close>

lemma handler_env_vpn [simp]: "ge_vpn (handler_env G B g) = ge_vpn G"
  by (simp add: handler_env_def)

lemma vpn_reachable_steps:
  assumes "(vpn_step E)\<^sup>*\<^sup>* s s'" "vpn_reachable E s"
  shows "vpn_reachable E s'"
  using assms by (induction) (auto intro: vpn_reachable.stepped)

text \<open>What a started gateway \<open>g\<close> keeps, of the state of its parts.\<close>

definition gateway_parts ::
    "('h, 'c::linorder, 'd, 'l, 'r, 'm, 'w) gateway_env \<Rightarrow> ('h, 'r, 'm, 'w) boot_ops \<Rightarrow> (bytes \<Rightarrow> 32 word) \<Rightarrow> (bytes \<Rightarrow> string)
       \<Rightarrow> ('h, 'c, 'd, 'l, 'w) running_gateway \<Rightarrow> ('h, 'c, 'd, 'l, 'w) gateway_state \<Rightarrow> bool" where
  "gateway_parts G B crc32 show_hash g s \<longleftrightarrow>
     \<not> ap_poisoned (lv_app (gy_live s)) \<and> lv_serial (gy_live s) = rg_serial g \<and> lv_vpn_hash (gy_live s) = rg_vpn_hash g
   \<and> (case ap_vpn (lv_app (gy_live s)) of
        None \<Rightarrow> ap_vpn (rg_app g) = None
      | Some rt \<Rightarrow> ap_vpn (rg_app g) \<noteq> None
          \<and> vpn_reachable (ge_vpn G) (rt, ap_world (lv_app (gy_live s)), gy_pending s))
   \<and> (\<exists>evs. lv_frames (gy_live s) = fm_run crc32 evs)
   \<and> (\<exists>evs. lv_reticulum (gy_live s) = gw_run show_hash evs)
   \<and> (\<not> rg_webapp_only g \<longrightarrow>
        (\<exists>seed. map_of (db_settings (ap_settings (lv_app (gy_live s)))) ''identity_seed'' = Some seed
              \<and> rg_vpn_hash g = h_hex (e_hash (ge_vpn G)) (bo_address_hash B seed)))"

lemma parts_sim:
  assumes "gateway_parts G B crc32 show_hash g s" "gw_sim (ge_vpn G) crc32 s s'"
  shows "gateway_parts G B crc32 show_hash g s'"
proof -
  let ?l = "gy_live s" and ?l' = "gy_live s'"
  from assms(2) have live: "app_sim (ge_vpn G) (gy_pending s) (lv_app ?l) (lv_app ?l')" "gy_pending s' = gy_pending s"
      "lv_reticulum ?l' = lv_reticulum ?l" "lv_serial ?l' = lv_serial ?l" "lv_vpn_hash ?l' = lv_vpn_hash ?l"
    and frames: "\<exists>evs. lv_frames ?l' = fold (fm_step crc32) evs (lv_frames ?l)"
    by (auto simp: gw_sim_def live_sim_def)
  have f: "\<exists>evs. lv_frames ?l' = fm_run crc32 evs"
  proof -
    from assms(1) obtain evs where "lv_frames ?l = fm_run crc32 evs" by (auto simp: gateway_parts_def)
    with frames obtain evs' where "lv_frames ?l' = fm_run crc32 (evs @ evs')" by (auto simp: fm_run_def)
    then show ?thesis by (rule exI)
  qed
  have v: "case ap_vpn (lv_app ?l') of None \<Rightarrow> ap_vpn (rg_app g) = None
      | Some rt \<Rightarrow> ap_vpn (rg_app g) \<noteq> None \<and> vpn_reachable (ge_vpn G) (rt, ap_world (lv_app ?l'), gy_pending s')"
    using assms(1) live(1,2) by (auto simp: gateway_parts_def app_sim_def split: option.splits intro: vpn_reachable_steps)
  have p: "ap_poisoned (lv_app ?l') = ap_poisoned (lv_app ?l)" using live(1) by (simp add: app_sim_def)
  have seed: "map_of (db_settings (ap_settings (lv_app ?l'))) ''identity_seed'' = Some seed"
    if "map_of (db_settings (ap_settings (lv_app ?l))) ''identity_seed'' = Some seed" for seed
    using live(1) that identity_seed_key by (simp add: app_sim_def)
  from assms(1) f v p live seed show ?thesis unfolding gateway_parts_def by auto
qed

lemma parts_step:
  assumes "gateway_step P (handler_env G B g) crc32 show_hash s s'" "gateway_parts G B crc32 show_hash g s"
  shows "gateway_parts G B crc32 show_hash g s'"
  using assms
proof cases
  case (request rd elapsed call)
  with assms(2) gw_sim_call [of "handler_env G B g" crc32 s P rd elapsed call] show ?thesis by (simp add: parts_sim)
next
  case (page rd pg)
  with assms(2) gw_sim_page [of "handler_env G B g" crc32 s P rd pg] show ?thesis by (simp add: parts_sim)
next
  case (publish rd)
  with assms(2) lsim_periodic [of "handler_env G B g" "gy_pending s" crc32 "gp_host P" rd] show ?thesis
    by (auto intro: parts_sim simp: gw_sim_def lsim_def)
next
  case (frame fe)
  obtain evs where "lv_frames (gy_live s) = fm_run crc32 evs" using assms(2) by (auto simp: gateway_parts_def)
  then have "fm_step crc32 fe (lv_frames (gy_live s)) = fm_run crc32 (evs @ [fe])" by (simp add: fm_run_def)
  then have "\<exists>evs. fm_step crc32 fe (lv_frames (gy_live s)) = fm_run crc32 evs" by (rule exI)
  with assms(2) frame show ?thesis by (simp add: gateway_parts_def split: option.splits)
next
  case (reticulum re)
  obtain evs where "lv_reticulum (gy_live s) = gw_run show_hash evs" using assms(2) by (auto simp: gateway_parts_def)
  then have "gw_step show_hash re (lv_reticulum (gy_live s)) = gw_run show_hash (evs @ [re])" by simp
  then have "\<exists>evs. gw_step show_hash re (lv_reticulum (gy_live s)) = gw_run show_hash evs" by (rule exI)
  with assms(2) reticulum show ?thesis by (simp add: gateway_parts_def split: option.splits)
next
  case (vpn_task rt rt' w' ps')
  then have "vpn_reachable (ge_vpn G) (rt', w', ps')"
    using assms(2) by (auto simp: gateway_parts_def intro: vpn_reachable.stepped)
  with assms(2) vpn_task show ?thesis by (simp add: gateway_parts_def set_app_def)
next
  case (world w')
  have "gw_sim (ge_vpn G) crc32 s (set_app ((lv_app (gy_live s))\<lparr>ap_world := w'\<rparr>) s)"
    by (auto simp: gw_sim_def set_app_def intro: live_sim_app)
  with assms(2) world show ?thesis by (simp add: parts_sim)
qed

lemma boot_unpoisoned: "boot G B cmd inp conn w = (BootRunning g, w1) \<Longrightarrow> \<not> ap_poisoned (rg_app g)"
  by (auto simp: boot_def boot_mesh_def Let_def split: sum.splits prod.splits if_splits)

lemma boot_webapp: "boot G B cmd inp conn w = (BootRunning g, w1) \<Longrightarrow> rg_webapp_only g \<Longrightarrow> ap_vpn (rg_app g) = None"
  by (auto simp: boot_def boot_mesh_def Let_def split: sum.splits prod.splits if_splits)

lemma parts_new:
  assumes "boot G B cmd inp conn w = (BootRunning g, w1)"
  shows "gateway_parts G B crc32 show_hash g (app_state_new cmd g)"
proof -
  have events: "\<exists>evs. frame_monitor_new = fm_run crc32 evs" "\<exists>evs. gateway_reticulum_new = gw_run show_hash evs"
    by (auto simp: fm_run_def gw_run_def intro: exI [of _ "[]"])
  have mesh: "\<exists>seed. map_of (db_settings (ap_settings (rg_app g))) ''identity_seed'' = Some seed
      \<and> rg_vpn_hash g = h_hex (e_hash (ge_vpn G)) (bo_address_hash B seed)" if "\<not> rg_webapp_only g"
    by (rule boot_running [OF assms that]) (use stored_seed(1) in blast)
  have vpn: "vpn_reachable (ge_vpn G) (rt, ap_world (rg_app g), [])" if "ap_vpn (rg_app g) = Some rt" for rt
  proof -
    have "\<not> rg_webapp_only g" using boot_webapp [OF assms] that by auto
    then show ?thesis by (rule boot_running [OF assms]) (use that in \<open>auto intro: vpn_reachable.started\<close>)
  qed
  show ?thesis
    using events mesh vpn boot_unpoisoned [OF assms]
    by (auto simp: gateway_parts_def app_state_new_def split: option.splits)
qed

lemma reachable_parts: "gateway_reachable P G B crc32 show_hash g s \<Longrightarrow> gateway_parts G B crc32 show_hash g s"
  by (induction rule: gateway_reachable.induct) (auto intro: parts_new parts_step)

section \<open>Safe requests\<close>

text \<open>What a request must leave alone to count as a reading one: everything but counters' samplers and the world.\<close>

definition same_vpn :: "('h, 'c, 'd, 'l) vpn_runtime \<Rightarrow> ('h, 'c, 'd, 'l) vpn_runtime \<Rightarrow> bool" where
  "same_vpn rt rt' \<longleftrightarrow> slow rt' = slow rt \<and> router rt' = router rt \<and> status rt' = status rt \<and> out_links rt' = out_links rt"

definition same_app :: "('h, 'c, 'd, 'l, 'w) app_state \<Rightarrow> ('h, 'c, 'd, 'l, 'w) app_state \<Rightarrow> bool" where
  "same_app s s' \<longleftrightarrow> db_rows (ap_settings s') = db_rows (ap_settings s) \<and> rel_option same_vpn (ap_vpn s) (ap_vpn s')"

definition reads_app :: "(('h, 'c, 'd, 'l, 'w) app_state \<Rightarrow> 'a \<times> ('h, 'c, 'd, 'l, 'w) app_state) \<Rightarrow> bool" where
  "reads_app m \<longleftrightarrow> (\<forall>s. same_app s (snd (m s)))"

definition reads_live :: "(('h, 'c, 'd, 'l, 'w) live_state \<Rightarrow> 'a \<times> ('h, 'c, 'd, 'l, 'w) live_state) \<Rightarrow> bool" where
  "reads_live m \<longleftrightarrow> (\<forall>s. same_app (lv_app s) (lv_app (snd (m s))) \<and> lv_reticulum (snd (m s)) = lv_reticulum s)"

lemma same_vpn_refl [simp]: "same_vpn rt rt"
  by (simp add: same_vpn_def)

lemma same_app_refl [simp]: "same_app s s"
  by (simp add: same_app_def option.rel_refl)

lemma same_app_world [simp]: "same_app s (s\<lparr>ap_world := w\<rparr>)"
  by (simp add: same_app_def option.rel_refl)

lemma same_app_trans: "same_app s1 s2 \<Longrightarrow> same_app s2 s3 \<Longrightarrow> same_app s1 s3"
  unfolding same_app_def same_vpn_def by (cases "ap_vpn s1"; cases "ap_vpn s2"; cases "ap_vpn s3"; simp)

lemma reads_get_settings: "reads_app (get_settings G)"
  using load_config_rows [of "ge_settings G"]
  by (auto simp: reads_app_def get_settings_def and_do_def lock_settings_def on_settings_def same_app_def
      option.rel_refl split: prod.split sum.split) (metis snd_conv)+

lemma reads_snapshot: "reads_app (build_vpn_snapshot G now mnow pnow)"
  by (auto simp: reads_app_def build_vpn_snapshot_def same_app_def same_vpn_def snapshot_fields split_beta split: option.split)

lemma reads_world: "reads_app (on_world err m)"
  by (simp add: reads_app_def on_world_def split: prod.split sum.split)

lemma reads_app_after:
  assumes "reads_app m" "\<And>x. reads_app (f x)"
  shows "reads_app (\<lambda>s. case m s of (x, s') \<Rightarrow> f x s')"
  using assms unfolding reads_app_def split_beta by (blast intro: same_app_trans)

lemma reads_app_and_do:
  assumes "reads_app m" "\<And>x. reads_app (f x)"
  shows "reads_app (and_do m f)"
proof -
  have "reads_app (\<lambda>s. case r of Inl e \<Rightarrow> (Inl e, s) | Inr x \<Rightarrow> f x s)" for r
    using assms(2) by (auto simp: reads_app_def split: sum.split)
  from reads_app_after [OF assms(1) this] show ?thesis unfolding and_do_cases .
qed

lemma reads_live_after:
  assumes "reads_live m" "\<And>s x. reads_live (f s x)"
  shows "reads_live (\<lambda>s. case m s of (x, s') \<Rightarrow> f s x s')"
  using assms unfolding reads_live_def split_beta by (metis same_app_trans)

lemma reads_live_same: "(\<And>s. snd (m s) = s) \<Longrightarrow> reads_live m"
  by (simp add: reads_live_def)

lemma reads_run_app: "reads_app m \<Longrightarrow> reads_live (\<lambda>s. case m (lv_app s) of (r, app) \<Rightarrow> (r, s\<lparr>lv_app := app\<rparr>))"
  by (simp add: reads_live_def reads_app_def split_beta)

lemma reads_services: "reads_live (build_services S)"
  by (simp add: reads_live_def build_services_def split_beta)

lemma reads_live_snapshot: "reads_live (live_vpn_snapshot G rd)"
  using reads_snapshot [of G "sr_now rd" "sr_mnow rd" "sr_pnow rd"]
  by (simp add: reads_live_def live_vpn_snapshot_def reads_app_def split_beta)

lemma reads_status: "reads_live (get_status G H rd)"
proof -
  have m: "reads_app (status_radio_modules G)"
    unfolding status_radio_modules_def
    using reads_app_after [OF reads_get_settings [of G], of "\<lambda>r s. case r of Inl _ \<Rightarrow> ([], s) | Inr c \<Rightarrow> (hrc_module_configs (gc_radio c), s)"]
    by (simp add: reads_app_def split_beta split: sum.split)
  have "same_app (lv_app s) (lv_app (snd (get_status G H rd s))) \<and> lv_reticulum (snd (get_status G H rd s)) = lv_reticulum s" for s
  proof -
    define s1 where "s1 = s\<lparr>lv_app := snd (status_radio_modules G (lv_app s))\<rparr>"
    define s2 where "s2 = snd (build_services (ge_sys G) s1)"
    define s3 where "s3 = s2\<lparr>lv_frames := snd (build_all_frame_stats (sr_frames_now rd) (sr_frames_now' rd) (lv_frames s2))\<rparr>"
    have "same_app (lv_app s) (lv_app s1)" "lv_reticulum s1 = lv_reticulum s" by (simp_all add: s1_def m [unfolded reads_app_def, rule_format])
    moreover have "same_app (lv_app s1) (lv_app s2)" "lv_reticulum s2 = lv_reticulum s1"
      by (simp_all add: s2_def reads_services [unfolded reads_live_def, rule_format])
    moreover have "same_app (lv_app s3) (lv_app (snd (live_vpn_snapshot G rd s3)))"
      "lv_reticulum (snd (live_vpn_snapshot G rd s3)) = lv_reticulum s3"
      by (simp_all add: reads_live_snapshot [unfolded reads_live_def, rule_format])
    moreover have "lv_app s3 = lv_app s2" "lv_reticulum s3 = lv_reticulum s2" by (simp_all add: s3_def)
    moreover have "snd (get_status G H rd s) = snd (live_vpn_snapshot G rd s3)"
      by (simp add: get_status_def build_status_def Let_def split_beta s1_def s2_def s3_def)
    ultimately show ?thesis by (metis same_app_trans)
  qed
  then show ?thesis by (simp add: reads_live_def)
qed

lemma reads_initial: "reads_live (initial_events G H rd before between)"
  unfolding initial_events_def
  by (intro reads_live_after reads_services reads_live_snapshot) (simp add: reads_live_def split_beta)

text \<open>What a request that only reads leaves alone.\<close>

definition same_gateway :: "('h, 'c, 'd, 'l, 'w) gateway_state \<Rightarrow> ('h, 'c, 'd, 'l, 'w) gateway_state \<Rightarrow> bool" where
  "same_gateway s s' \<longleftrightarrow>
     same_app (lv_app (gy_live s)) (lv_app (gy_live s')) \<and> lv_reticulum (gy_live s') = lv_reticulum (gy_live s)
   \<and> gy_soft_mute s' = gy_soft_mute s \<and> gy_pending s' = gy_pending s"

lemma same_gateway_refl [simp]: "same_gateway s s"
  by (simp add: same_gateway_def)

lemma same_run_live: "reads_live m \<Longrightarrow> same_gateway s (snd (run_live code m s))"
  by (simp add: same_gateway_def run_live_def reads_live_def split_beta)

lemma same_run_app: "reads_app m \<Longrightarrow> same_gateway s (snd (run_app code m s))"
  unfolding run_app_def by (rule same_run_live) (rule reads_run_app)

lemma same_run_world: "same_gateway s (snd (run_world m s))"
  unfolding run_world_def by (rule same_run_app) (simp add: reads_app_def split_beta)

definition reads_mixer :: "('w audio_service, 'e, 'a) fallible \<Rightarrow> bool" where
  "reads_mixer m \<longleftrightarrow> (\<forall>s. au_soft_mute_levels (snd (m s)) = au_soft_mute_levels s)"

lemma same_run_mixer: "reads_mixer m \<Longrightarrow> same_gateway s (snd (run_mixer m s))"
  by (simp add: same_gateway_def run_mixer_def reads_mixer_def split_beta)

lemma reads_mixer_rules:
  "reads_mixer (on_mixer m)" "reads_mixer m1 \<Longrightarrow> reads_mixer (\<lambda>s. map_err f (m1 s))"
  "(\<And>k. reads_mixer (g k)) \<Longrightarrow> reads_mixer (with_output v g)"
  "reads_mixer m1 \<Longrightarrow> (\<And>x. reads_mixer (h x)) \<Longrightarrow> reads_mixer (and_do m1 h)"
  by (auto simp: reads_mixer_def on_mixer_def map_err_def with_output_def and_do_def split_beta split: option.split sum.split)

lemma reads_control: "reads_mixer (read_control S card_id kind)"
  unfolding read_control_def
  by (intro reads_mixer_rules) (simp add: reads_mixer_def split: option.split)

lemma get_audio_reads:
  "reads_mixer (get_audio_cards S)" "reads_mixer (get_audio S v)" "reads_mixer (get_audio_control S card_id v)"
proof -
  have "reads_mixer (\<lambda>s. map_err map_audio_error (list_cards S s))"
    unfolding list_cards_def by (intro reads_mixer_rules)
  then show "reads_mixer (get_audio_cards S)" by (simp add: reads_mixer_def get_audio_cards_def)
  show "reads_mixer (get_audio S v)" "reads_mixer (get_audio_control S card_id v)"
    unfolding get_audio_def get_audio_control_def read_output_def by (intro reads_mixer_rules reads_control)+
qed

lemma get_settings_reads: "reads_app (get_radio G rf)" "reads_app (get_network_snapshot G)"
proof -
  have "reads_app (if rf < n then return_ok x else fail_with e)" for n x e
    by (simp add: reads_app_def return_ok_def fail_with_def)
  then show "reads_app (get_radio G rf)" unfolding get_radio_def Let_def
    by (intro reads_app_and_do reads_get_settings)
  show "reads_app (get_network_snapshot G)" unfolding get_network_snapshot_def by (rule reads_world)
qed

lemma get_vpn_routes_reads: "reads_app (get_vpn_routes G now mnow pnow)"
  unfolding get_vpn_routes_def by (intro reads_app_after reads_snapshot) (simp add: reads_app_def)

lemma get_call_reads:
  assumes "fst (route_of call) = GET"
  shows "same_gateway s (snd (run_call P G rd elapsed call s))"
proof (cases call)
  case (CallAudio c)
  with assms show ?thesis by (cases c) (simp_all add: same_run_mixer get_audio_reads)
next
  case (CallSettings c)
  with assms show ?thesis by (cases c) (simp_all add: same_run_app reads_get_settings get_settings_reads)
next
  case (CallSystem c)
  with assms show ?thesis
    by (cases c) (simp_all add: same_run_app same_run_live get_settings_reads reads_status reads_initial reads_live_same)
next
  case (CallVpn c)
  with assms show ?thesis by (cases c) (simp_all add: same_run_app get_vpn_routes_reads)
next
  case (CallPlugins c)
  with assms show ?thesis by (cases c) (simp_all add: same_run_world)
next
  case (CallAsset c)
  with assms show ?thesis by (cases c) simp_all
qed

section \<open>Properties\<close>





end
