(* ===== verification/Html.thy ===== *)
theory Html
  imports Gw_Pages
begin

text \<open>
  The trees that the pages are rendered from (the \<open>view!\<close> macro of \<open>leptos\<close>): a text, text that is inserted as
  markup (\<open>inner_html\<close>), or an element with its attributes and children. An attribute has a text or is present
  under a condition. A view is a list of nodes. The elements, identifiers and scripts of a view are
  read off by recursion.
\<close>

section \<open>Trees\<close>

datatype attr = At string string | Flag string bool

datatype html = Txt string | Raw string | Elem string "attr list" "html list"

text \<open>While a resource is pending its \<open>Suspense\<close> shows the fallback.\<close>

definition suspense :: "html list \<Rightarrow> bool \<Rightarrow> html list \<Rightarrow> html list" where
  "suspense fallback pending children = (if pending then fallback else children)"

definition unwrap_or_dash :: "string option \<Rightarrow> string" where
  "unwrap_or_dash v = (case v of Some s \<Rightarrow> s | None \<Rightarrow> em_dash)"

definition unwrap_or_empty :: "string option \<Rightarrow> string" where
  "unwrap_or_empty v = (case v of Some s \<Rightarrow> s | None \<Rightarrow> [])"

text \<open>\<open>{:.0}\<close> and \<open>{:.3}\<close> of a number.\<close>

definition no_decimals :: "rat \<Rightarrow> string" where
  "no_decimals x = dec_str (nat (round_half_even x))"

definition three_decimals :: "rat \<Rightarrow> string" where
  "three_decimals x =
     (let t = nat (round_half_even (1000 * x)); f = t mod 1000
      in dec_str (t div 1000) @ ''.'' @ (if f < 10 then ''00'' else if f < 100 then ''0'' else []) @ dec_str f)"

section \<open>Reading a tree\<close>

fun attr_text :: "string \<Rightarrow> attr list \<Rightarrow> string option" where
  "attr_text n [] = None"
| "attr_text n (At m v # as) = (if m = n then Some v else attr_text n as)"
| "attr_text n (Flag m b # as) = attr_text n as"

fun has_flag :: "string \<Rightarrow> attr list \<Rightarrow> bool" where
  "has_flag n [] = False"
| "has_flag n (At m v # as) = has_flag n as"
| "has_flag n (Flag m b # as) = (m = n \<and> b \<or> has_flag n as)"

text \<open>The identifiers of the elements, in document order.\<close>

fun ids :: "html \<Rightarrow> string list" where
  "ids (Txt s) = []"
| "ids (Raw s) = []"
| "ids (Elem t as cs) = (case attr_text ''id'' as of Some i \<Rightarrow> [i] | None \<Rightarrow> []) @ concat (map ids cs)"

fun texts :: "html \<Rightarrow> string list" where
  "texts (Txt s) = [s]"
| "texts (Raw s) = [s]"
| "texts (Elem t as cs) = concat (map texts cs)"

text \<open>What a browser takes as markup or as a program and not as text.\<close>

fun code_texts :: "html \<Rightarrow> string list" where
  "code_texts (Txt s) = []"
| "code_texts (Raw s) = [s]"
| "code_texts (Elem t as cs) = (if t = ''script'' then concat (map texts cs) else concat (map code_texts cs))"

text \<open>The attribute lists of the elements that have the given flag.\<close>

fun flagged :: "string \<Rightarrow> html \<Rightarrow> attr list list" where
  "flagged n (Txt s) = []"
| "flagged n (Raw s) = []"
| "flagged n (Elem t as cs) = (if has_flag n as then [as] else []) @ concat (map (flagged n) cs)"

text \<open>The same for views.\<close>

definition view_ids :: "html list \<Rightarrow> string list" where "view_ids v = concat (map ids v)"
definition view_code :: "html list \<Rightarrow> string list" where "view_code v = concat (map code_texts v)"
definition view_flagged :: "string \<Rightarrow> html list \<Rightarrow> attr list list" where "view_flagged n v = concat (map (flagged n) v)"

lemma view_simps [simp]:
  "view_ids [] = []" "view_ids (Txt s # v) = view_ids v" "view_ids (Raw s # v) = view_ids v"
  "view_ids (Elem t as cs # v) = (case attr_text ''id'' as of Some i \<Rightarrow> [i] | None \<Rightarrow> []) @ view_ids cs @ view_ids v"
  "view_ids (v @ v') = view_ids v @ view_ids v'"
  "view_code [] = []" "view_code (Txt s # v) = view_code v" "view_code (Raw s # v) = s # view_code v"
  "view_code (Elem t as cs # v) = (if t = ''script'' then concat (map texts cs) else view_code cs) @ view_code v"
  "view_code (v @ v') = view_code v @ view_code v'"
  "view_flagged n [] = []" "view_flagged n (Txt s # v) = view_flagged n v" "view_flagged n (Raw s # v) = view_flagged n v"
  "view_flagged n (Elem t as cs # v) = (if has_flag n as then [as] else []) @ view_flagged n cs @ view_flagged n v"
  "view_flagged n (v @ v') = view_flagged n v @ view_flagged n v'"
  by (simp_all add: view_ids_def view_code_def view_flagged_def)

lemma view_concat_map [simp]:
  "view_ids (concat (map f xs)) = concat (map (\<lambda>x. view_ids (f x)) xs)"
  "view_code (concat (map f xs)) = concat (map (\<lambda>x. view_code (f x)) xs)"
  "view_flagged n (concat (map f xs)) = concat (map (\<lambda>x. view_flagged n (f x)) xs)"
  "view_ids (map h xs) = concat (map (\<lambda>x. view_ids [h x]) xs)"
  "view_code (map h xs) = concat (map (\<lambda>x. view_code [h x]) xs)"
  "view_flagged n (map h xs) = concat (map (\<lambda>x. view_flagged n [h x]) xs)"
  by (induction xs) (simp_all add: view_ids_def view_code_def view_flagged_def)

lemma concat_map_nothing [simp]: "concat (map (\<lambda>x. []) xs) = []"
  by simp

lemma view_if [simp]:
  "view_ids (if b then v else v') = (if b then view_ids v else view_ids v')"
  "view_code (if b then v else v') = (if b then view_code v else view_code v')"
  "view_flagged n (if b then v else v') = (if b then view_flagged n v else view_flagged n v')"
  by simp_all

lemma view_cases [simp]:
  "view_ids (case p of (x, y) \<Rightarrow> v x y) = (case p of (x, y) \<Rightarrow> view_ids (v x y))"
  "view_code (case p of (x, y) \<Rightarrow> v x y) = (case p of (x, y) \<Rightarrow> view_code (v x y))"
  "view_flagged n (case p of (x, y) \<Rightarrow> v x y) = (case p of (x, y) \<Rightarrow> view_flagged n (v x y))"
  "view_ids (case z of None \<Rightarrow> w | Some u \<Rightarrow> f u) = (case z of None \<Rightarrow> view_ids w | Some u \<Rightarrow> view_ids (f u))"
  "view_code (case z of None \<Rightarrow> w | Some u \<Rightarrow> f u) = (case z of None \<Rightarrow> view_code w | Some u \<Rightarrow> view_code (f u))"
  "view_flagged n (case z of None \<Rightarrow> w | Some u \<Rightarrow> f u) = (case z of None \<Rightarrow> view_flagged n w | Some u \<Rightarrow> view_flagged n (f u))"
  by (simp_all split: prod.split option.split)

lemma view_suspense [simp]:
  "view_ids (suspense v b v') = (if b then view_ids v else view_ids v')"
  "view_code (suspense v b v') = (if b then view_code v else view_code v')"
  "view_flagged n (suspense v b v') = (if b then view_flagged n v else view_flagged n v')"
  by (simp_all add: suspense_def)

end
