(* ===== verification/Views_Status.thy ===== *)
theory Views_Status
  imports Html Gw_Server
begin

text \<open>
  The views of the status pages: the dashboard, the Reticulum page, the system page, the title of every page and the frame around it (\<open>pages/dashboard.rs\<close>,
  \<open>pages/reticulum.rs\<close>, \<open>pages/update.rs\<close>, \<open>pages/mod.rs\<close>,
  \<open>components/navbar.rs\<close>, \<open>app.rs\<close>). A component is a function of its properties to a list of nodes. The value
  of the resource that a page waits for is an argument, as are the text of its error and of its script.
\<close>

definition page_title ::
    "string \<Rightarrow> string \<Rightarrow> html list" where
  "page_title icon title =
     [Elem ''h1'' [At ''class'' ''page-title'']
        [Elem ''span'' [At ''class'' ''page-title-icon'', At ''aria-hidden'' ''true''] [Txt icon],
         Elem ''span'' [] [Txt title]]]"

section \<open>The frame of every page\<close>

text \<open>
  The bar on top of every page, the table of the routes and the document around them (\<open>components/navbar.rs\<close>,
  \<open>app.rs\<close>). The link component of the router, its matching of a path with a segment and the tags that the
  head receives for a title are arguments: \<open>link\<close>, \<open>matches\<close>, \<open>meta_tags\<close>.
\<close>

definition nav_links :: "(string \<times> bool \<times> string) list" where
  "nav_links =
     [(''/'', True, ''Dashboard''), (''/radio'', False, ''Radio''), (''/reticulum'', False, ''Reticulum''),
      (''/vpn'', False, ''VPN''), (''/plugins'', False, ''Plugins''), (''/network'', False, ''Network''),
      (''/media'', False, ''Media''), (''/system'', False, ''System'')]"

definition nav_link :: "(string \<Rightarrow> bool \<Rightarrow> string \<Rightarrow> html list \<Rightarrow> html list) \<Rightarrow> string \<times> bool \<times> string \<Rightarrow> html list" where
  "nav_link link l = (case l of (href, exact, label) \<Rightarrow> link href exact ''nav-link'' [Txt label])"

definition navbar :: "(string \<Rightarrow> bool \<Rightarrow> string \<Rightarrow> html list \<Rightarrow> html list) \<Rightarrow> (string + topbar_info) option \<Rightarrow> html list" where
  "navbar link topbar =
     [Elem ''header'' [At ''class'' ''topbar'']
        [Elem ''div'' [At ''class'' ''topbar-brand'']
           [Elem ''img'' [At ''src'' ''/kaonic-logo.svg'', At ''alt'' ''Kaonic'', At ''class'' ''topbar-logo-img''] []],
         Elem ''nav'' [At ''class'' ''topbar-nav''] (concat (map (nav_link link) nav_links)),
         Elem ''div'' [At ''class'' ''topbar-serial'']
           (suspense [] (topbar = None)
             (case topbar of
                Some (Inr info) \<Rightarrow>
                  [Elem ''span'' [At ''class'' ''serial-label''] [Txt ''SN''],
                   Elem ''code'' [At ''class'' ''serial-value''] [Txt (ti_serial info)],
                   Elem ''span'' [At ''class'' ''serial-label''] [Txt ''GW''],
                   Elem ''code'' [At ''class'' ''serial-value''] [Txt (ti_gateway_version info)]]
              | _ \<Rightarrow> []))]]"

datatype site_page = DashboardPage | RadioPage | ReticulumPage | VpnPage | PluginsPage | NetworkPage | MediaPage | SystemPage

definition app_routes :: "(string \<times> site_page) list" where
  "app_routes =
     [([], DashboardPage), (''radio'', RadioPage), (''reticulum'', ReticulumPage), (''vpn'', VpnPage),
      (''plugins'', PluginsPage), (''settings'', RadioPage), (''network'', NetworkPage), (''media'', MediaPage),
      (''system'', SystemPage), (''update'', SystemPage)]"

definition routed :: "(string \<Rightarrow> string \<Rightarrow> bool) \<Rightarrow> string \<Rightarrow> site_page option" where
  "routed matches path = map_option snd (find (\<lambda>(segment, page). matches segment path) app_routes)"

definition app_view ::
    "(string \<Rightarrow> bool \<Rightarrow> string \<Rightarrow> html list \<Rightarrow> html list) \<Rightarrow> (string \<Rightarrow> string \<Rightarrow> bool) \<Rightarrow> (site_page \<Rightarrow> html list)
       \<Rightarrow> (string + topbar_info) option \<Rightarrow> string \<Rightarrow> html list" where
  "app_view link matches render topbar path =
     navbar link topbar
     @ [Elem ''main'' [At ''class'' ''main-content'']
          (case routed matches path of
             None \<Rightarrow> [Elem ''p'' [At ''class'' ''not-found''] [Txt ''Page not found.'']]
           | Some page \<Rightarrow> render page)]"

definition shell :: "(string \<Rightarrow> html list) \<Rightarrow> string \<Rightarrow> html list \<Rightarrow> html" where
  "shell meta_tags redirect_js app =
     Elem ''html'' [At ''lang'' ''en'']
       [Elem ''head'' []
          ([Elem ''meta'' [At ''charset'' ''utf-8''] [],
            Elem ''meta'' [At ''name'' ''viewport'', At ''content'' ''width=device-width, initial-scale=1''] []]
           @ meta_tags ''Kaonic Gateway''
           @ [Elem ''link'' [At ''rel'' ''stylesheet'', At ''href'' ''/style.css''] []]),
        Elem ''body'' [] (app @ [Elem ''script'' [] [Txt redirect_js]])]"

section \<open>Dashboard\<close>

definition system_card ::
    "system_status_dto \<Rightarrow> html list" where
  "system_card system =
     (let ram_used = sy_ram_used_mb system; ram_total = sy_ram_total_mb system;
          fs_free = sy_fs_free_mb system; fs_total = sy_fs_total_mb system; fs_used = fs_total - fs_free;
          ram_pct = (if ram_total = 0 then 0 else sat64 (ram_used * 100) div ram_total);
          fs_pct = (if fs_total = 0 then 0 else sat64 ((fs_total - fs_free) * 100) div fs_total);
          fs_value = format_storage_mb fs_used @ '' / '' @ format_storage_mb fs_total @ '' used''
      in
       [Elem ''div'' [At ''class'' ''card'']
          [Elem ''div'' [At ''class'' ''card-header'']
             [Elem ''span'' [At ''class'' ''card-title''] [Txt ''System''],
              Elem ''span'' [At ''class'' ''badge badge-ok''] [Txt ''Live'']],
           Elem ''div'' [At ''class'' ''metric-row'']
             [Elem ''span'' [At ''class'' ''metric-label''] [Txt ''CPU''],
              Elem ''div'' [At ''class'' ''progress-bar'']
                [Elem ''div'' [At ''class'' ''progress-fill'', At ''id'' ''cpu-bar'',
                               At ''style'' (''width:'' @ no_decimals (sy_cpu_percent system) @ ''%'')]
                   []],
              Elem ''span'' [At ''class'' ''metric-value'', At ''id'' ''cpu-pct'']
                [Txt (one_decimal (sy_cpu_percent system) @ ''%'')]],
           Elem ''div'' [At ''class'' ''metric-row'']
             [Elem ''span'' [At ''class'' ''metric-label''] [Txt ''RAM''],
              Elem ''div'' [At ''class'' ''progress-bar'']
                [Elem ''div'' [At ''class'' ''progress-fill'', At ''id'' ''ram-bar'',
                               At ''style'' (''width:'' @ dec_str ram_pct @ ''%'')]
                   []],
              Elem ''span'' [At ''class'' ''metric-value'', At ''id'' ''ram-val'']
                [Txt (dec_str ram_used @ '' / '' @ dec_str ram_total @ '' MB'')]],
           Elem ''div'' [At ''class'' ''metric-row'']
             [Elem ''span'' [At ''class'' ''metric-label''] [Txt ''Disk''],
              Elem ''div'' [At ''class'' ''progress-bar'']
                [Elem ''div'' [At ''class'' ''progress-fill'', At ''id'' ''fs-bar'',
                               At ''style'' (''width:'' @ dec_str fs_pct @ ''%'')]
                   []],
              Elem ''span'' [At ''class'' ''metric-value'', At ''id'' ''fs-val''] [Txt fs_value]],
           Elem ''div'' [At ''class'' ''info-row'']
             [Elem ''span'' [At ''class'' ''info-label''] [Txt ''OS''],
              Elem ''span'' [At ''class'' ''info-value'', At ''id'' ''os-val''] [Txt (sy_os_details system)]]]])"

definition services_card ::
    "service_status list \<Rightarrow> html list" where
  "services_card services =
     (let active_count = length (filter (\<lambda>s. ss_load_state s = ''loaded'' \<and> ss_active_state s = ''active'') services)
      in
       [Elem ''div'' [At ''class'' ''card'']
          ([Elem ''div'' [At ''class'' ''card-header'']
             [Elem ''span'' [At ''class'' ''card-title''] [Txt ''Services''],
              Elem ''span'' [At ''class'' ''badge'', At ''id'' ''services-count'']
                [Txt (dec_str active_count @ ''/'' @ dec_str (length services) @ '' active'')]]]
          @ (concat (map (\<lambda>(i, service).
           [Elem ''div'' [At ''class'' ''service-row'']
              [Elem ''div'' [At ''class'' ''service-info'']
                 [Elem ''span'' [At ''class'' ''service-name''] [Txt (ss_unit service)],
                  Elem ''span'' [At ''class'' ''service-brief-name''] [Txt (ss_brief_name service)],
                  Elem ''span'' [At ''class'' ''service-status-text'', At ''id'' (''service-status-'' @ dec_str i)]
                    [Txt (ss_status service)]],
               Elem ''div'' [At ''class'' ''service-actions'']
                 [Elem ''span'' [At ''id'' (''service-badge-'' @ dec_str i),
                                 At ''class'' (''badge '' @ service_badge_class service)]
                    [Txt (service_badge_label service)],
                  Elem ''button'' [At ''type'' ''button'', At ''class'' ''btn-secondary service-restart-btn'',
                                   At ''data-service-restart'' (ss_unit service), At ''title'' ''Restart service'',
                                   At ''aria-label'' (''Restart '' @ (ss_unit service))]
                    [Txt [CHR 0xE2, CHR 0x86, CHR 0xBB]]]]]) (enumerate 0 services))))])"

definition dash_vpn_card ::
    "string \<Rightarrow> string \<Rightarrow> vpn_snapshot \<Rightarrow> html list" where
  "dash_vpn_card vpn_hash serial vpn =
     (let peer_active = length (filter (\<lambda>p. vp_link_state p = ''active'') (vs_peers vpn))
      in
       [Elem ''div'' [At ''class'' ''card'']
          [Elem ''div'' [At ''class'' ''card-header'']
             [Elem ''span'' [At ''class'' ''card-title''] [Txt ''VPN''],
              Elem ''span'' [At ''id'' ''dash-vpn-status'', At ''class'' (vpn_status_badge_class (vs_status vpn))]
                [Txt (vs_status vpn)]],
           Elem ''div'' [At ''class'' ''info-row'']
             [Elem ''span'' [At ''class'' ''info-label''] [Txt ''Tunnel IP''],
              Elem ''code'' [At ''class'' ''info-value'', At ''id'' ''dash-vpn-tunnel'']
                [Txt (unwrap_or_dash (vs_local_tunnel_ip vpn))]],
           Elem ''div'' [At ''class'' ''info-row'']
             [Elem ''span'' [At ''class'' ''info-label''] [Txt ''Peers''],
              Elem ''span'' [At ''class'' ''info-value'', At ''id'' ''dash-vpn-peers'']
                [Txt (dec_str peer_active @ ''/'' @ dec_str (length (vs_peers vpn)) @ '' linked'')]],
           Elem ''div'' [At ''class'' ''metric-row'']
             [Elem ''span'' [At ''class'' ''metric-label''] [Txt ''TX''],
              Elem ''span'' [At ''class'' ''metric-value'', At ''id'' ''dash-vpn-tx'']
                [Txt (dashboard_format_bytes (ms_tx_bytes (vs_metrics vpn)))],
              Elem ''span'' [At ''class'' ''metric-label''] [Txt ''RX''],
              Elem ''span'' [At ''class'' ''metric-value'', At ''id'' ''dash-vpn-rx'']
                [Txt (dashboard_format_bytes (ms_rx_bytes (vs_metrics vpn)))]],
           Elem ''div'' [At ''class'' ''info-row'']
             [Elem ''span'' [At ''class'' ''info-label''] [Txt ''Serial''],
              Elem ''code'' [At ''class'' ''info-value''] [Txt serial]],
           Elem ''div'' [At ''class'' ''info-row'']
             [Elem ''span'' [At ''class'' ''info-label''] [Txt ''Hash''],
              Elem ''code'' [At ''class'' ''info-value hash''] [Txt vpn_hash]]]])"

definition port_badge_class :: "string \<Rightarrow> string" where
  "port_badge_class s =
     (if s \<in> {''linked'', ''listening'', ''reachable'', ''active''} then ''badge badge-ok''
      else if s \<in> {''waiting'', ''activating'', ''reloading''} then ''badge badge-warn''
      else ''badge badge-err'')"

definition network_ports_card ::
    "network_port_status list \<Rightarrow> html list" where
  "network_ports_card ports =
     [Elem ''div'' [At ''class'' ''card'']
        [Elem ''div'' [At ''class'' ''card-header'']
           [Elem ''span'' [At ''class'' ''card-title''] [Txt ''Network Ports''],
            Elem ''span'' [At ''class'' ''badge'', At ''id'' ''network-ports-count'']
              [Txt (dec_str (length ports) @ '' tracked'')]],
         Elem ''div'' [At ''class'' ''reticulum-table-wrap'']
           [Elem ''table'' [At ''class'' ''frames-table'']
              [Elem ''thead'' []
                 [Elem ''tr'' []
                    [Elem ''th'' [] [Txt ''Name''],
                     Elem ''th'' [] [Txt ''Proto''],
                     Elem ''th'' [] [Txt ''Port''],
                     Elem ''th'' [] [Txt ''Details''],
                     Elem ''th'' [] [Txt ''State'']]],
               Elem ''tbody'' [At ''id'' ''network-ports'']
                 (if ports = [] then [Elem ''tr'' []
                     [Elem ''td'' [At ''colspan'' ''5'', At ''class'' ''frames-empty'']
                        [Txt ''No network ports tracked'']]]
               else concat (map (\<lambda>port.
                 [Elem ''tr'' []
                     [Elem ''td'' [At ''class'' ''td-time''] [Txt (np_name port)],
                      Elem ''td'' [At ''class'' ''td-len''] [Txt (np_protocol port)],
                      Elem ''td'' [At ''class'' ''td-len''] [Txt (dec_str (np_port port))],
                      Elem ''td'' [At ''class'' ''td-time''] [Txt (np_details port)],
                      Elem ''td'' []
                        [Elem ''span'' [At ''class'' (port_badge_class (np_status port))] [Txt (np_status port)]]]]) ports))]]]]"

text \<open>
  The modulation of the \<open>radio-common\<close> crate, with the constructors and fields that the pages name, and what the
  pages show of a radio configuration: the displayed values and the numbers in hertz.
\<close>

datatype ofdm_mcs = BpskC1_2_4x | BpskC1_2_2x | QpskC1_2_2x | QpskC1_2 | QpskC3_4 | QamC1_2 | QamC3_4
datatype ofdm_bandwidth = Option1 | Option2 | Option3 | Option4
datatype qpsk_chip = Fchip100 | Fchip200 | Fchip1000 | Fchip2000
datatype qpsk_rate = RateMode0 | RateMode1 | RateMode2 | RateMode3 | RateMode4

record ofdm_modulation =
  om_mcs :: ofdm_mcs
  om_opt :: ofdm_bandwidth
  om_pdt :: nat
  om_tx_power :: nat

record qpsk_modulation =
  qm_fchip :: qpsk_chip
  qm_mode :: qpsk_rate
  qm_tx_power :: nat

datatype modulation = ModOff | ModFsk | ModOfdm ofdm_modulation | ModQpsk qpsk_modulation

record 'r radio_shown =
  rs_freq_mhz :: "'r \<Rightarrow> string"
  rs_spacing_khz :: "'r \<Rightarrow> string"
  rs_channel :: "'r \<Rightarrow> nat"
  rs_bandwidth :: "'r \<Rightarrow> string"
  rs_freq_hz :: "'r \<Rightarrow> nat"
  rs_spacing_hz :: "'r \<Rightarrow> nat"

definition times_sign :: string where "times_sign = [CHR 0xC3, CHR 0x97]"

fun mcs_label :: "ofdm_mcs \<Rightarrow> string" where
  "mcs_label BpskC1_2_4x = ''BPSK 1/2 4'' @ times_sign"
| "mcs_label BpskC1_2_2x = ''BPSK 1/2 2'' @ times_sign"
| "mcs_label QpskC1_2_2x = ''QPSK 1/2 2'' @ times_sign"
| "mcs_label QpskC1_2 = ''QPSK 1/2''"
| "mcs_label QpskC3_4 = ''QPSK 3/4''"
| "mcs_label QamC1_2 = ''16-QAM 1/2''"
| "mcs_label QamC3_4 = ''16-QAM 3/4''"

fun bandwidth_label :: "ofdm_bandwidth \<Rightarrow> string" where
  "bandwidth_label Option1 = ''BW Opt 1''"
| "bandwidth_label Option2 = ''BW Opt 2''"
| "bandwidth_label Option3 = ''BW Opt 3''"
| "bandwidth_label Option4 = ''BW Opt 4''"

fun chip_label :: "qpsk_chip \<Rightarrow> string" where
  "chip_label Fchip100 = ''100 kchip/s''"
| "chip_label Fchip200 = ''200 kchip/s''"
| "chip_label Fchip1000 = ''1000 kchip/s''"
| "chip_label Fchip2000 = ''2000 kchip/s''"

fun rate_label :: "qpsk_rate \<Rightarrow> string" where
  "rate_label RateMode0 = ''Mode 0''"
| "rate_label RateMode1 = ''Mode 1''"
| "rate_label RateMode2 = ''Mode 2''"
| "rate_label RateMode3 = ''Mode 3''"
| "rate_label RateMode4 = ''Mode 4''"

fun modulation_details :: "modulation \<Rightarrow> string \<times> (string \<times> string) list" where
  "modulation_details ModOff = (''Off'', [])"
| "modulation_details ModFsk = (''FSK'', [])"
| "modulation_details (ModOfdm m) =
     (''OFDM'', [(''MCS'', mcs_label (om_mcs m)), (''Bandwidth'', bandwidth_label (om_opt m)),
                 (''PDT'', dec_str (om_pdt m)), (''TX Power'', dec_str (om_tx_power m) @ '' dBm'')])"
| "modulation_details (ModQpsk m) =
     (''QPSK'', [(''Chip Rate'', chip_label (qm_fchip m)), (''Rate Mode'', rate_label (qm_mode m)),
                 (''TX Power'', dec_str (qm_tx_power m) @ '' dBm'')])"

definition radio_module_card ::
    "'r radio_shown \<Rightarrow> nat \<Rightarrow> ('r, modulation) radio_module_config \<Rightarrow> html list" where
  "radio_module_card R index md =
     (let (mod_name, mod_details) = modulation_details (rmc_modulation md)
      in
       [Elem ''div'' [At ''class'' ''card'']
          ([Elem ''div'' [At ''class'' ''card-header'']
             [Elem ''span'' [At ''class'' ''card-title''] [Txt (radio_label index)],
              Elem ''span'' [At ''class'' ''badge badge-ok''] [Txt mod_name]],
           Elem ''div'' [At ''class'' ''info-row'']
             [Elem ''span'' [At ''class'' ''info-label''] [Txt ''Frequency''],
              Elem ''span'' [At ''class'' ''info-value''] [Txt (rs_freq_mhz R (rmc_radio_config md) @ '' MHz'')]],
           Elem ''div'' [At ''class'' ''info-row'']
             [Elem ''span'' [At ''class'' ''info-label''] [Txt ''Channel''],
              Elem ''span'' [At ''class'' ''info-value''] [Txt (dec_str (rs_channel R (rmc_radio_config md)))]],
           Elem ''div'' [At ''class'' ''info-row'']
             [Elem ''span'' [At ''class'' ''info-label''] [Txt ''Spacing''],
              Elem ''span'' [At ''class'' ''info-value''] [Txt (rs_spacing_khz R (rmc_radio_config md) @ '' kHz'')]],
           Elem ''div'' [At ''class'' ''info-row'']
             [Elem ''span'' [At ''class'' ''info-label''] [Txt ''Bandwidth''],
              Elem ''span'' [At ''class'' ''info-value''] [Txt (rs_bandwidth R (rmc_radio_config md))]]]
          @ (concat (map (\<lambda>(label, val).
             [Elem ''div'' [At ''class'' ''info-row mod-detail'']
              [Elem ''span'' [At ''class'' ''info-label''] [Txt label],
               Elem ''span'' [At ''class'' ''info-value''] [Txt val]]]) mod_details)))])"

definition status_view ::
    "'r radio_shown \<Rightarrow> ('r, modulation) gateway_status_dto \<Rightarrow> html list" where
  "status_view R st =
     [Elem ''div'' [At ''class'' ''status-grid'']
        ((system_card (gst_system st))
        @ (services_card (gst_services st))
        @ (network_ports_card (gst_network_ports st))
        @ (dash_vpn_card (gst_vpn_hash st) (gst_serial st) (gst_vpn st))),
      Elem ''div'' [At ''class'' ''modal-backdrop'', At ''id'' ''service-restart-modal'', Flag ''hidden'' True]
        [Elem ''div'' [At ''class'' ''modal-card'']
           [Elem ''div'' [At ''class'' ''modal-header'']
              [Elem ''h2'' [At ''class'' ''modal-title''] [Txt ''Confirm service restart''],
               Elem ''button'' [At ''type'' ''button'', At ''class'' ''modal-close'', Flag ''data-close-service-restart'' True]
                 [Txt [CHR 0xC3, CHR 0x97]]],
            Elem ''div'' [At ''class'' ''modal-form'']
              [Elem ''p'' [At ''class'' ''card-body-text'']
                 [Txt ''Are you sure you want to restart '',
                  Elem ''strong'' [At ''id'' ''service-restart-unit''] [Txt ''service''],
                  Txt ''?''],
               Elem ''div'' [At ''id'' ''service-restart-status''] [],
               Elem ''div'' [At ''class'' ''modal-actions'']
                 [Elem ''button'' [At ''type'' ''button'', At ''class'' ''btn-secondary'', Flag ''data-close-service-restart'' True]
                    [Txt ''Cancel''],
                  Elem ''button'' [At ''type'' ''button'', At ''id'' ''service-restart-confirm'', At ''class'' ''btn-primary'']
                    [Txt ''Restart'']]]]],
      Elem ''h2'' [At ''class'' ''section-title''] [Txt ''Radio Modules''],
      Elem ''div'' [At ''class'' ''module-grid'']
        (concat (map (\<lambda>(i, m). radio_module_card R i m) (enumerate 0 (gst_radio_modules st))))]"

definition dashboard_page ::
    "(string \<Rightarrow> string) \<Rightarrow> string \<Rightarrow> 'r radio_shown \<Rightarrow> (string + ('r, modulation) gateway_status_dto) option \<Rightarrow> html list" where
  "dashboard_page shown_error js R r =
     [Elem ''div'' [At ''class'' ''page'']
        ((page_title [CHR 0xF0, CHR 0x9F, CHR 0x93, CHR 0x8A] ''Dashboard'')
        @ (suspense [Elem ''p'' [At ''class'' ''loading''] [Txt (''Loading'' @ [CHR 0xE2, CHR 0x80, CHR 0xA6])]] (r = None)
             (case r of
              None \<Rightarrow> [Elem ''p'' [At ''class'' ''loading''] [Txt (''Loading'' @ [CHR 0xE2, CHR 0x80, CHR 0xA6])]]
            | Some (Inl e) \<Rightarrow> [Elem ''div'' [At ''class'' ''error-banner''] [Txt ''Error: '', Txt (shown_error e)]]
            | Some (Inr s) \<Rightarrow> status_view R s))
        @ [Elem ''script'' [] [Txt js]])]"

section \<open>Reticulum\<close>

definition render_badge_list :: "string list \<Rightarrow> (string \<Rightarrow> string) \<Rightarrow> html list" where
  "render_badge_list vs class_fn =
     (if vs = [] then [Elem ''span'' [At ''class'' ''badge reticulum-badge-soft''] [Txt em_dash]]
      else [Elem ''div'' [At ''class'' ''reticulum-badge-list'']
              (map (\<lambda>v. Elem ''span'' [At ''class'' (''badge '' @ class_fn v)] [Txt v]) vs)])"

definition reticulum_links_card ::
    "string \<Rightarrow> string \<Rightarrow> string \<Rightarrow> reticulum_link_dto list \<Rightarrow> html list" where
  "reticulum_links_card title table_id empty_text links =
     [Elem ''div'' [At ''class'' ''card reticulum-card'']
        [Elem ''div'' [At ''class'' ''card-header''] [Elem ''span'' [At ''class'' ''card-title''] [Txt title]],
         Elem ''div'' [At ''class'' ''reticulum-table-wrap'']
           [Elem ''table'' [At ''class'' ''frames-table'']
              [Elem ''thead'' []
                 [Elem ''tr'' []
                    [Elem ''th'' [] [Txt ''Link ID''],
                     Elem ''th'' [] [Txt ''Destination''],
                     Elem ''th'' [] [Txt ''Status''],
                     Elem ''th'' [] [Txt ''RTT''],
                     Elem ''th'' [] [Txt ''Packets''],
                     Elem ''th'' [] [Txt ''Bytes''],
                     Elem ''th'' [] [Txt ''Last event'']]],
               Elem ''tbody'' [At ''id'' table_id]
                 (if links = [] then [Elem ''tr'' []
                     [Elem ''td'' [At ''colspan'' ''7'', At ''class'' ''frames-empty''] [Txt empty_text]]]
               else concat (map (\<lambda>link.
                 [Elem ''tr'' []
                     [Elem ''td'' [At ''class'' ''td-hex td-hash''] [Txt (format_hash (rl_id link))],
                      Elem ''td'' [At ''class'' ''td-hex td-hash''] [Txt (format_hash (rl_destination link))],
                      Elem ''td'' [] (render_badge_list [rl_status link] status_badge_class),
                      Elem ''td'' [At ''class'' ''td-len'']
                        [Txt (case rl_rtt_ms link of Some v \<Rightarrow> dec_str v @ '' ms'' | None \<Rightarrow> em_dash)],
                      Elem ''td'' [At ''class'' ''td-len''] [Txt (dec_str (rl_packets link))],
                      Elem ''td'' [At ''class'' ''td-len''] [Txt (dec_str (rl_bytes link) @ '' B'')],
                      Elem ''td'' [At ''class'' ''td-time''] [Txt (rl_last_event link)]]]) links))]]]]"

definition local_destinations_card ::
    "local_destination_row list \<Rightarrow> html list" where
  "local_destinations_card destinations =
     [Elem ''div'' [At ''class'' ''card reticulum-card'']
        [Elem ''div'' [At ''class'' ''card-header'']
           [Elem ''span'' [At ''class'' ''card-title''] [Txt ''My Destinations'']],
         Elem ''div'' [At ''class'' ''reticulum-table-wrap'']
           [Elem ''table'' [At ''class'' ''frames-table'']
              [Elem ''thead'' []
                 [Elem ''tr'' []
                    [Elem ''th'' [] [Txt ''Name''],
                     Elem ''th'' [] [Txt ''Destination''],
                     Elem ''th'' [] [Txt ''Type''],
                     Elem ''th'' [] [Txt ''State'']]],
               Elem ''tbody'' [At ''id'' ''reticulum-local-destinations'']
                 (if destinations = [] then [Elem ''tr'' []
                     [Elem ''td'' [At ''colspan'' ''4'', At ''class'' ''frames-empty'']
                        [Txt ''No local destinations registered yet'']]]
               else concat (map (\<lambda>d.
                 [Elem ''tr'' []
                     [Elem ''td'' [At ''class'' ''td-time''] [Txt (ld_name d)],
                      Elem ''td'' [At ''class'' ''td-hex td-hash''] [Txt (format_hash (ld_destination d))],
                      Elem ''td'' [] (render_badge_list [ld_kind d] destination_kind_badge_class),
                      Elem ''td'' [] (render_badge_list [ld_status d] status_badge_class)]]) destinations))]]]]"

definition open_destinations_card ::
    "destination_row list \<Rightarrow> html list" where
  "open_destinations_card destinations =
     [Elem ''div'' [At ''class'' ''card reticulum-card'']
        [Elem ''div'' [At ''class'' ''card-header'']
           [Elem ''span'' [At ''class'' ''card-title''] [Txt ''Open Destinations'']],
         Elem ''div'' [At ''class'' ''reticulum-table-wrap'']
           [Elem ''table'' [At ''class'' ''frames-table'']
              [Elem ''thead'' []
                 [Elem ''tr'' []
                    [Elem ''th'' [] [Txt ''Destination''],
                     Elem ''th'' [] [Txt ''Seen via''],
                     Elem ''th'' [] [Txt ''State'']]],
               Elem ''tbody'' [At ''id'' ''reticulum-open-destinations'']
                 (if destinations = [] then [Elem ''tr'' []
                     [Elem ''td'' [At ''colspan'' ''3'', At ''class'' ''frames-empty'']
                        [Txt ''No open destinations observed yet'']]]
               else concat (map (\<lambda>d.
                 [Elem ''tr'' []
                     [Elem ''td'' [At ''class'' ''td-hex td-hash''] [Txt (format_hash (dr_destination d))],
                      Elem ''td'' [] (render_badge_list (split_badge_values (dr_source d)) source_badge_class),
                      Elem ''td'' [] (render_badge_list (split_badge_values (dr_status d)) status_badge_class)]]) destinations))]]]]"

definition reticulum_content ::
    "reticulum_page_snapshot \<Rightarrow> html list" where
  "reticulum_content snapshot =
     (let ret = rps_reticulum snapshot
      in
       [Elem ''div'' [At ''class'' ''reticulum-summary'']
          [Elem ''div'' [At ''class'' ''card stat-card'']
             [Elem ''span'' [At ''class'' ''stat-label''] [Txt ''Incoming links''],
              Elem ''span'' [At ''class'' ''stat-value'', At ''id'' ''reticulum-incoming-count'']
                [Txt (dec_str (length (rsn_incoming_links ret)))]],
           Elem ''div'' [At ''class'' ''card stat-card'']
             [Elem ''span'' [At ''class'' ''stat-label''] [Txt ''Outgoing links''],
              Elem ''span'' [At ''class'' ''stat-value'', At ''id'' ''reticulum-outgoing-count'']
                [Txt (dec_str (length (rsn_outgoing_links ret)))]],
           Elem ''div'' [At ''class'' ''card stat-card'']
             [Elem ''span'' [At ''class'' ''stat-label''] [Txt ''Local hash''],
              Elem ''span'' [At ''class'' ''stat-value td-hex td-hash'']
                [Txt (format_hash (rps_local_hash snapshot))]],
           Elem ''div'' [At ''class'' ''card stat-card'']
             [Elem ''span'' [At ''class'' ''stat-label''] [Txt ''My destinations''],
              Elem ''span'' [At ''class'' ''stat-value'', At ''id'' ''reticulum-local-destinations-count'']
                [Txt (dec_str (length (rps_local_destinations snapshot)))]],
           Elem ''div'' [At ''class'' ''card stat-card'']
             [Elem ''span'' [At ''class'' ''stat-label''] [Txt ''RX errors''],
              Elem ''span'' [At ''class'' ''stat-value'', At ''id'' ''reticulum-rx-errors'']
                [Txt (dec_str (is_rx_errors (rsn_interface_stats ret)))]],
           Elem ''div'' [At ''class'' ''card stat-card'']
             [Elem ''span'' [At ''class'' ''stat-label''] [Txt ''TX errors''],
              Elem ''span'' [At ''class'' ''stat-value'', At ''id'' ''reticulum-tx-errors'']
                [Txt (dec_str (is_tx_errors (rsn_interface_stats ret)))]]],
        Elem ''div'' [At ''class'' ''reticulum-grid'']
          ((reticulum_links_card ''Incoming Links'' ''reticulum-incoming-links'' ''No incoming links seen'' (rsn_incoming_links ret))
          @ (reticulum_links_card ''Outgoing Links'' ''reticulum-outgoing-links'' ''No outgoing links seen'' (rsn_outgoing_links ret))),
        Elem ''div'' [At ''class'' ''reticulum-grid'']
          ((local_destinations_card (rps_local_destinations snapshot))
          @ (open_destinations_card (rps_open_destinations snapshot)))])"

definition reticulum_page ::
    "(string \<Rightarrow> string) \<Rightarrow> string \<Rightarrow> (string + reticulum_page_snapshot) option \<Rightarrow> html list" where
  "reticulum_page shown_error js r =
     [Elem ''div'' [At ''class'' ''page'']
        ((page_title [CHR 0xF0, CHR 0x9F, CHR 0x9B, CHR 0xB0, CHR 0xEF, CHR 0xB8, CHR 0x8F] ''Reticulum'')
        @ (suspense [Elem ''p'' [At ''class'' ''loading''] [Txt (''Loading'' @ [CHR 0xE2, CHR 0x80, CHR 0xA6])]] (r = None)
             (case r of
              None \<Rightarrow> [Elem ''p'' [At ''class'' ''loading''] [Txt (''Loading'' @ [CHR 0xE2, CHR 0x80, CHR 0xA6])]]
            | Some (Inl e) \<Rightarrow> [Elem ''div'' [At ''class'' ''error-banner''] [Txt ''Error: '', Txt (shown_error e)]]
            | Some (Inr snapshot) \<Rightarrow> reticulum_content snapshot))
        @ [Elem ''script'' [] [Txt js]])]"

section \<open>System\<close>

definition system_about_section ::
    "system_about \<Rightarrow> html list" where
  "system_about_section about =
     [Elem ''div'' [At ''class'' ''system-about-grid'']
        [Elem ''div'' [At ''class'' ''card'']
           [Elem ''div'' [At ''class'' ''card-header'']
              [Elem ''span'' [At ''class'' ''card-title''] [Txt ''Device'']],
            Elem ''div'' [At ''class'' ''info-row'']
              [Elem ''span'' [At ''class'' ''info-label''] [Txt ''Serial''],
               Elem ''code'' [At ''class'' ''info-value''] [Txt (sa_serial about)]],
            Elem ''div'' [At ''class'' ''info-row'']
              [Elem ''span'' [At ''class'' ''info-label''] [Txt ''Codename''],
               Elem ''div'' [At ''class'' ''system-codename-row'']
                 [Elem ''code'' [At ''class'' ''info-value'', Flag ''data-system-codename-value'' True]
                    [Txt (sa_codename about)],
                  Elem ''button'' [At ''type'' ''button'', At ''class'' ''btn-secondary system-codename-btn'',
                                   At ''id'' ''system-codename-open'']
                    [Txt ''Rename'']]],
            Elem ''div'' [At ''class'' ''info-row'']
              [Elem ''span'' [At ''class'' ''info-label''] [Txt ''Hostname''],
               Elem ''span'' [At ''class'' ''info-value''] [Txt (sa_hostname about)]],
            Elem ''div'' [At ''class'' ''info-row'']
              [Elem ''span'' [At ''class'' ''info-label''] [Txt ''OS''],
               Elem ''span'' [At ''class'' ''info-value''] [Txt (sa_os_details about)]],
            Elem ''div'' [At ''class'' ''info-row'']
              [Elem ''span'' [At ''class'' ''info-label''] [Txt ''Arch''],
               Elem ''span'' [At ''class'' ''info-value''] [Txt (sa_architecture about)]],
            Elem ''div'' [At ''class'' ''info-row'']
              [Elem ''span'' [At ''class'' ''info-label''] [Txt ''Certs dir''],
               Elem ''code'' [At ''class'' ''info-value''] [Txt (sa_certs_dir about)]],
            Elem ''div'' [At ''class'' ''info-row'']
              [Elem ''span'' [At ''class'' ''info-label''] [Txt ''Root CA''],
               Elem ''span'' [At ''class'' ''info-value'']
                 (if sa_root_ca_available about
               then [Elem ''a'' [At ''class'' ''system-download-link'', At ''href'' ''/api/system/rootca'']
                     [Txt ''Download rootca.crt'']]
               else [Elem ''span'' []
                     [Txt ''Generation failed; expected '',
                      Elem ''code'' [] [Txt ''rootca.crt''],
                      Txt '' in the certs dir for browser download.'']])],
            Elem ''div'' [At ''class'' ''info-row'']
              [Elem ''span'' [At ''class'' ''info-label''] [Txt ''TLS cert''],
               Elem ''code'' [At ''class'' ''info-value''] [Txt (sa_tls_cert_path about)]],
            Elem ''div'' [At ''class'' ''info-row'']
              [Elem ''span'' [At ''class'' ''info-label''] [Txt ''TLS key''],
               Elem ''code'' [At ''class'' ''info-value''] [Txt (sa_tls_key_path about)]]],
         Elem ''div'' [At ''class'' ''card'']
           [Elem ''div'' [At ''class'' ''card-header''] [Elem ''span'' [At ''class'' ''card-title''] [Txt ''Specs'']],
            Elem ''div'' [At ''class'' ''info-row'']
              [Elem ''span'' [At ''class'' ''info-label''] [Txt ''CPU''],
               Elem ''span'' [At ''class'' ''info-value''] [Txt (sa_cpu_model about)]],
            Elem ''div'' [At ''class'' ''info-row'']
              [Elem ''span'' [At ''class'' ''info-label''] [Txt ''Cores''],
               Elem ''span'' [At ''class'' ''info-value''] [Txt (dec_str (sa_cpu_cores about))]],
            Elem ''div'' [At ''class'' ''info-row'']
              [Elem ''span'' [At ''class'' ''info-label''] [Txt ''Memory''],
               Elem ''span'' [At ''class'' ''info-value''] [Txt (format_storage_mb (sa_ram_total_mb about))]],
            Elem ''div'' [At ''class'' ''info-row'']
              [Elem ''span'' [At ''class'' ''info-label''] [Txt ''Storage''],
               Elem ''span'' [At ''class'' ''info-value''] [Txt (format_storage_mb (sa_fs_total_mb about))]]]]]"

definition system_sections ::
    "system_about \<Rightarrow> html list" where
  "system_sections about =
     [Elem ''h2'' [At ''class'' ''section-title''] [Txt ''About'']] @ system_about_section about"

definition system_page ::
    "(string \<Rightarrow> string) \<Rightarrow> string \<Rightarrow> (string + system_about) option \<Rightarrow> html list" where
  "system_page shown_error js r =
     [Elem ''div'' [At ''class'' ''page'']
        ([Elem ''div'' [At ''class'' ''page-header'']
           ((page_title [CHR 0xF0, CHR 0x9F, CHR 0x96, CHR 0xA5, CHR 0xEF, CHR 0xB8, CHR 0x8F] ''System'')
           @ [Elem ''button'' [At ''type'' ''button'', At ''id'' ''system-reboot-open'',
                             At ''class'' ''btn-secondary system-reboot-btn'']
              [Txt ''Reboot'']])]
        @ (suspense [Elem ''p'' [At ''class'' ''loading'']
                [Txt (''Loading system details'' @ [CHR 0xE2, CHR 0x80, CHR 0xA6])]] (r = None)
             (case r of
              None \<Rightarrow> [Elem ''p'' [At ''class'' ''loading''] [Txt (''Loading'' @ [CHR 0xE2, CHR 0x80, CHR 0xA6])]]
            | Some (Inl err) \<Rightarrow> [Elem ''div'' [At ''class'' ''error-banner''] [Txt (shown_error err)]]
            | Some (Inr about) \<Rightarrow> system_sections about))
        @ [Elem ''div'' [At ''class'' ''modal-backdrop'', At ''id'' ''system-codename-modal'', Flag ''hidden'' True]
           [Elem ''div'' [At ''class'' ''modal-card'']
              [Elem ''div'' [At ''class'' ''modal-header'']
                 [Elem ''h2'' [At ''class'' ''modal-title''] [Txt ''Rename codename''],
                  Elem ''button'' [At ''type'' ''button'', At ''class'' ''modal-close'', Flag ''data-close-system-codename'' True]
                    [Txt [CHR 0xC3, CHR 0x97]]],
               Elem ''div'' [At ''class'' ''modal-form'']
                 [Elem ''p'' [At ''class'' ''card-body-text'']
                    [Txt ''Set a new 8-character codename using letters and digits.''],
                  Elem ''input'' [At ''type'' ''text'', At ''id'' ''system-codename-input'',
                                  At ''class'' ''form-input system-codename-input'', At ''maxlength'' ''8'',
                                  At ''spellcheck'' ''false'', At ''autocapitalize'' ''none'',
                                  At ''autocomplete'' ''off'']
                    [],
                  Elem ''p'' [At ''class'' ''system-codename-hint''] [Txt ''Exactly 8 letters or digits.''],
                  Elem ''div'' [At ''id'' ''system-codename-status''] [],
                  Elem ''div'' [At ''class'' ''modal-actions'']
                    [Elem ''button'' [At ''type'' ''button'', At ''class'' ''btn-secondary'',
                                      Flag ''data-close-system-codename'' True]
                       [Txt ''Cancel''],
                     Elem ''button'' [At ''type'' ''button'', At ''id'' ''system-codename-confirm'', At ''class'' ''btn-primary'']
                       [Txt ''Rename'']]]]],
         Elem ''div'' [At ''class'' ''modal-backdrop'', At ''id'' ''system-reboot-modal'', Flag ''hidden'' True]
           [Elem ''div'' [At ''class'' ''modal-card'']
              [Elem ''div'' [At ''class'' ''modal-header'']
                 [Elem ''h2'' [At ''class'' ''modal-title''] [Txt ''Confirm reboot''],
                  Elem ''button'' [At ''type'' ''button'', At ''class'' ''modal-close'', Flag ''data-close-system-reboot'' True]
                    [Txt [CHR 0xC3, CHR 0x97]]],
               Elem ''div'' [At ''class'' ''modal-form'']
                 [Elem ''p'' [At ''class'' ''card-body-text'']
                    [Txt ''Are you sure you want to reboot the device now?''],
                  Elem ''div'' [At ''id'' ''system-reboot-status''] [],
                  Elem ''div'' [At ''class'' ''modal-actions'']
                    [Elem ''button'' [At ''type'' ''button'', At ''class'' ''btn-secondary'', Flag ''data-close-system-reboot'' True]
                       [Txt ''Cancel''],
                     Elem ''button'' [At ''type'' ''button'', At ''id'' ''system-reboot-confirm'', At ''class'' ''btn-primary'']
                       [Txt ''Reboot'']]]]],
         Elem ''script'' [] [Txt js]])]"

end
