(* ===== verification/Views_Devices.thy ===== *)
theory Views_Devices
  imports Views_Status
begin

text \<open>
  The views of the radio, media, network and plugins pages (\<open>pages/radio.rs\<close>, \<open>pages/media.rs\<close>, \<open>pages/network.rs\<close>,
  \<open>pages/plugins.rs\<close>). The script of a radio form is made from the index of the radio and the defaults alone: it is the
  argument \<open>form_js\<close>.
\<close>

section \<open>Radio\<close>

text \<open>The codes that the enumerations of the modulation have as \<open>u8\<close>, and their defaults.\<close>

record modulation_codes =
  mc_mcs :: "ofdm_mcs \<Rightarrow> nat"
  mc_opt :: "ofdm_bandwidth \<Rightarrow> nat"
  mc_fchip :: "qpsk_chip \<Rightarrow> nat"
  mc_mode :: "qpsk_rate \<Rightarrow> nat"
  mc_default_ofdm :: ofdm_modulation
  mc_default_qpsk :: qpsk_modulation

definition tx_init_style :: "nat \<Rightarrow> string" where
  "tx_init_style tx = (if tx > 21 then ''accent-color:#f97316'' else [])"

definition tx_init_class :: "nat \<Rightarrow> string" where
  "tx_init_class tx = (if tx > 21 then ''tx-value tx-high'' else ''tx-value'')"

definition ofdm_fields ::
    "modulation_codes \<Rightarrow> string \<Rightarrow> ofdm_modulation \<Rightarrow> html list" where
  "ofdm_fields C div_id ofdm =
     (let mcs_val = mc_mcs C (om_mcs ofdm); opt_val = mc_opt C (om_opt ofdm); tx_val = om_tx_power ofdm
      in
       [Elem ''div'' [At ''id'' div_id]
          [Elem ''div'' [At ''class'' ''field-row'']
             [Elem ''label'' [At ''class'' ''field-label''] [Txt ''MCS''],
              Elem ''select'' [At ''id'' (''ofdm-mcs-'' @ div_id), At ''class'' ''field-input'']
                [Elem ''option'' [At ''value'' ''0'', Flag ''selected'' (mcs_val = 0)]
                   [Txt (''0 '' @ [CHR 0xC2, CHR 0xB7] @ '' BPSK '' @ [CHR 0xC2, CHR 0xBD] @ '' 4'' @ [CHR 0xC3, CHR 0x97])],
                 Elem ''option'' [At ''value'' ''1'', Flag ''selected'' (mcs_val = 1)]
                   [Txt (''1 '' @ [CHR 0xC2, CHR 0xB7] @ '' BPSK '' @ [CHR 0xC2, CHR 0xBD] @ '' 2'' @ [CHR 0xC3, CHR 0x97])],
                 Elem ''option'' [At ''value'' ''2'', Flag ''selected'' (mcs_val = 2)]
                   [Txt (''2 '' @ [CHR 0xC2, CHR 0xB7] @ '' QPSK '' @ [CHR 0xC2, CHR 0xBD] @ '' 2'' @ [CHR 0xC3, CHR 0x97])],
                 Elem ''option'' [At ''value'' ''3'', Flag ''selected'' (mcs_val = 3)]
                   [Txt (''3 '' @ [CHR 0xC2, CHR 0xB7] @ '' QPSK '' @ [CHR 0xC2, CHR 0xBD])],
                 Elem ''option'' [At ''value'' ''4'', Flag ''selected'' (mcs_val = 4)]
                   [Txt (''4 '' @ [CHR 0xC2, CHR 0xB7] @ '' QPSK '' @ [CHR 0xC2, CHR 0xBE])],
                 Elem ''option'' [At ''value'' ''5'', Flag ''selected'' (mcs_val = 5)]
                   [Txt (''5 '' @ [CHR 0xC2, CHR 0xB7] @ '' 16-QAM '' @ [CHR 0xC2, CHR 0xBD])],
                 Elem ''option'' [At ''value'' ''6'', Flag ''selected'' (mcs_val = 6)]
                   [Txt (''6 '' @ [CHR 0xC2, CHR 0xB7] @ '' 16-QAM '' @ [CHR 0xC2, CHR 0xBE])]]],
           Elem ''div'' [At ''class'' ''field-row'']
             [Elem ''label'' [At ''class'' ''field-label''] [Txt ''BW Option''],
              Elem ''select'' [At ''id'' (''ofdm-opt-'' @ div_id), At ''class'' ''field-input'']
                [Elem ''option'' [At ''value'' ''0'', Flag ''selected'' (opt_val = 0)] [Txt ''Option 1''],
                 Elem ''option'' [At ''value'' ''1'', Flag ''selected'' (opt_val = 1)] [Txt ''Option 2''],
                 Elem ''option'' [At ''value'' ''2'', Flag ''selected'' (opt_val = 2)] [Txt ''Option 3''],
                 Elem ''option'' [At ''value'' ''3'', Flag ''selected'' (opt_val = 3)] [Txt ''Option 4'']]],
           Elem ''div'' [At ''class'' ''field-row'']
             [Elem ''label'' [At ''class'' ''field-label''] [Txt ''PDT''],
              Elem ''input'' [At ''id'' (''ofdm-pdt-'' @ div_id), At ''type'' ''number'', At ''class'' ''field-input'',
                              At ''min'' ''0'', At ''max'' ''255'', At ''step'' ''1'', Flag ''required'' True,
                              At ''value'' (dec_str (om_pdt ofdm))]
                []],
           Elem ''div'' [At ''class'' ''field-row'']
             [Elem ''label'' [At ''class'' ''field-label''] [Txt ''TX Power''],
              Elem ''div'' [At ''class'' ''tx-slider-wrap'']
                [Elem ''input'' [At ''id'' (''otx-'' @ div_id), At ''type'' ''range'', At ''class'' ''tx-slider'',
                                 At ''min'' ''0'', At ''max'' ''31'', At ''step'' ''1'',
                                 At ''style'' (tx_init_style tx_val), At ''value'' (dec_str tx_val)]
                   [],
                 Elem ''span'' [At ''id'' (''otxv-'' @ div_id), At ''class'' (tx_init_class tx_val)]
                   [Txt (dec_str tx_val @ '' dBm'')]]]]])"

definition qpsk_fields ::
    "modulation_codes \<Rightarrow> string \<Rightarrow> qpsk_modulation \<Rightarrow> html list" where
  "qpsk_fields C div_id qpsk =
     (let fchip_val = mc_fchip C (qm_fchip qpsk); mode_val = mc_mode C (qm_mode qpsk); tx_val = qm_tx_power qpsk
      in
       [Elem ''div'' [At ''id'' div_id]
          [Elem ''div'' [At ''class'' ''field-row'']
             [Elem ''label'' [At ''class'' ''field-label''] [Txt ''Chip Rate''],
              Elem ''select'' [At ''id'' (''qpsk-fchip-'' @ div_id), At ''class'' ''field-input'']
                [Elem ''option'' [At ''value'' ''0'', Flag ''selected'' (fchip_val = 0)] [Txt ''100 kchip/s''],
                 Elem ''option'' [At ''value'' ''1'', Flag ''selected'' (fchip_val = 1)] [Txt ''200 kchip/s''],
                 Elem ''option'' [At ''value'' ''2'', Flag ''selected'' (fchip_val = 2)] [Txt ''1000 kchip/s''],
                 Elem ''option'' [At ''value'' ''3'', Flag ''selected'' (fchip_val = 3)] [Txt ''2000 kchip/s'']]],
           Elem ''div'' [At ''class'' ''field-row'']
             [Elem ''label'' [At ''class'' ''field-label''] [Txt ''Rate Mode''],
              Elem ''select'' [At ''id'' (''qpsk-mode-'' @ div_id), At ''class'' ''field-input'']
                [Elem ''option'' [At ''value'' ''0'', Flag ''selected'' (mode_val = 0)] [Txt ''Mode 0''],
                 Elem ''option'' [At ''value'' ''1'', Flag ''selected'' (mode_val = 1)] [Txt ''Mode 1''],
                 Elem ''option'' [At ''value'' ''2'', Flag ''selected'' (mode_val = 2)] [Txt ''Mode 2''],
                 Elem ''option'' [At ''value'' ''3'', Flag ''selected'' (mode_val = 3)] [Txt ''Mode 3''],
                 Elem ''option'' [At ''value'' ''4'', Flag ''selected'' (mode_val = 4)] [Txt ''Mode 4'']]],
           Elem ''div'' [At ''class'' ''field-row'']
             [Elem ''label'' [At ''class'' ''field-label''] [Txt ''TX Power''],
              Elem ''div'' [At ''class'' ''tx-slider-wrap'']
                [Elem ''input'' [At ''id'' (''qtx-'' @ div_id), At ''type'' ''range'', At ''class'' ''tx-slider'',
                                 At ''min'' ''0'', At ''max'' ''31'', At ''step'' ''1'',
                                 At ''style'' (tx_init_style tx_val), At ''value'' (dec_str tx_val)]
                   [],
                 Elem ''span'' [At ''id'' (''qtxv-'' @ div_id), At ''class'' (tx_init_class tx_val)]
                   [Txt (dec_str tx_val @ '' dBm'')]]]]])"

definition init_mod :: "modulation \<Rightarrow> string" where
  "init_mod m = (case m of ModOff \<Rightarrow> ''Off'' | ModOfdm _ \<Rightarrow> ''OFDM'' | ModQpsk _ \<Rightarrow> ''QPSK'' | ModFsk \<Rightarrow> ''FSK'')"

definition form_ofdm :: "modulation_codes \<Rightarrow> modulation \<Rightarrow> ofdm_modulation" where
  "form_ofdm C m = (case m of ModOfdm ofdm \<Rightarrow> ofdm | _ \<Rightarrow> mc_default_ofdm C)"

definition form_qpsk :: "modulation_codes \<Rightarrow> modulation \<Rightarrow> qpsk_modulation" where
  "form_qpsk C m = (case m of ModQpsk qpsk \<Rightarrow> qpsk | _ \<Rightarrow> mc_default_qpsk C)"

definition radio_module_form ::
    "'r radio_shown \<Rightarrow> modulation_codes \<Rightarrow> (nat \<Rightarrow> string) \<Rightarrow> nat \<Rightarrow> ('r, modulation) radio_module_config \<Rightarrow> html list" where
  "radio_module_form R C form_js index md =
     (let cfg = rmc_radio_config md; m = rmc_modulation md
      in
       [Elem ''div'' [At ''class'' ''card radio-settings-card'']
          [Elem ''div'' [At ''class'' ''card-header'']
             [Elem ''span'' [At ''class'' ''card-title''] [Txt (radio_label index)],
              Elem ''div'' [At ''class'' ''band-toggle-wrap'']
                [Elem ''button'' [At ''type'' ''button'', At ''id'' (''band-sub-'' @ dec_str index), At ''class'' ''band-btn'']
                   [Txt ''Sub-GHz''],
                 Elem ''button'' [At ''type'' ''button'', At ''id'' (''band-24-'' @ dec_str index), At ''class'' ''band-btn'']
                   [Txt ''2.4 GHz'']]],
           Elem ''div'' [At ''class'' ''settings-grid'']
             [Elem ''div'' [At ''class'' ''settings-col'']
                [Elem ''div'' [At ''class'' ''field-row'']
                   [Elem ''label'' [At ''class'' ''field-label''] [Txt ''Freq (MHz)''],
                    Elem ''input'' [At ''id'' (''freq-'' @ dec_str index), At ''type'' ''number'',
                                    At ''class'' ''field-input'', At ''step'' ''0.001'', At ''min'' ''389.500'',
                                    At ''max'' ''2483.500'', Flag ''required'' True,
                                    At ''value'' (three_decimals (f64_quotient (rs_freq_hz R cfg) 1000000))]
                      []],
                 Elem ''div'' [At ''class'' ''field-row'']
                   [Elem ''label'' [At ''class'' ''field-label''] [Txt ''Channel''],
                    Elem ''input'' [At ''id'' (''channel-'' @ dec_str index), At ''type'' ''number'',
                                    At ''class'' ''field-input'', At ''min'' ''0'', At ''max'' ''511'',
                                    At ''step'' ''1'', Flag ''required'' True,
                                    At ''value'' (dec_str (rs_channel R cfg))]
                      []],
                 Elem ''div'' [At ''class'' ''field-row'']
                   [Elem ''label'' [At ''class'' ''field-label''] [Txt ''Spacing (kHz)''],
                    Elem ''input'' [At ''id'' (''spacing-'' @ dec_str index), At ''type'' ''number'',
                                    At ''class'' ''field-input'', At ''step'' ''0.001'', At ''min'' ''0.001'',
                                    At ''max'' ''10000'', Flag ''required'' True,
                                    At ''value'' (three_decimals (f64_quotient (rs_spacing_hz R cfg) 1000))]
                      []],
                 Elem ''div'' [At ''class'' ''field-row'']
                   [Elem ''label'' [At ''class'' ''field-label''] [Txt ''Modulation''],
                    Elem ''select'' [At ''class'' ''field-input'', At ''id'' (''ms'' @ dec_str index)]
                      [Elem ''option'' [At ''value'' ''Off'', Flag ''selected'' ((init_mod m) = ''Off'')]
                         [Txt ''Off''],
                       Elem ''option'' [At ''value'' ''OFDM'', Flag ''selected'' ((init_mod m) = ''OFDM'')]
                         [Txt ''OFDM''],
                       Elem ''option'' [At ''value'' ''QPSK'', Flag ''selected'' ((init_mod m) = ''QPSK'')]
                         [Txt ''QPSK''],
                       Elem ''option'' [At ''value'' ''FSK'', Flag ''selected'' ((init_mod m) = ''FSK'')]
                         [Txt ''FSK'']]]],
              Elem ''div'' [At ''class'' ''settings-col'']
                ((ofdm_fields C (''mo'' @ dec_str index) (form_ofdm C m))
                @ (qpsk_fields C (''mq'' @ dec_str index) (form_qpsk C m)))],
           Elem ''div'' [At ''class'' ''form-actions'']
             [Elem ''div'' [At ''class'' ''radio-form-left'']
                [Elem ''button'' [At ''type'' ''button'', At ''id'' (''test-btn-'' @ dec_str index), At ''class'' ''btn-secondary'']
                   [Txt ''Test'']],
              Elem ''span'' [At ''id'' (''apply-status-'' @ dec_str index)] [],
              Elem ''button'' [At ''type'' ''button'', At ''id'' (''reset-btn-'' @ dec_str index), At ''class'' ''btn-secondary'']
                [Txt ''Reset''],
              Elem ''button'' [At ''type'' ''button'', At ''id'' (''apply-btn-'' @ dec_str index), At ''class'' ''btn-apply'']
                [Txt ''Apply'']],
           Elem ''div'' [At ''class'' ''modal-backdrop'', At ''id'' (''radio-test-modal-'' @ dec_str index), Flag ''hidden'' True]
             [Elem ''div'' [At ''class'' ''modal-card'']
                [Elem ''div'' [At ''class'' ''modal-header'']
                   [Elem ''h2'' [At ''class'' ''modal-title''] [Txt (''Test '' @ (radio_label index))],
                    Elem ''button'' [At ''type'' ''button'', At ''class'' ''modal-close'',
                                     At ''data-close-radio-test'' (dec_str index)]
                      [Txt [CHR 0xC3, CHR 0x97]]],
                 Elem ''form'' [At ''id'' (''radio-test-form-'' @ dec_str index), At ''class'' ''modal-form'']
                   [Elem ''label'' [At ''class'' ''form-label'', At ''for'' (''radio-test-message-'' @ dec_str index)]
                      [Txt ''Message''],
                    Elem ''textarea'' [At ''id'' (''radio-test-message-'' @ dec_str index),
                                       At ''class'' ''form-textarea radio-test-textarea'', At ''rows'' ''7'',
                                       At ''maxlength'' ''2047'',
                                       At ''placeholder'' ''Type a test message to transmit on this radio module'',
                                       Flag ''required'' True]
                      [],
                    Elem ''div'' [At ''class'' ''radio-test-meta'']
                      [Elem ''span'' [At ''class'' ''card-body-text''] [Txt ''Max 2047 characters''],
                       Elem ''span'' [At ''class'' ''card-body-text'', At ''id'' (''radio-test-count-'' @ dec_str index)]
                         [Txt ''0 / 2047'']],
                    Elem ''div'' [At ''id'' (''radio-test-status-'' @ dec_str index)] [],
                    Elem ''div'' [At ''class'' ''modal-actions'']
                      [Elem ''button'' [At ''type'' ''button'', At ''class'' ''btn-secondary'',
                                        At ''data-close-radio-test'' (dec_str index)]
                         [Txt ''Cancel''],
                       Elem ''button'' [At ''type'' ''submit'', At ''class'' ''btn-primary'',
                                        At ''id'' (''radio-test-send-'' @ dec_str index)]
                         [Txt ''Send'']]]]],
           Elem ''script'' [] [Txt (form_js index)]]])"

definition radio_panel ::
    "'r radio_shown \<Rightarrow> modulation_codes \<Rightarrow> (nat \<Rightarrow> string) \<Rightarrow> nat \<Rightarrow> ('r, modulation) radio_module_config \<Rightarrow> html list" where
  "radio_panel R C form_js index md =
     [Elem ''div'' [At ''class'' ''radio-panel'']
        ([Elem ''div'' [At ''class'' ''frames-section'']
           [Elem ''div'' [At ''class'' ''frames-table-wrap'']
              [Elem ''table'' [At ''class'' ''frames-table'']
                 [Elem ''thead'' []
                    [Elem ''tr'' []
                       [Elem ''th'' [] [Txt ''TRX''],
                        Elem ''th'' [] [Txt ''Time''],
                        Elem ''th'' [] [Txt ''RSSI''],
                        Elem ''th'' [] [Txt ''Len''],
                        Elem ''th'' [] [Txt ''Preview''],
                        Elem ''th'' [] [Txt ''ASCII''],
                        Elem ''th'' [] [Txt ''CRC32'']]],
                  Elem ''tbody'' [At ''id'' (''rx-frames-'' @ dec_str index)]
                    [Elem ''tr'' []
                       [Elem ''td'' [At ''colspan'' ''7'', At ''class'' ''frames-empty'']
                          [Txt (''Waiting for frames'' @ [CHR 0xE2, CHR 0x80, CHR 0xA6])]]]]],
            Elem ''div'' [At ''class'' ''frames-stats'']
              [Elem ''span'' [At ''id'' (''rx-stats-summary-'' @ dec_str index), At ''class'' ''frames-stats-summary'']
                 [Txt ''RX: 0.0 KB/s | TX: 0.0 KB/s | Total: 0.0 KB/s''],
               Elem ''span'' [At ''id'' (''rx-stats-rssi-'' @ dec_str index), At ''class'' ''frames-stats-rssi'']
                 [Txt (''Last RSSI: '' @ [CHR 0xE2, CHR 0x80, CHR 0x94])]]]]
        @ radio_module_form R C form_js index md)]"

text \<open>Indexing a list that is too short panics: no view.\<close>

definition radio_split_view ::
    "'r radio_shown \<Rightarrow> modulation_codes \<Rightarrow> (nat \<Rightarrow> string) \<Rightarrow> ('r, modulation) gateway_settings_dto \<Rightarrow> html list option" where
  "radio_split_view R C form_js settings =
     (case gs_radio_modules settings of
        mod_a # mod_b # _ \<Rightarrow> Some
          ([Elem ''div'' [At ''class'' ''radio-split''] (radio_panel R C form_js 0 mod_a @ radio_panel R C form_js 1 mod_b)])
      | _ \<Rightarrow> None)"

text \<open>The page when the view of the settings does not panic; that view is the argument \<open>shown\<close>.\<close>

definition radio_page_of ::
    "(string \<Rightarrow> string) \<Rightarrow> string \<Rightarrow> ('s \<Rightarrow> html list) \<Rightarrow> (string + 's) option \<Rightarrow> html list" where
  "radio_page_of shown_error js shown r =
     [Elem ''div'' [At ''class'' ''page page--fill'']
        ((page_title [CHR 0xF0, CHR 0x9F, CHR 0x93, CHR 0xA1] ''Radio'')
        @ (suspense [Elem ''p'' [At ''class'' ''loading''] [Txt (''Loading'' @ [CHR 0xE2, CHR 0x80, CHR 0xA6])]] (r = None)
             (case r of
              None \<Rightarrow> [Elem ''p'' [At ''class'' ''loading''] [Txt (''Loading'' @ [CHR 0xE2, CHR 0x80, CHR 0xA6])]]
            | Some (Inl e) \<Rightarrow> [Elem ''div'' [At ''class'' ''error-banner''] [Txt ''Error: '', Txt (shown_error e)]]
            | Some (Inr s) \<Rightarrow> shown s))
        @ [Elem ''script'' [] [Txt js]])]"

definition radio_page ::
    "(string \<Rightarrow> string) \<Rightarrow> string \<Rightarrow> 'r radio_shown \<Rightarrow> modulation_codes \<Rightarrow> (nat \<Rightarrow> string)
       \<Rightarrow> (string + ('r, modulation) gateway_settings_dto) option \<Rightarrow> html list option" where
  "radio_page shown_error js R C form_js r =
     (case r of
        Some (Inr s) \<Rightarrow> map_option (\<lambda>v. radio_page_of shown_error js (\<lambda>_. v) r) (radio_split_view R C form_js s)
      | _ \<Rightarrow> Some (radio_page_of shown_error js (\<lambda>_. []) r))"

section \<open>Media\<close>

definition audio_icon :: "string \<Rightarrow> string" where
  "audio_icon control_id =
     (if control_id = ''speaker'' then
        (''<svg xmlns='' @ [CHR 0x22] @ ''http://www.w3.org/2000/svg'' @ [CHR 0x22] @ '' width='' @ [CHR 0x22] @ ''22'' @ [CHR 0x22] @ '' height='' @ [CHR 0x22] @ ''22'' @ [CHR 0x22] @ '' viewBox='' @ [CHR 0x22] @ ''0 0 24 24'' @ [CHR 0x22] @ '' fill='' @ [CHR 0x22] @ ''none'' @ [CHR 0x22] @ '' stroke='' @ [CHR 0x22] @ ''currentColor'' @ [CHR 0x22] @ '' stroke-width='' @ [CHR 0x22] @ ''1.8'' @ [CHR 0x22] @ '' stroke-linecap='' @ [CHR 0x22] @ ''round'' @ [CHR 0x22] @ '' stroke-linejoin='' @ [CHR 0x22] @ ''round'' @ [CHR 0x22] @ ''><polygon points='' @ [CHR 0x22] @ ''11 5 6 9 2 9 2 15 6 15 11 19 11 5'' @ [CHR 0x22] @ ''/><path d='' @ [CHR 0x22] @ ''M15.54 8.46a5 5 0 0 1 0 7.07'' @ [CHR 0x22] @ ''/><path d='' @ [CHR 0x22] @ ''M19.07 4.93a10 10 0 0 1 0 14.14'' @ [CHR 0x22] @ ''/></svg>'')
      else if control_id = ''headphones'' then
        (''<svg xmlns='' @ [CHR 0x22] @ ''http://www.w3.org/2000/svg'' @ [CHR 0x22] @ '' width='' @ [CHR 0x22] @ ''22'' @ [CHR 0x22] @ '' height='' @ [CHR 0x22] @ ''22'' @ [CHR 0x22] @ '' viewBox='' @ [CHR 0x22] @ ''0 0 24 24'' @ [CHR 0x22] @ '' fill='' @ [CHR 0x22] @ ''none'' @ [CHR 0x22] @ '' stroke='' @ [CHR 0x22] @ ''currentColor'' @ [CHR 0x22] @ '' stroke-width='' @ [CHR 0x22] @ ''1.8'' @ [CHR 0x22] @ '' stroke-linecap='' @ [CHR 0x22] @ ''round'' @ [CHR 0x22] @ '' stroke-linejoin='' @ [CHR 0x22] @ ''round'' @ [CHR 0x22] @ ''><path d='' @ [CHR 0x22] @ ''M3 18v-6a9 9 0 0 1 18 0v6'' @ [CHR 0x22] @ ''/><path d='' @ [CHR 0x22] @ ''M21 19a2 2 0 0 1-2 2h-1a2 2 0 0 1-2-2v-3a2 2 0 0 1 2-2h3z'' @ [CHR 0x22] @ ''/><path d='' @ [CHR 0x22] @ ''M3 19a2 2 0 0 0 2 2h1a2 2 0 0 0 2-2v-3a2 2 0 0 0-2-2H3z'' @ [CHR 0x22] @ ''/></svg>'')
      else if control_id = ''microphone'' then
        (''<svg xmlns='' @ [CHR 0x22] @ ''http://www.w3.org/2000/svg'' @ [CHR 0x22] @ '' width='' @ [CHR 0x22] @ ''22'' @ [CHR 0x22] @ '' height='' @ [CHR 0x22] @ ''22'' @ [CHR 0x22] @ '' viewBox='' @ [CHR 0x22] @ ''0 0 24 24'' @ [CHR 0x22] @ '' fill='' @ [CHR 0x22] @ ''none'' @ [CHR 0x22] @ '' stroke='' @ [CHR 0x22] @ ''currentColor'' @ [CHR 0x22] @ '' stroke-width='' @ [CHR 0x22] @ ''1.8'' @ [CHR 0x22] @ '' stroke-linecap='' @ [CHR 0x22] @ ''round'' @ [CHR 0x22] @ '' stroke-linejoin='' @ [CHR 0x22] @ ''round'' @ [CHR 0x22] @ ''><path d='' @ [CHR 0x22] @ ''M12 3a3 3 0 0 1 3 3v6a3 3 0 0 1-6 0V6a3 3 0 0 1 3-3z'' @ [CHR 0x22] @ ''/><path d='' @ [CHR 0x22] @ ''M19 10v2a7 7 0 0 1-14 0v-2'' @ [CHR 0x22] @ ''/><path d='' @ [CHR 0x22] @ ''M12 19v3'' @ [CHR 0x22] @ ''/><path d='' @ [CHR 0x22] @ ''M8 22h8'' @ [CHR 0x22] @ ''/></svg>'')
      else
        (''<svg xmlns='' @ [CHR 0x22] @ ''http://www.w3.org/2000/svg'' @ [CHR 0x22] @ '' width='' @ [CHR 0x22] @ ''22'' @ [CHR 0x22] @ '' height='' @ [CHR 0x22] @ ''22'' @ [CHR 0x22] @ '' viewBox='' @ [CHR 0x22] @ ''0 0 24 24'' @ [CHR 0x22] @ '' fill='' @ [CHR 0x22] @ ''none'' @ [CHR 0x22] @ '' stroke='' @ [CHR 0x22] @ ''currentColor'' @ [CHR 0x22] @ '' stroke-width='' @ [CHR 0x22] @ ''1.8'' @ [CHR 0x22] @ '' stroke-linecap='' @ [CHR 0x22] @ ''round'' @ [CHR 0x22] @ '' stroke-linejoin='' @ [CHR 0x22] @ ''round'' @ [CHR 0x22] @ ''><circle cx='' @ [CHR 0x22] @ ''12'' @ [CHR 0x22] @ '' cy='' @ [CHR 0x22] @ ''12'' @ [CHR 0x22] @ '' r='' @ [CHR 0x22] @ ''9'' @ [CHR 0x22] @ ''/><path d='' @ [CHR 0x22] @ ''M8 12h8'' @ [CHR 0x22] @ ''/></svg>''))"

definition camera_icon :: string where
  "camera_icon = (''<svg xmlns='' @ [CHR 0x22] @ ''http://www.w3.org/2000/svg'' @ [CHR 0x22] @ '' width='' @ [CHR 0x22] @ ''28'' @ [CHR 0x22] @ '' height='' @ [CHR 0x22] @ ''28'' @ [CHR 0x22] @ '' viewBox='' @ [CHR 0x22] @ ''0 0 24 24'' @ [CHR 0x22] @ '' fill='' @ [CHR 0x22] @ ''none'' @ [CHR 0x22] @ '' stroke='' @ [CHR 0x22] @ ''currentColor'' @ [CHR 0x22] @ '' stroke-width='' @ [CHR 0x22] @ ''1.7'' @ [CHR 0x22] @ '' stroke-linecap='' @ [CHR 0x22] @ ''round'' @ [CHR 0x22] @ '' stroke-linejoin='' @ [CHR 0x22] @ ''round'' @ [CHR 0x22] @ ''><path d='' @ [CHR 0x22] @ ''M23 7l-7 5 7 5V7z'' @ [CHR 0x22] @ ''/><rect x='' @ [CHR 0x22] @ ''1'' @ [CHR 0x22] @ '' y='' @ [CHR 0x22] @ ''5'' @ [CHR 0x22] @ '' width='' @ [CHR 0x22] @ ''15'' @ [CHR 0x22] @ '' height='' @ [CHR 0x22] @ ''14'' @ [CHR 0x22] @ '' rx='' @ [CHR 0x22] @ ''2'' @ [CHR 0x22] @ '' ry='' @ [CHR 0x22] @ ''2'' @ [CHR 0x22] @ ''/></svg>'')"

definition audio_control_card ::
    "nat \<Rightarrow> audio_control_snapshot \<Rightarrow> html list" where
  "audio_control_card card_id control =
     (let bar_count = 16; active_bars = as_volume control * bar_count div 100;
          control_key = dec_str card_id @ ''-'' @ as_control_id control;
          endpoint = ''/api/audio/'' @ dec_str card_id @ ''/'' @ as_control_id control;
          test_supported = as_control_id control \<in> {''speaker'', ''headphones''};
          test_endpoint = (if test_supported then ''/api/audio/'' @ dec_str card_id @ ''/'' @ as_control_id control @ ''/test'' else [])
      in
       [Elem ''div'' [At ''class'' ''audio-card'', At ''id'' (''audio-'' @ control_key),
                      Flag ''data-audio-control'' True, At ''data-endpoint'' endpoint,
                      At ''data-test-endpoint'' test_endpoint, At ''data-volume'' (dec_str (as_volume control)),
                      At ''data-muted'' (if as_muted control then ''true'' else ''false''),
                      At ''data-backend'' (as_backend control)]
          [Elem ''div'' [At ''class'' ''card-header'']
             [Elem ''span'' [At ''class'' ''card-title audio-title'']
                [Elem ''span'' [At ''class'' ''audio-icon''] [Raw (audio_icon (as_control_id control))],
                 Txt (as_label control)],
              Elem ''span'' [At ''class'' ''audio-status ok'', Flag ''data-audio-status'' True]
                [Txt (as_backend control)]],
           Elem ''div'' [At ''class'' ''vol-bars-wrap'']
             [Elem ''div'' [At ''class'' ''vol-bars'']
                (concat (map (\<lambda>i. [Elem ''div'' [At ''class'' (if i < active_bars then ''vol-bar active'' else ''vol-bar'')] []]) [0..<bar_count])),
              Elem ''span'' [At ''class'' ''vol-display'', Flag ''data-audio-display'' True]
                [Txt (if as_muted control then ''Muted'' else dec_str (as_volume control) @ ''%'')]],
           Elem ''div'' [At ''class'' ''audio-row'']
             [Elem ''span'' [At ''class'' ''audio-label''] [Txt ''Volume''],
              Elem ''input'' [At ''type'' ''range'', At ''class'' ''audio-slider'', At ''min'' ''0'',
                              At ''max'' ''100'', At ''step'' ''1'', At ''value'' (dec_str (as_volume control)),
                              Flag ''data-audio-slider'' True]
                []],
           Elem ''div'' [At ''class'' ''audio-row'']
             [Elem ''span'' [At ''class'' ''audio-label''] [Txt ''Output''],
              Elem ''div'' [At ''class'' ''audio-actions'']
                ([Elem ''button'' [At ''class'' ''mute-btn'', Flag ''data-audio-mute'' True]
                   [Elem ''span'' [At ''class'' ''mute-label'']
                      [Txt (if as_muted control then ''Unmute'' else ''Mute'')]]]
                @ (if test_supported
                    then [Elem ''button'' [At ''class'' ''mute-btn'', Flag ''data-audio-test'' True] [Txt ''Test'']]
                    else []))]]])"

definition audio_device_card ::
    "audio_card_snapshot \<Rightarrow> html list" where
  "audio_device_card crd =
     (let control_count = length (acs_controls crd)
      in
       [Elem ''div'' [At ''class'' ''card media-device-card'', Flag ''data-audio-device-card'' True,
                      At ''data-save-endpoint'' (''/api/audio/'' @ dec_str (acs_card_id crd) @ ''/save'')]
          ([Elem ''div'' [At ''class'' ''card-header'']
             [Elem ''span'' [At ''class'' ''card-title''] [Txt (acs_card_name crd)],
              Elem ''div'' [At ''class'' ''media-card-actions'']
                [Elem ''span'' [At ''class'' ''audio-status media-card-status ok'', Flag ''data-audio-card-status'' True]
                   [Txt ''Ready''],
                 Elem ''span'' [At ''class'' ''badge''] [Txt (dec_str control_count @ '' controls'')],
                 Elem ''button'' [At ''class'' ''btn-secondary media-save-btn'', At ''type'' ''button'',
                                  Flag ''data-audio-card-save'' True]
                   [Txt ''Save'']]]]
          @ (if control_count = 0
           then [Elem ''p'' [At ''class'' ''card-body-text'']
              [Txt ''No supported controls detected for this sound card.'']]
           else [Elem ''div'' [At ''class'' ''media-controls-grid'']
              (concat (map (\<lambda>control. audio_control_card (acs_card_id crd) control) (acs_controls crd)))]))])"

definition camera_section ::
    "html list" where
  "camera_section =
     [Elem ''div'' [At ''class'' ''card media-camera-card'']
        [Elem ''div'' [At ''class'' ''card-header'']
           [Elem ''span'' [At ''class'' ''card-title''] [Txt ''Camera''],
            Elem ''div'' [At ''class'' ''media-card-actions'']
              [Elem ''span'' [At ''class'' ''badge badge-warn''] [Txt ''Coming soon'']]],
         Elem ''div'' [At ''class'' ''camera-grid'']
           [Elem ''div'' [At ''class'' ''camera-preview'']
              [Elem ''div'' [At ''class'' ''camera-preview-frame'']
                 [Elem ''div'' [At ''class'' ''camera-preview-label''] [Txt ''Preview''],
                  Elem ''div'' [At ''class'' ''camera-preview-placeholder'']
                    [Elem ''span'' [At ''class'' ''camera-preview-icon''] [Raw camera_icon],
                     Elem ''span'' [] [Txt ''Live preview coming soon'']]]],
            Elem ''div'' [At ''class'' ''camera-controls'']
              [Elem ''div'' [At ''class'' ''camera-control-row'']
                 [Elem ''span'' [At ''class'' ''audio-label''] [Txt ''Mode''],
                  Elem ''button'' [At ''class'' ''mute-btn'', At ''type'' ''button'', Flag ''disabled'' True]
                    [Txt ''Auto'']],
               Elem ''div'' [At ''class'' ''camera-control-row'']
                 [Elem ''span'' [At ''class'' ''audio-label''] [Txt ''Zoom''],
                  Elem ''input'' [At ''type'' ''range'', At ''class'' ''audio-slider'', At ''min'' ''1'',
                                  At ''max'' ''100'', At ''value'' ''35'', Flag ''disabled'' True]
                    []],
               Elem ''div'' [At ''class'' ''camera-control-row'']
                 [Elem ''span'' [At ''class'' ''audio-label''] [Txt ''Exposure''],
                  Elem ''input'' [At ''type'' ''range'', At ''class'' ''audio-slider'', At ''min'' ''1'',
                                  At ''max'' ''100'', At ''value'' ''55'', Flag ''disabled'' True]
                    []],
               Elem ''div'' [At ''class'' ''camera-control-row'']
                 [Elem ''span'' [At ''class'' ''audio-label''] [Txt ''Capture''],
                  Elem ''div'' [At ''class'' ''audio-actions'']
                    [Elem ''button'' [At ''class'' ''mute-btn'', At ''type'' ''button'', Flag ''disabled'' True]
                       [Txt ''Snapshot''],
                     Elem ''button'' [At ''class'' ''mute-btn'', At ''type'' ''button'', Flag ''disabled'' True]
                       [Txt ''Record'']]],
               Elem ''p'' [At ''class'' ''camera-note'']
                 [Txt ''Mock camera controls only. Device camera integration and streaming preview are coming soon.'']]]]]"

definition media_cards ::
    "string \<Rightarrow> audio_card_snapshot list \<Rightarrow> html list" where
  "media_cards js cards =
     [Elem ''h2'' [At ''class'' ''section-title media-section-title''] [Txt ''Audio''],
       Elem ''div'' [At ''class'' ''media-device-grid''] (concat (map (\<lambda>crd. audio_device_card crd) cards)),
       Elem ''h2'' [At ''class'' ''section-title media-section-title''] [Txt ''Camera'']]
      @ camera_section
      @ [Elem ''script'' [] [Txt js]]"

definition media_page ::
    "(string \<Rightarrow> string) \<Rightarrow> string \<Rightarrow> (string + audio_card_snapshot list) option \<Rightarrow> html list" where
  "media_page shown_error js r =
     [Elem ''div'' [At ''class'' ''page'']
        ((page_title [CHR 0xF0, CHR 0x9F, CHR 0x8E, CHR 0x9B, CHR 0xEF, CHR 0xB8, CHR 0x8F] ''Media'')
        @ (suspense [Elem ''p'' [At ''class'' ''loading'']
                [Txt (''Loading audio controls'' @ [CHR 0xE2, CHR 0x80, CHR 0xA6])]] (r = None)
             (case r of
              None \<Rightarrow> [Elem ''p'' [At ''class'' ''loading''] [Txt (''Loading'' @ [CHR 0xE2, CHR 0x80, CHR 0xA6])]]
            | Some (Inl err) \<Rightarrow> [Elem ''div'' [At ''class'' ''error-banner''] [Txt (shown_error err)]]
            | Some (Inr cards) \<Rightarrow> media_cards js cards)))]"

section \<open>Network\<close>

definition network_content ::
    "string \<Rightarrow> network_snapshot \<Rightarrow> html list" where
  "network_content js snapshot =
     (let wifi = ns_wifi snapshot; is_station = (ws_mode wifi = ''sta''); station_connected = (ws_connected_ssid wifi \<noteq> None)
      in
       [Elem ''div'' [At ''class'' ''network-grid'']
          [Elem ''div'' [At ''class'' ''card network-card'']
             [Elem ''div'' [At ''class'' ''card-header network-card-header'']
                [Elem ''span'' [At ''class'' ''card-title''] [Txt ''WiFi''],
                 Elem ''span'' [At ''class'' ''badge badge-ok'', At ''id'' ''wifi-mode-badge'']
                   [Txt (if is_station then ''Station'' else ''Access Point'')]],
              Elem ''div'' [At ''class'' ''wifi-ip-hero'']
                [Elem ''div'' [At ''class'' ''wifi-ip-hero-label''] [Txt ''IP address''],
                 Elem ''div'' [At ''class'' ''wifi-ip-hero-value'', At ''id'' ''wifi-ip-hero-value'']
                   [Txt (unwrap_or_dash (ws_wlan0_ip wifi))]],
              Elem ''div'' [At ''class'' ''network-mode-toggle'']
                [Elem ''button'' [At ''type'' ''button'',
                                  At ''class'' (if ws_mode wifi = ''ap'' then ''wifi-mode-btn active'' else ''wifi-mode-btn''),
                                  At ''id'' ''wifi-mode-btn-ap'', Flag ''data-network-action'' True,
                                  At ''data-wifi-mode'' ''ap'']
                   [Txt ''Access Point''],
                 Elem ''button'' [At ''type'' ''button'',
                                  At ''class'' (if ws_mode wifi = ''sta'' then ''wifi-mode-btn active'' else ''wifi-mode-btn''),
                                  At ''id'' ''wifi-mode-btn-sta'', Flag ''data-network-action'' True,
                                  At ''data-wifi-mode'' ''sta'']
                   [Txt ''Station'']],
              Elem ''div'' [At ''class'' ''network-detail-block'', At ''id'' ''wifi-antenna-section'',
                            Flag ''hidden'' (\<not> ws_antenna_supported wifi)]
                [Elem ''div'' [At ''class'' ''network-subtitle''] [Txt ''Antenna''],
                 Elem ''div'' [At ''class'' ''network-mode-toggle'']
                   [Elem ''button'' [At ''type'' ''button'',
                                     At ''class'' (if ws_antenna wifi = ''internal'' then ''wifi-mode-btn active'' else ''wifi-mode-btn''),
                                     At ''id'' ''wifi-antenna-btn-internal'', Flag ''data-network-action'' True,
                                     At ''data-wifi-antenna'' ''internal'']
                      [Txt ''Internal''],
                    Elem ''button'' [At ''type'' ''button'',
                                     At ''class'' (if ws_antenna wifi = ''external'' then ''wifi-mode-btn active'' else ''wifi-mode-btn''),
                                     At ''id'' ''wifi-antenna-btn-external'', Flag ''data-network-action'' True,
                                     At ''data-wifi-antenna'' ''external'']
                      [Txt ''External'']],
                 Elem ''div'' [At ''class'' ''info-row'']
                   [Elem ''span'' [At ''class'' ''info-label''] [Txt ''Selected''],
                    Elem ''span'' [At ''class'' ''info-value'', At ''id'' ''wifi-antenna-value'']
                      [Txt (ws_antenna wifi)]]],
              Elem ''div'' [At ''class'' ''network-actions'']
                [Elem ''button'' [At ''type'' ''button'', At ''class'' ''btn-primary'', At ''id'' ''open-wifi-connect'',
                                  Flag ''data-network-action'' True, Flag ''hidden'' (\<not> is_station)]
                   [Txt ''Connect WiFi'']],
              Elem ''div'' [At ''id'' ''wifi-action-status'', At ''class'' ''network-status''] [],
              Elem ''div'' [At ''class'' ''info-row'']
                [Elem ''span'' [At ''class'' ''info-label''] [Txt ''Backend''],
                 Elem ''span'' [At ''class'' ''info-value'', At ''id'' ''network-backend'']
                   [Txt (ns_backend snapshot)]],
              Elem ''div'' [At ''class'' ''info-row'']
                [Elem ''span'' [At ''class'' ''info-label''] [Txt ''Status''],
                 Elem ''span'' [At ''class'' ''info-value'', At ''id'' ''wifi-status-value'']
                   [Txt (if is_station then (if station_connected then ''Connected'' else ''Disconnected'') else ''Active'')]],
              Elem ''div'' [At ''id'' ''wifi-station-fields'', Flag ''hidden'' (\<not> is_station)]
                [Elem ''div'' [At ''class'' ''info-row'']
                   [Elem ''span'' [At ''class'' ''info-label''] [Txt ''Saved SSID''],
                    Elem ''span'' [At ''class'' ''info-value'', At ''id'' ''wifi-configured-ssid'']
                      [Txt (unwrap_or_dash (ws_configured_ssid wifi))]],
                 Elem ''div'' [At ''class'' ''info-row'']
                   [Elem ''span'' [At ''class'' ''info-label''] [Txt ''Connected''],
                    Elem ''span'' [At ''class'' ''info-value'', At ''id'' ''wifi-connected-ssid'']
                      [Txt (unwrap_or_dash (ws_connected_ssid wifi))]]],
              Elem ''div'' [At ''id'' ''wifi-ap-fields'', Flag ''hidden'' is_station] [],
              Elem ''div'' [At ''class'' ''network-detail-block'', At ''id'' ''wifi-station-link'',
                            Flag ''hidden'' (\<not> is_station)]
                [Elem ''div'' [At ''class'' ''network-subtitle''] [Txt ''Station link''],
                 Elem ''pre'' [At ''class'' ''network-pre'', At ''id'' ''wifi-station-link-pre'',
                               Flag ''hidden'' (\<not> station_connected)]
                   [Elem ''span'' [At ''id'' ''wifi-station-link-text''] [Txt (ws_link_details wifi)]],
                 Elem ''div'' [At ''class'' ''network-empty-state'', At ''id'' ''wifi-station-link-empty'',
                               Flag ''hidden'' station_connected]
                   [Elem ''span'' [At ''id'' ''wifi-station-empty-text''] [Txt ''Disconnected'']]],
              Elem ''div'' [At ''class'' ''network-detail-block'', At ''id'' ''wifi-ap-mode'', Flag ''hidden'' is_station]
                [Elem ''div'' [At ''class'' ''network-subtitle''] [Txt ''Mode''],
                 Elem ''div'' [At ''class'' ''network-empty-state''] [Txt ''Access Point mode enabled'']]],
           Elem ''div'' [At ''class'' ''card network-card'']
             [Elem ''div'' [At ''class'' ''card-header network-card-header'']
                [Elem ''span'' [At ''class'' ''card-title''] [Txt ''Interfaces''],
                 Elem ''span'' [At ''class'' ''badge'', At ''id'' ''interfaces-source'']
                   [Txt (ns_interface_source snapshot)]],
              Elem ''pre'' [At ''class'' ''network-pre network-dump'', At ''id'' ''interfaces-details'']
                [Txt (ns_interface_details snapshot)]]],
        Elem ''div'' [At ''class'' ''modal-backdrop'', At ''id'' ''wifi-connect-modal'', Flag ''hidden'' True]
          [Elem ''div'' [At ''class'' ''modal-card'']
             [Elem ''div'' [At ''class'' ''modal-header'']
                [Elem ''h2'' [At ''class'' ''modal-title''] [Txt ''Connect to WiFi''],
                 Elem ''button'' [At ''type'' ''button'', At ''class'' ''modal-close'', Flag ''data-close-connect'' True]
                   [Txt [CHR 0xC3, CHR 0x97]]],
              Elem ''form'' [At ''id'' ''wifi-connect-form'', At ''class'' ''modal-form'']
                [Elem ''label'' [At ''class'' ''form-label'', At ''for'' ''wifi-ssid''] [Txt ''SSID''],
                 Elem ''input'' [At ''id'' ''wifi-ssid'', At ''name'' ''ssid'', At ''class'' ''form-input'',
                                 At ''autocomplete'' ''off'', Flag ''required'' True]
                   [],
                 Elem ''label'' [At ''class'' ''form-label'', At ''for'' ''wifi-psk''] [Txt ''PSK''],
                 Elem ''input'' [At ''id'' ''wifi-psk'', At ''name'' ''psk'', At ''type'' ''password'',
                                 At ''class'' ''form-input'', At ''minlength'' ''8'', At ''maxlength'' ''63'',
                                 Flag ''required'' True]
                   [],
                 Elem ''div'' [At ''id'' ''wifi-connect-status'', At ''class'' ''network-status''] [],
                 Elem ''div'' [At ''class'' ''modal-actions'']
                   [Elem ''button'' [At ''type'' ''button'', At ''class'' ''btn-secondary'',
                                     Flag ''data-close-connect'' True, Flag ''data-network-action'' True]
                      [Txt ''Cancel''],
                    Elem ''button'' [At ''type'' ''submit'', At ''class'' ''btn-primary'', Flag ''data-network-action'' True]
                      [Txt ''Connect'']]]]],
        Elem ''script'' [] [Txt js]])"

definition network_page ::
    "(string \<Rightarrow> string) \<Rightarrow> string \<Rightarrow> (string + network_snapshot) option \<Rightarrow> html list" where
  "network_page shown_error js r =
     [Elem ''div'' [At ''class'' ''page'']
        ([Elem ''div'' [At ''class'' ''page-header'']
           ((page_title [CHR 0xF0, CHR 0x9F, CHR 0x8C, CHR 0x90] ''Network'')
           @ [Elem ''button'' [At ''type'' ''button'', At ''id'' ''network-refresh-btn'', At ''class'' ''btn-secondary'',
                             Flag ''data-network-action'' True]
              [Txt ''Refresh'']])]
        @ (suspense [Elem ''p'' [At ''class'' ''loading'']
                [Txt (''Loading network details'' @ [CHR 0xE2, CHR 0x80, CHR 0xA6])]] (r = None)
             (case r of
              None \<Rightarrow> [Elem ''p'' [At ''class'' ''loading''] [Txt (''Loading'' @ [CHR 0xE2, CHR 0x80, CHR 0xA6])]]
            | Some (Inl err) \<Rightarrow> [Elem ''div'' [At ''class'' ''error-banner''] [Txt (shown_error err)]]
            | Some (Inr snapshot) \<Rightarrow> network_content js snapshot)))]"

section \<open>Plugins\<close>

definition plugins_list ::
    "html list" where
  "plugins_list =
     [Elem ''aside'' [At ''class'' ''plugins-sidebar'']
        [Elem ''div'' [At ''class'' ''card-header'']
           [Elem ''span'' [At ''class'' ''card-title''] [Txt ''Installed Plugins''],
            Elem ''span'' [At ''class'' ''badge'', At ''id'' ''plugins-count''] [Txt ''0'']],
         Elem ''div'' [At ''class'' ''plugins-list'', At ''id'' ''plugins-list'']
           [Elem ''div'' [At ''class'' ''plugins-empty'']
              [Txt (''Loading plugins'' @ [CHR 0xE2, CHR 0x80, CHR 0xA6])]]]]"

definition plugins_detail ::
    "html list" where
  "plugins_detail =
     [Elem ''section'' [At ''class'' ''plugins-detail'', At ''id'' ''plugins-detail'']
        [Elem ''div'' [At ''class'' ''plugins-empty plugins-empty--detail'']
           [Txt ''Select a plugin from the left list or install a new ZIP package.'']]]"

definition plugins_page ::
    "string \<Rightarrow> html list" where
  "plugins_page js =
     [Elem ''div'' [At ''class'' ''page'']
        [Elem ''div'' [At ''class'' ''page-header'']
           [Elem ''div'' [At ''style'' ''display:flex;align-items:center;gap:12px;flex-wrap:wrap;'']
              ((page_title [CHR 0xF0, CHR 0x9F, CHR 0xA7, CHR 0xA9] ''Plugins'')
              @ [Elem ''span'' [At ''class'' ''badge''] [Txt ''Prototype'']]),
            Elem ''button'' [At ''type'' ''button'', At ''class'' ''btn-primary'', Flag ''data-plugin-install'' True]
              [Txt ''Install'']],
         Elem ''div'' [At ''class'' ''card plugins-intro-card'']
           [Elem ''div'' [At ''class'' ''card-header'']
              [Elem ''span'' [At ''class'' ''card-title''] [Txt ''Plugin Manager'']],
            Elem ''p'' [At ''class'' ''card-body-text'']
              [Txt ''Create your own plugin as a ZIP package with kaonic-plugin.toml, a systemd service file, the plugin binary, and an optional files/ folder for extra runtime assets. The binary is installed into the plugin current directory, files/ is copied into that same runtime folder, and updates replace the full plugin contents with the new package.'']],
         Elem ''div'' [At ''class'' ''card plugins-shell'']
           [Elem ''div'' [At ''class'' ''plugins-layout''] (plugins_list @ plugins_detail),
            Elem ''div'' [At ''class'' ''plugins-shell-footer'']
              [Elem ''span'' [At ''class'' ''plugins-shell-footer-label''] [Txt ''Installer version''],
               Elem ''span'' [At ''id'' ''plugins-installer-version'', At ''class'' ''badge'']
                 [Txt (''Loading'' @ [CHR 0xE2, CHR 0x80, CHR 0xA6])],
               Elem ''button'' [At ''type'' ''button'', At ''class'' ''btn-secondary'', Flag ''data-installer-upgrade'' True]
                 [Txt ''Upgrade installer'']]],
         Elem ''input'' [At ''id'' ''plugin-package-input'', At ''class'' ''plugins-file-input'', At ''type'' ''file'',
                         At ''accept'' ''.zip,application/zip'']
           [],
         Elem ''div'' [At ''class'' ''modal-backdrop'', At ''id'' ''plugins-upload-modal'', Flag ''hidden'' True]
           [Elem ''div'' [At ''class'' ''modal-card plugins-upload-modal'', At ''role'' ''dialog'',
                          At ''aria-modal'' ''true'', At ''aria-labelledby'' ''plugins-upload-title'']
              [Elem ''div'' [At ''class'' ''modal-header'']
                 [Elem ''div'' []
                    [Elem ''div'' [At ''class'' ''modal-title'', At ''id'' ''plugins-upload-title'']
                       [Txt ''Install plugin package'']],
                  Elem ''button'' [At ''type'' ''button'', At ''class'' ''modal-close'',
                                   Flag ''data-plugin-modal-close'' True, At ''aria-label'' ''Close'']
                    [Txt [CHR 0xC3, CHR 0x97]]],
               Elem ''div'' [At ''class'' ''plugins-upload-copy'']
                 [Elem ''p'' [At ''class'' ''card-body-text'', At ''id'' ''plugins-upload-description'']
                    [Txt ''Drag and drop a plugin ZIP here or choose one from your device to install it.''],
                  Elem ''div'' [At ''class'' ''info-row'', At ''id'' ''plugins-upload-warning'', Flag ''hidden'' True]
                    [Elem ''span'' [At ''class'' ''info-label''] [Txt ''Warning''],
                     Elem ''span'' [At ''class'' ''info-value'']
                       [Txt ''Updating of kaonic-installer is not safe. Please make sure device is powered during update.'']]],
               Elem ''button'' [At ''type'' ''button'', At ''class'' ''plugins-upload-dropzone'',
                                At ''id'' ''plugins-upload-dropzone'']
                 [Elem ''span'' [At ''class'' ''plugins-upload-icon''] [Txt [CHR 0xE2, CHR 0xAC, CHR 0x86]],
                  Elem ''span'' [At ''class'' ''plugins-upload-title'', At ''id'' ''plugins-upload-dropzone-title'']
                    [Txt ''Drag & drop plugin ZIP''],
                  Elem ''span'' [At ''class'' ''plugins-upload-hint'', At ''id'' ''plugins-upload-dropzone-hint'']
                    [Txt ''or use the file picker below'']],
               Elem ''div'' [At ''class'' ''plugins-upload-selected'', At ''id'' ''plugins-upload-selected'']
                 [Txt ''No ZIP package selected yet.''],
               Elem ''div'' [At ''class'' ''plugins-upload-feedback'', At ''id'' ''plugins-upload-feedback''] [],
               Elem ''div'' [At ''class'' ''modal-actions plugins-upload-actions'']
                 [Elem ''button'' [At ''type'' ''button'', At ''class'' ''btn-secondary'', Flag ''data-plugin-modal-close'' True]
                    [Txt ''Cancel''],
                  Elem ''button'' [At ''type'' ''button'', At ''class'' ''btn-secondary'',
                                   At ''id'' ''plugins-upload-choose'', Flag ''data-plugin-modal-choose'' True]
                    [Txt ''Choose file''],
                  Elem ''button'' [At ''type'' ''button'', At ''class'' ''btn-primary'',
                                   At ''id'' ''plugins-upload-submit'', Flag ''data-plugin-modal-submit'' True]
                    [Txt ''Install plugin'']]]],
         Elem ''div'' [At ''class'' ''modal-backdrop'', At ''id'' ''plugins-confirm-modal'', Flag ''hidden'' True]
           [Elem ''div'' [At ''class'' ''modal-card plugins-confirm-modal'', At ''role'' ''dialog'',
                          At ''aria-modal'' ''true'', At ''aria-labelledby'' ''plugins-confirm-title'']
              [Elem ''div'' [At ''class'' ''modal-header'']
                 [Elem ''div'' [At ''class'' ''modal-title'', At ''id'' ''plugins-confirm-title'']
                    [Txt ''Confirm action''],
                  Elem ''button'' [At ''type'' ''button'', At ''class'' ''modal-close'',
                                   Flag ''data-plugin-confirm-close'' True, At ''aria-label'' ''Close'']
                    [Txt [CHR 0xC3, CHR 0x97]]],
               Elem ''p'' [At ''class'' ''card-body-text plugins-confirm-message'', At ''id'' ''plugins-confirm-message'']
                 [Txt ''Are you sure you want to continue?''],
               Elem ''div'' [At ''class'' ''modal-actions'']
                 [Elem ''button'' [At ''type'' ''button'', At ''class'' ''btn-secondary'', Flag ''data-plugin-confirm-close'' True]
                    [Txt ''Cancel''],
                  Elem ''button'' [At ''type'' ''button'', At ''class'' ''btn-secondary plugins-confirm-submit'',
                                   At ''id'' ''plugins-confirm-submit'', Flag ''data-plugin-confirm-submit'' True]
                    [Txt ''Confirm'']]]],
         Elem ''script'' [] [Txt js]]]"

end
