(* ===== verification/Views_Vpn.thy ===== *)
theory Views_Vpn
  imports Views_Status
begin

text \<open>
  The views of the VPN page (\<open>pages/vpn.rs\<close>). \<open>peers_json\<close> writes a list of texts as JSON, \<open>qr\<close> encodes a QR code.
\<close>

section \<open>Access\<close>

definition vpn_access_card ::
    "(string list \<Rightarrow> string) \<Rightarrow> bool \<Rightarrow> string list \<Rightarrow> html list" where
  "vpn_access_card peers_json allow_all allowed =
     [Elem ''div'' [At ''class'' ''card vpn-access-card'', At ''id'' ''vpn-access-card'',
                    At ''data-allow-all'' (if allow_all then ''true'' else ''false''),
                    At ''data-peers'' (peers_json allowed)]
        [Elem ''div'' [At ''class'' ''card-header'']
           [Elem ''span'' [At ''class'' ''card-title''] [Txt ''Peer Access''],
            Elem ''span'' [At ''class'' (if allow_all then ''badge badge-ok'' else ''badge badge-warn''),
                           At ''id'' ''vpn-access-mode-badge'']
              [Txt (if allow_all then ''Allow all peers'' else ''Allowlist only'')]],
         Elem ''p'' [At ''class'' ''card-body-text vpn-access-copy'']
           [Txt ''Choose whether any discovered VPN peer may connect, or only peers whose destination hash is stored in the allowlist.''],
         Elem ''label'' [At ''class'' ''vpn-access-toggle'']
           [Elem ''input'' [At ''type'' ''checkbox'', At ''id'' ''vpn-allow-all-toggle'', Flag ''checked'' allow_all]
              [],
            Elem ''span'' [] [Txt ''Allow connections from any peer'']],
         Elem ''div'' [At ''class'' ''vpn-access-row'']
           [Elem ''input'' [At ''type'' ''text'', At ''id'' ''vpn-allowlist-input'',
                            At ''class'' ''field-input vpn-allowlist-input'', At ''placeholder'' ''Destination hash'',
                            At ''autocomplete'' ''off'', At ''spellcheck'' ''false'', At ''inputmode'' ''text'']
              [],
            Elem ''button'' [At ''type'' ''button'', At ''class'' ''btn-secondary'', At ''id'' ''vpn-allowlist-add'']
              [Txt ''Add'']],
         Elem ''p'' [At ''class'' ''vpn-access-hint'']
           [Txt ''Use the peer destination hash from another Kaonic device, or scan its QR code with an external camera app to open an add-peer shortcut.''],
         Elem ''div'' [At ''class'' ''vpn-access-status'', At ''id'' ''vpn-access-status''] [],
         Elem ''div'' [At ''class'' ''vpn-access-table-wrap'']
           [Elem ''table'' [At ''class'' ''vpn-access-table'']
              [Elem ''thead'' [] [Elem ''tr'' [] [Elem ''th'' [] [Txt ''Destination hash''], Elem ''th'' [] []]],
               Elem ''tbody'' [At ''id'' ''vpn-allowlist-table'']
                 (if allowed = [] then [Elem ''tr'' [At ''class'' ''vpn-allowlist-empty-row'', At ''id'' ''vpn-allowlist-empty-row'']
                     [Elem ''td'' [At ''colspan'' ''2''] [Txt ''No allowlist entries saved.'']]]
               else concat (map (\<lambda>p.
                 [Elem ''tr'' [At ''data-vpn-allow-peer'' p]
                     [Elem ''td'' [] [Elem ''code'' [] [Txt p]],
                      Elem ''td'' [At ''class'' ''vpn-access-actions'']
                        [Elem ''button'' [At ''type'' ''button'', At ''class'' ''btn-secondary vpn-allowlist-remove'',
                                          At ''data-vpn-remove-peer'' p]
                           [Txt ''Remove'']]]]) allowed))]]]]"

definition vpn_shortcut_modal ::
    "html list" where
  "vpn_shortcut_modal =
     [Elem ''div'' [At ''class'' ''modal-backdrop'', At ''id'' ''vpn-shortcut-modal'', Flag ''hidden'' True]
        [Elem ''div'' [At ''class'' ''modal-card vpn-shortcut-modal'']
           [Elem ''div'' [At ''class'' ''modal-header'']
              [Elem ''h2'' [At ''class'' ''modal-title''] [Txt ''Add VPN peer?''],
               Elem ''button'' [At ''type'' ''button'', At ''class'' ''modal-close'', Flag ''data-close-vpn-shortcut'' True]
                 [Txt [CHR 0xC3, CHR 0x97]]],
            Elem ''p'' [At ''class'' ''card-body-text vpn-shortcut-copy'']
              [Txt ''This shortcut was opened from a scanned Kaonic QR code.''],
            Elem ''div'' [At ''class'' ''info-row vpn-shortcut-peer-row'']
              [Elem ''span'' [At ''class'' ''info-label''] [Txt ''Peer hash''],
               Elem ''code'' [At ''class'' ''info-value vpn-shortcut-peer'', At ''id'' ''vpn-shortcut-peer'']
                 [Txt [CHR 0xE2, CHR 0x80, CHR 0x94]]],
            Elem ''div'' [At ''class'' ''info-row vpn-shortcut-peer-row'', At ''id'' ''vpn-shortcut-codename-row'',
                          Flag ''hidden'' True]
              [Elem ''span'' [At ''class'' ''info-label''] [Txt ''Codename''],
               Elem ''code'' [At ''class'' ''info-value vpn-shortcut-peer'', At ''id'' ''vpn-shortcut-codename'']
                 [Txt [CHR 0xE2, CHR 0x80, CHR 0x94]]],
            Elem ''div'' [At ''class'' ''modal-actions'']
              [Elem ''button'' [At ''type'' ''button'', At ''class'' ''btn-secondary'', Flag ''data-close-vpn-shortcut'' True]
                 [Txt ''Cancel''],
               Elem ''button'' [At ''type'' ''button'', At ''class'' ''btn-primary'', At ''id'' ''vpn-shortcut-confirm'']
                 [Txt ''Add peer'']]]]]"

section \<open>This device\<close>

definition vpn_this_device_card ::
    "(string \<Rightarrow> (nat \<times> (nat \<Rightarrow> nat \<Rightarrow> bool)) option) \<Rightarrow> string \<Rightarrow> string \<Rightarrow> string list \<Rightarrow> string option \<Rightarrow> string \<Rightarrow> html list" where
  "vpn_this_device_card qr local_hash codename exported iface driver =
     [Elem ''div'' [At ''class'' ''card'']
        ([Elem ''div'' [At ''class'' ''card-header'']
           [Elem ''span'' [At ''class'' ''card-title''] [Txt ''This Device''],
            Elem ''div'' [At ''style'' ''display:flex;gap:8px;align-items:center;'']
              [Elem ''span'' [At ''class'' (''badge '' @ (if driver = ''linux'' then ''reticulum-badge-kind-data'' else ''reticulum-badge-soft'')),
                              At ''id'' ''vpn-backend'']
                 [Txt driver],
               Elem ''button'' [At ''type'' ''button'', At ''class'' ''btn-secondary'',
                                At ''style'' ''padding:4px 12px;font-size:13px;'', Flag ''data-open-vpn-routes'' True]
                 [Txt ''Advertise routes'']]],
         Elem ''div'' [At ''class'' ''info-row'']
           [Elem ''span'' [At ''class'' ''info-label''] [Txt ''Interface''],
            Elem ''span'' [At ''class'' ''info-value'', At ''id'' ''vpn-interface''] [Txt (unwrap_or_dash (iface))]],
         Elem ''div'' [At ''class'' ''info-row'']
           [Elem ''span'' [At ''class'' ''info-label''] [Txt ''Identity''],
            Elem ''code'' [At ''class'' ''info-value vpn-hash-display'', At ''id'' ''vpn-identity-short'']
              [Txt local_hash]]]
        @ (case render_hash_qr_svg qr (vpn_add_peer_url local_hash codename) of
             None \<Rightarrow> []
           | Some svg \<Rightarrow>
             [Elem ''div'' [At ''class'' ''vpn-hash-qr-block'']
            [Elem ''div'' [At ''class'' ''vpn-hash-qr-side'']
               [Elem ''div'' [At ''class'' ''vpn-hash-qr''] [Raw svg],
                Elem ''p'' [At ''class'' ''vpn-hash-qr-caption'']
                  [Txt ''Scan with a camera app to open an add-peer shortcut'']],
             Elem ''div'' [At ''class'' ''vpn-hash-qr-meta'']
               [Elem ''div'' [At ''class'' ''vpn-hash-qr-rows'']
                  (concat (map (\<lambda>row. [Elem ''code'' [At ''class'' ''vpn-hash-qr-row''] [Txt row]]) (split_hash_rows local_hash 8))),
                Elem ''div'' [At ''class'' ''vpn-hash-qr-codename''] [Txt codename],
                Elem ''button'' [At ''type'' ''button'', At ''class'' ''btn-secondary vpn-hash-qr-copy'',
                                 At ''data-vpn-copy'' local_hash]
                  [Txt ''Copy'']]]])
        @ [Elem ''div'' [At ''style'' ''margin-top:12px;'']
           [Elem ''div'' [At ''style'' ''font-size:11px;font-weight:700;text-transform:uppercase;letter-spacing:.06em;color:var(--text-muted);margin-bottom:8px;'']
              [Txt ''Exported VPN aliases''],
            Elem ''div'' [At ''class'' ''vpn-route-list'', At ''id'' ''vpn-local-routes-list'']
              (if exported = [] then [Elem ''p'' [At ''class'' ''vpn-setup-empty'']
                  [Txt ''Nothing exported yet. Use '',
                   Elem ''em'' [] [Txt ''Advertise routes''],
                   Txt '' to share a local subnet.'']]
               else concat (map (\<lambda>route. case parse_route_display route of (alias, local) \<Rightarrow>
                 [Elem ''div'' [At ''class'' ''vpn-route-item'']
                  ([Elem ''span'' [At ''class'' ''vpn-route-alias''] [Txt alias]]
                  @ (case local of None \<Rightarrow> [] | Some l \<Rightarrow> [Elem ''span'' [At ''class'' ''vpn-route-local'']
                      [Txt ([CHR 0xE2, CHR 0x86, CHR 0x92] @ '' local ''), Txt l]]))]) exported))]])]"

definition vpn_laptop_setup_card ::
    "string list \<Rightarrow> html list" where
  "vpn_laptop_setup_card installed_nets =
     [Elem ''div'' [At ''class'' ''card'']
        [Elem ''div'' [At ''class'' ''card-header'']
           [Elem ''span'' [At ''class'' ''card-title''] [Txt ''Client Access'']],
         Elem ''p'' [At ''class'' ''card-body-text'', At ''style'' ''margin-bottom:12px;'']
           [Txt (''Clients connected directly to this device'' @ [CHR 0x27] @ ''s AP or USB network should reach remote VPN aliases automatically. Each remote Kaonic keeps its own local subnet unchanged.'')],
         Elem ''div'' [At ''class'' ''vpn-setup-list'', At ''id'' ''vpn-setup-commands'']
           (if installed_nets = [] then [Elem ''p'' [At ''class'' ''vpn-setup-empty'']
               [Txt (''Waiting for remote peer routes'' @ [CHR 0xE2, CHR 0x80, CHR 0xA6])],
             Elem ''p'' [At ''class'' ''vpn-setup-note'']
               [Txt ''Remote VPN aliases will appear here once a peer is connected and has advertised its local subnet.'']]
               else concat (map (\<lambda>net. (case serial_test_ip net of
                 Some ip \<Rightarrow> (let cmd = ''wget -qO- http://'' @ ip @ ''/api/serial'' in
                   [Elem ''div'' [At ''class'' ''vpn-setup-cmd'']
                [Elem ''span'' [At ''class'' ''vpn-setup-cmd-text''] [Txt cmd],
                 Elem ''button'' [At ''type'' ''button'', At ''class'' ''vpn-copy-btn'', At ''data-vpn-copy'' cmd]
                   [Txt ''Copy'']]])
               | None \<Rightarrow> [Elem ''span'' [] []])) installed_nets))]]"

section \<open>Peers\<close>

definition vpn_peers_card ::
    "vpn_peer_snapshot list \<Rightarrow> html list" where
  "vpn_peers_card ps =
     [Elem ''div'' [At ''class'' ''card'', At ''style'' ''margin-bottom:18px;'']
        [Elem ''div'' [At ''class'' ''card-header'']
           [Elem ''span'' [At ''class'' ''card-title''] [Txt ''Connected Peers''],
            Elem ''span'' [At ''class'' ''badge reticulum-badge-soft'', At ''id'' ''vpn-peers-badge'']
              [Txt (dec_str (length ps)), Txt '' peer'', Txt (if length ps = 1 then [] else ''s'')]],
         Elem ''div'' [At ''class'' ''vpn-peers-list'', At ''id'' ''vpn-peers'']
           (if ps = [] then [Elem ''div'' [At ''class'' ''vpn-empty-peers'']
               [Elem ''div'' [At ''style'' ''font-size:28px;opacity:.4;margin-bottom:8px;'']
                  [Txt [CHR 0xF0, CHR 0x9F, CHR 0x93, CHR 0xA1]],
                Elem ''div'' [At ''style'' ''font-weight:600;margin-bottom:6px;''] [Txt ''No peers discovered yet''],
                Elem ''div'' [At ''style'' ''font-size:13px;max-width:340px;line-height:1.6;'']
                  [Txt ''Peers appear automatically once a remote kaonic device is within radio range and running the same VPN network configuration.'']]]
           else concat (map (\<lambda>p.
             [Elem ''div'' [At ''class'' ''vpn-peer-row'']
               [Elem ''div'' [At ''class'' ''vpn-peer-left'']
                  [Elem ''span'' [At ''class'' (peer_dot_class (vp_link_state p))] [],
                   Elem ''div'' [At ''class'' ''vpn-peer-ident'']
                     [Elem ''div'' [At ''class'' ''vpn-peer-field'']
                        [Elem ''span'' [At ''class'' ''vpn-peer-field-label''] [Txt ''Tunnel''],
                         Elem ''span'' [At ''class'' (if vp_tunnel_ip p \<noteq> None then ''vpn-peer-ip'' else ''vpn-peer-ip vpn-peer-ip--none'')]
                           [Txt (unwrap_or_dash (vp_tunnel_ip p))]],
                      Elem ''div'' [At ''class'' ''vpn-peer-field'']
                        [Elem ''span'' [At ''class'' ''vpn-peer-field-label''] [Txt ''Peer''],
                         Elem ''code'' [At ''class'' ''vpn-peer-hash''] [Txt (vp_destination p)]]]],
                Elem ''div'' [At ''class'' ''vpn-peer-routes'']
                  [Elem ''span'' [At ''class'' ''vpn-peer-section-label''] [Txt ''Routes''],
                   Elem ''div'' [At ''class'' ''vpn-peer-routes-list'']
                     (if vp_announced_routes p = [] then [Elem ''span'' [At ''class'' ''badge reticulum-badge-soft'', At ''style'' ''opacity:.6;'']
                         [Txt ''no routes'']]
                    else concat (map (\<lambda>r. [Elem ''span'' [At ''class'' ''vpn-route-tag''] [Txt r]]) (vp_announced_routes p)))],
                Elem ''div'' [At ''class'' ''vpn-peer-traffic'']
                  [Elem ''div'' [At ''class'' ''vpn-peer-traffic-row'']
                     [Elem ''span'' [At ''class'' ''vpn-peer-traffic-dir''] [Txt ''TX''],
                      Elem ''span'' [At ''class'' ''vpn-peer-traffic-rate'']
                        [Txt (format_bps (ms_tx_bps (vp_metrics p)))],
                      Elem ''span'' [At ''class'' ''vpn-peer-traffic-total'',
                                     At ''title'' (dec_str (ms_tx_packets (vp_metrics p)) @ '' packets'')]
                        [Txt (format_bytes (ms_tx_bytes (vp_metrics p)))]],
                   Elem ''div'' [At ''class'' ''vpn-peer-traffic-row'']
                     [Elem ''span'' [At ''class'' ''vpn-peer-traffic-dir''] [Txt ''RX''],
                      Elem ''span'' [At ''class'' ''vpn-peer-traffic-rate'']
                        [Txt (format_bps (ms_rx_bps (vp_metrics p)))],
                      Elem ''span'' [At ''class'' ''vpn-peer-traffic-total'',
                                     At ''title'' (dec_str (ms_rx_packets (vp_metrics p)) @ '' packets'')]
                        [Txt (format_bytes (ms_rx_bytes (vp_metrics p)))]]],
                Elem ''div'' [At ''class'' ''vpn-peer-meta'']
                  [Elem ''div'' [At ''class'' ''vpn-peer-field vpn-peer-field--meta'']
                     [Elem ''span'' [At ''class'' ''vpn-peer-field-label''] [Txt ''Seen''],
                      Elem ''span'' [At ''class'' ''vpn-peer-lastseen'']
                        [Txt (format_relative_time (vp_last_seen_ts p))]],
                   Elem ''div'' [At ''class'' ''vpn-peer-field vpn-peer-field--meta'']
                     [Elem ''span'' [At ''class'' ''vpn-peer-field-label''] [Txt ''State''],
                      Elem ''span'' [At ''class'' (''badge '' @ vpn_badge_class (vp_link_state p))]
                        [Txt (vp_link_state p)]]],
                Elem ''div'' [At ''class'' ''vpn-peer-actions'']
                  [Elem ''div'' [At ''class'' ''vpn-peer-action-buttons'']
                     [Elem ''button'' [At ''type'' ''button'', At ''class'' ''btn-secondary vpn-ping-btn'',
                                       Flag ''data-vpn-ping'' True, At ''data-peer-key'' (vp_destination p),
                                       At ''data-peer-ip'' (unwrap_or_empty (vp_tunnel_ip p)),
                                       Flag ''disabled'' (vp_tunnel_ip p = None)]
                        [Txt ''Ping''],
                      Elem ''button'' [At ''type'' ''button'', At ''class'' ''btn-secondary vpn-speed-btn'',
                                       Flag ''data-vpn-speed-test'' True, At ''data-peer-key'' (vp_destination p),
                                       At ''data-peer-ip'' (unwrap_or_empty (vp_tunnel_ip p)),
                                       Flag ''disabled'' (vp_tunnel_ip p = None)]
                        [Txt ''Test speed'']],
                   Elem ''div'' [At ''class'' ''vpn-ping-status'', At ''data-vpn-ping-status'' (vp_destination p)] [],
                   Elem ''div'' [At ''class'' ''vpn-ping-status'', At ''data-vpn-speed-status'' (vp_destination p)]
                     []]]]) ps))]]"

section \<open>Routes\<close>

text \<open>A row of the table of remote routes; shortening the hash of the owner may panic, and then there is no view.\<close>

definition remote_route_row :: "vpn_route_snapshot \<Rightarrow> html list option" where
  "remote_route_row r =
     (case truncate_hash (vr_owner r) of None \<Rightarrow> None | Some owner \<Rightarrow> Some
       ([Elem ''tr'' []
          [Elem ''td'' [At ''class'' ''td-hex''] [Txt (vr_network r)],
           Elem ''td'' [At ''class'' ''td-hex td-hash'', At ''style'' ''font-size:11px;''] [Txt owner],
           Elem ''td'' []
             [Elem ''span'' [At ''class'' (''badge '' @ vpn_badge_class (vr_status r))] [Txt (vr_status r)]],
           Elem ''td'' [At ''class'' ''td-time''] [Txt (format_relative_time (vr_last_seen_ts r))],
           Elem ''td'' []
             [Elem ''span'' [At ''class'' (''badge '' @ vpn_badge_class (if vr_installed r then ''yes'' else ''no''))]
                [Txt (if vr_installed r then ''yes'' else ''no'')]]]]))"

definition vpn_debug_section :: "string \<Rightarrow> vpn_snapshot \<Rightarrow> html list option" where
  "vpn_debug_section local_hash vpn =
     (case those (map remote_route_row (vs_remote_routes vpn)) of None \<Rightarrow> None | Some rows \<Rightarrow> Some
        ([Elem ''details'' [At ''class'' ''vpn-advanced'']
            [Elem ''summary'' [] [Txt ''Advanced / Debug''],
             Elem ''div'' [At ''class'' ''vpn-advanced-body'']
               [Elem ''div'' []
                  [Elem ''div'' [At ''class'' ''vpn-adv-stat-label'', At ''style'' ''margin-bottom:6px;'']
                     [Txt ''Full Identity Hash''],
                   Elem ''code'' [At ''class'' ''td-hex td-hash'', At ''style'' ''font-size:12px;word-break:break-all;'']
                     [Txt local_hash]],
                Elem ''div'' []
                  [Elem ''div'' [At ''class'' ''vpn-adv-stat-label'', At ''style'' ''margin-bottom:8px;'']
                     [Txt (''Local '' @ [CHR 0xE2, CHR 0x86, CHR 0x92] @ '' VPN Alias Mapping'')],
                   Elem ''div'' [At ''class'' ''reticulum-table-wrap'']
                     [Elem ''table'' [At ''class'' ''frames-table'']
                        [Elem ''thead'' []
                           [Elem ''tr'' []
                              [Elem ''th'' [] [Txt ''Local subnet''],
                               Elem ''th'' [] [Txt ''Tunnel IP''],
                               Elem ''th'' [] [Txt ''Exported VPN alias'']]],
                         Elem ''tbody'' [At ''id'' ''vpn-route-mappings'']
                           (if vs_route_mappings vpn = [] then [Elem ''tr'' []
                               [Elem ''td'' [At ''colspan'' ''3'', At ''class'' ''frames-empty'']
                                  [Txt ''No local route mappings yet'']]]
               else concat (map (\<lambda>m.
                 [Elem ''tr'' []
                               [Elem ''td'' [At ''class'' ''td-hex''] [Txt (vm_subnet m)],
                                Elem ''td'' [At ''class'' ''td-hex''] [Txt (vm_tunnel m)],
                                Elem ''td'' [At ''class'' ''td-hex''] [Txt (vm_mapped_subnet m)]]]) (vs_route_mappings vpn)))]]],
                Elem ''div'' []
                  [Elem ''div'' [At ''class'' ''vpn-adv-stat-label'', At ''style'' ''margin-bottom:8px;'']
                     [Txt ''Remote VPN Aliases''],
                   Elem ''div'' [At ''class'' ''reticulum-table-wrap'']
                     [Elem ''table'' [At ''class'' ''frames-table'']
                        [Elem ''thead'' []
                           [Elem ''tr'' []
                              [Elem ''th'' [] [Txt ''VPN alias''],
                               Elem ''th'' [] [Txt ''Owner''],
                               Elem ''th'' [] [Txt ''Status''],
                               Elem ''th'' [] [Txt ''Last seen''],
                               Elem ''th'' [] [Txt ''Installed'']]],
                         Elem ''tbody'' [At ''id'' ''vpn-routes'']
                           (if rows = [] then [Elem ''tr'' []
                               [Elem ''td'' [At ''colspan'' ''5'', At ''class'' ''frames-empty'']
                                  [Txt ''No remote routes yet'']]]
             else concat rows)]]]]]]))"

definition vpn_route_editor_modal ::
    "string list \<Rightarrow> html list" where
  "vpn_route_editor_modal advertised =
     [Elem ''div'' [At ''class'' ''modal-backdrop'', At ''id'' ''vpn-routes-modal'', Flag ''hidden'' True]
        [Elem ''div'' [At ''class'' ''modal-card'']
           [Elem ''div'' [At ''class'' ''modal-header'']
              [Elem ''h2'' [At ''class'' ''modal-title''] [Txt ''Advertise local subnets''],
               Elem ''button'' [At ''type'' ''button'', At ''class'' ''modal-close'', Flag ''data-close-vpn-routes'' True]
                 [Txt [CHR 0xC3, CHR 0x97]]],
            Elem ''form'' [At ''class'' ''modal-form'', At ''id'' ''vpn-routes-form'']
              [Elem ''p'' [At ''class'' ''card-body-text'', At ''style'' ''margin-bottom:12px;'']
                 [Txt (''Enter one CIDR subnet per line '' @ [CHR 0xE2, CHR 0x80, CHR 0x94] @ '' e.g. ''),
                  Elem ''code'' [At ''style'' ''font-family:var(--font-mono);font-size:12px;'']
                    [Txt ''192.168.10.0/24''],
                  Txt ''. Each subnet stays local on this Kaonic and is shared with peers over the VPN link as a VPN alias to avoid conflicts.''],
               Elem ''textarea'' [At ''id'' ''vpn-routes-editor-input'', At ''class'' ''field-input radio-test-textarea'',
                                  At ''placeholder'' ''192.168.10.0/24'', At ''style'' ''min-height:120px;'']
                 [Txt (join_with [CHR 0x0A] (default_advertised_route_strings advertised))],
               Elem ''div'' [At ''id'' ''vpn-route-editor-status'',
                             At ''style'' ''min-height:18px;font-size:13px;margin-top:6px;'']
                 [],
               Elem ''div'' [At ''class'' ''modal-actions'']
                 [Elem ''button'' [At ''type'' ''button'', At ''class'' ''btn-secondary'', Flag ''data-close-vpn-routes'' True]
                    [Txt ''Cancel''],
                  Elem ''button'' [At ''type'' ''submit'', At ''id'' ''vpn-routes-save'', At ''class'' ''btn-primary'']
                    [Txt ''Save'']]]]]]"

section \<open>The page\<close>

definition vpn_content ::
    "(string list \<Rightarrow> string) \<Rightarrow> (string \<Rightarrow> (nat \<times> (nat \<Rightarrow> nat \<Rightarrow> bool)) option) \<Rightarrow> string \<Rightarrow> vpn_page_snapshot \<Rightarrow> html list option" where
  "vpn_content peers_json qr js snapshot =
     (let vpn = vps_vpn snapshot in
      case vpn_debug_section (vps_local_hash snapshot) vpn of None \<Rightarrow> None | Some debug \<Rightarrow> Some
        ([Elem ''div'' [At ''class'' (banner_modifier (vs_status vpn)), At ''id'' ''vpn-banner'']
            [Elem ''div'' [At ''class'' ''vpn-banner-lead'']
               [Elem ''span'' [At ''class'' (status_dot_class (vs_status vpn)), At ''id'' ''vpn-status-dot''] [],
                Elem ''span'' [At ''class'' ''vpn-banner-status-text'', At ''id'' ''vpn-status-text'']
                  [Txt (vs_status vpn)]],
             Elem ''div'' [At ''class'' ''vpn-banner-divider''] [],
             Elem ''div'' [At ''class'' ''vpn-banner-field'']
               [Elem ''span'' [At ''class'' ''vpn-banner-label''] [Txt ''Tunnel IP''],
                Elem ''span'' [At ''class'' ''vpn-banner-ip'', At ''id'' ''vpn-local-ip'']
                  [Txt (unwrap_or_dash (vs_local_tunnel_ip vpn))]],
             Elem ''div'' [At ''class'' ''vpn-banner-field'']
               [Elem ''span'' [At ''class'' ''vpn-banner-label''] [Txt ''wlan0 IP''],
                Elem ''span'' [At ''class'' ''vpn-banner-ip'', At ''id'' ''vpn-wlan0-ip'']
                  [Txt (unwrap_or_dash (vps_wlan0_ip snapshot))]],
             Elem ''div'' [At ''class'' ''vpn-banner-field'']
               [Elem ''span'' [At ''class'' ''vpn-banner-label''] [Txt ''usb0 IP''],
                Elem ''span'' [At ''class'' ''vpn-banner-ip'', At ''id'' ''vpn-usb0-ip'']
                  [Txt (unwrap_or_dash (vps_usb0_ip snapshot))]],
             Elem ''div'' [At ''class'' ''vpn-banner-field'']
               [Elem ''span'' [At ''class'' ''vpn-banner-label''] [Txt ''Network''],
                Elem ''span'' [At ''class'' ''vpn-banner-ip vpn-banner-net'', At ''id'' ''vpn-network'']
                  [Txt (vs_network vpn)]],
             Elem ''div'' [At ''class'' ''vpn-banner-field vpn-banner-field--hash'']
               [Elem ''span'' [At ''class'' ''vpn-banner-label''] [Txt ''My hash''],
                Elem ''code'' [At ''class'' ''vpn-banner-ip vpn-banner-hash'', At ''id'' ''vpn-my-hash'']
                  [Txt (vps_local_hash snapshot)]],
             Elem ''div'' [At ''class'' ''vpn-banner-field'']
               [Elem ''span'' [At ''class'' ''vpn-banner-label''] [Txt ''TX bytes''],
                Elem ''span'' [At ''class'' ''vpn-banner-ip'', At ''id'' ''vpn-tx-bytes'']
                  [Txt (format_bytes (ms_tx_bytes (vs_metrics vpn)))]],
             Elem ''div'' [At ''class'' ''vpn-banner-field'']
               [Elem ''span'' [At ''class'' ''vpn-banner-label''] [Txt ''TX packets''],
                Elem ''span'' [At ''class'' ''vpn-banner-ip'', At ''id'' ''vpn-tx-packets'']
                  [Txt (dec_str (ms_tx_packets (vs_metrics vpn)))]],
             Elem ''div'' [At ''class'' ''vpn-banner-field'']
               [Elem ''span'' [At ''class'' ''vpn-banner-label''] [Txt ''RX bytes''],
                Elem ''span'' [At ''class'' ''vpn-banner-ip'', At ''id'' ''vpn-rx-bytes'']
                  [Txt (format_bytes (ms_rx_bytes (vs_metrics vpn)))]],
             Elem ''div'' [At ''class'' ''vpn-banner-field'']
               [Elem ''span'' [At ''class'' ''vpn-banner-label''] [Txt ''RX packets''],
                Elem ''span'' [At ''class'' ''vpn-banner-ip'', At ''id'' ''vpn-rx-packets'']
                  [Txt (dec_str (ms_rx_packets (vs_metrics vpn)))]],
             Elem ''div'' [At ''class'' ''vpn-banner-field'']
               [Elem ''span'' [At ''class'' ''vpn-banner-label''] [Txt ''Drops''],
                Elem ''span'' [At ''class'' ''vpn-banner-ip'', At ''id'' ''vpn-drop-packets'']
                  [Txt (dec_str (ms_drop_packets (vs_metrics vpn)))]],
             Elem ''div'' [At ''class'' ''vpn-banner-spacer''] [],
             Elem ''div'' [At ''class'' ''vpn-banner-peers'']
               [Elem ''span'' [At ''id'' ''vpn-peer-count''] [Txt (dec_str (length (vs_peers vpn)))],
                Txt '' peer'',
                Txt (if length (vs_peers vpn) = 1 then [] else ''s'')]]]
         @ (case vs_last_error vpn of
            Some err \<Rightarrow> [Elem ''div'' [At ''class'' ''vpn-error-bar'', At ''id'' ''vpn-error-bar'']
             [Txt ([CHR 0xE2, CHR 0x9A, CHR 0xA0] @ '' ''),
              Elem ''span'' [At ''id'' ''vpn-error-msg''] [Txt err]]]
          | None \<Rightarrow> [Elem ''div'' [At ''id'' ''vpn-error-bar'', At ''style'' ''display:none''] []])
         @ [Elem ''div'' [At ''class'' ''vpn-twin-row'']
            ((vpn_this_device_card qr (vps_local_hash snapshot) (vps_codename snapshot) (vs_local_routes vpn) (vs_interface_name vpn) (vs_backend vpn))
            @ (vpn_laptop_setup_card (map vr_network (filter vr_installed (vs_remote_routes vpn)))))]
         @ (vpn_access_card peers_json (vps_allow_all_peers snapshot) (vps_allowed_peers snapshot))
         @ (vpn_peers_card (vs_peers vpn))
         @ debug
         @ (vpn_route_editor_modal (vs_advertised_routes vpn))
         @ vpn_shortcut_modal
         @ [Elem ''script'' [] [Txt js]]))"

definition vpn_page_of ::
    "(string \<Rightarrow> string) \<Rightarrow> ('s \<Rightarrow> html list) \<Rightarrow> (string + 's) option \<Rightarrow> html list" where
  "vpn_page_of shown_error shown r =
     [Elem ''div'' [At ''class'' ''page'']
        ((page_title [CHR 0xF0, CHR 0x9F, CHR 0x94, CHR 0x90] ''VPN'')
        @ (suspense [Elem ''p'' [At ''class'' ''loading''] [Txt (''Loading'' @ [CHR 0xE2, CHR 0x80, CHR 0xA6])]] (r = None)
             (case r of
              None \<Rightarrow> [Elem ''p'' [At ''class'' ''loading''] [Txt (''Loading'' @ [CHR 0xE2, CHR 0x80, CHR 0xA6])]]
            | Some (Inl e) \<Rightarrow> [Elem ''div'' [At ''class'' ''error-banner''] [Txt ''Error: '', Txt (shown_error e)]]
            | Some (Inr snap) \<Rightarrow> shown snap)))]"

definition vpn_page ::
    "(string \<Rightarrow> string) \<Rightarrow> (string list \<Rightarrow> string) \<Rightarrow> (string \<Rightarrow> (nat \<times> (nat \<Rightarrow> nat \<Rightarrow> bool)) option) \<Rightarrow> string
       \<Rightarrow> (string + vpn_page_snapshot) option \<Rightarrow> html list option" where
  "vpn_page shown_error peers_json qr js r =
     (case r of
        Some (Inr snap) \<Rightarrow> map_option (\<lambda>v. vpn_page_of shown_error (\<lambda>_. v) r) (vpn_content peers_json qr js snap)
      | _ \<Rightarrow> Some (vpn_page_of shown_error (\<lambda>_. []) r))"

end
