(* ===== verification/Views_Props.thy ===== *)
theory Views_Props
  imports Views_Devices Views_Vpn Gw_Boot
begin

text \<open>
  What holds of every page, whatever it shows: what the browser takes as markup or as a program
  is text of the source, and no two elements have the same identifier.
\<close>

section \<open>What is markup or a program\<close>

lemma code_page_title [simp]: "view_code (page_title a b) = []"
  by (simp add: page_title_def)

lemma code_status [simp]:
  "view_code (system_card s) = []" "view_code (services_card ss) = []" "view_code (dash_vpn_card a b v) = []"
  "view_code (network_ports_card ports) = []" "view_code (radio_module_card R i m) = []"
  by (simp_all add: system_card_def services_card_def dash_vpn_card_def network_ports_card_def radio_module_card_def
      Let_def split_beta)

lemma code_status_view [simp]: "view_code (status_view R st) = []"
  by (simp add: status_view_def split_beta)

lemma code_badge_list [simp]: "view_code (render_badge_list vs f) = []"
  by (simp add: render_badge_list_def)

lemma code_reticulum [simp]:
  "view_code (reticulum_links_card a b c ls) = []" "view_code (local_destinations_card ds) = []"
  "view_code (open_destinations_card os) = []"
  by (simp_all add: reticulum_links_card_def local_destinations_card_def open_destinations_card_def)

lemma code_reticulum_content [simp]: "view_code (reticulum_content sn) = []"
  by (simp add: reticulum_content_def Let_def)

lemma code_system [simp]: "view_code (system_sections about) = []"
  by (simp add: system_sections_def system_about_section_def)

lemma code_radio_fields [simp]: "view_code (ofdm_fields C d m) = []" "view_code (qpsk_fields C d q) = []"
  by (simp_all add: ofdm_fields_def qpsk_fields_def Let_def)

lemma code_radio_panel [simp]: "view_code (radio_panel R C f i m) = [f i]"
  by (simp add: radio_panel_def radio_module_form_def Let_def)

lemma code_media [simp]:
  "view_code (audio_control_card c a) = [audio_icon (as_control_id a)]"
  "view_code camera_section = [camera_icon]"
  by (simp_all add: audio_control_card_def camera_section_def Let_def)

lemma code_audio_device [simp]:
  "view_code (audio_device_card crd) = map (\<lambda>a. audio_icon (as_control_id a)) (acs_controls crd)"
  by (simp add: audio_device_card_def Let_def)

lemma code_media_cards [simp]:
  "view_code (media_cards js cs) =
     concat (map (\<lambda>c. map (\<lambda>a. audio_icon (as_control_id a)) (acs_controls c)) cs) @ [camera_icon, js]"
  by (simp add: media_cards_def)

lemma code_network_content [simp]: "view_code (network_content js sn) = [js]"
  by (simp add: network_content_def Let_def)

lemma code_plugins [simp]: "view_code plugins_list = []" "view_code plugins_detail = []"
  by (simp_all add: plugins_list_def plugins_detail_def)

lemma code_vpn [simp]:
  "view_code (vpn_access_card pj b ps) = []" "view_code vpn_shortcut_modal = []" "view_code (vpn_laptop_setup_card ns) = []"
  "view_code (vpn_route_editor_modal rs) = []"
  by (simp_all add: vpn_access_card_def vpn_shortcut_modal_def vpn_laptop_setup_card_def
      vpn_route_editor_modal_def Let_def split: option.split)

lemma code_vpn_this_device [simp]:
  "view_code (vpn_this_device_card qr h c ex i d) =
     (case render_hash_qr_svg qr (vpn_add_peer_url h c) of None \<Rightarrow> [] | Some svg \<Rightarrow> [svg])"
  by (simp add: vpn_this_device_card_def split_beta split: option.split)

lemma code_vpn_peers [simp]: "view_code (vpn_peers_card us) = []"
  by (auto simp: vpn_peers_card_def)

text \<open>Every row of the table of remote routes has the same elements, so a table of rows has no program in it.\<close>

lemma remote_route_row_inert:
  assumes "remote_route_row r = Some v"
  shows "view_code v = [] \<and> view_ids v = [] \<and> view_flagged n v = []"
  using assms by (auto simp: remote_route_row_def split: option.splits)

lemma those_rows:
  "those (map f rs) = Some vs \<Longrightarrow> (\<And>r v. f r = Some v \<Longrightarrow> P v) \<Longrightarrow> v \<in> set vs \<Longrightarrow> P v"
proof (induction rs arbitrary: vs)
  case (Cons r rs)
  then obtain u us where "f r = Some u" "those (map f rs) = Some us" "vs = u # us"
    by (auto split: option.splits)
  with Cons show ?case by auto
qed simp

lemma view_concat_nothing:
  "(\<And>v. v \<in> set vs \<Longrightarrow> view_code v = [] \<and> view_ids v = [] \<and> view_flagged n v = [])
     \<Longrightarrow> view_code (concat vs) = [] \<and> view_ids (concat vs) = [] \<and> view_flagged n (concat vs) = []"
  by (induction vs) auto

lemma remote_route_rows_inert:
  assumes "those (map remote_route_row rs) = Some vs"
  shows "view_code (concat vs) = []" "view_ids (concat vs) = []" "view_flagged n (concat vs) = []"
proof -
  have "view_code v = [] \<and> view_ids v = [] \<and> view_flagged n v = []" if "v \<in> set vs" for v
    by (rule those_rows [OF assms _ that, of "\<lambda>v. view_code v = [] \<and> view_ids v = [] \<and> view_flagged n v = []"])
      (rule remote_route_row_inert)
  then show "view_code (concat vs) = []" "view_ids (concat vs) = []" "view_flagged n (concat vs) = []"
    using view_concat_nothing [of vs n] by simp_all
qed

lemma vpn_debug_section_some:
  assumes "vpn_debug_section h vpn = Some v"
  shows "view_code v = []" "view_ids v = [''vpn-route-mappings'', ''vpn-routes'']" "view_flagged n v = []"
  using assms by (auto simp: vpn_debug_section_def remote_route_rows_inert split: option.splits)

lemma vpn_content_code:
  assumes "vpn_content pj qr js s = Some v"
  shows "view_code v =
     (case render_hash_qr_svg qr (vpn_add_peer_url (vps_local_hash s) (vps_codename s)) of None \<Rightarrow> [] | Some svg \<Rightarrow> [svg]) @ [js]"
  using assms by (auto simp: vpn_content_def Let_def vpn_debug_section_some(1) split: option.splits)

lemma vpn_page_reads:
  "view_code (vpn_page_of err f r) = (case r of Some (Inr s) \<Rightarrow> view_code (f s) | _ \<Rightarrow> [])"
  "view_ids (vpn_page_of err f r) = (case r of Some (Inr s) \<Rightarrow> view_ids (f s) | _ \<Rightarrow> [])"
  "view_flagged n (vpn_page_of err f r) = (case r of Some (Inr s) \<Rightarrow> view_flagged n (f s) | _ \<Rightarrow> [])"
  by (simp_all add: vpn_page_of_def page_title_def split: option.split sum.split)

lemma vpn_page_some:
  "vpn_page err pj qr js r =
     (case r of
        Some (Inr s) \<Rightarrow> (case vpn_content pj qr js s of None \<Rightarrow> None | Some v \<Rightarrow> Some (vpn_page_of err (\<lambda>_. v) r))
      | _ \<Rightarrow> Some (vpn_page_of err (\<lambda>_. []) r))"
  by (simp add: vpn_page_def split: option.split sum.split)

lemma navbar_reads:
  "view_code (navbar link topbar) = concat (map (\<lambda>l. view_code (nav_link link l)) nav_links)"
  "view_ids (navbar link topbar) = concat (map (\<lambda>l. view_ids (nav_link link l)) nav_links)"
  by (simp_all add: navbar_def split: option.split sum.split)

lemma shell_reads:
  "view_code [shell metas redirect app] = view_code (metas ''Kaonic Gateway'') @ view_code app @ [redirect]"
  "view_ids [shell metas redirect app] = view_ids (metas ''Kaonic Gateway'') @ view_ids app"
  by (simp_all add: shell_def)

lemma app_view_reads:
  "view_code (app_view link matches render topbar path) =
     concat (map (\<lambda>l. view_code (nav_link link l)) nav_links)
     @ (case routed matches path of None \<Rightarrow> [] | Some page \<Rightarrow> view_code (render page))"
  "view_ids (app_view link matches render topbar path) =
     concat (map (\<lambda>l. view_ids (nav_link link l)) nav_links)
     @ (case routed matches path of None \<Rightarrow> [] | Some page \<Rightarrow> view_ids (render page))"
  by (simp_all add: app_view_def navbar_reads split: option.split)


section \<open>Identifiers\<close>

text \<open>The identifiers of the rows of a list are made of a prefix and the position.\<close>

definition row_ids :: "string \<Rightarrow> string \<Rightarrow> nat list \<Rightarrow> string list" where
  "row_ids a b is = concat (map (\<lambda>i. [a @ dec_str i, b @ dec_str i]) is)"

lemma set_row_ids: "set (row_ids a b is) = (\<lambda>i. a @ dec_str i) ` set is \<union> (\<lambda>i. b @ dec_str i) ` set is"
  by (induction "is") (auto simp: row_ids_def)

lemma distinct_row_ids:
  "(\<And>i j. a @ dec_str i \<noteq> b @ dec_str j) \<Longrightarrow> distinct is \<Longrightarrow> distinct (row_ids a b is)"
proof (induction "is")
  case (Cons i "is")
  from Cons.prems(1) [symmetric] Cons.prems(1)
  have "a @ dec_str i \<notin> set (row_ids a b is)" "b @ dec_str i \<notin> set (row_ids a b is)"
    using Cons.prems(2) by (auto simp: set_row_ids)
  moreover have "row_ids a b (i # is) = [a @ dec_str i, b @ dec_str i] @ row_ids a b is" by (simp add: row_ids_def)
  ultimately show ?case using Cons Cons.prems(1) [of i i] by simp
qed (simp add: row_ids_def)

lemma row_ids_rows:
  "row_ids a b [n..<n + length xs] = concat (map (\<lambda>r. [a @ dec_str (fst r), b @ dec_str (fst r)]) (enumerate n xs))"
proof (induction xs arbitrary: n)
  case (Cons x xs)
  have "[n..<n + length (x # xs)] = n # [Suc n..<Suc n + length xs]" by (subst upt_conv_Cons) simp_all
  with Cons.IH [of "Suc n"] show ?case by (simp add: row_ids_def del: upt_Suc)
qed (simp add: row_ids_def)

lemma ids_page_title [simp]: "view_ids (page_title a b) = []"
  by (simp add: page_title_def)

lemma ids_services:
  "view_ids (services_card ss) = ''services-count'' # row_ids ''service-status-'' ''service-badge-'' [0..<length ss]"
  using row_ids_rows [of "''service-status-''" "''service-badge-''" 0 ss]
  by (simp add: services_card_def Let_def split_beta)

lemma distinct_services: "distinct (view_ids (services_card ss))"
  using distinct_row_ids [of "''service-status-''" "''service-badge-''" "[0..<length ss]"]
  by (auto simp: ids_services set_row_ids)

lemma service_ids: "x \<in> set (view_ids (services_card ss)) \<Longrightarrow> take 9 x \<in> {''services-'', ''service-s'', ''service-b''}"
  by (auto simp: ids_services set_row_ids)

lemma ids_dashboard_cards [simp]:
  "view_ids (system_card s) = [''cpu-bar'', ''cpu-pct'', ''ram-bar'', ''ram-val'', ''fs-bar'', ''fs-val'', ''os-val'']"
  "view_ids (dash_vpn_card a b v) = [''dash-vpn-status'', ''dash-vpn-tunnel'', ''dash-vpn-peers'', ''dash-vpn-tx'', ''dash-vpn-rx'']"
  "view_ids (network_ports_card ports) = [''network-ports-count'', ''network-ports'']"
  "view_ids (radio_module_card R i m) = []"
  by (simp_all add: system_card_def dash_vpn_card_def network_ports_card_def radio_module_card_def Let_def split_beta)

lemma distinct_between:
  "distinct ys \<Longrightarrow> distinct (xs @ zs) \<Longrightarrow> (\<And>y. y \<in> set ys \<Longrightarrow> P y) \<Longrightarrow> list_all (\<lambda>x. \<not> P x) (xs @ zs)
     \<Longrightarrow> distinct (xs @ ys @ zs)"
  by (auto simp: list_all_iff)

lemma ids_status_view: "distinct (view_ids (status_view R st))"
proof -
  have "view_ids (status_view R st) =
      view_ids (system_card (gst_system st)) @ view_ids (services_card (gst_services st)) @
      ([''network-ports-count'', ''network-ports'', ''dash-vpn-status'', ''dash-vpn-tunnel'', ''dash-vpn-peers'',
        ''dash-vpn-tx'', ''dash-vpn-rx'', ''service-restart-modal'', ''service-restart-unit'', ''service-restart-status'',
        ''service-restart-confirm''])"
    by (simp add: status_view_def split_beta)
  moreover have "distinct \<dots>"
    by (rule distinct_between [OF distinct_services _ service_ids])
      (assumption | simp add: numeral_eq_Suc)+
  ultimately show ?thesis by simp
qed

lemma ids_badge_list [simp]: "view_ids (render_badge_list vs f) = []"
  by (simp add: render_badge_list_def)

lemma ids_reticulum [simp]:
  "view_ids (reticulum_links_card a b c ls) = [b]"
  "view_ids (local_destinations_card ds) = [''reticulum-local-destinations'']"
  "view_ids (open_destinations_card os) = [''reticulum-open-destinations'']"
  by (simp_all add: reticulum_links_card_def local_destinations_card_def open_destinations_card_def)

lemma ids_reticulum_content: "distinct (view_ids (reticulum_content sn))"
  by (simp add: reticulum_content_def Let_def)

lemma ids_system_sections [simp]: "view_ids (system_sections about) = [''system-codename-open'']"
  by (simp add: system_sections_def system_about_section_def)

lemma ids_network_content:
  "distinct (view_ids (network_content js sn))" "''network-refresh-btn'' \<notin> set (view_ids (network_content js sn))"
  by (simp_all add: network_content_def Let_def)

lemma ids_plugins [simp]:
  "view_ids plugins_list = [''plugins-count'', ''plugins-list'']" "view_ids plugins_detail = [''plugins-detail'']"
  by (simp_all add: plugins_list_def plugins_detail_def)

lemma ids_plugins_page: "distinct (view_ids (plugins_page js))"
  by (simp add: plugins_page_def)

lemma ids_radio_panels: "distinct (view_ids (radio_panel R C f 0 m) @ view_ids (radio_panel R C f (Suc 0) m'))"
  by (simp add: radio_panel_def radio_module_form_def ofdm_fields_def qpsk_fields_def Let_def)

lemma ids_vpn_cards [simp]:
  "view_ids (vpn_access_card pj b ps) =
     [''vpn-access-card'', ''vpn-access-mode-badge'', ''vpn-allow-all-toggle'', ''vpn-allowlist-input'', ''vpn-allowlist-add'',
      ''vpn-access-status'', ''vpn-allowlist-table''] @ (if ps = [] then [''vpn-allowlist-empty-row''] else [])"
  "view_ids vpn_shortcut_modal =
     [''vpn-shortcut-modal'', ''vpn-shortcut-peer'', ''vpn-shortcut-codename-row'', ''vpn-shortcut-codename'',
      ''vpn-shortcut-confirm'']"
  "view_ids (vpn_laptop_setup_card ns) = [''vpn-setup-commands'']"
  "view_ids (vpn_route_editor_modal rs) =
     [''vpn-routes-modal'', ''vpn-routes-form'', ''vpn-routes-editor-input'', ''vpn-route-editor-status'', ''vpn-routes-save'']"
  by (simp_all add: vpn_access_card_def vpn_shortcut_modal_def vpn_laptop_setup_card_def vpn_route_editor_modal_def Let_def
      split: option.split)

lemma ids_vpn_this_device [simp]:
  "view_ids (vpn_this_device_card qr h c ex i d) =
     [''vpn-backend'', ''vpn-interface'', ''vpn-identity-short'', ''vpn-local-routes-list'']"
  by (simp add: vpn_this_device_card_def split_beta split: option.split)

lemma ids_vpn_peers [simp]: "view_ids (vpn_peers_card us) = [''vpn-peers-badge'', ''vpn-peers'']"
  by (auto simp: vpn_peers_card_def)

lemma ids_vpn_content: "vpn_content pj qr js s = Some v \<Longrightarrow> distinct (view_ids v)"
  by (auto simp: vpn_content_def Let_def vpn_debug_section_some(2) split: option.splits)

lemma ids_radio_split: "radio_split_view R C f st = Some v \<Longrightarrow> distinct (view_ids v)"
  using ids_radio_panels [of R C f] by (auto simp: radio_split_view_def split: list.splits)

lemma radio_page_some:
  "radio_page err js R C f r =
     (case r of
        Some (Inr s) \<Rightarrow> (case radio_split_view R C f s of None \<Rightarrow> None | Some v \<Rightarrow> Some (radio_page_of err js (\<lambda>_. v) r))
      | _ \<Rightarrow> Some (radio_page_of err js (\<lambda>_. []) r))"
  by (simp add: radio_page_def split: option.split sum.split)

lemma ids_radio_page_of:
  "view_ids (radio_page_of err js f r) = (case r of Some (Inr s) \<Rightarrow> view_ids (f s) | _ \<Rightarrow> [])"
  by (simp add: radio_page_of_def split: option.split sum.split)


section \<open>The peers of the VPN page\<close>

lemma truncate_hash_graphic:
  assumes "\<forall>c\<in>set h. is_ascii_graphic c"
  shows "truncate_hash h \<noteq> None"
proof -
  have "split_whitespace h = (if h = [] then [] else [h])"
    using split_ws_from_word [OF assms, of "[]" "[]"] by (simp add: split_whitespace_def split_ws_from_Nil)
  moreover have "\<not> is_continuation (h ! 16)" if "16 < length h"
    using bspec [OF assms nth_mem [OF that]] by (simp add: is_ascii_graphic_def is_continuation_def)
  ultimately show ?thesis by (simp add: truncate_hash_def)
qed

lemma those_some: "(\<And>r. r \<in> set rs \<Longrightarrow> f r \<noteq> None) \<Longrightarrow> \<exists>vs. those (map f rs) = Some vs"
  by (induction rs) (force split: option.split)+

lemma vpn_debug_section_shown:
  assumes "\<And>r. r \<in> set (vs_remote_routes vpn) \<Longrightarrow> \<forall>c\<in>set (vr_owner r). is_ascii_graphic c"
  shows "\<exists>v. vpn_debug_section h vpn = Some v"
proof -
  have "remote_route_row r \<noteq> None" if "r \<in> set (vs_remote_routes vpn)" for r
    using truncate_hash_graphic [OF assms [OF that]] by (auto simp: remote_route_row_def)
  then show ?thesis using those_some [of "vs_remote_routes vpn" remote_route_row] by (auto simp: vpn_debug_section_def)
qed

text \<open>The buttons that act on one peer: the key and the address that the script sends, and whether it is usable.\<close>

definition peer_button :: "attr list \<Rightarrow> string option \<times> string option \<times> bool" where
  "peer_button as = (attr_text ''data-peer-key'' as, attr_text ''data-peer-ip'' as, \<not> has_flag ''disabled'' as)"

lemma vpn_peers_buttons:
  assumes "n = ''data-vpn-ping'' \<or> n = ''data-vpn-speed-test''"
  shows "map peer_button (view_flagged n (vpn_peers_card us)) =
     map (\<lambda>p. (Some (vp_destination p), Some (unwrap_or_empty (vp_tunnel_ip p)), vp_tunnel_ip p \<noteq> None)) us"
  using assms by (auto simp: vpn_peers_card_def peer_button_def map_concat comp_def cong: if_cong)

lemma flagged_vpn_cards:
  assumes "n = ''data-vpn-ping'' \<or> n = ''data-vpn-speed-test''"
  shows "view_flagged n (vpn_access_card pj b ps) = []" "view_flagged n vpn_shortcut_modal = []"
    "view_flagged n (vpn_laptop_setup_card ns) = []" "view_flagged n (vpn_route_editor_modal rs) = []"
    "view_flagged n (vpn_this_device_card qr h c ex i d) = []"
  using assms
  by (auto simp: vpn_access_card_def vpn_shortcut_modal_def vpn_laptop_setup_card_def vpn_route_editor_modal_def
      vpn_this_device_card_def Let_def split_beta split: option.split)

lemma vpn_content_buttons:
  assumes "vpn_content pj qr js s = Some v" and n: "n = ''data-vpn-ping'' \<or> n = ''data-vpn-speed-test''"
  shows "view_flagged n v = view_flagged n (vpn_peers_card (vs_peers (vps_vpn s)))"
  using assms(1) n
  by (auto simp: vpn_content_def Let_def vpn_debug_section_some(3) flagged_vpn_cards split: option.splits)

lemma loaded_vpn_page:
  assumes "fst (load_vpn_snapshot G random rd (Some s)) = Inr snap" "ap_vpn (lv_app s) = Some rt"
  shows "vps_vpn snap = fst (snapshot_of (ge_vpn G) (sr_now rd) (sr_mnow rd) (sr_pnow rd) rt)"
  using assms
  by (auto simp: load_vpn_snapshot_def with_context_def and_do_def on_app_def page_settings_def lock_settings_def
      on_settings_def live_vpn_snapshot_def build_vpn_snapshot_def split_beta split: sum.splits prod.splits if_splits)

lemma snapshot_owners:
  assumes "r \<in> set (vs_remote_routes (fst (snapshot_of E now mnow pnow rt)))"
  shows "\<exists>p\<in>set (remote_peers rt). vr_owner r = h_hex (e_hash E) (p_hash p)"
  using imageI [OF assms, of "\<lambda>r. (vr_network r, vr_owner r)"] by (auto simp: snapshot_routes)

text \<open>
  C40. The VPN page that is loaded from a running VPN is shown and has, for every registered peer but this
  device, exactly one usable Ping button and one usable Test-speed button, with the destination hash and the tunnel
  address of that peer, and no other such buttons. Hashes are displayed in printable ASCII without spaces.
\<close>

theorem vpn_page_peer_buttons:
  assumes loaded: "fst (load_vpn_snapshot G random rd (Some s)) = Inr snap" and vpn: "ap_vpn (lv_app s) = Some rt"
    and hex: "\<forall>p\<in>set (remote_peers rt). \<forall>c\<in>set (h_hex (e_hash (ge_vpn G)) (p_hash p)). is_ascii_graphic c"
    and action: "n = ''data-vpn-ping'' \<or> n = ''data-vpn-speed-test''"
  shows "\<exists>v. vpn_page err pj qr js (Some (Inr snap)) = Some v
    \<and> mset (map peer_button (view_flagged n v)) =
        mset (map (\<lambda>p. (Some (h_hex (e_hash (ge_vpn G)) (p_hash p)), Some (ipv4_to_string (p_tunnel_ip p)), True))
          (remote_peers rt))"
proof -
  let ?E = "ge_vpn G"
  note vs = loaded_vpn_page [OF loaded vpn]
  have "\<forall>c\<in>set (vr_owner r). is_ascii_graphic c" if "r \<in> set (vs_remote_routes (vps_vpn snap))" for r
    using snapshot_owners [OF that [unfolded vs]] hex by auto
  then obtain d where "vpn_debug_section (vps_local_hash snap) (vps_vpn snap) = Some d"
    using vpn_debug_section_shown [of "vps_vpn snap"] by blast
  then obtain v where v: "vpn_content pj qr js snap = Some v" by (simp add: vpn_content_def Let_def)
  let ?row = "\<lambda>p. (Some (vp_destination p), Some (unwrap_or_empty (vp_tunnel_ip p)), vp_tunnel_ip p \<noteq> None)"
  have "mset (map peer_button (view_flagged n v)) = image_mset ?row (mset (vs_peers (vps_vpn snap)))"
    by (simp add: vpn_content_buttons [OF v action] vpn_peers_buttons [OF action])
  also have "\<dots> = mset (map (\<lambda>p. (Some (h_hex (e_hash ?E) (p_hash p)), Some (ipv4_to_string (p_tunnel_ip p)), True))
      (remote_peers rt))"
    by (simp add: vs snapshot_fields image_mset.compositionality comp_def peer_snapshot_def unwrap_or_empty_def)
  finally show ?thesis by (simp add: vpn_page_some v vpn_page_reads)
qed

text \<open>On a database without failures that holds the plain configuration, the page of the example gateway is loaded.\<close>

lemma plain_page_loads:
  "\<exists>d. \<forall>s random rd. \<exists>snap. fst (load_vpn_snapshot gw_env random rd (Some (s\<lparr>lv_app := gw_start\<lparr>ap_settings := d\<rparr>\<rparr>))) = Inr snap"
proof -
  have form: "json_faithful plain_env plain_config" "well_sized plain_config"
    by (simp_all add: plain_env_faithful well_sized_def plain_config_def)
  obtain d1 where d1: "save_config plain_env plain_config empty_database = (Inr (), d1)"
    using faultless_save_config [of plain_env plain_config, unfolded faultless_def, rule_format, of empty_database]
    by (auto simp: empty_database_def)
  let ?d = "d1\<lparr>db_faults := []\<rparr>"
  have load: "load_config plain_env ?d = (Inr (plain_config\<lparr>gc_peers := btree_set (gc_peers plain_config)\<rparr>), ?d)"
    using settings_roundtrip [OF d1 form] load_config_same [of ?d plain_env] by (simp add: prod_eq_iff)
  have "ge_settings gw_env = plain_env" by (simp add: gw_env_def)
  moreover have "\<exists>snap. fst (load_vpn_snapshot gw_env random rd (Some (s\<lparr>lv_app := gw_start\<lparr>ap_settings := ?d\<rparr>\<rparr>))) = Inr snap"
    if "ge_settings gw_env = plain_env"
    for s :: "(string, cidr4, string, unit, kernel_state) live_state" and random rd
  proof -
    obtain x d' where x: "load_or_create_codename random ?d = (Inr x, d')"
      using load_or_create_total [of ?d CODENAME_KEY "generate_codename random"] by (auto simp: load_or_create_codename_def)
    with that load show ?thesis
      by (simp add: load_vpn_snapshot_def with_context_def and_do_def on_app_def page_settings_def lock_settings_def
          on_settings_def gw_start_def split_beta)
  qed
  ultimately have "\<forall>s random rd. \<exists>snap. fst (load_vpn_snapshot gw_env random rd (Some (s\<lparr>lv_app := gw_start\<lparr>ap_settings := ?d\<rparr>\<rparr>))) = Inr snap"
    by simp
  then show ?thesis by blast
qed

theorem vpn_page_peer_buttons_witness:
  "\<forall>s random rd. \<exists>d snap v. fst (load_vpn_snapshot gw_env random rd (Some (s\<lparr>lv_app := gw_start\<lparr>ap_settings := d\<rparr>\<rparr>))) = Inr snap
    \<and> vpn_page id concat (\<lambda>_. None) [] (Some (Inr snap)) = Some v
    \<and> map peer_button (view_flagged ''data-vpn-ping'' v) = [(Some ''xA'', Some (ipv4_to_string (mk_ipv4 10 20 0 66)), True)]"
proof (intro allI)
  fix s :: "(string, cidr4, string, unit, kernel_state) live_state" and random rd
  obtain d where "\<forall>s random rd. \<exists>snap. fst (load_vpn_snapshot gw_env random rd (Some (s\<lparr>lv_app := gw_start\<lparr>ap_settings := d\<rparr>\<rparr>))) = Inr snap"
    using plain_page_loads by blast
  then obtain snap where snap: "fst (load_vpn_snapshot gw_env random rd (Some (s\<lparr>lv_app := gw_start\<lparr>ap_settings := d\<rparr>\<rparr>))) = Inr snap"
    by fast
  have peers: "remote_peers wit_rt = [peer_new ''A'' (mk_ipv4 10 20 0 66) Configured]"
    by (simp add: remote_peers_def peers_all_def peer_new_def)
  have hex: "h_hex (e_hash (ge_vpn gw_env)) h = CHR ''x'' # h" for h by (simp add: gw_env_def gw_hash_def)
  have graphic: "\<forall>p\<in>set (remote_peers wit_rt). \<forall>c\<in>set (h_hex (e_hash (ge_vpn gw_env)) (p_hash p)). is_ascii_graphic c"
    by (simp add: peers hex peer_new_def is_ascii_graphic_def)
  have vpn: "ap_vpn (lv_app (s\<lparr>lv_app := gw_start\<lparr>ap_settings := d\<rparr>\<rparr>)) = Some wit_rt" by (simp add: gw_start_def)
  obtain v where v: "vpn_page id concat (\<lambda>_. None) [] (Some (Inr snap)) = Some v"
    "mset (map peer_button (view_flagged ''data-vpn-ping'' v)) = {#(Some ''xA'', Some (ipv4_to_string (mk_ipv4 10 20 0 66)), True)#}"
    using vpn_page_peer_buttons [OF snap vpn graphic, of "''data-vpn-ping''" id concat "\<lambda>_. None" "[]"]
    by (auto simp: peers hex peer_new_def)
  from v(2) have "map peer_button (view_flagged ''data-vpn-ping'' v) = [(Some ''xA'', Some (ipv4_to_string (mk_ipv4 10 20 0 66)), True)]"
    by (simp only: mset_single_iff)
  with snap v(1) show "\<exists>d snap v. fst (load_vpn_snapshot gw_env random rd (Some (s\<lparr>lv_app := gw_start\<lparr>ap_settings := d\<rparr>\<rparr>))) = Inr snap
    \<and> vpn_page id concat (\<lambda>_. None) [] (Some (Inr snap)) = Some v
    \<and> map peer_button (view_flagged ''data-vpn-ping'' v) = [(Some ''xA'', Some (ipv4_to_string (mk_ipv4 10 20 0 66)), True)]"
    by (intro exI [of _ d] exI [of _ snap] exI [of _ v] conjI)
qed

end
