(* ===== verification/Spec2Isabelle.thy ===== *)
theory Spec2Isabelle
  imports Vpn_Live Atak_Boot Snapshot Radio_Iface Gw_Audio Gw_Live Views_Props
begin

text \<open>
  Kaonic connects devices over a Reticulum mesh on top of a packet radio. Four crates make up the program:
  \<open>kaonic-reticulum\<close> (the radio as a Reticulum interface), \<open>kaonic-vpn\<close> (an IPv4 VPN between mesh
  destinations), \<open>kaonic-atak-plugin\<close> (bridges between the multicast groups of ATAK and the mesh) and
  \<open>kaonic-gateway\<close> (the service with the web interface that runs the VPN). This development translates
  their code into definitions and proves what makes each part correct; this theory collects them.

  \<^bold>\<open>The parts and how they interact.\<close>
  The gateway starts (\<open>Gw_Boot\<close>) with the settings database (\<open>Gw_Settings\<close>), makes the certificates it serves
  HTTPS with (\<open>Gw_Tls\<close>), attaches the radio (\<open>Gw_Http\<close>, \<open>Radio_Iface\<close>) and starts the VPN runtime (\<open>Runtime\<close>). The runtime keeps a peer registry
  (\<open>Peer\<close>), a forwarding table (\<open>Router\<close>) and the kernel's routes and NAT rules (\<open>Platform\<close>); its background
  tasks (\<open>Vpn_Tasks\<close>) react to announces, link events, packets of the TUN device and timers, with the frames of
  \<open>Codec\<close> on the wire. Request handlers (\<open>Gw_Http\<close>, \<open>Gw_Audio\<close>, \<open>Gw_Web\<close>) change the settings and the running
  VPN, the sound system, the WiFi (\<open>Gw_Network\<close>) and the installer; the snapshots of \<open>Snapshot\<close>,
  \<open>Gw_Reticulum\<close>, \<open>Gw_System\<close> and \<open>Gw_Frames\<close> reach the user interface as status documents and WebSocket events
  (\<open>Gw_Status\<close>) and in the pages rendered on the server (\<open>Gw_Pages\<close>, \<open>Gw_Server\<close>, and their views in \<open>Views_Status\<close>,
  \<open>Views_Devices\<close>, \<open>Views_Vpn\<close>). The ATAK plugin is a process of its own: for each channel
  a bridge (\<open>Bridge\<close>) passes valid CoT events (\<open>Cot\<close>) between a multicast group (\<open>Iface\<close>) and the mesh,
  remembers locations and diagnostics (\<open>Diagnostics\<close>) and takes commands locally and over the mesh
  (\<open>Diag_Control\<close>); \<open>Atak\<close> composes them, and \<open>Atak_Boot\<close> starts them on the settings database of the gateway.

  \<^bold>\<open>Theories and code.\<close>
  \<^item> \<open>Prelude\<close>: types, result and state-error combinators, association lists; \<open>Rust_Str\<close>: the string functions
    of the standard library; \<open>Floats\<close>: correctly rounded binary floating point over the rationals; \<open>Ip\<close>:
    IPv4 addresses and the interface of the \<open>cidr\<close> crate, with an executable instance.
  \<^item> \<open>Codec\<close>, \<open>Metrics\<close>, \<open>Peer\<close>, \<open>Router\<close>, \<open>Platform\<close>: the files of the same names under
    \<open>kaonic-vpn/src/vpn\<close> (with \<open>links.rs\<close> and \<open>tun.rs\<close>); \<open>Routes\<close>, \<open>Runtime\<close>, \<open>Vpn_Tasks\<close>, \<open>Snapshot\<close>:
    \<open>runtime.rs\<close> and \<open>types.rs\<close>. \<open>Runtime_Inv\<close> and \<open>Vpn_Inv\<close> hold the invariant and its preservation by every
    step; \<open>Vpn_Props\<close> the properties, \<open>Vpn_Live\<close> the progress of link requests.
  \<^item> \<open>Radio_Iface\<close>: \<open>kaonic-reticulum/src/lib.rs\<close>.
  \<^item> \<open>Cot\<close>, \<open>Diagnostics\<close>, \<open>Iface\<close>, \<open>Config\<close>, \<open>Bridge\<close>, \<open>Diag_Control\<close>, \<open>Atak\<close>: \<open>cot.rs\<close>, \<open>diagnostics.rs\<close>,
    \<open>interface.rs\<close> with \<open>multicast.rs\<close>, and the parts of \<open>main.rs\<close> under \<open>kaonic-atak-plugin/src\<close>;
    \<open>Atak_Props\<close> the properties; \<open>Atak_Boot\<close>: the start, with the properties of its identity.
  \<^item> \<open>Gw_Sys\<close>, \<open>Gw_Reticulum\<close>, \<open>Gw_Settings\<close>, \<open>Gw_Network\<close>, \<open>Gw_System\<close>, \<open>Gw_Frames\<close>, \<open>Gw_Audio\<close>, \<open>Gw_Web\<close>, \<open>Gw_Http\<close>,
    \<open>Gw_Tls\<close>, \<open>Gw_Boot\<close>: the operating system as the gateway uses it, and \<open>gateway_reticulum.rs\<close>, \<open>settings/\<close> with
    \<open>config.rs\<close> and the conversions of \<open>app_types.rs\<close>, \<open>network.rs\<close>, \<open>system_metrics.rs\<close> with \<open>state.rs\<close>, the frame
    listener of \<open>main.rs\<close>, \<open>audio.rs\<close>, \<open>http/installer.rs\<close> with the redirection of \<open>http/mod.rs\<close>,
    \<open>http/handlers.rs\<close> with \<open>radio.rs\<close>, \<open>local_https.rs\<close>, and \<open>async_main\<close> under \<open>kaonic-gateway/src\<close>; \<open>Gw_Props\<close> the properties
    that span them.
  \<^item> \<open>Gw_Router\<close>: the routes of \<open>http/mod.rs\<close> and the shared state of \<open>state.rs\<close>; \<open>Gw_Live\<close>: the running gateway, in
    which requests, page loads, events and the tasks of the VPN act on that state, and what holds in all its states.
  \<^item> \<open>Gw_Status\<close>: the status, certificate and speed test handlers of \<open>http/handlers.rs\<close>, and \<open>http/ws.rs\<close>; \<open>Gw_Pages\<close>:
    the texts, classes and tables that \<open>pages/\<close> computes; \<open>Gw_Server\<close>: the server functions of \<open>pages/\<close> and of
    \<open>components/navbar.rs\<close>.
  \<^item> \<open>Html\<close>: the trees of elements that views are, and how their identifiers, markup and flags are read off.
    \<open>Views_Status\<close>: the views of \<open>app.rs\<close>, \<open>components/navbar.rs\<close>, \<open>pages/mod.rs\<close>, \<open>pages/dashboard.rs\<close>, \<open>pages/reticulum.rs\<close>
    and \<open>pages/update.rs\<close>; \<open>Views_Devices\<close>: those of \<open>pages/radio.rs\<close>, \<open>pages/media.rs\<close>, \<open>pages/network.rs\<close> and
    \<open>pages/plugins.rs\<close>; \<open>Views_Vpn\<close>: those of \<open>pages/vpn.rs\<close>. A component is a function of its properties with the
    name of the source, a resource that is waited for an argument. \<open>Views_Props\<close> holds their properties.

  \<^bold>\<open>State and operations.\<close>
  A struct is a record with the source's field names (prefixed where several structs share one), an enum a
  datatype, a method a function that takes the state and returns it updated. A fallible operation returns a sum
  (\<open>Inl\<close> the error), and \<open>and_do\<close> is the operator \<open>?\<close> on a state. A \<open>HashMap\<close> is an association list, a
  \<open>BTreeSet\<close> a sorted list, a \<open>HashSet\<close> a distinct list; an \<open>Arc<Peer>\<close> that is shared through the registry is
  updated in the registry under its hash. Every iteration of a background task is one step of \<open>vpn_step\<close> or
  \<open>atak_step\<close>, since the code holds its locks for the whole operation; where it awaits the transport in
  between (\<open>request_out_link\<close>) the operation is two steps with a pending entry. Reachable states are the
  inductive closure over a start and any interleaving of steps. Clock readings and random bytes are
  arguments; \<open>u64\<close> is \<open>nat\<close> with \<open>wrap64\<close> or \<open>sat64\<close> written where the code wraps or saturates,
  addresses and hash seeds are words.

  \<^bold>\<open>What other code supplies.\<close>
  Third-party code is a parameter: networks (\<open>cidr_ops\<close>, with the laws of the locale \<open>cidr_crate\<close>), address
  hashes (\<open>hash_ops\<close>), the Reticulum transport (\<open>transport_ops\<close>, \<open>mesh_ops\<close>), MessagePack (\<open>msgpack\<close>), JSON
  (\<open>settings_env\<close>), XML (\<open>xml_ops\<close>), packet parsing, sockets (\<open>sock_ops\<close>, \<open>control_ops\<close>), processes (\<open>os\<close>), files
  and environment (\<open>sys_ops\<close>), C library calls (\<open>host_ops\<close>), the radio client and its coder (\<open>radio_client\<close>,
  \<open>radio_ops\<close>), keys, certificates and their encodings (\<open>tls_crypto\<close>), HTTP clients (\<open>http_client\<close>, \<open>https_ops\<close>), WebSockets
  and the QR encoder. Hypotheses about them state their documentation and are named; every
  property that has one is applied to a concrete instance in its witness. SQL statements are written out on two
  tables, with a schedule that says which of them fail.

  \<^bold>\<open>What the lemmas show.\<close>
  \<^item> VPN: the runtime invariant in all reachable states (registry keyed by hash, derived tunnel addresses, policy,
    forwarding table built from the registry), and with it that packets reach only registered, allowed peers,
    that table look-up is a longest-prefix match that does not depend on the order of peers, what
    announces, policy changes, expiry, link requests and synchronisation with the kernel do, and the round
    trips of the wire format. A peer marked as being requested has a pending request, whose answer clears the mark.
  \<^item> Radio interface: receiving ends and loses the order of no packet, transmitting stops at the first refused frame.
  \<^item> ATAK: bounded tables, which payloads are forwarded and to whom, duplicate suppression, record lines that
    cannot be forged, the fail-closed configuration, an identity that lasts and leaves the gateway's settings alone.
  \<^item> Gateway: settings and identity survive restarts and failures, changes of the VPN's access are stored
    and applied alike, the views of the mesh and of the radio frames are functions of the history, the installer's
    binary is exchanged atomically, muting remembers the volume. In every state that the running gateway reaches its
    parts are in states that they reach on their own, so that the properties of the parts hold there, and a GET
    request changes nothing that is stored.
  \<^item> Certificates: a stored root key stays and is private, and what is written for a plugin is signed by it.
  \<^item> User interface: a WebSocket client that stays connected holds the current state, the settings page shows what
    it saved, the table of destinations is exactly that of the links. Nothing that a page shows becomes markup or a
    program in the browser, its elements have distinct identifiers, and the VPN page has usable buttons for every peer.
  The locales state the interfaces between the parts: \<open>cidr_crate\<close> (networks), \<open>wire_format\<close> and \<open>vpn_codec\<close>
  (encoders over them), \<open>registry\<close> and \<open>shared_registry\<close> (peers and links), \<open>kernel\<close> (routes and rules),
  \<open>bounded_queue\<close> (records and seen commands), \<open>link_tracker\<close> (the link a bridge sends on) and \<open>text_store\<close> (the
  tables of the database). Each is interpreted on the definitions that provide it.

  \<^bold>\<open>Bounds and fuel.\<close>
  No recursion needs fuel but the processing of received packets (\<open>rx_process\<close>), a partial function, whose end is
  proved for every coder that holds finitely many packets. The printing of floating point numbers looks for
  the shortest of at most 18 significant digits, one more than any double needs.

  \<^bold>\<open>Not modelled.\<close>
  Logging; the scripts that the pages give to the browser (JavaScript texts in \<open>pages/\<close>, about half of their lines, for which
  every view takes an argument) and the writing of a view as HTML by \<open>leptos\<close>;
  the listeners of the HTTP server and the matching of requests with its routes; the mocks that stand in for Linux on other systems; the panics of poisoned locks. Timers and cancellation appear as
  the choice of the next step, so nothing is proved about when a task runs.
\<close>

end
